(* ===== verification/Prelude.thy ===== *)
theory Prelude
  imports Main "HOL-Library.Word" "HOL-Library.Char_ord" "HOL-Library.List_Lexorder"
    "HOL-Library.Product_Lexorder"
begin

text \<open>
  The prelude of the library: Go's \<open>int64\<close> arithmetic, the fragment of the Go string
  library the program calls (on ASCII bytes), the error values of
  \<open>internal/platform/errors\<close>, results and state-passing operations with transactions,
  and the contract of a status machine.
\<close>

named_theorems i64_simps "facts about the int64 range and its wrap-around"
named_theorems op_simps "evaluation of state-passing operations"
named_theorems inv_intros "preservation of an invariant by an operation"

subsection \<open>Go int64\<close>

text \<open>
  An \<open>int64\<close> value is an \<open>int\<close> inside the range of \<open>in_i64\<close>; the result of every
  Go operation that may leave the range is passed through \<open>wrap64\<close>, which is the value a
  64-bit two's complement register holds (\<open>wrap64_word\<close>). Division truncates towards zero.
\<close>

type_synonym i64 = int

definition max_i64 :: int where
  "max_i64 = 9223372036854775807"

definition min_i64 :: int where
  "min_i64 = -9223372036854775808"

definition in_i64 :: "int \<Rightarrow> bool" where
  "in_i64 x \<longleftrightarrow> min_i64 \<le> x \<and> x \<le> max_i64"

definition wrap64 :: "int \<Rightarrow> i64" where
  "wrap64 x = (x + 9223372036854775808) mod 18446744073709551616 - 9223372036854775808"

definition go_div :: "int \<Rightarrow> int \<Rightarrow> int" where
  "go_div a b = sgn a * sgn b * (\<bar>a\<bar> div \<bar>b\<bar>)"

lemma wrap64_word: "wrap64 x = sint (word_of_int x :: 64 word)"
proof -
  have "signed_take_bit 63 x = take_bit (Suc 63) (x + 2 ^ 63) - (2 ^ 63 :: int)"
    by (simp add: signed_take_bit_eq_take_bit_shift)
  then show ?thesis
    by (simp add: wrap64_def sint_sbintrunc' take_bit_eq_mod)
qed

lemma in_i64_wrap64 [simp, intro]: "in_i64 (wrap64 x)"
proof -
  have "0 \<le> (x + 9223372036854775808) mod 18446744073709551616"
    and "(x + 9223372036854775808) mod 18446744073709551616 < 18446744073709551616"
    by simp_all
  then show ?thesis
    unfolding in_i64_def wrap64_def min_i64_def max_i64_def by linarith
qed

lemma wrap64_id [simp]: "in_i64 x \<Longrightarrow> wrap64 x = x"
  by (simp add: in_i64_def wrap64_def min_i64_def max_i64_def)

lemma wrap64_fix_iff: "wrap64 x = x \<longleftrightarrow> in_i64 x"
  by (metis in_i64_wrap64 wrap64_id)

lemma in_i64_zero [simp]: "in_i64 0"
  by (simp add: in_i64_def min_i64_def max_i64_def)

lemma in_i64_downward: "in_i64 b \<Longrightarrow> 0 \<le> a \<Longrightarrow> a \<le> b \<Longrightarrow> in_i64 a"
  by (simp add: in_i64_def min_i64_def)

lemma go_div_nonneg: "0 \<le> a \<Longrightarrow> 0 < b \<Longrightarrow> go_div a b = a div b"
  by (cases "a = 0") (simp_all add: go_div_def sgn_if)

lemmas i64_bounds = in_i64_def min_i64_def max_i64_def
declare in_i64_wrap64 [i64_simps] wrap64_id [i64_simps] go_div_nonneg [i64_simps]

subsection \<open>Instants and durations\<close>

text \<open>
  A \<open>time.Time\<close> is the number of nanoseconds since the Unix epoch, in UTC (the code calls
  \<open>UTC()\<close> on every instant before it compares or stores it); a \<open>time.Duration\<close> is a
  number of nanoseconds. \<open>time_zero\<close> is Go's zero \<open>time.Time\<close> (1 January of year 1).
\<close>

type_synonym time = int

definition time_zero :: time where
  "time_zero = -62135596800 * 1000000000"

definition seconds :: "int \<Rightarrow> int" where
  "seconds n = n * 1000000000"

subsection \<open>Strings\<close>

text \<open>
  A Go string is its list of bytes. The text routines are those of the \<open>strings\<close> and
  \<open>unicode\<close> packages on ASCII.
\<close>

definition is_space :: "char \<Rightarrow> bool" where
  "is_space c \<longleftrightarrow> (let n = of_char c :: nat in n = 32 \<or> (9 \<le> n \<and> n \<le> 13))"

definition is_digit :: "char \<Rightarrow> bool" where
  "is_digit c \<longleftrightarrow> (let n = of_char c :: nat in 48 \<le> n \<and> n \<le> 57)"

definition is_upper :: "char \<Rightarrow> bool" where
  "is_upper c \<longleftrightarrow> (let n = of_char c :: nat in 65 \<le> n \<and> n \<le> 90)"

definition is_lower :: "char \<Rightarrow> bool" where
  "is_lower c \<longleftrightarrow> (let n = of_char c :: nat in 97 \<le> n \<and> n \<le> 122)"

definition upper_char :: "char \<Rightarrow> char" where
  "upper_char c = (if is_lower c then char_of (of_char c - 32 :: nat) else c)"

definition lower_char :: "char \<Rightarrow> char" where
  "lower_char c = (if is_upper c then char_of (of_char c + 32 :: nat) else c)"

definition to_upper :: "string \<Rightarrow> string" where
  "to_upper s = map upper_char s"

definition to_lower :: "string \<Rightarrow> string" where
  "to_lower s = map lower_char s"

definition trim_with :: "('a \<Rightarrow> bool) \<Rightarrow> 'a list \<Rightarrow> 'a list" where
  "trim_with p s = rev (dropWhile p (rev (dropWhile p s)))"

definition trim_space :: "string \<Rightarrow> string" where
  "trim_space s = trim_with is_space s"

fun has_prefix :: "string \<Rightarrow> string \<Rightarrow> bool" where
  "has_prefix [] s = True"
| "has_prefix (p # ps) [] = False"
| "has_prefix (p # ps) (c # cs) = (p = c \<and> has_prefix ps cs)"

definition trim_prefix :: "string \<Rightarrow> string \<Rightarrow> string" where
  "trim_prefix p s = (if has_prefix p s then drop (length p) s else s)"

lemma has_prefix_iff: "has_prefix p s \<longleftrightarrow> (\<exists>t. s = p @ t)"
  by (induction p s rule: has_prefix.induct) auto

lemma has_prefix_append [simp]: "has_prefix p (p @ s)"
  by (auto simp: has_prefix_iff)

lemma trim_prefix_append [simp]: "trim_prefix p (p @ s) = s"
  by (simp add: trim_prefix_def)

lemma of_char_upper_char:
  "(of_char (upper_char c) :: nat) = (if is_lower c then of_char c - 32 else of_char c)"
proof (cases "is_lower c")
  case True
  then have "(of_char c :: nat) \<le> 122" by (simp add: is_lower_def Let_def)
  then have "(of_char c - 32 :: nat) mod 256 = of_char c - 32" by simp
  with True show ?thesis by (simp add: upper_char_def)
qed (simp add: upper_char_def)

lemma upper_char_idem [simp]: "upper_char (upper_char c) = upper_char c"
proof (cases "is_lower c")
  case True
  then have "\<not> is_lower (upper_char c)"
    using of_char_upper_char [of c] by (auto simp: is_lower_def Let_def)
  then show ?thesis by (simp add: upper_char_def [of "upper_char c"])
qed (simp add: upper_char_def)

lemma to_upper_idem [simp]: "to_upper (to_upper s) = to_upper s"
  by (simp add: to_upper_def)

lemma length_to_upper [simp]: "length (to_upper s) = length s"
  by (simp add: to_upper_def)

text \<open>Decimal printing of integers, as \<open>%d\<close> does.\<close>

definition digit_char :: "int \<Rightarrow> char" where
  "digit_char d = char_of (48 + d)"

function show_pos :: "int \<Rightarrow> string" where
  "show_pos n = (if n < 10 then [digit_char n] else show_pos (n div 10) @ [digit_char (n mod 10)])"
  by pat_completeness auto
termination
  by (relation "measure nat") auto

declare show_pos.simps [simp del]

definition show_int :: "int \<Rightarrow> string" where
  "show_int i = (if i < 0 then CHR ''-'' # show_pos (- i) else show_pos i)"

text \<open>Constants several domain packages declare with the same value.\<close>

abbreviation "SourceStorefront \<equiv> ''STOREFRONT''"
abbreviation "SourceQRISAPI \<equiv> ''QRIS_API''"
abbreviation "SourceMixed \<equiv> ''MIXED''"
abbreviation "SourceSystem \<equiv> ''SYSTEM''"
abbreviation "ModeSandbox \<equiv> ''SANDBOX''"
abbreviation "ModeLive \<equiv> ''LIVE''"
abbreviation "CurrencyIDR \<equiv> ''IDR''"

subsection \<open>Errors, results and operations\<close>

text \<open>
  \<open>AppError\<close> is the typed error of \<open>platform/errors/errors.go\<close> (kind, problem code, safe
  message, cause; request id and details are transport data and left out). \<open>PlainError\<close> is an
  error made by \<open>fmt.Errorf\<close>, \<open>WrapError m e\<close> one made with the verb \<open>%w\<close> around \<open>e\<close>, \<open>ErrNoRows\<close> is \<open>pgx.ErrNoRows\<close>, \<open>PgError\<close> an error raised
  by the database and \<open>ProviderError\<close> a payment provider's (with \<open>IsUnknownOutcome\<close>).
\<close>

datatype error_kind = KindValidation | KindNotFound | KindConflict | KindUnauthorized
  | KindForbidden | KindUnavailable | KindInternal | KindFailedPrecon | KindRateLimited

datatype go_error =
    AppError error_kind string string "go_error option"
  | PlainError string
  | ErrNoRows
  | PgError string
  | ProviderError bool string
  | WrapError string go_error

type_synonym 'a result = "go_error + 'a"

definition apperr_new :: "error_kind \<Rightarrow> string \<Rightarrow> string \<Rightarrow> go_error" where
  "apperr_new kind code message = AppError kind code message None"

definition apperr_wrap :: "error_kind \<Rightarrow> string \<Rightarrow> string \<Rightarrow> go_error \<Rightarrow> go_error" where
  "apperr_wrap kind code message cause = AppError kind code message (Some cause)"

definition apperr_validation :: "string \<Rightarrow> string \<Rightarrow> go_error" where
  "apperr_validation code message =
     apperr_new KindValidation (if code = [] then ''VALIDATION_FAILED'' else code) message"

definition apperr_not_found :: "string \<Rightarrow> string \<Rightarrow> go_error" where
  "apperr_not_found code message =
     apperr_new KindNotFound (if code = [] then ''RESOURCE_NOT_FOUND'' else code) message"

definition apperr_conflict :: "string \<Rightarrow> string \<Rightarrow> go_error" where
  "apperr_conflict code message =
     apperr_new KindConflict (if code = [] then ''CONFLICT'' else code) message"

definition apperr_unauthorized :: "string \<Rightarrow> string \<Rightarrow> go_error" where
  "apperr_unauthorized code message =
     apperr_new KindUnauthorized (if code = [] then ''AUTH_REQUIRED'' else code) message"

definition apperr_forbidden :: "string \<Rightarrow> string \<Rightarrow> go_error" where
  "apperr_forbidden code message =
     apperr_new KindForbidden (if code = [] then ''FORBIDDEN'' else code) message"

definition apperr_internal :: "string \<Rightarrow> string \<Rightarrow> go_error" where
  "apperr_internal code message =
     apperr_new KindInternal (if code = [] then ''INTERNAL_ERROR'' else code) message"

lemmas apperr_defs = apperr_new_def apperr_wrap_def apperr_validation_def apperr_not_found_def
  apperr_conflict_def apperr_unauthorized_def apperr_forbidden_def apperr_internal_def

text \<open>\<open>bindE\<close> sequences results, as \<open>if err != nil { return err }\<close> does.\<close>

definition bindE :: "'a result \<Rightarrow> ('a \<Rightarrow> 'b result) \<Rightarrow> 'b result" where
  "bindE r f = (case r of Inl e \<Rightarrow> Inl e | Inr a \<Rightarrow> f a)"

lemma bindE_simps [simp]: "bindE (Inl e) f = Inl e" "bindE (Inr a) f = f a"
  by (simp_all add: bindE_def)

lemma bindE_eq_Inr: "bindE r f = Inr b \<longleftrightarrow> (\<exists>a. r = Inr a \<and> f a = Inr b)"
  by (cases r) auto

text \<open>
  An operation on a state \<open>'s\<close> returns a result and the state it leaves, also when it fails
  (a failed handler keeps what it committed before).
\<close>

type_synonym ('s, 'a) op = "'s \<Rightarrow> 'a result \<times> 's"

definition ret :: "'a \<Rightarrow> ('s, 'a) op" where
  "ret a = (\<lambda>s. (Inr a, s))"

definition throw :: "go_error \<Rightarrow> ('s, 'a) op" where
  "throw e = (\<lambda>s. (Inl e, s))"

definition bindS :: "('s, 'a) op \<Rightarrow> ('a \<Rightarrow> ('s, 'b) op) \<Rightarrow> ('s, 'b) op" where
  "bindS m f = (\<lambda>s. case m s of (Inl e, s') \<Rightarrow> (Inl e, s') | (Inr a, s') \<Rightarrow> f a s')"

definition liftE :: "'a result \<Rightarrow> ('s, 'a) op" where
  "liftE r = (\<lambda>s. (r, s))"

definition gets :: "('s \<Rightarrow> 'a) \<Rightarrow> ('s, 'a) op" where
  "gets f = (\<lambda>s. (Inr (f s), s))"

definition try_op :: "('s, 'a) op \<Rightarrow> ('s, 'a result) op" where
  "try_op m = (\<lambda>s. case m s of (r, s') \<Rightarrow> (Inr r, s'))"

fun for_each :: "('a \<Rightarrow> ('s, unit) op) \<Rightarrow> 'a list \<Rightarrow> ('s, unit) op" where
  "for_each f [] = ret ()"
| "for_each f (x # xs) = bindS (f x) (\<lambda>_. for_each f xs)"

lemma ret_app [simp, op_simps]: "ret a s = (Inr a, s)"
  by (simp add: ret_def)

lemma throw_app [simp, op_simps]: "throw e s = (Inl e, s)"
  by (simp add: throw_def)

lemma liftE_app [simp, op_simps]: "liftE r s = (r, s)"
  by (simp add: liftE_def)

lemma gets_app [simp, op_simps]: "gets f s = (Inr (f s), s)"
  by (simp add: gets_def)

lemma bindS_eq_Inr:
  "bindS m f s = (Inr b, s') \<longleftrightarrow> (\<exists>a s1. m s = (Inr a, s1) \<and> f a s1 = (Inr b, s'))"
  by (auto simp: bindS_def split: prod.splits sum.splits)

lemma bindS_step [simp, op_simps]:
  "m s = (Inr a, s1) \<Longrightarrow> bindS m f s = f a s1"
  "m s = (Inl e, s1) \<Longrightarrow> bindS m f s = (Inl e, s1)"
  by (simp_all add: bindS_def)

lemma bindS_cases:
  assumes "bindS m f s = (r, s')"
  obtains (err) e where "m s = (Inl e, s')" "r = Inl e"
  | (ok) a s1 where "m s = (Inr a, s1)" "f a s1 = (r, s')"
  using assms by (cases "m s") (auto simp: bindS_def split: sum.splits)

text \<open>
  \<open>keeps P m\<close>: the operation leaves every state that satisfies \<open>P\<close> in one that does,
  whether it succeeds or fails.
\<close>

definition keeps :: "('s \<Rightarrow> bool) \<Rightarrow> ('s, 'a) op \<Rightarrow> bool" where
  "keeps P m \<longleftrightarrow> (\<forall>s r s'. P s \<longrightarrow> m s = (r, s') \<longrightarrow> P s')"

lemma keepsI: "(\<And>s r s'. P s \<Longrightarrow> m s = (r, s') \<Longrightarrow> P s') \<Longrightarrow> keeps P m"
  by (auto simp: keeps_def)

lemma keepsD: "keeps P m \<Longrightarrow> m s = (r, s') \<Longrightarrow> P s \<Longrightarrow> P s'"
  unfolding keeps_def by blast

lemma keeps_ret [inv_intros]: "keeps P (ret a)"
  by (simp add: keeps_def)

lemma keeps_throw [inv_intros]: "keeps P (throw e)"
  by (simp add: keeps_def)

lemma keeps_liftE [inv_intros]: "keeps P (liftE r)"
  by (simp add: keeps_def)

lemma keeps_gets [inv_intros]: "keeps P (gets f)"
  by (simp add: keeps_def)

lemma keeps_bindS [inv_intros]:
  assumes "keeps P m" and "\<And>a. keeps P (f a)"
  shows "keeps P (bindS m f)"
proof (rule keepsI)
  fix s r s' assume "P s" and "bindS m f s = (r, s')"
  from this(2) show "P s'"
    by (cases rule: bindS_cases) (use \<open>P s\<close> assms in \<open>auto dest: keepsD\<close>)
qed

lemma keeps_try_op [inv_intros]: "keeps P m \<Longrightarrow> keeps P (try_op m)"
  by (auto simp: keeps_def try_op_def split: prod.splits)

lemma keeps_if [inv_intros]: "keeps P a \<Longrightarrow> keeps P b \<Longrightarrow> keeps P (if c then a else b)"
  by simp

lemma keeps_for_each [inv_intros]: "(\<And>x. keeps P (f x)) \<Longrightarrow> keeps P (for_each f xs)"
  by (induction xs) (auto intro: inv_intros)

text \<open>A command of the state that reads it first: the reads of the code are pure functions.\<close>

definition with_state :: "('s \<Rightarrow> ('s, 'a) op) \<Rightarrow> ('s, 'a) op" where
  "with_state f = (\<lambda>s. f s s)"

lemma with_state_app [simp, op_simps]: "with_state f s = f s s"
  by (simp add: with_state_def)

lemma keeps_with_state [inv_intros]: "(\<And>s. keeps P (f s)) \<Longrightarrow> keeps P (with_state f)"
  by (auto simp: keeps_def with_state_def)

lemma keeps_case_option [inv_intros]:
  "keeps P a \<Longrightarrow> (\<And>x. keeps P (f x)) \<Longrightarrow> keeps P (case v of None \<Rightarrow> a | Some x \<Rightarrow> f x)"
  by (cases v) auto

lemma keeps_case_sum [inv_intros]:
  "(\<And>x. keeps P (f x)) \<Longrightarrow> (\<And>y. keeps P (g y)) \<Longrightarrow> keeps P (case v of Inl x \<Rightarrow> f x | Inr y \<Rightarrow> g y)"
  by (cases v) auto

subsection \<open>The contract of a status machine\<close>

text \<open>
  Every lifecycle of the program is a predicate "may \<open>from\<close> become \<open>to\<close>" that takes
  \<open>from = to\<close> as an idempotent replay, with statuses nothing leaves. A run is a list of
  statuses each allowed after the one before.
\<close>

fun status_run :: "('s \<Rightarrow> 's \<Rightarrow> bool) \<Rightarrow> 's \<Rightarrow> 's list \<Rightarrow> bool" where
  "status_run allowed s [] = True"
| "status_run allowed s (t # ts) = (allowed s t \<and> status_run allowed t ts)"

lemma status_run_closed:
  assumes "status_run allowed s ts" and "t \<in> set ts" and "P s"
    and "\<And>s t. P s \<Longrightarrow> allowed s t \<Longrightarrow> P t"
  shows "P t"
  using assms(1-3) by (induction ts arbitrary: s) (auto dest: assms(4))

locale status_machine =
  fixes allowed :: "'s \<Rightarrow> 's \<Rightarrow> bool"
    and final :: "'s \<Rightarrow> bool"
  assumes replay: "allowed s s"
    and final_stuck: "final s \<Longrightarrow> allowed s t \<Longrightarrow> t = s"
begin

lemma run_from_final: "final s \<Longrightarrow> status_run allowed s ts \<Longrightarrow> t \<in> set ts \<Longrightarrow> t = s"
proof (induction ts arbitrary: s)
  case (Cons u us)
  then have "u = s" using final_stuck by simp
  with Cons show ?case by auto
qed simp

lemma run_after_final:
  assumes "status_run allowed s (us @ f # ts)" and "final f" and "t \<in> set ts"
  shows "t = f"
proof -
  have "status_run allowed f ts"
    using assms(1) by (induction us arbitrary: s) auto
  from run_from_final [OF assms(2) this assms(3)] show ?thesis .
qed

lemma replay_run: "status_run allowed s (replicate n s)"
  by (induction n) (auto simp: replay)

end

end
