(* ===== verification/Digest.thy ===== *)
theory Digest
  imports Prelude
begin

text \<open>
  SHA-256 (FIPS 180-4) and lower-case hexadecimal encoding: what the code uses of
  \<open>crypto/sha256\<close> and \<open>encoding/hex\<close>. A message is a string of bytes; words are kept as
  integers from 0 to \<open>2 ^ 32 - 1\<close>.
\<close>

unbundle bit_operations_syntax

abbreviation two32 :: int where
  "two32 \<equiv> 4294967296"

definition sha_k :: "int list" where
  "sha_k =
    [1116352408, 1899447441, 3049323471, 3921009573, 961987163, 1508970993, 2453635748, 2870763221,
     3624381080, 310598401, 607225278, 1426881987, 1925078388, 2162078206, 2614888103, 3248222580,
     3835390401, 4022224774, 264347078, 604807628, 770255983, 1249150122, 1555081692, 1996064986,
     2554220882, 2821834349, 2952996808, 3210313671, 3336571891, 3584528711, 113926993, 338241895,
     666307205, 773529912, 1294757372, 1396182291, 1695183700, 1986661051, 2177026350, 2456956037,
     2730485921, 2820302411, 3259730800, 3345764771, 3516065817, 3600352804, 4094571909, 275423344,
     430227734, 506948616, 659060556, 883997877, 958139571, 1322822218, 1537002063, 1747873779,
     1955562222, 2024104815, 2227730452, 2361852424, 2428436474, 2756734187, 3204031479, 3329325298]"

definition sha_h0 :: "int list" where
  "sha_h0 = [1779033703, 3144134277, 1013904242, 2773480762, 1359893119, 2600822924, 528734635, 1541459225]"

definition rotr32 :: "nat \<Rightarrow> int \<Rightarrow> int" where
  "rotr32 n x = x div 2 ^ n + (x mod 2 ^ n) * 2 ^ (32 - n)"

definition add32 :: "int \<Rightarrow> int \<Rightarrow> int" where
  "add32 a b = (a + b) mod two32"

definition small_sigma0 :: "int \<Rightarrow> int" where
  "small_sigma0 x = (rotr32 7 x XOR rotr32 18 x) XOR (x div 2 ^ 3)"

definition small_sigma1 :: "int \<Rightarrow> int" where
  "small_sigma1 x = (rotr32 17 x XOR rotr32 19 x) XOR (x div 2 ^ 10)"

definition big_sigma0 :: "int \<Rightarrow> int" where
  "big_sigma0 x = (rotr32 2 x XOR rotr32 13 x) XOR rotr32 22 x"

definition big_sigma1 :: "int \<Rightarrow> int" where
  "big_sigma1 x = (rotr32 6 x XOR rotr32 11 x) XOR rotr32 25 x"

definition sha_ch :: "int \<Rightarrow> int \<Rightarrow> int \<Rightarrow> int" where
  "sha_ch e f g = (e AND f) XOR ((4294967295 - e) AND g)"

definition sha_maj :: "int \<Rightarrow> int \<Rightarrow> int \<Rightarrow> int" where
  "sha_maj a b c = ((a AND b) XOR (a AND c)) XOR (b AND c)"

text \<open>The message schedule: the words so far, newest first, extended \<open>n\<close> times.\<close>

fun sha_schedule :: "nat \<Rightarrow> int list \<Rightarrow> int list" where
  "sha_schedule 0 ws = rev ws"
| "sha_schedule (Suc n) ws =
     sha_schedule n
       (add32 (add32 (small_sigma1 (ws ! 1)) (ws ! 6)) (add32 (small_sigma0 (ws ! 14)) (ws ! 15)) # ws)"

fun sha_round :: "int list \<Rightarrow> int \<Rightarrow> int \<Rightarrow> int list" where
  "sha_round [a, b, c, d, e, f, g, h] k w =
     (let t1 = add32 (add32 (add32 h (big_sigma1 e)) (add32 (sha_ch e f g) k)) w;
          t2 = add32 (big_sigma0 a) (sha_maj a b c)
      in [add32 t1 t2, a, b, c, add32 d t1, e, f, g])"
| "sha_round hs k w = hs"

fun sha_rounds :: "int list \<Rightarrow> int list \<Rightarrow> int list \<Rightarrow> int list" where
  "sha_rounds hs (k # ks) (w # ws) = sha_rounds (sha_round hs k w) ks ws"
| "sha_rounds hs ks ws = hs"

fun be_words :: "int list \<Rightarrow> int list" where
  "be_words (a # b # c # d # rest) = (((a * 256 + b) * 256 + c) * 256 + d) # be_words rest"
| "be_words _ = []"

definition sha_block :: "int list \<Rightarrow> int list \<Rightarrow> int list" where
  "sha_block hs block = map2 add32 hs (sha_rounds hs sha_k (sha_schedule 48 (rev (be_words block))))"

definition be_bytes :: "nat \<Rightarrow> int \<Rightarrow> int list" where
  "be_bytes n x = map (\<lambda>i. (x div 256 ^ i) mod 256) (rev [0..<n])"

definition sha_pad :: "int list \<Rightarrow> int list" where
  "sha_pad m = m @ [128] @ replicate ((119 - length m mod 64) mod 64) 0 @ be_bytes 8 (8 * int (length m))"

fun sha_blocks :: "nat \<Rightarrow> int list \<Rightarrow> int list \<Rightarrow> int list" where
  "sha_blocks 0 hs m = hs"
| "sha_blocks (Suc n) hs m = sha_blocks n (sha_block hs (take 64 m)) (drop 64 m)"

definition sha256 :: "int list \<Rightarrow> int list" where
  "sha256 m = (let p = sha_pad m in concat (map (be_bytes 4) (sha_blocks (length p div 64) sha_h0 p)))"

definition hex_char :: "int \<Rightarrow> char" where
  "hex_char d = (if d < 10 then char_of (48 + d) else char_of (87 + d))"

definition hex_encode :: "int list \<Rightarrow> string" where
  "hex_encode bs = concat (map (\<lambda>b. [hex_char (b div 16), hex_char (b mod 16)]) bs)"

definition string_bytes :: "string \<Rightarrow> int list" where
  "string_bytes s = map of_char s"

text \<open>\<open>sha256_hex s\<close> is \<open>hex.EncodeToString(sha256.Sum256([]byte(s)))\<close>.\<close>

definition sha256_hex :: "string \<Rightarrow> string" where
  "sha256_hex s = hex_encode (sha256 (string_bytes s))"

end
