(* ===== verification/Store_Base.thy ===== *)
theory Store_Base
  imports Prelude
begin

text \<open>
  The world the services run in, shared by every repository: the stream of identifiers of the
  \<open>ports.IDGenerator\<close> (a parameter: the ULID library is not part of the repository), the clock
  of \<open>ports.Clock\<close>, the \<open>schema_meta\<close> key/value table, and the merchants and stores the other
  tables refer to. Component tables are added by record extension, so an operation of one
  component runs unchanged in a world with more tables.

  A transaction of the code (\<open>WithTx\<close>) runs its body and undoes every table change when the body
  fails; identifiers already drawn stay drawn. A query either has the effect of its SQL text or
  fails with the constraint it violates; connection failures are outside the model. Bigint
  arithmetic of the database raises an error when it leaves 64 bits.
\<close>

record base_db =
  id_gen :: "nat \<Rightarrow> string"
  next_id :: nat
  clock :: time
  schema_meta :: "string \<Rightarrow> string option"
  merchants :: "string list"
  stores :: "(string \<times> string) list"

definition new_id :: "('m base_db_scheme, string) op" where
  "new_id = (\<lambda>w. (Inr (id_gen w (next_id w)), w\<lparr>next_id := Suc (next_id w)\<rparr>))"

definition with_tx :: "('m base_db_scheme, 'a) op \<Rightarrow> ('m base_db_scheme, 'a) op" where
  "with_tx m = (\<lambda>w. case m w of
     (Inl e, w') \<Rightarrow> (Inl e, w\<lparr>next_id := next_id w'\<rparr>)
   | (Inr a, w') \<Rightarrow> (Inr a, w'))"

definition get_store_merchant :: "string \<Rightarrow> 'm base_db_scheme \<Rightarrow> (string \<times> string) result" where
  "get_store_merchant store_id w =
     (case map_of (stores w) store_id of None \<Rightarrow> Inl ErrNoRows | Some m \<Rightarrow> Inr (store_id, m))"

definition is_not_found :: "go_error \<Rightarrow> bool" where
  "is_not_found e \<longleftrightarrow> e = ErrNoRows"

definition pg_bigint :: "int \<Rightarrow> i64 result" where
  "pg_bigint x = (if in_i64 x then Inr x else Inl (PgError ''bigint out of range''))"

text \<open>
  \<open>strconv.ParseInt(s, 10, 64)\<close>: an optional sign and at least one decimal digit, in range.
\<close>

fun parse_digits :: "int \<Rightarrow> string \<Rightarrow> int option" where
  "parse_digits acc [] = Some acc"
| "parse_digits acc (c # cs) =
     (if is_digit c then parse_digits (acc * 10 + (of_char c - 48)) cs else None)"

definition parse_int64 :: "string \<Rightarrow> int option" where
  "parse_int64 s =
     (let (sg, ds) = (case s of [] \<Rightarrow> (1, []) | c # cs \<Rightarrow>
            if c = CHR ''-'' then (-1, cs) else if c = CHR ''+'' then (1, cs) else (1, s))
      in if ds = [] then None
         else case parse_digits 0 ds of None \<Rightarrow> None
           | Some n \<Rightarrow> if in_i64 (sg * n) then Some (sg * n) else None)"

text \<open>
  A table is the list of its rows in insertion order. \<open>insert_row\<close> is an INSERT that must satisfy
  the row's constraints, \<open>update_one\<close> an UPDATE ... RETURNING that selects by a key (so at most
  one row) and answers the new row or no rows.
\<close>

definition update_one ::
    "('r \<Rightarrow> bool) \<Rightarrow> ('r \<Rightarrow> 'r) \<Rightarrow> ('r \<Rightarrow> unit result) \<Rightarrow> 'r list \<Rightarrow> ('r \<times> 'r list) result" where
  "update_one sel f check rows =
     (case find sel rows of None \<Rightarrow> Inl ErrNoRows
      | Some r \<Rightarrow> (case check (f r) of Inl e \<Rightarrow> Inl e
          | Inr _ \<Rightarrow> Inr (f r, map (\<lambda>x. if sel x then f x else x) rows)))"

fun first_failure :: "(bool \<times> string) list \<Rightarrow> unit result" where
  "first_failure [] = Inr ()"
| "first_failure ((ok, c) # cs) = (if ok then first_failure cs else Inl (PgError c))"

lemma first_failure_Inr [simp]: "first_failure cs = Inr u \<longleftrightarrow> list_all fst cs"
  by (induction cs rule: first_failure.induct) simp_all

declare first_failure.simps [simp del]

lemma update_one_Inr:
  "update_one sel f check rows = Inr (r', rows') \<longleftrightarrow>
     (\<exists>r. find sel rows = Some r \<and> r' = f r \<and> check (f r) = Inr () \<and>
        rows' = map (\<lambda>x. if sel x then f x else x) rows)"
  by (auto simp: update_one_def split: option.splits sum.splits)

text \<open>
  Inside a PostgreSQL transaction, once a statement has failed every later one fails as well
  (SQLSTATE 25P02), also a read, until the transaction is rolled back.
\<close>

definition after_failed_statement :: "'a result \<Rightarrow> 'a result" where
  "after_failed_statement r = Inl (PgError ''current transaction is aborted'')"

text \<open>
  A statement of a transaction whose error the code drops (\<open>_ = stmt\<close>): when it fails, the next
  statement fails with 25P02 and the transaction is undone.
\<close>

definition in_tx_ignored :: "('s, 'a) op \<Rightarrow> ('s, 'a) op" where
  "in_tx_ignored m = (\<lambda>s. case m s of
     (Inl _, s') \<Rightarrow> (Inl (PgError ''current transaction is aborted''), s') | (Inr a, s') \<Rightarrow> (Inr a, s'))"

lemma in_tx_ignored_Inr [simp]: "in_tx_ignored m w = (Inr a, w') \<longleftrightarrow> m w = (Inr a, w')"
  by (auto simp: in_tx_ignored_def split: prod.splits sum.splits)

lemma keeps_in_tx_ignored [inv_intros]: "keeps P m \<Longrightarrow> keeps P (in_tx_ignored m)"
  by (auto simp: keeps_def in_tx_ignored_def split: prod.splits sum.splits)

lemma pg_bigint_eq_Inr [simp]: "pg_bigint x = Inr y \<longleftrightarrow> in_i64 x \<and> y = x"
  by (auto simp: pg_bigint_def)

lemma new_id_app [simp, op_simps]:
  "new_id w = (Inr (id_gen w (next_id w)), w\<lparr>next_id := Suc (next_id w)\<rparr>)"
  by (simp add: new_id_def)

lemma with_tx_eq_Inr [simp]: "with_tx m w = (Inr a, w') \<longleftrightarrow> m w = (Inr a, w')"
  by (auto simp: with_tx_def split: prod.splits sum.splits)

lemma with_tx_fail:
  "with_tx m w = (Inl e, w') \<Longrightarrow> \<exists>w1. m w = (Inl e, w1) \<and> w' = w\<lparr>next_id := next_id w1\<rparr>"
  by (auto simp: with_tx_def split: prod.splits sum.splits)

text \<open>
  A transaction keeps whatever its body keeps, when the property does not look at how many
  identifiers were drawn.
\<close>

lemma keeps_with_tx [inv_intros]:
  assumes "keeps P m" and "\<And>w n. P w \<Longrightarrow> P (w\<lparr>next_id := n\<rparr>)"
  shows "keeps P (with_tx m)"
proof (rule keepsI)
  fix w r w' assume P: "P w" and run: "with_tx m w = (r, w')"
  show "P w'"
  proof (cases r)
    case (Inl e)
    with run have "with_tx m w = (Inl e, w')" by simp
    from with_tx_fail [OF this] P assms(2) show ?thesis by auto
  next
    case (Inr a)
    with run assms(1) P show ?thesis by (auto dest: keepsD)
  qed
qed

lemma keeps_new_id:
  assumes "\<And>w n. P w \<Longrightarrow> P (w\<lparr>next_id := n\<rparr>)"
  shows "keeps P new_id"
  using assms by (auto simp: keeps_def)

subsection \<open>Rows with keys\<close>

text \<open>An update that keeps the key of every row keeps the keys of the table distinct.\<close>

lemma map_update_key: "(\<And>x. key (f x) = key x) \<Longrightarrow> map key (map (\<lambda>x. if sel x then f x else x) xs) = map key xs"
  by (induction xs) auto

lemma find_unique_key:
  assumes "distinct (map key xs)" and "x \<in> set xs" and "y \<in> set xs" and "key x = key y"
  shows "x = y"
  using assms by (meson distinct_map inj_on_def)

lemma find_distinct: "distinct (map key xs) \<Longrightarrow> x \<in> set xs \<Longrightarrow> find (\<lambda>y. key y = key x) xs = Some x"
  by (induction xs) auto

text \<open>A transaction keeps what each successful run of its body keeps.\<close>

lemma keeps_tx:
  assumes "\<And>w a w'. P w \<Longrightarrow> m w = (Inr a, w') \<Longrightarrow> P w'" and "\<And>w n. P w \<Longrightarrow> P (w\<lparr>next_id := n\<rparr>)"
  shows "keeps P (with_tx m)"
proof (rule keepsI)
  fix w r w' assume P: "P w" and run: "with_tx m w = (r, w')"
  show "P w'"
  proof (cases r)
    case (Inl e)
    then have "with_tx m w = (Inl e, w')" using run by simp
    from with_tx_fail [OF this] P assms(2) show ?thesis by auto
  qed (use run P assms(1) in auto)
qed

lemma count_update:
  assumes "distinct (map key xs)" and "r \<in> set xs" and "sel r" and "\<And>x. x \<in> set xs \<Longrightarrow> sel x \<Longrightarrow> key x = key r"
  shows "int (length (filter P (map (\<lambda>x. if sel x then f x else x) xs))) =
    int (length (filter P xs)) - of_bool (P r) + of_bool (P (f r))"
proof -
  from split_list [OF assms(2)] obtain ys zs where xs: "xs = ys @ r # zs" by blast
  have new: "key r \<notin> key ` (set ys \<union> set zs)" using assms(1) by (auto simp: xs)
  have other: "\<not> sel x" if "x \<in> set ys \<union> set zs" for x
  proof
    assume "sel x"
    then have "key x = key r" using assms(4) [of x] that xs by auto
    with new that show False by (metis image_eqI)
  qed
  have "map (\<lambda>x. if sel x then f x else x) ys = ys"
    by (rule map_idI) (simp add: other)
  moreover have "map (\<lambda>x. if sel x then f x else x) zs = zs"
    by (rule map_idI) (simp add: other)
  ultimately show ?thesis using assms(3) by (simp add: xs)
qed

text \<open>An INSERT that succeeds has passed its checks.\<close>

lemma insert_Inr:
  "(case chk of Inl e \<Rightarrow> (Inl e, w) | Inr _ \<Rightarrow> (Inr a, w2)) = (Inr u, w') \<longleftrightarrow>
     (\<exists>v. chk = Inr v) \<and> u = a \<and> w' = w2"
  by (cases chk) auto

end
