(* ===== verification/Money.thy ===== *)
theory Money
  imports Prelude
begin

text \<open>
  Whole-rupiah money of \<open>internal/domain/platform/money.go\<close> and the error values of
  \<open>errors.go\<close> beside it: checked addition, subtraction and multiplication on int64 and
  half-up basis-point rounding, each characterised against exact integer arithmetic.
\<close>

subsection \<open>Error values\<close>

definition ErrMoneyOverflow :: go_error where
  "ErrMoneyOverflow = apperr_validation ''FEE_OVERFLOW'' ''Money arithmetic overflow''"

definition ErrNegativeMoney :: go_error where
  "ErrNegativeMoney =
     apperr_validation ''FEE_NEGATIVE_COMPONENT'' ''Negative money component is not allowed''"

definition ErrInvalidAmount :: go_error where
  "ErrInvalidAmount =
     apperr_validation ''FEE_INVALID_AMOUNT'' ''Amount must be a positive whole-rupiah integer''"

definition ErrNonPositiveNet :: go_error where
  "ErrNonPositiveNet =
     apperr_validation ''FEE_NON_POSITIVE_NET'' ''Net amount must be positive after fees''"

definition ErrBelowMinWithdrawal :: go_error where
  "ErrBelowMinWithdrawal =
     apperr_validation ''FEE_BELOW_MIN_WITHDRAWAL'' ''Withdrawal amount is below the minimum''"

definition ErrPaymentOutOfBounds :: go_error where
  "ErrPaymentOutOfBounds =
     apperr_validation ''FEE_PAYMENT_OUT_OF_BOUNDS'' ''Payment amount is outside allowed bounds''"

definition ErrPolicyNotFound :: go_error where
  "ErrPolicyNotFound = apperr_not_found ''FEE_POLICY_NOT_FOUND'' ''Active fee policy not found''"

lemmas money_error_defs = ErrMoneyOverflow_def ErrNegativeMoney_def ErrInvalidAmount_def
  ErrNonPositiveNet_def ErrBelowMinWithdrawal_def ErrPaymentOutOfBounds_def ErrPolicyNotFound_def
  apperr_defs

lemma money_errors_distinct [simp]:
  "ErrMoneyOverflow \<noteq> ErrNegativeMoney" "ErrMoneyOverflow \<noteq> ErrInvalidAmount"
  "ErrMoneyOverflow \<noteq> ErrNonPositiveNet" "ErrNegativeMoney \<noteq> ErrMoneyOverflow"
  "ErrNegativeMoney \<noteq> ErrInvalidAmount" "ErrNonPositiveNet \<noteq> ErrMoneyOverflow"
  "ErrPaymentOutOfBounds \<noteq> ErrMoneyOverflow" "ErrPaymentOutOfBounds \<noteq> ErrNonPositiveNet"
  "ErrBelowMinWithdrawal \<noteq> ErrMoneyOverflow" "ErrBelowMinWithdrawal \<noteq> ErrNonPositiveNet"
  by (simp_all add: money_error_defs)

subsection \<open>Checked arithmetic\<close>

text \<open>The comparisons are those of the code: \<open>math.MaxInt64-b\<close> is itself an int64 operation.\<close>

definition money_add :: "i64 \<Rightarrow> i64 \<Rightarrow> i64 result" where
  "money_add a b =
     (if b > 0 \<and> a > wrap64 (max_i64 - b) then Inl ErrMoneyOverflow
      else if b < 0 \<and> a < wrap64 (min_i64 - b) then Inl ErrMoneyOverflow
      else Inr (wrap64 (a + b)))"

definition money_sub :: "i64 \<Rightarrow> i64 \<Rightarrow> i64 result" where
  "money_sub a b =
     (if b > 0 \<and> a < wrap64 (min_i64 + b) then Inl ErrMoneyOverflow
      else if b < 0 \<and> a > wrap64 (max_i64 + b) then Inl ErrMoneyOverflow
      else Inr (wrap64 (a - b)))"

definition MulNonNeg :: "i64 \<Rightarrow> i64 \<Rightarrow> i64 result" where
  "MulNonNeg a b =
     (if a < 0 \<or> b < 0 then Inl ErrNegativeMoney
      else if a = 0 \<or> b = 0 then Inr 0
      else if a > go_div max_i64 b then Inl ErrMoneyOverflow
      else Inr (wrap64 (a * b)))"

definition RoundHalfUpBps :: "i64 \<Rightarrow> i64 \<Rightarrow> i64 result" where
  "RoundHalfUpBps amount bps =
     (if amount < 0 \<or> bps < 0 then Inl ErrNegativeMoney
      else if amount = 0 \<or> bps = 0 then Inr 0
      else bindE (MulNonNeg amount bps) (\<lambda>prod.
        if prod > wrap64 (max_i64 - 5000) then Inl ErrMoneyOverflow
        else Inr (go_div (wrap64 (prod + 5000)) 10000)))"

subsection \<open>Exact characterisations\<close>

text \<open>The contract of a checked int64 operation: exact inside the range, an overflow outside.\<close>

locale checked_op =
  fixes checked :: "i64 \<Rightarrow> i64 \<Rightarrow> i64 result"
    and exact :: "int \<Rightarrow> int \<Rightarrow> int"
    and dom_ok :: "i64 \<Rightarrow> i64 \<Rightarrow> bool"
  assumes checked_exact: "in_i64 a \<Longrightarrow> in_i64 b \<Longrightarrow> dom_ok a b \<Longrightarrow>
    checked a b = (if in_i64 (exact a b) then Inr (exact a b) else Inl ErrMoneyOverflow)"
begin

lemma result_exact:
  "in_i64 a \<Longrightarrow> in_i64 b \<Longrightarrow> dom_ok a b \<Longrightarrow> checked a b = Inr r \<Longrightarrow> r = exact a b \<and> in_i64 r"
  by (auto simp: checked_exact split: if_splits)

lemma only_overflow:
  "in_i64 a \<Longrightarrow> in_i64 b \<Longrightarrow> dom_ok a b \<Longrightarrow> checked a b = Inl e \<Longrightarrow>
   e = ErrMoneyOverflow \<and> \<not> in_i64 (exact a b)"
  by (auto simp: checked_exact split: if_splits)

end

lemma money_add_exact:
  assumes "in_i64 a" and "in_i64 b"
  shows "money_add a b = (if in_i64 (a + b) then Inr (a + b) else Inl ErrMoneyOverflow)"
proof (cases "in_i64 (a + b)")
  case True
  have "b > 0 \<Longrightarrow> wrap64 (max_i64 - b) = max_i64 - b" "b < 0 \<Longrightarrow> wrap64 (min_i64 - b) = min_i64 - b"
    using assms by (auto simp: i64_bounds)
  then show ?thesis using True by (auto simp: money_add_def i64_bounds)
next
  case False
  have "b > 0 \<Longrightarrow> wrap64 (max_i64 - b) = max_i64 - b" "b < 0 \<Longrightarrow> wrap64 (min_i64 - b) = min_i64 - b"
    using assms by (auto simp: i64_bounds)
  then show ?thesis using False assms
    by (cases "b > 0"; cases "b = 0") (auto simp: money_add_def i64_bounds)
qed

lemma money_sub_exact:
  assumes "in_i64 a" and "in_i64 b"
  shows "money_sub a b = (if in_i64 (a - b) then Inr (a - b) else Inl ErrMoneyOverflow)"
proof -
  have "b > 0 \<Longrightarrow> wrap64 (min_i64 + b) = min_i64 + b" "b < 0 \<Longrightarrow> wrap64 (max_i64 + b) = max_i64 + b"
    using assms by (auto simp: i64_bounds)
  then show ?thesis using assms
    by (cases "b > 0"; cases "b = 0") (auto simp: money_sub_def i64_bounds)
qed

lemma le_div_iff_int: "0 < b \<Longrightarrow> a \<le> m div b \<longleftrightarrow> a * b \<le> m" for a b m :: int
proof -
  assume b: "0 < b"
  have split: "m = m div b * b + m mod b" and r: "0 \<le> m mod b" "m mod b < b"
    using b by simp_all
  show ?thesis
  proof
    assume "a \<le> m div b"
    then have "a * b \<le> m div b * b" using b by (simp add: mult_right_mono)
    with split r show "a * b \<le> m" by linarith
  next
    assume le: "a * b \<le> m"
    show "a \<le> m div b"
    proof (rule ccontr)
      assume "\<not> a \<le> m div b"
      then have "(m div b + 1) * b \<le> a * b" using b by (intro mult_right_mono) auto
      then have "m div b * b + b \<le> a * b" by (simp add: distrib_right)
      with le split r show False by linarith
    qed
  qed
qed

lemma MulNonNeg_exact:
  assumes "in_i64 a" and "in_i64 b" and "0 \<le> a" and "0 \<le> b"
  shows "MulNonNeg a b = (if in_i64 (a * b) then Inr (a * b) else Inl ErrMoneyOverflow)"
proof (cases "a = 0 \<or> b = 0")
  case False
  with assms have pos: "0 < a" "0 < b" by auto
  then have "0 < a * b" by simp
  have "go_div max_i64 b = max_i64 div b"
    using pos by (simp add: go_div_nonneg max_i64_def)
  moreover have "a \<le> max_i64 div b \<longleftrightarrow> a * b \<le> max_i64"
    using pos by (simp add: le_div_iff_int)
  moreover have "in_i64 (a * b) \<longleftrightarrow> a * b \<le> max_i64"
    using \<open>0 < a * b\<close> unfolding in_i64_def min_i64_def by linarith
  ultimately show ?thesis using pos by (auto simp: MulNonNeg_def)
qed (use assms in \<open>auto simp: MulNonNeg_def\<close>)

interpretation add_op: checked_op money_add "(+)" "\<lambda>_ _. True"
  by unfold_locales (simp add: money_add_exact)

interpretation sub_op: checked_op money_sub "(-)" "\<lambda>_ _. True"
  by unfold_locales (simp add: money_sub_exact)

interpretation mul_op: checked_op MulNonNeg "(*)" "\<lambda>a b. 0 \<le> a \<and> 0 \<le> b"
  by unfold_locales (simp add: MulNonNeg_exact)

lemma RoundHalfUpBps_exact:
  assumes "in_i64 amount" and "in_i64 bps" and "0 \<le> amount" and "0 \<le> bps"
  shows "RoundHalfUpBps amount bps =
    (if amount * bps + 5000 \<le> max_i64 then Inr ((amount * bps + 5000) div 10000)
     else Inl ErrMoneyOverflow)"
proof (cases "amount = 0 \<or> bps = 0")
  case True
  then have "amount * bps = 0" by auto
  with True assms show ?thesis by (auto simp: RoundHalfUpBps_def max_i64_def)
next
  case False
  then have "0 < amount * bps" using assms by (simp add: less_le)
  moreover have "wrap64 (max_i64 - 5000) = max_i64 - 5000"
    by (simp add: i64_bounds)
  moreover have "in_i64 (amount * bps) \<longleftrightarrow> amount * bps \<le> max_i64"
    using \<open>0 < amount * bps\<close> by (simp add: in_i64_def min_i64_def)
  moreover have "in_i64 (amount * bps + 5000) \<longleftrightarrow> amount * bps + 5000 \<le> max_i64"
    using \<open>0 < amount * bps\<close> by (simp add: in_i64_def min_i64_def)
  ultimately show ?thesis using False assms \<open>0 < amount * bps\<close>
    by (auto simp: RoundHalfUpBps_def MulNonNeg_exact go_div_nonneg)
qed

lemma half_up_error:
  fixes x :: int
  shows "2 * \<bar>10000 * ((x + 5000) div 10000) - x\<bar> \<le> 10000"
    and "x - 10000 * ((x + 5000) div 10000) < 5000"
proof -
  define q r where "q = (x + 5000) div 10000" and "r = (x + 5000) mod 10000"
  have f: "x + 5000 = q * 10000 + r" "0 \<le> r" "r < 10000"
    by (simp_all add: q_def r_def)
  from f show "2 * \<bar>10000 * ((x + 5000) div 10000) - x\<bar> \<le> 10000"
    unfolding q_def [symmetric] by (simp add: abs_le_iff)
  from f show "x - 10000 * ((x + 5000) div 10000) < 5000"
    unfolding q_def [symmetric] by linarith
qed

text \<open>
  Half-up basis-point rounding is exact: for non-negative int64 arguments the result is the
  integer nearest to \<open>amount * bps / 10000\<close> (ties up), and the only failure is the overflow error,
  raised exactly when \<open>amount * bps + 5000\<close> leaves int64.
\<close>

theorem RoundHalfUpBps_nearest:
  assumes "in_i64 amount" and "in_i64 bps" and "0 \<le> amount" and "0 \<le> bps"
  shows "case RoundHalfUpBps amount bps of
      Inr r \<Rightarrow> 0 \<le> r \<and> 2 * \<bar>10000 * r - amount * bps\<bar> \<le> 10000 \<and> amount * bps - 10000 * r < 5000
        \<and> amount * bps + 5000 \<le> max_i64
    | Inl e \<Rightarrow> e = ErrMoneyOverflow \<and> max_i64 < amount * bps + 5000"
proof -
  have "0 \<le> amount * bps" using assms by simp
  then have "0 \<le> (amount * bps + 5000) div 10000" by simp
  then show ?thesis
    using assms half_up_error [of "amount * bps"] by (simp add: RoundHalfUpBps_exact)
qed

theorem RoundHalfUpBps_nearest_witness:
  "RoundHalfUpBps 1 5000 = Inr 1 \<and> 2 * \<bar>10000 * 1 - 1 * 5000\<bar> \<le> (10000::int)"
proof -
  have h: "in_i64 1" "in_i64 5000" by (simp_all add: i64_bounds)
  have "RoundHalfUpBps 1 5000 = Inr 1" by (simp add: RoundHalfUpBps_exact h max_i64_def)
  then show ?thesis using RoundHalfUpBps_nearest [OF h] by simp
qed

text \<open>
  Checked addition and subtraction never wrap: whatever int64 values they are given, they
  return the exact sum or difference when it is an int64 value and the overflow error otherwise.
\<close>

theorem money_add_sub_exact:
  assumes "in_i64 a" and "in_i64 b"
  shows "money_add a b = (if in_i64 (a + b) then Inr (a + b) else Inl ErrMoneyOverflow)
    \<and> money_sub a b = (if in_i64 (a - b) then Inr (a - b) else Inl ErrMoneyOverflow)"
  using add_op.checked_exact [OF assms] sub_op.checked_exact [OF assms] by simp

theorem money_add_sub_exact_witness:
  "money_add max_i64 1 = Inl ErrMoneyOverflow \<and> money_sub max_i64 1 = Inr (max_i64 - 1)"
proof -
  have h: "in_i64 max_i64" "in_i64 1" by (simp_all add: i64_bounds)
  show ?thesis using money_add_sub_exact [OF h] by (simp add: i64_bounds)
qed

end
