(* ===== verification/Fees.thy ===== *)
theory Fees
  imports Money Digest Store_Base
begin

text \<open>
  Fee policies, calculators and snapshots (\<open>internal/domain/platform/policy.go\<close> and
  \<open>fees.go\<close>), the fee repository (\<open>adapters/postgres/fee_repo.go\<close> over \<open>fees.sql\<close>) and
  \<open>FeeService\<close> (\<open>application/fee_service.go\<close>).
\<close>

subsection \<open>Policies\<close>

record FeePolicy =
  fp_VersionID :: string
  fp_Scope :: string
  fp_TransactionPercentBps :: i64
  fp_TransactionFixedIDR :: i64
  fp_WithdrawalPercentBps :: i64
  fp_MinimumWithdrawalIDR :: i64
  fp_MinimumPaymentIDR :: i64
  fp_MaximumPaymentIDR :: i64
  fp_Checksum :: string
  fp_SourceADR :: string
  fp_ReleaseReason :: string
  fp_Immutable :: bool
  fp_EffectiveFrom :: time
  fp_EffectiveTo :: "time option"
  fp_CreatedAt :: time

abbreviation "PolicyVersionLaunchV1 \<equiv> ''LAUNCH_FEE_POLICY_V1''"
abbreviation "PolicyScopeGlobal \<equiv> ''GLOBAL''"
abbreviation "LaunchTransactionPercentBps \<equiv> (300 :: i64)"
abbreviation "LaunchTransactionFixedIDR \<equiv> (700 :: i64)"
abbreviation "LaunchWithdrawalPercentBps \<equiv> (300 :: i64)"
abbreviation "LaunchMinimumWithdrawalIDR \<equiv> (50000 :: i64)"
abbreviation "LaunchMinimumPaymentIDR \<equiv> (1000 :: i64)"
abbreviation "LaunchMaximumPaymentIDR \<equiv> (100000000 :: i64)"

definition LaunchPolicyChecksum :: string where
  "LaunchPolicyChecksum = sha256_hex
     (PolicyVersionLaunchV1 @ ''|'' @ PolicyScopeGlobal @ ''|'' @
      show_int LaunchTransactionPercentBps @ ''|'' @ show_int LaunchTransactionFixedIDR @ ''|'' @
      show_int LaunchWithdrawalPercentBps @ ''|'' @ show_int LaunchMinimumWithdrawalIDR @ ''|'' @
      show_int LaunchMinimumPaymentIDR @ ''|'' @ show_int LaunchMaximumPaymentIDR)"

text \<open>The launch instant is 2026-07-16 00:00:00 UTC.\<close>

definition LaunchFeePolicy :: FeePolicy where
  "LaunchFeePolicy = \<lparr>
     fp_VersionID = PolicyVersionLaunchV1,
     fp_Scope = PolicyScopeGlobal,
     fp_TransactionPercentBps = LaunchTransactionPercentBps,
     fp_TransactionFixedIDR = LaunchTransactionFixedIDR,
     fp_WithdrawalPercentBps = LaunchWithdrawalPercentBps,
     fp_MinimumWithdrawalIDR = LaunchMinimumWithdrawalIDR,
     fp_MinimumPaymentIDR = LaunchMinimumPaymentIDR,
     fp_MaximumPaymentIDR = LaunchMaximumPaymentIDR,
     fp_Checksum = LaunchPolicyChecksum,
     fp_SourceADR = ''ADR-0003'',
     fp_ReleaseReason = ''launch immutable fee policy'',
     fp_Immutable = True,
     fp_EffectiveFrom = seconds 1784160000,
     fp_EffectiveTo = None,
     fp_CreatedAt = time_zero\<rparr>"

definition MatchesLaunchInvariant :: "FeePolicy \<Rightarrow> bool" where
  "MatchesLaunchInvariant p \<longleftrightarrow>
     fp_VersionID p = PolicyVersionLaunchV1 \<and>
     fp_Scope p = PolicyScopeGlobal \<and>
     fp_TransactionPercentBps p = LaunchTransactionPercentBps \<and>
     fp_TransactionFixedIDR p = LaunchTransactionFixedIDR \<and>
     fp_WithdrawalPercentBps p = LaunchWithdrawalPercentBps \<and>
     fp_MinimumWithdrawalIDR p = LaunchMinimumWithdrawalIDR \<and>
     fp_MinimumPaymentIDR p = LaunchMinimumPaymentIDR \<and>
     fp_MaximumPaymentIDR p = LaunchMaximumPaymentIDR \<and>
     fp_Immutable p \<and>
     fp_Checksum p = LaunchPolicyChecksum"

definition IsEffectiveAt :: "FeePolicy \<Rightarrow> time \<Rightarrow> bool" where
  "IsEffectiveAt p at =
     (if at < fp_EffectiveFrom p then False
      else case fp_EffectiveTo p of None \<Rightarrow> True | Some t \<Rightarrow> at < t)"

subsection \<open>Calculators\<close>

record TransactionFeeResult =
  tf_GrossIDR :: i64
  tf_PercentBps :: i64
  tf_PercentComponentIDR :: i64
  tf_FixedComponentIDR :: i64
  tf_TotalFeeIDR :: i64
  tf_NetIDR :: i64
  tf_Currency :: string
  tf_PolicyVersionID :: string

record WithdrawalFeeResult =
  wf_AmountIDR :: i64
  wf_PercentBps :: i64
  wf_PlatformFeeIDR :: i64
  wf_ProviderFeeIDR :: i64
  wf_TotalFeeIDR :: i64
  wf_NetDisbursementIDR :: i64
  wf_MinimumAmountIDR :: i64
  wf_Currency :: string
  wf_PolicyVersionID :: string

definition CalculateTransactionFee :: "i64 \<Rightarrow> FeePolicy \<Rightarrow> TransactionFeeResult result" where
  "CalculateTransactionFee gross policy =
    (if gross \<le> 0 then Inl ErrInvalidAmount
     else if fp_TransactionPercentBps policy < 0 \<or> fp_TransactionFixedIDR policy < 0
       then Inl ErrNegativeMoney
     else if fp_MinimumPaymentIDR policy > 0 \<and> gross < fp_MinimumPaymentIDR policy
       then Inl ErrPaymentOutOfBounds
     else if fp_MaximumPaymentIDR policy > 0 \<and> gross > fp_MaximumPaymentIDR policy
       then Inl ErrPaymentOutOfBounds
     else bindE (RoundHalfUpBps gross (fp_TransactionPercentBps policy)) (\<lambda>percent.
          let fixed = fp_TransactionFixedIDR policy in
          bindE (money_add percent fixed) (\<lambda>total.
          if total < 0 then Inl ErrNegativeMoney
          else bindE (money_sub gross total) (\<lambda>net.
          if net \<le> 0 then Inl ErrNonPositiveNet
          else Inr \<lparr>tf_GrossIDR = gross,
                    tf_PercentBps = fp_TransactionPercentBps policy,
                    tf_PercentComponentIDR = percent,
                    tf_FixedComponentIDR = fixed,
                    tf_TotalFeeIDR = total,
                    tf_NetIDR = net,
                    tf_Currency = CurrencyIDR,
                    tf_PolicyVersionID = fp_VersionID policy\<rparr>))))"

definition CalculateWithdrawalFee :: "i64 \<Rightarrow> i64 \<Rightarrow> FeePolicy \<Rightarrow> WithdrawalFeeResult result" where
  "CalculateWithdrawalFee amount providerFee policy =
    (if amount \<le> 0 then Inl ErrInvalidAmount
     else if providerFee < 0 then Inl ErrNegativeMoney
     else if fp_WithdrawalPercentBps policy < 0 then Inl ErrNegativeMoney
     else
       let minWD = (if fp_MinimumWithdrawalIDR policy \<le> 0 then LaunchMinimumWithdrawalIDR
                    else fp_MinimumWithdrawalIDR policy) in
       if amount < minWD then Inl ErrBelowMinWithdrawal
       else bindE (RoundHalfUpBps amount (fp_WithdrawalPercentBps policy)) (\<lambda>platform.
            bindE (money_add platform providerFee) (\<lambda>total.
            if total < 0 then Inl ErrNegativeMoney
            else bindE (money_sub amount total) (\<lambda>net.
            if net \<le> 0 then Inl ErrNonPositiveNet
            else Inr \<lparr>wf_AmountIDR = amount,
                      wf_PercentBps = fp_WithdrawalPercentBps policy,
                      wf_PlatformFeeIDR = platform,
                      wf_ProviderFeeIDR = providerFee,
                      wf_TotalFeeIDR = total,
                      wf_NetDisbursementIDR = net,
                      wf_MinimumAmountIDR = minWD,
                      wf_Currency = CurrencyIDR,
                      wf_PolicyVersionID = fp_VersionID policy\<rparr>))))"

definition SameGlobalRuleForSources :: "string \<Rightarrow> string \<Rightarrow> bool" where
  "SameGlobalRuleForSources a b = True"

subsection \<open>Snapshots\<close>

record FeeSnapshot =
  sn_ID :: string
  sn_PolicyVersionID :: string
  sn_Scope :: string
  sn_Kind :: string
  sn_Source :: string
  sn_GrossOrAmountIDR :: i64
  sn_PercentBps :: i64
  sn_PercentComponentIDR :: i64
  sn_FixedComponentIDR :: i64
  sn_ProviderFeeIDR :: i64
  sn_TotalFeeIDR :: i64
  sn_NetIDR :: i64
  sn_Currency :: string
  sn_Checksum :: string
  sn_CreatedAt :: time

definition BuildTransactionSnapshot ::
    "FeePolicy \<Rightarrow> string \<Rightarrow> TransactionFeeResult \<Rightarrow> time \<Rightarrow> FeeSnapshot" where
  "BuildTransactionSnapshot policy source res at = \<lparr>
     sn_ID = [],
     sn_PolicyVersionID = fp_VersionID policy,
     sn_Scope = fp_Scope policy,
     sn_Kind = ''TRANSACTION'',
     sn_Source = source,
     sn_GrossOrAmountIDR = tf_GrossIDR res,
     sn_PercentBps = tf_PercentBps res,
     sn_PercentComponentIDR = tf_PercentComponentIDR res,
     sn_FixedComponentIDR = tf_FixedComponentIDR res,
     sn_ProviderFeeIDR = 0,
     sn_TotalFeeIDR = tf_TotalFeeIDR res,
     sn_NetIDR = tf_NetIDR res,
     sn_Currency = CurrencyIDR,
     sn_Checksum = fp_Checksum policy,
     sn_CreatedAt = at\<rparr>"

definition BuildWithdrawalSnapshot ::
    "FeePolicy \<Rightarrow> WithdrawalFeeResult \<Rightarrow> time \<Rightarrow> FeeSnapshot" where
  "BuildWithdrawalSnapshot policy res at = \<lparr>
     sn_ID = [],
     sn_PolicyVersionID = fp_VersionID policy,
     sn_Scope = fp_Scope policy,
     sn_Kind = ''WITHDRAWAL'',
     sn_Source = [],
     sn_GrossOrAmountIDR = wf_AmountIDR res,
     sn_PercentBps = wf_PercentBps res,
     sn_PercentComponentIDR = wf_PlatformFeeIDR res,
     sn_FixedComponentIDR = 0,
     sn_ProviderFeeIDR = wf_ProviderFeeIDR res,
     sn_TotalFeeIDR = wf_TotalFeeIDR res,
     sn_NetIDR = wf_NetDisbursementIDR res,
     sn_Currency = CurrencyIDR,
     sn_Checksum = fp_Checksum policy,
     sn_CreatedAt = at\<rparr>"

subsection \<open>The fee repository\<close>

record fee_db = base_db +
  fee_policies :: "FeePolicy list"
  fee_snapshots :: "FeeSnapshot list"

text \<open>\<open>FeeGetActivePolicy\<close>: GLOBAL, effective at the instant, latest start first.\<close>

definition GetActivePolicy :: "time \<Rightarrow> 'm fee_db_scheme \<Rightarrow> FeePolicy result" where
  "GetActivePolicy at w =
     (case sort_key (\<lambda>p. - fp_EffectiveFrom p)
        (filter (\<lambda>p. fp_Scope p = ''GLOBAL'' \<and> fp_EffectiveFrom p \<le> at \<and>
            (case fp_EffectiveTo p of None \<Rightarrow> True | Some t \<Rightarrow> t > at)) (fee_policies w)) of
        [] \<Rightarrow> Inl ErrNoRows
      | p # _ \<Rightarrow> Inr p)"

definition GetPolicyByVersion :: "string \<Rightarrow> 'm fee_db_scheme \<Rightarrow> FeePolicy result" where
  "GetPolicyByVersion version w =
     (case filter (\<lambda>p. fp_VersionID p = version) (fee_policies w) of
        [] \<Rightarrow> Inl ErrNoRows | p # _ \<Rightarrow> Inr p)"

definition GetSnapshotByID :: "string \<Rightarrow> 'm fee_db_scheme \<Rightarrow> FeeSnapshot result" where
  "GetSnapshotByID i w =
     (case filter (\<lambda>s. sn_ID s = i) (fee_snapshots w) of
        [] \<Rightarrow> Inl ErrNoRows | s # _ \<Rightarrow> Inr s)"

text \<open>The CHECK constraints of table \<open>fee_snapshots\<close> (migration 000014).\<close>

definition fee_snapshot_check :: "FeeSnapshot \<Rightarrow> bool" where
  "fee_snapshot_check s \<longleftrightarrow>
     sn_Kind s \<in> {''TRANSACTION'', ''WITHDRAWAL''} \<and>
     sn_Source s \<in> {[], ''STOREFRONT'', ''QRIS_API''} \<and>
     sn_Currency s = ''IDR'' \<and>
     sn_GrossOrAmountIDR s > 0 \<and> sn_PercentBps s \<ge> 0 \<and> sn_PercentComponentIDR s \<ge> 0 \<and>
     sn_FixedComponentIDR s \<ge> 0 \<and> sn_ProviderFeeIDR s \<ge> 0 \<and> sn_TotalFeeIDR s \<ge> 0 \<and>
     sn_NetIDR s > 0"

definition InsertSnapshot :: "FeeSnapshot \<Rightarrow> ('m fee_db_scheme, FeeSnapshot) op" where
  "InsertSnapshot s = (\<lambda>w.
     if \<not> fee_snapshot_check s then (Inl (PgError ''check_violation''), w)
     else if sn_ID s \<in> set (map sn_ID (fee_snapshots w)) then (Inl (PgError ''unique_violation''), w)
     else if sn_PolicyVersionID s \<notin> set (map fp_VersionID (fee_policies w))
       then (Inl (PgError ''foreign_key_violation''), w)
     else (Inr s, w\<lparr>fee_snapshots := fee_snapshots w @ [s]\<rparr>))"

subsection \<open>FeeService\<close>

text \<open>Which of the service's optional collaborators (\<open>Store\<close>, \<open>IDs\<close>) are wired.\<close>

record FeeService =
  fs_Store :: bool
  fs_IDs :: bool

definition ActivePolicy :: "FeeService \<Rightarrow> 'm fee_db_scheme \<Rightarrow> FeePolicy result" where
  "ActivePolicy s w =
    (let at = clock w in
     if \<not> fs_Store s then
       (if \<not> IsEffectiveAt LaunchFeePolicy at then Inl ErrPolicyNotFound else Inr LaunchFeePolicy)
     else case GetActivePolicy at w of
         Inl e \<Rightarrow> if is_not_found e then Inl ErrPolicyNotFound
           else Inl (apperr_wrap KindInternal ''INTERNAL_ERROR'' ''Failed to load fee policy'' e)
       | Inr p \<Rightarrow> Inr p)"

record PreviewRequest =
  pr_Kind :: string
  pr_AmountIDR :: i64
  pr_ProviderFeeIDR :: i64
  pr_Source :: string

record PreviewResult =
  pv_PolicyVersionID :: string
  pv_Kind :: string
  pv_Source :: string
  pv_Transaction :: "TransactionFeeResult option"
  pv_Withdrawal :: "WithdrawalFeeResult option"

definition Preview :: "FeeService \<Rightarrow> PreviewRequest \<Rightarrow> 'm fee_db_scheme \<Rightarrow> PreviewResult result" where
  "Preview s req w =
    bindE (ActivePolicy s w) (\<lambda>policy.
      if pr_Kind req \<in> {''transaction'', ''TRANSACTION'', ''payment'', ''PAYMENT''} then
        (let src = (if pr_Source req = [] then SourceStorefront else pr_Source req) in
         bindE (CalculateTransactionFee (pr_AmountIDR req) policy) (\<lambda>res.
           Inr \<lparr>pv_PolicyVersionID = fp_VersionID policy, pv_Kind = ''transaction'', pv_Source = src,
                pv_Transaction = Some res, pv_Withdrawal = None\<rparr>))
      else if pr_Kind req \<in> {''withdrawal'', ''WITHDRAWAL''} then
        bindE (CalculateWithdrawalFee (pr_AmountIDR req) (pr_ProviderFeeIDR req) policy) (\<lambda>res.
           Inr \<lparr>pv_PolicyVersionID = fp_VersionID policy, pv_Kind = ''withdrawal'', pv_Source = [],
                pv_Transaction = None, pv_Withdrawal = Some res\<rparr>)
      else Inl (apperr_validation ''VALIDATION_FAILED'' ''kind must be transaction or withdrawal''))"

definition CalculateTransaction ::
    "FeeService \<Rightarrow> i64 \<Rightarrow> string \<Rightarrow> 'm fee_db_scheme \<Rightarrow> (TransactionFeeResult \<times> FeePolicy) result" where
  "CalculateTransaction s gross source w =
    bindE (ActivePolicy s w) (\<lambda>policy.
      bindE (CalculateTransactionFee gross policy) (\<lambda>res. Inr (res, policy)))"

definition CalculateWithdrawal ::
    "FeeService \<Rightarrow> i64 \<Rightarrow> i64 \<Rightarrow> 'm fee_db_scheme \<Rightarrow> (WithdrawalFeeResult \<times> FeePolicy) result" where
  "CalculateWithdrawal s amount providerFee w =
    bindE (ActivePolicy s w) (\<lambda>policy.
      bindE (CalculateWithdrawalFee amount providerFee policy) (\<lambda>res. Inr (res, policy)))"

definition SnapshotTransaction ::
    "FeeService \<Rightarrow> string \<Rightarrow> TransactionFeeResult \<Rightarrow> FeePolicy \<Rightarrow> ('m fee_db_scheme, FeeSnapshot) op" where
  "SnapshotTransaction s source res policy =
    (if \<not> fs_Store s \<or> \<not> fs_IDs s
     then throw (apperr_internal ''INTERNAL_ERROR'' ''Fee store unavailable'')
     else bindS (gets clock) (\<lambda>now. bindS new_id (\<lambda>i.
       InsertSnapshot (BuildTransactionSnapshot policy source res now\<lparr>sn_ID := i\<rparr>))))"

definition SnapshotWithdrawal ::
    "FeeService \<Rightarrow> WithdrawalFeeResult \<Rightarrow> FeePolicy \<Rightarrow> ('m fee_db_scheme, FeeSnapshot) op" where
  "SnapshotWithdrawal s res policy =
    (if \<not> fs_Store s \<or> \<not> fs_IDs s
     then throw (apperr_internal ''INTERNAL_ERROR'' ''Fee store unavailable'')
     else bindS (gets clock) (\<lambda>now. bindS new_id (\<lambda>i.
       InsertSnapshot (BuildWithdrawalSnapshot policy res now\<lparr>sn_ID := i\<rparr>))))"

subsection \<open>What the calculators compute\<close>

text \<open>A policy whose numbers are int64 values, as every stored policy is.\<close>

definition policy_in_range :: "FeePolicy \<Rightarrow> bool" where
  "policy_in_range p \<longleftrightarrow>
     in_i64 (fp_TransactionPercentBps p) \<and> in_i64 (fp_TransactionFixedIDR p) \<and>
     in_i64 (fp_WithdrawalPercentBps p) \<and> in_i64 (fp_MinimumWithdrawalIDR p) \<and>
     in_i64 (fp_MinimumPaymentIDR p) \<and> in_i64 (fp_MaximumPaymentIDR p)"

definition half_up_bps :: "int \<Rightarrow> int \<Rightarrow> int" where
  "half_up_bps amount bps = (amount * bps + 5000) div 10000"

lemma RoundHalfUpBps_eq_Inr:
  "in_i64 a \<Longrightarrow> in_i64 b \<Longrightarrow> 0 \<le> a \<Longrightarrow> 0 \<le> b \<Longrightarrow>
   RoundHalfUpBps a b = Inr r \<longleftrightarrow> a * b + 5000 \<le> max_i64 \<and> r = half_up_bps a b"
  by (auto simp: RoundHalfUpBps_exact half_up_bps_def)

lemma half_up_nonneg: "0 \<le> a \<Longrightarrow> 0 \<le> b \<Longrightarrow> 0 \<le> half_up_bps a b"
  by (simp add: half_up_bps_def pos_imp_zdiv_nonneg_iff)

lemma half_up_in_range:
  assumes "0 \<le> a * b" and "a * b + 5000 \<le> max_i64"
  shows "0 \<le> half_up_bps a b \<and> in_i64 (half_up_bps a b)"
proof -
  define q r where "q = (a * b + 5000) div 10000" and "r = (a * b + 5000) mod 10000"
  have "0 \<le> q" using assms(1) by (simp add: q_def)
  moreover have "q \<le> a * b + 5000"
  proof -
    have "a * b + 5000 = q * 10000 + r" "0 \<le> r" by (simp_all add: q_def r_def)
    with \<open>0 \<le> q\<close> show ?thesis by linarith
  qed
  ultimately show ?thesis
    using assms(2) unfolding half_up_bps_def q_def [symmetric] in_i64_def min_i64_def by linarith
qed

lemma CalculateTransactionFee_eq_Inr:
  assumes range: "in_i64 gross" "policy_in_range p"
  shows "CalculateTransactionFee gross p = Inr r \<longleftrightarrow>
    0 < gross \<and> 0 \<le> fp_TransactionPercentBps p \<and> 0 \<le> fp_TransactionFixedIDR p \<and>
    (0 < fp_MinimumPaymentIDR p \<longrightarrow> fp_MinimumPaymentIDR p \<le> gross) \<and>
    (0 < fp_MaximumPaymentIDR p \<longrightarrow> gross \<le> fp_MaximumPaymentIDR p) \<and>
    gross * fp_TransactionPercentBps p + 5000 \<le> max_i64 \<and>
    half_up_bps gross (fp_TransactionPercentBps p) + fp_TransactionFixedIDR p < gross \<and>
    r = \<lparr>tf_GrossIDR = gross, tf_PercentBps = fp_TransactionPercentBps p,
         tf_PercentComponentIDR = half_up_bps gross (fp_TransactionPercentBps p),
         tf_FixedComponentIDR = fp_TransactionFixedIDR p,
         tf_TotalFeeIDR = half_up_bps gross (fp_TransactionPercentBps p) + fp_TransactionFixedIDR p,
         tf_NetIDR = gross - (half_up_bps gross (fp_TransactionPercentBps p) + fp_TransactionFixedIDR p),
         tf_Currency = CurrencyIDR, tf_PolicyVersionID = fp_VersionID p\<rparr>"
  (is "?L \<longleftrightarrow> ?R")
proof
  let ?b = "fp_TransactionPercentBps p" and ?f = "fp_TransactionFixedIDR p"
  assume ?L
  then obtain pc where guards: "0 < gross" "0 \<le> ?b" "0 \<le> ?f"
      "0 < fp_MinimumPaymentIDR p \<longrightarrow> fp_MinimumPaymentIDR p \<le> gross"
      "0 < fp_MaximumPaymentIDR p \<longrightarrow> gross \<le> fp_MaximumPaymentIDR p"
    and pc: "RoundHalfUpBps gross ?b = Inr pc"
    by (auto simp: CalculateTransactionFee_def bindE_eq_Inr Let_def split: if_splits)
  have b: "in_i64 ?b" "in_i64 ?f" using range(2) by (simp_all add: policy_in_range_def)
  have pc': "gross * ?b + 5000 \<le> max_i64" "pc = half_up_bps gross ?b"
    using pc guards b range(1) by (simp_all add: RoundHalfUpBps_eq_Inr)
  then have pc_range: "0 \<le> pc" "in_i64 pc"
    using half_up_in_range [of gross ?b] guards by simp_all
  obtain total where total: "money_add pc ?f = Inr total" and "\<not> total < 0"
    using \<open>?L\<close> guards pc
    by (auto simp: CalculateTransactionFee_def bindE_eq_Inr Let_def split: if_splits)
  then have total': "total = pc + ?f" "in_i64 total"
    using pc_range b by (auto simp: money_add_exact split: if_splits)
  have sub: "money_sub gross total = Inr (gross - total)"
    using guards total' pc_range range(1) by (simp add: money_sub_exact i64_bounds)
  show ?R
    using \<open>?L\<close> guards pc pc' total total' sub
    by (auto simp: CalculateTransactionFee_def Let_def split: if_splits)
next
  let ?b = "fp_TransactionPercentBps p" and ?f = "fp_TransactionFixedIDR p"
  assume R: ?R
  have b: "in_i64 ?b" "in_i64 ?f" using range(2) by (simp_all add: policy_in_range_def)
  have pc: "RoundHalfUpBps gross ?b = Inr (half_up_bps gross ?b)"
    using R b range(1) by (simp add: RoundHalfUpBps_eq_Inr)
  have h: "0 \<le> half_up_bps gross ?b" "in_i64 (half_up_bps gross ?b)"
    using half_up_in_range [of gross ?b] R by simp_all
  have "in_i64 (half_up_bps gross ?b + ?f)"
    using R h range(1) by (auto simp: i64_bounds)
  then have add: "money_add (half_up_bps gross ?b) ?f = Inr (half_up_bps gross ?b + ?f)"
    using h b by (simp add: money_add_exact)
  have "in_i64 (gross - (half_up_bps gross ?b + ?f))"
    using R h range(1) by (auto simp: i64_bounds)
  then have sub: "money_sub gross (half_up_bps gross ?b + ?f)
      = Inr (gross - (half_up_bps gross ?b + ?f))"
    using range(1) \<open>in_i64 (half_up_bps gross ?b + ?f)\<close> by (simp add: money_sub_exact)
  show ?L using R pc add sub h by (auto simp: CalculateTransactionFee_def Let_def)
qed

text \<open>
  C39. Payment fees conserve money: a successful calculation splits the gross exactly into the
  merchant's net and the fee, the fee exactly into the half-up rounded percentage and the fixed
  part, the net is positive, no part is negative, and the policy's payment bounds hold.
\<close>

theorem CalculateTransactionFee_conserves:
  assumes "in_i64 gross" and "policy_in_range p" and "CalculateTransactionFee gross p = Inr r"
  shows "tf_GrossIDR r = gross \<and> gross = tf_NetIDR r + tf_TotalFeeIDR r
    \<and> tf_TotalFeeIDR r = tf_PercentComponentIDR r + tf_FixedComponentIDR r
    \<and> tf_PercentComponentIDR r = half_up_bps gross (fp_TransactionPercentBps p)
    \<and> 0 < tf_NetIDR r \<and> 0 \<le> tf_PercentComponentIDR r \<and> 0 \<le> tf_FixedComponentIDR r
    \<and> (0 < fp_MinimumPaymentIDR p \<longrightarrow> fp_MinimumPaymentIDR p \<le> gross)
    \<and> (0 < fp_MaximumPaymentIDR p \<longrightarrow> gross \<le> fp_MaximumPaymentIDR p)"
proof -
  have "0 \<le> gross * fp_TransactionPercentBps p"
    using assms by (simp add: CalculateTransactionFee_eq_Inr)
  moreover have "gross * fp_TransactionPercentBps p + 5000 \<le> max_i64"
    using assms by (simp add: CalculateTransactionFee_eq_Inr)
  ultimately have "0 \<le> half_up_bps gross (fp_TransactionPercentBps p)"
    using half_up_in_range by blast
  then show ?thesis using assms by (auto simp: CalculateTransactionFee_eq_Inr)
qed

lemma launch_in_range [simp]: "policy_in_range LaunchFeePolicy"
  by (simp add: policy_in_range_def LaunchFeePolicy_def i64_bounds)

lemma launch_transaction_iff:
  assumes "in_i64 gross"
  shows "CalculateTransactionFee gross LaunchFeePolicy = Inr r \<longleftrightarrow>
    1000 \<le> gross \<and> gross \<le> 100000000 \<and>
    r = \<lparr>tf_GrossIDR = gross, tf_PercentBps = 300,
         tf_PercentComponentIDR = half_up_bps gross 300, tf_FixedComponentIDR = 700,
         tf_TotalFeeIDR = half_up_bps gross 300 + 700,
         tf_NetIDR = gross - (half_up_bps gross 300 + 700),
         tf_Currency = CurrencyIDR, tf_PolicyVersionID = PolicyVersionLaunchV1\<rparr>"
proof -
  have "1000 \<le> gross \<Longrightarrow> half_up_bps gross 300 + 700 < gross"
    unfolding half_up_bps_def by linarith
  moreover have "gross \<le> 100000000 \<Longrightarrow> gross * 300 + 5000 \<le> max_i64"
    by (simp add: max_i64_def)
  ultimately show ?thesis
    using assms by (auto simp: CalculateTransactionFee_eq_Inr LaunchFeePolicy_def policy_in_range_def i64_bounds)
qed

theorem CalculateTransactionFee_conserves_witness:
  "CalculateTransactionFee 100000 LaunchFeePolicy = Inr
     \<lparr>tf_GrossIDR = 100000, tf_PercentBps = 300, tf_PercentComponentIDR = 3000,
      tf_FixedComponentIDR = 700, tf_TotalFeeIDR = 3700, tf_NetIDR = 96300,
      tf_Currency = CurrencyIDR, tf_PolicyVersionID = PolicyVersionLaunchV1\<rparr>
   \<and> (100000::int) = 96300 + 3700"
proof -
  have g: "in_i64 100000" by (simp add: i64_bounds)
  have run: "CalculateTransactionFee 100000 LaunchFeePolicy = Inr
     \<lparr>tf_GrossIDR = 100000, tf_PercentBps = 300, tf_PercentComponentIDR = 3000,
      tf_FixedComponentIDR = 700, tf_TotalFeeIDR = 3700, tf_NetIDR = 96300,
      tf_Currency = CurrencyIDR, tf_PolicyVersionID = PolicyVersionLaunchV1\<rparr>"
    by (simp add: launch_transaction_iff g half_up_bps_def)
  show ?thesis using run CalculateTransactionFee_conserves [OF g launch_in_range run] by simp
qed

text \<open>
  The launch policy is usable on exactly its advertised range: for every int64 gross, the fee
  calculation under \<open>LAUNCH_FEE_POLICY_V1\<close> succeeds if and only if the gross lies between
  Rp1.000 and Rp100.000.000, and then the net is the gross less 3\% rounded half up less Rp700.
\<close>

theorem launch_transaction_total:
  assumes "in_i64 gross"
  shows "((\<exists>r. CalculateTransactionFee gross LaunchFeePolicy = Inr r) \<longleftrightarrow> 1000 \<le> gross \<and> gross \<le> 100000000)
    \<and> (\<forall>r. CalculateTransactionFee gross LaunchFeePolicy = Inr r \<longrightarrow>
          tf_NetIDR r = gross - ((3 * gross + 50) div 100 + 700))"
proof -
  have "half_up_bps gross 300 = (3 * gross + 50) div 100"
    unfolding half_up_bps_def by linarith
  then show ?thesis using assms by (simp add: launch_transaction_iff)
qed

theorem launch_transaction_total_witness:
  "(\<exists>r. CalculateTransactionFee 1000 LaunchFeePolicy = Inr r)
   \<and> \<not> (\<exists>r. CalculateTransactionFee 999 LaunchFeePolicy = Inr r)"
proof -
  have "in_i64 1000" "in_i64 999" by (simp_all add: i64_bounds)
  then show ?thesis
    using launch_transaction_total [of 1000] launch_transaction_total [of 999] by simp
qed

lemma CalculateWithdrawalFee_eq_Inr:
  fixes amount q :: i64 and p :: FeePolicy
  defines "P \<equiv> half_up_bps amount (fp_WithdrawalPercentBps p)"
    and "minWD \<equiv> (if fp_MinimumWithdrawalIDR p \<le> 0 then 50000 else fp_MinimumWithdrawalIDR p)"
  assumes range: "in_i64 amount" "in_i64 q" "policy_in_range p"
  shows "CalculateWithdrawalFee amount q p = Inr r \<longleftrightarrow>
    0 < amount \<and> 0 \<le> q \<and> 0 \<le> fp_WithdrawalPercentBps p \<and> minWD \<le> amount \<and>
    amount * fp_WithdrawalPercentBps p + 5000 \<le> max_i64 \<and> P + q < amount \<and>
    r = \<lparr>wf_AmountIDR = amount, wf_PercentBps = fp_WithdrawalPercentBps p, wf_PlatformFeeIDR = P,
         wf_ProviderFeeIDR = q, wf_TotalFeeIDR = P + q, wf_NetDisbursementIDR = amount - (P + q),
         wf_MinimumAmountIDR = minWD, wf_Currency = CurrencyIDR, wf_PolicyVersionID = fp_VersionID p\<rparr>"
  (is "?L \<longleftrightarrow> ?R")
proof
  let ?b = "fp_WithdrawalPercentBps p"
  have b: "in_i64 ?b" using range(3) by (simp add: policy_in_range_def)
  assume L: ?L
  then obtain pc where guards: "0 < amount" "0 \<le> q" "0 \<le> ?b" "minWD \<le> amount"
    and pc: "RoundHalfUpBps amount ?b = Inr pc"
    unfolding minWD_def by (auto simp: CalculateWithdrawalFee_def bindE_eq_Inr Let_def split: if_splits)
  have pc': "amount * ?b + 5000 \<le> max_i64" "pc = P"
    using pc guards b range(1) by (simp_all add: RoundHalfUpBps_eq_Inr P_def)
  then have pc_range: "0 \<le> P" "in_i64 P"
    using half_up_in_range [of amount ?b] guards by (simp_all add: P_def)
  obtain total where total: "money_add pc q = Inr total" "\<not> total < 0"
    using L guards pc
    by (auto simp: CalculateWithdrawalFee_def bindE_eq_Inr Let_def split: if_splits)
  then have total': "total = P + q" "in_i64 total"
    using pc_range pc' range by (auto simp: money_add_exact split: if_splits)
  have "money_sub amount total = Inr (amount - total)"
    using guards total' pc_range range(1) by (simp add: money_sub_exact i64_bounds)
  then show ?R
    using L guards pc pc' total total'
    unfolding minWD_def by (auto simp: CalculateWithdrawalFee_def Let_def split: if_splits)
next
  let ?b = "fp_WithdrawalPercentBps p"
  assume R: ?R
  have b: "in_i64 ?b" using range(3) by (simp add: policy_in_range_def)
  have pc: "RoundHalfUpBps amount ?b = Inr P"
    using R b range(1) by (simp add: RoundHalfUpBps_eq_Inr P_def)
  have h: "0 \<le> P" "in_i64 P"
    using half_up_in_range [of amount ?b] R by (simp_all add: P_def)
  have in_total: "in_i64 (P + q)" "in_i64 (amount - (P + q))"
    using R h range by (auto simp: i64_bounds)
  then have add: "money_add P q = Inr (P + q)"
    using h range by (simp add: money_add_exact)
  have sub: "money_sub amount (P + q) = Inr (amount - (P + q))"
    using range(1) in_total by (simp add: money_sub_exact)
  show ?L using R pc add sub h unfolding minWD_def
    by (auto simp: CalculateWithdrawalFee_def Let_def)
qed

text \<open>
  C40. Withdrawal fees conserve money: a successful calculation splits the wallet debit \<open>W\<close> into
  platform fee \<open>P\<close>, provider fee \<open>Q\<close> and net disbursement \<open>N\<close> with \<open>W = P + Q + N\<close>, \<open>N\<close>
  positive, no fee negative, and \<open>W\<close> at least the minimum in force (Rp50.000 when unset).
\<close>

theorem CalculateWithdrawalFee_conserves:
  assumes "in_i64 amount" and "in_i64 q" and "policy_in_range p"
    and "CalculateWithdrawalFee amount q p = Inr r"
  shows "wf_AmountIDR r = amount
    \<and> amount = wf_PlatformFeeIDR r + wf_ProviderFeeIDR r + wf_NetDisbursementIDR r
    \<and> wf_TotalFeeIDR r = wf_PlatformFeeIDR r + wf_ProviderFeeIDR r
    \<and> wf_ProviderFeeIDR r = q \<and> 0 < wf_NetDisbursementIDR r
    \<and> 0 \<le> wf_PlatformFeeIDR r \<and> 0 \<le> wf_ProviderFeeIDR r
    \<and> wf_MinimumAmountIDR r \<le> amount \<and> 0 < wf_MinimumAmountIDR r"
proof -
  have "0 \<le> amount * fp_WithdrawalPercentBps p"
    and "amount * fp_WithdrawalPercentBps p + 5000 \<le> max_i64"
    using assms by (simp_all add: CalculateWithdrawalFee_eq_Inr)
  then have "0 \<le> half_up_bps amount (fp_WithdrawalPercentBps p)"
    using half_up_in_range by blast
  then show ?thesis using assms by (auto simp: CalculateWithdrawalFee_eq_Inr)
qed

theorem CalculateWithdrawalFee_conserves_witness:
  "CalculateWithdrawalFee 100000 2500 LaunchFeePolicy = Inr
     \<lparr>wf_AmountIDR = 100000, wf_PercentBps = 300, wf_PlatformFeeIDR = 3000, wf_ProviderFeeIDR = 2500,
      wf_TotalFeeIDR = 5500, wf_NetDisbursementIDR = 94500, wf_MinimumAmountIDR = 50000,
      wf_Currency = CurrencyIDR, wf_PolicyVersionID = PolicyVersionLaunchV1\<rparr>
   \<and> (100000::int) = 3000 + 2500 + 94500"
proof -
  have g: "in_i64 100000" "in_i64 2500" by (simp_all add: i64_bounds)
  have run: "CalculateWithdrawalFee 100000 2500 LaunchFeePolicy = Inr
     \<lparr>wf_AmountIDR = 100000, wf_PercentBps = 300, wf_PlatformFeeIDR = 3000, wf_ProviderFeeIDR = 2500,
      wf_TotalFeeIDR = 5500, wf_NetDisbursementIDR = 94500, wf_MinimumAmountIDR = 50000,
      wf_Currency = CurrencyIDR, wf_PolicyVersionID = PolicyVersionLaunchV1\<rparr>"
    by (simp add: CalculateWithdrawalFee_eq_Inr g)
      (simp add: LaunchFeePolicy_def half_up_bps_def max_i64_def)
  show ?thesis using run CalculateWithdrawalFee_conserves [OF g launch_in_range run] by simp
qed

subsection \<open>Policy selection and snapshots\<close>

lemma GetActivePolicy_filter:
  "(fp_EffectiveFrom p \<le> at \<and> (case fp_EffectiveTo p of None \<Rightarrow> True | Some t \<Rightarrow> t > at))
   = IsEffectiveAt p at"
  by (auto simp: IsEffectiveAt_def split: option.splits)

lemma hd_sort_key_min:
  "sort_key f xs = x # ys \<Longrightarrow> x \<in> set xs \<and> (\<forall>y\<in>set xs. f x \<le> f y)" for f :: "'a \<Rightarrow> int"
proof -
  assume eq: "sort_key f xs = x # ys"
  have set: "set xs = insert x (set ys)" using eq by (metis list.simps(15) set_sort)
  have "sorted (map f (x # ys))" using eq by (metis sorted_sort_key)
  with set show ?thesis by auto
qed

text \<open>
  The repository's active policy is the one the domain means: \<open>GetActivePolicy\<close> returns a
  GLOBAL policy that \<open>IsEffectiveAt\<close> accepts, none of the accepted ones starting later, and
  reports "no rows" exactly when no GLOBAL policy is effective.
\<close>

theorem GetActivePolicy_latest_effective:
  "case GetActivePolicy at w of
     Inr p \<Rightarrow> p \<in> set (fee_policies w) \<and> fp_Scope p = ''GLOBAL'' \<and> IsEffectiveAt p at \<and>
       (\<forall>q. q \<in> set (fee_policies w) \<longrightarrow> fp_Scope q = ''GLOBAL'' \<longrightarrow> IsEffectiveAt q at \<longrightarrow>
         fp_EffectiveFrom q \<le> fp_EffectiveFrom p)
   | Inl e \<Rightarrow> e = ErrNoRows \<and>
       (\<forall>q. q \<in> set (fee_policies w) \<longrightarrow> fp_Scope q = ''GLOBAL'' \<longrightarrow> \<not> IsEffectiveAt q at)"
proof -
  let ?xs = "filter (\<lambda>p. fp_Scope p = ''GLOBAL'' \<and> IsEffectiveAt p at) (fee_policies w)"
  have eq: "GetActivePolicy at w =
      (case sort_key (\<lambda>p. - fp_EffectiveFrom p) ?xs of [] \<Rightarrow> Inl ErrNoRows | p # _ \<Rightarrow> Inr p)"
    by (simp add: GetActivePolicy_def GetActivePolicy_filter)
  show ?thesis
  proof (cases "sort_key (\<lambda>p. - fp_EffectiveFrom p) ?xs" rule: list.exhaust)
    case Nil
    have "set ?xs = {}" using arg_cong [OF Nil, of set] by simp
    then have "?xs = []" by (simp only: set_empty)
    then have "\<forall>q\<in>set (fee_policies w). fp_Scope q = ''GLOBAL'' \<longrightarrow> \<not> IsEffectiveAt q at"
      by (simp add: filter_empty_conv)
    moreover have "GetActivePolicy at w = Inl ErrNoRows" by (simp add: eq Nil)
    ultimately show ?thesis by simp
  next
    case (Cons p ps)
    then have "GetActivePolicy at w = Inr p" by (simp add: eq)
    moreover have "p \<in> set ?xs" and "\<forall>q\<in>set ?xs. - fp_EffectiveFrom p \<le> - fp_EffectiveFrom q"
      using hd_sort_key_min [OF Cons] by simp_all
    ultimately show ?thesis by simp
  qed
qed

theorem GetActivePolicy_latest_effective_witness:
  "GetActivePolicy (seconds 1784160000)
     \<lparr>id_gen = (\<lambda>_. []), next_id = 0, clock = 0, schema_meta = Map.empty, merchants = [], stores = [],
      fee_policies = [LaunchFeePolicy], fee_snapshots = []\<rparr> = Inr LaunchFeePolicy"
  using GetActivePolicy_latest_effective [where at = "seconds 1784160000" and
     w = "\<lparr>id_gen = (\<lambda>_. []), next_id = 0, clock = 0, schema_meta = Map.empty, merchants = [], stores = [],
      fee_policies = [LaunchFeePolicy], fee_snapshots = []\<rparr>"]
  by (simp add: LaunchFeePolicy_def IsEffectiveAt_def split: sum.splits)

text \<open>
  Every snapshot frozen from a successful calculation is accepted by the table: for both
  payment sources and for withdrawals the CHECK constraints of \<open>fee_snapshots\<close> hold, so taking a
  snapshot can fail only on a missing policy row or a repeated identifier.
\<close>

theorem snapshots_satisfy_table:
  assumes "policy_in_range p"
  shows "(in_i64 gross \<longrightarrow> CalculateTransactionFee gross p = Inr tr \<longrightarrow>
      source \<in> {SourceStorefront, SourceQRISAPI} \<longrightarrow>
      fee_snapshot_check (BuildTransactionSnapshot p source tr at))
    \<and> (in_i64 amount \<longrightarrow> in_i64 q \<longrightarrow> CalculateWithdrawalFee amount q p = Inr wr \<longrightarrow>
      fee_snapshot_check (BuildWithdrawalSnapshot p wr at))"
proof (intro conjI impI)
  assume g: "in_i64 gross" and tr: "CalculateTransactionFee gross p = Inr tr"
    and src: "source \<in> {SourceStorefront, SourceQRISAPI}"
  then have "0 < gross \<and> 0 \<le> fp_TransactionPercentBps p \<and> tf_PercentBps tr = fp_TransactionPercentBps p"
    using assms by (auto simp: CalculateTransactionFee_eq_Inr)
  moreover have "0 \<le> half_up_bps gross (fp_TransactionPercentBps p)"
    using calculation by (simp add: half_up_nonneg)
  ultimately show "fee_snapshot_check (BuildTransactionSnapshot p source tr at)"
    using CalculateTransactionFee_eq_Inr [OF g assms, of tr] tr src
    by (auto simp: fee_snapshot_check_def BuildTransactionSnapshot_def)
next
  assume g: "in_i64 amount" and q: "in_i64 q" and wr: "CalculateWithdrawalFee amount q p = Inr wr"
  then have "0 < amount \<and> 0 \<le> fp_WithdrawalPercentBps p \<and> 0 \<le> q"
    using assms by (auto simp: CalculateWithdrawalFee_eq_Inr)
  moreover have "0 \<le> half_up_bps amount (fp_WithdrawalPercentBps p)"
    using calculation by (simp add: half_up_nonneg)
  ultimately show "fee_snapshot_check (BuildWithdrawalSnapshot p wr at)"
    using CalculateWithdrawalFee_eq_Inr [OF g q assms, of wr] wr
    by (auto simp: fee_snapshot_check_def BuildWithdrawalSnapshot_def)
qed

theorem snapshots_satisfy_table_witness:
  "fee_snapshot_check (BuildTransactionSnapshot LaunchFeePolicy SourceStorefront
     \<lparr>tf_GrossIDR = 1000, tf_PercentBps = 300, tf_PercentComponentIDR = 30,
      tf_FixedComponentIDR = 700, tf_TotalFeeIDR = 730, tf_NetIDR = 270,
      tf_Currency = CurrencyIDR, tf_PolicyVersionID = PolicyVersionLaunchV1\<rparr> 0)"
proof -
  have g: "in_i64 1000" by (simp add: i64_bounds)
  have run: "CalculateTransactionFee 1000 LaunchFeePolicy = Inr
     \<lparr>tf_GrossIDR = 1000, tf_PercentBps = 300, tf_PercentComponentIDR = 30,
      tf_FixedComponentIDR = 700, tf_TotalFeeIDR = 730, tf_NetIDR = 270,
      tf_Currency = CurrencyIDR, tf_PolicyVersionID = PolicyVersionLaunchV1\<rparr>"
    by (simp add: launch_transaction_iff g half_up_bps_def)
  show ?thesis using snapshots_satisfy_table [OF launch_in_range] g run by simp
qed

text \<open>
  With only the launch seed in the table, the wired service and the service without a store
  agree at every instant: the same policy, or the same "not found" error before the launch date.
\<close>

theorem ActivePolicy_store_equals_launch:
  assumes "fee_policies w = [LaunchFeePolicy]"
  shows "ActivePolicy \<lparr>fs_Store = True, fs_IDs = i\<rparr> w = ActivePolicy \<lparr>fs_Store = False, fs_IDs = j\<rparr> w"
proof -
  have "GetActivePolicy (clock w) w =
      (if IsEffectiveAt LaunchFeePolicy (clock w) then Inr LaunchFeePolicy else Inl ErrNoRows)"
    using assms GetActivePolicy_filter [of LaunchFeePolicy "clock w"]
    by (simp add: GetActivePolicy_def LaunchFeePolicy_def)
  then show ?thesis by (simp add: ActivePolicy_def is_not_found_def)
qed

theorem ActivePolicy_store_equals_launch_witness:
  "ActivePolicy \<lparr>fs_Store = True, fs_IDs = True\<rparr>
     \<lparr>id_gen = (\<lambda>_. []), next_id = 0, clock = 0, schema_meta = Map.empty, merchants = [], stores = [],
      fee_policies = [LaunchFeePolicy], fee_snapshots = []\<rparr> = Inl ErrPolicyNotFound"
  by (subst ActivePolicy_store_equals_launch [where j = True])
    (simp_all add: ActivePolicy_def IsEffectiveAt_def LaunchFeePolicy_def seconds_def)

end
