(* ===== verification/Fee_Seed.thy ===== *)
theory Fee_Seed
  imports Fees
begin

text \<open>
  The one fact about the fee policy that evaluates SHA-256: the checksum of the launch constants
  against the row seeded by \<open>migrations/000014\<close>.
\<close>

text \<open>
  The seeded checksum is the checksum the code computes: SHA-256 of the canonical payload of
  the launch constants is the constant written into migration 000014, and the launch policy
  passes its own invariant check.
\<close>

theorem launch_checksum_matches_seed:
  "LaunchPolicyChecksum = ''74db3dc26f74c349ef49b7928e3b8151ed9d6e8555564bd01c46e8baba42eeeb''
   \<and> MatchesLaunchInvariant LaunchFeePolicy"
proof -
  have "LaunchPolicyChecksum = ''74db3dc26f74c349ef49b7928e3b8151ed9d6e8555564bd01c46e8baba42eeeb''"
    by code_simp
  moreover have "MatchesLaunchInvariant LaunchFeePolicy"
    by (simp add: MatchesLaunchInvariant_def LaunchFeePolicy_def)
  ultimately show ?thesis by simp
qed

end
