(* ===== verification/Ledger.thy ===== *)
theory Ledger
  imports Prelude "HOL-Library.Multiset"
begin

text \<open>
  The ledger domain (\<open>internal/domain/ledger\<close>): accounts, journals, settlement lots and balances
  (\<open>types.go\<close>), the closed set of journal templates and their balance check (\<open>templates.go\<close>)
  and the first-in-first-out allocation of a withdrawal over settlement lots (\<open>allocation.go\<close>).
\<close>

subsection \<open>Data\<close>

abbreviation "AcctXenditReceivable \<equiv> ''XENDIT_RECEIVABLE''"
abbreviation "AcctXenditCash \<equiv> ''XENDIT_CASH''"
abbreviation "AcctXenditProviderExpense \<equiv> ''XENDIT_PROVIDER_EXPENSE''"
abbreviation "AcctMerchantPending \<equiv> ''MERCHANT_PENDING''"
abbreviation "AcctMerchantAvailable \<equiv> ''MERCHANT_AVAILABLE''"
abbreviation "AcctMerchantHeld \<equiv> ''MERCHANT_HELD''"
abbreviation "AcctMerchantRecoveryReceivable \<equiv> ''MERCHANT_RECOVERY_RECEIVABLE''"
abbreviation "AcctPlatformFeeRevenue \<equiv> ''PLATFORM_FEE_REVENUE''"
abbreviation "AcctPaymentProcessingRevenue \<equiv> ''PAYMENT_PROCESSING_REVENUE''"
abbreviation "AcctProviderDisbursementPayable \<equiv> ''PROVIDER_DISBURSEMENT_PAYABLE''"
abbreviation "AcctProviderFeeVarianceIncome \<equiv> ''PROVIDER_FEE_VARIANCE_INCOME''"
abbreviation "AcctPlatformProviderSubsidy \<equiv> ''PLATFORM_PROVIDER_SUBSIDY''"
abbreviation "AcctPlatformSubsidy \<equiv> ''PLATFORM_SUBSIDY''"
abbreviation "AcctProviderReversalClearing \<equiv> ''PROVIDER_REVERSAL_CLEARING''"
abbreviation "AcctWithdrawalClearing \<equiv> ''WITHDRAWAL_CLEARING''"
abbreviation "SideDebit \<equiv> ''DEBIT''"
abbreviation "SideCredit \<equiv> ''CREDIT''"
abbreviation "FeeGross \<equiv> ''GROSS''"
abbreviation "FeeMerchantNet \<equiv> ''MERCHANT_NET''"
abbreviation "FeePercent \<equiv> ''FEE_PERCENT''"
abbreviation "FeeFixed \<equiv> ''FEE_FIXED''"
abbreviation "FeePlatform \<equiv> ''PLATFORM_FEE''"
abbreviation "FeeProvider \<equiv> ''PROVIDER_FEE''"
abbreviation "LotPending \<equiv> ''PENDING''"
abbreviation "LotAvailable \<equiv> ''AVAILABLE''"
abbreviation "LotPartiallyConsumed \<equiv> ''PARTIALLY_CONSUMED''"
abbreviation "LotConsumed \<equiv> ''CONSUMED''"
abbreviation "LotHeld \<equiv> ''HELD''"
abbreviation "TemplatePaymentCapture \<equiv> ''PAYMENT_CAPTURE''"
abbreviation "TemplateSettlementRelease \<equiv> ''SETTLEMENT_RELEASE''"
abbreviation "TemplateWithdrawalReserve \<equiv> ''WITHDRAWAL_RESERVE''"
abbreviation "TemplateWithdrawalRelease \<equiv> ''WITHDRAWAL_RELEASE''"
abbreviation "TemplateWithdrawalComplete \<equiv> ''WITHDRAWAL_COMPLETE''"
abbreviation "TemplateWithdrawalRecapture \<equiv> ''WITHDRAWAL_RECAPTURE''"

record EntryLeg =
  leg_AccountCode :: string
  leg_Side :: string
  leg_AmountIDR :: i64
  leg_FeeComponent :: string
  leg_SettlementLotID :: string
  leg_AvailableAt :: "time option"

record Journal =
  j_ID :: string
  j_MerchantID :: string
  j_StoreID :: "string option"
  j_PaymentMode :: string
  j_Source :: string
  j_TemplateCode :: string
  j_ReferenceType :: string
  j_ReferenceID :: string
  j_JournalReference :: string
  j_IdempotencyKey :: string
  j_Status :: string
  j_Currency :: string
  j_Description :: string
  j_PaymentIntentID :: "string option"
  j_OrderID :: "string option"
  j_SettlementLotID :: "string option"
  j_FeeSnapshotID :: "string option"
  j_GrossIDR :: "i64 option"
  j_FeePercentIDR :: "i64 option"
  j_FeeFixedIDR :: "i64 option"
  j_MerchantNetIDR :: "i64 option"
  j_PostedAt :: time
  j_CreatedAt :: time

record Entry =
  e_ID :: string
  e_JournalID :: string
  e_AccountCode :: string
  e_Side :: string
  e_AmountIDR :: i64
  e_Currency :: string
  e_FeeComponent :: "string option"
  e_Source :: string
  e_PaymentMode :: string
  e_MerchantID :: string
  e_SettlementLotID :: "string option"
  e_AvailableAt :: "time option"
  e_LineNo :: int
  e_CreatedAt :: time

record SettlementLot =
  lot_ID :: string
  lot_MerchantID :: string
  lot_StoreID :: "string option"
  lot_PaymentMode :: string
  lot_Source :: string
  lot_PaymentIntentID :: "string option"
  lot_OrderID :: "string option"
  lot_CaptureJournalID :: "string option"
  lot_ReleaseJournalID :: "string option"
  lot_OriginalAmountIDR :: i64
  lot_RemainingAmountIDR :: i64
  lot_Currency :: string
  lot_Status :: string
  lot_AvailableAt :: time
  lot_ReleasedAt :: "time option"
  lot_CreatedAt :: time
  lot_UpdatedAt :: time

record Balance =
  b_MerchantID :: string
  b_PaymentMode :: string
  b_AvailableIDR :: i64
  b_PendingIDR :: i64
  b_HeldIDR :: i64
  b_LifetimeGrossIDR :: i64
  b_LifetimeFeePercentIDR :: i64
  b_LifetimeFeeFixedIDR :: i64
  b_LifetimeNetIDR :: i64
  b_MonthGrossIDR :: i64
  b_MonthFeePercentIDR :: i64
  b_MonthFeeFixedIDR :: i64
  b_MonthNetIDR :: i64
  b_MonthBucket :: string
  b_Currency :: string
  b_Version :: i64
  b_UpdatedAt :: time

record SourceBalance =
  sb_MerchantID :: string
  sb_PaymentMode :: string
  sb_Source :: string
  sb_AvailableIDR :: i64
  sb_PendingIDR :: i64
  sb_HeldIDR :: i64
  sb_LifetimeNetIDR :: i64
  sb_Currency :: string
  sb_UpdatedAt :: time

record PaymentCaptureInput =
  pc_JournalID :: string
  pc_LotID :: string
  pc_MerchantID :: string
  pc_StoreID :: string
  pc_PaymentMode :: string
  pc_Source :: string
  pc_PaymentIntentID :: string
  pc_OrderID :: string
  pc_FeeSnapshotID :: string
  pc_GrossIDR :: i64
  pc_FeePercentIDR :: i64
  pc_FeeFixedIDR :: i64
  pc_MerchantNetIDR :: i64
  pc_JournalReference :: string
  pc_IdempotencyKey :: string
  pc_Description :: string
  pc_PostedAt :: time
  pc_AvailableAt :: time
  pc_ImmediateRelease :: bool
  pc_ReleaseJournalID :: string

record AllocationSlice =
  sl_Source :: string
  sl_SettlementLotID :: string
  sl_AmountIDR :: i64
  sl_AvailableAt :: time

record WithdrawalAllocation =
  wa_AmountDebited :: i64
  wa_Source :: string
  wa_Allocations :: "AllocationSlice list"

record SourceAmounts =
  sa_AvailableAmount :: i64
  sa_PendingAmount :: i64

record FeePolicyView =
  fv_TransactionPercentBps :: i64
  fv_TransactionFixedIDR :: i64
  fv_WithdrawalPercentBps :: i64
  fv_MinimumWithdrawalIDR :: i64

record FinanceSummary =
  fsu_StoreID :: string
  fsu_MerchantID :: string
  fsu_PaymentMode :: string
  fsu_AvailableAmount :: i64
  fsu_PendingAmount :: i64
  fsu_HeldAmount :: i64
  fsu_LifetimeGrossAmount :: i64
  fsu_MonthGrossAmount :: i64
  fsu_MonthPlatformFeeAmount :: i64
  fsu_MonthProviderFeeAmount :: i64
  fsu_MonthNetAmount :: i64
  fsu_Sources :: "string \<Rightarrow> SourceAmounts option"
  fsu_Currency :: string
  fsu_AsOf :: time
  fsu_FeePolicy :: FeePolicyView
  fsu_WithdrawalAllocationPolicy :: string

record LedgerListItem =
  li_ID :: string
  li_StoreID :: string
  li_Type :: string
  li_Description :: string
  li_Amount :: i64
  li_Direction :: string
  li_Source :: string
  li_OccurredAt :: time
  li_OrderID :: "string option"
  li_WithdrawalID :: "string option"
  li_JournalID :: string
  li_TemplateCode :: string

subsection \<open>Journal references\<close>

definition JournalReferencePaymentCapture :: "string \<Rightarrow> string" where
  "JournalReferencePaymentCapture i = ''PAYMENT_CAPTURE:'' @ i"

definition JournalReferenceSettlementRelease :: "string \<Rightarrow> string" where
  "JournalReferenceSettlementRelease i = ''SETTLEMENT_RELEASE:'' @ i"

definition JournalReferenceWithdrawalReserve :: "string \<Rightarrow> string" where
  "JournalReferenceWithdrawalReserve i = ''WITHDRAWAL_RESERVE:'' @ i"

definition JournalReferenceWithdrawalRelease :: "string \<Rightarrow> string" where
  "JournalReferenceWithdrawalRelease i = ''WITHDRAWAL_RELEASE:'' @ i"

definition JournalReferenceWithdrawalComplete :: "string \<Rightarrow> string" where
  "JournalReferenceWithdrawalComplete i = ''WITHDRAWAL_COMPLETE:'' @ i"

definition JournalReferenceWithdrawalFeeSettle :: "string \<Rightarrow> string" where
  "JournalReferenceWithdrawalFeeSettle i = ''WITHDRAWAL_FEE_SETTLE:'' @ i"

definition JournalReferenceWithdrawalRecapture :: "string \<Rightarrow> string" where
  "JournalReferenceWithdrawalRecapture i = ''WITHDRAWAL_RECAPTURE:'' @ i"

lemmas journal_reference_defs = JournalReferencePaymentCapture_def
  JournalReferenceSettlementRelease_def JournalReferenceWithdrawalReserve_def
  JournalReferenceWithdrawalRelease_def JournalReferenceWithdrawalComplete_def
  JournalReferenceWithdrawalFeeSettle_def JournalReferenceWithdrawalRecapture_def

subsection \<open>The balance check and the templates\<close>

text \<open>The loop of \<open>AssertBalanced\<close>: index, debit and credit accumulators, with int64 additions.\<close>

fun assert_legs :: "int \<Rightarrow> i64 \<Rightarrow> i64 \<Rightarrow> EntryLeg list \<Rightarrow> (i64 \<times> i64) result" where
  "assert_legs i d c [] = Inr (d, c)"
| "assert_legs i d c (leg # legs) =
     (if leg_AmountIDR leg \<le> 0
        then Inl (PlainError (''ledger: leg '' @ show_int i @ '' amount must be positive''))
      else if leg_Side leg = SideDebit then assert_legs (i + 1) (wrap64 (d + leg_AmountIDR leg)) c legs
      else if leg_Side leg = SideCredit then assert_legs (i + 1) d (wrap64 (c + leg_AmountIDR leg)) legs
      else Inl (PlainError (''ledger: leg '' @ show_int i @ '' invalid side'')))"

definition AssertBalanced :: "EntryLeg list \<Rightarrow> unit result" where
  "AssertBalanced legs =
     (if length legs < 2 then Inl (PlainError ''ledger: need at least two legs'')
      else bindE (assert_legs 0 0 0 legs) (\<lambda>(d, c).
        if d \<noteq> c then Inl (PlainError (''ledger: unbalanced debit='' @ show_int d @ '' credit='' @ show_int c))
        else Inr ()))"

definition mk_leg :: "string \<Rightarrow> string \<Rightarrow> i64 \<Rightarrow> string \<Rightarrow> EntryLeg" where
  "mk_leg acct side amount component =
     \<lparr>leg_AccountCode = acct, leg_Side = side, leg_AmountIDR = amount, leg_FeeComponent = component,
      leg_SettlementLotID = [], leg_AvailableAt = None\<rparr>"

definition checked_legs :: "EntryLeg list \<Rightarrow> EntryLeg list result" where
  "checked_legs legs = bindE (AssertBalanced legs) (\<lambda>_. Inr legs)"

definition BuildPaymentCaptureLegs ::
    "i64 \<Rightarrow> i64 \<Rightarrow> i64 \<Rightarrow> i64 \<Rightarrow> string \<Rightarrow> time \<Rightarrow> EntryLeg list result" where
  "BuildPaymentCaptureLegs gross feePercent feeFixed merchantNet lotID availableAt =
    (if gross \<le> 0 then Inl (PlainError ''ledger: gross must be positive'')
     else if merchantNet \<le> 0 then Inl (PlainError ''ledger: merchant net must be positive'')
     else if feePercent < 0 \<or> feeFixed < 0
       then Inl (PlainError ''ledger: fee components cannot be negative'')
     else if wrap64 (wrap64 (feePercent + feeFixed) + merchantNet) \<noteq> gross
       then Inl (PlainError (''ledger: fee+net must equal gross ('' @ show_int feePercent @ ''+'' @
         show_int feeFixed @ ''+'' @ show_int merchantNet @ '' != '' @ show_int gross @ '')''))
     else checked_legs
       ([mk_leg AcctXenditReceivable SideDebit gross FeeGross,
         (mk_leg AcctMerchantPending SideCredit merchantNet FeeMerchantNet)
           \<lparr>leg_SettlementLotID := lotID, leg_AvailableAt := Some availableAt\<rparr>]
        @ (if feePercent > 0 then [mk_leg AcctPlatformFeeRevenue SideCredit feePercent FeePercent] else [])
        @ (if feeFixed > 0 then [mk_leg AcctPaymentProcessingRevenue SideCredit feeFixed FeeFixed] else [])))"

definition BuildSettlementReleaseLegs :: "i64 \<Rightarrow> string \<Rightarrow> time \<Rightarrow> EntryLeg list result" where
  "BuildSettlementReleaseLegs net lotID availableAt =
    (if net \<le> 0 then Inl (PlainError ''ledger: release net must be positive'')
     else checked_legs
       [(mk_leg AcctMerchantPending SideDebit net FeeMerchantNet)\<lparr>leg_SettlementLotID := lotID\<rparr>,
        (mk_leg AcctMerchantAvailable SideCredit net FeeMerchantNet)
          \<lparr>leg_SettlementLotID := lotID, leg_AvailableAt := Some availableAt\<rparr>])"

definition BuildWithdrawalReserveLegs :: "i64 \<Rightarrow> EntryLeg list result" where
  "BuildWithdrawalReserveLegs amount =
    (if amount \<le> 0 then Inl (PlainError ''ledger: reserve amount must be positive'')
     else checked_legs
       [mk_leg AcctMerchantAvailable SideDebit amount ''WITHDRAWAL'',
        mk_leg AcctWithdrawalClearing SideCredit amount ''WITHDRAWAL''])"

definition BuildWithdrawalReleaseLegs :: "i64 \<Rightarrow> EntryLeg list result" where
  "BuildWithdrawalReleaseLegs amount =
    (if amount \<le> 0 then Inl (PlainError ''ledger: release amount must be positive'')
     else checked_legs
       [mk_leg AcctWithdrawalClearing SideDebit amount ''WITHDRAWAL'',
        mk_leg AcctMerchantAvailable SideCredit amount ''WITHDRAWAL''])"

definition BuildWithdrawalCompleteLegs :: "i64 \<Rightarrow> i64 \<Rightarrow> i64 \<Rightarrow> i64 \<Rightarrow> EntryLeg list result" where
  "BuildWithdrawalCompleteLegs amountW platformP providerQ netN =
    (if amountW \<le> 0 \<or> netN \<le> 0 then Inl (PlainError ''ledger: complete amount/net must be positive'')
     else if platformP < 0 \<or> providerQ < 0
       then Inl (PlainError ''ledger: fee components cannot be negative'')
     else if wrap64 (wrap64 (platformP + providerQ) + netN) \<noteq> amountW
       then Inl (PlainError (''ledger: P+Q+N must equal W ('' @ show_int platformP @ ''+'' @
         show_int providerQ @ ''+'' @ show_int netN @ '' != '' @ show_int amountW @ '')''))
     else checked_legs
       ([mk_leg AcctWithdrawalClearing SideDebit amountW ''WITHDRAWAL'',
         mk_leg AcctXenditCash SideCredit netN ''WITHDRAWAL'']
        @ (if platformP > 0 then [mk_leg AcctPlatformFeeRevenue SideCredit platformP FeePlatform] else [])
        @ (if providerQ > 0
           then [mk_leg AcctProviderDisbursementPayable SideCredit providerQ FeeProvider] else [])))"

definition BuildProviderFeeSettleEqualLegs :: "i64 \<Rightarrow> EntryLeg list result" where
  "BuildProviderFeeSettleEqualLegs quoteQ =
    (if quoteQ \<le> 0 then Inl (PlainError ''ledger: provider fee settle requires positive quote'')
     else checked_legs
       [mk_leg AcctProviderDisbursementPayable SideDebit quoteQ FeeProvider,
        mk_leg AcctXenditCash SideCredit quoteQ FeeProvider])"

definition BuildProviderFeeSettleHigherLegs :: "i64 \<Rightarrow> i64 \<Rightarrow> EntryLeg list result" where
  "BuildProviderFeeSettleHigherLegs quoteQ actualA =
    (if quoteQ \<le> 0 \<or> actualA \<le> quoteQ
       then Inl (PlainError ''ledger: higher settle requires actual > quote > 0'')
     else checked_legs
       [mk_leg AcctProviderDisbursementPayable SideDebit quoteQ FeeProvider,
        mk_leg AcctPlatformProviderSubsidy SideDebit (wrap64 (actualA - quoteQ)) ''VARIANCE'',
        mk_leg AcctXenditCash SideCredit actualA FeeProvider])"

definition BuildProviderFeeSettleLowerLegs :: "i64 \<Rightarrow> i64 \<Rightarrow> EntryLeg list result" where
  "BuildProviderFeeSettleLowerLegs quoteQ actualA =
    (if quoteQ \<le> 0 \<or> actualA < 0 \<or> actualA \<ge> quoteQ
       then Inl (PlainError ''ledger: lower settle requires 0 <= actual < quote'')
     else checked_legs
       ([mk_leg AcctProviderDisbursementPayable SideDebit quoteQ FeeProvider]
        @ (if actualA > 0 then [mk_leg AcctXenditCash SideCredit actualA FeeProvider] else [])
        @ [mk_leg AcctProviderFeeVarianceIncome SideCredit (wrap64 (quoteQ - actualA)) ''VARIANCE'']))"

definition BuildWithdrawalRecaptureLegs :: "i64 \<Rightarrow> i64 \<Rightarrow> i64 \<Rightarrow> EntryLeg list result" where
  "BuildWithdrawalRecaptureLegs availableA recoveryR amountW =
    (if amountW \<le> 0 then Inl (PlainError ''ledger: recapture amount must be positive'')
     else if availableA < 0 \<or> recoveryR < 0
       then Inl (PlainError ''ledger: recapture legs cannot be negative'')
     else if wrap64 (availableA + recoveryR) \<noteq> amountW
       then Inl (PlainError (''ledger: a+r must equal W ('' @ show_int availableA @ ''+'' @
         show_int recoveryR @ '' != '' @ show_int amountW @ '')''))
     else if availableA = 0 \<and> recoveryR = 0
       then Inl (PlainError ''ledger: recapture needs at least one positive leg'')
     else checked_legs
       ((if availableA > 0 then [mk_leg AcctMerchantAvailable SideDebit availableA ''RECOVERY''] else [])
        @ (if recoveryR > 0
           then [mk_leg AcctMerchantRecoveryReceivable SideDebit recoveryR ''RECOVERY''] else [])
        @ [mk_leg AcctWithdrawalClearing SideCredit amountW ''WITHDRAWAL'']))"

definition SplitFeeComponents :: "i64 \<Rightarrow> i64 \<Rightarrow> i64 \<Rightarrow> i64 \<times> i64" where
  "SplitFeeComponents totalFee preferredPercent preferredFixed =
    (if preferredPercent \<ge> 0 \<and> preferredFixed \<ge> 0 \<and> wrap64 (preferredPercent + preferredFixed) = totalFee
       then (preferredPercent, preferredFixed)
     else if totalFee \<ge> 700 then (wrap64 (totalFee - 700), 700)
     else (totalFee, 0))"

definition ComputeAvailableAt :: "time \<Rightarrow> i64 \<Rightarrow> time" where
  "ComputeAvailableAt postedAt delaySeconds =
    (if delaySeconds \<le> 0 then postedAt else postedAt + wrap64 (seconds delaySeconds))"

subsection \<open>First-in-first-out allocation\<close>

definition lot_eligible :: "SettlementLot \<Rightarrow> bool" where
  "lot_eligible lot \<longleftrightarrow> \<not> lot_RemainingAmountIDR lot \<le> 0 \<and>
     \<not> (lot_Status lot \<noteq> LotAvailable \<and> lot_Status lot \<noteq> LotPartiallyConsumed)"

definition fifo_order :: "SettlementLot list \<Rightarrow> SettlementLot list" where
  "fifo_order lots = sort_key (\<lambda>l. (lot_AvailableAt l, lot_ID l)) (filter lot_eligible lots)"

fun fifo_take :: "i64 \<Rightarrow> SettlementLot list \<Rightarrow> AllocationSlice list \<times> i64" where
  "fifo_take remaining [] = ([], remaining)"
| "fifo_take remaining (lot # lots) =
     (if remaining \<le> 0 then ([], remaining)
      else
        let t = (if lot_RemainingAmountIDR lot > remaining then remaining else lot_RemainingAmountIDR lot) in
        if t \<le> 0 then fifo_take remaining lots
        else let (slices, left) = fifo_take (remaining - t) lots in
          (\<lparr>sl_Source = lot_Source lot, sl_SettlementLotID = lot_ID lot, sl_AmountIDR = t,
            sl_AvailableAt = lot_AvailableAt lot\<rparr> # slices, left))"

definition AllocateWithdrawalFIFO :: "i64 \<Rightarrow> SettlementLot list \<Rightarrow> WithdrawalAllocation result" where
  "AllocateWithdrawalFIFO amount lots =
    (if amount \<le> 0 then Inl (PlainError ''ledger: withdrawal amount must be positive'')
     else let (slices, remaining) = fifo_take amount (fifo_order lots) in
       if remaining > 0
         then Inl (PlainError (''ledger: insufficient available lots (short '' @ show_int remaining @ '')''))
       else case remdups (map sl_Source slices) of
           [] \<Rightarrow> Inl (PlainError ''ledger: no lots allocated'')
         | [s] \<Rightarrow> Inr \<lparr>wa_AmountDebited = amount, wa_Source = s, wa_Allocations = slices\<rparr>
         | _ \<Rightarrow> Inr \<lparr>wa_AmountDebited = amount, wa_Source = SourceMixed, wa_Allocations = slices\<rparr>)"

definition SourceTotalsSumEqual :: "Balance \<Rightarrow> SourceBalance list \<Rightarrow> bool" where
  "SourceTotalsSumEqual unified sources =
    (let total = (\<lambda>f. fold (\<lambda>s acc. wrap64 (acc + f s)) sources 0) in
     total sb_AvailableIDR = b_AvailableIDR unified \<and>
     total sb_PendingIDR = b_PendingIDR unified \<and>
     total sb_HeldIDR = b_HeldIDR unified)"
subsection \<open>What a journal means\<close>

text \<open>
  The specification side: the totals of a journal as mathematical integers, and the effect of its
  legs on one account, credits minus debits (the wallet accounts have a credit balance).
\<close>

fun side_total :: "string \<Rightarrow> EntryLeg list \<Rightarrow> int" where
  "side_total side [] = 0"
| "side_total side (l # ls) = (if leg_Side l = side then leg_AmountIDR l else 0) + side_total side ls"

fun account_delta :: "string \<Rightarrow> EntryLeg list \<Rightarrow> int" where
  "account_delta acct [] = 0"
| "account_delta acct (l # ls) =
     (if leg_AccountCode l \<noteq> acct then 0
      else if leg_Side l = SideCredit then leg_AmountIDR l else - leg_AmountIDR l) + account_delta acct ls"

definition leg_ok :: "EntryLeg \<Rightarrow> bool" where
  "leg_ok l \<longleftrightarrow> 0 < leg_AmountIDR l \<and> (leg_Side l = SideDebit \<or> leg_Side l = SideCredit)"

definition balanced :: "EntryLeg list \<Rightarrow> bool" where
  "balanced ls \<longleftrightarrow> 2 \<le> length ls \<and> list_all leg_ok ls \<and> side_total SideDebit ls = side_total SideCredit ls"

lemma side_total_append [simp]: "side_total side (xs @ ys) = side_total side xs + side_total side ys"
  by (induction xs) auto

lemma account_delta_append [simp]:
  "account_delta acct (xs @ ys) = account_delta acct xs + account_delta acct ys"
  by (induction xs) auto

lemma side_total_nonneg: "list_all leg_ok ls \<Longrightarrow> 0 \<le> side_total side ls"
  by (induction ls) (auto simp: leg_ok_def)

lemma leg_ok_mk_leg [simp]:
  "leg_ok (mk_leg acct side a c) \<longleftrightarrow> 0 < a \<and> (side = SideDebit \<or> side = SideCredit)"
  "leg_ok (l\<lparr>leg_SettlementLotID := i\<rparr>) = leg_ok l"
  "leg_ok (l\<lparr>leg_AvailableAt := t\<rparr>) = leg_ok l"
  by (simp_all add: leg_ok_def mk_leg_def)

lemma mk_leg_fields [simp]:
  "leg_AccountCode (mk_leg acct side a c) = acct" "leg_Side (mk_leg acct side a c) = side"
  "leg_AmountIDR (mk_leg acct side a c) = a" "leg_FeeComponent (mk_leg acct side a c) = c"
  by (simp_all add: mk_leg_def)

lemma wrap64_add_wrap: "wrap64 (wrap64 a + b) = wrap64 (a + b)"
  by (simp add: wrap64_def algebra_simps mod_simps)

lemma assert_legs_valid: "assert_legs i d c ls = Inr r \<Longrightarrow> list_all leg_ok ls"
  by (induction i d c ls rule: assert_legs.induct) (auto simp: leg_ok_def split: if_splits)

lemma assert_legs_totals:
  assumes "list_all leg_ok ls" and "in_i64 d" and "in_i64 c"
  shows "assert_legs i d c ls =
    Inr (wrap64 (d + side_total SideDebit ls), wrap64 (c + side_total SideCredit ls))"
  using assms
proof (induction ls arbitrary: i d c)
  case (Cons l ls)
  from Cons.prems(1) have ok: "leg_ok l" and ls: "list_all leg_ok ls"
    by simp_all
  from ok have l: "0 < leg_AmountIDR l" "leg_Side l = SideDebit \<or> leg_Side l = SideCredit"
    by (simp_all add: leg_ok_def)
  have shift: "wrap64 (wrap64 (x + a) + y) = wrap64 (x + (a + y))" for x a y
    by (simp add: wrap64_add_wrap add.assoc)
  from l show ?case
    using Cons.IH [OF ls] Cons.prems(2,3) by (auto simp: shift)
qed simp

lemma AssertBalanced_eq:
  "AssertBalanced ls = Inr () \<longleftrightarrow> 2 \<le> length ls \<and> list_all leg_ok ls \<and>
     wrap64 (side_total SideDebit ls) = wrap64 (side_total SideCredit ls)"
proof -
  have "list_all leg_ok ls" if "assert_legs 0 0 0 ls = Inr r" for r
    using that by (rule assert_legs_valid)
  then show ?thesis
    using assert_legs_totals [of ls 0 0 0]
    by (auto simp: AssertBalanced_def bindE_eq_Inr split: prod.splits if_splits)
qed

lemma wrap64_eq_iff: "wrap64 a = wrap64 b \<longleftrightarrow> a mod 18446744073709551616 = b mod 18446744073709551616"
  by (simp add: wrap64_def mod_eq_dvd_iff)

lemma checked_legs_Inr:
  "checked_legs ls = Inr ls' \<longleftrightarrow> ls' = ls \<and> AssertBalanced ls = Inr ()"
  by (auto simp: checked_legs_def bindE_eq_Inr)

text \<open>A template call is checked legs under a guard: when nothing wraps, the result is balanced.\<close>

lemma checked_legs_balanced:
  assumes "side_total SideDebit ls = side_total SideCredit ls"
  shows "checked_legs ls = Inr ls' \<longleftrightarrow> ls' = ls \<and> balanced ls"
  using assms by (auto simp: checked_legs_Inr AssertBalanced_eq balanced_def)

lemma leg_update_fields [simp]:
  "leg_Side (l\<lparr>leg_SettlementLotID := i\<rparr>) = leg_Side l"
  "leg_Side (l\<lparr>leg_AvailableAt := t\<rparr>) = leg_Side l"
  "leg_AmountIDR (l\<lparr>leg_SettlementLotID := i\<rparr>) = leg_AmountIDR l"
  "leg_AmountIDR (l\<lparr>leg_AvailableAt := t\<rparr>) = leg_AmountIDR l"
  by simp_all
subsection \<open>The templates build balanced journals\<close>

text \<open>
  A call of one of the nine builders with its arguments. \<open>template_fits\<close> says that the one sum
  the builder forms stays inside int64 (rupiah amounts below 9.2 * 10^18); \<open>template_valid\<close> is
  the accounting condition of the template over mathematical integers; \<open>template_wallet\<close> is
  what the journal does to a merchant's (pending, available) wallet.
\<close>

datatype template_call =
    PaymentCapture (tc_gross: i64) (tc_percent: i64) (tc_fixed: i64) (tc_net: i64) string time
  | SettlementRelease i64 string time
  | WithdrawalReserve i64
  | WithdrawalRelease i64
  | WithdrawalComplete i64 i64 i64 i64
  | FeeSettleEqual i64
  | FeeSettleHigher i64 i64
  | FeeSettleLower i64 i64
  | WithdrawalRecapture i64 i64 i64

fun build_template :: "template_call \<Rightarrow> EntryLeg list result" where
  "build_template (PaymentCapture g p f n lot at) = BuildPaymentCaptureLegs g p f n lot at"
| "build_template (SettlementRelease n lot at) = BuildSettlementReleaseLegs n lot at"
| "build_template (WithdrawalReserve w) = BuildWithdrawalReserveLegs w"
| "build_template (WithdrawalRelease w) = BuildWithdrawalReleaseLegs w"
| "build_template (WithdrawalComplete w p q n) = BuildWithdrawalCompleteLegs w p q n"
| "build_template (FeeSettleEqual q) = BuildProviderFeeSettleEqualLegs q"
| "build_template (FeeSettleHigher q a) = BuildProviderFeeSettleHigherLegs q a"
| "build_template (FeeSettleLower q a) = BuildProviderFeeSettleLowerLegs q a"
| "build_template (WithdrawalRecapture a r w) = BuildWithdrawalRecaptureLegs a r w"

fun template_fits :: "template_call \<Rightarrow> bool" where
  "template_fits (PaymentCapture g p f n lot at) = (in_i64 g \<and> in_i64 (p + f) \<and> in_i64 (p + f + n))"
| "template_fits (WithdrawalComplete w p q n) = (in_i64 w \<and> in_i64 (p + q) \<and> in_i64 (p + q + n))"
| "template_fits (FeeSettleHigher q a) = (in_i64 q \<and> in_i64 a)"
| "template_fits (FeeSettleLower q a) = (in_i64 q \<and> in_i64 a)"
| "template_fits (WithdrawalRecapture a r w) = (in_i64 w \<and> in_i64 (a + r))"
| "template_fits _ = True"

fun template_valid :: "template_call \<Rightarrow> bool" where
  "template_valid (PaymentCapture g p f n lot at) = (0 < n \<and> 0 \<le> p \<and> 0 \<le> f \<and> p + f + n = g)"
| "template_valid (SettlementRelease n lot at) = (0 < n)"
| "template_valid (WithdrawalReserve w) = (0 < w)"
| "template_valid (WithdrawalRelease w) = (0 < w)"
| "template_valid (WithdrawalComplete w p q n) = (0 < n \<and> 0 \<le> p \<and> 0 \<le> q \<and> p + q + n = w)"
| "template_valid (FeeSettleEqual q) = (0 < q)"
| "template_valid (FeeSettleHigher q a) = (0 < q \<and> q < a)"
| "template_valid (FeeSettleLower q a) = (0 \<le> a \<and> a < q)"
| "template_valid (WithdrawalRecapture a r w) = (0 \<le> a \<and> 0 \<le> r \<and> a + r = w \<and> 0 < w)"

fun template_wallet :: "template_call \<Rightarrow> int \<times> int" where
  "template_wallet (PaymentCapture g p f n lot at) = (n, 0)"
| "template_wallet (SettlementRelease n lot at) = (- n, n)"
| "template_wallet (WithdrawalReserve w) = (0, - w)"
| "template_wallet (WithdrawalRelease w) = (0, w)"
| "template_wallet (WithdrawalRecapture a r w) = (0, - a)"
| "template_wallet _ = (0, 0)"

lemmas build_defs = BuildPaymentCaptureLegs_def BuildSettlementReleaseLegs_def
  BuildWithdrawalReserveLegs_def BuildWithdrawalReleaseLegs_def BuildWithdrawalCompleteLegs_def
  BuildProviderFeeSettleEqualLegs_def BuildProviderFeeSettleHigherLegs_def
  BuildProviderFeeSettleLowerLegs_def BuildWithdrawalRecaptureLegs_def

lemma in_i64_diff_pos: "in_i64 a \<Longrightarrow> 0 \<le> b \<Longrightarrow> b \<le> a \<Longrightarrow> wrap64 (a - b) = a - b"
  by (rule wrap64_id) (auto simp: i64_bounds)

lemma build_template_cases:
  assumes "template_fits t"
  shows "(\<exists>ls. build_template t = Inr ls) \<longleftrightarrow> template_valid t"
  using assms
  by (cases t)
    (auto simp: build_defs checked_legs_Inr AssertBalanced_eq in_i64_diff_pos add.commute)

lemma build_template_balanced:
  assumes "template_fits t" and "build_template t = Inr ls"
  shows "balanced ls"
  using assms
  by (cases t)
    (auto simp: build_defs checked_legs_Inr AssertBalanced_eq balanced_def in_i64_diff_pos split: if_splits)

lemma build_template_wallet:
  assumes "build_template t = Inr ls"
  shows "account_delta AcctMerchantPending ls = fst (template_wallet t)"
    and "account_delta AcctMerchantAvailable ls = snd (template_wallet t)"
    and "account_delta AcctMerchantHeld ls = 0"
  using assms
  by (cases t; auto simp: build_defs checked_legs_Inr split: if_splits)+
text \<open>
  \<open>AssertBalanced\<close> (templates.go) accepts a list of legs exactly when it has at least two legs,
  all of them positive debits or credits, and the two sides agree modulo 2^64: the accumulators are
  int64, so agreement of the true totals is implied only while they fit.
\<close>

theorem AssertBalanced_exact:
  "AssertBalanced legs = Inr () \<longleftrightarrow> 2 \<le> length legs \<and> list_all leg_ok legs \<and>
     side_total SideDebit legs mod 18446744073709551616 =
     side_total SideCredit legs mod 18446744073709551616"
  by (simp add: AssertBalanced_eq wrap64_eq_iff)

text \<open>
  C37. Each of the nine journal templates, called with amounts whose sum fits in an int64, returns
  legs exactly when the accounting condition of the template holds (for a capture: the net is
  positive, the fee parts are not negative, and fees plus net are the gross), and the legs are then
  a balanced journal; otherwise it returns an error.
\<close>

theorem templates_build_balanced_journals:
  assumes "template_fits t"
  shows "if template_valid t then \<exists>legs. build_template t = Inr legs \<and> balanced legs
         else \<exists>e. build_template t = Inl e"
proof (cases "build_template t")
  case (Inl e)
  with build_template_cases [OF assms] show ?thesis by auto
next
  case (Inr legs)
  with build_template_cases [OF assms] build_template_balanced [OF assms Inr] show ?thesis by auto
qed

lemma templates_build_balanced_journals_witness:
  "(\<exists>legs. build_template (PaymentCapture 100000 3000 700 96300 ''lot_1'' 0) = Inr legs \<and> balanced legs) \<and>
   (\<exists>e. build_template (WithdrawalRecapture 1000 500 2000) = Inl e)"
  using templates_build_balanced_journals [of "PaymentCapture 100000 3000 700 96300 ''lot_1'' 0"]
    templates_build_balanced_journals [of "WithdrawalRecapture 1000 500 2000"]
  by (simp add: i64_bounds)

text \<open>
  The legs a template returns move the merchant's wallet by the template's amounts and by
  nothing else: a capture credits its net to pending, a release moves it to available, a reserve
  debits available and its release credits it back, completion and fee settlement leave the wallet
  alone, and no template touches the held wallet.
\<close>

theorem templates_wallet_effect:
  assumes "build_template t = Inr legs"
  shows "(account_delta AcctMerchantPending legs, account_delta AcctMerchantAvailable legs) =
           template_wallet t \<and> account_delta AcctMerchantHeld legs = 0"
  using build_template_wallet [OF assms] by simp

lemma templates_wallet_effect_witness:
  "\<exists>legs. build_template (SettlementRelease 500 ''lot'' 7) = Inr legs \<and>
     account_delta AcctMerchantPending legs = -500 \<and> account_delta AcctMerchantAvailable legs = 500"
proof -
  obtain legs where legs: "build_template (SettlementRelease 500 ''lot'' 7) = Inr legs"
    using build_template_cases [of "SettlementRelease 500 ''lot'' 7"] by auto
  with templates_wallet_effect [OF legs] show ?thesis by simp
qed

text \<open>
  The fee split: whatever the caller prefers, the two components add up to the fee, and they are
  not negative when the fee is not.
\<close>

lemma SplitFeeComponents_sum:
  assumes "in_i64 fee" and "0 \<le> fee" and "in_i64 p" and "in_i64 f"
    and "SplitFeeComponents fee p f = (p', f')"
  shows "wrap64 (p' + f') = fee" and "0 \<le> p'" and "0 \<le> f'"
proof -
  have "wrap64 (fee - 700) = fee - 700" if "700 \<le> fee"
    using assms(1) that by (intro wrap64_id) (simp add: i64_bounds)
  then show "wrap64 (p' + f') = fee" and "0 \<le> p'" and "0 \<le> f'"
    using assms by (auto simp: SplitFeeComponents_def split: if_splits)
qed

subsection \<open>The allocation is first in, first out\<close>

abbreviation remaining_of :: "SettlementLot list \<Rightarrow> int" where
  "remaining_of lots \<equiv> sum_list (map lot_RemainingAmountIDR lots)"

abbreviation slices_total :: "AllocationSlice list \<Rightarrow> int" where
  "slices_total sl \<equiv> sum_list (map sl_AmountIDR sl)"

definition slice_of :: "SettlementLot \<Rightarrow> i64 \<Rightarrow> AllocationSlice" where
  "slice_of lot a = \<lparr>sl_Source = lot_Source lot, sl_SettlementLotID = lot_ID lot, sl_AmountIDR = a,
     sl_AvailableAt = lot_AvailableAt lot\<rparr>"

lemma slice_of_amount [simp]: "sl_AmountIDR (slice_of lot a) = a"
  by (simp add: slice_of_def)

text \<open>The specification: use up whole lots from the front, then a part of the next one.\<close>

fun fifo_spec :: "int \<Rightarrow> SettlementLot list \<Rightarrow> AllocationSlice list" where
  "fifo_spec r [] = []"
| "fifo_spec r (lot # lots) =
     (if r \<le> 0 then []
      else slice_of lot (min r (lot_RemainingAmountIDR lot)) # fifo_spec (r - lot_RemainingAmountIDR lot) lots)"

lemma fifo_spec_none [simp]: "r \<le> 0 \<Longrightarrow> fifo_spec r lots = []"
  by (cases lots) simp_all

lemma lot_eligible_pos: "lot_eligible l \<Longrightarrow> 0 < lot_RemainingAmountIDR l"
  by (simp add: lot_eligible_def)

lemma fifo_take_eq:
  assumes "list_all lot_eligible lots" and "0 \<le> r"
  shows "fifo_take r lots = (fifo_spec r lots, max 0 (r - remaining_of lots))"
  using assms
proof (induction lots arbitrary: r)
  case (Cons l ls)
  have l: "0 < lot_RemainingAmountIDR l" and ls: "list_all lot_eligible ls"
    using Cons.prems by (simp_all add: lot_eligible_pos)
  have nonneg: "0 \<le> remaining_of ls"
    using ls by (intro sum_list_nonneg) (auto simp: list_all_iff intro: less_imp_le lot_eligible_pos)
  show ?case
  proof (cases "lot_RemainingAmountIDR l > r")
    case True
    then show ?thesis
      using Cons.IH [OF ls, of 0] nonneg l Cons.prems(2) by (simp add: slice_of_def)
  next
    case False
    then show ?thesis
      using Cons.IH [OF ls, of "r - lot_RemainingAmountIDR l"] nonneg l Cons.prems(2)
      by (simp add: slice_of_def algebra_simps Let_def)
  qed
qed simp

lemma fifo_spec_total:
  assumes "list_all lot_eligible lots" and "0 \<le> r" and "r \<le> remaining_of lots"
  shows "slices_total (fifo_spec r lots) = r"
  using assms
proof (induction lots arbitrary: r)
  case (Cons l ls)
  have "0 < lot_RemainingAmountIDR l" using Cons.prems by (simp add: lot_eligible_pos)
  then show ?case
    using Cons.IH [of "r - lot_RemainingAmountIDR l"] Cons.prems
    by (cases "r < lot_RemainingAmountIDR l") simp_all
qed simp

lemma fifo_order_eligible: "list_all lot_eligible (fifo_order lots)"
  by (simp add: fifo_order_def list_all_iff)
lemma remaining_fifo_order: "remaining_of (fifo_order lots) = remaining_of (filter lot_eligible lots)"
proof -
  have "sum_mset (mset (map f (fifo_order lots))) = sum_mset (mset (map f (filter lot_eligible lots)))"
    for f :: "SettlementLot \<Rightarrow> int"
    by (simp add: fifo_order_def del: mset_filter)
  then show ?thesis by (simp only: sum_mset_sum_list)
qed

lemma fifo_spec_nonempty: "0 < r \<Longrightarrow> lots \<noteq> [] \<Longrightarrow> fifo_spec r lots \<noteq> []"
  by (cases lots) simp_all

text \<open>
  \<open>AllocateWithdrawalFIFO\<close> succeeds exactly when the amount is positive and the
  lots that are open (available or partly consumed, with something remaining) hold at least that
  amount. Its slices then use the open lots up one after the other in the order (available_at, id),
  the last one only as far as needed, and the source is the slices' common source or MIXED.
\<close>

lemma AllocateWithdrawalFIFO_eq:
  "if 0 < amount \<and> amount \<le> remaining_of (filter lot_eligible lots)
   then let slices = fifo_spec amount (fifo_order lots) in
     AllocateWithdrawalFIFO amount lots =
       Inr \<lparr>wa_AmountDebited = amount,
            wa_Source = (if length (remdups (map sl_Source slices)) = 1 then sl_Source (hd slices) else SourceMixed),
            wa_Allocations = slices\<rparr>
   else \<exists>e. AllocateWithdrawalFIFO amount lots = Inl e"
proof (cases "0 < amount")
  case True
  define L where "L = fifo_order lots"
  have rem: "remaining_of (filter lot_eligible lots) = remaining_of L"
    by (simp add: L_def remaining_fifo_order)
  have take: "fifo_take amount L = (fifo_spec amount L, max 0 (amount - remaining_of L))"
    unfolding L_def by (rule fifo_take_eq) (use True fifo_order_eligible in auto)
  show ?thesis
  proof (cases "amount \<le> remaining_of L")
    case False
    then show ?thesis
      using True take rem by (simp add: AllocateWithdrawalFIFO_def L_def)
  next
    case enough: True
    then have "L \<noteq> []" using True by auto
    then have ne: "fifo_spec amount L \<noteq> []" using True by (rule fifo_spec_nonempty [rotated])
    have src: "wa_src = [s] \<Longrightarrow> s = sl_Source (hd (fifo_spec amount L))"
      if "wa_src = remdups (map sl_Source (fifo_spec amount L))" for wa_src s
      using ne that by (metis hd_in_set imageI list.set(1) list.set(2) list.set_map set_remdups singletonD
          empty_iff insert_iff)
    show ?thesis
      using True enough take rem ne src
      by (auto simp: AllocateWithdrawalFIFO_def L_def [symmetric] Let_def split: list.split)
  qed
qed (simp add: AllocateWithdrawalFIFO_def)

lemma fifo_spec_older_used:
  assumes "sorted (map (\<lambda>l. (lot_AvailableAt l, lot_ID l)) lots)" and "list_all lot_eligible lots"
    and "l \<in> set lots" and "s \<in> set (fifo_spec r lots)"
    and "(lot_AvailableAt l, lot_ID l) < (sl_AvailableAt s, sl_SettlementLotID s)"
  shows "slice_of l (lot_RemainingAmountIDR l) \<in> set (fifo_spec r lots)"
  using assms
proof (induction lots arbitrary: r)
  case (Cons x xs)
  have r: "0 < r" using Cons.prems(4) by (cases "0 < r") simp_all
  have "s \<noteq> slice_of x (min r (lot_RemainingAmountIDR x))"
  proof
    assume "s = slice_of x (min r (lot_RemainingAmountIDR x))"
    then have "(lot_AvailableAt l, lot_ID l) < (lot_AvailableAt x, lot_ID x)"
      using Cons.prems(5) by (simp add: slice_of_def)
    moreover have "(lot_AvailableAt x, lot_ID x) \<le> (lot_AvailableAt l, lot_ID l)"
      using Cons.prems(1,3) by auto
    ultimately show False by (meson leD)
  qed
  with Cons.prems(4) r have s: "s \<in> set (fifo_spec (r - lot_RemainingAmountIDR x) xs)" by simp
  then have left: "0 < r - lot_RemainingAmountIDR x"
    by (cases "0 < r - lot_RemainingAmountIDR x") simp_all
  show ?case
  proof (cases "l = x")
    case True
    with r left show ?thesis by (simp add: min_def)
  next
    case False
    then have "slice_of l (lot_RemainingAmountIDR l) \<in> set (fifo_spec (r - lot_RemainingAmountIDR x) xs)"
      using Cons.IH [OF _ _ _ s Cons.prems(5)] Cons.prems(1,2,3) by simp
    with r show ?thesis by simp
  qed
qed simp

lemma AllocateWithdrawalFIFO_slices:
  assumes "AllocateWithdrawalFIFO amount lots = Inr wa"
  shows "0 < amount" and "amount \<le> remaining_of (fifo_order lots)"
    and "wa_Allocations wa = fifo_spec amount (fifo_order lots)" and "wa_AmountDebited wa = amount"
  using assms AllocateWithdrawalFIFO_eq [of amount lots]
  by (auto simp: Let_def remaining_fifo_order split: if_splits)
lemma fifo_order_sorted: "sorted (map (\<lambda>l. (lot_AvailableAt l, lot_ID l)) (fifo_order lots))"
  by (simp add: fifo_order_def)

lemma set_fifo_order [simp]: "set (fifo_order lots) = {l \<in> set lots. lot_eligible l}"
  by (simp add: fifo_order_def)

lemma fifo_spec_positive: "list_all lot_eligible lots \<Longrightarrow> s \<in> set (fifo_spec r lots) \<Longrightarrow> 0 < sl_AmountIDR s"
proof (induction lots arbitrary: r)
  case (Cons l ls)
  then have "0 < lot_RemainingAmountIDR l" by (simp add: lot_eligible_pos)
  with Cons show ?case by (auto split: if_splits)
qed simp

text \<open>
  \<open>AllocateWithdrawalFIFO\<close> (allocation.go) finds an allocation exactly when the amount is
  positive and the open lots (available or partly consumed, something remaining) hold that much.
\<close>

theorem AllocateWithdrawalFIFO_succeeds_iff:
  "(\<exists>wa. AllocateWithdrawalFIFO amount lots = Inr wa) \<longleftrightarrow>
     0 < amount \<and> amount \<le> remaining_of (filter lot_eligible lots)"
  using AllocateWithdrawalFIFO_eq [of amount lots] by (auto simp: Let_def split: if_splits)

text \<open>
  C38. A successful allocation debits exactly the requested amount: its slices are positive and add
  up to it. It is first in, first out: an open lot that became available before one of the lots
  used (ties broken by id) is itself used, in full.
\<close>

theorem AllocateWithdrawalFIFO_oldest_first:
  assumes "AllocateWithdrawalFIFO amount lots = Inr wa"
  shows "wa_AmountDebited wa = amount \<and> slices_total (wa_Allocations wa) = amount \<and>
    (\<forall>s \<in> set (wa_Allocations wa). 0 < sl_AmountIDR s \<and>
      (\<forall>l \<in> set lots. lot_eligible l \<longrightarrow>
         (lot_AvailableAt l, lot_ID l) < (sl_AvailableAt s, sl_SettlementLotID s) \<longrightarrow>
         slice_of l (lot_RemainingAmountIDR l) \<in> set (wa_Allocations wa)))"
proof -
  note wa = AllocateWithdrawalFIFO_slices [OF assms]
  have "slices_total (fifo_spec amount (fifo_order lots)) = amount"
    by (rule fifo_spec_total) (use wa fifo_order_eligible in auto)
  moreover have "0 < sl_AmountIDR s" if "s \<in> set (fifo_spec amount (fifo_order lots))" for s
    by (rule fifo_spec_positive [OF fifo_order_eligible that])
  moreover have "slice_of l (lot_RemainingAmountIDR l) \<in> set (fifo_spec amount (fifo_order lots))"
    if "s \<in> set (fifo_spec amount (fifo_order lots))" and "l \<in> set lots" and "lot_eligible l"
      and "(lot_AvailableAt l, lot_ID l) < (sl_AvailableAt s, sl_SettlementLotID s)" for s l
    by (rule fifo_spec_older_used [OF fifo_order_sorted fifo_order_eligible])
      (use that in auto)
  ultimately show ?thesis using wa by simp
qed

definition sample_lot :: "string \<Rightarrow> string \<Rightarrow> i64 \<Rightarrow> time \<Rightarrow> SettlementLot" where
  "sample_lot i src amt at = \<lparr>lot_ID = i, lot_MerchantID = ''m1'', lot_StoreID = None,
     lot_PaymentMode = ModeLive, lot_Source = src, lot_PaymentIntentID = None, lot_OrderID = None,
     lot_CaptureJournalID = None, lot_ReleaseJournalID = None, lot_OriginalAmountIDR = amt,
     lot_RemainingAmountIDR = amt, lot_Currency = CurrencyIDR, lot_Status = LotAvailable,
     lot_AvailableAt = at, lot_ReleasedAt = None, lot_CreatedAt = 0, lot_UpdatedAt = 0\<rparr>"

lemma AllocateWithdrawalFIFO_oldest_first_witness:
  "\<exists>wa. AllocateWithdrawalFIFO 700 [sample_lot ''b'' SourceQRISAPI 500 20, sample_lot ''a'' SourceStorefront 400 10]
       = Inr wa \<and> slices_total (wa_Allocations wa) = 700 \<and> wa_Source wa = SourceMixed"
proof -
  let ?lots = "[sample_lot ''b'' SourceQRISAPI 500 20, sample_lot ''a'' SourceStorefront 400 10]"
  have order: "fifo_order ?lots = [sample_lot ''a'' SourceStorefront 400 10, sample_lot ''b'' SourceQRISAPI 500 20]"
    by (simp add: fifo_order_def lot_eligible_def sample_lot_def)
  have elig: "filter lot_eligible ?lots = ?lots"
    by (simp add: lot_eligible_def sample_lot_def)
  obtain wa where wa: "AllocateWithdrawalFIFO 700 ?lots = Inr wa" "wa_Source wa = SourceMixed"
    using AllocateWithdrawalFIFO_eq [of 700 ?lots] unfolding order elig
    by (auto simp: sample_lot_def slice_of_def Let_def)
  with AllocateWithdrawalFIFO_oldest_first [OF wa(1)] show ?thesis by auto
qed

text \<open>Journal references of different templates or different ids never coincide.\<close>

definition journal_refs :: "(string \<Rightarrow> string) list" where
  "journal_refs = [JournalReferencePaymentCapture, JournalReferenceSettlementRelease,
     JournalReferenceWithdrawalReserve, JournalReferenceWithdrawalRelease,
     JournalReferenceWithdrawalComplete, JournalReferenceWithdrawalFeeSettle,
     JournalReferenceWithdrawalRecapture]"

lemma journal_refs_inj:
  assumes "f \<in> set journal_refs" and "g \<in> set journal_refs" and "f i = g j"
  shows "f = g \<and> i = j"
  using assms by (auto simp: journal_refs_def journal_reference_defs)

lemma journal_ref_nonempty: "f \<in> set journal_refs \<Longrightarrow> f i \<noteq> []"
  by (auto simp: journal_refs_def journal_reference_defs)

end
