(* ===== verification/Ledger_Store.thy ===== *)
theory Ledger_Store
  imports Fees Ledger
begin

text \<open>
  The ledger tables and their repository (\<open>internal/adapters/postgres/ledger_repo.go\<close>), with the
  posting routine \<open>post_ledger_transaction\<close> and the projection rebuild of
  \<open>migrations/000018_ledger.up.sql\<close> as the SQL text has them: guards in order, idempotent replay by
  reference and by key, one entry and one projection update per leg, CHECK constraints, unique
  indexes and bigint overflow as errors, and the whole statement undone when it fails.

  Modelling choices: instants are kept at nanosecond resolution (timestamptz keeps microseconds);
  row versions are unbounded; JSON encoding of the legs and its decoding by the routine are the
  identity; the deferred balance trigger of \<open>ledger_journals\<close> is not a separate step, because the
  journals the routine inserts satisfy it (\<open>journals_balanced\<close> below).
\<close>

subsection \<open>Calendar months and days, as \<open>to_char\<close> prints them\<close>

definition civil :: "time \<Rightarrow> int \<times> int \<times> int" where
  "civil t =
    (let z = t div 86400000000000 + 719468;
         era = z div 146097;
         doe = z mod 146097;
         yoe = (doe - doe div 1460 + doe div 36524 - doe div 146096) div 365;
         doy = doe - (365 * yoe + yoe div 4 - yoe div 100);
         mp = (5 * doy + 2) div 153;
         d = doy - (153 * mp + 2) div 5 + 1;
         m = (if mp < 10 then mp + 3 else mp - 9)
     in (yoe + era * 400 + (if m \<le> 2 then 1 else 0), m, d))"

definition pad2 :: "int \<Rightarrow> string" where
  "pad2 n = (if n < 10 then CHR ''0'' # show_int n else take 2 (show_int n))"

definition pad4 :: "int \<Rightarrow> string" where
  "pad4 n = (let s = show_int n in replicate (4 - length s) (CHR ''0'') @ s)"

definition month_of :: "time \<Rightarrow> string" where
  "month_of t = (case civil t of (y, m, d) \<Rightarrow> pad4 y @ ''-'' @ pad2 m)"

definition day_of :: "time \<Rightarrow> string" where
  "day_of t = (case civil t of (y, m, d) \<Rightarrow> pad4 y @ ''-'' @ pad2 m @ ''-'' @ pad2 d)"

subsection \<open>Tables\<close>

record RevenuePoint =
  rp_Day :: string
  rp_Revenue :: i64
  rp_Orders :: i64

record SettlementLink =
  sk_LedgerJournalID :: "string option"
  sk_FeePercentIDR :: "i64 option"
  sk_FeeFixedIDR :: "i64 option"
  sk_SettlementLotID :: "string option"
  sk_AvailableAt :: "time option"

record ledger_db = fee_db +
  journals :: "Journal list"
  entries :: "Entry list"
  lots :: "SettlementLot list"
  balances :: "string \<times> string \<Rightarrow> Balance option"
  source_balances :: "string \<times> string \<times> string \<Rightarrow> SourceBalance option"
  payment_settlements :: "string \<Rightarrow> SettlementLink option"

record PostJournalParams =
  pj_JournalID :: string
  pj_MerchantID :: string
  pj_StoreID :: string
  pj_PaymentMode :: string
  pj_Source :: string
  pj_TemplateCode :: string
  pj_ReferenceType :: string
  pj_ReferenceID :: string
  pj_JournalReference :: string
  pj_IdempotencyKey :: string
  pj_Description :: string
  pj_PaymentIntentID :: string
  pj_OrderID :: string
  pj_SettlementLotID :: string
  pj_FeeSnapshotID :: string
  pj_GrossIDR :: "i64 option"
  pj_FeePercentIDR :: "i64 option"
  pj_FeeFixedIDR :: "i64 option"
  pj_MerchantNetIDR :: "i64 option"
  pj_PostedAt :: time
  pj_Legs :: "EntryLeg list"

record LedgerListFilter =
  lf_MerchantID :: string
  lf_PaymentMode :: string
  lf_Source :: "string option"
  lf_Template :: "string option"
  lf_CursorAt :: "time option"
  lf_CursorID :: "string option"
  lf_Limit :: int

definition chart_of_accounts :: "string list" where
  "chart_of_accounts = [AcctXenditReceivable, AcctXenditCash, AcctXenditProviderExpense,
     AcctMerchantPending, AcctMerchantAvailable, AcctMerchantHeld, AcctMerchantRecoveryReceivable,
     AcctPlatformFeeRevenue, AcctPaymentProcessingRevenue, AcctProviderDisbursementPayable,
     AcctProviderFeeVarianceIncome, AcctPlatformProviderSubsidy, AcctPlatformSubsidy,
     AcctProviderReversalClearing, AcctWithdrawalClearing]"

definition fee_components :: "string list" where
  "fee_components = [''GROSS'', ''MERCHANT_NET'', ''FEE_PERCENT'', ''FEE_FIXED'', ''PROVIDER_COST'',
     ''WITHDRAWAL'', ''PLATFORM_FEE'', ''PROVIDER_FEE'', ''VARIANCE'', ''RECOVERY'']"

abbreviation wallet_source :: "string \<Rightarrow> bool" where
  "wallet_source s \<equiv> s = SourceStorefront \<or> s = SourceQRISAPI"

definition nullif :: "string \<Rightarrow> string option" where
  "nullif s = (if s = [] then None else Some s)"

definition zero_balance :: "string \<Rightarrow> string \<Rightarrow> time \<Rightarrow> Balance" where
  "zero_balance m mode at = \<lparr>b_MerchantID = m, b_PaymentMode = mode, b_AvailableIDR = 0,
     b_PendingIDR = 0, b_HeldIDR = 0, b_LifetimeGrossIDR = 0, b_LifetimeFeePercentIDR = 0,
     b_LifetimeFeeFixedIDR = 0, b_LifetimeNetIDR = 0, b_MonthGrossIDR = 0, b_MonthFeePercentIDR = 0,
     b_MonthFeeFixedIDR = 0, b_MonthNetIDR = 0, b_MonthBucket = [], b_Currency = CurrencyIDR,
     b_Version = 0, b_UpdatedAt = at\<rparr>"

definition zero_source_balance :: "string \<Rightarrow> string \<Rightarrow> string \<Rightarrow> time \<Rightarrow> SourceBalance" where
  "zero_source_balance m mode src at = \<lparr>sb_MerchantID = m, sb_PaymentMode = mode, sb_Source = src,
     sb_AvailableIDR = 0, sb_PendingIDR = 0, sb_HeldIDR = 0, sb_LifetimeNetIDR = 0,
     sb_Currency = CurrencyIDR, sb_UpdatedAt = at\<rparr>"

text \<open>The CHECK and bigint constraints of the two projection tables.\<close>

definition balance_fields :: "Balance \<Rightarrow> int list" where
  "balance_fields b = [b_AvailableIDR b, b_PendingIDR b, b_HeldIDR b, b_LifetimeGrossIDR b,
     b_LifetimeFeePercentIDR b, b_LifetimeFeeFixedIDR b, b_LifetimeNetIDR b, b_MonthGrossIDR b,
     b_MonthFeePercentIDR b, b_MonthFeeFixedIDR b, b_MonthNetIDR b]"

definition source_fields :: "SourceBalance \<Rightarrow> int list" where
  "source_fields s = [sb_AvailableIDR s, sb_PendingIDR s, sb_HeldIDR s, sb_LifetimeNetIDR s]"

definition row_check :: "string \<Rightarrow> int list \<Rightarrow> unit result" where
  "row_check constraint xs =
     (if \<not> list_all in_i64 xs then Inl (PgError ''bigint out of range'')
      else if \<not> list_all (\<lambda>x. 0 \<le> x) xs then Inl (PgError constraint) else Inr ())"

text \<open>\<open>UPDATE ... SET ... WHERE <primary key>\<close>: no row, no effect.\<close>

definition update_balance :: "string \<Rightarrow> string \<Rightarrow> (Balance \<Rightarrow> Balance) \<Rightarrow> ('m ledger_db_scheme, unit) op" where
  "update_balance m mode f = (\<lambda>w. case balances w (m, mode) of None \<Rightarrow> (Inr (), w)
     | Some b \<Rightarrow> (case row_check ''merchant_balances_nonneg'' (balance_fields (f b)) of
         Inl e \<Rightarrow> (Inl e, w)
       | Inr _ \<Rightarrow> (Inr (), w\<lparr>balances := (balances w)((m, mode) \<mapsto> f b)\<rparr>)))"

definition update_source ::
    "string \<Rightarrow> string \<Rightarrow> string \<Rightarrow> (SourceBalance \<Rightarrow> SourceBalance) \<Rightarrow> ('m ledger_db_scheme, unit) op" where
  "update_source m mode src f = (\<lambda>w. case source_balances w (m, mode, src) of None \<Rightarrow> (Inr (), w)
     | Some b \<Rightarrow> (case row_check ''merchant_balance_sources_nonneg'' (source_fields (f b)) of
         Inl e \<Rightarrow> (Inl e, w)
       | Inr _ \<Rightarrow> (Inr (), w\<lparr>source_balances := (source_balances w)((m, mode, src) \<mapsto> f b)\<rparr>)))"

definition EnsureBalance :: "string \<Rightarrow> string \<Rightarrow> time \<Rightarrow> ('m ledger_db_scheme, unit) op" where
  "EnsureBalance m mode at = (\<lambda>w.
     if mode \<noteq> ModeSandbox \<and> mode \<noteq> ModeLive then (Inl (PgError ''merchant_balances_mode_check''), w)
     else if balances w (m, mode) \<noteq> None then (Inr (), w)
     else if m \<notin> set (merchants w) then (Inl (PgError ''merchant_balances_merchant_id_fkey''), w)
     else (Inr (), w\<lparr>balances := (balances w)((m, mode) \<mapsto> zero_balance m mode at)\<rparr>))"

definition ensure_source :: "string \<Rightarrow> string \<Rightarrow> string \<Rightarrow> time \<Rightarrow> ('m ledger_db_scheme, unit) op" where
  "ensure_source m mode src at = (\<lambda>w.
     if source_balances w (m, mode, src) \<noteq> None then (Inr (), w)
     else if m \<notin> set (merchants w) then (Inl (PgError ''merchant_balance_sources_merchant_id_fkey''), w)
     else (Inr (), w\<lparr>source_balances :=
       (source_balances w)((m, mode, src) \<mapsto> zero_source_balance m mode src at)\<rparr>))"
subsection \<open>Posting a journal\<close>

text \<open>One leg of the wallet projection: credits add, debits subtract, other accounts leave it alone.\<close>

definition leg_delta :: "string \<Rightarrow> i64 \<Rightarrow> int" where
  "leg_delta side amt = (if side = SideCredit then amt else - amt)"

definition project_balance :: "string \<Rightarrow> int \<Rightarrow> time \<Rightarrow> Balance \<Rightarrow> Balance" where
  "project_balance acct \<delta> at b =
     (if acct = AcctMerchantPending
        then b\<lparr>b_PendingIDR := b_PendingIDR b + \<delta>, b_Version := b_Version b + 1, b_UpdatedAt := at\<rparr>
      else if acct = AcctMerchantAvailable
        then b\<lparr>b_AvailableIDR := b_AvailableIDR b + \<delta>, b_Version := b_Version b + 1, b_UpdatedAt := at\<rparr>
      else if acct = AcctMerchantHeld
        then b\<lparr>b_HeldIDR := b_HeldIDR b + \<delta>, b_Version := b_Version b + 1, b_UpdatedAt := at\<rparr>
      else b)"

definition project_source :: "string \<Rightarrow> int \<Rightarrow> time \<Rightarrow> SourceBalance \<Rightarrow> SourceBalance" where
  "project_source acct \<delta> at b =
     (if acct = AcctMerchantPending then b\<lparr>sb_PendingIDR := sb_PendingIDR b + \<delta>, sb_UpdatedAt := at\<rparr>
      else if acct = AcctMerchantAvailable
        then b\<lparr>sb_AvailableIDR := sb_AvailableIDR b + \<delta>, sb_UpdatedAt := at\<rparr>
      else if acct = AcctMerchantHeld then b\<lparr>sb_HeldIDR := sb_HeldIDR b + \<delta>, sb_UpdatedAt := at\<rparr>
      else b)"

definition wallet_account :: "string \<Rightarrow> bool" where
  "wallet_account acct \<longleftrightarrow>
     acct = AcctMerchantPending \<or> acct = AcctMerchantAvailable \<or> acct = AcctMerchantHeld"

definition project_leg :: "PostJournalParams \<Rightarrow> string \<Rightarrow> string \<Rightarrow> i64 \<Rightarrow> ('m ledger_db_scheme, unit) op" where
  "project_leg p acct side amt =
     (if wallet_account acct then
        bindS (update_balance (pj_MerchantID p) (pj_PaymentMode p)
            (project_balance acct (leg_delta side amt) (pj_PostedAt p)))
          (\<lambda>_. if wallet_source (pj_Source p)
             then update_source (pj_MerchantID p) (pj_PaymentMode p) (pj_Source p)
               (project_source acct (leg_delta side amt) (pj_PostedAt p))
             else ret ())
      else ret ())"

definition mk_entry :: "PostJournalParams \<Rightarrow> int \<Rightarrow> EntryLeg \<Rightarrow> Entry" where
  "mk_entry p line leg =
     \<lparr>e_ID = pj_JournalID p @ ''_e'' @ pad2 line, e_JournalID = pj_JournalID p,
      e_AccountCode = leg_AccountCode leg, e_Side = to_upper (leg_Side leg),
      e_AmountIDR = leg_AmountIDR leg, e_Currency = CurrencyIDR,
      e_FeeComponent = nullif (leg_FeeComponent leg), e_Source = pj_Source p,
      e_PaymentMode = pj_PaymentMode p, e_MerchantID = pj_MerchantID p,
      e_SettlementLotID = nullif (leg_SettlementLotID leg), e_AvailableAt = leg_AvailableAt leg,
      e_LineNo = line, e_CreatedAt = pj_PostedAt p\<rparr>"

definition insert_entry :: "Entry \<Rightarrow> ('m ledger_db_scheme, unit) op" where
  "insert_entry e = (\<lambda>w.
     if (case e_FeeComponent e of None \<Rightarrow> False | Some c \<Rightarrow> c \<notin> set fee_components)
       then (Inl (PgError ''ledger_entries_fee_component_check''), w)
     else if e_ID e \<in> set (map e_ID (entries w)) then (Inl (PgError ''unique_violation''), w)
     else (Inr (), w\<lparr>entries := entries w @ [e]\<rparr>))"

text \<open>One turn of the loop over \<open>p_entries\<close>, with the running debit and credit totals.\<close>

definition post_leg ::
    "PostJournalParams \<Rightarrow> int \<Rightarrow> i64 \<times> i64 \<Rightarrow> EntryLeg \<Rightarrow> ('m ledger_db_scheme, i64 \<times> i64) op" where
  "post_leg p line dc leg =
    (let acct = leg_AccountCode leg; side = to_upper (leg_Side leg); amt = leg_AmountIDR leg in
     if acct = [] then throw (PgError ''missing account_code'')
     else if acct \<notin> set chart_of_accounts then throw (PgError ''unknown account_code'')
     else if side \<noteq> SideDebit \<and> side \<noteq> SideCredit then throw (PgError ''invalid side'')
     else if amt \<le> 0 then throw (PgError ''amount must be positive whole IDR'')
     else bindS (liftE (if side = SideDebit
            then bindE (pg_bigint (fst dc + amt)) (\<lambda>d. Inr (d, snd dc))
            else bindE (pg_bigint (snd dc + amt)) (\<lambda>c. Inr (fst dc, c)))) (\<lambda>dc'.
       bindS (insert_entry (mk_entry p line leg)) (\<lambda>_.
       bindS (project_leg p acct side amt) (\<lambda>_. ret dc'))))"

fun post_legs ::
    "PostJournalParams \<Rightarrow> int \<Rightarrow> i64 \<times> i64 \<Rightarrow> EntryLeg list \<Rightarrow> ('m ledger_db_scheme, i64 \<times> i64) op" where
  "post_legs p line dc [] = ret dc"
| "post_legs p line dc (leg # legs) =
     bindS (post_leg p line dc leg) (\<lambda>dc'. post_legs p (line + 1) dc' legs)"

definition mk_journal :: "PostJournalParams \<Rightarrow> Journal" where
  "mk_journal p =
     \<lparr>j_ID = pj_JournalID p, j_MerchantID = pj_MerchantID p, j_StoreID = nullif (pj_StoreID p),
      j_PaymentMode = pj_PaymentMode p, j_Source = pj_Source p, j_TemplateCode = pj_TemplateCode p,
      j_ReferenceType = pj_ReferenceType p, j_ReferenceID = pj_ReferenceID p,
      j_JournalReference = pj_JournalReference p, j_IdempotencyKey = pj_IdempotencyKey p,
      j_Status = ''POSTED'', j_Currency = CurrencyIDR, j_Description = pj_Description p,
      j_PaymentIntentID = nullif (pj_PaymentIntentID p), j_OrderID = nullif (pj_OrderID p),
      j_SettlementLotID = nullif (pj_SettlementLotID p), j_FeeSnapshotID = nullif (pj_FeeSnapshotID p),
      j_GrossIDR = pj_GrossIDR p, j_FeePercentIDR = pj_FeePercentIDR p,
      j_FeeFixedIDR = pj_FeeFixedIDR p, j_MerchantNetIDR = pj_MerchantNetIDR p,
      j_PostedAt = pj_PostedAt p, j_CreatedAt = pj_PostedAt p\<rparr>"

definition insert_journal :: "Journal \<Rightarrow> ('m ledger_db_scheme, unit) op" where
  "insert_journal j = (\<lambda>w.
     if j_ReferenceType j = [] \<or> j_ReferenceID j = [] then (Inl (PgError ''ledger_journals_ref_nonempty''), w)
     else if j_ID j \<in> set (map j_ID (journals w))
        \<or> j_JournalReference j \<in> set (map j_JournalReference (journals w))
        \<or> j_IdempotencyKey j \<in> set (map j_IdempotencyKey (journals w))
       then (Inl (PgError ''unique_violation''), w)
     else if j_MerchantID j \<notin> set (merchants w) then (Inl (PgError ''ledger_journals_merchant_id_fkey''), w)
     else (Inr (), w\<lparr>journals := journals w @ [j]\<rparr>))"

definition coalesce0 :: "i64 option \<Rightarrow> i64" where
  "coalesce0 v = (case v of None \<Rightarrow> 0 | Some x \<Rightarrow> x)"

text \<open>The lifetime and month counters of a payment capture.\<close>

definition count_capture :: "PostJournalParams \<Rightarrow> Balance \<Rightarrow> Balance" where
  "count_capture p b =
     (let month = month_of (pj_PostedAt p);
          g = coalesce0 (pj_GrossIDR p); fp = coalesce0 (pj_FeePercentIDR p);
          ff = coalesce0 (pj_FeeFixedIDR p); n = coalesce0 (pj_MerchantNetIDR p);
          same = (b_MonthBucket b = month)
      in b\<lparr>b_LifetimeGrossIDR := b_LifetimeGrossIDR b + g,
           b_LifetimeFeePercentIDR := b_LifetimeFeePercentIDR b + fp,
           b_LifetimeFeeFixedIDR := b_LifetimeFeeFixedIDR b + ff,
           b_LifetimeNetIDR := b_LifetimeNetIDR b + n,
           b_MonthBucket := month,
           b_MonthGrossIDR := (if same then b_MonthGrossIDR b + g else g),
           b_MonthFeePercentIDR := (if same then b_MonthFeePercentIDR b + fp else fp),
           b_MonthFeeFixedIDR := (if same then b_MonthFeeFixedIDR b + ff else ff),
           b_MonthNetIDR := (if same then b_MonthNetIDR b + n else n),
           b_UpdatedAt := pj_PostedAt p\<rparr>)"

definition capture_counters :: "PostJournalParams \<Rightarrow> ('m ledger_db_scheme, unit) op" where
  "capture_counters p =
     (if pj_TemplateCode p = TemplatePaymentCapture \<and> coalesce0 (pj_GrossIDR p) > 0 then
        bindS (update_balance (pj_MerchantID p) (pj_PaymentMode p) (count_capture p)) (\<lambda>_.
          if wallet_source (pj_Source p)
          then update_source (pj_MerchantID p) (pj_PaymentMode p) (pj_Source p)
            (\<lambda>s. s\<lparr>sb_LifetimeNetIDR := sb_LifetimeNetIDR s + coalesce0 (pj_MerchantNetIDR p),
                   sb_UpdatedAt := pj_PostedAt p\<rparr>)
          else ret ())
      else ret ())"

definition assert_nonneg_wallet :: "string \<Rightarrow> string \<Rightarrow> ('m ledger_db_scheme, unit) op" where
  "assert_nonneg_wallet m mode = (\<lambda>w. case balances w (m, mode) of None \<Rightarrow> (Inr (), w)
     | Some b \<Rightarrow> if b_AvailableIDR b < 0 \<or> b_PendingIDR b < 0 \<or> b_HeldIDR b < 0
         then (Inl (PgError ''merchant balance projection would go negative''), w) else (Inr (), w))"

text \<open>The body of the routine after the idempotent replay.\<close>

definition post_body :: "PostJournalParams \<Rightarrow> ('m ledger_db_scheme, string) op" where
  "post_body p =
     bindS (EnsureBalance (pj_MerchantID p) (pj_PaymentMode p) (pj_PostedAt p)) (\<lambda>_.
     bindS (if wallet_source (pj_Source p)
        then ensure_source (pj_MerchantID p) (pj_PaymentMode p) (pj_Source p) (pj_PostedAt p) else ret ()) (\<lambda>_.
     bindS (insert_journal (mk_journal p)) (\<lambda>_.
     bindS (post_legs p 1 (0, 0) (pj_Legs p)) (\<lambda>(d, c).
     if d \<noteq> c then throw (PgError ''unbalanced journal'')
     else bindS (capture_counters p) (\<lambda>_.
     bindS (assert_nonneg_wallet (pj_MerchantID p) (pj_PaymentMode p)) (\<lambda>_.
     ret (pj_JournalID p)))))))"

definition journal_by_reference :: "string \<Rightarrow> 'm ledger_db_scheme \<Rightarrow> Journal option" where
  "journal_by_reference ref w = find (\<lambda>j. j_JournalReference j = ref) (journals w)"

definition journal_by_key :: "string \<Rightarrow> 'm ledger_db_scheme \<Rightarrow> Journal option" where
  "journal_by_key key w = find (\<lambda>j. j_IdempotencyKey j = key) (journals w)"

definition existing_journal :: "PostJournalParams \<Rightarrow> 'm ledger_db_scheme \<Rightarrow> Journal option" where
  "existing_journal p w =
     (case journal_by_reference (pj_JournalReference p) w of
        Some j \<Rightarrow> Some j | None \<Rightarrow> journal_by_key (pj_IdempotencyKey p) w)"

text \<open>
  The whole routine: argument guards, replay, body. An error undoes the statement; on a unique
  violation the exception handler looks the journal up again in the restored state.
\<close>

definition post_ledger_transaction :: "PostJournalParams \<Rightarrow> ('m ledger_db_scheme, string) op" where
  "post_ledger_transaction p = (\<lambda>w.
     if pj_JournalID p = [] then (Inl (PgError ''journal_id required''), w)
     else if pj_MerchantID p = [] then (Inl (PgError ''merchant_id required''), w)
     else if pj_PaymentMode p \<noteq> ModeSandbox \<and> pj_PaymentMode p \<noteq> ModeLive
       then (Inl (PgError ''invalid payment_mode''), w)
     else if pj_Source p \<notin> {SourceStorefront, SourceQRISAPI, SourceMixed, SourceSystem}
       then (Inl (PgError ''invalid source''), w)
     else if pj_TemplateCode p = [] then (Inl (PgError ''template_code required''), w)
     else if pj_JournalReference p = [] then (Inl (PgError ''journal_reference required''), w)
     else if pj_IdempotencyKey p = [] then (Inl (PgError ''idempotency_key required''), w)
     else if length (pj_Legs p) < 2 then (Inl (PgError ''at least two entries required''), w)
     else case existing_journal p w of Some j \<Rightarrow> (Inr (j_ID j), w)
       | None \<Rightarrow> (case post_body p w of
           (Inr jid, w') \<Rightarrow> (Inr jid, w')
         | (Inl e, w') \<Rightarrow>
             (if e = PgError ''unique_violation''
              then (case existing_journal p w of Some j \<Rightarrow> (Inr (j_ID j), w) | None \<Rightarrow> (Inl e, w))
              else (Inl e, w))))"

definition PostJournal :: "PostJournalParams \<Rightarrow> ('m ledger_db_scheme, string) op" where
  "PostJournal p = post_ledger_transaction p"
subsection \<open>Reads and rebuild\<close>

definition opt_row :: "'a option \<Rightarrow> 'a result" where
  "opt_row r = (case r of None \<Rightarrow> Inl ErrNoRows | Some x \<Rightarrow> Inr x)"

lemma opt_row_simps [simp]: "opt_row None = Inl ErrNoRows" "opt_row (Some x) = Inr x"
  by (simp_all add: opt_row_def)

lemma opt_row_Inr [simp]: "opt_row r = Inr x \<longleftrightarrow> r = Some x"
  by (cases r) auto

definition GetJournalByReference :: "string \<Rightarrow> 'm ledger_db_scheme \<Rightarrow> Journal result" where
  "GetJournalByReference ref w = opt_row (journal_by_reference ref w)"

definition GetJournalByID :: "string \<Rightarrow> 'm ledger_db_scheme \<Rightarrow> Journal result" where
  "GetJournalByID i w = opt_row (find (\<lambda>j. j_ID j = i) (journals w))"

definition ListJournals :: "LedgerListFilter \<Rightarrow> 'm ledger_db_scheme \<Rightarrow> Journal list" where
  "ListJournals f w =
    (let limit = (if lf_Limit f \<le> 0 then 50 else lf_Limit f);
         opt = (\<lambda>v x. case v of None \<Rightarrow> True | Some y \<Rightarrow> x = y);
         after = (\<lambda>j. case lf_CursorAt f of None \<Rightarrow> True
           | Some t \<Rightarrow> j_PostedAt j < t \<or> (j_PostedAt j = t \<and>
               (case lf_CursorID f of None \<Rightarrow> False | Some i \<Rightarrow> j_ID j < i)))
     in take (nat limit) (rev (sort_key (\<lambda>j. (j_PostedAt j, j_ID j))
          (filter (\<lambda>j. j_MerchantID j = lf_MerchantID f \<and> j_PaymentMode j = lf_PaymentMode f \<and>
             opt (lf_Source f) (j_Source j) \<and> opt (lf_Template f) (j_TemplateCode j) \<and> after j)
           (journals w)))))"

definition ListEntriesByJournal :: "string \<Rightarrow> 'm ledger_db_scheme \<Rightarrow> Entry list" where
  "ListEntriesByJournal jid w = sort_key e_LineNo (filter (\<lambda>e. e_JournalID e = jid) (entries w))"

definition GetBalance :: "string \<Rightarrow> string \<Rightarrow> 'm ledger_db_scheme \<Rightarrow> Balance" where
  "GetBalance m mode w =
     (case balances w (m, mode) of Some b \<Rightarrow> b | None \<Rightarrow> zero_balance m mode time_zero)"

definition LockBalance :: "string \<Rightarrow> string \<Rightarrow> 'm ledger_db_scheme \<Rightarrow> Balance result" where
  "LockBalance m mode w = opt_row (balances w (m, mode))"

definition ListSourceBalances :: "string \<Rightarrow> string \<Rightarrow> 'm ledger_db_scheme \<Rightarrow> SourceBalance list" where
  "ListSourceBalances m mode w =
     List.map_filter (\<lambda>s. source_balances w (m, mode, s)) [SourceQRISAPI, SourceStorefront]"

definition entry_delta :: "string \<Rightarrow> Entry \<Rightarrow> int" where
  "entry_delta acct e =
     (if e_AccountCode e \<noteq> acct then 0 else if e_Side e = SideCredit then e_AmountIDR e else - e_AmountIDR e)"

definition entries_delta :: "string \<Rightarrow> Entry list \<Rightarrow> int" where
  "entries_delta acct es = sum_list (map (entry_delta acct) es)"

definition wallet_entries :: "string \<Rightarrow> string \<Rightarrow> Entry list \<Rightarrow> Entry list" where
  "wallet_entries m mode es = filter (\<lambda>e. e_MerchantID e = m \<and> e_PaymentMode e = mode) es"

definition captures_of :: "string \<Rightarrow> string \<Rightarrow> Journal list \<Rightarrow> Journal list" where
  "captures_of m mode js = filter (\<lambda>j. j_MerchantID j = m \<and> j_PaymentMode j = mode \<and>
     j_TemplateCode j = TemplatePaymentCapture \<and> j_Status j = ''POSTED'') js"

definition sum_field :: "(Journal \<Rightarrow> i64 option) \<Rightarrow> Journal list \<Rightarrow> int" where
  "sum_field f js = sum_list (map (\<lambda>j. coalesce0 (f j)) js)"

definition rebuilt_balance :: "string \<Rightarrow> string \<Rightarrow> 'm ledger_db_scheme \<Rightarrow> Balance" where
  "rebuilt_balance m mode w =
    (let es = wallet_entries m mode (entries w);
         js = captures_of m mode (journals w);
         month = month_of (clock w);
         mjs = filter (\<lambda>j. month_of (j_PostedAt j) = month) js
     in \<lparr>b_MerchantID = m, b_PaymentMode = mode,
         b_AvailableIDR = entries_delta AcctMerchantAvailable es,
         b_PendingIDR = entries_delta AcctMerchantPending es,
         b_HeldIDR = entries_delta AcctMerchantHeld es,
         b_LifetimeGrossIDR = sum_field j_GrossIDR js,
         b_LifetimeFeePercentIDR = sum_field j_FeePercentIDR js,
         b_LifetimeFeeFixedIDR = sum_field j_FeeFixedIDR js,
         b_LifetimeNetIDR = sum_field j_MerchantNetIDR js,
         b_MonthGrossIDR = sum_field j_GrossIDR mjs,
         b_MonthFeePercentIDR = sum_field j_FeePercentIDR mjs,
         b_MonthFeeFixedIDR = sum_field j_FeeFixedIDR mjs,
         b_MonthNetIDR = sum_field j_MerchantNetIDR mjs,
         b_MonthBucket = month, b_Currency = CurrencyIDR,
         b_Version = (case balances w (m, mode) of None \<Rightarrow> 0 | Some b \<Rightarrow> b_Version b + 1),
         b_UpdatedAt = clock w\<rparr>)"

definition rebuilt_source :: "string \<Rightarrow> string \<Rightarrow> string \<Rightarrow> 'm ledger_db_scheme \<Rightarrow> SourceBalance" where
  "rebuilt_source m mode src w =
    (let es = filter (\<lambda>e. e_Source e = src) (wallet_entries m mode (entries w));
         js = filter (\<lambda>j. j_Source j = src) (captures_of m mode (journals w))
     in \<lparr>sb_MerchantID = m, sb_PaymentMode = mode, sb_Source = src,
         sb_AvailableIDR = entries_delta AcctMerchantAvailable es,
         sb_PendingIDR = entries_delta AcctMerchantPending es,
         sb_HeldIDR = entries_delta AcctMerchantHeld es,
         sb_LifetimeNetIDR = sum_field j_MerchantNetIDR js, sb_Currency = CurrencyIDR,
         sb_UpdatedAt = clock w\<rparr>)"

definition put_source :: "string \<Rightarrow> string \<Rightarrow> string \<Rightarrow> ('m ledger_db_scheme, unit) op" where
  "put_source m mode src = (\<lambda>w.
     case row_check ''merchant_balance_sources_nonneg'' (source_fields (rebuilt_source m mode src w)) of
       Inl e \<Rightarrow> (Inl e, w)
     | Inr _ \<Rightarrow> if m \<notin> set (merchants w)
         then (Inl (PgError ''merchant_balance_sources_merchant_id_fkey''), w)
         else (Inr (), w\<lparr>source_balances :=
           (source_balances w)((m, mode, src) \<mapsto> rebuilt_source m mode src w)\<rparr>))"

text \<open>\<open>SELECT rebuild_merchant_balances(...)\<close>.\<close>

definition RebuildBalances :: "string \<Rightarrow> string \<Rightarrow> ('m ledger_db_scheme, unit) op" where
  "RebuildBalances m mode = with_tx (\<lambda>w.
     if mode \<noteq> ModeSandbox \<and> mode \<noteq> ModeLive then (Inl (PgError ''invalid payment_mode''), w)
     else case row_check ''merchant_balances_nonneg'' (balance_fields (rebuilt_balance m mode w)) of
       Inl e \<Rightarrow> (Inl e, w)
     | Inr _ \<Rightarrow> if m \<notin> set (merchants w) then (Inl (PgError ''merchant_balances_merchant_id_fkey''), w)
         else for_each (put_source m mode) [SourceStorefront, SourceQRISAPI]
           (w\<lparr>balances := (balances w)((m, mode) \<mapsto> rebuilt_balance m mode w)\<rparr>))"

subsection \<open>Settlement lots\<close>

definition lot_statuses :: "string list" where
  "lot_statuses = [LotPending, LotAvailable, LotPartiallyConsumed, LotConsumed, LotHeld]"

definition lot_check :: "SettlementLot \<Rightarrow> unit result" where
  "lot_check l =
     (if lot_PaymentMode l \<noteq> ModeSandbox \<and> lot_PaymentMode l \<noteq> ModeLive
        then Inl (PgError ''settlement_lots_mode_check'')
      else if \<not> wallet_source (lot_Source l) then Inl (PgError ''settlement_lots_source_check'')
      else if lot_Currency l \<noteq> CurrencyIDR then Inl (PgError ''settlement_lots_currency_check'')
      else if \<not> (0 < lot_OriginalAmountIDR l \<and> 0 \<le> lot_RemainingAmountIDR l \<and>
                lot_RemainingAmountIDR l \<le> lot_OriginalAmountIDR l)
        then Inl (PgError ''settlement_lots_amount_pos'')
      else if lot_Status l \<notin> set lot_statuses then Inl (PgError ''settlement_lots_status_check'')
      else Inr ())"

definition InsertSettlementLot :: "SettlementLot \<Rightarrow> ('m ledger_db_scheme, SettlementLot) op" where
  "InsertSettlementLot l = (\<lambda>w. case lot_check l of Inl e \<Rightarrow> (Inl e, w)
     | Inr _ \<Rightarrow>
       if lot_ID l \<in> set (map lot_ID (lots w)) \<or>
          (lot_PaymentIntentID l \<noteq> None \<and> lot_PaymentIntentID l \<in> set (map lot_PaymentIntentID (lots w)))
         then (Inl (PgError ''unique_violation''), w)
       else if lot_MerchantID l \<notin> set (merchants w) then (Inl (PgError ''settlement_lots_merchant_id_fkey''), w)
       else (Inr l, w\<lparr>lots := lots w @ [l]\<rparr>))"

definition GetLotByIntent :: "string \<Rightarrow> 'm ledger_db_scheme \<Rightarrow> SettlementLot result" where
  "GetLotByIntent i w = opt_row (find (\<lambda>l. lot_PaymentIntentID l = Some i) (lots w))"

definition GetLotByID :: "string \<Rightarrow> 'm ledger_db_scheme \<Rightarrow> SettlementLot result" where
  "GetLotByID i w = opt_row (find (\<lambda>l. lot_ID l = i) (lots w))"

text \<open>\<open>UPDATE settlement_lots SET ... WHERE id = ... AND guard\<close>: the rows that match, each checked.\<close>

definition update_lots ::
    "(SettlementLot \<Rightarrow> bool) \<Rightarrow> (SettlementLot \<Rightarrow> SettlementLot) \<Rightarrow> ('m ledger_db_scheme, unit) op" where
  "update_lots sel f = (\<lambda>w.
     case find (\<lambda>l. sel l \<and> lot_check (f l) \<noteq> Inr ()) (lots w) of
       Some l \<Rightarrow> (case lot_check (f l) of Inl e \<Rightarrow> (Inl e, w) | Inr _ \<Rightarrow> (Inr (), w))
     | None \<Rightarrow> (Inr (), w\<lparr>lots := map (\<lambda>l. if sel l then f l else l) (lots w)\<rparr>))"

definition UpdateLotAfterCapture :: "string \<Rightarrow> string \<Rightarrow> string \<Rightarrow> i64 \<Rightarrow> time \<Rightarrow> ('m ledger_db_scheme, unit) op" where
  "UpdateLotAfterCapture lotID captureJournalID status remaining at =
     update_lots (\<lambda>l. lot_ID l = lotID)
       (\<lambda>l. l\<lparr>lot_CaptureJournalID := Some captureJournalID, lot_Status := status,
              lot_RemainingAmountIDR := remaining, lot_UpdatedAt := at\<rparr>)"

definition UpdateLotAfterRelease :: "string \<Rightarrow> string \<Rightarrow> string \<Rightarrow> i64 \<Rightarrow> time \<Rightarrow> ('m ledger_db_scheme, unit) op" where
  "UpdateLotAfterRelease lotID releaseJournalID status remaining at =
     update_lots (\<lambda>l. lot_ID l = lotID)
       (\<lambda>l. l\<lparr>lot_ReleaseJournalID := Some releaseJournalID, lot_Status := status,
              lot_RemainingAmountIDR := remaining, lot_ReleasedAt := Some at, lot_UpdatedAt := at\<rparr>)"

definition ListAvailableLots :: "string \<Rightarrow> string \<Rightarrow> 'm ledger_db_scheme \<Rightarrow> SettlementLot list" where
  "ListAvailableLots m mode w =
     sort_key (\<lambda>l. (lot_AvailableAt l, lot_ID l))
       (filter (\<lambda>l. lot_MerchantID l = m \<and> lot_PaymentMode l = mode \<and> lot_RemainingAmountIDR l > 0 \<and>
          (lot_Status l = LotAvailable \<or> lot_Status l = LotPartiallyConsumed)) (lots w))"

definition ListDuePendingLots :: "time \<Rightarrow> int \<Rightarrow> 'm ledger_db_scheme \<Rightarrow> SettlementLot list" where
  "ListDuePendingLots asOf limit w =
     take (nat (if limit \<le> 0 then 100 else limit))
       (sort_key (\<lambda>l. (lot_AvailableAt l, lot_ID l))
          (filter (\<lambda>l. lot_Status l = LotPending \<and> lot_AvailableAt l \<le> asOf) (lots w)))"

definition ConsumeLotRemaining :: "string \<Rightarrow> i64 \<Rightarrow> time \<Rightarrow> ('m ledger_db_scheme, unit) op" where
  "ConsumeLotRemaining lotID amount at =
     update_lots (\<lambda>l. lot_ID l = lotID \<and> lot_RemainingAmountIDR l \<ge> amount \<and>
         (lot_Status l = LotAvailable \<or> lot_Status l = LotPartiallyConsumed))
       (\<lambda>l. l\<lparr>lot_RemainingAmountIDR := lot_RemainingAmountIDR l - amount,
              lot_Status := (if lot_RemainingAmountIDR l - amount \<le> 0 then LotConsumed else LotPartiallyConsumed),
              lot_UpdatedAt := at\<rparr>)"

definition RestoreLotRemaining :: "string \<Rightarrow> i64 \<Rightarrow> time \<Rightarrow> ('m ledger_db_scheme, unit) op" where
  "RestoreLotRemaining lotID amount at =
     update_lots (\<lambda>l. lot_ID l = lotID)
       (\<lambda>l. l\<lparr>lot_RemainingAmountIDR := lot_RemainingAmountIDR l + amount,
              lot_Status := (if lot_RemainingAmountIDR l + amount \<ge> lot_OriginalAmountIDR l
                then LotAvailable else LotPartiallyConsumed),
              lot_UpdatedAt := at\<rparr>)"

definition DefaultSettlementDelaySeconds :: i64 where
  "DefaultSettlementDelaySeconds = 86400"

definition SettlementDelaySeconds :: "'m ledger_db_scheme \<Rightarrow> i64" where
  "SettlementDelaySeconds w =
     (case schema_meta w ''settlement_delay_seconds'' of
        None \<Rightarrow> DefaultSettlementDelaySeconds
      | Some v \<Rightarrow> (case parse_int64 v of None \<Rightarrow> DefaultSettlementDelaySeconds | Some n \<Rightarrow> n))"

definition LinkPaymentSettlement ::
    "string \<Rightarrow> string \<Rightarrow> i64 \<Rightarrow> i64 \<Rightarrow> string \<Rightarrow> time \<Rightarrow> ('m ledger_db_scheme, unit) op" where
  "LinkPaymentSettlement settlementID journalID feePercent feeFixed lotID availableAt = (\<lambda>w.
     if payment_settlements w settlementID = None then (Inr (), w)
     else if journalID \<notin> set (map j_ID (journals w))
       then (Inl (PgError ''payment_settlements_ledger_journal_id_fkey''), w)
     else (Inr (), w\<lparr>payment_settlements := (payment_settlements w)(settlementID \<mapsto>
       \<lparr>sk_LedgerJournalID = Some journalID, sk_FeePercentIDR = Some feePercent,
        sk_FeeFixedIDR = Some feeFixed, sk_SettlementLotID = Some lotID,
        sk_AvailableAt = Some availableAt\<rparr>)\<rparr>))"

definition RevenueByDay :: "string \<Rightarrow> string \<Rightarrow> time \<Rightarrow> time \<Rightarrow> 'm ledger_db_scheme \<Rightarrow> RevenuePoint list" where
  "RevenueByDay m mode from_at to_at w =
    (let js = filter (\<lambda>j. j_PostedAt j \<ge> from_at \<and> j_PostedAt j < to_at) (captures_of m mode (journals w));
         day = (\<lambda>j. day_of (j_PostedAt j))
     in map (\<lambda>d. \<lparr>rp_Day = d, rp_Revenue = sum_field j_MerchantNetIDR (filter (\<lambda>j. day j = d) js),
           rp_Orders = int (length (filter (\<lambda>j. day j = d) js))\<rparr>)
         (sort (remdups (map day js))))"
subsection \<open>What a successful posting leaves\<close>

definition row_ok :: "int list \<Rightarrow> bool" where
  "row_ok xs \<longleftrightarrow> list_all (\<lambda>x. in_i64 x \<and> 0 \<le> x) xs"

lemma row_check_Inr [simp]: "row_check c xs = Inr u \<longleftrightarrow> row_ok xs"
  by (auto simp: row_check_def row_ok_def list_all_iff)

lemma row_check_Inl: "row_check c xs = Inl e \<Longrightarrow> \<not> row_ok xs"
  by (auto simp: row_check_def row_ok_def list_all_iff split: if_splits)

lemma update_balance_Inr:
  "balances w (m, mode) = Some b \<Longrightarrow> update_balance m mode f w = (Inr u, w') \<longleftrightarrow>
     row_ok (balance_fields (f b)) \<and> w' = w\<lparr>balances := (balances w)((m, mode) \<mapsto> f b)\<rparr>"
  using row_check_Inr [of "''merchant_balances_nonneg''" "balance_fields (f b)"]
  by (auto simp: update_balance_def dest: row_check_Inl split: sum.splits)

lemma update_source_Inr:
  "source_balances w (m, mode, src) = Some b \<Longrightarrow> update_source m mode src f w = (Inr u, w') \<longleftrightarrow>
     row_ok (source_fields (f b)) \<and> w' = w\<lparr>source_balances := (source_balances w)((m, mode, src) \<mapsto> f b)\<rparr>"
  using row_check_Inr [of "''merchant_balance_sources_nonneg''" "source_fields (f b)"]
  by (auto simp: update_source_def dest: row_check_Inl split: sum.splits)

fun mk_entries :: "PostJournalParams \<Rightarrow> int \<Rightarrow> EntryLeg list \<Rightarrow> Entry list" where
  "mk_entries p n [] = []"
| "mk_entries p n (l # ls) = mk_entry p n l # mk_entries p (n + 1) ls"

definition leg_balance :: "PostJournalParams \<Rightarrow> EntryLeg \<Rightarrow> Balance \<Rightarrow> Balance" where
  "leg_balance p l =
     project_balance (leg_AccountCode l) (leg_delta (to_upper (leg_Side l)) (leg_AmountIDR l)) (pj_PostedAt p)"

definition leg_source :: "PostJournalParams \<Rightarrow> EntryLeg \<Rightarrow> SourceBalance \<Rightarrow> SourceBalance" where
  "leg_source p l =
     project_source (leg_AccountCode l) (leg_delta (to_upper (leg_Side l)) (leg_AmountIDR l)) (pj_PostedAt p)"

abbreviation pj_row :: "PostJournalParams \<Rightarrow> string \<times> string" where
  "pj_row p \<equiv> (pj_MerchantID p, pj_PaymentMode p)"

abbreviation pj_source_row :: "PostJournalParams \<Rightarrow> string \<times> string \<times> string" where
  "pj_source_row p \<equiv> (pj_MerchantID p, pj_PaymentMode p, pj_Source p)"

text \<open>The three tables after the legs, given the rows \<open>b\<close> and \<open>sb\<close> they start from.\<close>

definition after_legs ::
    "PostJournalParams \<Rightarrow> Entry list \<Rightarrow> Balance \<Rightarrow> SourceBalance \<Rightarrow> 'm ledger_db_scheme \<Rightarrow> 'm ledger_db_scheme" where
  "after_legs p es b sb w = w\<lparr>entries := entries w @ es, balances := (balances w)(pj_row p \<mapsto> b),
     source_balances := (if wallet_source (pj_Source p) then (source_balances w)(pj_source_row p \<mapsto> sb)
       else source_balances w)\<rparr>"

lemma after_legs_after_legs [simp]:
  "after_legs p es' b' sb' (after_legs p es b sb w) = after_legs p (es @ es') b' sb' w"
  by (simp add: after_legs_def)

lemma after_legs_none:
  "balances w (pj_row p) = Some b \<Longrightarrow>
   wallet_source (pj_Source p) \<longrightarrow> source_balances w (pj_source_row p) = Some sb \<Longrightarrow>
   after_legs p [] b sb w = w"
  by (auto simp: after_legs_def fun_upd_idem)

lemma after_legs_fields [simp]:
  "entries (after_legs p es b sb w) = entries w @ es"
  "balances (after_legs p es b sb w) = (balances w)(pj_row p \<mapsto> b)"
  "source_balances (after_legs p es b sb w) =
     (if wallet_source (pj_Source p) then (source_balances w)(pj_source_row p \<mapsto> sb) else source_balances w)"
  "journals (after_legs p es b sb w) = journals w"
  "lots (after_legs p es b sb w) = lots w"
  "merchants (after_legs p es b sb w) = merchants w"
  "payment_settlements (after_legs p es b sb w) = payment_settlements w"
  by (simp_all add: after_legs_def)

lemma insert_entry_Inr:
  "insert_entry e w = (Inr u, w') \<longleftrightarrow>
     \<not> (case e_FeeComponent e of None \<Rightarrow> False | Some c \<Rightarrow> c \<notin> set fee_components) \<and>
     e_ID e \<notin> set (map e_ID (entries w)) \<and> w' = w\<lparr>entries := entries w @ [e]\<rparr>"
  by (auto simp: insert_entry_def)

lemma project_leg_Inr:
  assumes "project_leg p acct side amt w = (Inr u, w')"
    and "balances w (pj_row p) = Some b"
    and "wallet_source (pj_Source p) \<longrightarrow> source_balances w (pj_source_row p) = Some sb"
  shows "w' = after_legs p [] (project_balance acct (leg_delta side amt) (pj_PostedAt p) b)
      (project_source acct (leg_delta side amt) (pj_PostedAt p) sb) w \<and>
    (wallet_account acct \<longrightarrow>
       row_ok (balance_fields (project_balance acct (leg_delta side amt) (pj_PostedAt p) b)) \<and>
       (wallet_source (pj_Source p) \<longrightarrow>
          row_ok (source_fields (project_source acct (leg_delta side amt) (pj_PostedAt p) sb))))"
proof (cases "wallet_account acct")
  case False
  then have "project_balance acct d t b = b" and "project_source acct d t sb = sb" for d t
    by (simp_all add: wallet_account_def project_balance_def project_source_def)
  with False assms show ?thesis by (simp add: project_leg_def after_legs_none)
next
  case True
  define f where "f = project_balance acct (leg_delta side amt) (pj_PostedAt p)"
  obtain w1 where one: "row_ok (balance_fields (f b))" "w1 = w\<lparr>balances := (balances w)(pj_row p \<mapsto> f b)\<rparr>"
    and two: "(if wallet_source (pj_Source p)
       then update_source (pj_MerchantID p) (pj_PaymentMode p) (pj_Source p)
         (project_source acct (leg_delta side amt) (pj_PostedAt p)) else ret ()) w1 = (Inr u, w')"
    using assms(1) True
    by (auto simp: project_leg_def bindS_eq_Inr update_balance_Inr [OF assms(2)] f_def [symmetric])
  show ?thesis
  proof (cases "wallet_source (pj_Source p)")
    case src: True
    then have "source_balances w1 (pj_source_row p) = Some sb" using assms(3) one by simp
    with two src one show ?thesis
      by (simp add: update_source_Inr f_def after_legs_def)
  next
    case False
    with two have "w' = w1" by simp
    with one False show ?thesis by (simp add: f_def after_legs_def)
  qed
qed

definition db_leg_ok :: "EntryLeg \<Rightarrow> bool" where
  "db_leg_ok l \<longleftrightarrow> leg_AccountCode l \<in> set chart_of_accounts \<and> 0 < leg_AmountIDR l \<and>
     (to_upper (leg_Side l) = SideDebit \<or> to_upper (leg_Side l) = SideCredit)"

definition add_side :: "EntryLeg \<Rightarrow> int \<times> int \<Rightarrow> int \<times> int" where
  "add_side l dc = (if to_upper (leg_Side l) = SideDebit then (fst dc + leg_AmountIDR l, snd dc)
     else (fst dc, snd dc + leg_AmountIDR l))"

lemma post_leg_Inr:
  assumes run: "post_leg p n dc l w = (Inr dc', w')"
    and b: "balances w (pj_row p) = Some b"
    and sb: "wallet_source (pj_Source p) \<longrightarrow> source_balances w (pj_source_row p) = Some sb"
    and ok: "row_ok (balance_fields b)" "wallet_source (pj_Source p) \<longrightarrow> row_ok (source_fields sb)"
  shows "w' = after_legs p [mk_entry p n l] (leg_balance p l b) (leg_source p l sb) w"
    and "dc' = add_side l dc" and "db_leg_ok l" and "e_ID (mk_entry p n l) \<notin> e_ID ` set (entries w)"
    and "row_ok (balance_fields (leg_balance p l b))"
    and "wallet_source (pj_Source p) \<longrightarrow> row_ok (source_fields (leg_source p l sb))"
proof -
  have db: "db_leg_ok l"
    using run by (auto simp: post_leg_def Let_def db_leg_ok_def split: if_splits)
  then have g: "leg_AccountCode l \<noteq> []" "leg_AccountCode l \<in> set chart_of_accounts"
    "\<not> leg_AmountIDR l \<le> 0"
    "\<not> (to_upper (leg_Side l) \<noteq> SideDebit \<and> to_upper (leg_Side l) \<noteq> SideCredit)"
    by (auto simp: db_leg_ok_def chart_of_accounts_def)
  define w1 where "w1 = w\<lparr>entries := entries w @ [mk_entry p n l]\<rparr>"
  obtain u where dc: "dc' = add_side l dc" and fresh: "e_ID (mk_entry p n l) \<notin> e_ID ` set (entries w)"
    and pr: "project_leg p (leg_AccountCode l) (to_upper (leg_Side l)) (leg_AmountIDR l) w1 = (Inr u, w')"
    using run g
    by (auto simp: post_leg_def Let_def bindS_eq_Inr bindE_eq_Inr insert_entry_Inr add_side_def w1_def
        split: if_splits)
  have "balances w1 (pj_row p) = Some b"
    and "wallet_source (pj_Source p) \<longrightarrow> source_balances w1 (pj_source_row p) = Some sb"
    using b sb by (simp_all add: w1_def)
  note pl = project_leg_Inr [OF pr this, folded leg_balance_def leg_source_def]
  show "w' = after_legs p [mk_entry p n l] (leg_balance p l b) (leg_source p l sb) w"
    using pl by (simp add: w1_def after_legs_def)
  show "dc' = add_side l dc" "db_leg_ok l" "e_ID (mk_entry p n l) \<notin> e_ID ` set (entries w)"
    using dc db fresh by simp_all
  have id: "leg_balance p l b = b" "leg_source p l sb = sb" if "\<not> wallet_account (leg_AccountCode l)"
    using that by (simp_all add: leg_balance_def leg_source_def project_balance_def project_source_def wallet_account_def)
  show "row_ok (balance_fields (leg_balance p l b))"
    using pl ok id by (cases "wallet_account (leg_AccountCode l)") simp_all
  show "wallet_source (pj_Source p) \<longrightarrow> row_ok (source_fields (leg_source p l sb))"
    using pl ok id by (cases "wallet_account (leg_AccountCode l)") simp_all
qed
lemma post_legs_Inr:
  assumes "post_legs p n dc ls w = (Inr dc', w')"
    and "balances w (pj_row p) = Some b"
    and "wallet_source (pj_Source p) \<longrightarrow> source_balances w (pj_source_row p) = Some sb"
    and "row_ok (balance_fields b)" and "wallet_source (pj_Source p) \<longrightarrow> row_ok (source_fields sb)"
  shows "w' = after_legs p (mk_entries p n ls) (fold (leg_balance p) ls b) (fold (leg_source p) ls sb) w
    \<and> dc' = fold add_side ls dc \<and> list_all db_leg_ok ls
    \<and> (distinct (map e_ID (entries w)) \<longrightarrow> distinct (map e_ID (entries w')))
    \<and> row_ok (balance_fields (fold (leg_balance p) ls b))
    \<and> (wallet_source (pj_Source p) \<longrightarrow> row_ok (source_fields (fold (leg_source p) ls sb)))"
  using assms
proof (induction ls arbitrary: n dc w b sb)
  case Nil
  then show ?case by (simp add: after_legs_none)
next
  case (Cons l ls)
  obtain dc1 w1 where one: "post_leg p n dc l w = (Inr dc1, w1)"
    and rest: "post_legs p (n + 1) dc1 ls w1 = (Inr dc', w')"
    using Cons.prems(1) by (auto simp: bindS_eq_Inr)
  note l = post_leg_Inr [OF one Cons.prems(2-5)]
  have "balances w1 (pj_row p) = Some (leg_balance p l b)"
    and "wallet_source (pj_Source p) \<longrightarrow> source_balances w1 (pj_source_row p) = Some (leg_source p l sb)"
    by (simp_all add: l(1))
  note ih = Cons.IH [OF rest this l(5,6)]
  have "distinct (map e_ID (entries w)) \<Longrightarrow> distinct (map e_ID (entries w1))"
    using l(4) by (simp add: l(1))
  with ih have "distinct (map e_ID (entries w)) \<longrightarrow> distinct (map e_ID (entries w'))" by blast
  with ih l(1-3) show ?case by simp
qed

definition start_balance :: "PostJournalParams \<Rightarrow> 'm ledger_db_scheme \<Rightarrow> Balance" where
  "start_balance p w = (case balances w (pj_row p) of Some b \<Rightarrow> b
     | None \<Rightarrow> zero_balance (pj_MerchantID p) (pj_PaymentMode p) (pj_PostedAt p))"

definition start_source :: "PostJournalParams \<Rightarrow> 'm ledger_db_scheme \<Rightarrow> SourceBalance" where
  "start_source p w = (case source_balances w (pj_source_row p) of Some b \<Rightarrow> b
     | None \<Rightarrow> zero_source_balance (pj_MerchantID p) (pj_PaymentMode p) (pj_Source p) (pj_PostedAt p))"

definition counts_capture :: "PostJournalParams \<Rightarrow> bool" where
  "counts_capture p \<longleftrightarrow> pj_TemplateCode p = TemplatePaymentCapture \<and> coalesce0 (pj_GrossIDR p) > 0"

definition final_balance :: "PostJournalParams \<Rightarrow> 'm ledger_db_scheme \<Rightarrow> Balance" where
  "final_balance p w =
     (let b = fold (leg_balance p) (pj_Legs p) (start_balance p w)
      in if counts_capture p then count_capture p b else b)"

definition final_source :: "PostJournalParams \<Rightarrow> 'm ledger_db_scheme \<Rightarrow> SourceBalance" where
  "final_source p w =
     (let s = fold (leg_source p) (pj_Legs p) (start_source p w)
      in if counts_capture p
         then s\<lparr>sb_LifetimeNetIDR := sb_LifetimeNetIDR s + coalesce0 (pj_MerchantNetIDR p),
                sb_UpdatedAt := pj_PostedAt p\<rparr>
         else s)"

text \<open>The state a posting leaves: one journal, its entries, and the two projection rows.\<close>

definition posted :: "PostJournalParams \<Rightarrow> 'm ledger_db_scheme \<Rightarrow> 'm ledger_db_scheme" where
  "posted p w = (after_legs p (mk_entries p 1 (pj_Legs p)) (final_balance p w) (final_source p w) w)
     \<lparr>journals := journals w @ [mk_journal p]\<rparr>"

definition rows_ok :: "'m ledger_db_scheme \<Rightarrow> bool" where
  "rows_ok w \<longleftrightarrow> (\<forall>k b. balances w k = Some b \<longrightarrow> row_ok (balance_fields b)) \<and>
     (\<forall>k s. source_balances w k = Some s \<longrightarrow> row_ok (source_fields s))"

lemma row_ok_zero [simp]:
  "row_ok (balance_fields (zero_balance m mode t))" "row_ok (source_fields (zero_source_balance m mode src t))"
  by (simp_all add: row_ok_def balance_fields_def source_fields_def zero_balance_def zero_source_balance_def)

lemma EnsureBalance_Inr:
  "EnsureBalance m mode t w = (Inr u, w') \<longleftrightarrow>
     (mode = ModeSandbox \<or> mode = ModeLive) \<and>
     (balances w (m, mode) \<noteq> None \<and> w' = w \<or>
      balances w (m, mode) = None \<and> m \<in> set (merchants w) \<and>
        w' = w\<lparr>balances := (balances w)((m, mode) \<mapsto> zero_balance m mode t)\<rparr>)"
  by (auto simp: EnsureBalance_def)

lemma ensure_source_Inr:
  "ensure_source m mode src t w = (Inr u, w') \<longleftrightarrow>
     (source_balances w (m, mode, src) \<noteq> None \<and> w' = w \<or>
      source_balances w (m, mode, src) = None \<and> m \<in> set (merchants w) \<and>
        w' = w\<lparr>source_balances := (source_balances w)((m, mode, src) \<mapsto> zero_source_balance m mode src t)\<rparr>)"
  by (auto simp: ensure_source_def)

lemma insert_journal_Inr:
  "insert_journal j w = (Inr u, w') \<longleftrightarrow>
     j_ReferenceType j \<noteq> [] \<and> j_ReferenceID j \<noteq> [] \<and> j_ID j \<notin> j_ID ` set (journals w) \<and>
     j_JournalReference j \<notin> j_JournalReference ` set (journals w) \<and>
     j_IdempotencyKey j \<notin> j_IdempotencyKey ` set (journals w) \<and> j_MerchantID j \<in> set (merchants w) \<and>
     w' = w\<lparr>journals := journals w @ [j]\<rparr>"
  by (auto simp: insert_journal_def)

lemma capture_counters_Inr:
  assumes "capture_counters p w = (Inr u, w')"
    and "balances w (pj_row p) = Some b"
    and "wallet_source (pj_Source p) \<longrightarrow> source_balances w (pj_source_row p) = Some sb"
  shows "w' = after_legs p [] (if counts_capture p then count_capture p b else b)
      (if counts_capture p then sb\<lparr>sb_LifetimeNetIDR := sb_LifetimeNetIDR sb + coalesce0 (pj_MerchantNetIDR p),
                sb_UpdatedAt := pj_PostedAt p\<rparr> else sb) w \<and>
    (counts_capture p \<longrightarrow> row_ok (balance_fields (count_capture p b)) \<and>
       (wallet_source (pj_Source p) \<longrightarrow> row_ok (source_fields (sb\<lparr>sb_LifetimeNetIDR := sb_LifetimeNetIDR sb
          + coalesce0 (pj_MerchantNetIDR p), sb_UpdatedAt := pj_PostedAt p\<rparr>))))"
proof (cases "counts_capture p")
  case False
  with assms show ?thesis
    by (auto simp: capture_counters_def counts_capture_def after_legs_none)
next
  case True
  define w1 where "w1 = w\<lparr>balances := (balances w)(pj_row p \<mapsto> count_capture p b)\<rparr>"
  have one: "row_ok (balance_fields (count_capture p b))"
    and two: "(if wallet_source (pj_Source p)
          then update_source (pj_MerchantID p) (pj_PaymentMode p) (pj_Source p)
            (\<lambda>s. s\<lparr>sb_LifetimeNetIDR := sb_LifetimeNetIDR s + coalesce0 (pj_MerchantNetIDR p),
                   sb_UpdatedAt := pj_PostedAt p\<rparr>)
          else ret ()) w1 = (Inr u, w')"
    using assms(1) True unfolding w1_def
    by (auto simp: capture_counters_def counts_capture_def bindS_eq_Inr update_balance_Inr [OF assms(2)])
  show ?thesis
  proof (cases "wallet_source (pj_Source p)")
    case src: True
    then have "source_balances w1 (pj_source_row p) = Some sb" using assms(3) by (simp add: w1_def)
    with two src one True show ?thesis by (simp add: update_source_Inr w1_def after_legs_def)
  next
    case False
    with two have "w' = w1" by simp
    with one False True show ?thesis by (simp add: w1_def after_legs_def)
  qed
qed
definition journal_fresh :: "PostJournalParams \<Rightarrow> 'm ledger_db_scheme \<Rightarrow> bool" where
  "journal_fresh p w \<longleftrightarrow> pj_JournalID p \<notin> j_ID ` set (journals w) \<and>
     pj_JournalReference p \<notin> j_JournalReference ` set (journals w) \<and>
     pj_IdempotencyKey p \<notin> j_IdempotencyKey ` set (journals w)"

lemma mk_journal_fields [simp]:
  "j_ID (mk_journal p) = pj_JournalID p" "j_JournalReference (mk_journal p) = pj_JournalReference p"
  "j_IdempotencyKey (mk_journal p) = pj_IdempotencyKey p" "j_MerchantID (mk_journal p) = pj_MerchantID p"
  "j_ReferenceType (mk_journal p) = pj_ReferenceType p" "j_ReferenceID (mk_journal p) = pj_ReferenceID p"
  "j_PaymentMode (mk_journal p) = pj_PaymentMode p" "j_Source (mk_journal p) = pj_Source p"
  "j_TemplateCode (mk_journal p) = pj_TemplateCode p" "j_Status (mk_journal p) = ''POSTED''"
  "j_GrossIDR (mk_journal p) = pj_GrossIDR p" "j_MerchantNetIDR (mk_journal p) = pj_MerchantNetIDR p"
  "j_FeePercentIDR (mk_journal p) = pj_FeePercentIDR p" "j_FeeFixedIDR (mk_journal p) = pj_FeeFixedIDR p"
  "j_SettlementLotID (mk_journal p) = nullif (pj_SettlementLotID p)"
  "j_PostedAt (mk_journal p) = pj_PostedAt p"
  by (simp_all add: mk_journal_def)

lemma after_legs_journals [simp]:
  "after_legs p es b sb (w\<lparr>journals := js\<rparr>) = (after_legs p es b sb w)\<lparr>journals := js\<rparr>"
  by (simp add: after_legs_def)

lemma post_body_Inr:
  assumes run: "post_body p w = (Inr jid, w')" and rows: "rows_ok w"
  shows "jid = pj_JournalID p" and "w' = posted p w" and "journal_fresh p w"
    and "list_all db_leg_ok (pj_Legs p)"
    and "fst (fold add_side (pj_Legs p) (0, 0)) = snd (fold add_side (pj_Legs p) (0, 0))"
    and "row_ok (balance_fields (final_balance p w))"
    and "wallet_source (pj_Source p) \<longrightarrow> row_ok (source_fields (final_source p w))"
    and "distinct (map e_ID (entries w)) \<longrightarrow> distinct (map e_ID (entries w'))"
proof -
  let ?B = "start_balance p w" and ?S = "start_source p w"
  obtain w1 w2 w3 w4 w5 u1 u2 u3 d u5 where
    s1: "EnsureBalance (pj_MerchantID p) (pj_PaymentMode p) (pj_PostedAt p) w = (Inr u1, w1)"
    and s2: "(if wallet_source (pj_Source p) then ensure_source (pj_MerchantID p) (pj_PaymentMode p)
        (pj_Source p) (pj_PostedAt p) else ret ()) w1 = (Inr u2, w2)"
    and s3: "insert_journal (mk_journal p) w2 = (Inr u3, w3)"
    and s4: "post_legs p 1 (0, 0) (pj_Legs p) w3 = (Inr (d, d), w4)"
    and s5: "capture_counters p w4 = (Inr u5, w5)"
    and s6: "assert_nonneg_wallet (pj_MerchantID p) (pj_PaymentMode p) w5 = (Inr (), w')"
    and jid: "jid = pj_JournalID p"
    using run by (auto simp: post_body_def bindS_eq_Inr split: if_splits)
  have w1: "w1 = w\<lparr>balances := (balances w)(pj_row p \<mapsto> ?B)\<rparr>"
    using s1 by (auto simp: EnsureBalance_Inr start_balance_def fun_upd_idem)
  have w2: "w2 = after_legs p [] ?B ?S w"
  proof (cases "wallet_source (pj_Source p)")
    case True
    with s2 have "ensure_source (pj_MerchantID p) (pj_PaymentMode p) (pj_Source p) (pj_PostedAt p) w1 = (Inr u2, w2)"
      by simp
    then show ?thesis
      using True by (auto simp: ensure_source_Inr start_source_def w1 after_legs_def fun_upd_idem)
  next
    case False
    with s2 have "w2 = w1" by simp
    with False show ?thesis by (simp add: w1 after_legs_def)
  qed
  have fresh: "journal_fresh p w" and w3: "w3 = w2\<lparr>journals := journals w @ [mk_journal p]\<rparr>"
    using s3 by (auto simp: insert_journal_Inr w2 journal_fresh_def)
  have B: "row_ok (balance_fields ?B)" and S: "row_ok (source_fields ?S)"
    using rows by (auto simp: rows_ok_def start_balance_def start_source_def split: option.splits)
  have "balances w3 (pj_row p) = Some ?B"
    and "wallet_source (pj_Source p) \<longrightarrow> source_balances w3 (pj_source_row p) = Some ?S"
    by (simp_all add: w3 w2)
  note legs = post_legs_Inr [OF s4 this B] S
  have l4: "w4 = after_legs p (mk_entries p 1 (pj_Legs p)) (fold (leg_balance p) (pj_Legs p) ?B)
      (fold (leg_source p) (pj_Legs p) ?S) w3"
    using legs by simp
  have "balances w4 (pj_row p) = Some (fold (leg_balance p) (pj_Legs p) ?B)"
    and "wallet_source (pj_Source p) \<longrightarrow>
      source_balances w4 (pj_source_row p) = Some (fold (leg_source p) (pj_Legs p) ?S)"
    by (simp_all add: l4)
  note cc = capture_counters_Inr [OF s5 this]
  have "w' = w5" using s6 by (auto simp: assert_nonneg_wallet_def split: option.splits if_splits)
  moreover have "w5 = after_legs p [] (final_balance p w) (final_source p w) w4"
    using cc by (simp add: final_balance_def final_source_def Let_def if_distrib)
  ultimately show w': "w' = posted p w"
    by (simp add: l4 w3 w2 posted_def)
  have "(d, d) = fold add_side (pj_Legs p) (0, 0)" using legs by simp
  then show "fst (fold add_side (pj_Legs p) (0, 0)) = snd (fold add_side (pj_Legs p) (0, 0))"
    by (metis fst_conv snd_conv)
  show "jid = pj_JournalID p" "journal_fresh p w" by (fact jid fresh)+
  show "list_all db_leg_ok (pj_Legs p)" using legs by simp
  show "row_ok (balance_fields (final_balance p w))"
    using legs cc by (simp add: final_balance_def Let_def)
  show "wallet_source (pj_Source p) \<longrightarrow> row_ok (source_fields (final_source p w))"
    using legs cc by (auto simp: final_source_def Let_def)
  have "distinct (map e_ID (entries w3)) \<longrightarrow> distinct (map e_ID (entries w4))"
    using legs by blast
  moreover have "entries w' = entries w4" "entries w3 = entries w"
    by (simp_all add: w' posted_def l4 w3 w2)
  ultimately show "distinct (map e_ID (entries w)) \<longrightarrow> distinct (map e_ID (entries w'))" by simp
qed

lemma find_none: "find P xs = None \<longleftrightarrow> (\<forall>x\<in>set xs. \<not> P x)"
  by (auto simp: find_None_iff)

lemma find_append: "find P (xs @ ys) = (case find P xs of None \<Rightarrow> find P ys | Some x \<Rightarrow> Some x)"
  by (induction xs) simp_all

lemma find_Some_mem: "find P xs = Some x \<Longrightarrow> x \<in> set xs \<and> P x"
  by (auto simp: find_Some_iff)

text \<open>
  The two outcomes of \<open>PostJournal\<close>: the state is unchanged (an error, or the replay of a journal
  already there), or exactly the journal was added.
\<close>

lemma PostJournal_cases:
  assumes "PostJournal p w = (r, w')" and "rows_ok w"
  obtains (failed) e where "r = Inl e" "w' = w"
  | (replayed) j where "existing_journal p w = Some j" "r = Inr (j_ID j)" "w' = w"
  | (added) "existing_journal p w = None" "post_body p w = (Inr (pj_JournalID p), w')"
      "r = Inr (pj_JournalID p)" "w' = posted p w" "journal_fresh p w"
proof -
  have "(\<exists>e. r = Inl e \<and> w' = w) \<or> (\<exists>j. existing_journal p w = Some j \<and> r = Inr (j_ID j) \<and> w' = w)
    \<or> (existing_journal p w = None \<and> (\<exists>i. post_body p w = (Inr i, w') \<and> r = Inr i))"
    using assms(1) unfolding PostJournal_def post_ledger_transaction_def
    by (auto split: if_splits option.splits prod.splits sum.splits)
  then consider (1) e where "r = Inl e" "w' = w"
    | (2) j where "existing_journal p w = Some j" "r = Inr (j_ID j)" "w' = w"
    | (3) i where "existing_journal p w = None" "post_body p w = (Inr i, w')" "r = Inr i"
    by blast
  then show thesis
  proof cases
    case 3
    note b = post_body_Inr [OF 3(2) assms(2)]
    from added [OF 3(1) _ _ b(2,3)] 3 b(1) show thesis by simp
  qed (use failed replayed in blast)+
qed
subsection \<open>The ledger invariant\<close>

definition entries_of :: "string \<Rightarrow> 'm ledger_db_scheme \<Rightarrow> Entry list" where
  "entries_of jid w = filter (\<lambda>e. e_JournalID e = jid) (entries w)"

definition entry_side :: "string \<Rightarrow> Entry list \<Rightarrow> int" where
  "entry_side side es = sum_list (map (\<lambda>e. if e_Side e = side then e_AmountIDR e else 0) es)"

definition entry_ok :: "Entry \<Rightarrow> bool" where
  "entry_ok e \<longleftrightarrow> 0 < e_AmountIDR e \<and> (e_Side e = SideDebit \<or> e_Side e = SideCredit) \<and>
     e_AccountCode e \<in> set chart_of_accounts \<and>
     (\<exists>suffix. length suffix = 4 \<and> e_ID e = e_JournalID e @ suffix)"

text \<open>Every journal is a balanced double entry, and every entry belongs to a journal.\<close>

definition journals_balanced :: "'m ledger_db_scheme \<Rightarrow> bool" where
  "journals_balanced w \<longleftrightarrow>
     list_all (\<lambda>j. j_ID j \<noteq> []) (journals w) \<and> distinct (map j_ID (journals w)) \<and> distinct (map j_JournalReference (journals w)) \<and>
     distinct (map j_IdempotencyKey (journals w)) \<and> distinct (map e_ID (entries w)) \<and>
     (\<forall>e\<in>set (entries w). entry_ok e \<and> e_JournalID e \<in> j_ID ` set (journals w)) \<and>
     (\<forall>j\<in>set (journals w). 2 \<le> length (entries_of (j_ID j) w) \<and>
        entry_side SideDebit (entries_of (j_ID j) w) = entry_side SideCredit (entries_of (j_ID j) w))"

text \<open>The projection rows are the sums of the entries they project, and are never negative.\<close>

definition balance_matches :: "string \<Rightarrow> string \<Rightarrow> Entry list \<Rightarrow> Balance \<Rightarrow> bool" where
  "balance_matches m mode es b \<longleftrightarrow>
     b_AvailableIDR b = entries_delta AcctMerchantAvailable (wallet_entries m mode es) \<and>
     b_PendingIDR b = entries_delta AcctMerchantPending (wallet_entries m mode es) \<and>
     b_HeldIDR b = entries_delta AcctMerchantHeld (wallet_entries m mode es)"

definition source_entries :: "string \<Rightarrow> string \<Rightarrow> string \<Rightarrow> Entry list \<Rightarrow> Entry list" where
  "source_entries m mode src es = filter (\<lambda>e. e_Source e = src) (wallet_entries m mode es)"

definition source_matches :: "string \<Rightarrow> string \<Rightarrow> string \<Rightarrow> Entry list \<Rightarrow> SourceBalance \<Rightarrow> bool" where
  "source_matches m mode src es s \<longleftrightarrow>
     sb_AvailableIDR s = entries_delta AcctMerchantAvailable (source_entries m mode src es) \<and>
     sb_PendingIDR s = entries_delta AcctMerchantPending (source_entries m mode src es) \<and>
     sb_HeldIDR s = entries_delta AcctMerchantHeld (source_entries m mode src es)"

text \<open>A missing row stands for a wallet without entries.\<close>

definition balance_row_ok :: "string \<Rightarrow> string \<Rightarrow> Entry list \<Rightarrow> Balance option \<Rightarrow> bool" where
  "balance_row_ok m mode es row = (case row of None \<Rightarrow> wallet_entries m mode es = []
     | Some b \<Rightarrow> balance_matches m mode es b)"

definition source_row_ok :: "string \<Rightarrow> string \<Rightarrow> string \<Rightarrow> Entry list \<Rightarrow> SourceBalance option \<Rightarrow> bool" where
  "source_row_ok m mode src es row = (case row of None \<Rightarrow> source_entries m mode src es = []
     | Some s \<Rightarrow> source_matches m mode src es s)"

definition projection_exact :: "'m ledger_db_scheme \<Rightarrow> bool" where
  "projection_exact w \<longleftrightarrow>
     (\<forall>m mode. balance_row_ok m mode (entries w) (balances w (m, mode))) \<and>
     (\<forall>m mode src. wallet_source src \<longrightarrow>
        source_row_ok m mode src (entries w) (source_balances w (m, mode, src)))"

definition lots_ok :: "'m ledger_db_scheme \<Rightarrow> bool" where
  "lots_ok w \<longleftrightarrow> list_all (\<lambda>l. lot_check l = Inr ()) (lots w) \<and> distinct (map lot_ID (lots w)) \<and>
     distinct (filter (\<lambda>i. i \<noteq> None) (map lot_PaymentIntentID (lots w)))"

definition ledger_inv :: "'m ledger_db_scheme \<Rightarrow> bool" where
  "ledger_inv w \<longleftrightarrow> journals_balanced w \<and> projection_exact w \<and> rows_ok w \<and> lots_ok w"

lemma entries_delta_append [simp]: "entries_delta a (xs @ ys) = entries_delta a xs + entries_delta a ys"
  by (simp add: entries_delta_def)

lemma entries_delta_Nil [simp]: "entries_delta a [] = 0"
  by (simp add: entries_delta_def)

lemma entry_side_append [simp]: "entry_side a (xs @ ys) = entry_side a xs + entry_side a ys"
  by (simp add: entry_side_def)

lemma mk_entry_fields [simp]:
  "e_JournalID (mk_entry p n l) = pj_JournalID p" "e_MerchantID (mk_entry p n l) = pj_MerchantID p"
  "e_PaymentMode (mk_entry p n l) = pj_PaymentMode p" "e_Source (mk_entry p n l) = pj_Source p"
  "e_AmountIDR (mk_entry p n l) = leg_AmountIDR l" "e_Side (mk_entry p n l) = to_upper (leg_Side l)"
  "e_AccountCode (mk_entry p n l) = leg_AccountCode l"
  by (simp_all add: mk_entry_def)

lemma length_mk_entries [simp]: "length (mk_entries p n ls) = length ls"
  by (induction ls arbitrary: n) simp_all

lemma mk_entries_mem:
  "e \<in> set (mk_entries p n ls) \<Longrightarrow> e_JournalID e = pj_JournalID p \<and> e_MerchantID e = pj_MerchantID p \<and>
     e_PaymentMode e = pj_PaymentMode p \<and> e_Source e = pj_Source p"
  by (induction ls arbitrary: n) auto

lemma length_show_int: "10 \<le> n \<Longrightarrow> 2 \<le> length (show_int n)"
proof -
  assume n: "10 \<le> n"
  have "1 \<le> length (show_pos k)" for k by (subst show_pos.simps) simp
  with n show ?thesis by (simp add: show_int_def) (subst show_pos.simps, simp)
qed

lemma length_pad2: "0 \<le> n \<Longrightarrow> length (pad2 n) = 2"
  using length_show_int [of n] by (auto simp: pad2_def show_int_def show_pos.simps [of n])

lemma mk_entry_id: "0 \<le> n \<Longrightarrow> \<exists>suffix. length suffix = 4 \<and> e_ID (mk_entry p n l) = pj_JournalID p @ suffix"
  by (intro exI [of _ "''_e'' @ pad2 n"]) (simp add: mk_entry_def length_pad2)

lemma mk_entries_ok: "list_all db_leg_ok ls \<Longrightarrow> 0 \<le> n \<Longrightarrow> e \<in> set (mk_entries p n ls) \<Longrightarrow> entry_ok e"
proof (induction ls arbitrary: n)
  case (Cons l ls)
  have "entry_ok (mk_entry p n l)"
    using Cons.prems(1,2) mk_entry_id [of n p l] by (simp add: entry_ok_def db_leg_ok_def)
  with Cons.IH [of "n + 1"] Cons.prems show ?case by auto
qed simp

text \<open>The same sums over the legs, as the database reads them.\<close>

fun legs_delta :: "string \<Rightarrow> EntryLeg list \<Rightarrow> int" where
  "legs_delta acct [] = 0"
| "legs_delta acct (l # ls) =
     (if leg_AccountCode l = acct then leg_delta (to_upper (leg_Side l)) (leg_AmountIDR l) else 0)
     + legs_delta acct ls"

fun legs_side :: "string \<Rightarrow> EntryLeg list \<Rightarrow> int" where
  "legs_side side [] = 0"
| "legs_side side (l # ls) = (if to_upper (leg_Side l) = side then leg_AmountIDR l else 0) + legs_side side ls"

lemma entries_delta_mk_entries [simp]: "entries_delta acct (mk_entries p n ls) = legs_delta acct ls"
  by (induction ls arbitrary: n) (simp_all add: entries_delta_def entry_delta_def leg_delta_def)

lemma entry_side_mk_entries [simp]: "entry_side side (mk_entries p n ls) = legs_side side ls"
  by (induction ls arbitrary: n) (simp_all add: entry_side_def)

lemma legs_delta_account:
  "list_all leg_ok ls \<Longrightarrow> legs_delta acct ls = account_delta acct ls"
  by (induction ls) (auto simp: leg_ok_def leg_delta_def to_upper_def upper_char_def is_lower_def)

lemma fold_add_side:
  assumes "list_all db_leg_ok ls"
  shows "fold add_side ls dc = (fst dc + legs_side SideDebit ls, snd dc + legs_side SideCredit ls)"
  using assms
  by (induction ls arbitrary: dc) (auto simp: add_side_def db_leg_ok_def)

text \<open>The projection of the legs is their delta.\<close>

lemma fold_leg_balance:
  "b_AvailableIDR (fold (leg_balance p) ls b) = b_AvailableIDR b + legs_delta AcctMerchantAvailable ls"
  "b_PendingIDR (fold (leg_balance p) ls b) = b_PendingIDR b + legs_delta AcctMerchantPending ls"
  "b_HeldIDR (fold (leg_balance p) ls b) = b_HeldIDR b + legs_delta AcctMerchantHeld ls"
  by (induction ls arbitrary: b) (auto simp: leg_balance_def project_balance_def)

lemma fold_leg_source:
  "sb_AvailableIDR (fold (leg_source p) ls b) = sb_AvailableIDR b + legs_delta AcctMerchantAvailable ls"
  "sb_PendingIDR (fold (leg_source p) ls b) = sb_PendingIDR b + legs_delta AcctMerchantPending ls"
  "sb_HeldIDR (fold (leg_source p) ls b) = sb_HeldIDR b + legs_delta AcctMerchantHeld ls"
  by (induction ls arbitrary: b) (auto simp: leg_source_def project_source_def)

lemma count_capture_wallet [simp]:
  "b_AvailableIDR (count_capture p b) = b_AvailableIDR b" "b_PendingIDR (count_capture p b) = b_PendingIDR b"
  "b_HeldIDR (count_capture p b) = b_HeldIDR b"
  by (simp_all add: count_capture_def Let_def)

lemma final_balance_wallet:
  "b_AvailableIDR (final_balance p w) = b_AvailableIDR (start_balance p w) +
     legs_delta AcctMerchantAvailable (pj_Legs p)"
  "b_PendingIDR (final_balance p w) = b_PendingIDR (start_balance p w) +
     legs_delta AcctMerchantPending (pj_Legs p)"
  "b_HeldIDR (final_balance p w) = b_HeldIDR (start_balance p w) +
     legs_delta AcctMerchantHeld (pj_Legs p)"
  by (simp_all add: final_balance_def Let_def fold_leg_balance)

lemma final_source_wallet:
  "sb_AvailableIDR (final_source p w) = sb_AvailableIDR (start_source p w) +
     legs_delta AcctMerchantAvailable (pj_Legs p)"
  "sb_PendingIDR (final_source p w) = sb_PendingIDR (start_source p w) +
     legs_delta AcctMerchantPending (pj_Legs p)"
  "sb_HeldIDR (final_source p w) = sb_HeldIDR (start_source p w) +
     legs_delta AcctMerchantHeld (pj_Legs p)"
  by (simp_all add: final_source_def Let_def fold_leg_source)

lemma filter_mk_entries:
  "wallet_entries m mode (mk_entries p n ls) = (if (m, mode) = pj_row p then mk_entries p n ls else [])"
  "source_entries m mode src (mk_entries p n ls) = (if (m, mode, src) = pj_source_row p then mk_entries p n ls else [])"
  using mk_entries_mem [of _ p n ls]
  by (auto simp: wallet_entries_def source_entries_def filter_empty_conv intro!: filter_True)

lemma wallet_entries_append [simp]:
  "wallet_entries m mode (xs @ ys) = wallet_entries m mode xs @ wallet_entries m mode ys"
  "source_entries m mode src (xs @ ys) = source_entries m mode src xs @ source_entries m mode src ys"
  by (simp_all add: wallet_entries_def source_entries_def)
lemma posted_fields [simp]:
  "journals (posted p w) = journals w @ [mk_journal p]"
  "entries (posted p w) = entries w @ mk_entries p 1 (pj_Legs p)"
  "balances (posted p w) = (balances w)(pj_row p \<mapsto> final_balance p w)"
  "source_balances (posted p w) = (if wallet_source (pj_Source p)
     then (source_balances w)(pj_source_row p \<mapsto> final_source p w) else source_balances w)"
  "lots (posted p w) = lots w" "merchants (posted p w) = merchants w"
  "payment_settlements (posted p w) = payment_settlements w"
  by (simp_all add: posted_def)

lemma posted_journals_balanced:
  assumes inv: "journals_balanced w" and fresh: "journal_fresh p w"
    and legs: "list_all db_leg_ok (pj_Legs p)" "2 \<le> length (pj_Legs p)"
    and bal: "legs_side SideDebit (pj_Legs p) = legs_side SideCredit (pj_Legs p)"
    and ids: "distinct (map e_ID (entries (posted p w)))" and named: "pj_JournalID p \<noteq> []"
  shows "journals_balanced (posted p w)"
proof -
  let ?new = "mk_entries p 1 (pj_Legs p)"
  have old_new: "filter (\<lambda>e. e_JournalID e = i) ?new = (if i = pj_JournalID p then ?new else [])" for i
    using mk_entries_mem [of _ p 1 "pj_Legs p"] by (auto simp: filter_empty_conv intro!: filter_True)
  have "e_JournalID e \<noteq> pj_JournalID p" if "e \<in> set (entries w)" for e
  proof -
    from inv that have "e_JournalID e \<in> j_ID ` set (journals w)" unfolding journals_balanced_def by blast
    with fresh show ?thesis unfolding journal_fresh_def by metis
  qed
  then have new_old: "entries_of (pj_JournalID p) w = []"
    by (simp add: entries_of_def filter_empty_conv)
  have ent: "entries_of i (posted p w) = entries_of i w @ (if i = pj_JournalID p then ?new else [])" for i
    using old_new [of i] by (simp add: entries_of_def)
  have "2 \<le> length (entries_of (j_ID j) (posted p w)) \<and>
      entry_side SideDebit (entries_of (j_ID j) (posted p w)) =
      entry_side SideCredit (entries_of (j_ID j) (posted p w))"
    if "j \<in> set (journals (posted p w))" for j
  proof (cases "j_ID j = pj_JournalID p")
    case True
    then show ?thesis using legs(2) bal by (simp add: ent new_old)
  next
    case False
    with that have "j \<in> set (journals w)" by auto
    with inv False show ?thesis by (simp add: ent journals_balanced_def)
  qed
  moreover have "entry_ok e \<and> e_JournalID e \<in> j_ID ` set (journals (posted p w))"
    if "e \<in> set (entries (posted p w))" for e
    using that inv mk_entries_ok [OF legs(1), of 1] mk_entries_mem by (fastforce simp: journals_balanced_def)
  moreover have "distinct (map j_ID (journals (posted p w)))"
    "distinct (map j_JournalReference (journals (posted p w)))"
    "distinct (map j_IdempotencyKey (journals (posted p w)))"
    using inv fresh by (auto simp: journals_balanced_def journal_fresh_def)
  moreover have "list_all (\<lambda>j. j_ID j \<noteq> []) (journals (posted p w))"
    using inv named by (simp add: journals_balanced_def)
  ultimately show ?thesis using ids unfolding journals_balanced_def by blast
qed

lemma zero_balance_fields [simp]:
  "b_AvailableIDR (zero_balance m mode t) = 0" "b_PendingIDR (zero_balance m mode t) = 0"
  "b_HeldIDR (zero_balance m mode t) = 0"
  "sb_AvailableIDR (zero_source_balance m mode s t) = 0" "sb_PendingIDR (zero_source_balance m mode s t) = 0"
  "sb_HeldIDR (zero_source_balance m mode s t) = 0"
  by (simp_all add: zero_balance_def zero_source_balance_def)

lemma row_ok_simps [simp]:
  "balance_row_ok m mode es (Some b) = balance_matches m mode es b"
  "balance_row_ok m mode es None \<longleftrightarrow> wallet_entries m mode es = []"
  "source_row_ok m mode src es (Some s) = source_matches m mode src es s"
  "source_row_ok m mode src es None \<longleftrightarrow> source_entries m mode src es = []"
  by (simp_all add: balance_row_ok_def source_row_ok_def)

lemma projection_exact_row:
  "projection_exact w \<Longrightarrow> balance_row_ok m mode (entries w) (balances w (m, mode))"
  unfolding projection_exact_def by blast

lemma projection_exact_source:
  "projection_exact w \<Longrightarrow> wallet_source src \<Longrightarrow>
     source_row_ok m mode src (entries w) (source_balances w (m, mode, src))"
  unfolding projection_exact_def by blast

lemma start_balance_matches:
  "projection_exact w \<Longrightarrow> balance_matches (pj_MerchantID p) (pj_PaymentMode p) (entries w) (start_balance p w)"
  using projection_exact_row [of w "pj_MerchantID p" "pj_PaymentMode p"]
  by (cases "balances w (pj_row p)") (simp_all add: start_balance_def balance_matches_def)

lemma start_source_matches:
  "projection_exact w \<Longrightarrow> wallet_source (pj_Source p) \<Longrightarrow>
   source_matches (pj_MerchantID p) (pj_PaymentMode p) (pj_Source p) (entries w) (start_source p w)"
  using projection_exact_source [of w "pj_Source p" "pj_MerchantID p" "pj_PaymentMode p"]
  by (cases "source_balances w (pj_source_row p)") (simp_all add: start_source_def source_matches_def)

lemma posted_projection_exact:
  assumes inv: "projection_exact w"
  shows "projection_exact (posted p w)"
proof -
  have b: "balance_row_ok m mode (entries (posted p w)) (balances (posted p w) (m, mode))" for m mode
  proof (cases "(m, mode) = pj_row p")
    case True
    with start_balance_matches [OF inv] show ?thesis
      by (simp add: balance_matches_def filter_mk_entries final_balance_wallet)
  next
    case False
    with projection_exact_row [OF inv, of m mode] show ?thesis
      by (cases "balances w (m, mode)") (auto simp: balance_matches_def filter_mk_entries)
  qed
  have s: "source_row_ok m mode src (entries (posted p w)) (source_balances (posted p w) (m, mode, src))"
    if "wallet_source src" for m mode src
  proof (cases "(m, mode, src) = pj_source_row p")
    case True
    with start_source_matches [OF inv] that show ?thesis
      by (simp add: source_matches_def filter_mk_entries final_source_wallet)
  next
    case False
    with projection_exact_source [OF inv that, of m mode] show ?thesis
      by (cases "source_balances w (m, mode, src)") (auto simp: source_matches_def filter_mk_entries)
  qed
  from b s show ?thesis unfolding projection_exact_def by blast
qed

lemma PostJournal_legs2:
  "PostJournal p w = (Inr i, w') \<Longrightarrow> w' \<noteq> w \<Longrightarrow> 2 \<le> length (pj_Legs p) \<and> pj_JournalID p \<noteq> []"
  by (auto simp: PostJournal_def post_ledger_transaction_def split: if_splits)

lemma ledger_inv_rows: "ledger_inv w \<Longrightarrow> rows_ok w"
  by (simp add: ledger_inv_def)

lemma keeps_PostJournal [inv_intros]: "keeps ledger_inv (PostJournal p)"
proof (rule keepsI)
  fix w :: "'m ledger_db_scheme" and r w'
  assume inv: "ledger_inv w" and run: "PostJournal p w = (r, w')"
  from run ledger_inv_rows [OF inv] show "ledger_inv w'"
  proof (cases rule: PostJournal_cases)
    case added
    note b = post_body_Inr [OF added(2) ledger_inv_rows [OF inv]]
    have "journals (posted p w) \<noteq> journals w" by simp
    then have "w' \<noteq> w" using added(4) by metis
    with PostJournal_legs2 run added(3) have two: "2 \<le> length (pj_Legs p)" and named: "pj_JournalID p \<noteq> []"
      by blast+
    have bal: "legs_side SideDebit (pj_Legs p) = legs_side SideCredit (pj_Legs p)"
      using b(5) by (simp add: fold_add_side [OF b(4)])
    have ids: "distinct (map e_ID (entries (posted p w)))"
      using b(8) inv added(4) by (simp add: ledger_inv_def journals_balanced_def)
    have "journals_balanced (posted p w)"
      using posted_journals_balanced [OF _ b(3,4) two bal ids named] inv by (simp add: ledger_inv_def)
    moreover have "projection_exact (posted p w)"
      by (rule posted_projection_exact) (use inv in \<open>simp add: ledger_inv_def\<close>)
    moreover have "rows_ok (posted p w)"
      using inv b(6,7) by (auto simp: ledger_inv_def rows_ok_def)
    moreover have "lots_ok (posted p w)" using inv by (simp add: ledger_inv_def lots_ok_def)
    ultimately show ?thesis by (simp add: ledger_inv_def added(4))
  qed (use inv in simp_all)
qed
text \<open>The other operations keep the invariant too.\<close>

lemma ledger_inv_cong:
  "ledger_inv w \<Longrightarrow> journals w' = journals w \<Longrightarrow> entries w' = entries w \<Longrightarrow> balances w' = balances w \<Longrightarrow>
   source_balances w' = source_balances w \<Longrightarrow> lots w' = lots w \<Longrightarrow> ledger_inv w'"
  by (simp add: ledger_inv_def journals_balanced_def projection_exact_def rows_ok_def lots_ok_def entries_of_def)

lemma ledger_inv_base [simp]: "ledger_inv (w\<lparr>next_id := n\<rparr>) = ledger_inv w"
  by (rule iffI; erule ledger_inv_cong; simp)

lemma keeps_EnsureBalance [inv_intros]: "keeps ledger_inv (EnsureBalance m mode t)"
proof (rule keepsI)
  fix w :: "'m ledger_db_scheme" and r w'
  assume inv: "ledger_inv w" and run: "EnsureBalance m mode t w = (r, w')"
  show "ledger_inv w'"
  proof (cases "w' = w")
    case False
    then have none: "balances w (m, mode) = None"
      and w': "w' = w\<lparr>balances := (balances w)((m, mode) \<mapsto> zero_balance m mode t)\<rparr>"
      using run by (auto simp: EnsureBalance_def split: if_splits)
    have proj: "projection_exact w" using inv by (simp add: ledger_inv_def)
    from projection_exact_row [OF proj, of m mode] none
    have "wallet_entries m mode (entries w) = []" by simp
    then have "balance_matches m mode (entries w) (zero_balance m mode t)"
      by (simp add: balance_matches_def)
    then have "projection_exact w'"
      using proj by (simp add: w' projection_exact_def)
    moreover have "rows_ok w'" using inv by (simp add: w' ledger_inv_def rows_ok_def)
    ultimately show ?thesis
      using inv by (simp add: w' ledger_inv_def journals_balanced_def entries_of_def lots_ok_def)
  qed (use inv in simp)
qed

lemma keeps_InsertSettlementLot [inv_intros]: "keeps ledger_inv (InsertSettlementLot l)"
proof (rule keepsI)
  fix w :: "'m ledger_db_scheme" and r w'
  assume inv: "ledger_inv w" and run: "InsertSettlementLot l w = (r, w')"
  show "ledger_inv w'"
  proof (cases "w' = w")
    case False
    then have ok: "lot_check l = Inr ()" "lot_ID l \<notin> set (map lot_ID (lots w))"
      "lot_PaymentIntentID l = None \<or> lot_PaymentIntentID l \<notin> set (map lot_PaymentIntentID (lots w))"
      and w': "w' = w\<lparr>lots := lots w @ [l]\<rparr>"
      using run by (auto simp: InsertSettlementLot_def split: if_splits sum.splits)
    then have "lots_ok w'"
      using inv by (auto simp: w' ledger_inv_def lots_ok_def)
    then show ?thesis
      using inv by (simp add: w' ledger_inv_def journals_balanced_def entries_of_def projection_exact_def rows_ok_def)
  qed (use inv in simp)
qed

text \<open>An update of lots that keeps ids and intents.\<close>

lemma keeps_update_lots:
  assumes "\<And>l. lot_ID (f l) = lot_ID l" and "\<And>l. lot_PaymentIntentID (f l) = lot_PaymentIntentID l"
  shows "keeps ledger_inv (update_lots sel f)"
proof (rule keepsI)
  fix w :: "'m ledger_db_scheme" and r w'
  assume inv: "ledger_inv w" and run: "update_lots sel f w = (r, w')"
  show "ledger_inv w'"
  proof (cases "find (\<lambda>l. sel l \<and> lot_check (f l) \<noteq> Inr ()) (lots w)")
    case None
    then have w': "w' = w\<lparr>lots := map (\<lambda>l. if sel l then f l else l) (lots w)\<rparr>"
      using run by (simp add: update_lots_def)
    have maps: "map lot_ID (lots w') = map lot_ID (lots w)"
      "map lot_PaymentIntentID (lots w') = map lot_PaymentIntentID (lots w)"
      using assms by (simp_all add: w')
    have "list_all (\<lambda>l. lot_check l = Inr ()) (lots w')"
      using inv None by (auto simp: w' ledger_inv_def lots_ok_def list_all_iff find_none)
    then have "lots_ok w'"
      using inv by (simp add: lots_ok_def maps ledger_inv_def)
    then show ?thesis
      using inv by (simp add: w' ledger_inv_def journals_balanced_def entries_of_def projection_exact_def rows_ok_def)
  next
    case (Some l)
    then have "w' = w" using run by (auto simp: update_lots_def split: sum.splits)
    with inv show ?thesis by simp
  qed
qed

lemma keeps_lot_updates [inv_intros]:
  "keeps ledger_inv (UpdateLotAfterCapture i j st n t)" "keeps ledger_inv (UpdateLotAfterRelease i j st n t)"
  "keeps ledger_inv (ConsumeLotRemaining i n t)" "keeps ledger_inv (RestoreLotRemaining i n t)"
  unfolding UpdateLotAfterCapture_def UpdateLotAfterRelease_def ConsumeLotRemaining_def RestoreLotRemaining_def
  by (rule keeps_update_lots; simp)+

lemma keeps_LinkPaymentSettlement [inv_intros]: "keeps ledger_inv (LinkPaymentSettlement i j a b l t)"
  by (auto simp: keeps_def LinkPaymentSettlement_def split: if_splits elim!: ledger_inv_cong)

text \<open>
  A rebuild in a state that satisfies the invariant writes the wallet it found: the incremental
  projection and the recomputation from entries agree.
\<close>

lemma rebuilt_source_matches: "source_matches m mode src (entries w) (rebuilt_source m mode src w)"
  by (simp add: source_matches_def rebuilt_source_def source_entries_def Let_def)

lemma rebuilt_balance_matches: "balance_matches m mode (entries w) (rebuilt_balance m mode w)"
  by (simp add: balance_matches_def rebuilt_balance_def Let_def)

lemma keeps_put_source:
  assumes "wallet_source src"
  shows "keeps ledger_inv (put_source m mode src)"
proof (rule keepsI)
  fix w :: "'m ledger_db_scheme" and r w'
  assume inv: "ledger_inv w" and run: "put_source m mode src w = (r, w')"
  show "ledger_inv w'"
  proof (cases "w' = w")
    case False
    then have ok: "row_ok (source_fields (rebuilt_source m mode src w))"
      and w': "w' = w\<lparr>source_balances := (source_balances w)((m, mode, src) \<mapsto> rebuilt_source m mode src w)\<rparr>"
      using run row_check_Inr [of "''merchant_balance_sources_nonneg''" "source_fields (rebuilt_source m mode src w)"]
      by (auto simp: put_source_def split: if_splits sum.splits)
    have "projection_exact w'"
      using inv rebuilt_source_matches [of m mode src w]
      by (simp add: w' ledger_inv_def projection_exact_def)
    moreover have "rows_ok w'" using inv ok by (simp add: w' ledger_inv_def rows_ok_def)
    ultimately show ?thesis
      using inv by (simp add: w' ledger_inv_def journals_balanced_def entries_of_def lots_ok_def)
  qed (use inv in simp)
qed

lemma keeps_RebuildBalances [inv_intros]: "keeps ledger_inv (RebuildBalances m mode)"
  unfolding RebuildBalances_def
proof (rule keeps_with_tx [OF keepsI])
  fix w :: "'m ledger_db_scheme" and r w'
  let ?w1 = "w\<lparr>balances := (balances w)((m, mode) \<mapsto> rebuilt_balance m mode w)\<rparr>"
  assume inv: "ledger_inv w"
    and run: "(if mode \<noteq> ModeSandbox \<and> mode \<noteq> ModeLive then (Inl (PgError ''invalid payment_mode''), w)
     else case row_check ''merchant_balances_nonneg'' (balance_fields (rebuilt_balance m mode w)) of
       Inl e \<Rightarrow> (Inl e, w)
     | Inr _ \<Rightarrow> if m \<notin> set (merchants w) then (Inl (PgError ''merchant_balances_merchant_id_fkey''), w)
         else for_each (put_source m mode) [SourceStorefront, SourceQRISAPI] ?w1) = (r, w')"
  have two: "keeps ledger_inv (for_each (put_source m mode) [SourceStorefront, SourceQRISAPI])"
    by (simp add: keeps_bindS keeps_put_source keeps_ret)
  show "ledger_inv w'"
  proof (cases "w' = w")
    case False
    then have ok: "row_ok (balance_fields (rebuilt_balance m mode w))"
      and rest: "for_each (put_source m mode) [SourceStorefront, SourceQRISAPI] ?w1 = (r, w')"
      using run row_check_Inr [of "''merchant_balances_nonneg''" "balance_fields (rebuilt_balance m mode w)"]
      by (auto simp del: for_each.simps split: if_splits sum.splits)
    have "projection_exact ?w1"
      using inv rebuilt_balance_matches [of m mode w] by (simp add: ledger_inv_def projection_exact_def)
    then have "ledger_inv ?w1"
      using inv ok by (simp add: ledger_inv_def journals_balanced_def entries_of_def lots_ok_def rows_ok_def)
    then show ?thesis by (rule keepsD [OF two rest])
  qed (use inv in simp)
qed simp

end
