(* ===== verification/Ledger_Posting.thy ===== *)
theory Ledger_Posting
  imports Ledger_Store
begin

text \<open>
  The contract of the ledger store: when a posting succeeds and what it does to a wallet, the
  reachable ledgers with their invariant, replay, append-only history, the agreement of the
  rebuild with the incremental projection, and the source breakdown of the unified wallet.
\<close>

subsection \<open>When a posting succeeds\<close>

text \<open>The rows stay within their constraints after every single leg.\<close>

fun rows_run :: "PostJournalParams \<Rightarrow> EntryLeg list \<Rightarrow> Balance \<Rightarrow> SourceBalance \<Rightarrow> bool" where
  "rows_run p [] b sb = True"
| "rows_run p (l # ls) b sb =
     (row_ok (balance_fields (leg_balance p l b)) \<and>
      (wallet_source (pj_Source p) \<longrightarrow> row_ok (source_fields (leg_source p l sb))) \<and>
      rows_run p ls (leg_balance p l b) (leg_source p l sb))"

definition component_ok :: "EntryLeg \<Rightarrow> bool" where
  "component_ok l \<longleftrightarrow> leg_FeeComponent l = [] \<or> leg_FeeComponent l \<in> set fee_components"

lemma update_balance_ok:
  "balances w (m, mode) = Some b \<Longrightarrow> row_ok (balance_fields (f b)) \<Longrightarrow>
   update_balance m mode f w = (Inr (), w\<lparr>balances := (balances w)((m, mode) \<mapsto> f b)\<rparr>)"
  by (simp add: update_balance_Inr)

lemma update_source_ok:
  "source_balances w (m, mode, src) = Some b \<Longrightarrow> row_ok (source_fields (f b)) \<Longrightarrow>
   update_source m mode src f w = (Inr (), w\<lparr>source_balances := (source_balances w)((m, mode, src) \<mapsto> f b)\<rparr>)"
  by (simp add: update_source_Inr)

lemma project_leg_ok:
  assumes "balances w (pj_row p) = Some b"
    and "wallet_source (pj_Source p) \<longrightarrow> source_balances w (pj_source_row p) = Some sb"
    and "row_ok (balance_fields (leg_balance p l b))"
    and "wallet_source (pj_Source p) \<longrightarrow> row_ok (source_fields (leg_source p l sb))"
  shows "project_leg p (leg_AccountCode l) (to_upper (leg_Side l)) (leg_AmountIDR l) w =
    (Inr (), after_legs p [] (leg_balance p l b) (leg_source p l sb) w)"
proof (cases "wallet_account (leg_AccountCode l)")
  case False
  then have "leg_balance p l b = b" "leg_source p l sb = sb"
    by (simp_all add: leg_balance_def leg_source_def project_balance_def project_source_def wallet_account_def)
  with False assms show ?thesis by (simp add: project_leg_def after_legs_none)
next
  case True
  let ?w1 = "w\<lparr>balances := (balances w)(pj_row p \<mapsto> leg_balance p l b)\<rparr>"
  have one: "update_balance (pj_MerchantID p) (pj_PaymentMode p) (leg_balance p l) w = (Inr (), ?w1)"
    by (rule update_balance_ok) (use assms in auto)
  show ?thesis
  proof (cases "wallet_source (pj_Source p)")
    case src: True
    then have "source_balances ?w1 (pj_source_row p) = Some sb" using assms(2) by simp
    then have "update_source (pj_MerchantID p) (pj_PaymentMode p) (pj_Source p) (leg_source p l) ?w1 =
      (Inr (), ?w1\<lparr>source_balances := (source_balances ?w1)(pj_source_row p \<mapsto> leg_source p l sb)\<rparr>)"
      by (rule update_source_ok) (use assms(4) src in blast)
    with True src one show ?thesis
      by (simp add: project_leg_def leg_balance_def leg_source_def after_legs_def)
  next
    case False
    with True one show ?thesis by (simp add: project_leg_def leg_balance_def after_legs_def)
  qed
qed

lemma post_leg_ok:
  assumes "balances w (pj_row p) = Some b"
    and "wallet_source (pj_Source p) \<longrightarrow> source_balances w (pj_source_row p) = Some sb"
    and "row_ok (balance_fields (leg_balance p l b))"
    and "wallet_source (pj_Source p) \<longrightarrow> row_ok (source_fields (leg_source p l sb))"
    and leg: "db_leg_ok l" "component_ok l" and fresh: "e_ID (mk_entry p n l) \<notin> e_ID ` set (entries w)"
    and range: "in_i64 (fst (add_side l dc))" "in_i64 (snd (add_side l dc))"
  shows "post_leg p n dc l w =
    (Inr (add_side l dc), after_legs p [mk_entry p n l] (leg_balance p l b) (leg_source p l sb) w)"
proof -
  let ?w1 = "w\<lparr>entries := entries w @ [mk_entry p n l]\<rparr>"
  have g: "leg_AccountCode l \<noteq> []" "leg_AccountCode l \<in> set chart_of_accounts" "\<not> leg_AmountIDR l \<le> 0"
    "to_upper (leg_Side l) = SideDebit \<or> to_upper (leg_Side l) = SideCredit"
    using leg(1) by (auto simp: db_leg_ok_def chart_of_accounts_def)
  have "\<not> (case e_FeeComponent (mk_entry p n l) of None \<Rightarrow> False | Some c \<Rightarrow> c \<notin> set fee_components)"
    using leg(2) by (auto simp: mk_entry_def nullif_def component_ok_def)
  then have ins: "insert_entry (mk_entry p n l) w = (Inr (), ?w1)"
    using fresh by (simp add: insert_entry_Inr)
  have "project_leg p (leg_AccountCode l) (to_upper (leg_Side l)) (leg_AmountIDR l) ?w1 =
    (Inr (), after_legs p [] (leg_balance p l b) (leg_source p l sb) ?w1)"
    by (rule project_leg_ok) (use assms(1-4) in auto)
  moreover have "(if to_upper (leg_Side l) = SideDebit
      then bindE (pg_bigint (fst dc + leg_AmountIDR l)) (\<lambda>d. Inr (d, snd dc))
      else bindE (pg_bigint (snd dc + leg_AmountIDR l)) (\<lambda>c. Inr (fst dc, c))) = Inr (add_side l dc)"
    using range by (simp add: add_side_def pg_bigint_def split: if_splits)
  moreover have "\<not> (to_upper (leg_Side l) \<noteq> SideDebit \<and> to_upper (leg_Side l) \<noteq> SideCredit)"
    using g(4) by blast
  ultimately show ?thesis
    using g(1-3) ins unfolding post_leg_def Let_def
    by (simp only: if_False bindS_step(1) liftE_app ret_app simp_thms not_not if_True)
      (simp add: after_legs_def)
qed

lemma entry_id_inj:
  assumes "e_ID (mk_entry p n l) = e_ID (mk_entry p m k)" and "1 \<le> n" "n < 10" "1 \<le> m" "m < 10"
  shows "n = m"
proof -
  have "show_int n = [digit_char n]" "show_int m = [digit_char m]"
    using assms by (simp_all add: show_int_def show_pos.simps)
  then have "digit_char n = digit_char m"
    using assms by (simp add: mk_entry_def pad2_def)
  then have "(of_char (digit_char n) :: int) = of_char (digit_char m)" by simp
  then show ?thesis using assms(2-5) by (simp add: digit_char_def)
qed

lemma mk_entries_ids:
  "e \<in> set (mk_entries p n ls) \<Longrightarrow> \<exists>i l. n \<le> i \<and> i < n + int (length ls) \<and> l \<in> set ls \<and> e = mk_entry p i l"
proof (induction ls arbitrary: n)
  case (Cons l ls)
  then consider "e = mk_entry p n l" | "e \<in> set (mk_entries p (n + 1) ls)" by auto
  then show ?case
  proof cases
    case 1
    then show ?thesis by (intro exI [of _ n] exI [of _ l]) simp
  next
    case 2
    from Cons.IH [OF this] obtain i k where "n + 1 \<le> i" "i < n + 1 + int (length ls)" "k \<in> set ls"
      "e = mk_entry p i k" by blast
    then show ?thesis by (intro exI [of _ i] exI [of _ k]) simp
  qed
qed simp

lemma post_legs_ok:
  assumes "balances w (pj_row p) = Some b"
    and "wallet_source (pj_Source p) \<longrightarrow> source_balances w (pj_source_row p) = Some sb"
    and "rows_run p ls b sb" and "list_all db_leg_ok ls" and "list_all component_ok ls"
    and "\<forall>e\<in>set (mk_entries p n ls). e_ID e \<notin> e_ID ` set (entries w)"
    and "1 \<le> n" and "n + int (length ls) \<le> 10"
    and "0 \<le> fst dc" "0 \<le> snd dc"
    and "in_i64 (fst dc + legs_side SideDebit ls)" and "in_i64 (snd dc + legs_side SideCredit ls)"
  shows "post_legs p n dc ls w = (Inr (fold add_side ls dc),
    after_legs p (mk_entries p n ls) (fold (leg_balance p) ls b) (fold (leg_source p) ls sb) w)"
  using assms
proof (induction ls arbitrary: n dc w b sb)
  case Nil
  then show ?case by (simp add: after_legs_none)
next
  case (Cons l ls)
  have sides: "0 \<le> legs_side s ls" for s
    using Cons.prems(4) by (induction ls) (auto simp: db_leg_ok_def)
  have pos: "0 < leg_AmountIDR l" and side: "to_upper (leg_Side l) = SideDebit \<or> to_upper (leg_Side l) = SideCredit"
    using Cons.prems(4) by (simp_all add: db_leg_ok_def)
  have dc: "0 \<le> fst (add_side l dc)" "0 \<le> snd (add_side l dc)"
    and tot: "fst (add_side l dc) + legs_side SideDebit ls = fst dc + legs_side SideDebit (l # ls)"
      "snd (add_side l dc) + legs_side SideCredit ls = snd dc + legs_side SideCredit (l # ls)"
    using pos side Cons.prems(9,10) by (auto simp: add_side_def)
  have range: "in_i64 (fst (add_side l dc))" "in_i64 (snd (add_side l dc))"
    by (rule in_i64_downward [OF Cons.prems(11)], use dc tot sides [of SideDebit] in linarith)
      (use dc tot sides [of SideDebit] in linarith,
       rule in_i64_downward [OF Cons.prems(12)], use dc tot sides [of SideCredit] in linarith,
       use dc tot sides [of SideCredit] in linarith)
  have one: "post_leg p n dc l w =
    (Inr (add_side l dc), after_legs p [mk_entry p n l] (leg_balance p l b) (leg_source p l sb) w)"
    by (rule post_leg_ok) (use Cons.prems range in auto)
  let ?w1 = "after_legs p [mk_entry p n l] (leg_balance p l b) (leg_source p l sb) w"
  have "\<forall>e\<in>set (mk_entries p (n + 1) ls). e_ID e \<notin> e_ID ` set (entries ?w1)"
  proof
    fix e assume e: "e \<in> set (mk_entries p (n + 1) ls)"
    from mk_entries_ids [OF e] obtain i k where i: "n + 1 \<le> i" "i < n + 1 + int (length ls)" "e = mk_entry p i k"
      by auto
    have "e_ID e \<noteq> e_ID (mk_entry p n l)"
    proof
      assume "e_ID e = e_ID (mk_entry p n l)"
      then have "i = n"
        by (intro entry_id_inj [of p i k n l]) (use i Cons.prems(7,8) in auto)
      with i show False by simp
    qed
    with e Cons.prems(6) show "e_ID e \<notin> e_ID ` set (entries ?w1)" by auto
  qed
  then have "post_legs p (n + 1) (add_side l dc) ls ?w1 = (Inr (fold add_side ls (add_side l dc)),
    after_legs p (mk_entries p (n + 1) ls) (fold (leg_balance p) ls (leg_balance p l b))
      (fold (leg_source p) ls (leg_source p l sb)) ?w1)"
  proof (rule Cons.IH [rotated 5])
    show "rows_run p ls (leg_balance p l b) (leg_source p l sb)" "list_all db_leg_ok ls"
      "list_all component_ok ls" "1 \<le> n + 1" "n + 1 + int (length ls) \<le> 10"
      using Cons.prems(3-5,7,8) by simp_all
    show "in_i64 (fst (add_side l dc) + legs_side SideDebit ls)"
      "in_i64 (snd (add_side l dc) + legs_side SideCredit ls)"
      using Cons.prems(11,12) by (simp_all only: tot)
  qed (simp_all add: dc)
  with one show ?case by simp
qed
text \<open>
  \<open>postable\<close>: everything the routine asks of a new journal. The entry ids cannot clash, because an
  entry id is its journal's id with a suffix of four characters.
\<close>

definition postable :: "PostJournalParams \<Rightarrow> 'm ledger_db_scheme \<Rightarrow> bool" where
  "postable p w \<longleftrightarrow> pj_JournalID p \<noteq> [] \<and> pj_MerchantID p \<noteq> [] \<and> pj_MerchantID p \<in> set (merchants w) \<and>
     (pj_PaymentMode p = ModeSandbox \<or> pj_PaymentMode p = ModeLive) \<and>
     pj_Source p \<in> {SourceStorefront, SourceQRISAPI, SourceMixed, SourceSystem} \<and>
     pj_TemplateCode p \<noteq> [] \<and> pj_JournalReference p \<noteq> [] \<and> pj_IdempotencyKey p \<noteq> [] \<and>
     pj_ReferenceType p \<noteq> [] \<and> pj_ReferenceID p \<noteq> [] \<and> journal_fresh p w \<and>
     2 \<le> length (pj_Legs p) \<and> length (pj_Legs p) \<le> 9 \<and> list_all db_leg_ok (pj_Legs p) \<and>
     list_all component_ok (pj_Legs p) \<and>
     legs_side SideDebit (pj_Legs p) = legs_side SideCredit (pj_Legs p) \<and>
     in_i64 (legs_side SideDebit (pj_Legs p)) \<and>
     rows_run p (pj_Legs p) (start_balance p w) (start_source p w) \<and>
     row_ok (balance_fields (final_balance p w)) \<and>
     (wallet_source (pj_Source p) \<longrightarrow> row_ok (source_fields (final_source p w)))"

lemma entry_ids_fresh:
  assumes inv: "journals_balanced w" and fresh: "journal_fresh p w"
    and e: "e \<in> set (mk_entries p 1 ls)"
  shows "e_ID e \<notin> e_ID ` set (entries w)"
proof
  assume "e_ID e \<in> e_ID ` set (entries w)"
  then obtain e' where e': "e' \<in> set (entries w)" "e_ID e = e_ID e'" by auto
  from mk_entries_ids [OF e] obtain i l where "1 \<le> i" "e = mk_entry p i l" by auto
  then obtain s where s: "length s = 4" "e_ID e = pj_JournalID p @ s"
    using mk_entry_id [of i p l] by auto
  from inv e'(1) have ok: "entry_ok e'" "e_JournalID e' \<in> j_ID ` set (journals w)"
    unfolding journals_balanced_def by blast+
  then obtain s' where "length s' = 4" "e_ID e' = e_JournalID e' @ s'"
    unfolding entry_ok_def by blast
  with s e'(2) have "e_JournalID e' = pj_JournalID p" by simp
  with ok fresh show False unfolding journal_fresh_def by metis
qed

lemma assert_nonneg_wallet_ok:
  "balances w (m, mode) = Some b \<Longrightarrow> row_ok (balance_fields b) \<Longrightarrow> assert_nonneg_wallet m mode w = (Inr (), w)"
  by (auto simp: assert_nonneg_wallet_def row_ok_def balance_fields_def)

lemma capture_counters_ok:
  assumes b: "balances w (pj_row p) = Some b"
    and sb: "wallet_source (pj_Source p) \<longrightarrow> source_balances w (pj_source_row p) = Some sb"
    and row: "counts_capture p \<longrightarrow> row_ok (balance_fields (count_capture p b))"
    and srow: "counts_capture p \<longrightarrow> wallet_source (pj_Source p) \<longrightarrow> row_ok (source_fields (sb\<lparr>sb_LifetimeNetIDR :=
        sb_LifetimeNetIDR sb + coalesce0 (pj_MerchantNetIDR p), sb_UpdatedAt := pj_PostedAt p\<rparr>))"
  shows "capture_counters p w = (Inr (), after_legs p [] (if counts_capture p then count_capture p b else b)
      (if counts_capture p then sb\<lparr>sb_LifetimeNetIDR := sb_LifetimeNetIDR sb + coalesce0 (pj_MerchantNetIDR p),
                sb_UpdatedAt := pj_PostedAt p\<rparr> else sb) w)"
proof (cases "counts_capture p")
  case False
  with b sb show ?thesis
    by (auto simp: capture_counters_def counts_capture_def after_legs_none)
next
  case True
  let ?w1 = "w\<lparr>balances := (balances w)(pj_row p \<mapsto> count_capture p b)\<rparr>"
  let ?f = "\<lambda>s. s\<lparr>sb_LifetimeNetIDR := sb_LifetimeNetIDR s + coalesce0 (pj_MerchantNetIDR p),
                sb_UpdatedAt := pj_PostedAt p\<rparr>"
  have one: "update_balance (pj_MerchantID p) (pj_PaymentMode p) (count_capture p) w = (Inr (), ?w1)"
    by (rule update_balance_ok) (use b row True in auto)
  show ?thesis
  proof (cases "wallet_source (pj_Source p)")
    case src: True
    then have "source_balances ?w1 (pj_source_row p) = Some sb" using sb by simp
    then have "update_source (pj_MerchantID p) (pj_PaymentMode p) (pj_Source p) ?f ?w1 =
      (Inr (), ?w1\<lparr>source_balances := (source_balances ?w1)(pj_source_row p \<mapsto> ?f sb)\<rparr>)"
      by (rule update_source_ok) (use srow True src in blast)
    with True src one show ?thesis
      by (simp add: capture_counters_def counts_capture_def after_legs_def)
  next
    case False
    with True one show ?thesis by (simp add: capture_counters_def counts_capture_def after_legs_def)
  qed
qed

lemma postable_posts:
  assumes inv: "ledger_inv w" and p: "postable p w"
  shows "PostJournal p w = (Inr (pj_JournalID p), posted p w)"
proof -
  let ?B = "start_balance p w" and ?S = "start_source p w" and ?legs = "pj_Legs p"
  let ?w1 = "w\<lparr>balances := (balances w)(pj_row p \<mapsto> ?B)\<rparr>" and ?w2 = "after_legs p [] ?B ?S w"
  let ?w3 = "?w2\<lparr>journals := journals w @ [mk_journal p]\<rparr>"
  let ?w4 = "after_legs p (mk_entries p 1 ?legs) (fold (leg_balance p) ?legs ?B) (fold (leg_source p) ?legs ?S) ?w3"
  have g: "pj_MerchantID p \<in> set (merchants w)" "pj_PaymentMode p = ModeSandbox \<or> pj_PaymentMode p = ModeLive"
    "journal_fresh p w" "list_all db_leg_ok ?legs" "list_all component_ok ?legs"
    "legs_side SideDebit ?legs = legs_side SideCredit ?legs" "in_i64 (legs_side SideDebit ?legs)"
    "length ?legs \<le> 9"
    using p by (auto simp: postable_def)
  have s1: "EnsureBalance (pj_MerchantID p) (pj_PaymentMode p) (pj_PostedAt p) w = (Inr (), ?w1)"
    using g(1,2) by (cases "balances w (pj_row p)")
      (auto simp: EnsureBalance_Inr start_balance_def fun_upd_idem)
  have s2: "(if wallet_source (pj_Source p) then ensure_source (pj_MerchantID p) (pj_PaymentMode p)
        (pj_Source p) (pj_PostedAt p) else ret ()) ?w1 = (Inr (), ?w2)"
    using g(1) by (cases "source_balances w (pj_source_row p)")
      (auto simp: ensure_source_Inr start_source_def after_legs_def fun_upd_idem)
  have s3: "insert_journal (mk_journal p) ?w2 = (Inr (), ?w3)"
    using p by (simp add: insert_journal_Inr postable_def journal_fresh_def)
  have s4: "post_legs p 1 (0, 0) ?legs ?w3 = (Inr (fold add_side ?legs (0, 0)), ?w4)"
  proof (rule post_legs_ok)
    show "rows_run p ?legs ?B ?S" using p by (simp add: postable_def)
    show "\<forall>e\<in>set (mk_entries p 1 ?legs). e_ID e \<notin> e_ID ` set (entries ?w3)"
      using entry_ids_fresh [OF _ g(3)] inv by (simp add: ledger_inv_def)
  qed (use g in \<open>auto simp: after_legs_def\<close>)
  have tot: "fold add_side ?legs (0, 0) = (legs_side SideCredit ?legs, legs_side SideCredit ?legs)"
    by (simp add: fold_add_side [OF g(4)] g(6))
  have s5: "capture_counters p ?w4 = (Inr (), after_legs p [] (final_balance p w) (final_source p w) ?w4)"
  proof -
    have "capture_counters p ?w4 = (Inr (), after_legs p []
        (if counts_capture p then count_capture p (fold (leg_balance p) ?legs ?B) else fold (leg_balance p) ?legs ?B)
        (if counts_capture p then (fold (leg_source p) ?legs ?S)\<lparr>sb_LifetimeNetIDR :=
             sb_LifetimeNetIDR (fold (leg_source p) ?legs ?S) + coalesce0 (pj_MerchantNetIDR p),
             sb_UpdatedAt := pj_PostedAt p\<rparr> else fold (leg_source p) ?legs ?S) ?w4)"
      by (rule capture_counters_ok) (use p in \<open>auto simp: postable_def final_balance_def final_source_def Let_def\<close>)
    then show ?thesis by (simp add: final_balance_def final_source_def Let_def)
  qed
  have posted: "after_legs p [] (final_balance p w) (final_source p w) ?w4 = posted p w"
    by (simp add: posted_def)
  have s6: "assert_nonneg_wallet (pj_MerchantID p) (pj_PaymentMode p) (posted p w) = (Inr (), posted p w)"
    by (rule assert_nonneg_wallet_ok [where b = "final_balance p w"]) (use p in \<open>simp_all add: postable_def\<close>)
  have body: "post_body p w = (Inr (pj_JournalID p), posted p w)"
    unfolding post_body_def
    by (simp only: bindS_step s1 s2 s3 s4 tot prod.case simp_thms if_False s5 posted s6 ret_app)
  have "existing_journal p w = None"
  proof -
    have "journal_by_reference (pj_JournalReference p) w = None" "journal_by_key (pj_IdempotencyKey p) w = None"
      using g(3) unfolding journal_by_reference_def journal_by_key_def journal_fresh_def find_none
      by (metis imageI)+
    then show ?thesis by (simp add: existing_journal_def)
  qed
  with body p show ?thesis
    by (auto simp: PostJournal_def post_ledger_transaction_def postable_def)
qed
subsection \<open>Reachable ledgers\<close>

text \<open>
  Everything the application can do to the ledger tables: one statement of the repository at a time,
  with any arguments, in any order, succeeding or failing.
\<close>

inductive ledger_step :: "'m ledger_db_scheme \<Rightarrow> 'm ledger_db_scheme \<Rightarrow> bool" where
  post: "PostJournal p w = (r, w') \<Longrightarrow> ledger_step w w'"
| ensure: "EnsureBalance m mode t w = (r, w') \<Longrightarrow> ledger_step w w'"
| rebuild: "RebuildBalances m mode w = (r, w') \<Longrightarrow> ledger_step w w'"
| lot: "InsertSettlementLot l w = (r, w') \<Longrightarrow> ledger_step w w'"
| captured: "UpdateLotAfterCapture i j st n t w = (r, w') \<Longrightarrow> ledger_step w w'"
| released: "UpdateLotAfterRelease i j st n t w = (r, w') \<Longrightarrow> ledger_step w w'"
| consume: "ConsumeLotRemaining i n t w = (r, w') \<Longrightarrow> ledger_step w w'"
| restore: "RestoreLotRemaining i n t w = (r, w') \<Longrightarrow> ledger_step w w'"
| link: "LinkPaymentSettlement i j a b l t w = (r, w') \<Longrightarrow> ledger_step w w'"

inductive_cases ledger_stepE: "ledger_step w w'"

definition empty_ledger :: "'m ledger_db_scheme \<Rightarrow> bool" where
  "empty_ledger w \<longleftrightarrow> journals w = [] \<and> entries w = [] \<and> lots w = [] \<and> balances w = Map.empty \<and>
     source_balances w = Map.empty"

inductive ledger_reachable :: "'m ledger_db_scheme \<Rightarrow> bool" where
  start: "empty_ledger w \<Longrightarrow> ledger_reachable w"
| step: "ledger_reachable w \<Longrightarrow> ledger_step w w' \<Longrightarrow> ledger_reachable w'"

lemma empty_ledger_inv: "empty_ledger w \<Longrightarrow> ledger_inv w"
  by (simp add: empty_ledger_def ledger_inv_def journals_balanced_def projection_exact_def rows_ok_def
      lots_ok_def wallet_entries_def source_entries_def)

lemma ledger_step_inv:
  assumes "ledger_step w w'" and "ledger_inv w"
  shows "ledger_inv w'"
  using assms(1)
  by (cases rule: ledger_step.cases)
    (metis assms(2) keepsD keeps_PostJournal keeps_EnsureBalance keeps_RebuildBalances
      keeps_InsertSettlementLot keeps_lot_updates keeps_LinkPaymentSettlement)+

lemma reachable_inv: "ledger_reachable w \<Longrightarrow> ledger_inv w"
  by (induction rule: ledger_reachable.induct) (auto intro: empty_ledger_inv ledger_step_inv)

text \<open>A small world for concrete inputs.\<close>

definition demo_ledger :: "'m \<Rightarrow> 'm ledger_db_scheme" where
  "demo_ledger x = \<lparr>id_gen = (\<lambda>n. show_int (int n)), next_id = 0, clock = 1000, schema_meta = Map.empty,
     merchants = [''m1''], stores = [(''st1'', ''m1'')], fee_policies = [LaunchFeePolicy], fee_snapshots = [],
     journals = [], entries = [], lots = [], balances = Map.empty, source_balances = Map.empty,
     payment_settlements = Map.empty, \<dots> = x\<rparr>"

definition demo_post :: "PostJournalParams" where
  "demo_post = \<lparr>pj_JournalID = ''lj_1'', pj_MerchantID = ''m1'', pj_StoreID = ''st1'', pj_PaymentMode = ModeLive,
     pj_Source = SourceStorefront, pj_TemplateCode = TemplateWithdrawalRelease, pj_ReferenceType = ''WITHDRAWAL'',
     pj_ReferenceID = ''w1'', pj_JournalReference = ''WITHDRAWAL_RELEASE:w1'',
     pj_IdempotencyKey = ''WITHDRAWAL_RELEASE:w1'', pj_Description = [], pj_PaymentIntentID = [],
     pj_OrderID = [], pj_SettlementLotID = [], pj_FeeSnapshotID = [], pj_GrossIDR = None,
     pj_FeePercentIDR = None, pj_FeeFixedIDR = None, pj_MerchantNetIDR = None, pj_PostedAt = 5,
     pj_Legs = [mk_leg AcctWithdrawalClearing SideDebit 700 ''WITHDRAWAL'',
                mk_leg AcctMerchantAvailable SideCredit 700 ''WITHDRAWAL'']\<rparr>"

lemma upper_sides [simp]:
  "to_upper SideDebit = SideDebit" "to_upper SideCredit = SideCredit"
  by (simp_all add: to_upper_def upper_char_def is_lower_def)

lemma demo_reachable: "ledger_reachable (demo_ledger x)"
  by (rule ledger_reachable.start) (simp add: empty_ledger_def demo_ledger_def)

lemma demo_postable: "postable demo_post (demo_ledger x)"
  by (simp add: postable_def demo_post_def demo_ledger_def journal_fresh_def db_leg_ok_def component_ok_def
      mk_leg_def chart_of_accounts_def fee_components_def start_balance_def start_source_def leg_balance_def
      leg_source_def project_balance_def project_source_def leg_delta_def final_balance_def final_source_def
      counts_capture_def row_ok_def balance_fields_def source_fields_def zero_balance_def
      zero_source_balance_def i64_bounds Let_def)

lemma demo_posts: "PostJournal demo_post (demo_ledger x) = (Inr ''lj_1'', posted demo_post (demo_ledger x))"
  using postable_posts [OF reachable_inv [OF demo_reachable] demo_postable] by (simp add: demo_post_def)

text \<open>
  C35. However the repository's statements are interleaved, the ledger stays a double-entry ledger:
  references, keys and entry ids are unique, and every journal has at least two positive entries
  on known accounts whose debits equal their credits. (The deferred balance trigger of migration
  000018 can therefore never fire.)
\<close>

theorem ledger_always_balanced:
  assumes "ledger_reachable w"
  shows "journals_balanced w"
  using reachable_inv [OF assms] by (simp add: ledger_inv_def)

lemma ledger_always_balanced_witness:
  "journals_balanced (posted demo_post (demo_ledger ()))"
  by (rule ledger_always_balanced [OF ledger_reachable.step [OF demo_reachable ledger_step.post [OF demo_posts]]])

text \<open>
  C36. The wallet a reader sees is the ledger: in every reachable state \<open>GetBalance\<close> returns for
  each merchant and mode the sums of that merchant's entries on the pending, available and held
  accounts (credits minus debits), and none of the three is negative or outside int64.
\<close>

theorem wallet_is_the_sum_of_entries:
  assumes "ledger_reachable w"
  shows "balance_matches m mode (entries w) (GetBalance m mode w) \<and> row_ok (balance_fields (GetBalance m mode w))"
proof -
  have inv: "projection_exact w" "rows_ok w"
    using reachable_inv [OF assms] by (simp_all add: ledger_inv_def)
  from projection_exact_row [OF inv(1), of m mode] inv(2) show ?thesis
    by (cases "balances w (m, mode)") (auto simp: GetBalance_def balance_matches_def rows_ok_def)
qed

lemma wallet_is_the_sum_of_entries_witness:
  "b_AvailableIDR (GetBalance ''m1'' ModeLive (posted demo_post (demo_ledger ()))) = 700"
proof -
  have "ledger_reachable (posted demo_post (demo_ledger ()))"
    by (rule ledger_reachable.step [OF demo_reachable ledger_step.post [OF demo_posts]])
  from wallet_is_the_sum_of_entries [OF this, of "''m1''" ModeLive] show ?thesis
    by (simp add: balance_matches_def filter_mk_entries)
      (simp add: demo_ledger_def demo_post_def mk_leg_def leg_delta_def wallet_entries_def)
qed
subsection \<open>Posting exactly once\<close>

text \<open>
  The contract the services rely on: a store of immutable records under a reference. A valid record
  whose reference is taken answers with the record already there and changes nothing; a record, once
  stored, is found under its reference after any further posts.
\<close>

locale record_store =
  fixes post :: "'p \<Rightarrow> ('s, string) op"
    and lookup :: "string \<Rightarrow> 's \<Rightarrow> 'j option"
    and ref :: "'p \<Rightarrow> string"
    and ident :: "'j \<Rightarrow> string"
    and valid :: "'p \<Rightarrow> bool"
    and inv :: "'s \<Rightarrow> bool"
  assumes keeps: "keeps inv (post p)"
    and success_valid: "post p w = (Inr i, w') \<Longrightarrow> valid p"
    and clean: "post p w = (Inl e, w') \<Longrightarrow> w' = w"
    and replays: "valid p \<Longrightarrow> lookup (ref p) w = Some j \<Longrightarrow> post p w = (Inr (ident j), w)"
    and creates: "inv w \<Longrightarrow> lookup (ref p) w = None \<Longrightarrow> post p w = (Inr i, w') \<Longrightarrow> w' \<noteq> w \<Longrightarrow>
      \<exists>j. lookup (ref p) w' = Some j \<and> ident j = i"
    and stable: "inv w \<Longrightarrow> lookup k w = Some j \<Longrightarrow> post p w = (r, w') \<Longrightarrow> lookup k w' = Some j"
begin

fun run_posts :: "'p list \<Rightarrow> 's \<Rightarrow> 's" where
  "run_posts [] w = w"
| "run_posts (p # ps) w = run_posts ps (snd (post p w))"

lemma run_posts_lookup:
  "inv w \<Longrightarrow> lookup k w = Some j \<Longrightarrow> inv (run_posts ps w) \<and> lookup k (run_posts ps w) = Some j"
proof (induction ps arbitrary: w)
  case (Cons p ps)
  obtain r w' where run: "post p w = (r, w')" by (cases "post p w")
  with Cons.prems have "inv w'" "lookup k w' = Some j"
    using keepsD [OF keeps] stable by blast+
  with Cons.IH run show ?case by simp
qed simp

lemma posted_once:
  assumes inv: "inv w" and post: "post p w = (Inr i, w')" and new: "w' \<noteq> w"
  shows "post p (run_posts ps w') = (Inr i, run_posts ps w')"
proof -
  have "lookup (ref p) w = None"
    using replays [OF success_valid [OF post]] post new by (cases "lookup (ref p) w") auto
  with creates inv post new obtain j where j: "lookup (ref p) w' = Some j" "ident j = i" by blast
  have "lookup (ref p) (run_posts ps w') = Some j"
    using run_posts_lookup [OF keepsD [OF keeps post inv] j(1)] by blast
  from replays [OF success_valid [OF post] this] j(2) show ?thesis by simp
qed

end

definition journal_args_ok :: "PostJournalParams \<Rightarrow> bool" where
  "journal_args_ok p \<longleftrightarrow> pj_JournalID p \<noteq> [] \<and> pj_MerchantID p \<noteq> [] \<and>
     (pj_PaymentMode p = ModeSandbox \<or> pj_PaymentMode p = ModeLive) \<and>
     pj_Source p \<in> {SourceStorefront, SourceQRISAPI, SourceMixed, SourceSystem} \<and>
     pj_TemplateCode p \<noteq> [] \<and> pj_JournalReference p \<noteq> [] \<and> pj_IdempotencyKey p \<noteq> [] \<and>
     2 \<le> length (pj_Legs p)"

lemma PostJournal_args: "PostJournal p w = (Inr i, w') \<Longrightarrow> journal_args_ok p"
  by (auto simp: PostJournal_def post_ledger_transaction_def journal_args_ok_def split: if_splits)

lemma PostJournal_replay:
  "journal_args_ok p \<Longrightarrow> existing_journal p w = Some j \<Longrightarrow> PostJournal p w = (Inr (j_ID j), w)"
  by (auto simp: PostJournal_def post_ledger_transaction_def journal_args_ok_def)

lemma PostJournal_added:
  assumes "PostJournal p w = (r, w')" and "rows_ok w" and "w' \<noteq> w"
  shows "r = Inr (pj_JournalID p) \<and> w' = posted p w \<and> journal_fresh p w \<and> existing_journal p w = None"
  using assms by (cases rule: PostJournal_cases) auto

lemma PostJournal_stable:
  assumes "rows_ok w" and "journal_by_reference k w = Some j" and "PostJournal p w = (r, w')"
  shows "journal_by_reference k w' = Some j"
proof (cases "w' = w")
  case False
  with PostJournal_added [OF assms(3,1)] assms(2) show ?thesis
    by (simp add: journal_by_reference_def find_append)
qed (use assms in simp)

interpretation ledger: record_store PostJournal journal_by_reference pj_JournalReference j_ID journal_args_ok ledger_inv
proof (unfold_locales, goal_cases)
  case (1 p) show ?case by (rule keeps_PostJournal)
next
  case (2 p w i w') then show ?case by (rule PostJournal_args)
next
  case (3 p w e w')
  then show ?case by (auto simp: PostJournal_def post_ledger_transaction_def
      split: if_splits option.splits prod.splits sum.splits)
next
  case (4 p w j)
  then show ?case by (intro PostJournal_replay) (simp_all add: existing_journal_def)
next
  case (5 w p i w')
  from PostJournal_added [OF 5(3) ledger_inv_rows [OF 5(1)] 5(4)] 5(2,3) show ?case
    by (simp add: journal_by_reference_def find_append)
next
  case (6 w k j p r w')
  show ?case by (rule PostJournal_stable [OF ledger_inv_rows [OF 6(1)] 6(2,3)])
qed

text \<open>Any later statements of the repository, not only posts, leave the journal in place.\<close>

lemma ledger_step_journals:
  assumes "ledger_step w w'" and "ledger_inv w"
  shows "\<exists>js es. journals w' = journals w @ js \<and> entries w' = entries w @ es"
proof -
  have lots: "journals w2 = journals w1 \<and> entries w2 = entries w1" if "update_lots sel f w1 = (r, w2)"
    for sel f and w1 w2 :: "'a ledger_db_scheme" and r
    using that by (auto simp: update_lots_def split: option.splits sum.splits)
  have src: "journals w2 = journals w1 \<and> entries w2 = entries w1" if "put_source m mode s w1 = (r, w2)"
    for m mode s and w1 w2 :: "'a ledger_db_scheme" and r
    using that by (auto simp: put_source_def split: if_splits sum.splits)
  show ?thesis
    using assms(1)
  proof cases
    case (post p r)
    then show ?thesis
      using PostJournal_added [OF post ledger_inv_rows [OF assms(2)]] by (cases "w' = w") auto
  next
    case (rebuild m mode r)
    have two: "journals w2 = journals w1 \<and> entries w2 = entries w1"
      if "for_each (put_source m mode) [SourceStorefront, SourceQRISAPI] w1 = (r, w2)"
      for w1 w2 :: "'a ledger_db_scheme" and r
      using that src by (auto elim!: bindS_cases dest!: src)
    from rebuild show ?thesis
      by (auto simp: RebuildBalances_def with_tx_def simp del: for_each.simps dest!: two
          split: if_splits sum.splits prod.splits)
  qed (auto simp: UpdateLotAfterCapture_def UpdateLotAfterRelease_def ConsumeLotRemaining_def
      RestoreLotRemaining_def EnsureBalance_def InsertSettlementLot_def LinkPaymentSettlement_def
      dest: lots split: if_splits sum.splits)
qed
text \<open>
  A journal is posted exactly once: after \<open>PostJournal\<close> has added a journal, any number of
  other posts may follow, and posting the same parameters again answers with the same journal id
  and leaves every table as it is (the replay by journal_reference of \<open>post_ledger_transaction\<close>).
\<close>

theorem PostJournal_exactly_once:
  assumes "ledger_reachable w" and "PostJournal p w = (Inr i, w')" and "w' \<noteq> w"
  shows "PostJournal p (ledger.run_posts qs w') = (Inr i, ledger.run_posts qs w')"
  by (rule ledger.posted_once [OF reachable_inv [OF assms(1)] assms(2,3)])

lemma posted_neq: "posted p w \<noteq> w"
  by (metis append_self_conv list.distinct(1) posted_fields(1))

lemma PostJournal_exactly_once_witness:
  "PostJournal demo_post (posted demo_post (demo_ledger ())) = (Inr ''lj_1'', posted demo_post (demo_ledger ()))"
  using PostJournal_exactly_once [OF demo_reachable demo_posts posted_neq, of "[]"] by simp

text \<open>
  The ledger is append-only: every statement of the repository leaves the journals and entries
  that were there, in their order, and only adds after them. No operation rewrites history.
\<close>

theorem ledger_append_only:
  assumes "ledger_reachable w" and "ledger_step w w'"
  shows "\<exists>js es. journals w' = journals w @ js \<and> entries w' = entries w @ es"
  by (rule ledger_step_journals [OF assms(2) reachable_inv [OF assms(1)]])

lemma ledger_append_only_witness:
  "\<exists>js es. journals (posted demo_post (demo_ledger ())) = journals (demo_ledger ()) @ js \<and>
     entries (posted demo_post (demo_ledger ())) = entries (demo_ledger ()) @ es"
  by (rule ledger_append_only [OF demo_reachable ledger_step.post [OF demo_posts]])

text \<open>
  The wallet as an abstract object: three amounts per merchant and mode. A journal is a transfer
  that must not leave any of them negative.
\<close>

type_synonym wallet = "int \<times> int \<times> int"

definition abs_wallet :: "'m ledger_db_scheme \<Rightarrow> string \<times> string \<Rightarrow> wallet" where
  "abs_wallet w k = (let b = GetBalance (fst k) (snd k) w in (b_PendingIDR b, b_AvailableIDR b, b_HeldIDR b))"

definition wallet_transfer :: "string \<times> string \<Rightarrow> EntryLeg list \<Rightarrow> (string \<times> string \<Rightarrow> wallet) \<Rightarrow>
    (string \<times> string \<Rightarrow> wallet) option" where
  "wallet_transfer k legs a =
    (let (p, v, h) = a k;
         p' = p + legs_delta AcctMerchantPending legs;
         v' = v + legs_delta AcctMerchantAvailable legs;
         h' = h + legs_delta AcctMerchantHeld legs
     in if p' < 0 \<or> v' < 0 \<or> h' < 0 then None else Some (a(k := (p', v', h'))))"

lemma start_balance_abs:
  "abs_wallet w (pj_row p) = (b_PendingIDR (start_balance p w), b_AvailableIDR (start_balance p w), b_HeldIDR (start_balance p w))"
  by (simp add: abs_wallet_def GetBalance_def start_balance_def Let_def split: option.splits)

lemma GetBalance_posted:
  "GetBalance m mode (posted p w) = (if (m, mode) = pj_row p then final_balance p w else GetBalance m mode w)"
  by (auto simp: GetBalance_def)

text \<open>
  C33. Refinement: seen through \<open>GetBalance\<close>, a post that adds a journal is exactly the abstract
  transfer of its legs on the merchant's wallet (and nobody else's), and it is a transfer the
  abstract wallet allows: a post that would overdraw never succeeds.
\<close>

theorem PostJournal_refines_wallet:
  assumes "ledger_reachable w" and "PostJournal p w = (Inr i, w')" and "w' \<noteq> w"
  shows "wallet_transfer (pj_row p) (pj_Legs p) (abs_wallet w) = Some (abs_wallet w')"
proof -
  note rows = ledger_inv_rows [OF reachable_inv [OF assms(1)]]
  from PostJournal_added [OF assms(2) rows assms(3)] have w': "w' = posted p w" by simp
  have "ledger_inv w'"
    using keepsD [OF keeps_PostJournal assms(2)] reachable_inv [OF assms(1)] by blast
  moreover have "balances w' (pj_row p) = Some (final_balance p w)" by (simp add: w')
  ultimately have "row_ok (balance_fields (final_balance p w))"
    unfolding ledger_inv_def rows_ok_def by blast
  then have nonneg: "\<not> (b_PendingIDR (final_balance p w) < 0 \<or> b_AvailableIDR (final_balance p w) < 0
      \<or> b_HeldIDR (final_balance p w) < 0)"
    by (auto simp: row_ok_def balance_fields_def)
  have "abs_wallet w' = (abs_wallet w)(pj_row p :=
      (b_PendingIDR (final_balance p w), b_AvailableIDR (final_balance p w), b_HeldIDR (final_balance p w)))"
    by (rule ext) (auto simp: w' abs_wallet_def GetBalance_posted Let_def)
  with nonneg show ?thesis
    by (simp add: wallet_transfer_def start_balance_abs final_balance_wallet Let_def)
qed

lemma PostJournal_refines_wallet_witness:
  "wallet_transfer (''m1'', ModeLive) (pj_Legs demo_post) (abs_wallet (demo_ledger ())) =
     Some (abs_wallet (posted demo_post (demo_ledger ())))"
  using PostJournal_refines_wallet [OF demo_reachable demo_posts posted_neq] by (simp add: demo_post_def)

lemma for_each_put_source_balances:
  "for_each (put_source m mode) ss w = (r, w') \<Longrightarrow> balances w' = balances w"
proof (induction ss arbitrary: w)
  case (Cons s ss)
  from Cons.prems have "bindS (put_source m mode s) (\<lambda>_. for_each (put_source m mode) ss) w = (r, w')" by simp
  then show ?case
  proof (cases rule: bindS_cases)
    case (err e)
    then show ?thesis by (auto simp: put_source_def split: if_splits sum.splits)
  next
    case (ok a s1)
    then have "balances s1 = balances w" by (auto simp: put_source_def split: if_splits sum.splits)
    with Cons.IH ok(2) show ?thesis by metis
  qed
qed simp

text \<open>
  C34. The incremental projection and the rebuild agree: \<open>rebuild_merchant_balances\<close>, run in any
  reachable state, leaves the pending, available and held amounts of every wallet as they are.
\<close>

theorem rebuild_agrees_with_projection:
  assumes "ledger_reachable w" and "RebuildBalances m mode w = (r, w')"
  shows "abs_wallet w' = abs_wallet w"
proof (cases "balances w' = balances w")
  case True
  then show ?thesis by (simp add: abs_wallet_def GetBalance_def fun_eq_iff)
next
  case False
  let ?w1 = "w\<lparr>balances := (balances w)((m, mode) \<mapsto> rebuilt_balance m mode w)\<rparr>"
  have "balances w' = balances ?w1"
    using assms(2) False for_each_put_source_balances [of m mode "[SourceStorefront, SourceQRISAPI]" ?w1]
    by (auto simp: RebuildBalances_def with_tx_def simp del: for_each.simps
        split: if_splits sum.splits prod.splits)
  then have get: "GetBalance a b w' = (if (a, b) = (m, mode) then rebuilt_balance m mode w else GetBalance a b w)" for a b
    by (simp add: GetBalance_def)
  have "balance_matches m mode (entries w) (GetBalance m mode w)"
    using projection_exact_row [of w m mode] reachable_inv [OF assms(1)]
    by (cases "balances w (m, mode)") (auto simp: ledger_inv_def GetBalance_def balance_matches_def)
  with rebuilt_balance_matches [of m mode w] show ?thesis
    by (auto simp: fun_eq_iff abs_wallet_def get balance_matches_def Let_def)
qed

lemma rebuild_agrees_with_projection_witness:
  "abs_wallet (snd (RebuildBalances ''m1'' ModeLive (posted demo_post (demo_ledger ())))) =
     abs_wallet (posted demo_post (demo_ledger ()))"
proof -
  have "ledger_reachable (posted demo_post (demo_ledger ()))"
    by (rule ledger_reachable.step [OF demo_reachable ledger_step.post [OF demo_posts]])
  then show ?thesis
    by (rule rebuild_agrees_with_projection [where r = "fst (RebuildBalances ''m1'' ModeLive (posted demo_post (demo_ledger ())))"])
      simp
qed
subsection \<open>The source breakdown\<close>

text \<open>
  The per-source rows are the unified wallet broken down, as long as every entry carries a wallet
  source. A MIXED journal that moves the wallet breaks the equality, and nothing restores it.
\<close>

definition abs_sources :: "'m ledger_db_scheme \<Rightarrow> string \<times> string \<Rightarrow> wallet" where
  "abs_sources w k = (let ss = ListSourceBalances (fst k) (snd k) w in
     (sum_list (map sb_PendingIDR ss), sum_list (map sb_AvailableIDR ss), sum_list (map sb_HeldIDR ss)))"

lemma fold_wrap64:
  "in_i64 acc \<Longrightarrow> in_i64 (acc + sum_list (map f xs)) \<Longrightarrow> (\<forall>x\<in>set xs. 0 \<le> f x) \<Longrightarrow> 0 \<le> acc \<Longrightarrow>
   fold (\<lambda>s a. wrap64 (a + f s)) xs acc = acc + sum_list (map f xs)"
proof (induction xs arbitrary: acc)
  case (Cons x xs)
  have nonneg: "0 \<le> sum_list (map f xs)" using Cons.prems(3) by (intro sum_list_nonneg) auto
  have "in_i64 (acc + f x)"
    by (rule in_i64_downward [OF Cons.prems(2)]) (use Cons.prems(3,4) nonneg in auto)
  with Cons show ?case by (simp add: add.assoc)
qed simp

definition entries_sourced :: "string \<times> string \<Rightarrow> 'm ledger_db_scheme \<Rightarrow> bool" where
  "entries_sourced k w \<longleftrightarrow>
     list_all (\<lambda>e. wallet_source (e_Source e)) (wallet_entries (fst k) (snd k) (entries w))"

lemma entries_delta_split:
  "list_all (\<lambda>e. wallet_source (e_Source e)) es \<Longrightarrow>
   entries_delta a es = entries_delta a (filter (\<lambda>e. e_Source e = SourceStorefront) es) +
     entries_delta a (filter (\<lambda>e. e_Source e = SourceQRISAPI) es)"
  by (induction es) (auto simp: entries_delta_def)

lemma abs_sources_eq:
  assumes "projection_exact w"
  shows "abs_sources w (m, mode) =
    (let d = (\<lambda>a. entries_delta a (source_entries m mode SourceStorefront (entries w)) +
        entries_delta a (source_entries m mode SourceQRISAPI (entries w)))
     in (d AcctMerchantPending, d AcctMerchantAvailable, d AcctMerchantHeld))"
proof -
  have s: "source_row_ok m mode SourceStorefront (entries w) (source_balances w (m, mode, SourceStorefront))"
    and q: "source_row_ok m mode SourceQRISAPI (entries w) (source_balances w (m, mode, SourceQRISAPI))"
    using projection_exact_source [OF assms] by blast+
  show ?thesis
    using s q
    by (cases "source_balances w (m, mode, SourceStorefront)"; cases "source_balances w (m, mode, SourceQRISAPI)")
      (simp_all add: abs_sources_def ListSourceBalances_def List.map_filter_simps source_matches_def Let_def)
qed

lemma abs_wallet_eq:
  assumes "projection_exact w"
  shows "abs_wallet w (m, mode) = (let d = (\<lambda>a. entries_delta a (wallet_entries m mode (entries w)))
     in (d AcctMerchantPending, d AcctMerchantAvailable, d AcctMerchantHeld))"
  using projection_exact_row [OF assms, of m mode]
  by (cases "balances w (m, mode)") (auto simp: abs_wallet_def GetBalance_def balance_matches_def Let_def)

lemma SourceTotalsSumEqual_iff:
  assumes inv: "ledger_inv w"
    and fits: "\<forall>x \<in> {fst t, fst (snd t), snd (snd t)}. in_i64 x" and t: "t = abs_sources w (m, mode)"
  shows "SourceTotalsSumEqual (GetBalance m mode w) (ListSourceBalances m mode w)
    \<longleftrightarrow> abs_sources w (m, mode) = abs_wallet w (m, mode)"
proof -
  let ?ss = "ListSourceBalances m mode w"
  have rows: "0 \<le> sb_AvailableIDR s \<and> 0 \<le> sb_PendingIDR s \<and> 0 \<le> sb_HeldIDR s" if "s \<in> set ?ss" for s
  proof -
    from that obtain src where "source_balances w (m, mode, src) = Some s"
      by (auto simp: ListSourceBalances_def List.map_filter_simps split: option.splits)
    with inv have "row_ok (source_fields s)" unfolding ledger_inv_def rows_ok_def by blast
    then show ?thesis by (simp add: row_ok_def source_fields_def)
  qed
  have "fold (\<lambda>s a. wrap64 (a + f s)) ?ss 0 = sum_list (map f ?ss)"
    if "\<forall>s\<in>set ?ss. 0 \<le> f s" and "in_i64 (sum_list (map f ?ss))" for f
    using fold_wrap64 [of 0 f ?ss] that by simp
  with rows fits show ?thesis
    by (auto simp: SourceTotalsSumEqual_def t abs_sources_def abs_wallet_def Let_def)
qed

text \<open>
  When every entry of a merchant's wallet carries the source STOREFRONT or QRIS_API, the source
  rows add up to the unified wallet, and the check \<open>SourceTotalsSumEqual\<close> of allocation.go says so.
\<close>

theorem source_totals_sum:
  assumes "ledger_reachable w" and "entries_sourced (m, mode) w"
  shows "SourceTotalsSumEqual (GetBalance m mode w) (ListSourceBalances m mode w)"
proof -
  note inv = reachable_inv [OF assms(1)]
  have proj: "projection_exact w" using inv by (simp add: ledger_inv_def)
  have eq: "abs_sources w (m, mode) = abs_wallet w (m, mode)"
    using assms(2) entries_delta_split [of "wallet_entries m mode (entries w)"]
    by (simp add: abs_sources_eq [OF proj] abs_wallet_eq [OF proj] entries_sourced_def source_entries_def)
  have "row_ok (balance_fields (GetBalance m mode w))"
    using inv by (auto simp: ledger_inv_def rows_ok_def GetBalance_def split: option.splits)
  then have "\<forall>x \<in> {fst (abs_wallet w (m, mode)), fst (snd (abs_wallet w (m, mode))), snd (snd (abs_wallet w (m, mode)))}. in_i64 x"
    by (simp add: abs_wallet_def row_ok_def balance_fields_def Let_def)
  then show ?thesis using SourceTotalsSumEqual_iff [OF inv _ eq [symmetric]] eq by simp
qed

lemma source_totals_sum_witness:
  "SourceTotalsSumEqual (GetBalance ''m1'' ModeLive (posted demo_post (demo_ledger ())))
     (ListSourceBalances ''m1'' ModeLive (posted demo_post (demo_ledger ())))"
proof -
  have "ledger_reachable (posted demo_post (demo_ledger ()))"
    by (rule ledger_reachable.step [OF demo_reachable ledger_step.post [OF demo_posts]])
  then show ?thesis
    by (rule source_totals_sum)
      (simp add: entries_sourced_def filter_mk_entries,
       simp add: demo_post_def demo_ledger_def mk_entry_def wallet_entries_def)
qed
text \<open>
  A MIXED journal breaks the breakdown: when a wallet whose source rows add up is moved by a
  journal with source MIXED (as the reserve of a withdrawal over lots of both sources is), only the
  unified row moves, and \<open>SourceTotalsSumEqual\<close> is false from then on, although no money is missing.
\<close>

theorem mixed_post_breaks_source_totals:
  assumes "ledger_reachable w" and "entries_sourced (pj_row p) w"
    and "PostJournal p w = (Inr i, w')" and "w' \<noteq> w" and "pj_Source p = SourceMixed"
    and "legs_delta AcctMerchantAvailable (pj_Legs p) \<noteq> 0"
  shows "\<not> SourceTotalsSumEqual (GetBalance (pj_MerchantID p) (pj_PaymentMode p) w')
    (ListSourceBalances (pj_MerchantID p) (pj_PaymentMode p) w')"
proof -
  let ?m = "pj_MerchantID p" and ?mode = "pj_PaymentMode p"
  note inv = reachable_inv [OF assms(1)]
  have proj: "projection_exact w" using inv by (simp add: ledger_inv_def)
  have w': "w' = posted p w" using PostJournal_added [OF assms(3) ledger_inv_rows [OF inv] assms(4)] by simp
  have eq: "abs_sources w (?m, ?mode) = abs_wallet w (?m, ?mode)"
    using assms(2) entries_delta_split [of "wallet_entries ?m ?mode (entries w)"]
    by (simp add: abs_sources_eq [OF proj] abs_wallet_eq [OF proj] entries_sourced_def source_entries_def)
  have same: "abs_sources w' (?m, ?mode) = abs_sources w (?m, ?mode)"
    using assms(5) by (simp add: w' abs_sources_def ListSourceBalances_def)
  have "row_ok (balance_fields (GetBalance ?m ?mode w))"
    using inv by (auto simp: ledger_inv_def rows_ok_def GetBalance_def split: option.splits)
  then have fits: "\<forall>x \<in> {fst (abs_wallet w (?m, ?mode)), fst (snd (abs_wallet w (?m, ?mode))),
      snd (snd (abs_wallet w (?m, ?mode)))}. in_i64 x"
    by (simp add: abs_wallet_def row_ok_def balance_fields_def Let_def)
  have "abs_wallet w' (?m, ?mode) \<noteq> abs_wallet w (?m, ?mode)"
    using assms(6) start_balance_abs [of w p]
    by (simp add: w' abs_wallet_def GetBalance_posted final_balance_wallet Let_def)
  then show ?thesis
    using SourceTotalsSumEqual_iff [OF keepsD [OF keeps_PostJournal assms(3) inv] fits] same eq by simp
qed

definition demo_mixed :: "PostJournalParams" where
  "demo_mixed = demo_post\<lparr>pj_JournalID := ''lj_2'', pj_Source := SourceMixed,
     pj_TemplateCode := TemplateWithdrawalReserve, pj_JournalReference := ''WITHDRAWAL_RESERVE:w2'',
     pj_IdempotencyKey := ''WITHDRAWAL_RESERVE:w2'',
     pj_Legs := [mk_leg AcctMerchantAvailable SideDebit 200 ''WITHDRAWAL'',
                 mk_leg AcctWithdrawalClearing SideCredit 200 ''WITHDRAWAL'']\<rparr>"

lemma demo_final_balance:
  "final_balance demo_post (demo_ledger x) =
     (zero_balance ''m1'' ModeLive 5)\<lparr>b_AvailableIDR := 700, b_Version := 1\<rparr>"
  by (simp add: final_balance_def start_balance_def counts_capture_def demo_post_def demo_ledger_def
      leg_balance_def project_balance_def leg_delta_def mk_leg_def zero_balance_def)

lemma demo_mixed_postable: "postable demo_mixed (posted demo_post (demo_ledger x))"
proof -
  have start: "start_balance demo_mixed (posted demo_post (demo_ledger x)) =
      (zero_balance ''m1'' ModeLive 5)\<lparr>b_AvailableIDR := 700, b_Version := 1\<rparr>"
    by (simp add: start_balance_def demo_final_balance) (simp add: demo_mixed_def demo_post_def)
  show ?thesis
    unfolding postable_def final_balance_def start
    by (simp add: journal_fresh_def)
      (simp add: demo_mixed_def demo_post_def demo_ledger_def db_leg_ok_def component_ok_def
      mk_leg_def chart_of_accounts_def fee_components_def leg_balance_def
      project_balance_def leg_delta_def
      counts_capture_def row_ok_def balance_fields_def zero_balance_def i64_bounds)
qed

lemma mixed_post_breaks_source_totals_witness:
  "\<exists>w. ledger_reachable (w :: ledger_db) \<and>
     \<not> SourceTotalsSumEqual (GetBalance ''m1'' ModeLive w) (ListSourceBalances ''m1'' ModeLive w)"
proof -
  let ?w = "posted demo_post (demo_ledger ())"
  have reach: "ledger_reachable ?w"
    by (rule ledger_reachable.step [OF demo_reachable ledger_step.post [OF demo_posts]])
  have run: "PostJournal demo_mixed ?w = (Inr ''lj_2'', posted demo_mixed ?w)"
    using postable_posts [OF reachable_inv [OF reach] demo_mixed_postable]
    by (simp add: demo_mixed_def)
  have row: "pj_row demo_mixed = (''m1'', ModeLive)" by (simp add: demo_mixed_def demo_post_def)
  have src: "entries_sourced (pj_row demo_mixed) ?w"
    unfolding row by (simp add: entries_sourced_def filter_mk_entries)
      (simp add: demo_post_def demo_ledger_def mk_entry_def wallet_entries_def)
  have moved: "legs_delta AcctMerchantAvailable (pj_Legs demo_mixed) \<noteq> 0" and mixed: "pj_Source demo_mixed = SourceMixed"
    by (simp_all add: demo_mixed_def mk_leg_def leg_delta_def)
  have "\<not> SourceTotalsSumEqual (GetBalance ''m1'' ModeLive (posted demo_mixed ?w))
      (ListSourceBalances ''m1'' ModeLive (posted demo_mixed ?w))"
    using mixed_post_breaks_source_totals [OF reach src run posted_neq mixed moved] row by simp
  moreover have "ledger_reachable (posted demo_mixed ?w)"
    by (rule ledger_reachable.step [OF reach ledger_step.post [OF run]])
  ultimately show ?thesis by blast
qed

end
