(* ===== verification/Ledger_Service.thy ===== *)
theory Ledger_Service
  imports Ledger_Posting
begin

text \<open>
  \<open>internal/application/ledger_service.go\<close>: capture of a payment into the merchant's wallet, release
  of due settlements, and the finance reads. Authorisation (\<open>StoreAccessGuard\<close>) is a field of the
  service, as in the code; logging is left out. The clock does not move during one call.
\<close>

subsection \<open>The service\<close>

record LedgerService =
  ls_Authz :: "(string \<Rightarrow> string \<Rightarrow> unit result) option"
  ls_ForceImmediateRelease :: bool
  ls_DefaultPaymentMode :: string

definition defaultMode :: "LedgerService \<Rightarrow> string" where
  "defaultMode s = (if ls_DefaultPaymentMode s \<noteq> [] then ls_DefaultPaymentMode s else ModeSandbox)"

definition NormalizePaymentMode :: "string \<Rightarrow> string" where
  "NormalizePaymentMode raw = (if to_upper (trim_space raw) = ModeLive then ModeLive else ModeSandbox)"

definition requireStoreRead :: "LedgerService \<Rightarrow> string \<Rightarrow> string \<Rightarrow> unit result" where
  "requireStoreRead s actorUserID storeID =
    (if actorUserID = [] then Inl (apperr_unauthorized ''AUTH_REQUIRED'' ''Authentication required'')
     else if storeID = [] then Inl (apperr_not_found ''RESOURCE_NOT_FOUND'' ''Store not found'')
     else case ls_Authz s of
         None \<Rightarrow> Inl (apperr_internal ''INTERNAL_ERROR'' ''Finance authorization unavailable'')
       | Some guard \<Rightarrow> guard actorUserID storeID)"

subsection \<open>Payment capture\<close>

definition capture_validation :: "PaymentCaptureInput \<Rightarrow> unit result" where
  "capture_validation inp =
    (if pc_MerchantID inp = [] \<or> pc_PaymentIntentID inp = []
       then Inl (apperr_validation ''VALIDATION_FAILED'' ''merchant and payment intent required'')
     else if pc_GrossIDR inp \<le> 0 \<or> pc_MerchantNetIDR inp \<le> 0
       then Inl (apperr_validation ''VALIDATION_FAILED'' ''gross and net must be positive'')
     else if pc_Source inp \<noteq> SourceStorefront \<and> pc_Source inp \<noteq> SourceQRISAPI
       then Inl (apperr_validation ''VALIDATION_FAILED'' ''source must be STOREFRONT or QRIS_API'')
     else if pc_PaymentMode inp \<noteq> ModeSandbox \<and> pc_PaymentMode inp \<noteq> ModeLive
       then Inl (apperr_validation ''VALIDATION_FAILED'' ''payment_mode must be SANDBOX or LIVE'')
     else Inr ())"

definition capture_fees :: "PaymentCaptureInput \<Rightarrow> i64 \<times> i64" where
  "capture_fees inp =
    (if wrap64 (pc_FeePercentIDR inp + pc_FeeFixedIDR inp) \<noteq> wrap64 (pc_GrossIDR inp - pc_MerchantNetIDR inp)
     then SplitFeeComponents (wrap64 (pc_GrossIDR inp - pc_MerchantNetIDR inp)) (pc_FeePercentIDR inp) (pc_FeeFixedIDR inp)
     else (pc_FeePercentIDR inp, pc_FeeFixedIDR inp))"

definition or_new_id :: "string \<Rightarrow> string \<Rightarrow> ('m base_db_scheme, string) op" where
  "or_new_id given prefix = (if given = [] then bindS new_id (\<lambda>i. ret (prefix @ i)) else ret given)"

definition capture_lot :: "PaymentCaptureInput \<Rightarrow> string \<Rightarrow> bool \<Rightarrow> time \<Rightarrow> time \<Rightarrow> SettlementLot" where
  "capture_lot inp lotID immediate availableAt now =
    \<lparr>lot_ID = lotID, lot_MerchantID = pc_MerchantID inp,
     lot_StoreID = (if pc_StoreID inp \<noteq> [] then Some (pc_StoreID inp) else None),
     lot_PaymentMode = pc_PaymentMode inp, lot_Source = pc_Source inp,
     lot_PaymentIntentID = Some (pc_PaymentIntentID inp), lot_OrderID = Some (pc_OrderID inp),
     lot_CaptureJournalID = None, lot_ReleaseJournalID = None,
     lot_OriginalAmountIDR = pc_MerchantNetIDR inp,
     lot_RemainingAmountIDR = (if immediate then pc_MerchantNetIDR inp else 0),
     lot_Currency = CurrencyIDR, lot_Status = (if immediate then LotAvailable else LotPending),
     lot_AvailableAt = availableAt, lot_ReleasedAt = None, lot_CreatedAt = now, lot_UpdatedAt = now\<rparr>"

definition capture_params ::
    "PaymentCaptureInput \<Rightarrow> string \<Rightarrow> string \<Rightarrow> string \<Rightarrow> string \<Rightarrow> i64 \<Rightarrow> i64 \<Rightarrow> time \<Rightarrow> EntryLeg list \<Rightarrow> PostJournalParams" where
  "capture_params inp journalID ref desc lotID feeP feeF now legs =
    \<lparr>pj_JournalID = journalID, pj_MerchantID = pc_MerchantID inp, pj_StoreID = pc_StoreID inp,
     pj_PaymentMode = pc_PaymentMode inp, pj_Source = pc_Source inp,
     pj_TemplateCode = TemplatePaymentCapture, pj_ReferenceType = ''PAYMENT_INTENT'',
     pj_ReferenceID = pc_PaymentIntentID inp, pj_JournalReference = ref,
     pj_IdempotencyKey = (if pc_IdempotencyKey inp = [] then ref else pc_IdempotencyKey inp),
     pj_Description = desc, pj_PaymentIntentID = pc_PaymentIntentID inp, pj_OrderID = pc_OrderID inp,
     pj_SettlementLotID = lotID, pj_FeeSnapshotID = pc_FeeSnapshotID inp,
     pj_GrossIDR = Some (pc_GrossIDR inp), pj_FeePercentIDR = Some feeP, pj_FeeFixedIDR = Some feeF,
     pj_MerchantNetIDR = Some (pc_MerchantNetIDR inp), pj_PostedAt = now, pj_Legs = legs\<rparr>"

definition release_params ::
    "string \<Rightarrow> string \<Rightarrow> string \<Rightarrow> string \<Rightarrow> string \<Rightarrow> string \<Rightarrow> string \<Rightarrow> string \<Rightarrow> i64 \<Rightarrow> time \<Rightarrow> EntryLeg list \<Rightarrow> PostJournalParams" where
  "release_params releaseID merchantID storeID mode source intentID orderID lotID net now legs =
    \<lparr>pj_JournalID = releaseID, pj_MerchantID = merchantID, pj_StoreID = storeID, pj_PaymentMode = mode,
     pj_Source = source, pj_TemplateCode = TemplateSettlementRelease, pj_ReferenceType = ''PAYMENT_INTENT'',
     pj_ReferenceID = intentID, pj_JournalReference = JournalReferenceSettlementRelease intentID,
     pj_IdempotencyKey = JournalReferenceSettlementRelease intentID,
     pj_Description = ''Settlement release '' @ intentID, pj_PaymentIntentID = intentID,
     pj_OrderID = orderID, pj_SettlementLotID = lotID, pj_FeeSnapshotID = [], pj_GrossIDR = None,
     pj_FeePercentIDR = None, pj_FeeFixedIDR = None, pj_MerchantNetIDR = Some net, pj_PostedAt = now,
     pj_Legs = legs\<rparr>"

text \<open>
  The body of the transaction. Its closure assigns the capture journal id and, when the lot of the
  intent already exists, the lot id: the body returns both.
\<close>

definition capture_tx ::
    "PaymentCaptureInput \<Rightarrow> string \<Rightarrow> string \<Rightarrow> string \<Rightarrow> string \<Rightarrow> string \<Rightarrow> bool \<Rightarrow> i64 \<Rightarrow> i64 \<Rightarrow> time \<Rightarrow> time \<Rightarrow>
     EntryLeg list \<Rightarrow> ('m ledger_db_scheme, string \<times> string) op" where
  "capture_tx inp journalID lotID0 releaseID ref desc immediate feeP feeF availableAt now legs0 =
     bindS (bindS (try_op (InsertSettlementLot (capture_lot inp lotID0 immediate availableAt now)))
       (\<lambda>ins. with_state (\<lambda>w. case ins of
           Inr _ \<Rightarrow> ret (lotID0, legs0)
         | Inl ierr \<Rightarrow> (case after_failed_statement (GetLotByIntent (pc_PaymentIntentID inp) w) of
             Inl _ \<Rightarrow> throw ierr
           | Inr lot \<Rightarrow> bindS (liftE (BuildPaymentCaptureLegs (pc_GrossIDR inp) feeP feeF
                 (pc_MerchantNetIDR inp) (lot_ID lot) availableAt)) (\<lambda>legs. ret (lot_ID lot, legs))))))
       (\<lambda>(lotID, legs).
     bindS (PostJournal (capture_params inp journalID ref desc lotID feeP feeF now legs)) (\<lambda>jid.
     bindS (UpdateLotAfterCapture lotID jid (if immediate then LotAvailable else LotPending)
        (if immediate then pc_MerchantNetIDR inp else 0) now) (\<lambda>_.
     if immediate then
       bindS (liftE (BuildSettlementReleaseLegs (pc_MerchantNetIDR inp) lotID availableAt)) (\<lambda>relLegs.
       bindS (PostJournal (release_params releaseID (pc_MerchantID inp) (pc_StoreID inp) (pc_PaymentMode inp)
          (pc_Source inp) (pc_PaymentIntentID inp) (pc_OrderID inp) lotID (pc_MerchantNetIDR inp) now relLegs)) (\<lambda>_.
       bindS (UpdateLotAfterRelease lotID releaseID LotAvailable (pc_MerchantNetIDR inp) now) (\<lambda>_.
       ret (jid, lotID))))
     else ret (jid, lotID))))"

definition found_journal :: "string \<Rightarrow> 'm ledger_db_scheme \<Rightarrow> Journal option" where
  "found_journal ref w = (case GetJournalByReference ref w of
     Inr existing \<Rightarrow> if j_ID existing \<noteq> [] then Some existing else None | Inl _ \<Rightarrow> None)"

text \<open>The local variables of the handler: reference, key, instant, release mode, availability.\<close>

definition capture_ref :: "PaymentCaptureInput \<Rightarrow> string" where
  "capture_ref inp = (if pc_JournalReference inp = [] then JournalReferencePaymentCapture (pc_PaymentIntentID inp)
     else pc_JournalReference inp)"

definition capture_key :: "PaymentCaptureInput \<Rightarrow> string" where
  "capture_key inp = (if pc_IdempotencyKey inp = [] then capture_ref inp else pc_IdempotencyKey inp)"

definition capture_now :: "PaymentCaptureInput \<Rightarrow> 'm ledger_db_scheme \<Rightarrow> time" where
  "capture_now inp w = (if pc_PostedAt inp = time_zero then clock w else pc_PostedAt inp)"

definition capture_immediate :: "LedgerService \<Rightarrow> PaymentCaptureInput \<Rightarrow> 'm ledger_db_scheme \<Rightarrow> bool" where
  "capture_immediate s inp w \<longleftrightarrow>
     pc_ImmediateRelease inp \<or> ls_ForceImmediateRelease s \<or> SettlementDelaySeconds w \<le> 0"

definition capture_available_at :: "PaymentCaptureInput \<Rightarrow> bool \<Rightarrow> 'm ledger_db_scheme \<Rightarrow> time" where
  "capture_available_at inp immediate w =
     (if pc_AvailableAt inp = time_zero
      then ComputeAvailableAt (capture_now inp w) (if immediate then 0 else SettlementDelaySeconds w)
      else pc_AvailableAt inp)"

definition capture_desc :: "PaymentCaptureInput \<Rightarrow> string" where
  "capture_desc inp = (if pc_Description inp = [] then ''Payment capture '' @ pc_PaymentIntentID inp
     else pc_Description inp)"

definition lot_or :: "Journal \<Rightarrow> string \<Rightarrow> string" where
  "lot_or j d = (case j_SettlementLotID j of None \<Rightarrow> d | Some l \<Rightarrow> l)"

text \<open>From the legs on: the transaction, and the read that answers a lost race.\<close>

definition capture_commit ::
    "PaymentCaptureInput \<Rightarrow> string \<Rightarrow> string \<Rightarrow> string \<Rightarrow> bool \<Rightarrow> time \<Rightarrow> time \<Rightarrow> ('m ledger_db_scheme, string \<times> string) op" where
  "capture_commit inp journalID lotID releaseID immediate availableAt now =
    (let (feeP, feeF) = capture_fees inp; ref = capture_ref inp in
     case BuildPaymentCaptureLegs (pc_GrossIDR inp) feeP feeF (pc_MerchantNetIDR inp) lotID availableAt of
       Inl e \<Rightarrow> throw (apperr_validation ''VALIDATION_FAILED'' (case e of PlainError msg \<Rightarrow> msg | _ \<Rightarrow> []))
     | Inr legs \<Rightarrow>
         bindS (try_op (with_tx (capture_tx inp journalID lotID releaseID ref (capture_desc inp) immediate
             feeP feeF availableAt now legs))) (\<lambda>res. with_state (\<lambda>w'.
           case res of Inr jl \<Rightarrow> ret jl
           | Inl err \<Rightarrow> (case GetJournalByReference ref w' of
               Inr existing \<Rightarrow> ret (j_ID existing, lot_or existing lotID)
             | Inl _ \<Rightarrow> throw err))))"

definition PostPaymentCapture ::
    "LedgerService \<Rightarrow> PaymentCaptureInput \<Rightarrow> ('m ledger_db_scheme, string \<times> string) op" where
  "PostPaymentCapture s inp =
     bindS (liftE (capture_validation inp)) (\<lambda>_. with_state (\<lambda>w.
     case found_journal (capture_ref inp) w of
       Some existing \<Rightarrow> ret (j_ID existing, lot_or existing [])
     | None \<Rightarrow>
         bindS (or_new_id (pc_JournalID inp) ''lj_'') (\<lambda>journalID.
         bindS (or_new_id (pc_LotID inp) ''lot_'') (\<lambda>lotID.
         bindS (if capture_immediate s inp w then or_new_id (pc_ReleaseJournalID inp) ''lj_''
                else ret (pc_ReleaseJournalID inp)) (\<lambda>releaseID.
         capture_commit inp journalID lotID releaseID (capture_immediate s inp w)
           (capture_available_at inp (capture_immediate s inp w) w) (capture_now inp w))))))"

subsection \<open>Settlement release\<close>

definition releaseLot :: "SettlementLot \<Rightarrow> time \<Rightarrow> ('m ledger_db_scheme, unit) op" where
  "releaseLot lot now =
    (case lot_PaymentIntentID lot of None \<Rightarrow> throw (PlainError ''lot missing payment intent'')
     | Some intentID \<Rightarrow> with_state (\<lambda>w.
       let relRef = JournalReferenceSettlementRelease intentID;
           fresh = bindS new_id (\<lambda>i.
             bindS (liftE (BuildSettlementReleaseLegs (lot_OriginalAmountIDR lot) (lot_ID lot) (lot_AvailableAt lot))) (\<lambda>legs.
             with_tx (bindS (PostJournal (release_params (''lj_'' @ i) (lot_MerchantID lot)
                  (case lot_StoreID lot of None \<Rightarrow> [] | Some x \<Rightarrow> x) (lot_PaymentMode lot) (lot_Source lot) intentID
                  (case lot_OrderID lot of None \<Rightarrow> [] | Some x \<Rightarrow> x) (lot_ID lot) (lot_OriginalAmountIDR lot) now legs))
               (\<lambda>jid. UpdateLotAfterRelease (lot_ID lot) jid LotAvailable (lot_OriginalAmountIDR lot) now))))
       in case found_journal relRef w of
           Some existing \<Rightarrow> UpdateLotAfterRelease (lot_ID lot) (j_ID existing) LotAvailable (lot_OriginalAmountIDR lot) now
         | None \<Rightarrow> fresh))"

text \<open>The loop logs a failed lot and goes on; it returns how many were released.\<close>

fun release_each :: "SettlementLot list \<Rightarrow> time \<Rightarrow> int \<Rightarrow> ('m ledger_db_scheme, int) op" where
  "release_each [] now n = ret n"
| "release_each (lot # ls) now n =
     bindS (try_op (releaseLot lot now)) (\<lambda>res.
       case res of Inl _ \<Rightarrow> release_each ls now n | Inr _ \<Rightarrow> release_each ls now (n + 1))"

definition ReleaseDueSettlements :: "int \<Rightarrow> ('m ledger_db_scheme, int) op" where
  "ReleaseDueSettlements limit = with_state (\<lambda>w.
     release_each (ListDuePendingLots (clock w) limit w) (clock w) 0)"
subsection \<open>Finance reads\<close>

definition GetFinanceSummary ::
    "LedgerService \<Rightarrow> string \<Rightarrow> string \<Rightarrow> string \<Rightarrow> 'm ledger_db_scheme \<Rightarrow> FinanceSummary result" where
  "GetFinanceSummary s actorUserID storeID mode0 w =
    (let mode = (if mode0 = [] then defaultMode s else mode0) in
     bindE (requireStoreRead s actorUserID storeID) (\<lambda>_.
     case get_store_merchant storeID w of
       Inl err \<Rightarrow> if is_not_found err then Inl (apperr_not_found ''RESOURCE_NOT_FOUND'' ''Store not found'') else Inl err
     | Inr (_, merchantID) \<Rightarrow>
       let bal = GetBalance merchantID mode w;
           srcMap = fold (\<lambda>sb m. m(sb_Source sb \<mapsto>
               \<lparr>sa_AvailableAmount = sb_AvailableIDR sb, sa_PendingAmount = sb_PendingIDR sb\<rparr>))
             (ListSourceBalances merchantID mode w)
             [SourceStorefront \<mapsto> \<lparr>sa_AvailableAmount = 0, sa_PendingAmount = 0\<rparr>,
              SourceQRISAPI \<mapsto> \<lparr>sa_AvailableAmount = 0, sa_PendingAmount = 0\<rparr>];
           policy = LaunchFeePolicy
       in Inr \<lparr>fsu_StoreID = storeID, fsu_MerchantID = merchantID, fsu_PaymentMode = mode,
           fsu_AvailableAmount = b_AvailableIDR bal, fsu_PendingAmount = b_PendingIDR bal,
           fsu_HeldAmount = b_HeldIDR bal, fsu_LifetimeGrossAmount = b_LifetimeGrossIDR bal,
           fsu_MonthGrossAmount = b_MonthGrossIDR bal,
           fsu_MonthPlatformFeeAmount = b_MonthFeePercentIDR bal,
           fsu_MonthProviderFeeAmount = b_MonthFeeFixedIDR bal, fsu_MonthNetAmount = b_MonthNetIDR bal,
           fsu_Sources = srcMap, fsu_Currency = CurrencyIDR, fsu_AsOf = clock w,
           fsu_FeePolicy = \<lparr>fv_TransactionPercentBps = fp_TransactionPercentBps policy,
             fv_TransactionFixedIDR = fp_TransactionFixedIDR policy,
             fv_WithdrawalPercentBps = fp_WithdrawalPercentBps policy,
             fv_MinimumWithdrawalIDR = fp_MinimumWithdrawalIDR policy\<rparr>,
           fsu_WithdrawalAllocationPolicy = ''FIFO_AVAILABLE_AT''\<rparr>))"

definition journalToListItem :: "Journal \<Rightarrow> string \<Rightarrow> LedgerListItem" where
  "journalToListItem j storeID =
    (let (typ, dir) =
       (if j_TemplateCode j = TemplatePaymentCapture then (''SALE'', ''CREDIT'')
        else if j_TemplateCode j = TemplateSettlementRelease then (''SETTLEMENT_RELEASE'', ''CREDIT'')
        else if j_TemplateCode j = TemplateWithdrawalReserve \<or> j_TemplateCode j = TemplateWithdrawalComplete
          then (''WITHDRAWAL'', ''DEBIT'')
        else (''ADJUSTMENT'', ''CREDIT''))
     in \<lparr>li_ID = j_ID j,
         li_StoreID = (case j_StoreID j of None \<Rightarrow> storeID | Some x \<Rightarrow> if x \<noteq> [] then x else storeID),
         li_Type = typ, li_Description = (if j_Description j = [] then j_TemplateCode j else j_Description j),
         li_Amount = coalesce0 (j_MerchantNetIDR j), li_Direction = dir, li_Source = j_Source j,
         li_OccurredAt = j_PostedAt j, li_OrderID = j_OrderID j, li_WithdrawalID = None,
         li_JournalID = j_ID j, li_TemplateCode = j_TemplateCode j\<rparr>)"

text \<open>A page of the seller ledger: the items, the cursor of the next page and whether there is one.\<close>

definition ListLedger ::
    "LedgerService \<Rightarrow> string \<Rightarrow> string \<Rightarrow> string \<Rightarrow> string option \<Rightarrow> time option \<Rightarrow> string option \<Rightarrow> int \<Rightarrow>
     'm ledger_db_scheme \<Rightarrow> (LedgerListItem list \<times> time option \<times> string option \<times> bool) result" where
  "ListLedger s actorUserID storeID mode0 src cursorAt cursorID limit0 w =
    (let mode = (if mode0 = [] then defaultMode s else mode0) in
     bindE (requireStoreRead s actorUserID storeID) (\<lambda>_.
     case get_store_merchant storeID w of
       Inl err \<Rightarrow> if is_not_found err then Inl (apperr_not_found ''RESOURCE_NOT_FOUND'' ''Store not found'') else Inl err
     | Inr (_, merchantID) \<Rightarrow>
       let limit = (if limit0 \<le> 0 then 50 else limit0);
           found = ListJournals \<lparr>lf_MerchantID = merchantID, lf_PaymentMode = mode, lf_Source = src,
             lf_Template = None, lf_CursorAt = cursorAt, lf_CursorID = cursorID, lf_Limit = limit + 1\<rparr> w;
           hasMore = int (length found) > limit;
           page = (if hasMore then take (nat limit) found else found)
       in Inr (map (\<lambda>j. journalToListItem j storeID) page,
               if hasMore \<and> page \<noteq> [] then Some (j_PostedAt (last page)) else None,
               if hasMore \<and> page \<noteq> [] then Some (j_ID (last page)) else None, hasMore)))"

definition day_ns :: int where
  "day_ns = 86400000000000"

definition ListRevenue ::
    "LedgerService \<Rightarrow> string \<Rightarrow> string \<Rightarrow> string \<Rightarrow> int \<Rightarrow> 'm ledger_db_scheme \<Rightarrow> RevenuePoint list result" where
  "ListRevenue s actorUserID storeID mode0 days0 w =
    (let mode = (if mode0 = [] then defaultMode s else mode0);
         days = (if days0 \<le> 0 then 30 else if days0 > 90 then 90 else days0) in
     bindE (requireStoreRead s actorUserID storeID) (\<lambda>_.
     case get_store_merchant storeID w of
       Inl err \<Rightarrow> if is_not_found err then Inl (apperr_not_found ''RESOURCE_NOT_FOUND'' ''Store not found'') else Inl err
     | Inr (_, merchantID) \<Rightarrow>
       let from_at = (clock w - days * day_ns) div day_ns * day_ns
       in Inr (RevenueByDay merchantID mode from_at (clock w + day_ns) w)))"

definition RebuildBalances_check ::
    "string \<Rightarrow> string \<Rightarrow> ('m ledger_db_scheme, Balance \<times> Balance \<times> bool) op" where
  "RebuildBalances_check merchantID mode = with_state (\<lambda>w.
     let before = GetBalance merchantID mode w in
     bindS (RebuildBalances merchantID mode) (\<lambda>_. with_state (\<lambda>w'.
       let after = GetBalance merchantID mode w' in
       ret (before, after,
         b_AvailableIDR before = b_AvailableIDR after \<and> b_PendingIDR before = b_PendingIDR after \<and>
         b_HeldIDR before = b_HeldIDR after \<and> b_LifetimeNetIDR before = b_LifetimeNetIDR after))))"

definition PreviewWithdrawalAllocation ::
    "string \<Rightarrow> string \<Rightarrow> i64 \<Rightarrow> 'm ledger_db_scheme \<Rightarrow> WithdrawalAllocation result" where
  "PreviewWithdrawalAllocation merchantID mode amount w =
     AllocateWithdrawalFIFO amount (ListAvailableLots merchantID mode w)"

definition VerifySourceTotalsSum :: "string \<Rightarrow> string \<Rightarrow> 'm ledger_db_scheme \<Rightarrow> bool" where
  "VerifySourceTotalsSum merchantID mode w =
     SourceTotalsSumEqual (GetBalance merchantID mode w) (ListSourceBalances merchantID mode w)"

subsection \<open>The service keeps the ledger invariant\<close>

lemma keeps_new_id_ledger [inv_intros]: "keeps ledger_inv new_id"
  by (rule keeps_new_id) simp

lemma keeps_with_tx_ledger [inv_intros]: "keeps ledger_inv m \<Longrightarrow> keeps ledger_inv (with_tx m)"
  by (rule keeps_with_tx) simp_all

lemma keeps_prod [inv_intros]: "(\<And>a b. keeps P (f a b)) \<Longrightarrow> keeps P (case v of (a, b) \<Rightarrow> f a b)"
  by (cases v) simp

lemma keeps_let [inv_intros]: "keeps P (f v) \<Longrightarrow> keeps P (let x = v in f x)"
  by simp

lemma keeps_case_error [inv_intros]:
  "(\<And>k c m d. keeps P (f1 k c m d)) \<Longrightarrow> (\<And>m. keeps P (f2 m)) \<Longrightarrow> keeps P f3 \<Longrightarrow> (\<And>m. keeps P (f4 m)) \<Longrightarrow>
   (\<And>b m. keeps P (f5 b m)) \<Longrightarrow> (\<And>m d. keeps P (f6 m d)) \<Longrightarrow> keeps P (case e of AppError k c m d \<Rightarrow> f1 k c m d | PlainError m \<Rightarrow> f2 m
     | ErrNoRows \<Rightarrow> f3 | PgError m \<Rightarrow> f4 m | ProviderError b m \<Rightarrow> f5 b m | WrapError m d \<Rightarrow> f6 m d)"
  by (cases e) simp_all

lemma keeps_capture_tx [inv_intros]:
  "keeps ledger_inv (capture_tx inp a b c d e im f g h k legs)"
  unfolding capture_tx_def by (intro inv_intros)

lemma keeps_PostPaymentCapture [inv_intros]: "keeps ledger_inv (PostPaymentCapture s inp)"
  unfolding PostPaymentCapture_def capture_commit_def or_new_id_def by (intro inv_intros)

lemma keeps_releaseLot [inv_intros]: "keeps ledger_inv (releaseLot lot now)"
  unfolding releaseLot_def by (intro inv_intros)

lemma keeps_release_each [inv_intros]: "keeps ledger_inv (release_each ls now n)"
  by (induction ls arbitrary: n) (auto intro!: inv_intros)

lemma keeps_ReleaseDueSettlements [inv_intros]: "keeps ledger_inv (ReleaseDueSettlements limit)"
  unfolding ReleaseDueSettlements_def by (intro inv_intros)

lemma keeps_RebuildBalances_check [inv_intros]: "keeps ledger_inv (RebuildBalances_check m mode)"
  unfolding RebuildBalances_check_def by (intro inv_intros)
subsection \<open>What a capture does\<close>

lemma capture_params_fields [simp]:
  "pj_JournalReference (capture_params inp jid ref d l fp ff t legs) = ref"
  "pj_IdempotencyKey (capture_params inp jid ref d l fp ff t legs) =
     (if pc_IdempotencyKey inp = [] then ref else pc_IdempotencyKey inp)"
  "pj_MerchantID (capture_params inp jid ref d l fp ff t legs) = pc_MerchantID inp"
  "pj_PaymentMode (capture_params inp jid ref d l fp ff t legs) = pc_PaymentMode inp"
  "pj_Source (capture_params inp jid ref d l fp ff t legs) = pc_Source inp"
  "pj_JournalID (capture_params inp jid ref d l fp ff t legs) = jid"
  "pj_Legs (capture_params inp jid ref d l fp ff t legs) = legs"
  "pj_TemplateCode (capture_params inp jid ref d l fp ff t legs) = TemplatePaymentCapture"
  "pj_GrossIDR (capture_params inp jid ref d l fp ff t legs) = Some (pc_GrossIDR inp)"
  "pj_FeePercentIDR (capture_params inp jid ref d l fp ff t legs) = Some fp"
  "pj_FeeFixedIDR (capture_params inp jid ref d l fp ff t legs) = Some ff"
  "pj_MerchantNetIDR (capture_params inp jid ref d l fp ff t legs) = Some (pc_MerchantNetIDR inp)"
  "pj_PostedAt (capture_params inp jid ref d l fp ff t legs) = t"
  "pj_ReferenceType (capture_params inp jid ref d l fp ff t legs) = ''PAYMENT_INTENT''"
  "pj_ReferenceID (capture_params inp jid ref d l fp ff t legs) = pc_PaymentIntentID inp"
  by (simp_all add: capture_params_def)

lemma release_params_fields [simp]:
  "pj_JournalReference (release_params i m st mode src intent ord l n t legs) = JournalReferenceSettlementRelease intent"
  "pj_IdempotencyKey (release_params i m st mode src intent ord l n t legs) = JournalReferenceSettlementRelease intent"
  "pj_MerchantID (release_params i m st mode src intent ord l n t legs) = m"
  "pj_PaymentMode (release_params i m st mode src intent ord l n t legs) = mode"
  "pj_Source (release_params i m st mode src intent ord l n t legs) = src"
  "pj_JournalID (release_params i m st mode src intent ord l n t legs) = i"
  "pj_Legs (release_params i m st mode src intent ord l n t legs) = legs"
  "pj_TemplateCode (release_params i m st mode src intent ord l n t legs) = TemplateSettlementRelease"
  "pj_ReferenceType (release_params i m st mode src intent ord l n t legs) = ''PAYMENT_INTENT''"
  "pj_ReferenceID (release_params i m st mode src intent ord l n t legs) = intent"
  "pj_PostedAt (release_params i m st mode src intent ord l n t legs) = t"
  by (simp_all add: release_params_def)

text \<open>Lot statements and the id stream do not touch journals or wallets.\<close>

definition same_books :: "'m ledger_db_scheme \<Rightarrow> 'm ledger_db_scheme \<Rightarrow> bool" where
  "same_books w w' \<longleftrightarrow> journals w' = journals w \<and> entries w' = entries w \<and> balances w' = balances w \<and>
     source_balances w' = source_balances w"

lemma same_books_refl [simp]: "same_books w w"
  by (simp add: same_books_def)

lemma same_books_trans: "same_books a b \<Longrightarrow> same_books b c \<Longrightarrow> same_books a c"
  by (simp add: same_books_def)

lemma same_books_update_lots: "update_lots sel f w = (r, w') \<Longrightarrow> same_books w w'"
  by (auto simp: update_lots_def same_books_def split: option.splits sum.splits)

lemma same_books_lot_ops:
  "UpdateLotAfterCapture i j st n t w = (r, w') \<Longrightarrow> same_books w w'"
  "UpdateLotAfterRelease i j st n t w = (r, w') \<Longrightarrow> same_books w w'"
  "ConsumeLotRemaining i n t w = (r, w') \<Longrightarrow> same_books w w'"
  "RestoreLotRemaining i n t w = (r, w') \<Longrightarrow> same_books w w'"
  "InsertSettlementLot l w = (r2, w') \<Longrightarrow> same_books w w'"
  unfolding UpdateLotAfterCapture_def UpdateLotAfterRelease_def ConsumeLotRemaining_def RestoreLotRemaining_def
  by (auto dest: same_books_update_lots simp: InsertSettlementLot_def same_books_def split: if_splits sum.splits)

lemma same_books_reads:
  assumes "same_books w w'"
  shows "abs_wallet w' = abs_wallet w" and "journal_by_reference k w' = journal_by_reference k w"
    and "journal_by_key k w' = journal_by_key k w" and "GetBalance m mode w' = GetBalance m mode w"
  using assms by (simp_all add: same_books_def abs_wallet_def GetBalance_def journal_by_reference_def
      journal_by_key_def fun_eq_iff)

lemma or_new_id_books: "or_new_id g p w = (Inr i, w') \<Longrightarrow> same_books w w' \<and> clock w' = clock w \<and> lots w' = lots w"
  by (auto simp: or_new_id_def same_books_def split: if_splits)

lemma or_new_id_never_fails: "or_new_id g p w \<noteq> (Inl e, w')"
  by (auto simp: or_new_id_def)

text \<open>A journal under a reference and key nobody used is new when its post succeeds.\<close>

lemma PostJournal_fresh_added:
  assumes rows: "rows_ok w" and run: "PostJournal p w = (Inr i, w')"
    and r: "journal_by_reference (pj_JournalReference p) w = None"
    and k: "journal_by_key (pj_IdempotencyKey p) w = None"
  shows "i = pj_JournalID p \<and> w' = posted p w"
proof -
  have "existing_journal p w = None" using r k by (simp add: existing_journal_def)
  with run rows show ?thesis
    by (cases rule: PostJournal_cases) auto
qed

lemma start_balance_get:
  "b_PendingIDR (start_balance p w) = b_PendingIDR (GetBalance (pj_MerchantID p) (pj_PaymentMode p) w)"
  "b_AvailableIDR (start_balance p w) = b_AvailableIDR (GetBalance (pj_MerchantID p) (pj_PaymentMode p) w)"
  "b_HeldIDR (start_balance p w) = b_HeldIDR (GetBalance (pj_MerchantID p) (pj_PaymentMode p) w)"
  by (simp_all add: start_balance_def GetBalance_def split: option.splits)

lemma abs_wallet_posted:
  "abs_wallet (posted p w) = (abs_wallet w)(pj_row p :=
     (fst (abs_wallet w (pj_row p)) + legs_delta AcctMerchantPending (pj_Legs p),
      fst (snd (abs_wallet w (pj_row p))) + legs_delta AcctMerchantAvailable (pj_Legs p),
      snd (snd (abs_wallet w (pj_row p))) + legs_delta AcctMerchantHeld (pj_Legs p)))"
proof (rule ext)
  fix k :: "string \<times> string"
  show "abs_wallet (posted p w) k = ((abs_wallet w)(pj_row p :=
     (fst (abs_wallet w (pj_row p)) + legs_delta AcctMerchantPending (pj_Legs p),
      fst (snd (abs_wallet w (pj_row p))) + legs_delta AcctMerchantAvailable (pj_Legs p),
      snd (snd (abs_wallet w (pj_row p))) + legs_delta AcctMerchantHeld (pj_Legs p)))) k"
  proof (cases "k = pj_row p")
    case True
    then show ?thesis
      by (simp add: abs_wallet_def GetBalance_posted final_balance_wallet start_balance_get Let_def)
  next
    case False
    then show ?thesis by (cases k) (auto simp: abs_wallet_def GetBalance_posted)
  qed
qed

lemma template_legs_delta:
  assumes "build_template t = Inr legs"
  shows "legs_delta AcctMerchantPending legs = fst (template_wallet t)"
    and "legs_delta AcctMerchantAvailable legs = snd (template_wallet t)"
    and "legs_delta AcctMerchantHeld legs = 0"
proof -
  have "list_all leg_ok legs"
    using assms by (cases t) (auto simp: build_defs checked_legs_Inr AssertBalanced_eq split: if_splits)
  then show "legs_delta AcctMerchantPending legs = fst (template_wallet t)"
    "legs_delta AcctMerchantAvailable legs = snd (template_wallet t)" "legs_delta AcctMerchantHeld legs = 0"
    using build_template_wallet [OF assms] by (simp_all add: legs_delta_account)
qed
text \<open>The shape of a successful transaction body.\<close>

lemma capture_tx_Inr:
  assumes "capture_tx inp jid lotID rid ref desc im fp ff at now legs w = (Inr (j, l), w')"
  obtains w1 w2 w3 where "same_books w w1"
    and "PostJournal (capture_params inp jid ref desc lotID fp ff now legs) w1 = (Inr j, w2)"
    and "same_books w2 w3" and "l = lotID"
    and "\<not> im \<longrightarrow> w' = w3"
    and "im \<longrightarrow> (\<exists>rl i w4. BuildSettlementReleaseLegs (pc_MerchantNetIDR inp) lotID at = Inr rl \<and>
      PostJournal (release_params rid (pc_MerchantID inp) (pc_StoreID inp) (pc_PaymentMode inp) (pc_Source inp)
        (pc_PaymentIntentID inp) (pc_OrderID inp) lotID (pc_MerchantNetIDR inp) now rl) w3 = (Inr i, w4) \<and>
      same_books w4 w')"
proof -
  obtain ins w1 where ins: "InsertSettlementLot (capture_lot inp lotID im at now) w = (ins, w1)"
    by (cases "InsertSettlementLot (capture_lot inp lotID im at now) w")
  obtain lot where "ins = Inr lot"
    using assms ins
    by (cases ins) (auto simp: capture_tx_def bindS_def try_op_def with_state_def after_failed_statement_def)
  with assms ins obtain w2 u w3 where
    post: "PostJournal (capture_params inp jid ref desc lotID fp ff now legs) w1 = (Inr j, w2)"
    and upd: "UpdateLotAfterCapture lotID j (if im then LotAvailable else LotPending)
       (if im then pc_MerchantNetIDR inp else 0) now w2 = (Inr u, w3)"
    and rest: "(if im then
       bindS (liftE (BuildSettlementReleaseLegs (pc_MerchantNetIDR inp) lotID at)) (\<lambda>relLegs.
       bindS (PostJournal (release_params rid (pc_MerchantID inp) (pc_StoreID inp) (pc_PaymentMode inp)
          (pc_Source inp) (pc_PaymentIntentID inp) (pc_OrderID inp) lotID (pc_MerchantNetIDR inp) now relLegs)) (\<lambda>_.
       bindS (UpdateLotAfterRelease lotID rid LotAvailable (pc_MerchantNetIDR inp) now) (\<lambda>_.
       ret (j, lotID)))) else ret (j, lotID)) w3 = (Inr (j, l), w')"
    by (auto simp: capture_tx_def bindS_eq_Inr try_op_def split: prod.splits if_splits)
  show thesis
  proof (rule that [OF _ post _ _])
    show "same_books w w1" using same_books_lot_ops(5) [OF ins] .
    show "same_books w2 w3" using same_books_lot_ops(1) [OF upd] .
    show "l = lotID" using rest by (auto simp: bindS_eq_Inr split: if_splits)
    show "\<not> im \<longrightarrow> w' = w3" using rest by auto
    show "im \<longrightarrow> (\<exists>rl i w4. BuildSettlementReleaseLegs (pc_MerchantNetIDR inp) lotID at = Inr rl \<and>
      PostJournal (release_params rid (pc_MerchantID inp) (pc_StoreID inp) (pc_PaymentMode inp) (pc_Source inp)
        (pc_PaymentIntentID inp) (pc_OrderID inp) lotID (pc_MerchantNetIDR inp) now rl) w3 = (Inr i, w4) \<and>
      same_books w4 w')"
      using rest by (auto simp: bindS_eq_Inr dest!: same_books_lot_ops(2))
  qed
qed

text \<open>
  The shape of a successful capture whose reference is new: a transaction body that succeeded, after
  only ids were drawn. (When the transaction fails, the fallback read finds no journal and the call
  fails.)
\<close>

lemma capture_commit_new:
  assumes run: "capture_commit inp jid lotID rid im at now w = (Inr (j, l), w')"
    and new: "journal_by_reference (capture_ref inp) w = None"
  obtains fp ff legs where "(fp, ff) = capture_fees inp"
    and "BuildPaymentCaptureLegs (pc_GrossIDR inp) fp ff (pc_MerchantNetIDR inp) lotID at = Inr legs"
    and "capture_tx inp jid lotID rid (capture_ref inp) (capture_desc inp) im fp ff at now legs w = (Inr (j, l), w')"
proof -
  obtain fp ff where fees: "capture_fees inp = (fp, ff)" by (cases "capture_fees inp")
  obtain legs where legs: "BuildPaymentCaptureLegs (pc_GrossIDR inp) fp ff (pc_MerchantNetIDR inp) lotID at = Inr legs"
    using run fees by (cases "BuildPaymentCaptureLegs (pc_GrossIDR inp) fp ff (pc_MerchantNetIDR inp) lotID at")
      (auto simp: capture_commit_def)
  let ?tx = "with_tx (capture_tx inp jid lotID rid (capture_ref inp) (capture_desc inp) im fp ff at now legs)"
  obtain res wd where tx: "?tx w = (res, wd)" by (cases "?tx w")
  have "res = Inr (j, l) \<and> wd = w'"
  proof (cases res)
    case (Inl e)
    with tx obtain n where "wd = w\<lparr>next_id := n\<rparr>" using with_tx_fail by blast
    then have "journal_by_reference (capture_ref inp) wd = None"
      using new by (simp add: journal_by_reference_def)
    with run fees legs tx Inl show ?thesis
      by (simp add: capture_commit_def try_op_def bindS_def GetJournalByReference_def Let_def)
  next
    case (Inr a)
    with run fees legs tx show ?thesis by (simp add: capture_commit_def try_op_def bindS_def Let_def)
  qed
  with tx have "capture_tx inp jid lotID rid (capture_ref inp) (capture_desc inp) im fp ff at now legs w = (Inr (j, l), w')"
    by simp
  from that [OF fees [symmetric] legs this] show thesis .
qed

lemma PostPaymentCapture_new:
  assumes run: "PostPaymentCapture s inp w = (Inr (j, l), w')"
    and new: "journal_by_reference (capture_ref inp) w = None"
  obtains w1 jid lotID rid fp ff legs where "capture_validation inp = Inr ()"
    and "same_books w w1" and "clock w1 = clock w" and "(fp, ff) = capture_fees inp"
    and "BuildPaymentCaptureLegs (pc_GrossIDR inp) fp ff (pc_MerchantNetIDR inp) lotID
      (capture_available_at inp (capture_immediate s inp w) w) = Inr legs"
    and "capture_tx inp jid lotID rid (capture_ref inp) (capture_desc inp) (capture_immediate s inp w) fp ff
      (capture_available_at inp (capture_immediate s inp w) w) (capture_now inp w) legs w1 = (Inr (j, l), w')"
proof -
  have val: "capture_validation inp = Inr ()"
    using run by (cases "capture_validation inp") (auto simp: PostPaymentCapture_def bindS_def)
  have nf: "found_journal (capture_ref inp) w = None"
    using new by (simp add: found_journal_def GetJournalByReference_def)
  obtain jid wa lotID wb rid wc where ids: "or_new_id (pc_JournalID inp) ''lj_'' w = (Inr jid, wa)"
      "or_new_id (pc_LotID inp) ''lot_'' wa = (Inr lotID, wb)"
      "(if capture_immediate s inp w then or_new_id (pc_ReleaseJournalID inp) ''lj_''
        else ret (pc_ReleaseJournalID inp)) wb = (Inr rid, wc)"
    and commit: "capture_commit inp jid lotID rid (capture_immediate s inp w)
      (capture_available_at inp (capture_immediate s inp w) w) (capture_now inp w) wc = (Inr (j, l), w')"
    using run nf val unfolding PostPaymentCapture_def by (auto simp: bindS_eq_Inr)
  have books: "same_books w wc" "clock wc = clock w"
    using or_new_id_books [OF ids(1)] or_new_id_books [OF ids(2)] ids(3) or_new_id_books [of _ _ wb rid wc]
    by (auto split: if_splits intro: same_books_trans)
  have "journal_by_reference (capture_ref inp) wc = None"
    using new same_books_reads(2) [OF books(1)] by simp
  from capture_commit_new [OF commit this] that [OF val books] show thesis by metis
qed
subsection \<open>Properties of the capture\<close>

lemma journal_by_key_None_if:
  assumes "\<forall>x\<in>set (journals w). j_IdempotencyKey x = k \<longrightarrow> j_JournalReference x = r"
    and "journal_by_reference r w = None"
  shows "journal_by_key k w = None"
  using assms unfolding journal_by_key_def journal_by_reference_def find_none by blast

lemma keeps_rows_PostJournal: "keeps rows_ok (PostJournal p)"
proof (rule keepsI)
  fix w :: "'m ledger_db_scheme" and r w'
  assume rows: "rows_ok w" and run: "PostJournal p w = (r, w')"
  from run rows show "rows_ok w'"
  proof (cases rule: PostJournal_cases)
    case added
    from post_body_Inr(6,7) [OF added(2) rows] rows show ?thesis by (auto simp: added(4) rows_ok_def)
  qed (use rows in simp_all)
qed

lemma same_books_rows: "same_books w w' \<Longrightarrow> rows_ok w \<Longrightarrow> rows_ok w'"
  by (simp add: same_books_def rows_ok_def)

text \<open>A successful capture under a new reference and key posts exactly its capture journal first.\<close>

lemma capture_posts:
  assumes rows: "rows_ok w" and run: "PostPaymentCapture s inp w = (Inr (j, l), w')"
    and new: "journal_by_reference (capture_ref inp) w = None" "journal_by_key (capture_key inp) w = None"
  obtains w1 w3 p legs fp ff lot at where "same_books w w1" and "same_books (posted p w1) w3" and "rows_ok w3"
    and "pj_Legs p = legs" and "pj_JournalReference p = capture_ref inp" and "pj_JournalID p = j"
    and "pj_IdempotencyKey p = capture_key inp"
    and "pj_row p = (pc_MerchantID inp, pc_PaymentMode inp)"
    and "BuildPaymentCaptureLegs (pc_GrossIDR inp) fp ff (pc_MerchantNetIDR inp) lot at = Inr legs"
    and "\<not> capture_immediate s inp w \<longrightarrow> w' = w3"
    and "capture_immediate s inp w \<longrightarrow> (\<exists>q rl i w4. BuildSettlementReleaseLegs (pc_MerchantNetIDR inp) lot at = Inr rl \<and>
      PostJournal q w3 = (Inr i, w4) \<and> pj_Legs q = rl \<and> pj_row q = (pc_MerchantID inp, pc_PaymentMode inp) \<and>
      pj_JournalReference q = JournalReferenceSettlementRelease (pc_PaymentIntentID inp) \<and>
      pj_IdempotencyKey q = JournalReferenceSettlementRelease (pc_PaymentIntentID inp) \<and> same_books w4 w')"
proof -
  let ?at = "capture_available_at inp (capture_immediate s inp w) w"
  obtain w1 jid lotID rid fp ff legs where pre: "same_books w w1"
    and legs: "BuildPaymentCaptureLegs (pc_GrossIDR inp) fp ff (pc_MerchantNetIDR inp) lotID ?at = Inr legs"
    and tx: "capture_tx inp jid lotID rid (capture_ref inp) (capture_desc inp) (capture_immediate s inp w) fp ff
      ?at (capture_now inp w) legs w1 = (Inr (j, l), w')"
    using PostPaymentCapture_new [OF run new(1)] by metis
  define p where "p = capture_params inp jid (capture_ref inp) (capture_desc inp) lotID fp ff (capture_now inp w) legs"
  from tx obtain wa w2 w3 where a: "same_books w1 wa" and post: "PostJournal p wa = (Inr j, w2)"
    and b: "same_books w2 w3" and c: "\<not> capture_immediate s inp w \<longrightarrow> w' = w3"
    and d: "capture_immediate s inp w \<longrightarrow> (\<exists>rl i w4. BuildSettlementReleaseLegs (pc_MerchantNetIDR inp) lotID ?at = Inr rl \<and>
      PostJournal (release_params rid (pc_MerchantID inp) (pc_StoreID inp) (pc_PaymentMode inp) (pc_Source inp)
        (pc_PaymentIntentID inp) (pc_OrderID inp) lotID (pc_MerchantNetIDR inp) (capture_now inp w) rl) w3 = (Inr i, w4) \<and>
      same_books w4 w')"
    unfolding p_def by (rule capture_tx_Inr)
  have books: "same_books w wa" using same_books_trans [OF pre a] .
  have "journal_by_reference (pj_JournalReference p) wa = None" "journal_by_key (pj_IdempotencyKey p) wa = None"
    using new same_books_reads(2,3) [OF books] by (simp_all add: p_def capture_key_def)
  from PostJournal_fresh_added [OF same_books_rows [OF books rows] post this]
  have p: "j = pj_JournalID p" "w2 = posted p wa" by blast+
  have rows3: "rows_ok w3"
    using keepsD [OF keeps_rows_PostJournal post] same_books_rows [OF books rows] same_books_rows [OF b] by blast
  show thesis
  proof (rule that [OF books _ rows3 _ _ _ _ _ legs])
    show "same_books (posted p wa) w3" using b p(2) by simp
    show "pj_Legs p = legs" "pj_JournalReference p = capture_ref inp" "pj_JournalID p = j"
      "pj_row p = (pc_MerchantID inp, pc_PaymentMode inp)" "pj_IdempotencyKey p = capture_key inp"
      by (simp_all add: p(1)) (simp_all add: p_def capture_key_def)
    show "\<not> capture_immediate s inp w \<longrightarrow> w' = w3" by (fact c)
    show "capture_immediate s inp w \<longrightarrow> (\<exists>q rl i w4. BuildSettlementReleaseLegs (pc_MerchantNetIDR inp) lotID ?at = Inr rl \<and>
      PostJournal q w3 = (Inr i, w4) \<and> pj_Legs q = rl \<and> pj_row q = (pc_MerchantID inp, pc_PaymentMode inp) \<and>
      pj_JournalReference q = JournalReferenceSettlementRelease (pc_PaymentIntentID inp) \<and>
      pj_IdempotencyKey q = JournalReferenceSettlementRelease (pc_PaymentIntentID inp) \<and> same_books w4 w')"
      using d by (metis release_params_fields(1-5,7))
  qed
qed

text \<open>
  A payment is captured at most once: when \<open>PostPaymentCapture\<close> has succeeded, calling it again
  with the same input answers with the same capture journal and changes nothing at all, neither a
  table nor the stream of ids. (Its key must not have been used under a foreign reference.)
\<close>

theorem PostPaymentCapture_idempotent:
  assumes "ledger_reachable w" and "PostPaymentCapture s inp w = (Inr (j, l), w')"
    and "list_all (\<lambda>x. j_IdempotencyKey x = capture_key inp \<longrightarrow> j_JournalReference x = capture_ref inp) (journals w)"
  shows "\<exists>l'. PostPaymentCapture s inp w' = (Inr (j, l'), w')"
proof (cases "journal_by_reference (capture_ref inp) w")
  case (Some e)
  then have "j_ID e \<noteq> []"
    using reachable_inv [OF assms(1)]
    by (auto simp: ledger_inv_def journals_balanced_def list_all_iff journal_by_reference_def dest: find_Some_mem)
  with Some have "found_journal (capture_ref inp) w = Some e"
    by (simp add: found_journal_def GetJournalByReference_def)
  with assms(2) have "w' = w"
    by (cases "capture_validation inp") (auto simp: PostPaymentCapture_def bindS_def)
  with assms(2) show ?thesis by blast
next
  case None
  have rows: "rows_ok w" using ledger_inv_rows [OF reachable_inv [OF assms(1)]] .
  have key: "journal_by_key (capture_key inp) w = None"
    using journal_by_key_None_if [OF _ None] assms(3) by (simp add: list_all_iff)
  obtain w1 w3 p where a: "same_books w w1" "same_books (posted p w1) w3" "rows_ok w3"
    and p: "pj_JournalReference p = capture_ref inp" "pj_JournalID p = j"
    and c: "\<not> capture_immediate s inp w \<longrightarrow> w' = w3"
    and d: "capture_immediate s inp w \<longrightarrow> (\<exists>q i w4. PostJournal q w3 = (Inr i, w4) \<and> same_books w4 w')"
    using capture_posts [OF rows assms(2) None key] by metis
  have "journal_by_reference (capture_ref inp) (posted p w1) = Some (mk_journal p)"
    using None same_books_reads(2) [OF a(1)] p(1)
    by (simp add: journal_by_reference_def find_append)
  then have w3: "journal_by_reference (capture_ref inp) w3 = Some (mk_journal p)"
    using same_books_reads(2) [OF a(2)] by simp
  have w': "journal_by_reference (capture_ref inp) w' = Some (mk_journal p)"
  proof (cases "capture_immediate s inp w")
    case True
    with d obtain q i w4 where q: "PostJournal q w3 = (Inr i, w4)" "same_books w4 w'" by blast
    from PostJournal_stable [OF a(3) w3 q(1)] same_books_reads(2) [OF q(2)] show ?thesis by simp
  qed (use c w3 in simp)
  have "j \<noteq> []"
  proof -
    have "ledger_inv w'" using keepsD [OF keeps_PostPaymentCapture assms(2) reachable_inv [OF assms(1)]] .
    moreover have "mk_journal p \<in> set (journals w')"
      using w' by (auto simp: journal_by_reference_def dest: find_Some_mem)
    ultimately show ?thesis using p(2) by (auto simp: ledger_inv_def journals_balanced_def list_all_iff)
  qed
  then have found: "found_journal (capture_ref inp) w' = Some (mk_journal p)"
    using w' p(2) by (simp add: found_journal_def GetJournalByReference_def)
  have "capture_validation inp = Inr ()"
    using assms(2) by (cases "capture_validation inp") (auto simp: PostPaymentCapture_def bindS_def)
  with found p(2) show ?thesis by (simp add: PostPaymentCapture_def bindS_def)
qed
text \<open>
  C31. A captured payment credits its net to the merchant's wallet, once and nowhere else: with a new
  reference, a successful \<open>PostPaymentCapture\<close> adds the net to pending, or (immediate release) to
  available with pending unchanged; every other wallet stays as it was.
\<close>

theorem PostPaymentCapture_credits_net:
  assumes "ledger_reachable w" and "PostPaymentCapture s inp w = (Inr (j, l), w')"
    and "journal_by_reference (capture_ref inp) w = None" and "journal_by_key (capture_key inp) w = None"
    and "relRef = JournalReferenceSettlementRelease (pc_PaymentIntentID inp)"
    and "journal_by_reference relRef w = None" and "journal_by_key relRef w = None"
    and "relRef \<noteq> capture_ref inp" and "relRef \<noteq> capture_key inp"
    and "row = (pc_MerchantID inp, pc_PaymentMode inp)" and "abs_wallet w row = (pend, avail, held)"
  shows "abs_wallet w' = (abs_wallet w)(row :=
    if capture_immediate s inp w then (pend, avail + pc_MerchantNetIDR inp, held)
    else (pend + pc_MerchantNetIDR inp, avail, held))"
proof -
  let ?net = "pc_MerchantNetIDR inp"
  have rows: "rows_ok w" using ledger_inv_rows [OF reachable_inv [OF assms(1)]] .
  obtain w1 w3 p legs fp ff lot at where a: "same_books w w1" "same_books (posted p w1) w3" "rows_ok w3"
    and p: "pj_Legs p = legs" "pj_JournalReference p = capture_ref inp" "pj_row p = row"
      "pj_IdempotencyKey p = capture_key inp"
    and legs: "BuildPaymentCaptureLegs (pc_GrossIDR inp) fp ff ?net lot at = Inr legs"
    and c: "\<not> capture_immediate s inp w \<longrightarrow> w' = w3"
    and d: "capture_immediate s inp w \<longrightarrow> (\<exists>q rl i w4. BuildSettlementReleaseLegs ?net lot at = Inr rl \<and>
      PostJournal q w3 = (Inr i, w4) \<and> pj_Legs q = rl \<and> pj_row q = row \<and>
      pj_JournalReference q = relRef \<and> pj_IdempotencyKey q = relRef \<and> same_books w4 w')"
    using capture_posts [OF rows assms(2-4)] assms(5,10) by metis
  have "abs_wallet w3 = (abs_wallet w)(row := (pend + ?net, avail, held))"
    using template_legs_delta [of "PaymentCapture (pc_GrossIDR inp) fp ff ?net lot at" legs] legs assms(11)
    by (simp add: same_books_reads(1) [OF a(2)] abs_wallet_posted same_books_reads(1) [OF a(1)] p)
  moreover have "abs_wallet w' = (abs_wallet w3)(row := (pend, avail + ?net, held))"
    if im: "capture_immediate s inp w"
  proof -
    from d im obtain q rl i w4 where rl: "BuildSettlementReleaseLegs ?net lot at = Inr rl"
      and q: "PostJournal q w3 = (Inr i, w4)" "pj_Legs q = rl" "pj_row q = row"
        "pj_JournalReference q = relRef" "pj_IdempotencyKey q = relRef" "same_books w4 w'" by blast
    have "journal_by_reference relRef w1 = None" "journal_by_key relRef w1 = None"
      using assms(6,7) by (simp_all add: same_books_reads(2,3) [OF a(1)])
    then have "journal_by_reference relRef (posted p w1) = None" "journal_by_key relRef (posted p w1) = None"
      using assms(8,9) by (simp_all add: journal_by_reference_def journal_by_key_def find_append p)
    then have "journal_by_reference relRef w3 = None" "journal_by_key relRef w3 = None"
      by (simp_all add: same_books_reads(2,3) [OF a(2)])
    with PostJournal_fresh_added [OF a(3) q(1)] q have "w4 = posted q w3" by simp
    then show ?thesis
      using template_legs_delta [of "SettlementRelease ?net lot at" rl] rl calculation
      by (simp add: same_books_reads(1) [OF q(6)] abs_wallet_posted q(2,3))
  qed
  ultimately show ?thesis using c by auto
qed
subsection \<open>A valid capture succeeds\<close>

text \<open>No projection column is within the gross of the int64 limit.\<close>

definition headroom :: "i64 \<Rightarrow> string \<Rightarrow> string \<Rightarrow> string \<Rightarrow> 'm ledger_db_scheme \<Rightarrow> bool" where
  "headroom g m mode src w \<longleftrightarrow>
     list_all (\<lambda>x. x + g \<le> max_i64) (balance_fields (GetBalance m mode w)) \<and>
     list_all (\<lambda>x. x + g \<le> max_i64) (source_fields (case source_balances w (m, mode, src) of
        None \<Rightarrow> zero_source_balance m mode src 0 | Some s \<Rightarrow> s))"

lemma headroom_start:
  assumes "headroom g (pj_MerchantID p) (pj_PaymentMode p) (pj_Source p) w" and "rows_ok w"
  shows "list_all (\<lambda>x. 0 \<le> x \<and> in_i64 x \<and> x + g \<le> max_i64) (balance_fields (start_balance p w))"
    and "list_all (\<lambda>x. 0 \<le> x \<and> in_i64 x \<and> x + g \<le> max_i64) (source_fields (start_source p w))"
proof -
  have z: "balance_fields (zero_balance a b c) = replicate 11 0" "source_fields (zero_source_balance a b d c) = replicate 4 0"
    for a b c d by (simp_all add: balance_fields_def source_fields_def zero_balance_def zero_source_balance_def numeral_eq_Suc)
  show "list_all (\<lambda>x. 0 \<le> x \<and> in_i64 x \<and> x + g \<le> max_i64) (balance_fields (start_balance p w))"
    using assms by (auto simp: headroom_def start_balance_def GetBalance_def rows_ok_def row_ok_def list_all_iff z
        split: option.splits)
  show "list_all (\<lambda>x. 0 \<le> x \<and> in_i64 x \<and> x + g \<le> max_i64) (source_fields (start_source p w))"
    using assms by (auto simp: headroom_def start_source_def rows_ok_def row_ok_def list_all_iff z split: option.splits)
qed

lemma in_i64_add: "0 \<le> x \<Longrightarrow> in_i64 x \<Longrightarrow> x + g \<le> max_i64 \<Longrightarrow> 0 \<le> a \<Longrightarrow> a \<le> g \<Longrightarrow> in_i64 (x + a)"
  by (simp add: i64_bounds)

text \<open>The three wallet amounts of the legs of a capture, leg by leg.\<close>

lemma capture_rows_run:
  assumes legs: "BuildPaymentCaptureLegs g fp ff n lot at = Inr ls"
    and b: "row_ok (balance_fields b)" "row_ok (balance_fields (project_balance AcctMerchantPending n (pj_PostedAt p) b))"
    and sb: "row_ok (source_fields sb)" "row_ok (source_fields (project_source AcctMerchantPending n (pj_PostedAt p) sb))"
  shows "rows_run p ls b sb \<and> fold (leg_balance p) ls b = project_balance AcctMerchantPending n (pj_PostedAt p) b
    \<and> fold (leg_source p) ls sb = project_source AcctMerchantPending n (pj_PostedAt p) sb"
proof -
  have other: "leg_balance p (mk_leg acct side a c) b' = b'" "leg_source p (mk_leg acct side a c) s' = s'"
    if "\<not> wallet_account acct" for acct side a c b' s'
    using that by (simp_all add: leg_balance_def leg_source_def project_balance_def project_source_def wallet_account_def)
  have pend: "leg_balance p ((mk_leg AcctMerchantPending SideCredit n c)\<lparr>leg_SettlementLotID := i, leg_AvailableAt := t\<rparr>) b'
      = project_balance AcctMerchantPending n (pj_PostedAt p) b'"
    "leg_source p ((mk_leg AcctMerchantPending SideCredit n c)\<lparr>leg_SettlementLotID := i, leg_AvailableAt := t\<rparr>) s'
      = project_source AcctMerchantPending n (pj_PostedAt p) s'" for c i t b' s'
    by (simp_all add: leg_balance_def leg_source_def leg_delta_def)
  have names: "\<not> wallet_account AcctXenditReceivable" "\<not> wallet_account AcctPlatformFeeRevenue"
    "\<not> wallet_account AcctPaymentProcessingRevenue"
    by (simp_all add: wallet_account_def)
  show ?thesis
    using legs b sb
    by (auto simp: BuildPaymentCaptureLegs_def checked_legs_Inr other pend names split: if_splits)
qed

lemma capture_legs_db:
  assumes "BuildPaymentCaptureLegs g fp ff n lot at = Inr ls" and "in_i64 (fp + ff)" and "in_i64 (fp + ff + n)" and "in_i64 g"
  shows "list_all db_leg_ok ls" and "list_all component_ok ls" and "2 \<le> length ls" and "length ls \<le> 4"
    and "legs_side SideDebit ls = g" and "legs_side SideCredit ls = g"
    and "0 < n" and "0 \<le> fp" and "0 \<le> ff" and "fp + ff + n = g"
  using assms
  by (auto simp: BuildPaymentCaptureLegs_def checked_legs_Inr db_leg_ok_def component_ok_def chart_of_accounts_def
      fee_components_def mk_leg_def split: if_splits)

lemma capture_postable:
  assumes legs: "BuildPaymentCaptureLegs (pc_GrossIDR inp) fp ff (pc_MerchantNetIDR inp) lot at = Inr ls"
    and range: "in_i64 (fp + ff)" "in_i64 (fp + ff + pc_MerchantNetIDR inp)" "in_i64 (pc_GrossIDR inp)"
    and val: "capture_validation inp = Inr ()" and m: "pc_MerchantID inp \<in> set (merchants w)"
    and p: "p = capture_params inp jid ref desc lot fp ff now ls" and ids: "jid \<noteq> []" "ref \<noteq> []"
    and fresh: "journal_fresh p w" and rows: "rows_ok w"
    and room: "headroom (pc_GrossIDR inp) (pc_MerchantID inp) (pc_PaymentMode inp) (pc_Source inp) w"
  shows "postable p w"
proof -
  let ?g = "pc_GrossIDR inp" and ?n = "pc_MerchantNetIDR inp"
  note l = capture_legs_db [OF legs range]
  have v: "pc_MerchantID inp \<noteq> []" "pc_PaymentIntentID inp \<noteq> []"
    "pc_PaymentMode inp = ModeSandbox \<or> pc_PaymentMode inp = ModeLive" "wallet_source (pc_Source inp)" "0 < ?g" "0 < ?n"
    using val by (auto simp: capture_validation_def split: if_splits)
  have room': "headroom ?g (pj_MerchantID p) (pj_PaymentMode p) (pj_Source p) w"
    using room by (simp add: p)
  note B = headroom_start(1) [OF room' rows] and S = headroom_start(2) [OF room' rows]
  define b sb where "b = start_balance p w" and "sb = start_source p w"
  have le: "?n \<le> ?g" "fp \<le> ?g" "ff \<le> ?g" "in_i64 ?n" "in_i64 fp" "in_i64 ff"
    using l(7-10) range(3) by (auto intro: in_i64_downward [OF range(3)])
  have b: "row_ok (balance_fields b)" "row_ok (balance_fields (project_balance AcctMerchantPending ?n (pj_PostedAt p) b))"
    using B v(6) le by (auto simp: b_def row_ok_def balance_fields_def project_balance_def intro: in_i64_add)
  have s: "row_ok (source_fields sb)" "row_ok (source_fields (project_source AcctMerchantPending ?n (pj_PostedAt p) sb))"
    using S v(6) le by (auto simp: sb_def row_ok_def source_fields_def project_source_def intro: in_i64_add)
  note run = capture_rows_run [where p = p, OF legs b s]
  have legs_p: "pj_Legs p = ls" by (simp add: p)
  have prm: "pj_GrossIDR p = Some ?g" "pj_FeePercentIDR p = Some fp" "pj_FeeFixedIDR p = Some ff"
    and net: "pj_MerchantNetIDR p = Some ?n" by (simp_all add: p)
  have counts: "counts_capture p" using v(5) by (simp add: counts_capture_def p coalesce0_def)
  have fb: "final_balance p w = count_capture p (project_balance AcctMerchantPending ?n (pj_PostedAt p) b)"
    using run counts by (simp add: final_balance_def legs_p b_def [symmetric])
  have fs: "final_source p w = (let s = project_source AcctMerchantPending ?n (pj_PostedAt p) sb in
      s\<lparr>sb_LifetimeNetIDR := sb_LifetimeNetIDR s + ?n, sb_UpdatedAt := pj_PostedAt p\<rparr>)"
    using run counts net by (simp add: final_source_def legs_p sb_def [symmetric] Let_def coalesce0_def)
  have "row_ok (balance_fields (final_balance p w))"
    unfolding fb using B [folded b_def] v(5,6) le l(8,9) range(3) prm net
    by (auto simp: row_ok_def balance_fields_def project_balance_def count_capture_def Let_def
        coalesce0_def intro: in_i64_add)
  moreover have "row_ok (source_fields (final_source p w))"
    unfolding fs using S [folded sb_def] v(6) le
    by (auto simp: row_ok_def source_fields_def project_source_def Let_def intro: in_i64_add)
  moreover have "rows_run p ls (start_balance p w) (start_source p w)"
    using run by (simp add: b_def sb_def)
  moreover have "pj_JournalID p = jid" "pj_MerchantID p = pc_MerchantID inp" "pj_PaymentMode p = pc_PaymentMode inp"
    "pj_Source p = pc_Source inp" "pj_TemplateCode p \<noteq> []" "pj_JournalReference p = ref" "pj_IdempotencyKey p \<noteq> []"
    "pj_ReferenceType p \<noteq> []" "pj_ReferenceID p = pc_PaymentIntentID inp"
    using ids(2) by (simp_all add: p)
  ultimately show ?thesis
    unfolding postable_def legs_p
    using l(1-6) v(1-4) m ids fresh range(3) by auto
qed
lemma notin_image_iff: "x \<notin> f ` A \<longleftrightarrow> (\<forall>a\<in>A. f a \<noteq> x)"
  by auto

lemma update_lots_last:
  assumes "\<forall>x\<in>set ls. lot_ID x \<noteq> lot_ID l" and "lots w = ls @ [l]" and "lot_check (f l) = Inr ()"
  shows "update_lots (\<lambda>x. lot_ID x = lot_ID l) f w = (Inr (), w\<lparr>lots := ls @ [f l]\<rparr>)"
proof -
  have "find (\<lambda>x. lot_ID x = lot_ID l \<and> lot_check (f x) \<noteq> Inr ()) (lots w) = None"
    using assms by (auto simp: find_none)
  moreover have "map (\<lambda>x. if lot_ID x = lot_ID l then f x else x) ls = ls"
    using assms(1) by (intro map_idI) auto
  ultimately show ?thesis using assms(2) by (simp add: update_lots_def)
qed

lemma journal_fresh_iff:
  "journal_fresh p w \<longleftrightarrow> pj_JournalID p \<notin> j_ID ` set (journals w) \<and>
     journal_by_reference (pj_JournalReference p) w = None \<and> journal_by_key (pj_IdempotencyKey p) w = None"
  by (simp add: journal_fresh_def journal_by_reference_def journal_by_key_def find_none notin_image_iff)

text \<open>What has to be true of a capture besides its validation for it to go through.\<close>

definition capture_ready :: "PaymentCaptureInput \<Rightarrow> 'm ledger_db_scheme \<Rightarrow> bool" where
  "capture_ready inp w \<longleftrightarrow>
     capture_validation inp = Inr () \<and>
     (let (fp, ff) = capture_fees inp in 0 \<le> fp \<and> 0 \<le> ff \<and> fp + ff + pc_MerchantNetIDR inp = pc_GrossIDR inp) \<and>
     in_i64 (pc_GrossIDR inp) \<and> pc_MerchantID inp \<in> set (merchants w) \<and>
     pc_JournalID inp \<noteq> [] \<and> pc_JournalID inp \<notin> j_ID ` set (journals w) \<and>
     pc_LotID inp \<noteq> [] \<and> pc_LotID inp \<notin> lot_ID ` set (lots w) \<and>
     Some (pc_PaymentIntentID inp) \<notin> lot_PaymentIntentID ` set (lots w) \<and>
     journal_by_reference (capture_ref inp) w = None \<and> journal_by_key (capture_key inp) w = None \<and>
     headroom (pc_GrossIDR inp) (pc_MerchantID inp) (pc_PaymentMode inp) (pc_Source inp) w"

lemma capture_goes_through:
  assumes "ledger_reachable w" and "capture_ready inp w" and "\<not> capture_immediate s inp w"
  shows "\<exists>lot w'. PostPaymentCapture s inp w = (Inr (pc_JournalID inp, pc_LotID inp), w') \<and>
    lots w' = lots w @ [lot] \<and> lot_ID lot = pc_LotID inp \<and> lot_Status lot = LotPending \<and>
    lot_OriginalAmountIDR lot = pc_MerchantNetIDR inp \<and> lot_RemainingAmountIDR lot = 0 \<and>
    lot_PaymentIntentID lot = Some (pc_PaymentIntentID inp) \<and> lot_CaptureJournalID lot = Some (pc_JournalID inp) \<and>
    journal_by_reference (capture_ref inp) w' \<noteq> None"
proof -
  let ?jid = "pc_JournalID inp" and ?lid = "pc_LotID inp" and ?net = "pc_MerchantNetIDR inp"
  let ?g = "pc_GrossIDR inp"
  note inv = reachable_inv [OF assms(1)]
  obtain fp ff where fees: "capture_fees inp = (fp, ff)" by (cases "capture_fees inp")
  define at where "at = capture_available_at inp False w"
  define now where "now = capture_now inp w"
  have r: "capture_validation inp = Inr ()" "0 \<le> fp" "0 \<le> ff" "fp + ff + ?net = ?g" "in_i64 ?g"
    "pc_MerchantID inp \<in> set (merchants w)" "?jid \<noteq> []" "?jid \<notin> j_ID ` set (journals w)" "?lid \<noteq> []"
    "?lid \<notin> lot_ID ` set (lots w)" "Some (pc_PaymentIntentID inp) \<notin> lot_PaymentIntentID ` set (lots w)"
    "journal_by_reference (capture_ref inp) w = None" "journal_by_key (capture_key inp) w = None"
    "headroom ?g (pc_MerchantID inp) (pc_PaymentMode inp) (pc_Source inp) w"
    using assms(2) fees by (simp_all add: capture_ready_def)
  have v: "0 < ?g" "0 < ?net" "wallet_source (pc_Source inp)" "pc_PaymentMode inp = ModeSandbox \<or> pc_PaymentMode inp = ModeLive"
    "pc_PaymentIntentID inp \<noteq> []"
    using r(1) by (auto simp: capture_validation_def split: if_splits)
  have fits: "in_i64 (fp + ff)" "in_i64 (fp + ff + ?net)"
    using r(2-5) v(2) by (auto intro: in_i64_downward [OF r(5)])
  obtain legs where legs: "BuildPaymentCaptureLegs ?g fp ff ?net ?lid at = Inr legs"
    using build_template_cases [of "PaymentCapture ?g fp ff ?net ?lid at"] fits r(2-5) v(2) by auto
  define p where "p = capture_params inp ?jid (capture_ref inp) (capture_desc inp) ?lid fp ff now legs"
  define lot where "lot = capture_lot inp ?lid False at now"
  define lot' where "lot' = lot\<lparr>lot_CaptureJournalID := Some ?jid, lot_Status := LotPending,
     lot_RemainingAmountIDR := 0, lot_UpdatedAt := now\<rparr>"
  have check: "lot_check lot = Inr ()" "lot_check lot' = Inr ()"
    using v by (auto simp: lot_check_def lot'_def lot_def capture_lot_def lot_statuses_def)
  let ?w1 = "w\<lparr>lots := lots w @ [lot]\<rparr>"
  have ins: "InsertSettlementLot lot w = (Inr lot, ?w1)"
    using check(1) r(6,10,11) by (auto simp: InsertSettlementLot_def lot_def capture_lot_def)
  have refne: "capture_ref inp \<noteq> []"
    by (simp add: capture_ref_def JournalReferencePaymentCapture_def)
  have books: "same_books w ?w1" by (simp add: same_books_def)
  have inv1: "ledger_inv ?w1" using keepsD [OF keeps_InsertSettlementLot ins inv] .
  have "postable p ?w1"
  proof (rule capture_postable [OF legs fits r(5) r(1) _ p_def r(7) refne])
    show "pc_MerchantID inp \<in> set (merchants ?w1)" using r(6) by simp
    show "journal_fresh p ?w1"
      using r(8,12,13) same_books_reads(2,3) [OF books]
      by (simp add: journal_fresh_iff p_def capture_key_def)
    show "rows_ok ?w1" using ledger_inv_rows [OF inv1] .
    show "headroom ?g (pc_MerchantID inp) (pc_PaymentMode inp) (pc_Source inp) ?w1"
      using r(14) by (simp add: headroom_def GetBalance_def)
  qed
  from postable_posts [OF inv1 this] have post: "PostJournal p ?w1 = (Inr ?jid, posted p ?w1)"
    by (simp add: p_def)
  let ?w2 = "(posted p ?w1)\<lparr>lots := lots w @ [lot']\<rparr>"
  have "update_lots (\<lambda>x. lot_ID x = lot_ID lot) (\<lambda>l. l\<lparr>lot_CaptureJournalID := Some ?jid, lot_Status := LotPending,
     lot_RemainingAmountIDR := 0, lot_UpdatedAt := now\<rparr>) (posted p ?w1) = (Inr (), ?w2)"
  proof (subst update_lots_last [where ls = "lots w"])
    show "\<forall>x\<in>set (lots w). lot_ID x \<noteq> lot_ID lot" using r(10) by (simp add: notin_image_iff lot_def capture_lot_def)
    show "lots (posted p ?w1) = lots w @ [lot]" by simp
    show "lot_check (lot\<lparr>lot_CaptureJournalID := Some ?jid, lot_Status := LotPending,
     lot_RemainingAmountIDR := 0, lot_UpdatedAt := now\<rparr>) = Inr ()" using check(2) by (simp add: lot'_def)
  qed (simp add: lot'_def)
  then have upd: "UpdateLotAfterCapture ?lid ?jid LotPending 0 now (posted p ?w1) = (Inr (), ?w2)"
    by (simp add: UpdateLotAfterCapture_def lot_def capture_lot_def)
  have tx: "capture_tx inp ?jid ?lid (pc_ReleaseJournalID inp) (capture_ref inp) (capture_desc inp) False fp ff at now legs w
      = (Inr (?jid, ?lid), ?w2)"
    using ins post upd unfolding p_def lot_def
    by (simp add: capture_tx_def try_op_def bindS_def)
  have im: "capture_immediate s inp w = False" using assms(3) by simp
  have nf: "found_journal (capture_ref inp) w = None"
    using r(12) by (simp add: found_journal_def GetJournalByReference_def)
  have "PostPaymentCapture s inp w = (Inr (?jid, ?lid), ?w2)"
    using r(1,7,9) nf tx legs fees
    by (simp add: PostPaymentCapture_def bindS_def or_new_id_def im capture_commit_def at_def [symmetric]
        now_def [symmetric] try_op_def with_tx_def Let_def)
  moreover have "journal_by_reference (capture_ref inp) ?w2 \<noteq> None"
    by (simp add: journal_by_reference_def find_append p_def split: option.split)
  ultimately show ?thesis
    by (intro exI [of _ lot'] exI [of _ ?w2]) (simp add: lot'_def lot_def capture_lot_def)
qed
definition demo_capture :: PaymentCaptureInput where
  "demo_capture = \<lparr>pc_JournalID = ''lj_7'', pc_LotID = ''lot_7'', pc_MerchantID = ''m1'', pc_StoreID = ''st1'',
     pc_PaymentMode = ModeLive, pc_Source = SourceStorefront, pc_PaymentIntentID = ''pi_7'', pc_OrderID = ''ord_7'',
     pc_FeeSnapshotID = [], pc_GrossIDR = 100000, pc_FeePercentIDR = 3000, pc_FeeFixedIDR = 700,
     pc_MerchantNetIDR = 96300, pc_JournalReference = [], pc_IdempotencyKey = [], pc_Description = [],
     pc_PostedAt = 50, pc_AvailableAt = time_zero, pc_ImmediateRelease = False, pc_ReleaseJournalID = []\<rparr>"

definition demo_service :: LedgerService where
  "demo_service = \<lparr>ls_Authz = None, ls_ForceImmediateRelease = False, ls_DefaultPaymentMode = []\<rparr>"

lemma demo_capture_fees: "capture_fees demo_capture = (3000, 700)"
proof -
  have "wrap64 3700 = 3700" by (rule wrap64_id) (simp add: i64_bounds)
  then show ?thesis by (simp add: capture_fees_def demo_capture_def)
qed

lemma demo_capture_valid: "capture_validation demo_capture = Inr ()"
  by (simp add: capture_validation_def demo_capture_def)

lemma demo_ledger_empty [simp]:
  "journals (demo_ledger x) = []" "entries (demo_ledger x) = []" "lots (demo_ledger x) = []"
  "balances (demo_ledger x) = Map.empty" "source_balances (demo_ledger x) = Map.empty"
  "merchants (demo_ledger x) = [''m1'']" "clock (demo_ledger x) = 1000"
  "schema_meta (demo_ledger x) = Map.empty"
  by (simp_all add: demo_ledger_def)

lemma demo_journals_none [simp]:
  "journal_by_reference k (demo_ledger x) = None" "journal_by_key k (demo_ledger x) = None"
  by (simp_all add: journal_by_reference_def journal_by_key_def)

lemma demo_capture_fields [simp]:
  "pc_JournalID demo_capture = ''lj_7''" "pc_LotID demo_capture = ''lot_7''" "pc_MerchantID demo_capture = ''m1''"
  "pc_PaymentMode demo_capture = ModeLive" "pc_GrossIDR demo_capture = 100000"
  "pc_MerchantNetIDR demo_capture = 96300" "pc_PaymentIntentID demo_capture = ''pi_7''"
  "pc_ImmediateRelease demo_capture = False"
  by (simp_all add: demo_capture_def)

lemma demo_headroom: "headroom 100000 ''m1'' mode src (demo_ledger x)"
  by (simp add: headroom_def GetBalance_def balance_fields_def source_fields_def zero_balance_def
      zero_source_balance_def max_i64_def)

lemma demo_capture_ready: "capture_ready demo_capture (demo_ledger x)"
proof -
  have "in_i64 100000" by (simp add: i64_bounds)
  then show ?thesis
    by (simp add: capture_ready_def demo_capture_valid demo_capture_fees demo_headroom)
qed

lemma demo_not_immediate: "\<not> capture_immediate demo_service demo_capture (demo_ledger x)"
  by (simp add: capture_immediate_def demo_service_def SettlementDelaySeconds_def DefaultSettlementDelaySeconds_def)

lemma demo_capture_ref: "capture_ref demo_capture = ''PAYMENT_CAPTURE:pi_7''"
  by (simp add: capture_ref_def demo_capture_def JournalReferencePaymentCapture_def)

lemma demo_capture_runs:
  "\<exists>lot w'. PostPaymentCapture demo_service demo_capture (demo_ledger x) = (Inr (''lj_7'', ''lot_7''), w') \<and>
     lots w' = [lot] \<and> lot_OriginalAmountIDR lot = 96300 \<and>
     journal_by_reference ''PAYMENT_CAPTURE:pi_7'' w' \<noteq> None"
proof -
  note run = capture_goes_through [where w = "demo_ledger x" and s = demo_service and inp = demo_capture,
      OF demo_reachable demo_capture_ready demo_not_immediate,
      unfolded demo_capture_fields demo_ledger_empty append_Nil demo_capture_ref]
  from run obtain lot w' where
    "PostPaymentCapture demo_service demo_capture (demo_ledger x) = (Inr (''lj_7'', ''lot_7''), w')"
    "lots w' = [lot]" "lot_OriginalAmountIDR lot = 96300"
    "journal_by_reference ''PAYMENT_CAPTURE:pi_7'' w' \<noteq> None"
    by (elim exE conjE) (rule that)
  then show ?thesis by (intro exI conjI)
qed



lemma PostPaymentCapture_idempotent_witness:
  "\<exists>w' l'. PostPaymentCapture demo_service demo_capture (demo_ledger ()) = (Inr (''lj_7'', ''lot_7''), w') \<and>
     PostPaymentCapture demo_service demo_capture w' = (Inr (''lj_7'', l'), w')"
proof -
  obtain w' where run: "PostPaymentCapture demo_service demo_capture (demo_ledger ()) = (Inr (''lj_7'', ''lot_7''), w')"
    using demo_capture_runs [of "()"] by (elim exE conjE) (rule that)
  have "list_all (\<lambda>x. j_IdempotencyKey x = capture_key demo_capture \<longrightarrow> j_JournalReference x = capture_ref demo_capture)
      (journals (demo_ledger ()))" by simp
  from run PostPaymentCapture_idempotent [OF demo_reachable run this] show ?thesis by blast
qed

lemma PostPaymentCapture_credits_net_witness:
  "\<exists>w' :: ledger_db. PostPaymentCapture demo_service demo_capture (demo_ledger ()) = (Inr (''lj_7'', ''lot_7''), w') \<and>
     abs_wallet w' (''m1'', ModeLive) = (96300, 0, 0)"
proof -
  obtain w' where run: "PostPaymentCapture demo_service demo_capture (demo_ledger ()) = (Inr (''lj_7'', ''lot_7''), w')"
    using demo_capture_runs [of "()"] by (elim exE conjE) (rule that)
  have ne: "JournalReferenceSettlementRelease (pc_PaymentIntentID demo_capture) \<noteq> capture_ref demo_capture"
    "JournalReferenceSettlementRelease (pc_PaymentIntentID demo_capture) \<noteq> capture_key demo_capture"
    by (simp_all add: demo_capture_def capture_ref_def capture_key_def journal_reference_defs)
  have wallet: "abs_wallet (demo_ledger ()) (''m1'', ModeLive) = (0, 0, 0)"
    by (simp add: abs_wallet_def GetBalance_def)
  have row: "(''m1'', ModeLive) = (pc_MerchantID demo_capture, pc_PaymentMode demo_capture)" by simp
  from PostPaymentCapture_credits_net [OF demo_reachable run demo_journals_none refl demo_journals_none ne row wallet]
    run demo_not_immediate [of "()"]
  show ?thesis by auto
qed

subsection \<open>Settlement release\<close>

lemma releaseLot_books:
  assumes run: "releaseLot lot now w = (Inr (), w')" and rows: "rows_ok w" and intent: "lot_PaymentIntentID lot = Some i"
  defines "r \<equiv> JournalReferenceSettlementRelease i"
  shows "if found_journal r w \<noteq> None then same_books w w'
    else \<exists>p j w1 w2. same_books w w1 \<and> rows_ok w1 \<and> PostJournal p w1 = (Inr j, w2) \<and> same_books w2 w' \<and>
      pj_JournalReference p = r \<and> pj_IdempotencyKey p = r \<and> pj_row p = (lot_MerchantID lot, lot_PaymentMode lot) \<and>
      build_template (SettlementRelease (lot_OriginalAmountIDR lot) (lot_ID lot) (lot_AvailableAt lot)) = Inr (pj_Legs p)"
proof (cases "found_journal r w")
  case (Some e)
  with run intent show ?thesis
    by (auto simp: releaseLot_def r_def dest: same_books_lot_ops(2))
next
  case None
  obtain legs w2 j where legs: "BuildSettlementReleaseLegs (lot_OriginalAmountIDR lot) (lot_ID lot) (lot_AvailableAt lot) = Inr legs"
    and post: "PostJournal (release_params (''lj_'' @ id_gen w (next_id w)) (lot_MerchantID lot)
        (case lot_StoreID lot of None \<Rightarrow> [] | Some x \<Rightarrow> x) (lot_PaymentMode lot) (lot_Source lot) i
        (case lot_OrderID lot of None \<Rightarrow> [] | Some x \<Rightarrow> x) (lot_ID lot) (lot_OriginalAmountIDR lot) now legs)
        (w\<lparr>next_id := Suc (next_id w)\<rparr>) = (Inr j, w2)"
    and upd: "UpdateLotAfterRelease (lot_ID lot) j LotAvailable (lot_OriginalAmountIDR lot) now w2 = (Inr (), w')"
    using run intent None by (auto simp: releaseLot_def r_def [symmetric] bindS_eq_Inr)
  have "same_books w (w\<lparr>next_id := Suc (next_id w)\<rparr>)" by (simp add: same_books_def)
  moreover from this rows have "rows_ok (w\<lparr>next_id := Suc (next_id w)\<rparr>)" by (rule same_books_rows)
  ultimately show ?thesis
    using None post legs same_books_lot_ops(2) [OF upd]
    by (intro iffD2 [OF if_not_P]) (auto simp: r_def intro!: exI)
qed

end
