(* ===== verification/Withdrawals.thy ===== *)
theory Withdrawals
  imports Ledger_Service
begin

text \<open>
  The withdrawal domain (\<open>internal/domain/withdrawals\<close>): the lifecycle of a withdrawal
  (\<open>status.go\<close>), the masking of bank account numbers (\<open>mask.go\<close>), the errors and the data
  (\<open>types.go\<close>). The transition matrix is an instance of the contract \<open>status_machine\<close>.
\<close>

subsection \<open>Statuses and transitions\<close>

abbreviation "StatusRequested \<equiv> ''REQUESTED''"
abbreviation "StatusUnderReview \<equiv> ''UNDER_REVIEW''"
abbreviation "StatusApproved \<equiv> ''APPROVED''"
abbreviation "StatusHeld \<equiv> ''HELD''"
abbreviation "StatusProcessing \<equiv> ''PROCESSING''"
abbreviation "StatusCompleted \<equiv> ''COMPLETED''"
abbreviation "StatusFailed \<equiv> ''FAILED''"
abbreviation "StatusUnknownOutcome \<equiv> ''UNKNOWN_OUTCOME''"
abbreviation "StatusRejected \<equiv> ''REJECTED''"
abbreviation "StatusCancelled \<equiv> ''CANCELLED''"

abbreviation "QuoteActive \<equiv> ''ACTIVE''"
abbreviation "QuoteConsumed \<equiv> ''CONSUMED''"
abbreviation "QuoteExpired \<equiv> ''EXPIRED''"
abbreviation "QuoteInvalidated \<equiv> ''INVALIDATED''"

abbreviation "BankPendingVerification \<equiv> ''PENDING_VERIFICATION''"
abbreviation "BankVerified \<equiv> ''VERIFIED''"
abbreviation "BankArchived \<equiv> ''ARCHIVED''"

definition DefaultQuoteTTLSeconds :: i64 where
  "DefaultQuoteTTLSeconds = 300"

definition DefaultBankChangeLockSeconds :: i64 where
  "DefaultBankChangeLockSeconds = 86400"

definition DefaultProviderFeeIDR :: i64 where
  "DefaultProviderFeeIDR = 2500"

definition withdrawal_statuses :: "string list" where
  "withdrawal_statuses = [StatusRequested, StatusUnderReview, StatusApproved, StatusHeld, StatusProcessing,
     StatusCompleted, StatusFailed, StatusUnknownOutcome, StatusRejected, StatusCancelled]"

definition transitionMatrix :: "(string \<times> string list) list" where
  "transitionMatrix =
    [(StatusRequested, [StatusUnderReview, StatusRejected, StatusCancelled, StatusApproved]),
     (StatusUnderReview, [StatusApproved, StatusHeld, StatusRejected, StatusCancelled]),
     (StatusHeld, [StatusUnderReview, StatusRejected, StatusCancelled]),
     (StatusApproved, [StatusProcessing, StatusCancelled]),
     (StatusProcessing, [StatusCompleted, StatusFailed, StatusUnknownOutcome]),
     (StatusUnknownOutcome, [StatusProcessing, StatusCompleted, StatusFailed, StatusCancelled]),
     (StatusFailed, [StatusCompleted]),
     (StatusCancelled, [StatusCompleted]),
     (StatusCompleted, []),
     (StatusRejected, [])]"

definition CanTransition :: "string \<Rightarrow> string \<Rightarrow> bool" where
  "CanTransition from to \<longleftrightarrow>
     from = to \<or> (case map_of transitionMatrix from of None \<Rightarrow> False | Some allowed \<Rightarrow> to \<in> set allowed)"

definition AssertTransition :: "string \<Rightarrow> string \<Rightarrow> unit result" where
  "AssertTransition from to =
     (if CanTransition from to then Inr ()
      else Inl (PlainError (''withdrawals: invalid transition '' @ from @ '' -> '' @ to)))"

definition IsTerminal :: "string \<Rightarrow> bool" where
  "IsTerminal status \<longleftrightarrow> status \<in> set [StatusCompleted, StatusFailed, StatusRejected, StatusCancelled]"

definition HoldsReserve :: "string \<Rightarrow> bool" where
  "HoldsReserve status \<longleftrightarrow> status \<in> set [StatusRequested, StatusUnderReview, StatusApproved, StatusHeld,
     StatusProcessing, StatusUnknownOutcome]"

subsection \<open>Account numbers\<close>

definition NormalizeAccountNumber :: "string \<Rightarrow> string" where
  "NormalizeAccountNumber raw = filter is_digit raw"

definition MaskAccountNumber :: "string \<Rightarrow> string" where
  "MaskAccountNumber digits =
    (let d = NormalizeAccountNumber digits in
     if length d < 4 then ''****'' else ''****'' @ drop (length d - 4) d)"

definition Last4 :: "string \<Rightarrow> string" where
  "Last4 digits =
    (let d = NormalizeAccountNumber digits in
     if length d < 4 then replicate (4 - length d) (CHR ''0'') @ d else drop (length d - 4) d)"

definition ValidAccountNumber :: "string \<Rightarrow> bool" where
  "ValidAccountNumber digits \<longleftrightarrow>
    (let d = NormalizeAccountNumber digits in 8 \<le> length d \<and> length d \<le> 20)"

subsection \<open>Errors\<close>

definition ErrLocked :: go_error where
  "ErrLocked = apperr_conflict ''WITHDRAWAL_LOCKED'' ''Withdrawals are temporarily locked after a bank change''"

definition ErrInsufficient :: go_error where
  "ErrInsufficient = apperr_conflict ''WITHDRAWAL_INSUFFICIENT_BALANCE'' ''Insufficient available balance for withdrawal''"

definition ErrQuoteExpired :: go_error where
  "ErrQuoteExpired = apperr_conflict ''WITHDRAWAL_QUOTE_EXPIRED'' ''Withdrawal quote has expired''"

definition ErrQuoteInvalid :: go_error where
  "ErrQuoteInvalid = apperr_conflict ''WITHDRAWAL_QUOTE_INVALID'' ''Withdrawal quote is invalid''"

definition ErrQuoteConsumed :: go_error where
  "ErrQuoteConsumed = apperr_conflict ''WITHDRAWAL_QUOTE_CONSUMED'' ''Withdrawal quote already consumed''"

definition ErrBankNotVerified :: go_error where
  "ErrBankNotVerified = apperr_validation ''BANK_NOT_VERIFIED'' ''Bank account must be verified''"

definition ErrBankVersionConflict :: go_error where
  "ErrBankVersionConflict = apperr_conflict ''BANK_VERSION_CONFLICT'' ''Bank account version conflict''"

definition ErrBankPrimaryRequired :: go_error where
  "ErrBankPrimaryRequired =
     apperr_conflict ''BANK_PRIMARY_REQUIRED'' ''Cannot archive the only verified primary bank account''"

definition ErrBankInUse :: go_error where
  "ErrBankInUse =
     apperr_conflict ''BANK_IN_USE'' ''Bank account is referenced by an active quote or withdrawal''"

definition ErrInvalidStatus :: go_error where
  "ErrInvalidStatus = apperr_conflict ''WITHDRAWAL_INVALID_STATUS'' ''Invalid withdrawal status transition''"

definition ErrFrozen :: go_error where
  "ErrFrozen = apperr_conflict ''WITHDRAWAL_FROZEN'' ''Withdrawals frozen pending recovery''"

definition ErrDisbursementMismatch :: go_error where
  "ErrDisbursementMismatch = apperr_conflict ''DISBURSEMENT_MISMATCH'' ''Disbursement evidence mismatch''"

lemmas withdrawal_errors = ErrLocked_def ErrInsufficient_def ErrQuoteExpired_def ErrQuoteInvalid_def
  ErrQuoteConsumed_def ErrBankNotVerified_def ErrBankVersionConflict_def ErrBankPrimaryRequired_def
  ErrBankInUse_def ErrInvalidStatus_def ErrFrozen_def ErrDisbursementMismatch_def

subsection \<open>Data\<close>

record BankAccount =
  ba_ID :: string
  ba_MerchantID :: string
  ba_BankCode :: string
  ba_BankName :: string
  ba_AccountHolderName :: string
  ba_AccountNumberCipher :: string
  ba_EncryptionKeyVersion :: string
  ba_AccountNumberMasked :: string
  ba_AccountNumberLast4 :: string
  ba_Status :: string
  ba_IsPrimary :: bool
  ba_Version :: i64
  ba_VerifiedAt :: "time option"
  ba_ArchivedAt :: "time option"
  ba_CreatedAt :: time
  ba_UpdatedAt :: time

record Quote =
  qt_ID :: string
  qt_MerchantID :: string
  qt_StoreID :: "string option"
  qt_PaymentMode :: string
  qt_AmountIDR :: i64
  qt_PlatformFeeIDR :: i64
  qt_ProviderFeeIDR :: i64
  qt_TotalFeeIDR :: i64
  qt_NetDisbursementIDR :: i64
  qt_Currency :: string
  qt_PolicyVersionID :: string
  qt_FeeSnapshotID :: "string option"
  qt_BankAccountID :: string
  qt_BankAccountVersion :: i64
  qt_BankCode :: string
  qt_BankName :: string
  qt_AccountHolderName :: string
  qt_AccountNumberMasked :: string
  qt_ProviderQuoteReference :: "string option"
  qt_ProviderQuoteEvidence :: string
  qt_Status :: string
  qt_IdempotencyKeyHash :: string
  qt_RequestHash :: string
  qt_ExpiresAt :: time
  qt_ConsumedWithdrawalID :: "string option"
  qt_CreatedAt :: time
  qt_UpdatedAt :: time

record Allocation =
  al_ID :: string
  al_WithdrawalID :: string
  al_SettlementLotID :: string
  al_Source :: string
  al_AmountIDR :: i64
  al_AvailableAt :: time
  al_LineNo :: int
  al_CreatedAt :: time

record Withdrawal =
  wd_ID :: string
  wd_MerchantID :: string
  wd_StoreID :: "string option"
  wd_PaymentMode :: string
  wd_Source :: string
  wd_QuoteID :: string
  wd_AmountIDR :: i64
  wd_PlatformFeeIDR :: i64
  wd_ProviderFeeQuotedIDR :: i64
  wd_ProviderFeeActualIDR :: "i64 option"
  wd_TotalFeeIDR :: i64
  wd_NetDisbursementIDR :: i64
  wd_Currency :: string
  wd_PolicyVersionID :: string
  wd_FeeSnapshotID :: "string option"
  wd_BankAccountID :: string
  wd_BankAccountVersion :: i64
  wd_BankCode :: string
  wd_BankName :: string
  wd_AccountHolderName :: string
  wd_AccountNumberMasked :: string
  wd_Status :: string
  wd_Provider :: string
  wd_AccountScope :: string
  wd_ProviderDisbursementReference :: "string option"
  wd_ProviderExternalID :: "string option"
  wd_ReserveJournalID :: "string option"
  wd_ReleaseJournalID :: "string option"
  wd_CompleteJournalID :: "string option"
  wd_FeeSettleJournalID :: "string option"
  wd_RecaptureJournalID :: "string option"
  wd_ReserveReleased :: bool
  wd_ReviewReason :: string
  wd_RejectReason :: string
  wd_HoldReason :: string
  wd_ReviewedBy :: "string option"
  wd_ReviewedAt :: "time option"
  wd_SubmittedAt :: "time option"
  wd_ProcessingAt :: "time option"
  wd_CompletedAt :: "time option"
  wd_FailedAt :: "time option"
  wd_UnknownOutcomeAt :: "time option"
  wd_NextLookupAt :: "time option"
  wd_LookupAttempts :: int
  wd_IdempotencyKeyHash :: string
  wd_RecoveryReceivableIDR :: i64
  wd_WithdrawalFrozen :: bool
  wd_CreatedAt :: time
  wd_UpdatedAt :: time
  wd_Allocations :: "Allocation list"

record WithdrawalLock =
  wl_MerchantID :: string
  wl_LockedUntil :: time
  wl_Reason :: string
  wl_BankAccountID :: "string option"
  wl_CreatedAt :: time
  wl_UpdatedAt :: time

definition IsLocked :: "WithdrawalLock \<Rightarrow> time \<Rightarrow> bool" where
  "IsLocked l at \<longleftrightarrow> wl_MerchantID l \<noteq> [] \<and> wl_LockedUntil l > at"

subsection \<open>The lifecycle\<close>

lemma transition_rows [simp]:
  "map_of transitionMatrix StatusRequested = Some [StatusUnderReview, StatusRejected, StatusCancelled, StatusApproved]"
  "map_of transitionMatrix StatusUnderReview = Some [StatusApproved, StatusHeld, StatusRejected, StatusCancelled]"
  "map_of transitionMatrix StatusHeld = Some [StatusUnderReview, StatusRejected, StatusCancelled]"
  "map_of transitionMatrix StatusApproved = Some [StatusProcessing, StatusCancelled]"
  "map_of transitionMatrix StatusProcessing = Some [StatusCompleted, StatusFailed, StatusUnknownOutcome]"
  "map_of transitionMatrix StatusUnknownOutcome = Some [StatusProcessing, StatusCompleted, StatusFailed, StatusCancelled]"
  "map_of transitionMatrix StatusFailed = Some [StatusCompleted]"
  "map_of transitionMatrix StatusCancelled = Some [StatusCompleted]"
  "map_of transitionMatrix StatusCompleted = Some []"
  "map_of transitionMatrix StatusRejected = Some []"
  by (simp_all add: transitionMatrix_def)

text \<open>A settled withdrawal (paid out or rejected) is never touched again.\<close>

interpretation wdm: status_machine CanTransition "\<lambda>s. s = StatusCompleted \<or> s = StatusRejected"
  by unfold_locales (auto simp: CanTransition_def)

lemma terminal_only_completes:
  assumes "IsTerminal s" and "CanTransition s t"
  shows "t = s \<or> t = StatusCompleted"
  using assms by (auto simp: IsTerminal_def CanTransition_def)

lemma holds_reserve_iff:
  "HoldsReserve s \<longleftrightarrow> s \<in> set withdrawal_statuses \<and> \<not> IsTerminal s"
  by (auto simp: HoldsReserve_def IsTerminal_def withdrawal_statuses_def)

lemma status_run_known:
  "s \<in> set withdrawal_statuses \<Longrightarrow> status_run CanTransition s ts \<Longrightarrow> set ts \<subseteq> set withdrawal_statuses"
proof (induction ts arbitrary: s)
  case (Cons t ts)
  have "t \<in> set withdrawal_statuses"
    using Cons.prems by (auto simp: withdrawal_statuses_def CanTransition_def)
  with Cons show ?case by simp
qed simp

lemma run_terminal:
  "IsTerminal s \<Longrightarrow> status_run CanTransition s ts \<Longrightarrow> set ts \<subseteq> {s, StatusCompleted}"
proof (induction ts arbitrary: s)
  case (Cons t ts)
  then have t: "t = s \<or> t = StatusCompleted" using terminal_only_completes by simp
  then have "IsTerminal t" using Cons.prems(1) by (auto simp: IsTerminal_def)
  with Cons have "set ts \<subseteq> {t, StatusCompleted}" by simp
  with t show ?case by auto
qed simp

text \<open>
  C19. The lifecycle of a withdrawal: along any run of allowed transitions, once a terminal status
  has been left behind the money can only have been paid out late: every later status is that same
  status or COMPLETED, and never again one that holds the reserve.
\<close>

theorem withdrawal_lifecycle:
  assumes "status_run CanTransition s (us @ f # ts)" and "IsTerminal f"
  shows "set ts \<subseteq> {f, StatusCompleted} \<and> list_all (\<lambda>t. \<not> HoldsReserve t) ts"
proof -
  have "status_run CanTransition f ts"
    using assms(1) by (induction us arbitrary: s) auto
  from run_terminal [OF assms(2) this] assms(2) show ?thesis
    by (auto simp: list_all_iff holds_reserve_iff IsTerminal_def)
qed

lemma withdrawal_lifecycle_witness:
  "set [StatusFailed, StatusCompleted] \<subseteq> {StatusFailed, StatusCompleted} \<and>
     list_all (\<lambda>t. \<not> HoldsReserve t) [StatusFailed, StatusCompleted]"
  by (rule withdrawal_lifecycle [of StatusRequested "[StatusApproved, StatusProcessing]" StatusFailed])
    (auto simp: CanTransition_def IsTerminal_def)

subsection \<open>Masked numbers\<close>

lemma normalize_idem [simp]: "NormalizeAccountNumber (NormalizeAccountNumber s) = NormalizeAccountNumber s"
  by (simp add: NormalizeAccountNumber_def)

lemma normalize_digits: "c \<in> set (NormalizeAccountNumber s) \<Longrightarrow> is_digit c"
  by (simp add: NormalizeAccountNumber_def)

text \<open>
  Account numbers: whatever the seller types, \<open>Last4\<close> is four decimal digits (the CHECK
  \<open>account_number_last4 ~ '^[0-9]{4}$'\<close> never fails), normalising first changes nothing, and for a
  valid number the mask is four stars before exactly those last four digits, so that at least four
  digits of the number stay hidden.
\<close>

theorem account_number_masking:
  shows "length (Last4 s) = 4 \<and> list_all is_digit (Last4 s) \<and>
    Last4 (NormalizeAccountNumber s) = Last4 s \<and> MaskAccountNumber (NormalizeAccountNumber s) = MaskAccountNumber s \<and>
    (if ValidAccountNumber s then MaskAccountNumber s = ''****'' @ Last4 s \<and>
       length (NormalizeAccountNumber s) \<ge> length (Last4 s) + 4 else length (MaskAccountNumber s) \<le> 8)"
proof -
  have zero: "is_digit (CHR ''0'')" by (simp add: is_digit_def)
  have digits: "list_all is_digit (Last4 s)"
    using zero normalize_digits [of _ s] set_drop_subset [of _ "NormalizeAccountNumber s"]
    by (auto simp: Last4_def Let_def list_all_iff)
  have len: "length (Last4 s) = 4" by (auto simp: Last4_def Let_def)
  moreover have "if ValidAccountNumber s then MaskAccountNumber s = ''****'' @ Last4 s \<and>
       length (NormalizeAccountNumber s) \<ge> length (Last4 s) + 4 else length (MaskAccountNumber s) \<le> 8"
    using len by (auto simp: ValidAccountNumber_def MaskAccountNumber_def Last4_def Let_def)
  ultimately show ?thesis
    using digits by (simp add: Last4_def MaskAccountNumber_def)
qed

end
