(* ===== verification/Withdrawal_Store.thy ===== *)
theory Withdrawal_Store
  imports Withdrawals
begin

text \<open>
  The withdrawal tables of \<open>migrations/000019_withdrawals.up.sql\<close> and their repository
  (\<open>internal/adapters/postgres/withdrawal_repo.go\<close> over \<open>queries/withdrawals.sql\<close>): bank accounts,
  the security lock, quotes, withdrawals and their lot allocations. Every statement has its WHERE
  guard, its CHECK constraints, unique indexes and foreign keys. Where an ORDER BY leaves ties open
  the model breaks them by position. \<open>payouts\<close> is the trace of the calls the code makes to the
  disbursement provider.
\<close>

subsection \<open>Tables\<close>

record CreateDisbursementInput =
  cd_ExternalID :: string
  cd_NetAmountIDR :: i64
  cd_Currency :: string
  cd_BankCode :: string
  cd_AccountHolderName :: string
  cd_AccountNumber :: string
  cd_AccountNumberMask :: string
  cd_Description :: string
  cd_AccountScope :: string
  cd_PaymentMode :: string
  cd_IdempotencyKey :: string

record withdrawal_db = ledger_db +
  bank_accounts :: "BankAccount list"
  withdrawal_locks :: "WithdrawalLock list"
  withdrawal_quotes :: "Quote list"
  withdrawals :: "Withdrawal list"
  allocations :: "Allocation list"
  payouts :: "CreateDisbursementInput list"

definition modes :: "string list" where
  "modes = [ModeSandbox, ModeLive]"

subsection \<open>Bank accounts\<close>

definition bank_check :: "BankAccount \<Rightarrow> unit result" where
  "bank_check a = first_failure
    [(ba_Status a \<in> set [BankPendingVerification, BankVerified, BankArchived], ''bank_accounts_status_check''),
     (ba_BankCode a \<noteq> [], ''bank_accounts_bank_code_nonempty''),
     (ba_AccountHolderName a \<noteq> [], ''bank_accounts_holder_nonempty''),
     (ba_AccountNumberMasked a \<noteq> [], ''bank_accounts_masked_nonempty''),
     (length (ba_AccountNumberLast4 a) = 4 \<and> list_all is_digit (ba_AccountNumberLast4 a), ''bank_accounts_last4_check''),
     (ba_Version a > 0, ''bank_accounts_version_pos'')]"

definition primary_taken :: "BankAccount \<Rightarrow> BankAccount list \<Rightarrow> bool" where
  "primary_taken a bs \<longleftrightarrow> ba_IsPrimary a \<and> ba_Status a = BankVerified \<and>
     list_ex (\<lambda>b. ba_ID b \<noteq> ba_ID a \<and> ba_MerchantID b = ba_MerchantID a \<and> ba_IsPrimary b \<and> ba_Status b = BankVerified) bs"

definition InsertBankAccount :: "BankAccount \<Rightarrow> ('m withdrawal_db_scheme, BankAccount) op" where
  "InsertBankAccount a = (\<lambda>w.
     case bindE (bank_check a) (\<lambda>_. first_failure
       [(ba_ID a \<notin> ba_ID ` set (bank_accounts w), ''bank_accounts_pkey''),
        (\<not> primary_taken a (bank_accounts w), ''bank_accounts_primary_uidx''),
        (ba_MerchantID a \<in> set (merchants w), ''bank_accounts_merchant_id_fkey'')]) of
       Inl e \<Rightarrow> (Inl e, w)
     | Inr _ \<Rightarrow> (Inr a, w\<lparr>bank_accounts := bank_accounts w @ [a]\<rparr>))"

definition GetBankAccount :: "string \<Rightarrow> 'm withdrawal_db_scheme \<Rightarrow> BankAccount result" where
  "GetBankAccount i w = opt_row (find (\<lambda>a. ba_ID a = i) (bank_accounts w))"

definition ListBankAccounts :: "string \<Rightarrow> 'm withdrawal_db_scheme \<Rightarrow> BankAccount list" where
  "ListBankAccounts m w =
     (let rows = rev (sort_key ba_CreatedAt
        (filter (\<lambda>a. ba_MerchantID a = m \<and> ba_Status a \<noteq> BankArchived) (bank_accounts w)))
      in filter ba_IsPrimary rows @ filter (\<lambda>a. \<not> ba_IsPrimary a) rows)"

definition update_bank ::
    "(BankAccount \<Rightarrow> bool) \<Rightarrow> (BankAccount \<Rightarrow> BankAccount) \<Rightarrow> ('m withdrawal_db_scheme, BankAccount) op" where
  "update_bank sel f = (\<lambda>w.
     case update_one sel f (\<lambda>a. bindE (bank_check a) (\<lambda>_. first_failure
         [(\<not> primary_taken a (bank_accounts w), ''bank_accounts_primary_uidx'')])) (bank_accounts w) of
       Inl e \<Rightarrow> (Inl e, w)
     | Inr (a, rows) \<Rightarrow> (Inr a, w\<lparr>bank_accounts := rows\<rparr>))"

definition UpdateBankRow :: "BankAccount \<Rightarrow> i64 \<Rightarrow> ('m withdrawal_db_scheme, BankAccount) op" where
  "UpdateBankRow a expectedVersion = update_bank
     (\<lambda>r. ba_ID r = ba_ID a \<and> ba_Version r = expectedVersion \<and> ba_Status r \<noteq> BankArchived)
     (\<lambda>r. r\<lparr>ba_BankCode := ba_BankCode a, ba_BankName := ba_BankName a,
        ba_AccountHolderName := ba_AccountHolderName a, ba_AccountNumberCipher := ba_AccountNumberCipher a,
        ba_EncryptionKeyVersion := ba_EncryptionKeyVersion a, ba_AccountNumberMasked := ba_AccountNumberMasked a,
        ba_AccountNumberLast4 := ba_AccountNumberLast4 a, ba_Version := ba_Version r + 1,
        ba_UpdatedAt := ba_UpdatedAt a\<rparr>)"

definition SetBankVerified :: "string \<Rightarrow> time \<Rightarrow> ('m withdrawal_db_scheme, BankAccount) op" where
  "SetBankVerified i at = update_bank (\<lambda>r. ba_ID r = i \<and> ba_Status r = BankPendingVerification)
     (\<lambda>r. r\<lparr>ba_Status := BankVerified, ba_VerifiedAt := Some at, ba_UpdatedAt := at\<rparr>)"

definition ClearPrimary :: "string \<Rightarrow> time \<Rightarrow> ('m withdrawal_db_scheme, unit) op" where
  "ClearPrimary m at = (\<lambda>w. (Inr (), w\<lparr>bank_accounts := map (\<lambda>r.
     if ba_MerchantID r = m \<and> ba_IsPrimary r \<and> ba_Status r = BankVerified
     then r\<lparr>ba_IsPrimary := False, ba_UpdatedAt := at\<rparr> else r) (bank_accounts w)\<rparr>))"

definition MakePrimary :: "string \<Rightarrow> string \<Rightarrow> time \<Rightarrow> ('m withdrawal_db_scheme, BankAccount) op" where
  "MakePrimary i m at = update_bank (\<lambda>r. ba_ID r = i \<and> ba_MerchantID r = m \<and> ba_Status r = BankVerified)
     (\<lambda>r. r\<lparr>ba_IsPrimary := True, ba_UpdatedAt := at\<rparr>)"

definition ArchiveBankRow :: "string \<Rightarrow> time \<Rightarrow> ('m withdrawal_db_scheme, BankAccount) op" where
  "ArchiveBankRow i at = update_bank (\<lambda>r. ba_ID r = i \<and> ba_Status r \<noteq> BankArchived)
     (\<lambda>r. r\<lparr>ba_Status := BankArchived, ba_IsPrimary := False, ba_ArchivedAt := Some at, ba_UpdatedAt := at\<rparr>)"

definition CountVerifiedBanks :: "string \<Rightarrow> 'm withdrawal_db_scheme \<Rightarrow> nat" where
  "CountVerifiedBanks m w =
     length (filter (\<lambda>a. ba_MerchantID a = m \<and> ba_Status a = BankVerified) (bank_accounts w))"

definition CountActiveWithdrawalsForBank :: "string \<Rightarrow> 'm withdrawal_db_scheme \<Rightarrow> nat" where
  "CountActiveWithdrawalsForBank b w =
     length (filter (\<lambda>x. wd_BankAccountID x = b \<and> wd_Status x \<in> set [StatusRequested, StatusUnderReview,
       StatusApproved, StatusHeld, StatusProcessing, StatusUnknownOutcome]) (withdrawals w))"

definition CountActiveQuotesForBank :: "string \<Rightarrow> 'm withdrawal_db_scheme \<Rightarrow> nat" where
  "CountActiveQuotesForBank b w =
     length (filter (\<lambda>q. qt_BankAccountID q = b \<and> qt_Status q = QuoteActive) (withdrawal_quotes w))"

subsection \<open>The security lock\<close>

definition UpsertWithdrawalLock :: "WithdrawalLock \<Rightarrow> ('m withdrawal_db_scheme, WithdrawalLock) op" where
  "UpsertWithdrawalLock l = (\<lambda>w.
     let row = l\<lparr>wl_UpdatedAt := wl_CreatedAt l\<rparr> in
     if wl_MerchantID l \<notin> set (merchants w) then (Inl (PgError ''merchant_withdrawal_locks_merchant_id_fkey''), w)
     else case find (\<lambda>x. wl_MerchantID x = wl_MerchantID l) (withdrawal_locks w) of
       None \<Rightarrow> (Inr row, w\<lparr>withdrawal_locks := withdrawal_locks w @ [row]\<rparr>)
     | Some old \<Rightarrow>
         let new = row\<lparr>wl_CreatedAt := wl_CreatedAt old\<rparr> in
         (Inr new, w\<lparr>withdrawal_locks :=
            map (\<lambda>x. if wl_MerchantID x = wl_MerchantID l then new else x) (withdrawal_locks w)\<rparr>))"

definition GetWithdrawalLock :: "string \<Rightarrow> 'm withdrawal_db_scheme \<Rightarrow> WithdrawalLock result" where
  "GetWithdrawalLock m w = opt_row (find (\<lambda>x. wl_MerchantID x = m) (withdrawal_locks w))"

subsection \<open>Quotes\<close>

definition quote_check :: "Quote \<Rightarrow> unit result" where
  "quote_check q = first_failure
    [(qt_PaymentMode q \<in> set modes, ''withdrawal_quotes_mode_check''),
     (qt_Currency q = CurrencyIDR, ''withdrawal_quotes_currency_check''),
     (qt_AmountIDR q > 0, ''withdrawal_quotes_amount_pos''),
     (qt_PlatformFeeIDR q \<ge> 0 \<and> qt_ProviderFeeIDR q \<ge> 0 \<and> qt_TotalFeeIDR q \<ge> 0, ''withdrawal_quotes_fees_nonneg''),
     (qt_NetDisbursementIDR q > 0, ''withdrawal_quotes_net_pos''),
     (qt_TotalFeeIDR q = qt_PlatformFeeIDR q + qt_ProviderFeeIDR q \<and>
        qt_AmountIDR q = qt_TotalFeeIDR q + qt_NetDisbursementIDR q, ''withdrawal_quotes_fee_eq''),
     (qt_Status q \<in> set [QuoteActive, QuoteConsumed, QuoteExpired, QuoteInvalidated], ''withdrawal_quotes_status_check'')]"

definition quote_key :: "Quote \<Rightarrow> string \<times> string \<times> string" where
  "quote_key q = (qt_MerchantID q, qt_PaymentMode q, qt_IdempotencyKeyHash q)"

definition InsertQuote :: "Quote \<Rightarrow> ('m withdrawal_db_scheme, Quote) op" where
  "InsertQuote q = (\<lambda>w.
     case bindE (quote_check q) (\<lambda>_. first_failure
       [(qt_ID q \<notin> qt_ID ` set (withdrawal_quotes w), ''withdrawal_quotes_pkey''),
        (quote_key q \<notin> quote_key ` set (withdrawal_quotes w), ''withdrawal_quotes_idempotency_uidx''),
        (qt_MerchantID q \<in> set (merchants w), ''withdrawal_quotes_merchant_id_fkey''),
        (qt_BankAccountID q \<in> ba_ID ` set (bank_accounts w), ''withdrawal_quotes_bank_account_id_fkey'')]) of
       Inl e \<Rightarrow> (Inl e, w)
     | Inr _ \<Rightarrow> (Inr q, w\<lparr>withdrawal_quotes := withdrawal_quotes w @ [q]\<rparr>))"

definition GetQuote :: "string \<Rightarrow> 'm withdrawal_db_scheme \<Rightarrow> Quote result" where
  "GetQuote i w = opt_row (find (\<lambda>q. qt_ID q = i) (withdrawal_quotes w))"

definition GetQuoteByIdempotency :: "string \<Rightarrow> string \<Rightarrow> string \<Rightarrow> 'm withdrawal_db_scheme \<Rightarrow> Quote result" where
  "GetQuoteByIdempotency m mode h w = opt_row (find (\<lambda>q. quote_key q = (m, mode, h)) (withdrawal_quotes w))"

definition MarkQuoteConsumed :: "string \<Rightarrow> string \<Rightarrow> time \<Rightarrow> ('m withdrawal_db_scheme, Quote) op" where
  "MarkQuoteConsumed i wid at = (\<lambda>w.
     case update_one (\<lambda>q. qt_ID q = i \<and> qt_Status q = QuoteActive)
       (\<lambda>q. q\<lparr>qt_Status := QuoteConsumed, qt_ConsumedWithdrawalID := Some wid, qt_UpdatedAt := at\<rparr>)
       (\<lambda>_. Inr ()) (withdrawal_quotes w) of
       Inl e \<Rightarrow> (Inl e, w)
     | Inr (q, rows) \<Rightarrow> (Inr q, w\<lparr>withdrawal_quotes := rows\<rparr>))"

definition invalidate_quotes :: "(Quote \<Rightarrow> bool) \<Rightarrow> time \<Rightarrow> ('m withdrawal_db_scheme, unit) op" where
  "invalidate_quotes sel at = (\<lambda>w. (Inr (), w\<lparr>withdrawal_quotes := map (\<lambda>q.
     if sel q \<and> qt_Status q = QuoteActive then q\<lparr>qt_Status := QuoteInvalidated, qt_UpdatedAt := at\<rparr> else q)
     (withdrawal_quotes w)\<rparr>))"

definition InvalidateQuotesForBank :: "string \<Rightarrow> time \<Rightarrow> ('m withdrawal_db_scheme, unit) op" where
  "InvalidateQuotesForBank b at = invalidate_quotes (\<lambda>q. qt_BankAccountID q = b) at"

definition InvalidateQuotesForMerchant :: "string \<Rightarrow> time \<Rightarrow> ('m withdrawal_db_scheme, unit) op" where
  "InvalidateQuotesForMerchant m at = invalidate_quotes (\<lambda>q. qt_MerchantID q = m) at"

subsection \<open>Withdrawals\<close>

definition withdrawal_check :: "Withdrawal \<Rightarrow> unit result" where
  "withdrawal_check x = first_failure
    [(wd_PaymentMode x \<in> set modes, ''withdrawals_mode_check''),
     (wd_Source x \<in> set [SourceStorefront, SourceQRISAPI, SourceMixed], ''withdrawals_source_check''),
     (wd_Currency x = CurrencyIDR, ''withdrawals_currency_check''),
     (wd_AmountIDR x > 0 \<and> wd_NetDisbursementIDR x > 0, ''withdrawals_amount_pos''),
     (wd_PlatformFeeIDR x \<ge> 0 \<and> wd_ProviderFeeQuotedIDR x \<ge> 0 \<and> wd_TotalFeeIDR x \<ge> 0 \<and>
        wd_RecoveryReceivableIDR x \<ge> 0, ''withdrawals_fees_nonneg''),
     (wd_Status x \<in> set withdrawal_statuses, ''withdrawals_status_check''),
     (wd_LookupAttempts x \<ge> 0, ''withdrawals_lookup_nonneg'')]"

definition withdrawal_key :: "Withdrawal \<Rightarrow> string \<times> string \<times> string" where
  "withdrawal_key x = (wd_MerchantID x, wd_PaymentMode x, wd_IdempotencyKeyHash x)"

definition provider_key :: "Withdrawal \<Rightarrow> string \<times> string \<times> string" where
  "provider_key x = (wd_Provider x, wd_AccountScope x, wd_PaymentMode x)"

definition provider_refs_free :: "Withdrawal \<Rightarrow> Withdrawal list \<Rightarrow> unit result" where
  "provider_refs_free x ws =
     (let other = (\<lambda>f y. wd_ID y \<noteq> wd_ID x \<and> provider_key y = provider_key x \<and> f y = f x \<and> f x \<noteq> (None :: string option)) in
      first_failure
       [(\<not> list_ex (other wd_ProviderDisbursementReference) ws, ''withdrawals_provider_disbursement_uidx''),
        (\<not> list_ex (other wd_ProviderExternalID) ws, ''withdrawals_provider_external_uidx'')])"

definition InsertWithdrawal :: "Withdrawal \<Rightarrow> ('m withdrawal_db_scheme, Withdrawal) op" where
  "InsertWithdrawal x = (\<lambda>w.
     case bindE (withdrawal_check x) (\<lambda>_. bindE (first_failure
       [(wd_ID x \<notin> wd_ID ` set (withdrawals w), ''withdrawals_pkey''),
        (wd_QuoteID x \<notin> wd_QuoteID ` set (withdrawals w), ''withdrawals_quote_uidx''),
        (withdrawal_key x \<notin> withdrawal_key ` set (withdrawals w), ''withdrawals_idempotency_uidx'')])
       (\<lambda>_. bindE (provider_refs_free x (withdrawals w)) (\<lambda>_. first_failure
       [(wd_MerchantID x \<in> set (merchants w), ''withdrawals_merchant_id_fkey''),
        (wd_QuoteID x \<in> qt_ID ` set (withdrawal_quotes w), ''withdrawals_quote_id_fkey'')]))) of
       Inl e \<Rightarrow> (Inl e, w)
     | Inr _ \<Rightarrow> (Inr (x\<lparr>wd_Allocations := []\<rparr>), w\<lparr>withdrawals := withdrawals w @ [x\<lparr>wd_Allocations := []\<rparr>]\<rparr>))"

definition GetWithdrawalRow :: "string \<Rightarrow> 'm withdrawal_db_scheme \<Rightarrow> Withdrawal result" where
  "GetWithdrawalRow i w = opt_row (find (\<lambda>x. wd_ID x = i) (withdrawals w))"

definition LockWithdrawal :: "string \<Rightarrow> 'm withdrawal_db_scheme \<Rightarrow> Withdrawal result" where
  "LockWithdrawal i w = opt_row (find (\<lambda>x. wd_ID x = i) (withdrawals w))"

definition GetWithdrawalByIdempotency ::
    "string \<Rightarrow> string \<Rightarrow> string \<Rightarrow> 'm withdrawal_db_scheme \<Rightarrow> Withdrawal result" where
  "GetWithdrawalByIdempotency m mode h w = opt_row (find (\<lambda>x. withdrawal_key x = (m, mode, h)) (withdrawals w))"

definition GetWithdrawalByProviderRef ::
    "string \<Rightarrow> string \<Rightarrow> string \<Rightarrow> string \<Rightarrow> 'm withdrawal_db_scheme \<Rightarrow> Withdrawal result" where
  "GetWithdrawalByProviderRef provider scope mode ref w =
     opt_row (find (\<lambda>x. provider_key x = (provider, scope, mode) \<and> wd_ProviderDisbursementReference x = Some ref)
       (withdrawals w))"

text \<open>\<open>WithdrawalSave\<close> writes the mutable columns only.\<close>

definition saved_columns :: "Withdrawal \<Rightarrow> Withdrawal \<Rightarrow> Withdrawal" where
  "saved_columns x r = r\<lparr>wd_Status := wd_Status x,
     wd_ReserveJournalID := wd_ReserveJournalID x, wd_ReleaseJournalID := wd_ReleaseJournalID x,
     wd_CompleteJournalID := wd_CompleteJournalID x, wd_FeeSettleJournalID := wd_FeeSettleJournalID x,
     wd_RecaptureJournalID := wd_RecaptureJournalID x,
     wd_ProviderDisbursementReference := wd_ProviderDisbursementReference x,
     wd_ProviderExternalID := wd_ProviderExternalID x, wd_ProviderFeeActualIDR := wd_ProviderFeeActualIDR x,
     wd_ReserveReleased := wd_ReserveReleased x, wd_ReviewReason := wd_ReviewReason x,
     wd_RejectReason := wd_RejectReason x, wd_HoldReason := wd_HoldReason x, wd_ReviewedBy := wd_ReviewedBy x,
     wd_ReviewedAt := wd_ReviewedAt x, wd_SubmittedAt := wd_SubmittedAt x, wd_ProcessingAt := wd_ProcessingAt x,
     wd_CompletedAt := wd_CompletedAt x, wd_FailedAt := wd_FailedAt x,
     wd_UnknownOutcomeAt := wd_UnknownOutcomeAt x, wd_NextLookupAt := wd_NextLookupAt x,
     wd_LookupAttempts := wd_LookupAttempts x, wd_RecoveryReceivableIDR := wd_RecoveryReceivableIDR x,
     wd_WithdrawalFrozen := wd_WithdrawalFrozen x, wd_UpdatedAt := wd_UpdatedAt x\<rparr>"

definition SaveWithdrawal :: "Withdrawal \<Rightarrow> ('m withdrawal_db_scheme, Withdrawal) op" where
  "SaveWithdrawal x = (\<lambda>w.
     case update_one (\<lambda>r. wd_ID r = wd_ID x) (saved_columns x)
       (\<lambda>r. bindE (withdrawal_check r) (\<lambda>_. provider_refs_free r (withdrawals w))) (withdrawals w) of
       Inl e \<Rightarrow> (Inl e, w)
     | Inr (r, rows) \<Rightarrow> (Inr r, w\<lparr>withdrawals := rows\<rparr>))"

definition page_of :: "time option \<Rightarrow> string option \<Rightarrow> int \<Rightarrow> Withdrawal list \<Rightarrow> Withdrawal list" where
  "page_of cursorAt cursorID limit rows =
     take (nat (if limit \<le> 0 then 50 else limit))
       (rev (sort_key (\<lambda>x. (wd_CreatedAt x, wd_ID x))
         (filter (\<lambda>x. case cursorAt of None \<Rightarrow> True
            | Some t \<Rightarrow> wd_CreatedAt x < t \<or> (wd_CreatedAt x = t \<and>
                (case cursorID of None \<Rightarrow> False | Some i \<Rightarrow> wd_ID x < i))) rows)))"

definition ListWithdrawalsByMerchant ::
    "string \<Rightarrow> string \<Rightarrow> time option \<Rightarrow> string option \<Rightarrow> int \<Rightarrow> 'm withdrawal_db_scheme \<Rightarrow> Withdrawal list" where
  "ListWithdrawalsByMerchant m mode cursorAt cursorID limit w =
     page_of cursorAt cursorID limit (filter (\<lambda>x. wd_MerchantID x = m \<and> wd_PaymentMode x = mode) (withdrawals w))"

definition ListWithdrawalsAdmin ::
    "string option \<Rightarrow> time option \<Rightarrow> string option \<Rightarrow> int \<Rightarrow> 'm withdrawal_db_scheme \<Rightarrow> Withdrawal list" where
  "ListWithdrawalsAdmin status cursorAt cursorID limit w =
     page_of cursorAt cursorID limit
       (filter (\<lambda>x. case status of None \<Rightarrow> True | Some s \<Rightarrow> wd_Status x = s) (withdrawals w))"

definition ListUnknownDue :: "time \<Rightarrow> int \<Rightarrow> 'm withdrawal_db_scheme \<Rightarrow> Withdrawal list" where
  "ListUnknownDue asOf limit w =
     take (nat (if limit \<le> 0 then 50 else limit))
       (sort_key (\<lambda>x. case wd_NextLookupAt x of None \<Rightarrow> 0 | Some t \<Rightarrow> t)
         (filter (\<lambda>x. wd_Status x = StatusUnknownOutcome \<and>
            (case wd_NextLookupAt x of None \<Rightarrow> False | Some t \<Rightarrow> t \<le> asOf)) (withdrawals w)))"

subsection \<open>Allocations and settings\<close>

definition allocation_check :: "Allocation \<Rightarrow> unit result" where
  "allocation_check a = first_failure
    [(al_Source a \<in> set [SourceStorefront, SourceQRISAPI], ''withdrawal_allocations_source_check''),
     (al_AmountIDR a > 0, ''withdrawal_allocations_amount_pos''),
     (al_LineNo a > 0, ''withdrawal_allocations_line_pos'')]"

definition InsertAllocation :: "Allocation \<Rightarrow> ('m withdrawal_db_scheme, Allocation) op" where
  "InsertAllocation a = (\<lambda>w.
     case bindE (allocation_check a) (\<lambda>_. first_failure
       [(al_ID a \<notin> al_ID ` set (allocations w), ''withdrawal_allocations_pkey''),
        (\<not> list_ex (\<lambda>b. al_WithdrawalID b = al_WithdrawalID a \<and> al_LineNo b = al_LineNo a) (allocations w),
           ''withdrawal_allocations_line_uidx''),
        (al_WithdrawalID a \<in> wd_ID ` set (withdrawals w), ''withdrawal_allocations_withdrawal_id_fkey'')]) of
       Inl e \<Rightarrow> (Inl e, w)
     | Inr _ \<Rightarrow> (Inr a, w\<lparr>allocations := allocations w @ [a]\<rparr>))"

definition ListAllocations :: "string \<Rightarrow> 'm withdrawal_db_scheme \<Rightarrow> Allocation list" where
  "ListAllocations wid w = sort_key al_LineNo (filter (\<lambda>a. al_WithdrawalID a = wid) (allocations w))"

definition SchemaMetaInt :: "string \<Rightarrow> i64 \<Rightarrow> 'm base_db_scheme \<Rightarrow> i64" where
  "SchemaMetaInt key fallback w =
     (case schema_meta w key of None \<Rightarrow> fallback
      | Some v \<Rightarrow> (case parse_int64 v of None \<Rightarrow> fallback | Some n \<Rightarrow> n))"

definition SchemaMetaBool :: "string \<Rightarrow> bool \<Rightarrow> 'm base_db_scheme \<Rightarrow> bool" where
  "SchemaMetaBool key fallback w =
     (case schema_meta w key of None \<Rightarrow> fallback
      | Some v \<Rightarrow> if v \<in> set [''true'', ''1'', ''TRUE'', ''yes''] then True
          else if v \<in> set [''false'', ''0'', ''FALSE'', ''no''] then False else fallback)"

end
