(* ===== verification/Withdrawal_Service.thy ===== *)
theory Withdrawal_Service
  imports Withdrawal_Store Digest
begin

text \<open>
  The withdrawal service (\<open>internal/application/withdrawal_service.go\<close>): bank accounts, quotes, the
  reserve of a request, the disbursement at the provider and the resolution of its outcome.

  Parameters of the model, carried in the service record: the disbursement provider (a function of
  the calls made to it so far, the trace \<open>payouts\<close>), the AEAD cipher, and the emergency switch. The
  ledger of a service that posts is wired (\<open>ws_Ledger\<close>); where the code would dereference a missing
  ledger there is no branch. A handler whose transaction has committed keeps it when a later step
  fails, as the code does.
\<close>

subsection \<open>The service and its parameters\<close>

record DisbursementQuoteInput =
  dqi_AmountIDR :: i64
  dqi_Currency :: string
  dqi_BankCode :: string
  dqi_AccountScope :: string
  dqi_PaymentMode :: string
  dqi_IdempotencyKey :: string

record DisbursementQuote =
  dq_ProviderFeeIDR :: i64
  dq_ProviderReference :: string
  dq_Evidence :: string

record CreateDisbursementResult =
  cr_ProviderReference :: string
  cr_ExternalID :: string
  cr_Status :: string
  cr_NetAmountIDR :: i64
  cr_ProviderFeeIDR :: "i64 option"

record ProviderDisbursement =
  pd_ProviderReference :: string
  pd_ExternalID :: string
  pd_Status :: string
  pd_NetAmountIDR :: i64
  pd_Currency :: string
  pd_ProviderFeeIDR :: "i64 option"

record DisbursementProvider =
  dp_Quote :: "DisbursementQuoteInput \<Rightarrow> DisbursementQuote result"
  dp_Create :: "CreateDisbursementInput list \<Rightarrow> CreateDisbursementInput \<Rightarrow> CreateDisbursementResult result"
  dp_Get :: "CreateDisbursementInput list \<Rightarrow> string \<Rightarrow> ProviderDisbursement result"
  dp_ByExternal :: "(CreateDisbursementInput list \<Rightarrow> string \<Rightarrow> ProviderDisbursement option) option"

record WithdrawalService =
  ws_Ledger :: bool
  ws_Fees :: FeeService
  ws_Disburse :: "DisbursementProvider option"
  ws_EncryptionKey :: string
  ws_AccountScope :: string
  ws_DefaultPaymentMode :: string
  ws_ForceAutoApprove :: "bool option"
  ws_EmergencyDisabled :: "(string \<Rightarrow> bool result) option"
  ws_encrypt :: "string \<Rightarrow> string \<Rightarrow> (string \<times> string) result"
  ws_decrypt :: "string \<Rightarrow> string \<Rightarrow> string result"

definition wd_mode :: "WithdrawalService \<Rightarrow> string \<Rightarrow> string" where
  "wd_mode s raw =
    (let m = NormalizePaymentMode raw in
     if m = [] then (if ws_DefaultPaymentMode s \<noteq> [] then ws_DefaultPaymentMode s else ModeSandbox) else m)"

definition wd_scope :: "WithdrawalService \<Rightarrow> string" where
  "wd_scope s = (if ws_AccountScope s \<noteq> [] then ws_AccountScope s else ''xendit-primary'')"

definition hashKey :: "string \<Rightarrow> string" where
  "hashKey raw = sha256_hex raw"

definition resolveMerchant :: "string \<Rightarrow> 'm withdrawal_db_scheme \<Rightarrow> string result" where
  "resolveMerchant storeID w =
    (case get_store_merchant storeID w of
       Inr (_, m) \<Rightarrow> Inr m
     | Inl err \<Rightarrow> if is_not_found err then Inl (apperr_not_found ''RESOURCE_NOT_FOUND'' ''Store not found'') else Inl err)"

definition emergency_off :: "WithdrawalService \<Rightarrow> bool" where
  "emergency_off s = (case ws_EmergencyDisabled s of None \<Rightarrow> False
     | Some f \<Rightarrow> (case f ''WITHDRAWALS'' of Inr off \<Rightarrow> off | Inl _ \<Rightarrow> False))"

text \<open>\<open>err.Error()\<close>, and whether \<open>errors.As\<close> finds a provider error of unknown outcome in the chain.\<close>

fun error_text :: "go_error \<Rightarrow> string" where
  "error_text (AppError k code message None) = code @ '': '' @ message"
| "error_text (AppError k code message (Some c)) = code @ '': '' @ message @ '': '' @ error_text c"
| "error_text (PlainError m) = m"
| "error_text ErrNoRows = ''no rows in result set''"
| "error_text (PgError m) = m"
| "error_text (ProviderError u m) = m"

fun unknown_outcome :: "go_error \<Rightarrow> bool" where
  "unknown_outcome (AppError k code message (Some c)) = unknown_outcome c"
| "unknown_outcome (ProviderError u m) = u"
| "unknown_outcome _ = False"

subsection \<open>Bank accounts\<close>

definition bank_not_found :: go_error where
  "bank_not_found = apperr_not_found ''RESOURCE_NOT_FOUND'' ''Bank account not found''"

definition own_bank :: "string \<Rightarrow> string \<Rightarrow> 'm withdrawal_db_scheme \<Rightarrow> BankAccount result" where
  "own_bank merchantID bankID w =
    (case GetBankAccount bankID w of
       Inr acc \<Rightarrow> if ba_MerchantID acc = merchantID then Inr acc else Inl bank_not_found
     | Inl _ \<Rightarrow> Inl bank_not_found)"

definition CreateBankAccount ::
    "WithdrawalService \<Rightarrow> string \<Rightarrow> string \<Rightarrow> string \<Rightarrow> string \<Rightarrow> string \<Rightarrow> bool \<Rightarrow> ('m withdrawal_db_scheme, BankAccount) op" where
  "CreateBankAccount s storeID bankCode bankName holder accountNumber makePrimary = with_state (\<lambda>w.
     bindS (liftE (resolveMerchant storeID w)) (\<lambda>merchantID.
     let digits = NormalizeAccountNumber accountNumber in
     if \<not> ValidAccountNumber digits then throw (apperr_validation ''VALIDATION_FAILED'' ''Invalid bank account number'')
     else if trim_space bankCode = [] \<or> trim_space holder = []
       then throw (apperr_validation ''VALIDATION_FAILED'' ''bankCode and accountHolderName required'')
     else if ws_EncryptionKey s = [] then throw (apperr_internal ''INTERNAL_ERROR'' ''Encryption key unavailable'')
     else case ws_encrypt s (ws_EncryptionKey s) digits of
       Inl _ \<Rightarrow> throw (apperr_internal ''INTERNAL_ERROR'' ''Encrypt failed'')
     | Inr (kv, cipher) \<Rightarrow> bindS new_id (\<lambda>i. InsertBankAccount
         \<lparr>ba_ID = ''bank_'' @ i, ba_MerchantID = merchantID, ba_BankCode = to_upper (trim_space bankCode),
          ba_BankName = trim_space bankName, ba_AccountHolderName = trim_space holder,
          ba_AccountNumberCipher = cipher, ba_EncryptionKeyVersion = kv,
          ba_AccountNumberMasked = MaskAccountNumber digits, ba_AccountNumberLast4 = Last4 digits,
          ba_Status = BankPendingVerification, ba_IsPrimary = False, ba_Version = 1,
          ba_VerifiedAt = None, ba_ArchivedAt = None, ba_CreatedAt = clock w, ba_UpdatedAt = clock w\<rparr>)))"

definition SellerBankAccounts :: "string \<Rightarrow> 'm withdrawal_db_scheme \<Rightarrow> BankAccount list result" where
  "SellerBankAccounts storeID w = bindE (resolveMerchant storeID w) (\<lambda>m. Inr (ListBankAccounts m w))"

definition VerifyBankAccount :: "string \<Rightarrow> string \<Rightarrow> ('m withdrawal_db_scheme, BankAccount) op" where
  "VerifyBankAccount storeID bankID = with_state (\<lambda>w.
     bindS (liftE (resolveMerchant storeID w)) (\<lambda>merchantID.
     case GetBankAccount bankID w of
       Inl err \<Rightarrow> throw (if is_not_found err then bank_not_found else err)
     | Inr acc \<Rightarrow>
       if ba_MerchantID acc \<noteq> merchantID then throw bank_not_found
       else if ba_Status acc = BankVerified then ret acc
       else if ba_Status acc \<noteq> BankPendingVerification
         then throw (apperr_conflict ''CONFLICT'' ''Bank account cannot be verified'')
       else bindS (SetBankVerified bankID (clock w)) (\<lambda>verified. with_state (\<lambda>w1.
         if CountVerifiedBanks merchantID w1 = 1 \<or> \<not> ba_IsPrimary verified
         then bindS (try_op (ClearPrimary merchantID (clock w))) (\<lambda>_. MakePrimary bankID merchantID (clock w))
         else ret verified))))"

definition MakePrimaryBank :: "string \<Rightarrow> string \<Rightarrow> ('m withdrawal_db_scheme, BankAccount) op" where
  "MakePrimaryBank storeID bankID = with_state (\<lambda>w.
     bindS (liftE (resolveMerchant storeID w)) (\<lambda>merchantID.
     bindS (liftE (own_bank merchantID bankID w)) (\<lambda>acc.
     if ba_Status acc \<noteq> BankVerified then throw ErrBankNotVerified
     else bindS (ClearPrimary merchantID (clock w)) (\<lambda>_.
       bindS (MakePrimary bankID merchantID (clock w)) (\<lambda>primary.
       bindS (try_op (InvalidateQuotesForMerchant merchantID (clock w))) (\<lambda>_. ret primary))))))"

definition renumbered ::
    "WithdrawalService \<Rightarrow> string \<Rightarrow> BankAccount \<Rightarrow> BankAccount result" where
  "renumbered s accountNumber acc =
    (let digits = NormalizeAccountNumber accountNumber in
     if accountNumber = [] then Inr acc
     else if \<not> ValidAccountNumber digits then Inl (apperr_validation ''VALIDATION_FAILED'' ''Invalid bank account number'')
     else case ws_encrypt s (ws_EncryptionKey s) digits of
       Inl _ \<Rightarrow> Inl (apperr_internal ''INTERNAL_ERROR'' ''Encrypt failed'')
     | Inr (kv, cipher) \<Rightarrow> Inr (acc\<lparr>ba_AccountNumberCipher := cipher, ba_EncryptionKeyVersion := kv,
         ba_AccountNumberMasked := MaskAccountNumber digits, ba_AccountNumberLast4 := Last4 digits\<rparr>))"

definition UpdateBankAccount ::
    "WithdrawalService \<Rightarrow> string \<Rightarrow> string \<Rightarrow> i64 \<Rightarrow> string \<Rightarrow> string \<Rightarrow> string \<Rightarrow> string \<Rightarrow> ('m withdrawal_db_scheme, BankAccount) op" where
  "UpdateBankAccount s storeID bankID expectedVersion bankCode bankName holder accountNumber = with_state (\<lambda>w.
     bindS (liftE (resolveMerchant storeID w)) (\<lambda>merchantID.
     bindS (liftE (own_bank merchantID bankID w)) (\<lambda>acc.
     if expectedVersion > 0 \<and> ba_Version acc \<noteq> expectedVersion then throw ErrBankVersionConflict
     else bindS (liftE (renumbered s accountNumber acc)) (\<lambda>acc1.
       let now = clock w;
           acc2 = acc1\<lparr>ba_BankCode := (if bankCode \<noteq> [] then to_upper (trim_space bankCode) else ba_BankCode acc1),
              ba_BankName := (if bankName \<noteq> [] then trim_space bankName else ba_BankName acc1),
              ba_AccountHolderName := (if holder \<noteq> [] then trim_space holder else ba_AccountHolderName acc1),
              ba_UpdatedAt := now\<rparr>
       in bindS (try_op (UpdateBankRow acc2 (ba_Version acc2))) (\<lambda>res. case res of
           Inl err \<Rightarrow> throw (if is_not_found err then ErrBankVersionConflict else err)
         | Inr updated \<Rightarrow>
             bindS (try_op (UpsertWithdrawalLock \<lparr>wl_MerchantID = merchantID,
                 wl_LockedUntil = now + wrap64 (seconds (SchemaMetaInt ''bank_change_lock_seconds'' DefaultBankChangeLockSeconds w)),
                 wl_Reason = ''BANK_CHANGE'', wl_BankAccountID = Some (ba_ID updated), wl_CreatedAt = now, wl_UpdatedAt = now\<rparr>)) (\<lambda>_.
             bindS (try_op (InvalidateQuotesForBank bankID now)) (\<lambda>_.
             bindS (try_op (InvalidateQuotesForMerchant merchantID now)) (\<lambda>_. ret updated))))))))"

definition ArchiveBankAccount :: "string \<Rightarrow> string \<Rightarrow> ('m withdrawal_db_scheme, BankAccount) op" where
  "ArchiveBankAccount storeID bankID = with_state (\<lambda>w.
     bindS (liftE (resolveMerchant storeID w)) (\<lambda>merchantID.
     bindS (liftE (own_bank merchantID bankID w)) (\<lambda>acc.
     if CountActiveWithdrawalsForBank bankID w > 0 \<or> CountActiveQuotesForBank bankID w > 0 then throw ErrBankInUse
     else if ba_IsPrimary acc \<and> ba_Status acc = BankVerified \<and> CountVerifiedBanks merchantID w \<le> 1
       then throw ErrBankPrimaryRequired
     else ArchiveBankRow bankID (clock w))))"

definition SellerWithdrawalLock :: "string \<Rightarrow> 'm withdrawal_db_scheme \<Rightarrow> (WithdrawalLock option \<times> bool) result" where
  "SellerWithdrawalLock storeID w = bindE (resolveMerchant storeID w) (\<lambda>m.
     case GetWithdrawalLock m w of
       Inl err \<Rightarrow> if is_not_found err then Inr (None, False) else Inl err
     | Inr lock \<Rightarrow> Inr (Some lock, IsLocked lock (clock w)))"
subsection \<open>Quotes\<close>

definition merchantFrozen :: "WithdrawalService \<Rightarrow> string \<Rightarrow> 'm withdrawal_db_scheme \<Rightarrow> bool" where
  "merchantFrozen s m w \<longleftrightarrow> list_ex wd_WithdrawalFrozen (ListWithdrawalsByMerchant m (wd_mode s []) None None 20 w)"

definition merchant_locked :: "string \<Rightarrow> 'm withdrawal_db_scheme \<Rightarrow> bool" where
  "merchant_locked m w = (case GetWithdrawalLock m w of Inr lock \<Rightarrow> IsLocked lock (clock w) | Inl _ \<Rightarrow> False)"

definition quote_request_hash :: "i64 \<Rightarrow> string \<Rightarrow> string" where
  "quote_request_hash amount bankID = hashKey (show_int amount @ ''|'' @ bankID)"

text \<open>A replay of the key: the same request answers with the stored quote, another one is refused.\<close>

definition quote_replay :: "Quote \<Rightarrow> string \<Rightarrow> Quote result" where
  "quote_replay existing reqHash =
    (if qt_RequestHash existing \<noteq> reqHash
     then Inl (apperr_conflict ''IDEMPOTENCY_CONFLICT'' ''Idempotency-Key reused with different request'')
     else Inr existing)"

definition provider_fee_quote ::
    "WithdrawalService \<Rightarrow> i64 \<Rightarrow> string \<Rightarrow> string \<Rightarrow> string \<Rightarrow> 'm withdrawal_db_scheme \<Rightarrow> i64 \<times> string option \<times> string" where
  "provider_fee_quote s amount bankCode mode key w =
    (let fallback = SchemaMetaInt ''withdrawal_default_provider_fee_idr'' DefaultProviderFeeIDR w in
     case ws_Disburse s of
       None \<Rightarrow> (fallback, None, ''fallback-schedule-v1'')
     | Some p \<Rightarrow>
        (case dp_Quote p \<lparr>dqi_AmountIDR = amount, dqi_Currency = ''IDR'', dqi_BankCode = bankCode,
            dqi_AccountScope = wd_scope s, dqi_PaymentMode = mode, dqi_IdempotencyKey = key\<rparr> of
           Inl _ \<Rightarrow> (fallback, None, ''versioned-fallback-schedule'')
         | Inr dq \<Rightarrow> (dq_ProviderFeeIDR dq,
              if dq_ProviderReference dq \<noteq> [] then Some (dq_ProviderReference dq) else None,
              if dq_Evidence dq \<noteq> [] then dq_Evidence dq else ''fallback-schedule-v1'')))"

definition covers_amount :: "WithdrawalService \<Rightarrow> string \<Rightarrow> string \<Rightarrow> i64 \<Rightarrow> 'm withdrawal_db_scheme \<Rightarrow> bool" where
  "covers_amount s m mode amount w \<longleftrightarrow> \<not> ws_Ledger s \<or>
     ((case PreviewWithdrawalAllocation m mode amount w of Inl _ \<Rightarrow> False | Inr _ \<Rightarrow> True) \<and>
      b_AvailableIDR (GetBalance m mode w) \<ge> amount)"

definition quote_guards ::
    "WithdrawalService \<Rightarrow> string \<Rightarrow> string \<Rightarrow> string \<Rightarrow> 'm withdrawal_db_scheme \<Rightarrow> string result" where
  "quote_guards s storeID key bankAccountID w =
    (if emergency_off s then Inl (apperr_forbidden ''FORBIDDEN'' ''Withdrawals are temporarily disabled'')
     else if trim_space key = [] then Inl (apperr_validation ''VALIDATION_FAILED'' ''Idempotency-Key is required'')
     else if trim_space bankAccountID = [] then Inl (apperr_validation ''VALIDATION_FAILED'' ''bankAccountId is required'')
     else bindE (resolveMerchant storeID w) (\<lambda>m.
       if merchantFrozen s m w then Inl ErrFrozen
       else if merchant_locked m w then Inl ErrLocked
       else Inr m))"

definition new_quote ::
    "string \<Rightarrow> string \<Rightarrow> string \<Rightarrow> string \<Rightarrow> BankAccount \<Rightarrow> WithdrawalFeeResult \<Rightarrow> FeePolicy \<Rightarrow> string option \<Rightarrow> string option \<Rightarrow>
     string \<Rightarrow> string \<Rightarrow> string \<Rightarrow> time \<Rightarrow> i64 \<Rightarrow> Quote" where
  "new_quote i m storeID mode bank res policy snapID provRef evidence keyHash reqHash now ttl =
    \<lparr>qt_ID = ''wq_'' @ i, qt_MerchantID = m, qt_StoreID = Some storeID, qt_PaymentMode = mode,
     qt_AmountIDR = wf_AmountIDR res, qt_PlatformFeeIDR = wf_PlatformFeeIDR res,
     qt_ProviderFeeIDR = wf_ProviderFeeIDR res, qt_TotalFeeIDR = wf_TotalFeeIDR res,
     qt_NetDisbursementIDR = wf_NetDisbursementIDR res, qt_Currency = CurrencyIDR,
     qt_PolicyVersionID = fp_VersionID policy, qt_FeeSnapshotID = snapID, qt_BankAccountID = ba_ID bank,
     qt_BankAccountVersion = ba_Version bank, qt_BankCode = ba_BankCode bank, qt_BankName = ba_BankName bank,
     qt_AccountHolderName = ba_AccountHolderName bank, qt_AccountNumberMasked = ba_AccountNumberMasked bank,
     qt_ProviderQuoteReference = provRef, qt_ProviderQuoteEvidence = evidence, qt_Status = QuoteActive,
     qt_IdempotencyKeyHash = keyHash, qt_RequestHash = reqHash, qt_ExpiresAt = now + wrap64 (seconds ttl),
     qt_ConsumedWithdrawalID = None, qt_CreatedAt = now, qt_UpdatedAt = now\<rparr>"

definition fee_snapshot_id ::
    "WithdrawalService \<Rightarrow> WithdrawalFeeResult \<Rightarrow> FeePolicy \<Rightarrow> ('m withdrawal_db_scheme, string option) op" where
  "fee_snapshot_id s res policy =
    (if fs_Store (ws_Fees s)
     then bindS (try_op (SnapshotWithdrawal (ws_Fees s) res policy)) (\<lambda>r.
       case r of Inr snap \<Rightarrow> ret (if sn_ID snap \<noteq> [] then Some (sn_ID snap) else None) | Inl _ \<Rightarrow> ret None)
     else ret None)"

definition CreateQuote ::
    "WithdrawalService \<Rightarrow> string \<Rightarrow> string \<Rightarrow> i64 \<Rightarrow> string \<Rightarrow> string \<Rightarrow> ('m withdrawal_db_scheme, Quote) op" where
  "CreateQuote s storeID key amount bankAccountID paymentMode = with_state (\<lambda>w.
     bindS (liftE (quote_guards s storeID key bankAccountID w)) (\<lambda>m.
     let mode = wd_mode s paymentMode; keyHash = hashKey key; reqHash = quote_request_hash amount bankAccountID in
     case GetQuoteByIdempotency m mode keyHash w of
       Inr existing \<Rightarrow> liftE (quote_replay existing reqHash)
     | Inl gerr \<Rightarrow>
       if \<not> is_not_found gerr then throw gerr
       else bindS (liftE (own_bank m bankAccountID w)) (\<lambda>bank.
         if ba_Status bank \<noteq> BankVerified then throw ErrBankNotVerified
         else case provider_fee_quote s amount (ba_BankCode bank) mode key w of (fee, provRef, evidence) \<Rightarrow>
           bindS (liftE (CalculateWithdrawal (ws_Fees s) amount fee w)) (\<lambda>(res, policy).
           if \<not> covers_amount s m mode amount w then throw ErrInsufficient
           else bindS (fee_snapshot_id s res policy) (\<lambda>snapID. bindS new_id (\<lambda>i.
             bindS (try_op (InsertQuote (new_quote i m storeID mode bank res policy snapID provRef evidence keyHash reqHash
                 (clock w) (SchemaMetaInt ''withdrawal_quote_ttl_seconds'' DefaultQuoteTTLSeconds w))))
               (\<lambda>ins. with_state (\<lambda>w1. case ins of
                   Inr created \<Rightarrow> ret created
                 | Inl err \<Rightarrow> (case GetQuoteByIdempotency m mode keyHash w1 of
                     Inr existing \<Rightarrow> liftE (quote_replay existing reqHash)
                   | Inl _ \<Rightarrow> throw err)))))))))"

subsection \<open>The request\<close>

definition withAllocations :: "Withdrawal \<Rightarrow> 'm withdrawal_db_scheme \<Rightarrow> Withdrawal" where
  "withAllocations x w = x\<lparr>wd_Allocations := ListAllocations (wd_ID x) w\<rparr>"

definition autoApprove :: "WithdrawalService \<Rightarrow> 'm withdrawal_db_scheme \<Rightarrow> bool" where
  "autoApprove s w = (case ws_ForceAutoApprove s of Some b \<Rightarrow> b
     | None \<Rightarrow> SchemaMetaBool ''withdrawal_auto_approve'' True w)"

text \<open>The parameters every withdrawal journal shares.\<close>

definition wd_journal ::
    "string \<Rightarrow> string \<Rightarrow> string \<Rightarrow> string \<Rightarrow> string \<Rightarrow> string \<Rightarrow> string \<Rightarrow> string \<Rightarrow> string \<Rightarrow> i64 option \<Rightarrow> time \<Rightarrow>
     EntryLeg list \<Rightarrow> PostJournalParams" where
  "wd_journal jid m storeID mode source wid template jref desc net now legs =
    \<lparr>pj_JournalID = jid, pj_MerchantID = m, pj_StoreID = storeID, pj_PaymentMode = mode, pj_Source = source,
     pj_TemplateCode = template, pj_ReferenceType = ''WITHDRAWAL'', pj_ReferenceID = wid,
     pj_JournalReference = jref, pj_IdempotencyKey = jref, pj_Description = desc @ wid,
     pj_PaymentIntentID = [], pj_OrderID = [], pj_SettlementLotID = [], pj_FeeSnapshotID = [],
     pj_GrossIDR = None, pj_FeePercentIDR = None, pj_FeeFixedIDR = None, pj_MerchantNetIDR = net,
     pj_PostedAt = now, pj_Legs = legs\<rparr>"

text \<open>The guards on the quote, the lock, the freeze and the bank account.\<close>

definition usable_quote :: "WithdrawalService \<Rightarrow> string \<Rightarrow> string \<Rightarrow> string \<Rightarrow> 'm withdrawal_db_scheme \<Rightarrow> Quote result" where
  "usable_quote s m mode quoteID w =
    (if merchantFrozen s m w then Inl ErrFrozen
     else if merchant_locked m w then Inl ErrLocked
     else case GetQuote quoteID w of
       Inl err \<Rightarrow> Inl (if is_not_found err then ErrQuoteInvalid else err)
     | Inr quote \<Rightarrow>
       if qt_MerchantID quote \<noteq> m \<or> qt_PaymentMode quote \<noteq> mode then Inl ErrQuoteInvalid
       else if qt_Status quote = QuoteConsumed then Inl ErrQuoteConsumed
       else if qt_Status quote \<noteq> QuoteActive then Inl ErrQuoteInvalid
       else if \<not> qt_ExpiresAt quote > clock w then Inl ErrQuoteExpired
       else case GetBankAccount (qt_BankAccountID quote) w of
           Inl _ \<Rightarrow> Inl ErrQuoteInvalid
         | Inr bank \<Rightarrow> if ba_Version bank \<noteq> qt_BankAccountVersion quote \<or> ba_Status bank \<noteq> BankVerified
             then Inl ErrQuoteInvalid else Inr quote)"

definition new_withdrawal ::
    "WithdrawalService \<Rightarrow> string \<Rightarrow> string \<Rightarrow> Quote \<Rightarrow> string \<Rightarrow> string \<Rightarrow> string \<Rightarrow> bool \<Rightarrow> string \<Rightarrow> string \<Rightarrow> time \<Rightarrow> Withdrawal" where
  "new_withdrawal s m storeID quote wid jid mode auto source keyHash now =
    \<lparr>wd_ID = wid, wd_MerchantID = m, wd_StoreID = Some storeID, wd_PaymentMode = mode, wd_Source = source,
     wd_QuoteID = qt_ID quote, wd_AmountIDR = qt_AmountIDR quote, wd_PlatformFeeIDR = qt_PlatformFeeIDR quote,
     wd_ProviderFeeQuotedIDR = qt_ProviderFeeIDR quote, wd_ProviderFeeActualIDR = None,
     wd_TotalFeeIDR = qt_TotalFeeIDR quote, wd_NetDisbursementIDR = qt_NetDisbursementIDR quote,
     wd_Currency = CurrencyIDR, wd_PolicyVersionID = qt_PolicyVersionID quote,
     wd_FeeSnapshotID = qt_FeeSnapshotID quote, wd_BankAccountID = qt_BankAccountID quote,
     wd_BankAccountVersion = qt_BankAccountVersion quote, wd_BankCode = qt_BankCode quote,
     wd_BankName = qt_BankName quote, wd_AccountHolderName = qt_AccountHolderName quote,
     wd_AccountNumberMasked = qt_AccountNumberMasked quote,
     wd_Status = (if auto then StatusApproved else StatusUnderReview), wd_Provider = ''xendit'',
     wd_AccountScope = wd_scope s, wd_ProviderDisbursementReference = None, wd_ProviderExternalID = None,
     wd_ReserveJournalID = Some jid, wd_ReleaseJournalID = None, wd_CompleteJournalID = None,
     wd_FeeSettleJournalID = None, wd_RecaptureJournalID = None, wd_ReserveReleased = False,
     wd_ReviewReason = (if auto then ''auto_approve_local'' else []), wd_RejectReason = [], wd_HoldReason = [],
     wd_ReviewedBy = None, wd_ReviewedAt = (if auto then Some now else None), wd_SubmittedAt = Some now,
     wd_ProcessingAt = None, wd_CompletedAt = None, wd_FailedAt = None, wd_UnknownOutcomeAt = None,
     wd_NextLookupAt = None, wd_LookupAttempts = 0, wd_IdempotencyKeyHash = keyHash,
     wd_RecoveryReceivableIDR = 0, wd_WithdrawalFrozen = False, wd_CreatedAt = now, wd_UpdatedAt = now,
     wd_Allocations = []\<rparr>"

text \<open>
  The allocation rows: the code drops their errors, but a failed one dooms the transaction, so the
  commit fails after the loop; the loop itself goes on drawing ids (\<open>ok\<close>: no statement failed yet).
\<close>

fun insert_allocations ::
    "string \<Rightarrow> time \<Rightarrow> bool \<Rightarrow> int \<Rightarrow> AllocationSlice list \<Rightarrow> ('m withdrawal_db_scheme, bool) op" where
  "insert_allocations wid now ok line [] = ret ok"
| "insert_allocations wid now ok line (sl # sls) = bindS new_id (\<lambda>i.
     bindS (if ok then try_op (InsertAllocation \<lparr>al_ID = ''wa_'' @ i, al_WithdrawalID = wid,
          al_SettlementLotID = sl_SettlementLotID sl, al_Source = sl_Source sl, al_AmountIDR = sl_AmountIDR sl,
          al_AvailableAt = sl_AvailableAt sl, al_LineNo = line, al_CreatedAt = now\<rparr>)
        else ret (Inl (PgError ''current transaction is aborted''))) (\<lambda>res.
     insert_allocations wid now (ok \<and> (case res of Inl _ \<Rightarrow> False | Inr _ \<Rightarrow> True)) (line + 1) sls))"

text \<open>
  The body of the transaction. When the insert of the withdrawal fails, the code looks for a row with
  the same key, but that read runs in an aborted transaction and fails too, so the error is returned.
\<close>

definition consume_slices :: "time \<Rightarrow> AllocationSlice list \<Rightarrow> ('m withdrawal_db_scheme, unit) op" where
  "consume_slices now = for_each (\<lambda>sl. ConsumeLotRemaining (sl_SettlementLotID sl) (sl_AmountIDR sl) now)"

definition request_tx ::
    "WithdrawalService \<Rightarrow> string \<Rightarrow> string \<Rightarrow> string \<Rightarrow> Quote \<Rightarrow> bool \<Rightarrow> string \<Rightarrow> time \<Rightarrow> ('m withdrawal_db_scheme, Withdrawal) op" where
  "request_tx s m storeID mode quote auto keyHash now =
    (if \<not> ws_Ledger s then throw (apperr_internal ''INTERNAL_ERROR'' ''Ledger unavailable'')
     else bindS (in_tx_ignored (EnsureBalance m mode now)) (\<lambda>_. with_state (\<lambda>w.
       bindS (liftE (LockBalance m mode w)) (\<lambda>bal.
       if b_AvailableIDR bal < qt_AmountIDR quote then throw ErrInsufficient
       else case AllocateWithdrawalFIFO (qt_AmountIDR quote) (ListAvailableLots m mode w) of
         Inl _ \<Rightarrow> throw ErrInsufficient
       | Inr alloc \<Rightarrow>
         bindS new_id (\<lambda>i. let wid = ''wd_'' @ i in
         bindS (try_op (MarkQuoteConsumed (qt_ID quote) wid now)) (\<lambda>c. case c of
           Inl cerr \<Rightarrow> throw (if is_not_found cerr then ErrQuoteConsumed else cerr)
         | Inr _ \<Rightarrow>
           bindS (liftE (BuildWithdrawalReserveLegs (qt_AmountIDR quote))) (\<lambda>legs.
           bindS new_id (\<lambda>k. let jid = ''lj_'' @ k in
           bindS (PostJournal (wd_journal jid m storeID mode (wa_Source alloc) wid TemplateWithdrawalReserve
               (JournalReferenceWithdrawalReserve wid) ''Withdrawal reserve '' (Some (qt_AmountIDR quote)) now legs)) (\<lambda>_.
           bindS (consume_slices now (wa_Allocations alloc)) (\<lambda>_.
           bindS (InsertWithdrawal (new_withdrawal s m storeID quote wid jid mode auto (wa_Source alloc) keyHash now)) (\<lambda>inserted.
           bindS (insert_allocations wid now True 1 (wa_Allocations alloc)) (\<lambda>ok.
           if ok then ret inserted
           else throw (PgError ''commit unexpectedly resulted in rollback'')))))))))))))"
subsection \<open>Completion, failure and release of the reserve\<close>

definition store_of :: "Withdrawal \<Rightarrow> string" where
  "store_of x = (case wd_StoreID x of None \<Rightarrow> [] | Some i \<Rightarrow> i)"

definition wd_post ::
    "Withdrawal \<Rightarrow> string \<Rightarrow> string \<Rightarrow> string \<Rightarrow> string \<Rightarrow> i64 option \<Rightarrow> time \<Rightarrow> EntryLeg list \<Rightarrow> PostJournalParams" where
  "wd_post x jid template jref desc net now legs =
     wd_journal jid (wd_MerchantID x) (store_of x) (wd_PaymentMode x) (wd_Source x) (wd_ID x)
       template jref desc net now legs"

definition recaptureReserve :: "Withdrawal \<Rightarrow> time \<Rightarrow> ('m withdrawal_db_scheme, Withdrawal) op" where
  "recaptureReserve x now = with_state (\<lambda>w.
     bindS (liftE (LockBalance (wd_MerchantID x) (wd_PaymentMode x) w)) (\<lambda>bal.
     let a0 = (if b_AvailableIDR bal > wd_AmountIDR x then wd_AmountIDR x else b_AvailableIDR bal);
         a = (if a0 < 0 then 0 else a0);
         r = wd_AmountIDR x - a in
     bindS (liftE (BuildWithdrawalRecaptureLegs a r (wd_AmountIDR x))) (\<lambda>legs.
     bindS new_id (\<lambda>k. let jid = ''lj_'' @ k in
     bindS (PostJournal (wd_post x jid TemplateWithdrawalRecapture (JournalReferenceWithdrawalRecapture (wd_ID x))
         ''Withdrawal recapture '' None now legs)) (\<lambda>_.
     ret (x\<lparr>wd_RecaptureJournalID := Some jid, wd_ReserveReleased := False, wd_RecoveryReceivableIDR := r,
            wd_WithdrawalFrozen := (if r > 0 then True else wd_WithdrawalFrozen x)\<rparr>))))))"

definition post_complete :: "Withdrawal \<Rightarrow> time \<Rightarrow> ('m withdrawal_db_scheme, Withdrawal) op" where
  "post_complete x now =
    (if wd_CompleteJournalID x \<noteq> None then ret x
     else bindS (liftE (BuildWithdrawalCompleteLegs (wd_AmountIDR x) (wd_PlatformFeeIDR x)
         (wd_ProviderFeeQuotedIDR x) (wd_NetDisbursementIDR x))) (\<lambda>legs.
       bindS new_id (\<lambda>k. let jid = ''lj_'' @ k in
       bindS (PostJournal (wd_post x jid TemplateWithdrawalComplete (JournalReferenceWithdrawalComplete (wd_ID x))
           ''Withdrawal complete '' (Some (wd_AmountIDR x)) now legs)) (\<lambda>_.
       ret (x\<lparr>wd_CompleteJournalID := Some jid\<rparr>)))))"

definition fee_settle_legs :: "i64 \<Rightarrow> i64 \<Rightarrow> EntryLeg list result" where
  "fee_settle_legs q a =
    (if a = q then BuildProviderFeeSettleEqualLegs q
     else if a > q then BuildProviderFeeSettleHigherLegs q a
     else BuildProviderFeeSettleLowerLegs q a)"

definition actual_fee :: "Withdrawal \<Rightarrow> i64 option \<Rightarrow> i64" where
  "actual_fee x actualFee = (case actualFee of None \<Rightarrow> wd_ProviderFeeQuotedIDR x | Some a \<Rightarrow> a)"

definition post_fee_settle :: "Withdrawal \<Rightarrow> i64 option \<Rightarrow> time \<Rightarrow> ('m withdrawal_db_scheme, Withdrawal) op" where
  "post_fee_settle x actualFee now =
    (let q = wd_ProviderFeeQuotedIDR x; a = actual_fee x actualFee in
     if \<not> (wd_FeeSettleJournalID x = None \<and> q > 0) then ret x
     else bindS (liftE (fee_settle_legs q a)) (\<lambda>legs.
       bindS new_id (\<lambda>k. let jid = ''lj_'' @ k in
       bindS (PostJournal (wd_post x jid ''WITHDRAWAL_FEE_SETTLE'' (JournalReferenceWithdrawalFeeSettle (wd_ID x))
           ''Provider fee settle '' None now legs)) (\<lambda>_.
       ret (x\<lparr>wd_FeeSettleJournalID := Some jid\<rparr>)))))"

definition complete_tx ::
    "string \<Rightarrow> string \<Rightarrow> i64 option \<Rightarrow> time \<Rightarrow> ('m withdrawal_db_scheme, unit) op" where
  "complete_tx withdrawalID providerRef actualFee now = with_state (\<lambda>w.
     bindS (liftE (LockWithdrawal withdrawalID w)) (\<lambda>x.
     if wd_Status x = StatusCompleted then ret ()
     else
       bindS (if (wd_Status x = StatusFailed \<or> wd_Status x = StatusCancelled) \<and> wd_ReserveReleased x
              then recaptureReserve x now else ret x) (\<lambda>x1.
       if wd_Status x1 \<notin> set [StatusProcessing, StatusUnknownOutcome, StatusApproved, StatusFailed, StatusCancelled]
          \<and> \<not> CanTransition (wd_Status x1) StatusCompleted
       then throw ErrInvalidStatus
       else bindS (post_complete x1 now) (\<lambda>x2.
         bindS (post_fee_settle x2 actualFee now) (\<lambda>x3.
         bindS (SaveWithdrawal (x3\<lparr>
             wd_ProviderDisbursementReference :=
               (if providerRef \<noteq> [] then Some providerRef else wd_ProviderDisbursementReference x3),
             wd_ProviderFeeActualIDR := Some (actual_fee x3 actualFee), wd_Status := StatusCompleted,
             wd_CompletedAt := Some now, wd_UpdatedAt := now\<rparr>)) (\<lambda>_. ret ()))))))"

definition completeWithdrawal ::
    "string \<Rightarrow> string \<Rightarrow> i64 option \<Rightarrow> time \<Rightarrow> ('m withdrawal_db_scheme, unit) op" where
  "completeWithdrawal withdrawalID providerRef actualFee now =
     with_tx (complete_tx withdrawalID providerRef actualFee now)"

text \<open>Every error of a lot restore is dropped by the code and aborts the transaction.\<close>

definition restore_lots :: "time \<Rightarrow> Allocation list \<Rightarrow> ('m withdrawal_db_scheme, unit) op" where
  "restore_lots now = for_each (\<lambda>a. in_tx_ignored (RestoreLotRemaining (al_SettlementLotID a) (al_AmountIDR a) now))"

definition releaseReserve :: "Withdrawal \<Rightarrow> time \<Rightarrow> ('m withdrawal_db_scheme, Withdrawal) op" where
  "releaseReserve x now =
    (if wd_ReserveReleased x then ret x
     else bindS (liftE (BuildWithdrawalReleaseLegs (wd_AmountIDR x))) (\<lambda>legs.
       bindS new_id (\<lambda>k. let jid = ''lj_'' @ k in
       bindS (PostJournal (wd_post x jid TemplateWithdrawalRelease (JournalReferenceWithdrawalRelease (wd_ID x))
           ''Withdrawal release '' (Some (wd_AmountIDR x)) now legs)) (\<lambda>_. with_state (\<lambda>w.
       bindS (restore_lots now (ListAllocations (wd_ID x) w)) (\<lambda>_.
       ret (x\<lparr>wd_ReleaseJournalID := Some jid, wd_ReserveReleased := True\<rparr>)))))))"

definition fail_tx :: "string \<Rightarrow> string \<Rightarrow> time \<Rightarrow> ('m withdrawal_db_scheme, unit) op" where
  "fail_tx withdrawalID reason now = with_state (\<lambda>w.
     bindS (liftE (LockWithdrawal withdrawalID w)) (\<lambda>x.
     if wd_Status x = StatusFailed \<or> wd_Status x = StatusCompleted then ret ()
     else bindS (if \<not> wd_ReserveReleased x then releaseReserve x now else ret x) (\<lambda>x1.
       bindS (SaveWithdrawal (x1\<lparr>wd_Status := StatusFailed, wd_FailedAt := Some now,
           wd_RejectReason := reason, wd_UpdatedAt := now\<rparr>)) (\<lambda>_. ret ()))))"

definition failAndRelease :: "string \<Rightarrow> string \<Rightarrow> ('m withdrawal_db_scheme, unit) op" where
  "failAndRelease withdrawalID reason = with_state (\<lambda>w. with_tx (fail_tx withdrawalID reason (clock w)))"

subsection \<open>Provider references and lookups\<close>

text \<open>Lock the row, change it, save it, in one transaction.\<close>

definition amend :: "string \<Rightarrow> (Withdrawal \<Rightarrow> Withdrawal) \<Rightarrow> ('m withdrawal_db_scheme, unit) op" where
  "amend withdrawalID f = with_tx (with_state (\<lambda>w.
     bindS (liftE (LockWithdrawal withdrawalID w)) (\<lambda>x. bindS (SaveWithdrawal (f x)) (\<lambda>_. ret ()))))"

definition wrap32 :: "int \<Rightarrow> int" where
  "wrap32 x = (x + 2147483648) mod 4294967296 - 2147483648"

definition markUnknown :: "string \<Rightarrow> string \<Rightarrow> time \<Rightarrow> ('m withdrawal_db_scheme, unit) op" where
  "markUnknown withdrawalID externalID now = with_tx (with_state (\<lambda>w.
     bindS (liftE (LockWithdrawal withdrawalID w)) (\<lambda>x.
     if wd_Status x = StatusCompleted \<or> wd_Status x = StatusFailed then ret ()
     else bindS (SaveWithdrawal (x\<lparr>wd_Status := StatusUnknownOutcome, wd_UnknownOutcomeAt := Some now,
         wd_NextLookupAt := Some (now + seconds 30), wd_LookupAttempts := wrap32 (wd_LookupAttempts x + 1),
         wd_ProviderExternalID := (if externalID \<noteq> [] then Some externalID else wd_ProviderExternalID x),
         wd_ProviderDisbursementReference := (if wd_ProviderDisbursementReference x = None
            then Some (''pending:'' @ externalID) else wd_ProviderDisbursementReference x),
         wd_UpdatedAt := now\<rparr>)) (\<lambda>_. ret ()))))"

definition bindProviderRef :: "string \<Rightarrow> string \<Rightarrow> string \<Rightarrow> ('m withdrawal_db_scheme, unit) op" where
  "bindProviderRef withdrawalID ref externalID = with_state (\<lambda>w.
     amend withdrawalID (\<lambda>x. x\<lparr>
       wd_ProviderDisbursementReference := (if ref \<noteq> [] then Some ref else wd_ProviderDisbursementReference x),
       wd_ProviderExternalID := (if externalID \<noteq> [] then Some externalID else wd_ProviderExternalID x),
       wd_UpdatedAt := clock w\<rparr>))"

abbreviation "done_words \<equiv> [''COMPLETED'', ''SUCCEEDED'', ''SUCCESS'']"
abbreviation "failed_words \<equiv> [''FAILED'', ''REJECTED'', ''CANCELLED'']"

definition applyProviderCreateResult ::
    "string \<Rightarrow> CreateDisbursementResult \<Rightarrow> ('m withdrawal_db_scheme, unit) op" where
  "applyProviderCreateResult withdrawalID res = with_state (\<lambda>w.
     let st = to_upper (cr_Status res) in
     if st \<in> set done_words
       then completeWithdrawal withdrawalID (cr_ProviderReference res) (cr_ProviderFeeIDR res) (clock w)
     else if st \<in> set failed_words
       then bindS (try_op (bindProviderRef withdrawalID (cr_ProviderReference res) (cr_ExternalID res))) (\<lambda>_.
         failAndRelease withdrawalID (''provider_'' @ to_lower (cr_Status res)))
     else amend withdrawalID (\<lambda>x. x\<lparr>
       wd_ProviderDisbursementReference := Some (cr_ProviderReference res),
       wd_ProviderExternalID := (if cr_ExternalID res \<noteq> [] then Some (cr_ExternalID res) else wd_ProviderExternalID x),
       wd_Status := StatusProcessing, wd_UpdatedAt := clock w\<rparr>))"

text \<open>Bounded exponential backoff: 30 seconds times 2 to the number of attempts, at most 6.\<close>

definition lookup_delay :: "int \<Rightarrow> int" where
  "lookup_delay attempts =
    (let shift = (if attempts > 6 then 6 else attempts) in
     seconds 30 * (if shift < 0 then 0 else 2 ^ nat shift))"

definition scheduleLookup :: "string \<Rightarrow> ('m withdrawal_db_scheme, unit) op" where
  "scheduleLookup withdrawalID = with_state (\<lambda>w.
     amend withdrawalID (\<lambda>x. let n = wrap32 (wd_LookupAttempts x + 1) in
       x\<lparr>wd_Status := StatusUnknownOutcome, wd_LookupAttempts := n,
         wd_NextLookupAt := Some (clock w + lookup_delay n), wd_UpdatedAt := clock w\<rparr>))"

definition applyLookup :: "string \<Rightarrow> ProviderDisbursement \<Rightarrow> ('m withdrawal_db_scheme, unit) op" where
  "applyLookup withdrawalID d = with_state (\<lambda>w.
     bindS (liftE (GetWithdrawalRow withdrawalID w)) (\<lambda>x.
     let st = to_upper (pd_Status d) in
     if pd_NetAmountIDR d > 0 \<and> pd_NetAmountIDR d \<noteq> wd_NetDisbursementIDR x then throw ErrDisbursementMismatch
     else if st \<in> set done_words
       then completeWithdrawal withdrawalID (pd_ProviderReference d) (pd_ProviderFeeIDR d) (clock w)
     else if st \<in> set failed_words
       then bindS (try_op (bindProviderRef withdrawalID (pd_ProviderReference d) (pd_ExternalID d))) (\<lambda>_.
         failAndRelease withdrawalID (''provider_'' @ to_lower (pd_Status d)))
     else if st = ''NOT_FOUND'' then scheduleLookup withdrawalID
     else amend withdrawalID (\<lambda>y. y\<lparr>
       wd_ProviderDisbursementReference := (if pd_ProviderReference d \<noteq> [] then Some (pd_ProviderReference d)
          else wd_ProviderDisbursementReference y),
       wd_Status := StatusProcessing, wd_UpdatedAt := clock w\<rparr>)))"
subsection \<open>Disbursement\<close>

definition external_id :: "string \<Rightarrow> string" where
  "external_id wid = ''fersaku_wd_'' @ wid"

text \<open>
  The first transaction of a disbursement: the row as the closure leaves it in the variable \<open>w\<close>,
  unchanged when the withdrawal is already in flight.
\<close>

definition disburse_begin :: "string \<Rightarrow> time \<Rightarrow> ('m withdrawal_db_scheme, Withdrawal) op" where
  "disburse_begin withdrawalID now = with_tx (with_state (\<lambda>w.
     bindS (liftE (LockWithdrawal withdrawalID w)) (\<lambda>x.
     if wd_Status x \<in> set [StatusProcessing, StatusCompleted, StatusUnknownOutcome] then ret x
     else if wd_Status x \<noteq> StatusApproved then throw ErrInvalidStatus
     else case AssertTransition (wd_Status x) StatusProcessing of
       Inl _ \<Rightarrow> throw ErrInvalidStatus
     | Inr _ \<Rightarrow>
       let x1 = x\<lparr>wd_Status := StatusProcessing, wd_ProcessingAt := Some now, wd_UpdatedAt := now,
                  wd_ProviderExternalID := Some (external_id (wd_ID x))\<rparr>
       in bindS (SaveWithdrawal x1) (\<lambda>_. ret x1))))"

definition create_input :: "WithdrawalService \<Rightarrow> Withdrawal \<Rightarrow> string \<Rightarrow> string \<Rightarrow> CreateDisbursementInput" where
  "create_input s x ext plain =
    \<lparr>cd_ExternalID = ext, cd_NetAmountIDR = wd_NetDisbursementIDR x, cd_Currency = ''IDR'',
     cd_BankCode = wd_BankCode x, cd_AccountHolderName = wd_AccountHolderName x, cd_AccountNumber = plain,
     cd_AccountNumberMask = wd_AccountNumberMasked x, cd_Description = ''Fersaku withdrawal '' @ wd_ID x,
     cd_AccountScope = wd_scope s, cd_PaymentMode = wd_PaymentMode x, cd_IdempotencyKey = ext\<rparr>"

text \<open>A call to the provider: recorded in the trace, answered as a function of the calls before it.\<close>

definition call_create ::
    "DisbursementProvider \<Rightarrow> CreateDisbursementInput \<Rightarrow> ('m withdrawal_db_scheme, CreateDisbursementResult result) op" where
  "call_create p input = (\<lambda>w. (Inr (dp_Create p (payouts w) input), w\<lparr>payouts := payouts w @ [input]\<rparr>))"

definition DisburseWithdrawal :: "WithdrawalService \<Rightarrow> string \<Rightarrow> ('m withdrawal_db_scheme, unit) op" where
  "DisburseWithdrawal s withdrawalID = with_state (\<lambda>w0.
     case ws_Disburse s of
       None \<Rightarrow> throw (apperr_internal ''INTERNAL_ERROR'' ''Disbursement provider unavailable'')
     | Some p \<Rightarrow>
       bindS (disburse_begin withdrawalID (clock w0)) (\<lambda>x.
       if wd_Status x \<noteq> StatusProcessing then ret ()
       else with_state (\<lambda>w.
         bindS (liftE (GetBankAccount (wd_BankAccountID x) w)) (\<lambda>bank.
         case ws_decrypt s (ws_EncryptionKey s) (ba_AccountNumberCipher bank) of
           Inl _ \<Rightarrow> throw (apperr_internal ''INTERNAL_ERROR'' ''Decrypt bank failed'')
         | Inr plain \<Rightarrow>
           let ext = (case wd_ProviderExternalID x of Some e \<Rightarrow> e | None \<Rightarrow> external_id (wd_ID x)) in
           bindS (call_create p (create_input s x ext plain)) (\<lambda>res. case res of
             Inl derr \<Rightarrow> if unknown_outcome derr then markUnknown (wd_ID x) ext (clock w0)
               else failAndRelease (wd_ID x) (error_text derr)
           | Inr r \<Rightarrow> applyProviderCreateResult (wd_ID x) r)))))"

definition request_guards ::
    "WithdrawalService \<Rightarrow> string \<Rightarrow> string \<Rightarrow> string \<Rightarrow> 'm withdrawal_db_scheme \<Rightarrow> string result" where
  "request_guards s storeID quoteID key w =
    (if trim_space key = [] then Inl (apperr_validation ''VALIDATION_FAILED'' ''Idempotency-Key is required'')
     else if trim_space quoteID = [] then Inl (apperr_validation ''VALIDATION_FAILED'' ''quoteId is required'')
     else if emergency_off s then Inl (apperr_forbidden ''FORBIDDEN'' ''Withdrawals are temporarily disabled'')
     else resolveMerchant storeID w)"

text \<open>After the commit: an approved withdrawal is disbursed at once and read again.\<close>

definition disburse_approved :: "WithdrawalService \<Rightarrow> Withdrawal \<Rightarrow> ('m withdrawal_db_scheme, Withdrawal) op" where
  "disburse_approved s x =
    (if wd_Status x = StatusApproved
     then bindS (try_op (DisburseWithdrawal s (wd_ID x))) (\<lambda>_. with_state (\<lambda>w.
       case GetWithdrawalRow (wd_ID x) w of Inr y \<Rightarrow> ret (withAllocations y w) | Inl _ \<Rightarrow> ret (withAllocations x w)))
     else with_state (\<lambda>w. ret (withAllocations x w)))"

definition RequestWithdrawal ::
    "WithdrawalService \<Rightarrow> string \<Rightarrow> string \<Rightarrow> string \<Rightarrow> string \<Rightarrow> ('m withdrawal_db_scheme, Withdrawal) op" where
  "RequestWithdrawal s storeID quoteID key paymentMode = with_state (\<lambda>w.
     bindS (liftE (request_guards s storeID quoteID key w)) (\<lambda>m.
     let mode = wd_mode s paymentMode; keyHash = hashKey key in
     case GetWithdrawalByIdempotency m mode keyHash w of
       Inr existing \<Rightarrow> ret (withAllocations existing w)
     | Inl _ \<Rightarrow>
       bindS (liftE (usable_quote s m mode quoteID w)) (\<lambda>quote.
       bindS (with_tx (request_tx s m storeID mode quote (autoApprove s w) keyHash (clock w))) (\<lambda>result.
       if wd_ID result = [] then throw (apperr_internal ''INTERNAL_ERROR'' ''Withdrawal create failed'')
       else disburse_approved s result))))"

subsection \<open>Unknown outcomes and callbacks\<close>

definition resolve_by_external ::
    "WithdrawalService \<Rightarrow> string \<Rightarrow> string \<Rightarrow> ('m withdrawal_db_scheme, unit) op" where
  "resolve_by_external s wid ext = with_state (\<lambda>w.
     case ws_Disburse s of
       None \<Rightarrow> scheduleLookup wid
     | Some p \<Rightarrow> (case dp_ByExternal p of
         None \<Rightarrow> scheduleLookup wid
       | Some getter \<Rightarrow> (case getter (payouts w) ext of
           Some d \<Rightarrow> applyLookup wid d
         | None \<Rightarrow> scheduleLookup wid)))"

definition ResolveUnknownOutcome :: "WithdrawalService \<Rightarrow> string \<Rightarrow> ('m withdrawal_db_scheme, unit) op" where
  "ResolveUnknownOutcome s withdrawalID = with_state (\<lambda>w.
     bindS (liftE (GetWithdrawalRow withdrawalID w)) (\<lambda>x.
     if wd_Status x \<noteq> StatusUnknownOutcome \<and> wd_Status x \<noteq> StatusProcessing then ret ()
     else
       let ref = (case wd_ProviderDisbursementReference x of None \<Rightarrow> [] | Some r \<Rightarrow> r) in
       if has_prefix ''pending:'' ref then resolve_by_external s (wd_ID x) (trim_prefix ''pending:'' ref)
       else case (ref, wd_ProviderExternalID x) of
         ([], Some ext) \<Rightarrow> resolve_by_external s (wd_ID x) ext
       | ([], None) \<Rightarrow> scheduleLookup (wd_ID x)
       | (_ # _, _) \<Rightarrow> (case ws_Disburse s of
           None \<Rightarrow> scheduleLookup (wd_ID x)
         | Some p \<Rightarrow> (case dp_Get p (payouts w) ref of
             Inl _ \<Rightarrow> scheduleLookup (wd_ID x)
           | Inr d \<Rightarrow> applyLookup (wd_ID x) d))))"

fun resolve_each :: "WithdrawalService \<Rightarrow> Withdrawal list \<Rightarrow> int \<Rightarrow> ('m withdrawal_db_scheme, int) op" where
  "resolve_each s [] n = ret n"
| "resolve_each s (x # xs) n = bindS (try_op (ResolveUnknownOutcome s (wd_ID x))) (\<lambda>res.
     resolve_each s xs (case res of Inr _ \<Rightarrow> n + 1 | Inl _ \<Rightarrow> n))"

definition ResolveDueUnknowns :: "WithdrawalService \<Rightarrow> int \<Rightarrow> ('m withdrawal_db_scheme, int) op" where
  "ResolveDueUnknowns s limit = with_state (\<lambda>w.
     resolve_each s (ListUnknownDue (clock w) (if limit \<le> 0 then 20 else limit) w) 0)"

definition find_by_provider_ref ::
    "WithdrawalService \<Rightarrow> string \<Rightarrow> 'm withdrawal_db_scheme \<Rightarrow> Withdrawal result" where
  "find_by_provider_ref s ref w =
    (let look = (\<lambda>mode. GetWithdrawalByProviderRef ''xendit'' (wd_scope s) mode ref w) in
     case look (wd_mode s []) of Inr x \<Rightarrow> Inr x
     | Inl _ \<Rightarrow> (case look ModeSandbox of Inr x \<Rightarrow> Inr x
       | Inl _ \<Rightarrow> (case look ModeLive of Inr x \<Rightarrow> Inr x
         | Inl _ \<Rightarrow> Inl (apperr_not_found ''RESOURCE_NOT_FOUND'' ''Withdrawal not found for provider reference''))))"

definition HandleDisbursementCallback ::
    "WithdrawalService \<Rightarrow> string \<Rightarrow> string \<Rightarrow> i64 option \<Rightarrow> i64 \<Rightarrow> ('m withdrawal_db_scheme, unit) op" where
  "HandleDisbursementCallback s providerRef status actualFee netAmount = with_state (\<lambda>w.
     if providerRef = [] then throw (apperr_validation ''VALIDATION_FAILED'' ''provider reference required'')
     else bindS (liftE (find_by_provider_ref s providerRef w)) (\<lambda>x.
       applyLookup (wd_ID x) \<lparr>pd_ProviderReference = providerRef, pd_ExternalID = [], pd_Status = status,
         pd_NetAmountIDR = (if netAmount = 0 then wd_NetDisbursementIDR x else netAmount),
         pd_Currency = ''IDR'', pd_ProviderFeeIDR = actualFee\<rparr>))"

subsection \<open>Review and reads\<close>

definition review_row ::
    "string \<Rightarrow> string \<Rightarrow> string \<Rightarrow> time \<Rightarrow> Withdrawal \<Rightarrow> ('m withdrawal_db_scheme, Withdrawal) op" where
  "review_row act reason actorID now x =
    (if act = ''approve'' then
       (if \<not> CanTransition (wd_Status x) StatusApproved then throw ErrInvalidStatus
        else ret (x\<lparr>wd_Status := StatusApproved, wd_ReviewReason := reason,
             wd_ReviewedBy := Some actorID, wd_ReviewedAt := Some now\<rparr>))
     else if act = ''hold'' then
       (if \<not> CanTransition (wd_Status x) StatusHeld then throw ErrInvalidStatus
        else ret (x\<lparr>wd_Status := StatusHeld, wd_HoldReason := reason,
             wd_ReviewedBy := Some actorID, wd_ReviewedAt := Some now\<rparr>))
     else if act = ''reject'' then
       (if \<not> CanTransition (wd_Status x) StatusRejected then throw ErrInvalidStatus
        else bindS (if \<not> wd_ReserveReleased x then releaseReserve x now else ret x) (\<lambda>x1.
          ret (x1\<lparr>wd_Status := StatusRejected, wd_RejectReason := reason,
             wd_ReviewedBy := Some actorID, wd_ReviewedAt := Some now\<rparr>)))
     else throw (apperr_validation ''VALIDATION_FAILED'' ''action must be approve|hold|reject''))"

definition review_tx ::
    "string \<Rightarrow> string \<Rightarrow> string \<Rightarrow> string \<Rightarrow> time \<Rightarrow> ('m withdrawal_db_scheme, Withdrawal) op" where
  "review_tx withdrawalID act reason actorID now = with_state (\<lambda>w.
     bindS (liftE (LockWithdrawal withdrawalID w)) (\<lambda>x.
     if act = ''approve'' \<and> wd_Status x \<in> set [StatusApproved, StatusProcessing, StatusCompleted,
          StatusUnknownOutcome, StatusFailed] then ret x
     else bindS (review_row act reason actorID now x) (\<lambda>x1. SaveWithdrawal (x1\<lparr>wd_UpdatedAt := now\<rparr>))))"

definition AdminReview ::
    "WithdrawalService \<Rightarrow> string \<Rightarrow> string \<Rightarrow> string \<Rightarrow> string \<Rightarrow> ('m withdrawal_db_scheme, Withdrawal) op" where
  "AdminReview s withdrawalID action reason0 actorID = with_state (\<lambda>w.
     let reason = trim_space reason0 in
     if reason = [] then throw (apperr_validation ''VALIDATION_FAILED'' ''reason is required'')
     else if trim_space actorID = [] then throw (apperr_unauthorized ''AUTH_REQUIRED'' ''Authentication required'')
     else bindS (with_tx (review_tx withdrawalID (to_lower (trim_space action)) reason actorID (clock w)))
       (disburse_approved s))"

definition wd_not_found :: go_error where
  "wd_not_found = apperr_not_found ''RESOURCE_NOT_FOUND'' ''Withdrawal not found''"

definition GetWithdrawal :: "string \<Rightarrow> string \<Rightarrow> 'm withdrawal_db_scheme \<Rightarrow> Withdrawal result" where
  "GetWithdrawal storeID withdrawalID w = bindE (resolveMerchant storeID w) (\<lambda>m.
     case GetWithdrawalRow withdrawalID w of
       Inl err \<Rightarrow> Inl (if is_not_found err then wd_not_found else err)
     | Inr x \<Rightarrow> if wd_MerchantID x \<noteq> m then Inl wd_not_found else Inr (withAllocations x w))"

definition ListWithdrawals ::
    "WithdrawalService \<Rightarrow> string \<Rightarrow> string \<Rightarrow> time option \<Rightarrow> string option \<Rightarrow> int \<Rightarrow> 'm withdrawal_db_scheme \<Rightarrow>
     Withdrawal list result" where
  "ListWithdrawals s storeID paymentMode cursorAt cursorID limit w = bindE (resolveMerchant storeID w) (\<lambda>m.
     Inr (ListWithdrawalsByMerchant m (wd_mode s paymentMode) cursorAt cursorID limit w))"

definition AdminGetWithdrawal :: "string \<Rightarrow> 'm withdrawal_db_scheme \<Rightarrow> Withdrawal result" where
  "AdminGetWithdrawal withdrawalID w =
    (case GetWithdrawalRow withdrawalID w of
       Inl err \<Rightarrow> Inl (if is_not_found err then wd_not_found else err)
     | Inr x \<Rightarrow> Inr (withAllocations x w))"

end
