(* ===== verification/Withdrawal_Invariant.thy ===== *)
theory Withdrawal_Invariant
  imports Withdrawal_Service
begin

text \<open>
  What every handler of the withdrawal service keeps: the ledger invariant and the integrity of the
  withdrawal tables (keys unique, CHECK constraints satisfied, one primary verified account per
  merchant, one withdrawal per quote). The handlers are the steps of a relation, so that the
  invariant holds after any sequence of them, callbacks and lookups in any order.
\<close>

subsection \<open>Integrity of the tables\<close>

text \<open>The partial unique indexes, as a symmetric relation no two rows of the table are in.\<close>

definition bank_clash :: "BankAccount \<Rightarrow> BankAccount \<Rightarrow> bool" where
  "bank_clash a b \<longleftrightarrow> ba_ID b \<noteq> ba_ID a \<and> ba_MerchantID b = ba_MerchantID a \<and> ba_IsPrimary a \<and>
     ba_Status a = BankVerified \<and> ba_IsPrimary b \<and> ba_Status b = BankVerified"

definition wd_clash :: "Withdrawal \<Rightarrow> Withdrawal \<Rightarrow> bool" where
  "wd_clash x y \<longleftrightarrow> wd_ID y \<noteq> wd_ID x \<and> provider_key y = provider_key x \<and>
     (wd_ProviderDisbursementReference x \<noteq> None \<and> wd_ProviderDisbursementReference y = wd_ProviderDisbursementReference x \<or>
      wd_ProviderExternalID x \<noteq> None \<and> wd_ProviderExternalID y = wd_ProviderExternalID x)"

definition clash_free :: "('r \<Rightarrow> 'r \<Rightarrow> bool) \<Rightarrow> 'r list \<Rightarrow> bool" where
  "clash_free clash xs \<longleftrightarrow> (\<forall>a\<in>set xs. \<forall>b\<in>set xs. \<not> clash a b)"

definition banks_ok :: "BankAccount list \<Rightarrow> bool" where
  "banks_ok bs \<longleftrightarrow> distinct (map ba_ID bs) \<and> list_all (\<lambda>a. bank_check a = Inr ()) bs \<and>
     clash_free bank_clash bs"

definition quotes_ok :: "Quote list \<Rightarrow> bool" where
  "quotes_ok qs \<longleftrightarrow> distinct (map qt_ID qs) \<and> distinct (map quote_key qs) \<and> list_all (\<lambda>q. quote_check q = Inr ()) qs"

definition withdrawals_ok :: "Withdrawal list \<Rightarrow> bool" where
  "withdrawals_ok ws \<longleftrightarrow> distinct (map wd_ID ws) \<and> distinct (map wd_QuoteID ws) \<and> distinct (map withdrawal_key ws) \<and>
     list_all (\<lambda>x. withdrawal_check x = Inr ()) ws \<and> clash_free wd_clash ws"

definition allocations_ok :: "Allocation list \<Rightarrow> bool" where
  "allocations_ok as \<longleftrightarrow> distinct (map al_ID as) \<and> distinct (map (\<lambda>a. (al_WithdrawalID a, al_LineNo a)) as) \<and>
     list_all (\<lambda>a. allocation_check a = Inr ()) as"

definition alloc_refs_ok :: "Allocation list \<Rightarrow> Withdrawal list \<Rightarrow> bool" where
  "alloc_refs_ok as ws \<longleftrightarrow> list_all (\<lambda>a. al_WithdrawalID a \<in> set (map wd_ID ws)) as"

definition wd_inv :: "'m withdrawal_db_scheme \<Rightarrow> bool" where
  "wd_inv w \<longleftrightarrow> ledger_inv w \<and> banks_ok (bank_accounts w) \<and> quotes_ok (withdrawal_quotes w) \<and>
     withdrawals_ok (withdrawals w) \<and> allocations_ok (allocations w) \<and>
     alloc_refs_ok (allocations w) (withdrawals w)"

lemma alloc_refs_ok_more:
  "alloc_refs_ok as ws \<Longrightarrow> alloc_refs_ok as (ws @ [x])"
  "map wd_ID ws' = map wd_ID ws \<Longrightarrow> alloc_refs_ok as ws' = alloc_refs_ok as ws"
  "alloc_refs_ok (as @ [a]) ws \<longleftrightarrow> alloc_refs_ok as ws \<and> al_WithdrawalID a \<in> wd_ID ` set ws"
  by (auto simp: alloc_refs_ok_def list_all_iff)

lemma ledger_inv_withdrawal_tables [simp]:
  fixes w :: "'m withdrawal_db_scheme"
  shows "ledger_inv (w\<lparr>bank_accounts := a\<rparr>) = ledger_inv w" "ledger_inv (w\<lparr>withdrawal_locks := b\<rparr>) = ledger_inv w"
    "ledger_inv (w\<lparr>withdrawal_quotes := c\<rparr>) = ledger_inv w" "ledger_inv (w\<lparr>withdrawals := d\<rparr>) = ledger_inv w"
    "ledger_inv (w\<lparr>allocations := e\<rparr>) = ledger_inv w" "ledger_inv (w\<lparr>payouts := f\<rparr>) = ledger_inv w"
  by (rule iffI; erule ledger_inv_cong; simp)+

lemma ledger_inv_fee_tables [simp]: "ledger_inv (w\<lparr>fee_snapshots := s\<rparr>) = ledger_inv w"
  by (rule iffI; erule ledger_inv_cong; simp)

lemma wd_inv_next_id [simp]: "wd_inv (w\<lparr>next_id := n\<rparr>) = wd_inv w"
  by (simp add: wd_inv_def)

lemma keeps_new_id_wd [inv_intros]: "keeps wd_inv new_id"
  by (rule keeps_new_id) simp

lemma keeps_with_tx_wd [inv_intros]: "keeps wd_inv m \<Longrightarrow> keeps wd_inv (with_tx m)"
  by (rule keeps_with_tx) simp_all


subsection \<open>Rows that must not clash\<close>

lemma primary_taken_clash: "primary_taken a bs \<longleftrightarrow> (\<exists>b\<in>set bs. bank_clash a b)"
  by (auto simp: primary_taken_def bank_clash_def list_ex_iff)

lemma provider_refs_clash: "provider_refs_free x ws = Inr () \<longleftrightarrow> \<not> (\<exists>y\<in>set ws. wd_clash x y)"
  by (auto simp: provider_refs_free_def wd_clash_def list_ex_iff Let_def)

lemma bank_clash_sym [simp]: "bank_clash a b \<Longrightarrow> bank_clash b a" "\<not> bank_clash a a"
  by (auto simp: bank_clash_def)

lemma wd_clash_sym [simp]: "wd_clash a b \<Longrightarrow> wd_clash b a" "\<not> wd_clash a a"
  by (auto simp: wd_clash_def)

lemma clash_free_snoc:
  assumes "clash_free clash xs" and "\<And>a b. clash a b \<Longrightarrow> clash b a" and "\<And>a. \<not> clash a a"
    and "\<not> (\<exists>b\<in>set xs. clash x b)"
  shows "clash_free clash (xs @ [x])"
  using assms unfolding clash_free_def by auto

lemma clash_free_update:
  assumes free: "clash_free clash xs" and sym: "\<And>a b. clash a b \<Longrightarrow> clash b a" and irr: "\<And>a. \<not> clash a a"
    and uniq: "\<And>x. x \<in> set xs \<Longrightarrow> sel x \<Longrightarrow> x = r" and new: "\<not> (\<exists>b\<in>set xs. clash (f r) b)"
  shows "clash_free clash (map (\<lambda>x. if sel x then f x else x) xs)"
proof -
  have sub: "set (map (\<lambda>x. if sel x then f x else x) xs) \<subseteq> insert (f r) (set xs)"
    using uniq by auto
  have "\<not> clash a b" if "a \<in> insert (f r) (set xs)" and "b \<in> insert (f r) (set xs)" for a b
  proof (cases "a = f r")
    case True
    with that(2) new irr show ?thesis by auto
  next
    case a: False
    show ?thesis
    proof (cases "b = f r")
      case True
      with a that(1) new sym [of a b] show ?thesis by auto
    next
      case False
      with a that free show ?thesis by (simp add: clash_free_def)
    qed
  qed
  with sub show ?thesis unfolding clash_free_def by (meson subsetD)
qed

lemma list_all_update:
  assumes "list_all P xs" and "\<And>x. x \<in> set xs \<Longrightarrow> sel x \<Longrightarrow> x = r" and "P (f r)"
  shows "list_all P (map (\<lambda>x. if sel x then f x else x) xs)"
  using assms by (auto simp: list_all_iff)

lemma unique_selection:
  assumes "distinct (map key xs)" and "\<And>x. sel x \<Longrightarrow> key x = i" and "find sel xs = Some r"
    and "x \<in> set xs" and "sel x"
  shows "x = r"
  using find_unique_key [OF assms(1,4), of r] find_Some_mem [OF assms(3)] assms(2,5) by auto

subsection \<open>Every statement keeps the invariant\<close>

lemma keeps_update_bank:
  assumes "\<And>r. sel r \<Longrightarrow> ba_ID r = i" and "\<And>r. ba_ID (f r) = ba_ID r"
  shows "keeps wd_inv (update_bank sel f)"
proof (rule keepsI)
  fix w :: "'m withdrawal_db_scheme" and r w'
  assume inv: "wd_inv w" and run: "update_bank sel f w = (r, w')"
  show "wd_inv w'"
  proof (cases r)
    case (Inl e)
    with inv run show ?thesis by (auto simp: update_bank_def split: sum.splits)
  next
    case (Inr a)
    let ?bs = "bank_accounts w"
    let ?rows = "map (\<lambda>x. if sel x then f x else x) ?bs"
    from Inr run obtain r0 where r0: "find sel ?bs = Some r0" "bank_check (f r0) = Inr ()"
        "\<not> primary_taken (f r0) ?bs" and w': "w' = w\<lparr>bank_accounts := ?rows\<rparr>"
      by (auto simp: update_bank_def update_one_Inr bindE_eq_Inr split: sum.splits)
    have ok: "banks_ok ?bs" using inv by (simp add: wd_inv_def)
    then have uniq: "\<And>x. x \<in> set ?bs \<Longrightarrow> sel x \<Longrightarrow> x = r0"
      using unique_selection [of ba_ID ?bs sel i] r0(1) assms(1) by (auto simp: banks_ok_def)
    have "banks_ok ?rows"
      unfolding banks_ok_def
    proof (intro conjI)
      show "distinct (map ba_ID ?rows)" using ok assms(2) by (simp add: map_update_key banks_ok_def del: map_map)
      show "list_all (\<lambda>a. bank_check a = Inr ()) ?rows"
        by (rule list_all_update [where P = "\<lambda>a. bank_check a = Inr ()" and f = f and r = r0, OF _ uniq r0(2)]) (use ok in \<open>simp_all add: banks_ok_def\<close>)
      show "clash_free bank_clash ?rows"
        by (rule clash_free_update [where f = f and r = r0, OF _ bank_clash_sym uniq])
          (use ok r0(3) in \<open>simp_all add: banks_ok_def primary_taken_clash\<close>)
    qed
    with inv show ?thesis by (simp add: wd_inv_def w')
  qed
qed

lemma keeps_bank_updates [inv_intros]:
  "keeps wd_inv (UpdateBankRow a v)" "keeps wd_inv (SetBankVerified i t)" "keeps wd_inv (MakePrimary i m t)"
  "keeps wd_inv (ArchiveBankRow i t)"
  unfolding UpdateBankRow_def SetBankVerified_def MakePrimary_def ArchiveBankRow_def
  by (rule keeps_update_bank; simp)+

lemma bank_check_primary: "bank_check (r\<lparr>ba_IsPrimary := b, ba_UpdatedAt := t\<rparr>) = bank_check r"
  by (simp add: bank_check_def)

lemma keeps_ClearPrimary [inv_intros]: "keeps wd_inv (ClearPrimary m t)"
proof (rule keepsI)
  fix w :: "'m withdrawal_db_scheme" and r w'
  assume inv: "wd_inv w" and run: "ClearPrimary m t w = (r, w')"
  let ?sel = "\<lambda>r. ba_MerchantID r = m \<and> ba_IsPrimary r \<and> ba_Status r = BankVerified"
  let ?f = "\<lambda>r. r\<lparr>ba_IsPrimary := False, ba_UpdatedAt := t\<rparr>"
  let ?rows = "map (\<lambda>r. if ?sel r then ?f r else r) (bank_accounts w)"
  have w': "w' = w\<lparr>bank_accounts := ?rows\<rparr>" using run by (simp add: ClearPrimary_def)
  have ok: "banks_ok (bank_accounts w)" using inv by (simp add: wd_inv_def)
  have "banks_ok ?rows"
    unfolding banks_ok_def
  proof (intro conjI)
    show "distinct (map ba_ID ?rows)" using ok by (simp add: map_update_key banks_ok_def del: map_map)
    show "list_all (\<lambda>a. bank_check a = Inr ()) ?rows"
      using ok by (auto simp: banks_ok_def list_all_iff bank_check_primary)
    show "clash_free bank_clash ?rows"
      using ok by (auto simp: banks_ok_def clash_free_def bank_clash_def)
  qed
  with inv show "wd_inv w'" by (simp add: wd_inv_def w')
qed

lemma keeps_InsertBankAccount [inv_intros]: "keeps wd_inv (InsertBankAccount a)"
proof (rule keepsI)
  fix w :: "'m withdrawal_db_scheme" and r w'
  assume inv: "wd_inv w" and run: "InsertBankAccount a w = (r, w')"
  show "wd_inv w'"
  proof (cases "w' = w")
    case False
    then have w': "w' = w\<lparr>bank_accounts := bank_accounts w @ [a]\<rparr>" and ok: "bank_check a = Inr ()"
      "ba_ID a \<notin> ba_ID ` set (bank_accounts w)" "\<not> primary_taken a (bank_accounts w)"
      using run by (auto simp: InsertBankAccount_def bindE_eq_Inr split: sum.splits)
    have "clash_free bank_clash (bank_accounts w @ [a])"
      by (rule clash_free_snoc [OF _ bank_clash_sym])
        (use inv ok(3) in \<open>simp_all add: wd_inv_def banks_ok_def primary_taken_clash\<close>)
    with inv ok(1,2) show ?thesis by (simp add: wd_inv_def banks_ok_def w')
  qed (use inv in simp)
qed
lemma keeps_wd_locks [inv_intros]: "keeps wd_inv (UpsertWithdrawalLock l)"
  by (rule keepsI) (auto simp: UpsertWithdrawalLock_def wd_inv_def Let_def split: if_splits option.splits)

lemma keeps_InsertQuote [inv_intros]: "keeps wd_inv (InsertQuote q)"
proof (rule keepsI)
  fix w :: "'m withdrawal_db_scheme" and r w'
  assume inv: "wd_inv w" and run: "InsertQuote q w = (r, w')"
  show "wd_inv w'"
  proof (cases "w' = w")
    case False
    then have "w' = w\<lparr>withdrawal_quotes := withdrawal_quotes w @ [q]\<rparr>" and "quote_check q = Inr ()"
      and "qt_ID q \<notin> qt_ID ` set (withdrawal_quotes w)" and "quote_key q \<notin> quote_key ` set (withdrawal_quotes w)"
      using run by (auto simp: InsertQuote_def bindE_eq_Inr split: sum.splits)
    with inv show ?thesis by (simp add: wd_inv_def quotes_ok_def)
  qed (use inv in simp)
qed

lemma quotes_ok_update:
  assumes "quotes_ok qs" and "\<And>q. qt_ID (f q) = qt_ID q" and "\<And>q. quote_key (f q) = quote_key q"
    and "\<And>q. quote_check q = Inr () \<Longrightarrow> quote_check (f q) = Inr ()"
  shows "quotes_ok (map (\<lambda>q. if sel q then f q else q) qs)"
proof -
  have "list_all (\<lambda>q. quote_check q = Inr ()) (map (\<lambda>q. if sel q then f q else q) qs)"
    using assms(1,4) by (auto simp: quotes_ok_def list_all_iff)
  with assms show ?thesis by (simp add: quotes_ok_def map_update_key del: map_map)
qed

lemma keeps_quote_updates [inv_intros]:
  "keeps wd_inv (InvalidateQuotesForBank b t)" "keeps wd_inv (InvalidateQuotesForMerchant m t)"
  "keeps wd_inv (MarkQuoteConsumed i wid t)"
  by (rule keepsI, auto simp: InvalidateQuotesForBank_def InvalidateQuotesForMerchant_def invalidate_quotes_def
      MarkQuoteConsumed_def wd_inv_def update_one_Inr quote_check_def quote_key_def
      intro!: quotes_ok_update split: sum.splits)+

lemma wd_clash_allocations: "wd_clash (x\<lparr>wd_Allocations := a\<rparr>) y = wd_clash x y"
  by (simp add: wd_clash_def provider_key_def)

lemma keeps_InsertWithdrawal [inv_intros]: "keeps wd_inv (InsertWithdrawal x)"
proof (rule keepsI)
  fix w :: "'m withdrawal_db_scheme" and r w'
  assume inv: "wd_inv w" and run: "InsertWithdrawal x w = (r, w')"
  let ?x = "x\<lparr>wd_Allocations := []\<rparr>"
  show "wd_inv w'"
  proof (cases "w' = w")
    case False
    then have w': "w' = w\<lparr>withdrawals := withdrawals w @ [?x]\<rparr>" and ok: "withdrawal_check x = Inr ()"
      "wd_ID x \<notin> wd_ID ` set (withdrawals w)" "wd_QuoteID x \<notin> wd_QuoteID ` set (withdrawals w)"
      "withdrawal_key x \<notin> withdrawal_key ` set (withdrawals w)" "provider_refs_free x (withdrawals w) = Inr ()"
      using run by (auto simp: InsertWithdrawal_def bindE_eq_Inr split: sum.splits)
    have "clash_free wd_clash (withdrawals w @ [?x])"
      by (rule clash_free_snoc [OF _ wd_clash_sym])
        (use inv ok(5) in \<open>simp_all add: wd_inv_def withdrawals_ok_def provider_refs_clash wd_clash_allocations\<close>)
    with inv ok show ?thesis
      by (simp add: wd_inv_def withdrawals_ok_def w' withdrawal_check_def withdrawal_key_def alloc_refs_ok_more(1))
  qed (use inv in simp)
qed

lemma saved_columns_keys [simp]:
  "wd_ID (saved_columns x r) = wd_ID r" "wd_QuoteID (saved_columns x r) = wd_QuoteID r"
  "withdrawal_key (saved_columns x r) = withdrawal_key r" "wd_Status (saved_columns x r) = wd_Status x"
  by (simp_all add: saved_columns_def withdrawal_key_def)

lemma keeps_SaveWithdrawal [inv_intros]: "keeps wd_inv (SaveWithdrawal x)"
proof (rule keepsI)
  fix w :: "'m withdrawal_db_scheme" and r w'
  assume inv: "wd_inv w" and run: "SaveWithdrawal x w = (r, w')"
  let ?ws = "withdrawals w"
  let ?sel = "\<lambda>r. wd_ID r = wd_ID x"
  let ?rows = "map (\<lambda>r. if ?sel r then saved_columns x r else r) ?ws"
  show "wd_inv w'"
  proof (cases "w' = w")
    case False
    then obtain r0 where r0: "find ?sel ?ws = Some r0" "withdrawal_check (saved_columns x r0) = Inr ()"
        "provider_refs_free (saved_columns x r0) ?ws = Inr ()" and w': "w' = w\<lparr>withdrawals := ?rows\<rparr>"
      using run by (auto simp: SaveWithdrawal_def update_one_Inr bindE_eq_Inr split: sum.splits)
    have ok: "withdrawals_ok ?ws" using inv by (simp add: wd_inv_def)
    then have uniq: "\<And>y. y \<in> set ?ws \<Longrightarrow> ?sel y \<Longrightarrow> y = r0"
      using unique_selection [of wd_ID ?ws ?sel "wd_ID x"] r0(1) by (auto simp: withdrawals_ok_def)
    have "withdrawals_ok ?rows"
      unfolding withdrawals_ok_def
    proof (intro conjI)
      show "distinct (map wd_ID ?rows)" "distinct (map wd_QuoteID ?rows)" "distinct (map withdrawal_key ?rows)"
        using ok by (simp_all add: map_update_key withdrawals_ok_def del: map_map)
      show "list_all (\<lambda>y. withdrawal_check y = Inr ()) ?rows"
        by (rule list_all_update [where P = "\<lambda>y. withdrawal_check y = Inr ()" and f = "saved_columns x"
              and r = r0, OF _ uniq r0(2)]) (use ok in \<open>simp_all add: withdrawals_ok_def\<close>)
      show "clash_free wd_clash ?rows"
        by (rule clash_free_update [where f = "saved_columns x" and r = r0, OF _ wd_clash_sym uniq])
          (use ok r0(3) in \<open>simp_all add: withdrawals_ok_def provider_refs_clash\<close>)
    qed
    moreover have "map wd_ID ?rows = map wd_ID ?ws"
      by (rule map_update_key) simp
    ultimately show ?thesis using inv alloc_refs_ok_more(2) [of ?rows ?ws] by (simp add: wd_inv_def w' del: map_map)
  qed (use inv in simp)
qed

lemma keeps_InsertAllocation [inv_intros]: "keeps wd_inv (InsertAllocation a)"
proof (rule keepsI)
  fix w :: "'m withdrawal_db_scheme" and r w'
  assume inv: "wd_inv w" and run: "InsertAllocation a w = (r, w')"
  show "wd_inv w'"
  proof (cases "w' = w")
    case False
    then have "w' = w\<lparr>allocations := allocations w @ [a]\<rparr>" and "allocation_check a = Inr ()"
      and "al_ID a \<notin> al_ID ` set (allocations w)"
      and "\<not> list_ex (\<lambda>b. al_WithdrawalID b = al_WithdrawalID a \<and> al_LineNo b = al_LineNo a) (allocations w)"
      and "al_WithdrawalID a \<in> wd_ID ` set (withdrawals w)"
      using run by (auto simp: InsertAllocation_def bindE_eq_Inr split: sum.splits)
    with inv show ?thesis by (auto simp: wd_inv_def allocations_ok_def list_ex_iff alloc_refs_ok_more(3))
  qed (use inv in simp)
qed
subsection \<open>The ledger statements leave the withdrawal tables alone\<close>

lemma update_lots_more: "update_lots sel f w = (r, w') \<Longrightarrow> ledger_db.more w' = ledger_db.more w"
  by (auto simp: update_lots_def split: option.splits sum.splits)

lemma PostJournal_more: "PostJournal p w = (r, w') \<Longrightarrow> rows_ok w \<Longrightarrow> ledger_db.more w' = ledger_db.more w"
  by (erule PostJournal_cases) (simp_all add: posted_def after_legs_def)

lemma withdrawal_tables_more:
  fixes w :: "'m withdrawal_db_scheme"
  assumes "ledger_db.more w' = ledger_db.more w"
  shows "bank_accounts w' = bank_accounts w" and "withdrawal_quotes w' = withdrawal_quotes w"
    and "withdrawals w' = withdrawals w" and "allocations w' = allocations w"
    and "withdrawal_locks w' = withdrawal_locks w" and "payouts w' = payouts w"
  using assms by (cases w; cases w'; simp)+

lemma keeps_wd_ledger_op:
  assumes "keeps ledger_inv m" and "\<And>w r w'. m w = (r, w') \<Longrightarrow> rows_ok w \<Longrightarrow> ledger_db.more w' = ledger_db.more w"
  shows "keeps wd_inv m"
proof (rule keepsI)
  fix w :: "'a withdrawal_db_scheme" and r w'
  assume inv: "wd_inv w" and run: "m w = (r, w')"
  have "ledger_inv w" using inv by (simp add: wd_inv_def)
  with withdrawal_tables_more [OF assms(2) [OF run ledger_inv_rows]] keepsD [OF assms(1) run] inv
  show "wd_inv w'" by (simp add: wd_inv_def)
qed

lemma keeps_wd_ledger [inv_intros]:
  "keeps wd_inv (PostJournal p)" "keeps wd_inv (EnsureBalance m mode t)"
  "keeps wd_inv (ConsumeLotRemaining l n t)" "keeps wd_inv (RestoreLotRemaining l n t)"
  by (rule keeps_wd_ledger_op, rule inv_intros, (auto dest: PostJournal_more update_lots_more
      simp: EnsureBalance_def ConsumeLotRemaining_def RestoreLotRemaining_def split: if_splits)[1])+

lemma keeps_call_create [inv_intros]: "keeps wd_inv (call_create p i)"
  by (rule keepsI) (auto simp: call_create_def wd_inv_def)

lemma keeps_InsertSnapshot_wd [inv_intros]: "keeps wd_inv (InsertSnapshot s)"
  by (rule keepsI) (auto simp: InsertSnapshot_def wd_inv_def split: if_splits)

lemma keeps_wd_lots [inv_intros]:
  "keeps wd_inv (InsertSettlementLot l)" "keeps wd_inv (UpdateLotAfterCapture i j st n t)"
  "keeps wd_inv (UpdateLotAfterRelease i j st n t)"
  by (rule keeps_wd_ledger_op, rule inv_intros, (auto dest: update_lots_more
      simp: InsertSettlementLot_def UpdateLotAfterCapture_def UpdateLotAfterRelease_def split: if_splits sum.splits)[1])+

lemma keeps_case_list [inv_intros]:
  "keeps P a \<Longrightarrow> (\<And>x xs. keeps P (f x xs)) \<Longrightarrow> keeps P (case v of [] \<Rightarrow> a | x # xs \<Rightarrow> f x xs)"
  by (cases v) auto

subsection \<open>What every statement keeps, every handler keeps\<close>

locale wd_statements =
  fixes P :: "'m withdrawal_db_scheme \<Rightarrow> bool"
  assumes draws: "P w \<Longrightarrow> P (w\<lparr>next_id := n\<rparr>)"
    and bank_statements: "keeps P (InsertBankAccount a)" "keeps P (UpdateBankRow a v)" "keeps P (SetBankVerified i t)"
      "keeps P (MakePrimary i m t)" "keeps P (ArchiveBankRow i t)" "keeps P (ClearPrimary m t)"
      "keeps P (UpsertWithdrawalLock l)"
    and quote_statements: "keeps P (InsertQuote q)" "keeps P (InvalidateQuotesForBank i t)"
      "keeps P (InvalidateQuotesForMerchant m t)" "keeps P (MarkQuoteConsumed i j t)"
    and withdrawal_statements: "keeps P (InsertWithdrawal x)" "keeps P (SaveWithdrawal x)" "keeps P (InsertAllocation al)"
    and ledger_statements: "keeps P (PostJournal p)" "keeps P (EnsureBalance m mode t)"
      "keeps P (ConsumeLotRemaining i n' t)" "keeps P (RestoreLotRemaining i n' t)" "keeps P (InsertSettlementLot lot)"
      "keeps P (UpdateLotAfterCapture i j st n' t)" "keeps P (UpdateLotAfterRelease i j st n' t)"
    and other_statements: "keeps P (InsertSnapshot sn)" "keeps P (call_create dp c)"
begin

lemmas statements = bank_statements quote_statements withdrawal_statements ledger_statements other_statements

lemma drawing: "keeps P new_id"
  by (rule keeps_new_id) (rule draws)

lemma transaction: "keeps P m \<Longrightarrow> keeps P (with_tx m)"
  by (rule keeps_with_tx) (assumption, rule draws)

lemmas basic = inv_intros statements drawing transaction

lemma bank_handlers:
  "keeps P (CreateBankAccount s st bc bn h an mp)" "keeps P (VerifyBankAccount st b)"
  "keeps P (MakePrimaryBank st b)" "keeps P (UpdateBankAccount s st b v bc bn h an)"
  "keeps P (ArchiveBankAccount st b)"
  unfolding CreateBankAccount_def VerifyBankAccount_def MakePrimaryBank_def UpdateBankAccount_def
    ArchiveBankAccount_def Let_def
  by (intro basic)+

lemma quoting: "keeps P (CreateQuote s st k n b mode)"
  unfolding CreateQuote_def fee_snapshot_id_def SnapshotWithdrawal_def Let_def by (intro basic)

lemma allocating: "keeps P (insert_allocations wid now ok n sls)"
  by (induction sls arbitrary: ok n) (simp, intro basic, simp, intro basic)

lemma request_body: "keeps P (request_tx s m st mode q auto h now)"
  unfolding request_tx_def consume_slices_def Let_def by (intro basic allocating)

lemma outcomes:
  "keeps P (completeWithdrawal i ref fee now)" "keeps P (failAndRelease i reason)"
  "keeps P (markUnknown i ext now)" "keeps P (bindProviderRef i ref ext)" "keeps P (scheduleLookup i)"
  "keeps P (disburse_begin i now)" "keeps P (releaseReserve x now)" "keeps P (amend i f)"
  unfolding completeWithdrawal_def complete_tx_def recaptureReserve_def post_complete_def post_fee_settle_def
    failAndRelease_def fail_tx_def releaseReserve_def restore_lots_def markUnknown_def bindProviderRef_def
    scheduleLookup_def disburse_begin_def amend_def Let_def
  by (intro basic)+

lemma lookups:
  "keeps P (applyProviderCreateResult i res)" "keeps P (applyLookup i d)"
  "keeps P (DisburseWithdrawal s i)" "keeps P (HandleDisbursementCallback s ref st fee net)"
  unfolding applyProviderCreateResult_def applyLookup_def DisburseWithdrawal_def HandleDisbursementCallback_def Let_def
  by (intro basic outcomes)+

lemma resolutions: "keeps P (ResolveUnknownOutcome s i)"
  unfolding resolve_by_external_def ResolveUnknownOutcome_def Let_def
  by (intro basic outcomes lookups)

lemma resolving: "keeps P (resolve_each s xs n)"
  by (induction xs arbitrary: n) (auto intro!: basic resolutions)

lemma requests:
  "keeps P (RequestWithdrawal s st q k mode)" "keeps P (AdminReview s i act reason actor)"
  "keeps P (ResolveDueUnknowns s limit)"
  unfolding RequestWithdrawal_def disburse_approved_def AdminReview_def review_tx_def review_row_def
    ResolveDueUnknowns_def Let_def
  by (intro basic outcomes lookups request_body resolving)+

lemma captures: "keeps P (PostPaymentCapture ls inp)"
  unfolding PostPaymentCapture_def capture_commit_def capture_tx_def or_new_id_def Let_def
  by (intro basic)

lemma releasing: "keeps P (release_each ls now n)"
  by (induction ls arbitrary: n) (auto intro!: basic simp: releaseLot_def Let_def)

lemma releases: "keeps P (ReleaseDueSettlements limit)"
  unfolding ReleaseDueSettlements_def by (intro basic releasing)

lemmas handlers = bank_handlers quoting requests lookups resolutions captures releases

end

interpretation sound: wd_statements "wd_inv :: 'm withdrawal_db_scheme \<Rightarrow> bool"
  by unfold_locales (simp, (rule inv_intros)+)

subsection \<open>Runs of the service\<close>

text \<open>
  One step: a call of a handler with any arguments, whatever it answers, or the passage of time. A
  provider callback may come at any moment and any number of times.
\<close>

inductive wd_step :: "WithdrawalService \<Rightarrow> withdrawal_db \<Rightarrow> withdrawal_db \<Rightarrow> bool" for s where
  create_bank: "CreateBankAccount s st bc bn h an mp w = (ra, w') \<Longrightarrow> wd_step s w w'"
| verify_bank: "VerifyBankAccount st b w = (ra, w') \<Longrightarrow> wd_step s w w'"
| make_primary: "MakePrimaryBank st b w = (ra, w') \<Longrightarrow> wd_step s w w'"
| update_bank: "UpdateBankAccount s st b v bc bn h an w = (ra, w') \<Longrightarrow> wd_step s w w'"
| archive_bank: "ArchiveBankAccount st b w = (ra, w') \<Longrightarrow> wd_step s w w'"
| quote: "CreateQuote s st k n b mode w = (rq, w') \<Longrightarrow> wd_step s w w'"
| request: "RequestWithdrawal s st q k mode w = (rw, w') \<Longrightarrow> wd_step s w w'"
| disburse: "DisburseWithdrawal s i w = (ru, w') \<Longrightarrow> wd_step s w w'"
| callback: "HandleDisbursementCallback s ref word fee net w = (ru, w') \<Longrightarrow> wd_step s w w'"
| resolve: "ResolveUnknownOutcome s i w = (ru, w') \<Longrightarrow> wd_step s w w'"
| resolve_due: "ResolveDueUnknowns s limit w = (ri, w') \<Longrightarrow> wd_step s w w'"
| review: "AdminReview s i act reason actor w = (rw, w') \<Longrightarrow> wd_step s w w'"
| capture: "PostPaymentCapture ls inp w = (rc, w') \<Longrightarrow> wd_step s w w'"
| release: "ReleaseDueSettlements limit w = (ri, w') \<Longrightarrow> wd_step s w w'"
| tick: "clock w \<le> t \<Longrightarrow> wd_step s w (w\<lparr>clock := t\<rparr>)"

locale wd_history = wd_statements P for P :: "withdrawal_db \<Rightarrow> bool" +
  assumes ticks: "P w \<Longrightarrow> P (w\<lparr>clock := t\<rparr>)"
begin

lemma step: "wd_step s w w' \<Longrightarrow> P w \<Longrightarrow> P w'"
  by (induction rule: wd_step.induct) (erule keepsD [rotated], assumption, rule handlers | erule ticks)+

lemma run: "(wd_step s)\<^sup>*\<^sup>* w w' \<Longrightarrow> P w \<Longrightarrow> P w'"
  by (induction rule: rtranclp_induct) (auto intro: step)

end

lemma wd_inv_clock: "wd_inv w \<Longrightarrow> wd_inv (w\<lparr>clock := t\<rparr>)"
  using ledger_inv_cong [of w "w\<lparr>clock := t\<rparr>"] by (simp add: wd_inv_def)

interpretation sound_run: wd_history wd_inv
  by unfold_locales (rule wd_inv_clock)


end
