(* ===== verification/Withdrawal_Flow.thy ===== *)
theory Withdrawal_Flow
  imports Withdrawal_Invariant
begin

text \<open>
  What the withdrawal handlers do to the money: the reserve of a request moves exactly the amount out
  of the available wallet and out of the oldest lots, a rejection puts both back, a completion is
  booked once, and replays change nothing.
\<close>

subsection \<open>Lots: consuming and restoring slices\<close>

definition consume_one :: "time \<Rightarrow> AllocationSlice \<Rightarrow> SettlementLot \<Rightarrow> SettlementLot" where
  "consume_one now s l =
    (if lot_ID l = sl_SettlementLotID s \<and> lot_RemainingAmountIDR l \<ge> sl_AmountIDR s \<and>
        (lot_Status l = LotAvailable \<or> lot_Status l = LotPartiallyConsumed)
     then l\<lparr>lot_RemainingAmountIDR := lot_RemainingAmountIDR l - sl_AmountIDR s,
        lot_Status := (if lot_RemainingAmountIDR l - sl_AmountIDR s \<le> 0 then LotConsumed else LotPartiallyConsumed),
        lot_UpdatedAt := now\<rparr> else l)"

definition restore_one :: "time \<Rightarrow> Allocation \<Rightarrow> SettlementLot \<Rightarrow> SettlementLot" where
  "restore_one now a l =
    (if lot_ID l = al_SettlementLotID a
     then l\<lparr>lot_RemainingAmountIDR := lot_RemainingAmountIDR l + al_AmountIDR a,
        lot_Status := (if lot_RemainingAmountIDR l + al_AmountIDR a \<ge> lot_OriginalAmountIDR l
          then LotAvailable else LotPartiallyConsumed),
        lot_UpdatedAt := now\<rparr> else l)"

lemma update_lots_Inr: "update_lots sel f w = (Inr u, w') \<Longrightarrow>
    w' = w\<lparr>lots := map (\<lambda>l. if sel l then f l else l) (lots w)\<rparr>"
  by (auto simp: update_lots_def dest: find_Some_mem split: option.splits sum.splits)

lemma ConsumeLotRemaining_Inr:
  "ConsumeLotRemaining (sl_SettlementLotID s) (sl_AmountIDR s) now w = (Inr u, w') \<Longrightarrow>
     w' = w\<lparr>lots := map (consume_one now s) (lots w)\<rparr>"
  unfolding ConsumeLotRemaining_def by (drule update_lots_Inr) (simp add: consume_one_def [abs_def])

lemma RestoreLotRemaining_Inr:
  "RestoreLotRemaining (al_SettlementLotID a) (al_AmountIDR a) now w = (Inr u, w') \<Longrightarrow>
     w' = w\<lparr>lots := map (restore_one now a) (lots w)\<rparr>"
  unfolding RestoreLotRemaining_def by (drule update_lots_Inr) (simp add: restore_one_def [abs_def])

lemma consume_slices_Inr:
  "consume_slices now sls w = (Inr u, w') \<Longrightarrow> w' = w\<lparr>lots := map (fold (consume_one now) sls) (lots w)\<rparr>"
proof (induction sls arbitrary: w)
  case (Cons s sls)
  then obtain w1 where "w1 = w\<lparr>lots := map (consume_one now s) (lots w)\<rparr>" and "consume_slices now sls w1 = (Inr u, w')"
    by (auto simp: consume_slices_def bindS_eq_Inr dest: ConsumeLotRemaining_Inr)
  with Cons.IH show ?case by (fastforce simp: comp_def)
qed (simp add: consume_slices_def)

lemma restore_lots_Inr:
  "restore_lots now as w = (Inr u, w') \<Longrightarrow> w' = w\<lparr>lots := map (fold (restore_one now) as) (lots w)\<rparr>"
proof (induction as arbitrary: w)
  case (Cons a as)
  then obtain w1 where "w1 = w\<lparr>lots := map (restore_one now a) (lots w)\<rparr>" and "restore_lots now as w1 = (Inr u, w')"
    by (auto simp: restore_lots_def bindS_eq_Inr dest: RestoreLotRemaining_Inr)
  with Cons.IH show ?case by (fastforce simp: comp_def)
qed (simp add: restore_lots_def)

text \<open>What the slices take from a lot, and what the allocation rows give back.\<close>

definition slice_taken :: "AllocationSlice list \<Rightarrow> string \<Rightarrow> int" where
  "slice_taken sls i = sum_list (map sl_AmountIDR (filter (\<lambda>s. sl_SettlementLotID s = i) sls))"

definition allocation_taken :: "Allocation list \<Rightarrow> string \<Rightarrow> int" where
  "allocation_taken as i = sum_list (map al_AmountIDR (filter (\<lambda>a. al_SettlementLotID a = i) as))"

lemma restore_fold:
  "lot_ID (fold (restore_one now) as l) = lot_ID l \<and>
   lot_RemainingAmountIDR (fold (restore_one now) as l) = lot_RemainingAmountIDR l + allocation_taken as (lot_ID l)"
  by (induction as arbitrary: l) (auto simp: restore_one_def allocation_taken_def)

lemma consume_other: "\<forall>s\<in>set sls. sl_SettlementLotID s \<noteq> lot_ID l \<Longrightarrow> fold (consume_one now) sls l = l"
  by (induction sls arbitrary: l) (auto simp: consume_one_def)

lemma consume_one_id [simp]: "lot_ID (consume_one now s l) = lot_ID l"
  by (simp add: consume_one_def)

lemma consume_fold:
  assumes "distinct (map sl_SettlementLotID sls)"
    and "\<And>s. s \<in> set sls \<Longrightarrow> sl_SettlementLotID s = lot_ID l \<Longrightarrow>
      sl_AmountIDR s \<le> lot_RemainingAmountIDR l \<and> (lot_Status l = LotAvailable \<or> lot_Status l = LotPartiallyConsumed)"
  shows "lot_ID (fold (consume_one now) sls l) = lot_ID l \<and>
    lot_RemainingAmountIDR (fold (consume_one now) sls l) = lot_RemainingAmountIDR l - slice_taken sls (lot_ID l)"
  using assms
proof (induction sls)
  case (Cons s sls)
  show ?case
  proof (cases "sl_SettlementLotID s = lot_ID l")
    case True
    then have "\<forall>t\<in>set sls. sl_SettlementLotID t \<noteq> lot_ID (consume_one now s l)" using Cons.prems(1) by force
    then have "fold (consume_one now) sls (consume_one now s l) = consume_one now s l" by (rule consume_other)
    moreover have "slice_taken sls (lot_ID l) = 0"
    proof -
      have "filter (\<lambda>t. sl_SettlementLotID t = lot_ID l) sls = []"
        using Cons.prems(1) True by (auto simp: filter_empty_conv image_iff)
      then show ?thesis by (simp add: slice_taken_def)
    qed
    moreover have "lot_RemainingAmountIDR (consume_one now s l) = lot_RemainingAmountIDR l - sl_AmountIDR s"
      using True Cons.prems(2) [of s] by (simp add: consume_one_def)
    ultimately show ?thesis
      using True by (simp add: slice_taken_def)
  next
    case False
    then have "consume_one now s l = l" by (simp add: consume_one_def)
    moreover have "lot_ID (fold (consume_one now) sls l) = lot_ID l \<and>
        lot_RemainingAmountIDR (fold (consume_one now) sls l) = lot_RemainingAmountIDR l - slice_taken sls (lot_ID l)"
      by (rule Cons.IH) (use Cons.prems in auto)
    ultimately show ?thesis using False by (simp add: slice_taken_def)
  qed
qed (simp add: slice_taken_def)

lemma fifo_spec_lots:
  "s \<in> set (fifo_spec r ls) \<Longrightarrow>
     \<exists>l\<in>set ls. sl_SettlementLotID s = lot_ID l \<and> sl_AmountIDR s \<le> lot_RemainingAmountIDR l \<and> sl_Source s = lot_Source l"
  by (induction ls arbitrary: r) (auto simp: slice_of_def split: if_splits)

lemma fifo_spec_ids: "distinct (map lot_ID ls) \<Longrightarrow> distinct (map sl_SettlementLotID (fifo_spec r ls))"
proof (induction ls arbitrary: r)
  case (Cons l ls)
  have "lot_ID l \<notin> sl_SettlementLotID ` set (fifo_spec q ls)" for q
    using Cons.prems fifo_spec_lots [of _ q ls] by fastforce
  with Cons show ?case by (simp add: slice_of_def)
qed simp

text \<open>The slices of an allocation over distinct lots: distinct lots, open, with enough in them.\<close>

lemma allocation_slices:
  assumes "AllocateWithdrawalFIFO n ls = Inr alloc" and "distinct (map lot_ID ls)"
  shows "distinct (map sl_SettlementLotID (wa_Allocations alloc))" and "slices_total (wa_Allocations alloc) = n" and "0 < n"
    and "\<And>s. s \<in> set (wa_Allocations alloc) \<Longrightarrow> \<exists>l\<in>set ls. sl_SettlementLotID s = lot_ID l \<and>
      sl_AmountIDR s \<le> lot_RemainingAmountIDR l \<and> lot_eligible l \<and> sl_Source s = lot_Source l \<and> 0 < sl_AmountIDR s"
proof -
  note wa = AllocateWithdrawalFIFO_slices [OF assms(1)]
  have dist: "distinct (map lot_ID (fifo_order ls))"
  proof -
    have "distinct (map lot_ID (filter lot_eligible ls))" using assms(2) by (rule distinct_map_filter)
    moreover have "mset (map lot_ID (fifo_order ls)) = mset (map lot_ID (filter lot_eligible ls))"
      by (simp add: fifo_order_def del: mset_filter)
    ultimately show ?thesis by (metis mset_eq_imp_distinct_iff)
  qed
  show "distinct (map sl_SettlementLotID (wa_Allocations alloc))" unfolding wa(3) by (rule fifo_spec_ids [OF dist])
  show "slices_total (wa_Allocations alloc) = n"
    unfolding wa(3) by (rule fifo_spec_total) (use wa fifo_order_eligible in auto)
  show "0 < n" by (rule wa(1))
  fix s assume "s \<in> set (wa_Allocations alloc)"
  then have s: "s \<in> set (fifo_spec n (fifo_order ls))" by (simp add: wa(3))
  from fifo_spec_lots [OF s] fifo_spec_positive [OF fifo_order_eligible s]
  show "\<exists>l\<in>set ls. sl_SettlementLotID s = lot_ID l \<and> sl_AmountIDR s \<le> lot_RemainingAmountIDR l \<and>
    lot_eligible l \<and> sl_Source s = lot_Source l \<and> 0 < sl_AmountIDR s" by auto
qed
subsection \<open>The reserve of a request\<close>

lemma wd_journal_fields [simp]:
  "pj_JournalID (wd_journal jid m st mode src wid t ref d n now legs) = jid"
  "pj_MerchantID (wd_journal jid m st mode src wid t ref d n now legs) = m"
  "pj_PaymentMode (wd_journal jid m st mode src wid t ref d n now legs) = mode"
  "pj_Source (wd_journal jid m st mode src wid t ref d n now legs) = src"
  "pj_TemplateCode (wd_journal jid m st mode src wid t ref d n now legs) = t"
  "pj_ReferenceType (wd_journal jid m st mode src wid t ref d n now legs) = ''WITHDRAWAL''"
  "pj_ReferenceID (wd_journal jid m st mode src wid t ref d n now legs) = wid"
  "pj_JournalReference (wd_journal jid m st mode src wid t ref d n now legs) = ref"
  "pj_IdempotencyKey (wd_journal jid m st mode src wid t ref d n now legs) = ref"
  "pj_PostedAt (wd_journal jid m st mode src wid t ref d n now legs) = now"
  "pj_Legs (wd_journal jid m st mode src wid t ref d n now legs) = legs"
  by (simp_all add: wd_journal_def)

text \<open>
  \<open>next_wd w\<close> is the id the next request draws, \<open>wd_unused\<close> says that the ledger holds no journal of
  a withdrawal with that id yet (identifiers are never drawn twice).
\<close>

definition next_wd :: "'m base_db_scheme \<Rightarrow> string" where
  "next_wd w = ''wd_'' @ id_gen w (next_id w)"

definition ref_unused :: "string \<Rightarrow> 'm ledger_db_scheme \<Rightarrow> bool" where
  "ref_unused r w \<longleftrightarrow> journal_by_reference r w = None \<and> journal_by_key r w = None"

lemma ref_unused_books: "same_books w w' \<Longrightarrow> ref_unused r w' = ref_unused r w"
  by (simp add: ref_unused_def same_books_reads)

lemma EnsureBalance_effect:
  assumes "EnsureBalance m mode now w = (r, w')"
  shows "abs_wallet w' = abs_wallet w \<and> lots w' = lots w \<and> journals w' = journals w \<and> next_id w' = next_id w \<and>
    id_gen w' = id_gen w \<and> clock w' = clock w \<and> stores w' = stores w \<and> ledger_db.more w' = ledger_db.more w"
  using assms
  by (auto simp: EnsureBalance_def abs_wallet_def GetBalance_def zero_balance_def fun_eq_iff split: if_splits option.splits)

lemma journal_reads_cong:
  "journals w' = journals w \<Longrightarrow> journal_by_reference r w' = journal_by_reference r w"
  "journals w' = journals w \<Longrightarrow> journal_by_key r w' = journal_by_key r w"
  by (simp_all add: journal_by_reference_def journal_by_key_def)

text \<open>The allocation rows of a successful loop.\<close>

lemma insert_allocations_False: "insert_allocations wid now False n sls w = (Inr ok, w') \<Longrightarrow> \<not> ok"
  by (induction sls arbitrary: n w) (auto simp: bindS_def)

lemma insert_allocations_True:
  assumes "insert_allocations wid now True n sls w = (Inr True, w')"
  shows "\<exists>k rows. w' = w\<lparr>next_id := k, allocations := allocations w @ rows\<rparr> \<and>
    map (\<lambda>a. (al_WithdrawalID a, al_SettlementLotID a, al_AmountIDR a)) rows =
      map (\<lambda>s. (wid, sl_SettlementLotID s, sl_AmountIDR s)) sls \<and>
    sorted (map al_LineNo rows) \<and> list_all (\<lambda>a. n \<le> al_LineNo a) rows"
  using assms
proof (induction sls arbitrary: n w)
  case Nil
  then have "w' = w\<lparr>next_id := next_id w, allocations := allocations w @ []\<rparr>" by simp
  then show ?case by (intro exI [of _ "next_id w"] exI [of _ "[]"]) simp
next
  case (Cons s sls)
  define a where "a = \<lparr>al_ID = ''wa_'' @ id_gen w (next_id w), al_WithdrawalID = wid,
    al_SettlementLotID = sl_SettlementLotID s, al_Source = sl_Source s, al_AmountIDR = sl_AmountIDR s,
    al_AvailableAt = sl_AvailableAt s, al_LineNo = n, al_CreatedAt = now\<rparr>"
  let ?w0 = "w\<lparr>next_id := Suc (next_id w)\<rparr>"
  have w1: "InsertAllocation a ?w0 = (Inr a, ?w0\<lparr>allocations := allocations w @ [a]\<rparr>)"
  proof (rule ccontr)
    assume "\<not> ?thesis"
    then obtain e where e: "InsertAllocation a ?w0 = (Inl e, ?w0)"
      by (auto simp: InsertAllocation_def split: sum.splits)
    then have "insert_allocations wid now False (n + 1) sls ?w0 = (Inr True, w')"
      using Cons.prems by (simp add: try_op_def a_def bindS_def)
    then show False using insert_allocations_False by blast
  qed
  then have "insert_allocations wid now True (n + 1) sls (?w0\<lparr>allocations := allocations w @ [a]\<rparr>) = (Inr True, w')"
    using Cons.prems by (simp add: try_op_def a_def bindS_def)
  from Cons.IH [OF this] obtain k rows where
    w': "w' = ?w0\<lparr>allocations := allocations w @ [a], next_id := k, allocations := (allocations w @ [a]) @ rows\<rparr>"
    and rows: "map (\<lambda>a. (al_WithdrawalID a, al_SettlementLotID a, al_AmountIDR a)) rows =
      map (\<lambda>s. (wid, sl_SettlementLotID s, sl_AmountIDR s)) sls"
    "sorted (map al_LineNo rows)" "list_all (\<lambda>a. n + 1 \<le> al_LineNo a) rows"
    by auto
  have "w' = w\<lparr>next_id := k, allocations := allocations w @ (a # rows)\<rparr>" using w' by simp
  moreover have "sorted (map al_LineNo (a # rows)) \<and> list_all (\<lambda>b. n \<le> al_LineNo b) (a # rows)"
    using rows(2,3) by (auto simp: list_all_iff a_def)
  ultimately show ?case using rows(1)
    by (intro exI [of _ k] exI [of _ "a # rows"]) (simp add: a_def)
qed

text \<open>An error that is only mapped before it is returned.\<close>

lemma try_op_Inr: "try_op m w = (Inr r, w') \<longleftrightarrow> m w = (r, w')"
  by (auto simp: try_op_def split: prod.splits)

lemma case_throw_Inr:
  "(case v of Inl e \<Rightarrow> throw (h e) | Inr a \<Rightarrow> f a) w = (Inr b, w') \<longleftrightarrow> (\<exists>a. v = Inr a \<and> f a w = (Inr b, w'))"
  by (cases v) auto

lemma request_tx_Inr:
  assumes "request_tx s m storeID mode quote auto keyHash now w = (Inr x, w')"
  obtains w0 bal alloc q w1 legs j w2 w3 w4 where
    "EnsureBalance m mode now w = (Inr (), w0)" and "LockBalance m mode w0 = Inr bal"
    and "qt_AmountIDR quote \<le> b_AvailableIDR bal"
    and "AllocateWithdrawalFIFO (qt_AmountIDR quote) (ListAvailableLots m mode w0) = Inr alloc"
    and "MarkQuoteConsumed (qt_ID quote) (next_wd w0) now (w0\<lparr>next_id := Suc (next_id w0)\<rparr>) = (Inr q, w1)"
    and "BuildWithdrawalReserveLegs (qt_AmountIDR quote) = Inr legs"
    and "PostJournal (wd_journal (''lj_'' @ id_gen w1 (next_id w1)) m storeID mode (wa_Source alloc) (next_wd w0)
      TemplateWithdrawalReserve (JournalReferenceWithdrawalReserve (next_wd w0)) ''Withdrawal reserve ''
      (Some (qt_AmountIDR quote)) now legs) (w1\<lparr>next_id := Suc (next_id w1)\<rparr>) = (Inr j, w2)"
    and "consume_slices now (wa_Allocations alloc) w2 = (Inr (), w3)"
    and "InsertWithdrawal (new_withdrawal s m storeID quote (next_wd w0) (''lj_'' @ id_gen w1 (next_id w1)) mode auto
      (wa_Source alloc) keyHash now) w3 = (Inr x, w4)"
    and "insert_allocations (next_wd w0) now True 1 (wa_Allocations alloc) w4 = (Inr True, w')"
  using assms
  unfolding request_tx_def Let_def
  by (auto simp: case_throw_Inr try_op_Inr bindS_eq_Inr next_wd_def split: if_splits)
lemma posted_base [simp]:
  "clock (posted p w) = clock w" "stores (posted p w) = stores w" "schema_meta (posted p w) = schema_meta w"
  "id_gen (posted p w) = id_gen w" "next_id (posted p w) = next_id w" "ledger_db.more (posted p w) = ledger_db.more w"
  by (simp_all add: posted_def after_legs_def)

lemma posted_wd_tables [simp]:
  fixes w :: "'m withdrawal_db_scheme"
  shows "bank_accounts (posted p w) = bank_accounts w" "withdrawal_quotes (posted p w) = withdrawal_quotes w"
    "withdrawals (posted p w) = withdrawals w" "allocations (posted p w) = allocations w"
    "withdrawal_locks (posted p w) = withdrawal_locks w" "payouts (posted p w) = payouts w"
  by (rule withdrawal_tables_more [OF posted_base(6)])+

lemma MarkQuoteConsumed_effect:
  assumes "MarkQuoteConsumed i wid now w = (Inr q, w')"
  shows "\<exists>q0. find (\<lambda>q. qt_ID q = i \<and> qt_Status q = QuoteActive) (withdrawal_quotes w) = Some q0 \<and>
    w' = w\<lparr>withdrawal_quotes := map (\<lambda>q. if qt_ID q = i \<and> qt_Status q = QuoteActive
      then q\<lparr>qt_Status := QuoteConsumed, qt_ConsumedWithdrawalID := Some wid, qt_UpdatedAt := now\<rparr> else q)
      (withdrawal_quotes w)\<rparr>"
  using assms by (auto simp: MarkQuoteConsumed_def update_one_Inr split: sum.splits)

lemma InsertWithdrawal_effect:
  "InsertWithdrawal x w = (Inr y, w') \<Longrightarrow> y = x\<lparr>wd_Allocations := []\<rparr> \<and> w' = w\<lparr>withdrawals := withdrawals w @ [y]\<rparr> \<and>
     wd_ID x \<notin> wd_ID ` set (withdrawals w)"
  by (auto simp: InsertWithdrawal_def bindE_eq_Inr split: sum.splits)

lemma ListAvailableLots_cong: "lots w' = lots w \<Longrightarrow> ListAvailableLots m mode w' = ListAvailableLots m mode w"
  by (simp add: ListAvailableLots_def)

text \<open>
  The effect of a reserve, field by field: \<open>alloc_rows\<close> says which lot and how much each allocation
  row of the new withdrawal holds.
\<close>

definition alloc_pairs :: "Allocation list \<Rightarrow> (string \<times> i64) list" where
  "alloc_pairs as = map (\<lambda>a. (al_SettlementLotID a, al_AmountIDR a)) as"

definition slice_pairs :: "AllocationSlice list \<Rightarrow> (string \<times> i64) list" where
  "slice_pairs sls = map (\<lambda>s. (sl_SettlementLotID s, sl_AmountIDR s)) sls"

lemma request_tx_effect:
  fixes w :: "'m withdrawal_db_scheme"
  assumes inv: "wd_inv w" and run: "request_tx s m storeID mode quote auto keyHash now w = (Inr x, w')"
    and new: "ref_unused (JournalReferenceWithdrawalReserve (next_wd w)) w"
  obtains alloc rows jid q0 where
    "AllocateWithdrawalFIFO (qt_AmountIDR quote) (ListAvailableLots m mode w) = Inr alloc"
    and "qt_AmountIDR quote \<le> fst (snd (abs_wallet w (m, mode)))"
    and "abs_wallet w' = (abs_wallet w)((m, mode) := (fst (abs_wallet w (m, mode)),
      fst (snd (abs_wallet w (m, mode))) - qt_AmountIDR quote, snd (snd (abs_wallet w (m, mode)))))"
    and "lots w' = map (fold (consume_one now) (wa_Allocations alloc)) (lots w)"
    and "x = new_withdrawal s m storeID quote (next_wd w) jid mode auto (wa_Source alloc) keyHash now"
    and "withdrawals w' = withdrawals w @ [x]" and "wd_ID x \<notin> wd_ID ` set (withdrawals w)"
    and "allocations w' = allocations w @ rows" and "alloc_pairs rows = slice_pairs (wa_Allocations alloc)"
    and "list_all (\<lambda>a. al_WithdrawalID a = wd_ID x) rows" and "sorted (map al_LineNo rows)"
    and "find (\<lambda>q. qt_ID q = qt_ID quote \<and> qt_Status q = QuoteActive) (withdrawal_quotes w) = Some q0"
    and "withdrawal_quotes w' = map (\<lambda>q. if qt_ID q = qt_ID quote \<and> qt_Status q = QuoteActive
      then q\<lparr>qt_Status := QuoteConsumed, qt_ConsumedWithdrawalID := Some (wd_ID x), qt_UpdatedAt := now\<rparr> else q)
      (withdrawal_quotes w)"
    and "clock w' = clock w" and "stores w' = stores w" and "id_gen w' = id_gen w"
    and "\<And>j. j \<in> set (journals w') \<Longrightarrow> j \<in> set (journals w) \<or>
      j_JournalReference j = JournalReferenceWithdrawalReserve (next_wd w) \<and>
      j_IdempotencyKey j = JournalReferenceWithdrawalReserve (next_wd w)"
  using run
proof (rule request_tx_Inr)
  fix w0 w1 w2 w3 w4 :: "'m withdrawal_db_scheme" and bal q legs j and alloc :: WithdrawalAllocation
  let ?k = "''lj_'' @ id_gen w1 (next_id w1)"
  let ?p = "wd_journal ?k m storeID mode (wa_Source alloc) (next_wd w0) TemplateWithdrawalReserve
    (JournalReferenceWithdrawalReserve (next_wd w0)) ''Withdrawal reserve '' (Some (qt_AmountIDR quote)) now legs"
  assume e: "EnsureBalance m mode now w = (Inr (), w0)" and lock: "LockBalance m mode w0 = Inr bal"
    and enough: "qt_AmountIDR quote \<le> b_AvailableIDR bal"
    and alloc: "AllocateWithdrawalFIFO (qt_AmountIDR quote) (ListAvailableLots m mode w0) = Inr alloc"
    and mark: "MarkQuoteConsumed (qt_ID quote) (next_wd w0) now (w0\<lparr>next_id := Suc (next_id w0)\<rparr>) = (Inr q, w1)"
    and legs: "BuildWithdrawalReserveLegs (qt_AmountIDR quote) = Inr legs"
    and post: "PostJournal ?p (w1\<lparr>next_id := Suc (next_id w1)\<rparr>) = (Inr j, w2)"
    and consume: "consume_slices now (wa_Allocations alloc) w2 = (Inr (), w3)"
    and ins: "InsertWithdrawal (new_withdrawal s m storeID quote (next_wd w0) ?k mode auto (wa_Source alloc) keyHash now) w3
      = (Inr x, w4)"
    and rows: "insert_allocations (next_wd w0) now True 1 (wa_Allocations alloc) w4 = (Inr True, w')"
  note E = EnsureBalance_effect [OF e]
  have wid: "next_wd w0 = next_wd w" using E by (simp add: next_wd_def)
  from MarkQuoteConsumed_effect [OF mark] obtain q0 Q where
    q0: "find (\<lambda>q. qt_ID q = qt_ID quote \<and> qt_Status q = QuoteActive) (withdrawal_quotes w0) = Some q0"
    and w1: "w1 = w0\<lparr>next_id := Suc (next_id w0), withdrawal_quotes := Q\<rparr>"
    and Q: "Q = map (\<lambda>q. if qt_ID q = qt_ID quote \<and> qt_Status q = QuoteActive
      then q\<lparr>qt_Status := QuoteConsumed, qt_ConsumedWithdrawalID := Some (next_wd w0), qt_UpdatedAt := now\<rparr> else q)
      (withdrawal_quotes w0)" by auto
  let ?w1 = "w1\<lparr>next_id := Suc (next_id w1)\<rparr>"
  have books: "same_books w0 ?w1" by (simp add: same_books_def w1)
  have inv1: "wd_inv ?w1"
    using keepsD [OF keeps_wd_ledger(2) e inv] keepsD [OF keeps_quote_updates(3) mark] by simp
  then have "ledger_inv ?w1" by (simp add: wd_inv_def)
  then have rows1: "rows_ok ?w1" by (rule ledger_inv_rows)
  have unused: "journal_by_reference (pj_JournalReference ?p) ?w1 = None"
    "journal_by_key (pj_IdempotencyKey ?p) ?w1 = None"
    using new same_books_reads(2,3) [OF books] journal_reads_cong [of w0 w] E by (simp_all add: ref_unused_def wid)
  from PostJournal_fresh_added [OF rows1 post unused] have w2: "w2 = posted ?p ?w1" by simp
  have legs': "build_template (WithdrawalReserve (qt_AmountIDR quote)) = Inr legs" using legs by simp
  note D = template_legs_delta [OF legs', simplified]
  have wallet: "abs_wallet w2 = (abs_wallet w)((m, mode) := (fst (abs_wallet w (m, mode)),
      fst (snd (abs_wallet w (m, mode))) - qt_AmountIDR quote, snd (snd (abs_wallet w (m, mode)))))"
    unfolding w2 abs_wallet_posted using E same_books_reads(1) [OF books] D by simp
  note w3 = consume_slices_Inr [OF consume]
  note I = InsertWithdrawal_effect [OF ins]
  then have w4: "w4 = w3\<lparr>withdrawals := withdrawals w3 @ [x]\<rparr>" by blast
  from insert_allocations_True [OF rows] obtain k R where
    w': "w' = w4\<lparr>next_id := k, allocations := allocations w4 @ R\<rparr>"
    and R: "map (\<lambda>a. (al_WithdrawalID a, al_SettlementLotID a, al_AmountIDR a)) R =
      map (\<lambda>s. (next_wd w0, sl_SettlementLotID s, sl_AmountIDR s)) (wa_Allocations alloc)"
    "sorted (map al_LineNo R)" by blast
  have tables: "withdrawals w0 = withdrawals w" "allocations w0 = allocations w"
    "withdrawal_quotes w0 = withdrawal_quotes w"
    using withdrawal_tables_more [of w0 w] E by auto
  have x: "x = new_withdrawal s m storeID quote (next_wd w) ?k mode auto (wa_Source alloc) keyHash now"
    using I by (simp add: wid new_withdrawal_def)
  have xid: "wd_ID x = next_wd w" by (simp add: x new_withdrawal_def)
  have books': "same_books w2 w'" by (simp add: same_books_def w' w4 w3)
  show thesis
  proof (rule that [of alloc ?k R q0])
    show "AllocateWithdrawalFIFO (qt_AmountIDR quote) (ListAvailableLots m mode w) = Inr alloc"
      using alloc ListAvailableLots_cong [of w0 w] E by simp
    have "b_AvailableIDR bal = fst (snd (abs_wallet w0 (m, mode)))"
      using lock by (simp add: LockBalance_def abs_wallet_def GetBalance_def)
    then show "qt_AmountIDR quote \<le> fst (snd (abs_wallet w (m, mode)))" using enough E by simp
    show "abs_wallet w' = (abs_wallet w)((m, mode) := (fst (abs_wallet w (m, mode)),
      fst (snd (abs_wallet w (m, mode))) - qt_AmountIDR quote, snd (snd (abs_wallet w (m, mode)))))"
      using wallet same_books_reads(1) [OF books'] by simp
    show "lots w' = map (fold (consume_one now) (wa_Allocations alloc)) (lots w)"
      using E by (simp add: w' w4 w3 w2 w1)
    show "withdrawals w' = withdrawals w @ [x]" by (simp add: w' w4 w3 w2 w1 tables)
    show "wd_ID x \<notin> wd_ID ` set (withdrawals w)"
      using I by (simp add: w3 w2 w1 tables new_withdrawal_def)
    show "allocations w' = allocations w @ R" by (simp add: w' w4 w3 w2 w1 tables)
    have pairs: "map snd (map (\<lambda>a. (al_WithdrawalID a, al_SettlementLotID a, al_AmountIDR a)) R) =
      map snd (map (\<lambda>s. (next_wd w0, sl_SettlementLotID s, sl_AmountIDR s)) (wa_Allocations alloc))" using R(1) by simp
    then show "alloc_pairs R = slice_pairs (wa_Allocations alloc)"
      by (simp add: alloc_pairs_def slice_pairs_def comp_def)
    have "map fst (map (\<lambda>a. (al_WithdrawalID a, al_SettlementLotID a, al_AmountIDR a)) R) =
      map fst (map (\<lambda>s. (next_wd w0, sl_SettlementLotID s, sl_AmountIDR s)) (wa_Allocations alloc))" using R(1) by simp
    then have "map al_WithdrawalID R = map (\<lambda>s. next_wd w) (wa_Allocations alloc)" by (simp add: comp_def wid)
    then have "\<forall>i\<in>set (map al_WithdrawalID R). i = next_wd w" by auto
    then show "list_all (\<lambda>a. al_WithdrawalID a = wd_ID x) R"
      by (simp add: list_all_iff xid)
    show "find (\<lambda>q. qt_ID q = qt_ID quote \<and> qt_Status q = QuoteActive) (withdrawal_quotes w) = Some q0"
      using q0 by (simp add: tables)
    show "withdrawal_quotes w' = map (\<lambda>q. if qt_ID q = qt_ID quote \<and> qt_Status q = QuoteActive
      then q\<lparr>qt_Status := QuoteConsumed, qt_ConsumedWithdrawalID := Some (wd_ID x), qt_UpdatedAt := now\<rparr> else q)
      (withdrawal_quotes w)"
      by (simp add: w' w4 w3 w2 w1 Q tables wid xid)
    show "clock w' = clock w" "id_gen w' = id_gen w" "stores w' = stores w"
      using E by (simp_all add: w' w4 w3 w2 w1)
    fix j assume "j \<in> set (journals w')"
    then show "j \<in> set (journals w) \<or> j_JournalReference j = JournalReferenceWithdrawalReserve (next_wd w) \<and>
      j_IdempotencyKey j = JournalReferenceWithdrawalReserve (next_wd w)"
      using E by (auto simp: w' w4 w3 w2 w1 wid)
  qed (use x R(2) in simp_all)
qed
lemma resolveMerchant_books: "stores w' = stores w \<Longrightarrow> resolveMerchant st w' = resolveMerchant st w"
  by (simp add: resolveMerchant_def get_store_merchant_def)

text \<open>A new request that waits for review is exactly its transaction.\<close>

lemma RequestWithdrawal_new:
  assumes run: "RequestWithdrawal s storeID quoteID key pm w = (Inr x, w')" and manual: "\<not> autoApprove s w"
    and m: "resolveMerchant storeID w = Inr m"
    and new: "GetWithdrawalByIdempotency m (wd_mode s pm) (hashKey key) w = Inl e"
  obtains quote y where "usable_quote s m (wd_mode s pm) quoteID w = Inr quote"
    and "request_tx s m storeID (wd_mode s pm) quote False (hashKey key) (clock w) w = (Inr y, w')"
    and "x = withAllocations y w'"
proof -
  have g: "request_guards s storeID quoteID key w = Inr m"
    using run m by (auto simp: RequestWithdrawal_def request_guards_def bindS_def split: if_splits)
  obtain quote y w1 where q: "usable_quote s m (wd_mode s pm) quoteID w = Inr quote"
    and tx: "request_tx s m storeID (wd_mode s pm) quote False (hashKey key) (clock w) w = (Inr y, w1)"
    and post: "disburse_approved s y w1 = (Inr x, w')"
    using run g new manual by (auto simp: RequestWithdrawal_def Let_def bindS_eq_Inr split: if_splits)
  from tx have "wd_Status y = StatusUnderReview"
    by (rule request_tx_Inr) (auto dest: InsertWithdrawal_effect simp: new_withdrawal_def)
  with post have "x = withAllocations y w1" "w' = w1" by (auto simp: disburse_approved_def)
  with q tx that show thesis by blast
qed

lemma usable_quote_Inr:
  assumes "usable_quote s m mode quoteID w = Inr quote"
  shows "GetQuote quoteID w = Inr quote" and "qt_Status quote = QuoteActive" and "qt_MerchantID quote = m"
    and "qt_PaymentMode quote = mode" and "qt_ExpiresAt quote > clock w"
  using assms by (auto simp: usable_quote_def split: if_splits sum.splits)

lemma find_quote_id: "GetQuote i w = Inr q \<Longrightarrow> qt_ID q = i \<and> q \<in> set (withdrawal_quotes w)"
  by (auto simp: GetQuote_def dest: find_Some_mem)

lemma find_map_update:
  assumes "\<And>x. P (f x) = P x"
  shows "find P (map (\<lambda>x. if sel x then f x else x) xs) = map_option (\<lambda>x. if sel x then f x else x) (find P xs)"
  using assms by (induction xs) auto

definition lots_moved :: "(string \<Rightarrow> int) \<Rightarrow> SettlementLot list \<Rightarrow> SettlementLot list \<Rightarrow> bool" where
  "lots_moved d ls ls' \<longleftrightarrow>
     list_all2 (\<lambda>l l'. lot_ID l' = lot_ID l \<and> lot_RemainingAmountIDR l' = lot_RemainingAmountIDR l + d (lot_ID l)) ls ls'"

lemma taken_pairs: "alloc_pairs as = slice_pairs sls \<Longrightarrow> allocation_taken as i = slice_taken sls i"
proof -
  have a: "allocation_taken as i = sum_list (map snd (filter (\<lambda>p. fst p = i) (alloc_pairs as)))" for as
    by (simp add: allocation_taken_def alloc_pairs_def filter_map comp_def)
  have s: "slice_taken sls i = sum_list (map snd (filter (\<lambda>p. fst p = i) (slice_pairs sls)))" for sls
    by (simp add: slice_taken_def slice_pairs_def filter_map comp_def)
  show "alloc_pairs as = slice_pairs sls \<Longrightarrow> allocation_taken as i = slice_taken sls i" by (simp add: a s)
qed

lemma lots_moved_consume:
  fixes w :: "'m ledger_db_scheme"
  assumes lots: "lots_ok w" and alloc: "AllocateWithdrawalFIFO n (ListAvailableLots m mode w) = Inr alloc"
  shows "lots_moved (\<lambda>i. - slice_taken (wa_Allocations alloc) i) (lots w)
    (map (fold (consume_one now) (wa_Allocations alloc)) (lots w))"
proof -
  have dist: "distinct (map lot_ID (lots w))" using lots by (simp add: lots_ok_def)
  have sub: "set (ListAvailableLots m mode w) \<subseteq> set (lots w)" by (auto simp: ListAvailableLots_def)
  have distA: "distinct (map lot_ID (ListAvailableLots m mode w))"
  proof -
    let ?P = "\<lambda>l. lot_MerchantID l = m \<and> lot_PaymentMode l = mode \<and> lot_RemainingAmountIDR l > 0 \<and>
          (lot_Status l = LotAvailable \<or> lot_Status l = LotPartiallyConsumed)"
    have d: "distinct (map lot_ID (filter ?P (lots w)))" using dist by (rule distinct_map_filter)
    have "mset (map lot_ID (ListAvailableLots m mode w)) = mset (map lot_ID (filter ?P (lots w)))"
      unfolding ListAvailableLots_def mset_map mset_sort ..
    from mset_eq_imp_distinct_iff [OF this] d show ?thesis by blast
  qed
  note S = allocation_slices [OF alloc distA]
  have one: "lot_ID (fold (consume_one now) (wa_Allocations alloc) l) = lot_ID l \<and>
    lot_RemainingAmountIDR (fold (consume_one now) (wa_Allocations alloc) l) =
      lot_RemainingAmountIDR l - slice_taken (wa_Allocations alloc) (lot_ID l)" if l: "l \<in> set (lots w)" for l
  proof (rule consume_fold [OF S(1)])
    fix s assume s: "s \<in> set (wa_Allocations alloc)" "sl_SettlementLotID s = lot_ID l"
    from S(4) [OF s(1)] obtain l' where l': "l' \<in> set (ListAvailableLots m mode w)" "sl_SettlementLotID s = lot_ID l'"
      "sl_AmountIDR s \<le> lot_RemainingAmountIDR l'" "lot_eligible l'" by blast
    then have "l' = l" using find_unique_key [OF dist, of l' l] sub l s(2) by auto
    with l' show "sl_AmountIDR s \<le> lot_RemainingAmountIDR l \<and> (lot_Status l = LotAvailable \<or> lot_Status l = LotPartiallyConsumed)"
      by (simp add: lot_eligible_def)
  qed
  show ?thesis unfolding lots_moved_def list_all2_map2
    by (rule list.rel_refl_strong) (use one in simp)
qed

lemma lots_moved_restore:
  "lots_moved (allocation_taken as) ls (map (fold (restore_one now) as) ls)"
  unfolding lots_moved_def list_all2_map2 by (rule list.rel_refl_strong) (simp add: restore_fold)

lemma lots_moved_back: "lots_moved (\<lambda>i. - d i) ls ls' \<Longrightarrow> lots_moved d ls' ls'' \<Longrightarrow> lots_moved (\<lambda>i. 0) ls ls''"
  by (auto simp: lots_moved_def list_all2_conv_all_nth)
lemma quote_spent:
  assumes inv: "quotes_ok (withdrawal_quotes w)" and q: "GetQuote i w = Inr q" and act: "qt_Status q = QuoteActive"
    and upd: "withdrawal_quotes w' = map (\<lambda>q. if qt_ID q = i \<and> qt_Status q = QuoteActive
      then q\<lparr>qt_Status := QuoteConsumed, qt_ConsumedWithdrawalID := Some wid, qt_UpdatedAt := now\<rparr> else q) (withdrawal_quotes w)"
  shows "GetQuote i w' = Inr (q\<lparr>qt_Status := QuoteConsumed, qt_ConsumedWithdrawalID := Some wid, qt_UpdatedAt := now\<rparr>)"
proof -
  have f: "find (\<lambda>q. qt_ID q = i) (withdrawal_quotes w) = Some q" using q by (simp add: GetQuote_def)
  moreover from f have "qt_ID q = i" using find_Some_mem by fastforce
  ultimately show ?thesis
    using act by (simp add: GetQuote_def upd find_map_update)
qed

lemma list_allocations_new:
  assumes "allocations w' = as @ rows" and "list_all (\<lambda>a. al_WithdrawalID a = i) rows"
    and "sorted (map al_LineNo rows)" and "\<forall>a\<in>set as. al_WithdrawalID a \<noteq> i"
  shows "ListAllocations i w' = rows"
proof -
  have "filter (\<lambda>a. al_WithdrawalID a = i) (as @ rows) = rows"
    using assms(2,4) by (auto simp: list_all_iff filter_empty_conv)
  with assms(1,3) show ?thesis by (simp add: ListAllocations_def sort_key_id_if_sorted)
qed

subsection \<open>Releasing the reserve\<close>

lemma SaveWithdrawal_effect:
  "SaveWithdrawal x w = (Inr y, w') \<Longrightarrow> \<exists>r. find (\<lambda>r. wd_ID r = wd_ID x) (withdrawals w) = Some r \<and>
     y = saved_columns x r \<and>
     w' = w\<lparr>withdrawals := map (\<lambda>r. if wd_ID r = wd_ID x then saved_columns x r else r) (withdrawals w)\<rparr>"
  by (auto simp: SaveWithdrawal_def update_one_Inr split: sum.splits)

lemma SaveWithdrawal_status:
  "SaveWithdrawal x w = (Inr y, w') \<Longrightarrow> wd_Status y = wd_Status x \<and> (\<exists>ws. w' = w\<lparr>withdrawals := ws\<rparr>)"
  by (drule SaveWithdrawal_effect) auto

lemma releaseReserve_effect:
  fixes w :: "'m withdrawal_db_scheme"
  assumes inv: "wd_inv w" and run: "releaseReserve x now w = (Inr x', w')" and held: "\<not> wd_ReserveReleased x"
    and new: "ref_unused (JournalReferenceWithdrawalRelease (wd_ID x)) w"
  shows "abs_wallet w' = (abs_wallet w)((wd_MerchantID x, wd_PaymentMode x) :=
      (fst (abs_wallet w (wd_MerchantID x, wd_PaymentMode x)),
       fst (snd (abs_wallet w (wd_MerchantID x, wd_PaymentMode x))) + wd_AmountIDR x,
       snd (snd (abs_wallet w (wd_MerchantID x, wd_PaymentMode x)))))"
    and "lots w' = map (fold (restore_one now) (ListAllocations (wd_ID x) w)) (lots w)"
    and "\<exists>jid. x' = x\<lparr>wd_ReleaseJournalID := Some jid, wd_ReserveReleased := True\<rparr>"
    and "withdrawals w' = withdrawals w" and "allocations w' = allocations w" and "withdrawal_quotes w' = withdrawal_quotes w"
proof -
  obtain legs j w1 where legs: "BuildWithdrawalReleaseLegs (wd_AmountIDR x) = Inr legs"
    and post: "PostJournal (wd_post x (''lj_'' @ id_gen w (next_id w)) TemplateWithdrawalRelease
      (JournalReferenceWithdrawalRelease (wd_ID x)) ''Withdrawal release '' (Some (wd_AmountIDR x)) now legs)
      (w\<lparr>next_id := Suc (next_id w)\<rparr>) = (Inr j, w1)"
    and restore: "restore_lots now (ListAllocations (wd_ID x) w1) w1 = (Inr (), w')"
    and x': "x' = x\<lparr>wd_ReleaseJournalID := Some (''lj_'' @ id_gen w (next_id w)), wd_ReserveReleased := True\<rparr>"
    using run held by (auto simp: releaseReserve_def Let_def bindS_eq_Inr)
  let ?w = "w\<lparr>next_id := Suc (next_id w)\<rparr>"
  let ?p = "wd_post x (''lj_'' @ id_gen w (next_id w)) TemplateWithdrawalRelease
      (JournalReferenceWithdrawalRelease (wd_ID x)) ''Withdrawal release '' (Some (wd_AmountIDR x)) now legs"
  have books: "same_books w ?w" by (simp add: same_books_def)
  have "ledger_inv ?w" using inv by (simp add: wd_inv_def)
  then have rows: "rows_ok ?w" by (rule ledger_inv_rows)
  have "journal_by_reference (pj_JournalReference ?p) ?w = None" "journal_by_key (pj_IdempotencyKey ?p) ?w = None"
    using new same_books_reads(2,3) [OF books] by (simp_all add: ref_unused_def wd_post_def)
  from PostJournal_fresh_added [OF rows post this] have w1: "w1 = posted ?p ?w" by simp
  note w' = restore_lots_Inr [OF restore]
  have legs': "build_template (WithdrawalRelease (wd_AmountIDR x)) = Inr legs" using legs by simp
  note D = template_legs_delta [OF legs', simplified]
  have books': "same_books w1 w'" by (simp add: same_books_def w')
  show "abs_wallet w' = (abs_wallet w)((wd_MerchantID x, wd_PaymentMode x) :=
      (fst (abs_wallet w (wd_MerchantID x, wd_PaymentMode x)),
       fst (snd (abs_wallet w (wd_MerchantID x, wd_PaymentMode x))) + wd_AmountIDR x,
       snd (snd (abs_wallet w (wd_MerchantID x, wd_PaymentMode x)))))"
    unfolding same_books_reads(1) [OF books'] w1 abs_wallet_posted same_books_reads(1) [OF books]
    using D by (simp add: wd_post_def)
  have "ListAllocations (wd_ID x) w1 = ListAllocations (wd_ID x) w" by (simp add: ListAllocations_def w1)
  then show "lots w' = map (fold (restore_one now) (ListAllocations (wd_ID x) w)) (lots w)" by (simp add: w' w1)
  show "\<exists>jid. x' = x\<lparr>wd_ReleaseJournalID := Some jid, wd_ReserveReleased := True\<rparr>" using x' by blast
  show "withdrawals w' = withdrawals w" "allocations w' = allocations w" "withdrawal_quotes w' = withdrawal_quotes w"
    by (simp_all add: w' w1)
qed

text \<open>A rejection that succeeds: the status machine allowed it, and the reserve is released.\<close>

lemma AdminReview_reject:
  fixes w :: "'m withdrawal_db_scheme"
  assumes inv: "wd_inv w" and run: "AdminReview s i ''reject'' reason actor w = (Inr y, w')"
    and row: "GetWithdrawalRow i w = Inr x" and held: "\<not> wd_ReserveReleased x" and nofail: "wd_Status x \<noteq> StatusApproved"
    and new: "ref_unused (JournalReferenceWithdrawalRelease i) w"
  shows "CanTransition (wd_Status x) StatusRejected"
    and "abs_wallet w' = (abs_wallet w)((wd_MerchantID x, wd_PaymentMode x) :=
      (fst (abs_wallet w (wd_MerchantID x, wd_PaymentMode x)),
       fst (snd (abs_wallet w (wd_MerchantID x, wd_PaymentMode x))) + wd_AmountIDR x,
       snd (snd (abs_wallet w (wd_MerchantID x, wd_PaymentMode x)))))"
    and "lots w' = map (fold (restore_one (clock w)) (ListAllocations i w)) (lots w)"
    and "wd_Status y = StatusRejected" and "withdrawal_quotes w' = withdrawal_quotes w"
proof -
  have xid: "wd_ID x = i" using row by (auto simp: GetWithdrawalRow_def dest: find_Some_mem)
  have act: "to_lower (trim_space ''reject'') = ''reject''"
    by (simp add: to_lower_def trim_space_def trim_with_def is_space_def lower_char_def is_upper_def)
  obtain y1 w1 where tx: "review_tx i ''reject'' (trim_space reason) actor (clock w) w = (Inr y1, w1)"
    and after: "disburse_approved s y1 w1 = (Inr y, w')"
    using run unfolding AdminReview_def act Let_def with_state_app
    by (auto simp: bindS_eq_Inr split: if_splits)
  obtain x1 x2 where can: "CanTransition (wd_Status x) StatusRejected"
    and rel: "releaseReserve x (clock w) w = (Inr x1, x2)"
    and save: "SaveWithdrawal (x1\<lparr>wd_Status := StatusRejected, wd_RejectReason := trim_space reason,
      wd_ReviewedBy := Some actor, wd_ReviewedAt := Some (clock w), wd_UpdatedAt := clock w\<rparr>) x2 = (Inr y1, w1)"
    using tx row held
    by (auto simp: review_tx_def review_row_def LockWithdrawal_def GetWithdrawalRow_def bindS_eq_Inr split: if_splits)
  note R = releaseReserve_effect [OF inv rel held, unfolded xid, OF new]
  note st = conjunct1 [OF SaveWithdrawal_status [OF save], simplified]
  from conjunct2 [OF SaveWithdrawal_status [OF save]] obtain ws where w1: "w1 = x2\<lparr>withdrawals := ws\<rparr>" by (elim exE)
  have y: "w' = w1" "wd_Status y = StatusRejected"
    using after st by (auto simp: disburse_approved_def withAllocations_def split: if_splits)
  show "CanTransition (wd_Status x) StatusRejected" by (rule can)
  have books: "same_books x2 w'" by (simp add: same_books_def y(1) w1)
  show "abs_wallet w' = (abs_wallet w)((wd_MerchantID x, wd_PaymentMode x) :=
      (fst (abs_wallet w (wd_MerchantID x, wd_PaymentMode x)),
       fst (snd (abs_wallet w (wd_MerchantID x, wd_PaymentMode x))) + wd_AmountIDR x,
       snd (snd (abs_wallet w (wd_MerchantID x, wd_PaymentMode x)))))"
    using R(1) same_books_reads(1) [OF books] by simp
  show "lots w' = map (fold (restore_one (clock w)) (ListAllocations i w)) (lots w)" using R(2) by (simp add: y(1) w1)
  show "wd_Status y = StatusRejected" by (rule y(2))
  show "withdrawal_quotes w' = withdrawal_quotes w" using R(6) by (simp add: y(1) w1)
qed
subsection \<open>A request that goes through\<close>

text \<open>Reserve and release journals are accepted whenever the wallet rows stay in range.\<close>

lemma available_rows_run:
  assumes t: "t = WithdrawalReserve n \<and> d = - n \<or> t = WithdrawalRelease n \<and> d = n" and legs: "build_template t = Inr ls"
    and b: "row_ok (balance_fields b)" "row_ok (balance_fields (project_balance AcctMerchantAvailable d (pj_PostedAt p) b))"
    and sb: "wallet_source (pj_Source p) \<Longrightarrow> row_ok (source_fields sb)"
      "wallet_source (pj_Source p) \<Longrightarrow> row_ok (source_fields (project_source AcctMerchantAvailable d (pj_PostedAt p) sb))"
  shows "rows_run p ls b sb \<and> fold (leg_balance p) ls b = project_balance AcctMerchantAvailable d (pj_PostedAt p) b
    \<and> fold (leg_source p) ls sb = project_source AcctMerchantAvailable d (pj_PostedAt p) sb"
proof -
  have other: "leg_balance p (mk_leg AcctWithdrawalClearing side a c) b' = b'"
    "leg_source p (mk_leg AcctWithdrawalClearing side a c) s' = s'" for side a c b' s'
    by (simp_all add: leg_balance_def leg_source_def project_balance_def project_source_def)
  have avail: "leg_balance p (mk_leg AcctMerchantAvailable side n c) b' =
      project_balance AcctMerchantAvailable (if side = SideCredit then n else - n) (pj_PostedAt p) b'"
    "leg_source p (mk_leg AcctMerchantAvailable side n c) s' =
      project_source AcctMerchantAvailable (if side = SideCredit then n else - n) (pj_PostedAt p) s'"
    if "side \<in> {SideDebit, SideCredit}" for side c b' s'
    using that by (auto simp: leg_balance_def leg_source_def leg_delta_def)
  show ?thesis
    using t legs b sb
    by (auto simp: build_defs checked_legs_Inr other avail split: if_splits)
qed

lemma available_legs_db:
  assumes "t = WithdrawalReserve n \<or> t = WithdrawalRelease n" and "build_template t = Inr ls"
  shows "list_all db_leg_ok ls" and "list_all component_ok ls" and "length ls = 2"
    and "legs_side SideDebit ls = n" and "legs_side SideCredit ls = n" and "0 < n"
  using assms
  by (auto simp: build_defs checked_legs_Inr db_leg_ok_def component_ok_def chart_of_accounts_def
      fee_components_def mk_leg_def split: if_splits)

lemma available_postable:
  assumes t: "t = WithdrawalReserve n \<and> d = - n \<or> t = WithdrawalRelease n \<and> d = n" and legs: "build_template t = Inr (pj_Legs p)"
    and n: "in_i64 n" and inv: "rows_ok w" and fresh: "journal_fresh p w"
    and named: "pj_JournalID p \<noteq> []" "pj_MerchantID p \<noteq> []" "pj_JournalReference p \<noteq> []" "pj_IdempotencyKey p \<noteq> []"
      "pj_ReferenceType p \<noteq> []" "pj_ReferenceID p \<noteq> []" "pj_TemplateCode p \<noteq> []" "pj_TemplateCode p \<noteq> TemplatePaymentCapture"
    and m: "pj_MerchantID p \<in> set (merchants w)" and mode: "pj_PaymentMode p = ModeSandbox \<or> pj_PaymentMode p = ModeLive"
    and src: "pj_Source p \<in> {SourceStorefront, SourceQRISAPI, SourceMixed}"
    and avail: "0 \<le> b_AvailableIDR (start_balance p w) + d" "in_i64 (b_AvailableIDR (start_balance p w) + d)"
    and savail: "wallet_source (pj_Source p) \<Longrightarrow> 0 \<le> sb_AvailableIDR (start_source p w) + d \<and>
      in_i64 (sb_AvailableIDR (start_source p w) + d)"
  shows "postable p w"
proof -
  have b: "row_ok (balance_fields (start_balance p w))"
    using inv by (auto simp: start_balance_def rows_ok_def split: option.splits)
  have sb: "row_ok (source_fields (start_source p w))"
    using inv by (auto simp: start_source_def rows_ok_def split: option.splits)
  have b': "row_ok (balance_fields (project_balance AcctMerchantAvailable d (pj_PostedAt p) (start_balance p w)))"
    using b avail by (simp add: row_ok_def balance_fields_def project_balance_def)
  have sb': "row_ok (source_fields (project_source AcctMerchantAvailable d (pj_PostedAt p) (start_source p w)))"
    if "wallet_source (pj_Source p)"
    using sb savail [OF that] by (simp add: row_ok_def source_fields_def project_source_def)
  note run = available_rows_run [where p = p, OF t legs b b' sb sb']
  have t': "t = WithdrawalReserve n \<or> t = WithdrawalRelease n" using t by auto
  note l = available_legs_db [OF t' legs]
  have nc: "\<not> counts_capture p" using named by (simp add: counts_capture_def)
  have fin: "final_balance p w = project_balance AcctMerchantAvailable d (pj_PostedAt p) (start_balance p w)"
    "final_source p w = project_source AcctMerchantAvailable d (pj_PostedAt p) (start_source p w)"
    using run nc by (simp_all add: final_balance_def final_source_def Let_def)
  have fits: "in_i64 (legs_side SideDebit (pj_Legs p))" using l(4) n by simp
  show ?thesis
    unfolding postable_def fin
    using l named m mode src fresh run b' sb' fits by (simp add: insert_iff) blast
qed

end
