(* ===== verification/Withdrawal_Runs.thy ===== *)
theory Withdrawal_Runs
  imports Withdrawal_Flow
begin

text \<open>
  A small world with one merchant, a wallet of 700, one lot, a verified bank account and a quote of
  500, in which a withdrawal is requested and then rejected: the concrete instances of the theorems
  on the withdrawal handlers.
\<close>

definition demo_bank :: BankAccount where
  "demo_bank = \<lparr>ba_ID = ''bank_a'', ba_MerchantID = ''m1'', ba_BankCode = ''BCA'', ba_BankName = ''BCA'',
     ba_AccountHolderName = ''Ayu'', ba_AccountNumberCipher = ''c'', ba_EncryptionKeyVersion = ''v1'',
     ba_AccountNumberMasked = ''****7890'', ba_AccountNumberLast4 = ''7890'', ba_Status = BankVerified,
     ba_IsPrimary = True, ba_Version = 1, ba_VerifiedAt = Some 1, ba_ArchivedAt = None, ba_CreatedAt = 0,
     ba_UpdatedAt = 0\<rparr>"

definition demo_quote :: Quote where
  "demo_quote = \<lparr>qt_ID = ''wq_a'', qt_MerchantID = ''m1'', qt_StoreID = Some ''st1'', qt_PaymentMode = ModeLive,
     qt_AmountIDR = 500, qt_PlatformFeeIDR = 10, qt_ProviderFeeIDR = 20, qt_TotalFeeIDR = 30,
     qt_NetDisbursementIDR = 470, qt_Currency = CurrencyIDR, qt_PolicyVersionID = ''fpv_launch'',
     qt_FeeSnapshotID = None, qt_BankAccountID = ''bank_a'', qt_BankAccountVersion = 1, qt_BankCode = ''BCA'',
     qt_BankName = ''BCA'', qt_AccountHolderName = ''Ayu'', qt_AccountNumberMasked = ''****7890'',
     qt_ProviderQuoteReference = None, qt_ProviderQuoteEvidence = [], qt_Status = QuoteActive,
     qt_IdempotencyKeyHash = ''h'', qt_RequestHash = ''r'', qt_ExpiresAt = 2000,
     qt_ConsumedWithdrawalID = None, qt_CreatedAt = 0, qt_UpdatedAt = 0\<rparr>"

definition demo_lot :: SettlementLot where
  "demo_lot = sample_lot ''lot_1'' SourceStorefront 700 0"

definition demo_wd_service :: WithdrawalService where
  "demo_wd_service = \<lparr>ws_Ledger = True, ws_Fees = \<lparr>fs_Store = False, fs_IDs = False\<rparr>, ws_Disburse = None,
     ws_EncryptionKey = ''k'', ws_AccountScope = [], ws_DefaultPaymentMode = [], ws_ForceAutoApprove = Some False,
     ws_EmergencyDisabled = None, ws_encrypt = (\<lambda>k d. Inr (''v1'', d)), ws_decrypt = (\<lambda>k c. Inr c)\<rparr>"

definition demo_wd :: withdrawal_db where
  "demo_wd = (posted demo_post (demo_ledger (withdrawal_db.fields [demo_bank] [] [demo_quote] [] [] [])))
     \<lparr>lots := [demo_lot], next_id := 5\<rparr>"

lemma demo_wd_fields [simp]:
  "bank_accounts demo_wd = [demo_bank]" "withdrawal_quotes demo_wd = [demo_quote]" "withdrawals demo_wd = []"
  "allocations demo_wd = []" "withdrawal_locks demo_wd = []" "payouts demo_wd = []" "lots demo_wd = [demo_lot]"
  "clock demo_wd = 1000" "next_id demo_wd = 5" "id_gen demo_wd = (\<lambda>n. show_int (int n))"
  "merchants demo_wd = [''m1'']" "stores demo_wd = [(''st1'', ''m1'')]" "schema_meta demo_wd = Map.empty"
  "journals demo_wd = [mk_journal demo_post]" "entries demo_wd = mk_entries demo_post 1 (pj_Legs demo_post)"
  by (simp_all add: demo_wd_def demo_ledger_def withdrawal_db.defs)

lemma demo_ledger_rows:
  "final_balance demo_post (demo_ledger x) = (zero_balance ''m1'' ModeLive 5)\<lparr>b_AvailableIDR := 700, b_Version := 1\<rparr>"
  "final_source demo_post (demo_ledger x) =
     (zero_source_balance ''m1'' ModeLive SourceStorefront 5)\<lparr>sb_AvailableIDR := 700\<rparr>"
  by (simp_all add: final_balance_def final_source_def start_balance_def start_source_def counts_capture_def demo_post_def
      demo_ledger_def leg_balance_def leg_source_def leg_delta_def mk_leg_def project_balance_def project_source_def
      zero_balance_def zero_source_balance_def Let_def)

lemma demo_wd_rows:
  "balances demo_wd = [(''m1'', ModeLive) \<mapsto> (zero_balance ''m1'' ModeLive 5)\<lparr>b_AvailableIDR := 700, b_Version := 1\<rparr>]"
  "source_balances demo_wd = [(''m1'', ModeLive, SourceStorefront) \<mapsto>
     (zero_source_balance ''m1'' ModeLive SourceStorefront 5)\<lparr>sb_AvailableIDR := 700\<rparr>]"
  by (simp_all add: demo_wd_def demo_ledger_rows) (simp_all add: demo_post_def demo_ledger_def)

lemma lots_only:
  "journals_balanced (w\<lparr>lots := ls, next_id := n\<rparr>) = journals_balanced w"
  "projection_exact (w\<lparr>lots := ls, next_id := n\<rparr>) = projection_exact w"
  "rows_ok (w\<lparr>lots := ls, next_id := n\<rparr>) = rows_ok w"
  by (simp_all add: journals_balanced_def projection_exact_def rows_ok_def entries_of_def)

lemma demo_wd_inv: "wd_inv demo_wd"
proof -
  let ?w = "posted demo_post (demo_ledger (withdrawal_db.fields [demo_bank] [] [demo_quote] [] [] []))"
  have inv: "ledger_inv ?w"
    by (rule reachable_inv) (rule ledger_reachable.step [OF demo_reachable ledger_step.post [OF demo_posts]])
  have "lots_ok demo_wd"
    by (simp add: lots_ok_def demo_lot_def sample_lot_def lot_check_def lot_statuses_def)
  moreover have "journals_balanced demo_wd" "projection_exact demo_wd" "rows_ok demo_wd"
    using inv unfolding demo_wd_def lots_only ledger_inv_def by blast+
  ultimately have "ledger_inv demo_wd" by (simp add: ledger_inv_def)
  moreover have "bank_check demo_bank = Inr ()" by (simp add: bank_check_def demo_bank_def is_digit_def)
  moreover have "quote_check demo_quote = Inr ()" by (simp add: quote_check_def demo_quote_def modes_def)
  ultimately show ?thesis
    by (simp add: wd_inv_def banks_ok_def quotes_ok_def withdrawals_ok_def allocations_ok_def alloc_refs_ok_def
        clash_free_def)
qed

subsection \<open>The request\<close>

definition demo_slice :: AllocationSlice where
  "demo_slice = \<lparr>sl_Source = SourceStorefront, sl_SettlementLotID = ''lot_1'', sl_AmountIDR = 500,
     sl_AvailableAt = 0\<rparr>"

definition demo_legs :: "EntryLeg list" where
  "demo_legs = (case BuildWithdrawalReserveLegs 500 of Inr ls \<Rightarrow> ls | Inl _ \<Rightarrow> [])"

lemma demo_alloc:
  "\<exists>a. AllocateWithdrawalFIFO 500 (ListAvailableLots ''m1'' ModeLive demo_wd) = Inr a \<and>
     wa_Allocations a = [demo_slice] \<and> wa_Source a = SourceStorefront"
proof -
  have l: "ListAvailableLots ''m1'' ModeLive demo_wd = [demo_lot]"
    by (simp add: ListAvailableLots_def demo_lot_def sample_lot_def)
  have order: "fifo_order [demo_lot] = [demo_lot]" and elig: "filter lot_eligible [demo_lot] = [demo_lot]"
    by (simp_all add: fifo_order_def lot_eligible_def demo_lot_def sample_lot_def)
  show ?thesis
    unfolding l using AllocateWithdrawalFIFO_eq [of 500 "[demo_lot]"] unfolding order elig
    by (auto simp: demo_slice_def demo_lot_def sample_lot_def slice_of_def Let_def)
qed

lemma demo_legs_built: "BuildWithdrawalReserveLegs 500 = Inr demo_legs"
proof -
  have "\<exists>ls. build_template (WithdrawalReserve 500) = Inr ls"
    using build_template_cases [of "WithdrawalReserve 500"] by (auto simp: i64_bounds)
  then show ?thesis by (auto simp: demo_legs_def)
qed

text \<open>The state after the quote is marked, the reserve journal, and what follows.\<close>

definition demo_w1 :: withdrawal_db where
  "demo_w1 = demo_wd\<lparr>next_id := 6, withdrawal_quotes := [demo_quote\<lparr>qt_Status := QuoteConsumed,
     qt_ConsumedWithdrawalID := Some ''wd_5'', qt_UpdatedAt := 1000\<rparr>]\<rparr>"

definition demo_reserve :: PostJournalParams where
  "demo_reserve = wd_journal ''lj_6'' ''m1'' ''st1'' ModeLive SourceStorefront ''wd_5'' TemplateWithdrawalReserve
     (JournalReferenceWithdrawalReserve ''wd_5'') ''Withdrawal reserve '' (Some 500) 1000 demo_legs"

definition demo_w2 :: withdrawal_db where
  "demo_w2 = posted demo_reserve (demo_w1\<lparr>next_id := 7\<rparr>)"

lemma show_small: "show_int 5 = ''5''" "show_int 6 = ''6''" "show_int 7 = ''7''" "show_int 8 = ''8''"
  by code_simp+

lemma demo_mark: "MarkQuoteConsumed ''wq_a'' ''wd_5'' 1000 (demo_wd\<lparr>next_id := 6\<rparr>) =
    (Inr (demo_quote\<lparr>qt_Status := QuoteConsumed, qt_ConsumedWithdrawalID := Some ''wd_5'', qt_UpdatedAt := 1000\<rparr>), demo_w1)"
  by (simp add: MarkQuoteConsumed_def update_one_def demo_w1_def) (simp add: demo_quote_def)

lemma demo_reserve_postable: "postable demo_reserve (demo_w1\<lparr>next_id := 7\<rparr>)"
proof -
  have legs: "build_template (WithdrawalReserve 500) = Inr (pj_Legs demo_reserve)"
    using demo_legs_built by (simp add: demo_reserve_def)
  have rows: "rows_ok (demo_w1\<lparr>next_id := 7\<rparr>)"
    using demo_wd_inv by (simp add: wd_inv_def ledger_inv_def demo_w1_def rows_ok_def)
  have start: "b_AvailableIDR (start_balance demo_reserve (demo_w1\<lparr>next_id := 7\<rparr>)) = 700"
    "sb_AvailableIDR (start_source demo_reserve (demo_w1\<lparr>next_id := 7\<rparr>)) = 700"
    by (simp_all add: start_balance_def start_source_def demo_w1_def demo_wd_rows demo_reserve_def)
  have fresh: "journal_fresh demo_reserve (demo_w1\<lparr>next_id := 7\<rparr>)"
    by (simp add: journal_fresh_def demo_w1_def demo_reserve_def journal_reference_defs) (simp add: demo_post_def)
  show ?thesis
    by (rule available_postable [where n = 500 and d = "-500" and t = "WithdrawalReserve 500", OF _ legs _ rows fresh])
      (simp_all add: start, simp_all add: demo_reserve_def journal_reference_defs demo_w1_def i64_bounds)
qed


text \<open>What the request leaves: the withdrawal and its one allocation row.\<close>

definition demo_new :: Withdrawal where
  "demo_new = new_withdrawal demo_wd_service ''m1'' ''st1'' demo_quote ''wd_5'' ''lj_6'' ModeLive False SourceStorefront
     (hashKey ''key'') 1000"

definition demo_row :: Allocation where
  "demo_row = \<lparr>al_ID = ''wa_7'', al_WithdrawalID = ''wd_5'', al_SettlementLotID = ''lot_1'',
     al_Source = SourceStorefront, al_AmountIDR = 500, al_AvailableAt = 0, al_LineNo = 1, al_CreatedAt = 1000\<rparr>"

definition demo_requested :: withdrawal_db where
  "demo_requested = demo_w2\<lparr>lots := [consume_one 1000 demo_slice demo_lot], withdrawals := [demo_new],
     next_id := 8, allocations := [demo_row]\<rparr>"

lemma demo_new_fields [simp]:
  "wd_ID demo_new = ''wd_5''" "wd_MerchantID demo_new = ''m1''" "wd_PaymentMode demo_new = ModeLive"
  "wd_Status demo_new = StatusUnderReview" "wd_ReserveReleased demo_new = False" "wd_AmountIDR demo_new = 500"
  "wd_Allocations demo_new = []" "wd_Source demo_new = SourceStorefront" "wd_StoreID demo_new = Some ''st1''"
  by (simp_all add: demo_new_def new_withdrawal_def) (simp add: demo_quote_def)

lemma demo_w2_tables [simp]:
  "withdrawals demo_w2 = []" "allocations demo_w2 = []" "lots demo_w2 = [demo_lot]" "next_id demo_w2 = 7"
  "merchants demo_w2 = [''m1'']" "id_gen demo_w2 = (\<lambda>n. show_int (int n))" "clock demo_w2 = 1000"
  "withdrawal_quotes demo_w2 = [demo_quote\<lparr>qt_Status := QuoteConsumed,
     qt_ConsumedWithdrawalID := Some ''wd_5'', qt_UpdatedAt := 1000\<rparr>]"
  by (simp_all add: demo_w2_def demo_w1_def)

lemma demo_consume: "consume_slices 1000 [demo_slice] demo_w2 = (Inr (), demo_w2\<lparr>lots := [consume_one 1000 demo_slice demo_lot]\<rparr>)"
  by (simp add: consume_slices_def ConsumeLotRemaining_def update_lots_def lot_check_def demo_slice_def demo_lot_def
      sample_lot_def lot_statuses_def consume_one_def bindS_def)

lemma demo_insert: "InsertWithdrawal demo_new (demo_w2\<lparr>lots := ls\<rparr>) = (Inr demo_new, demo_w2\<lparr>lots := ls, withdrawals := [demo_new]\<rparr>)"
proof -
  have "withdrawal_check demo_new = Inr ()"
    by (simp add: withdrawal_check_def modes_def withdrawal_statuses_def demo_new_def new_withdrawal_def demo_quote_def)
  moreover have "demo_new\<lparr>wd_Allocations := []\<rparr> = demo_new" by (simp add: demo_new_def new_withdrawal_def)
  moreover have "wd_QuoteID demo_new = qt_ID demo_quote" by (simp add: demo_new_def new_withdrawal_def)
  ultimately show ?thesis by (simp add: InsertWithdrawal_def provider_refs_free_def first_failure.simps)
qed

lemma demo_rows: "insert_allocations ''wd_5'' 1000 True 1 [demo_slice] (demo_w2\<lparr>lots := ls, withdrawals := [demo_new]\<rparr>) =
    (Inr True, demo_w2\<lparr>lots := ls, withdrawals := [demo_new], next_id := 8, allocations := [demo_row]\<rparr>)"
proof -
  have "allocation_check demo_row = Inr ()" by (simp add: allocation_check_def demo_row_def)
  then show ?thesis
    by (simp add: bindS_def try_op_def InsertAllocation_def first_failure.simps show_small demo_slice_def demo_row_def)
qed


lemma demo_request_tx:
  "request_tx demo_wd_service ''m1'' ''st1'' ModeLive demo_quote False (hashKey ''key'') 1000 demo_wd =
     (Inr demo_new, demo_requested)"
proof -
  obtain a where alloc: "AllocateWithdrawalFIFO 500 (ListAvailableLots ''m1'' ModeLive demo_wd) = Inr a"
    and a: "wa_Allocations a = [demo_slice]" "wa_Source a = SourceStorefront"
    using demo_alloc by (elim exE conjE) (rule that)
  have ensure: "in_tx_ignored (EnsureBalance ''m1'' ModeLive 1000) demo_wd = (Inr (), demo_wd)"
    by (simp add: EnsureBalance_def demo_wd_rows)
  have lock: "\<exists>b. LockBalance ''m1'' ModeLive demo_wd = Inr b \<and> b_AvailableIDR b = 700"
    by (simp add: LockBalance_def demo_wd_rows)
  have q: "qt_AmountIDR demo_quote = 500" "qt_ID demo_quote = ''wq_a''" by (simp_all add: demo_quote_def)
  have mark: "try_op (MarkQuoteConsumed ''wq_a'' ''wd_5'' 1000) (demo_wd\<lparr>next_id := 6\<rparr>) = (Inr (Inr (demo_quote\<lparr>
      qt_Status := QuoteConsumed, qt_ConsumedWithdrawalID := Some ''wd_5'', qt_UpdatedAt := 1000\<rparr>)), demo_w1)"
    unfolding try_op_Inr by (rule demo_mark)
  have s: "ws_Ledger demo_wd_service" by (simp add: demo_wd_service_def)
  have w1: "next_id demo_w1 = 6" "id_gen demo_w1 = (\<lambda>n. show_int (int n))" by (simp_all add: demo_w1_def)
  have "ledger_inv demo_w1" using keepsD [OF keeps_quote_updates(3) demo_mark] demo_wd_inv
    by (simp add: wd_inv_def)
  then have inv: "ledger_inv (demo_w1\<lparr>next_id := 7\<rparr>)" by (rule ledger_inv_cong) simp_all
  have post: "PostJournal demo_reserve (demo_w1\<lparr>next_id := 7\<rparr>) = (Inr ''lj_6'', demo_w2)"
    using postable_posts [OF inv demo_reserve_postable] by (simp add: demo_w2_def) (simp add: demo_reserve_def)
  show ?thesis
    using lock ensure
    by (auto simp: request_tx_def bindS_step alloc a q show_small mark demo_legs_built Let_def
        s w1 post [unfolded demo_reserve_def] demo_consume demo_new_def [symmetric] demo_insert demo_rows
        demo_requested_def simp del: insert_allocations.simps)
qed


lemma demo_guards:
  "resolveMerchant ''st1'' demo_wd = Inr ''m1''" "wd_mode demo_wd_service ''LIVE'' = ModeLive"
  "\<not> autoApprove demo_wd_service demo_wd"
  "GetWithdrawalByIdempotency ''m1'' ModeLive (hashKey ''key'') demo_wd = Inl ErrNoRows"
  "usable_quote demo_wd_service ''m1'' ModeLive ''wq_a'' demo_wd = Inr demo_quote"
  "request_guards demo_wd_service ''st1'' ''wq_a'' ''key'' demo_wd = Inr ''m1''"
proof -
  show m: "resolveMerchant ''st1'' demo_wd = Inr ''m1''" by (simp add: resolveMerchant_def get_store_merchant_def)
  show "wd_mode demo_wd_service ''LIVE'' = ModeLive" by code_simp
  show "\<not> autoApprove demo_wd_service demo_wd" by (simp add: autoApprove_def demo_wd_service_def)
  show "GetWithdrawalByIdempotency ''m1'' ModeLive (hashKey ''key'') demo_wd = Inl ErrNoRows"
    by (simp add: GetWithdrawalByIdempotency_def)
  have "GetQuote ''wq_a'' demo_wd = Inr demo_quote" "GetBankAccount ''bank_a'' demo_wd = Inr demo_bank"
    by (simp_all add: GetQuote_def GetBankAccount_def) (simp_all add: demo_quote_def demo_bank_def)
  then show "usable_quote demo_wd_service ''m1'' ModeLive ''wq_a'' demo_wd = Inr demo_quote"
    by (simp add: usable_quote_def merchantFrozen_def merchant_locked_def ListWithdrawalsByMerchant_def page_of_def
        GetWithdrawalLock_def) (simp add: demo_quote_def demo_bank_def)
  have "trim_space ''key'' \<noteq> []" "trim_space ''wq_a'' \<noteq> []" by code_simp+
  then show "request_guards demo_wd_service ''st1'' ''wq_a'' ''key'' demo_wd = Inr ''m1''"
    by (simp add: request_guards_def m emergency_off_def demo_wd_service_def)
qed

lemma demo_requests: "RequestWithdrawal demo_wd_service ''st1'' ''wq_a'' ''key'' ''LIVE'' demo_wd =
    (Inr (demo_new\<lparr>wd_Allocations := [demo_row]\<rparr>), demo_requested)"
proof -
  have "withAllocations demo_new demo_requested = demo_new\<lparr>wd_Allocations := [demo_row]\<rparr>"
    by (simp add: withAllocations_def ListAllocations_def demo_requested_def) (simp add: demo_row_def)
  then show ?thesis
    by (simp add: RequestWithdrawal_def demo_guards Let_def demo_request_tx disburse_approved_def)
qed


subsection \<open>The rejection\<close>

lemma demo_legs_eq: "demo_legs = [mk_leg AcctMerchantAvailable SideDebit 500 ''WITHDRAWAL'',
    mk_leg AcctWithdrawalClearing SideCredit 500 ''WITHDRAWAL'']"
  using demo_legs_built by (auto simp: build_defs checked_legs_Inr split: if_splits)

definition demo_back :: "EntryLeg list" where
  "demo_back = (case BuildWithdrawalReleaseLegs 500 of Inr ls \<Rightarrow> ls | Inl _ \<Rightarrow> [])"

lemma demo_back_built: "BuildWithdrawalReleaseLegs 500 = Inr demo_back"
proof -
  have "\<exists>ls. build_template (WithdrawalRelease 500) = Inr ls"
    using build_template_cases [of "WithdrawalRelease 500"] by (auto simp: i64_bounds)
  then show ?thesis by (auto simp: demo_back_def)
qed

definition demo_release :: PostJournalParams where
  "demo_release = wd_post demo_new ''lj_8'' TemplateWithdrawalRelease (JournalReferenceWithdrawalRelease ''wd_5'')
     ''Withdrawal release '' (Some 500) 1500 demo_back"

abbreviation demo_later :: withdrawal_db where
  "demo_later \<equiv> demo_requested\<lparr>clock := 1500\<rparr>"

lemma demo_requested_fields [simp]:
  "withdrawals demo_requested = [demo_new]" "allocations demo_requested = [demo_row]" "next_id demo_requested = 8"
  "id_gen demo_requested = (\<lambda>n. show_int (int n))" "merchants demo_requested = [''m1'']"
  "lots demo_requested = [consume_one 1000 demo_slice demo_lot]"
  "journals demo_requested = [mk_journal demo_post, mk_journal demo_reserve]"
  by (simp_all add: demo_requested_def) (simp_all add: demo_w2_def demo_w1_def)

lemma demo_requested_inv: "wd_inv demo_requested"
  using keepsD [OF sound.requests(1) demo_requests demo_wd_inv] .

lemma demo_later_inv: "wd_inv demo_later"
  using demo_requested_inv ledger_inv_cong [of demo_requested demo_later] by (simp add: wd_inv_def)

lemma demo_release_start:
  "b_AvailableIDR (start_balance demo_release (demo_later\<lparr>next_id := 9\<rparr>)) = 200"
  "sb_AvailableIDR (start_source demo_release (demo_later\<lparr>next_id := 9\<rparr>)) = 200"
proof -
  have rows: "balances demo_requested = (balances demo_wd)((''m1'', ModeLive) \<mapsto> final_balance demo_reserve (demo_w1\<lparr>next_id := 7\<rparr>))"
    "source_balances demo_requested = (source_balances demo_wd)((''m1'', ModeLive, SourceStorefront) \<mapsto>
       final_source demo_reserve (demo_w1\<lparr>next_id := 7\<rparr>))"
    by (simp_all add: demo_requested_def demo_w2_def) (simp_all add: demo_w1_def demo_reserve_def)
  have fin: "b_AvailableIDR (final_balance demo_reserve (demo_w1\<lparr>next_id := 7\<rparr>)) = 200"
    "sb_AvailableIDR (final_source demo_reserve (demo_w1\<lparr>next_id := 7\<rparr>)) = 200"
    by (simp_all add: final_balance_def final_source_def start_balance_def start_source_def counts_capture_def
        demo_w1_def demo_wd_rows demo_reserve_def demo_legs_eq leg_balance_def leg_source_def leg_delta_def mk_leg_def
        project_balance_def project_source_def Let_def)
  show "b_AvailableIDR (start_balance demo_release (demo_later\<lparr>next_id := 9\<rparr>)) = 200"
    "sb_AvailableIDR (start_source demo_release (demo_later\<lparr>next_id := 9\<rparr>)) = 200"
    by (simp_all add: start_balance_def start_source_def rows fin demo_release_def wd_post_def)
qed

lemma demo_release_postable: "postable demo_release (demo_later\<lparr>next_id := 9\<rparr>)"
proof -
  have legs: "build_template (WithdrawalRelease 500) = Inr (pj_Legs demo_release)"
    using demo_back_built by (simp add: demo_release_def wd_post_def)
  have rows: "rows_ok (demo_later\<lparr>next_id := 9\<rparr>)"
    using demo_later_inv by (simp add: wd_inv_def ledger_inv_def rows_ok_def)
  have fresh: "journal_fresh demo_release (demo_later\<lparr>next_id := 9\<rparr>)"
    by (simp add: journal_fresh_def demo_release_def wd_post_def journal_reference_defs demo_reserve_def)
      (simp add: demo_post_def)
  show ?thesis
    by (rule available_postable [where n = 500 and d = 500 and t = "WithdrawalRelease 500", OF _ legs _ rows fresh])
      (simp_all add: demo_release_start,
       simp_all add: demo_release_def wd_post_def journal_reference_defs i64_bounds)
qed


definition demo_rejected :: Withdrawal where
  "demo_rejected = demo_new\<lparr>wd_ReleaseJournalID := Some ''lj_8'', wd_ReserveReleased := True,
     wd_Status := StatusRejected, wd_RejectReason := ''no'', wd_ReviewedBy := Some ''admin'',
     wd_ReviewedAt := Some 1500, wd_UpdatedAt := 1500\<rparr>"

lemma demo_released: "\<exists>w. releaseReserve demo_new 1500 demo_later =
    (Inr (demo_new\<lparr>wd_ReleaseJournalID := Some ''lj_8'', wd_ReserveReleased := True\<rparr>), w) \<and> withdrawals w = [demo_new]"
proof -
  have "ledger_inv (demo_later\<lparr>next_id := 9\<rparr>)" using demo_later_inv by (simp add: wd_inv_def)
  from postable_posts [OF this demo_release_postable]
  have post: "PostJournal demo_release (demo_later\<lparr>next_id := 9\<rparr>) =
      (Inr ''lj_8'', posted demo_release (demo_later\<lparr>next_id := 9\<rparr>))"
    by (simp add: demo_release_def wd_post_def)
  let ?w = "posted demo_release (demo_later\<lparr>next_id := 9\<rparr>)"
  have rows: "ListAllocations ''wd_5'' ?w = [demo_row]" by (simp add: ListAllocations_def) (simp add: demo_row_def)
  have restore: "restore_lots 1500 [demo_row] ?w =
      (Inr (), ?w\<lparr>lots := [restore_one 1500 demo_row (consume_one 1000 demo_slice demo_lot)]\<rparr>)"
    by (simp add: restore_lots_def RestoreLotRemaining_def update_lots_def lot_check_def demo_slice_def demo_lot_def
      sample_lot_def lot_statuses_def consume_one_def restore_one_def demo_row_def bindS_def in_tx_ignored_def)
  show ?thesis
    by (simp add: releaseReserve_def demo_back_built Let_def show_small post [unfolded demo_release_def]
        rows [unfolded demo_release_def] restore [unfolded demo_release_def])
qed

lemma demo_rejects: "\<exists>w. AdminReview demo_wd_service ''wd_5'' ''reject'' ''no'' ''admin'' demo_later =
    (Inr (withAllocations demo_rejected w), w)"
proof -
  obtain w where rel: "releaseReserve demo_new 1500 demo_later =
      (Inr (demo_new\<lparr>wd_ReleaseJournalID := Some ''lj_8'', wd_ReserveReleased := True\<rparr>), w)" and ws: "withdrawals w = [demo_new]"
    using demo_released by (elim exE conjE) (rule that)
  have trims: "trim_space ''no'' = ''no''" "trim_space ''admin'' = ''admin''" "to_lower (trim_space ''reject'') = ''reject''"
    by code_simp+
  have can: "CanTransition StatusUnderReview StatusRejected" by code_simp
  have row: "LockWithdrawal ''wd_5'' demo_later = Inr demo_new" by (simp add: LockWithdrawal_def)
  have check: "withdrawal_check demo_rejected = Inr ()"
    by (simp add: withdrawal_check_def modes_def withdrawal_statuses_def demo_rejected_def demo_new_def new_withdrawal_def
        demo_quote_def)
  have saved: "saved_columns demo_rejected demo_new = demo_rejected"
    by (simp add: saved_columns_def demo_rejected_def)
  have id: "wd_ID demo_rejected = ''wd_5''" "wd_Status demo_rejected = StatusRejected" by (simp_all add: demo_rejected_def)
  have free: "provider_refs_free demo_rejected [demo_new] = Inr ()"
    by (simp add: provider_refs_free_def id)
  have save: "SaveWithdrawal demo_rejected w = (Inr demo_rejected, w\<lparr>withdrawals := [demo_rejected]\<rparr>)"
    by (simp add: SaveWithdrawal_def ws update_one_def id saved check free)
  have body: "review_tx ''wd_5'' ''reject'' ''no'' ''admin'' 1500 demo_later = (Inr demo_rejected, w\<lparr>withdrawals := [demo_rejected]\<rparr>)"
    using save by (simp add: review_tx_def row review_row_def can rel demo_rejected_def)
  show ?thesis
    by (intro exI [of _ "w\<lparr>withdrawals := [demo_rejected]\<rparr>"])
      (simp add: AdminReview_def trims body disburse_approved_def id)
qed


subsection \<open>Instances of the theorems\<close>

lemma demo_unused:
  "ref_unused (JournalReferenceWithdrawalReserve (next_wd demo_wd)) demo_wd"
  "ref_unused (JournalReferenceWithdrawalRelease (next_wd demo_wd)) demo_wd"
  by (simp_all add: ref_unused_def next_wd_def show_small journal_by_reference_def journal_by_key_def
      journal_reference_defs) (simp_all add: demo_post_def)




end
