(* ===== verification/Withdrawal_Replay.thy ===== *)
theory Withdrawal_Replay
  imports Withdrawal_Runs
begin

text \<open>
  Replays: the terms of a withdrawal never change once it is recorded, the same idempotency key is
  answered with the same withdrawal at any later time, a completion or a failure is booked once, a
  review moves only along the status machine, and what a late callback can do to a settled withdrawal.
\<close>

subsection \<open>The terms of a withdrawal\<close>

text \<open>
  Two rows have the same terms when they differ only in the columns \<open>SaveWithdrawal\<close> writes: the
  identity, the owner, the amounts and fees, the bank snapshot, the key and the quote agree.
\<close>

definition same_terms :: "Withdrawal \<Rightarrow> Withdrawal \<Rightarrow> bool" where
  "same_terms x y \<longleftrightarrow> saved_columns x y = x"

lemma same_terms_refl [simp]: "same_terms x x"
  by (simp add: same_terms_def saved_columns_def)

lemma same_terms_saved: "same_terms x y \<Longrightarrow> same_terms x (saved_columns z y)"
  by (simp add: same_terms_def saved_columns_def)

lemma same_terms_fields:
  assumes "same_terms x y"
  shows "wd_ID y = wd_ID x" "wd_AmountIDR y = wd_AmountIDR x" "wd_MerchantID y = wd_MerchantID x"
    "withdrawal_key y = withdrawal_key x" "wd_QuoteID y = wd_QuoteID x"
    "wd_NetDisbursementIDR y = wd_NetDisbursementIDR x" "wd_BankAccountID y = wd_BankAccountID x"
proof -
  have x: "x = saved_columns x y" using assms by (simp add: same_terms_def)
  show "wd_ID y = wd_ID x" "wd_AmountIDR y = wd_AmountIDR x" "wd_MerchantID y = wd_MerchantID x"
    "withdrawal_key y = withdrawal_key x" "wd_QuoteID y = wd_QuoteID x"
    "wd_NetDisbursementIDR y = wd_NetDisbursementIDR x" "wd_BankAccountID y = wd_BankAccountID x"
    by (subst x, simp add: saved_columns_def withdrawal_key_def)+
qed

definition terms_kept :: "Withdrawal list \<Rightarrow> (string \<times> string) list \<Rightarrow> 'm withdrawal_db_scheme \<Rightarrow> bool" where
  "terms_kept ts sts w \<longleftrightarrow> wd_inv w \<and> stores w = sts \<and> list_all (\<lambda>t. list_ex (same_terms t) (withdrawals w)) ts"

lemma terms_kept_now: "wd_inv w \<Longrightarrow> x \<in> set (withdrawals w) \<Longrightarrow> terms_kept [x] (stores w) w"
  by (auto simp: terms_kept_def list_ex_iff intro!: bexI [of _ x])

lemma terms_kept_more:
  "terms_kept ts sts w \<Longrightarrow> wd_inv w' \<Longrightarrow> stores w' = stores w \<Longrightarrow>
     (\<And>t. list_ex (same_terms t) (withdrawals w) \<Longrightarrow> list_ex (same_terms t) (withdrawals w')) \<Longrightarrow> terms_kept ts sts w'"
  by (auto simp: terms_kept_def list_all_iff)

text \<open>A statement that leaves the withdrawals and the stores alone.\<close>

lemma keeps_terms_frame:
  fixes m :: "('m withdrawal_db_scheme, 'a) op"
  assumes "keeps wd_inv m"
    and "\<And>w r w'. m w = (r, w') \<Longrightarrow> wd_inv w \<Longrightarrow> withdrawals w' = withdrawals w \<and> stores w' = stores w \<and> payouts w' = payouts w"
  shows "keeps (terms_kept ts sts) m"
proof (rule keepsI)
  fix w :: "'m withdrawal_db_scheme" and r w'
  assume t: "terms_kept ts sts w" and run: "m w = (r, w')"
  then have inv: "wd_inv w" by (simp add: terms_kept_def)
  from terms_kept_more [OF t keepsD [OF assms(1) run inv]] assms(2) [OF run inv]
  show "terms_kept ts sts w'" by simp
qed

lemma PostJournal_stores:
  fixes w :: "'m withdrawal_db_scheme"
  assumes "PostJournal p w = (r, w')" and "wd_inv w"
  shows "withdrawals w' = withdrawals w \<and> stores w' = stores w \<and> payouts w' = payouts w"
proof -
  have rows: "rows_ok w" using assms(2) ledger_inv_rows by (auto simp: wd_inv_def)
  have "stores w' = stores w"
    using assms(1) rows by (auto elim!: PostJournal_cases)
  with withdrawal_tables_more(3,6) [OF PostJournal_more [OF assms(1) rows]] show ?thesis by simp
qed

lemma update_lots_tables:
  fixes w :: "'m withdrawal_db_scheme"
  assumes "update_lots sel f w = (r, w')"
  shows "withdrawals w' = withdrawals w \<and> stores w' = stores w \<and> payouts w' = payouts w"
  using assms by (auto simp: update_lots_def split: option.splits sum.splits)


text \<open>The two statements that touch the table: a new row joins, a saved row keeps its terms.\<close>

lemma keeps_terms_withdrawals:
  "keeps (terms_kept ts sts) (InsertWithdrawal x)" "keeps (terms_kept ts sts) (SaveWithdrawal y)"
proof -
  show "keeps (terms_kept ts sts) (InsertWithdrawal x)"
  proof (rule keepsI)
    fix w :: "'m withdrawal_db_scheme" and r w'
    assume t: "terms_kept ts sts w" and run: "InsertWithdrawal x w = (r, w')"
    then have "wd_inv w'" using keepsD [OF keeps_InsertWithdrawal run] by (simp add: terms_kept_def)
    moreover have "stores w' = stores w \<and> payouts w' = payouts w" "set (withdrawals w) \<subseteq> set (withdrawals w')"
      using run by (auto simp: InsertWithdrawal_def split: sum.splits)
    ultimately show "terms_kept ts sts w'" by (intro terms_kept_more [OF t]) (auto simp: list_ex_iff)
  qed
  show "keeps (terms_kept ts sts) (SaveWithdrawal y)"
  proof (rule keepsI)
    fix w :: "'m withdrawal_db_scheme" and r w'
    assume t: "terms_kept ts sts w" and run: "SaveWithdrawal y w = (r, w')"
    then have inv: "wd_inv w'" using keepsD [OF keeps_SaveWithdrawal run] by (simp add: terms_kept_def)
    show "terms_kept ts sts w'"
    proof (cases "w' = w")
      case False
      then have "w' = w\<lparr>withdrawals := map (\<lambda>r. if wd_ID r = wd_ID y then saved_columns y r else r) (withdrawals w)\<rparr>"
        using run by (auto simp: SaveWithdrawal_def update_one_Inr split: sum.splits)
      then show ?thesis
        using inv by (intro terms_kept_more [OF t]) (auto simp: list_ex_iff intro: same_terms_saved)
    qed (use t in simp)
  qed
qed

lemma bank_frames:
  fixes w :: "'m withdrawal_db_scheme"
  shows "InsertBankAccount a w = (r1, w') \<Longrightarrow> withdrawals w' = withdrawals w \<and> stores w' = stores w \<and> payouts w' = payouts w"
    and "Withdrawal_Store.update_bank sel f w = (r1, w') \<Longrightarrow> withdrawals w' = withdrawals w \<and> stores w' = stores w \<and> payouts w' = payouts w"
    and "ClearPrimary m t w = (r2, w') \<Longrightarrow> withdrawals w' = withdrawals w \<and> stores w' = stores w \<and> payouts w' = payouts w"
    and "UpsertWithdrawalLock l w = (r3, w') \<Longrightarrow> withdrawals w' = withdrawals w \<and> stores w' = stores w \<and> payouts w' = payouts w"
    and "InsertQuote q w = (r4, w') \<Longrightarrow> withdrawals w' = withdrawals w \<and> stores w' = stores w \<and> payouts w' = payouts w"
    and "invalidate_quotes qsel t w = (r2, w') \<Longrightarrow> withdrawals w' = withdrawals w \<and> stores w' = stores w \<and> payouts w' = payouts w"
    and "MarkQuoteConsumed i j t w = (r4, w') \<Longrightarrow> withdrawals w' = withdrawals w \<and> stores w' = stores w \<and> payouts w' = payouts w"
    and "InsertAllocation al w = (r5, w') \<Longrightarrow> withdrawals w' = withdrawals w \<and> stores w' = stores w \<and> payouts w' = payouts w"
  by (auto simp: InsertBankAccount_def Withdrawal_Store.update_bank_def ClearPrimary_def UpsertWithdrawalLock_def InsertQuote_def
      invalidate_quotes_def MarkQuoteConsumed_def InsertAllocation_def Let_def split: sum.splits option.splits if_splits)

lemma other_frames:
  fixes w :: "'m withdrawal_db_scheme"
  shows "EnsureBalance m mode t w = (r1, w') \<Longrightarrow> withdrawals w' = withdrawals w \<and> stores w' = stores w \<and> payouts w' = payouts w"
    and "InsertSettlementLot lot w = (r2, w') \<Longrightarrow> withdrawals w' = withdrawals w \<and> stores w' = stores w \<and> payouts w' = payouts w"
    and "InsertSnapshot sn w = (r3, w') \<Longrightarrow> withdrawals w' = withdrawals w \<and> stores w' = stores w \<and> payouts w' = payouts w"
  by (auto simp: EnsureBalance_def InsertSettlementLot_def InsertSnapshot_def
      split: sum.splits if_splits)

lemmas frames = bank_frames other_frames PostJournal_stores update_lots_tables

lemma wrapped_frames:
  fixes w :: "'m withdrawal_db_scheme"
  shows "UpdateBankRow a v w = (r1, w') \<Longrightarrow> withdrawals w' = withdrawals w \<and> stores w' = stores w \<and> payouts w' = payouts w"
    and "SetBankVerified i t w = (r1, w') \<Longrightarrow> withdrawals w' = withdrawals w \<and> stores w' = stores w \<and> payouts w' = payouts w"
    and "MakePrimary i m t w = (r1, w') \<Longrightarrow> withdrawals w' = withdrawals w \<and> stores w' = stores w \<and> payouts w' = payouts w"
    and "ArchiveBankRow i t w = (r1, w') \<Longrightarrow> withdrawals w' = withdrawals w \<and> stores w' = stores w \<and> payouts w' = payouts w"
    and "InvalidateQuotesForBank i t w = (r2, w') \<Longrightarrow> withdrawals w' = withdrawals w \<and> stores w' = stores w \<and> payouts w' = payouts w"
    and "InvalidateQuotesForMerchant m t w = (r2, w') \<Longrightarrow> withdrawals w' = withdrawals w \<and> stores w' = stores w \<and> payouts w' = payouts w"
    and "ConsumeLotRemaining i n t w = (r2, w') \<Longrightarrow> withdrawals w' = withdrawals w \<and> stores w' = stores w \<and> payouts w' = payouts w"
    and "RestoreLotRemaining i n t w = (r2, w') \<Longrightarrow> withdrawals w' = withdrawals w \<and> stores w' = stores w \<and> payouts w' = payouts w"
    and "UpdateLotAfterCapture i j st n t w = (r2, w') \<Longrightarrow> withdrawals w' = withdrawals w \<and> stores w' = stores w \<and> payouts w' = payouts w"
    and "UpdateLotAfterRelease i j st n t w = (r2, w') \<Longrightarrow> withdrawals w' = withdrawals w \<and> stores w' = stores w \<and> payouts w' = payouts w"
  unfolding UpdateBankRow_def SetBankVerified_def MakePrimary_def ArchiveBankRow_def InvalidateQuotesForBank_def
    InvalidateQuotesForMerchant_def ConsumeLotRemaining_def RestoreLotRemaining_def UpdateLotAfterCapture_def
    UpdateLotAfterRelease_def
  by (erule frames)+

lemma keeps_terms_call: "keeps (terms_kept ts sts) (call_create dp c)"
  by (rule keepsI) (auto simp: call_create_def terms_kept_def wd_inv_def)

interpretation kept: wd_statements "terms_kept ts sts :: 'm withdrawal_db_scheme \<Rightarrow> bool" for ts sts
  by unfold_locales
    (simp add: terms_kept_def,
     (rule keeps_terms_withdrawals keeps_terms_call |
      (rule keeps_terms_frame, rule inv_intros, erule frames wrapped_frames, assumption?))+)

text \<open>The trace of the calls to the provider only grows.\<close>

definition trace_from :: "CreateDisbursementInput list \<Rightarrow> 'm withdrawal_db_scheme \<Rightarrow> bool" where
  "trace_from cs w \<longleftrightarrow> wd_inv w \<and> take (length cs) (payouts w) = cs"

lemma keeps_trace_frame:
  fixes m :: "('m withdrawal_db_scheme, 'a) op"
  assumes "keeps wd_inv m"
    and "\<And>w r w'. m w = (r, w') \<Longrightarrow> wd_inv w \<Longrightarrow> withdrawals w' = withdrawals w \<and> stores w' = stores w \<and> payouts w' = payouts w"
  shows "keeps (trace_from cs) m"
  using assms unfolding keeps_def trace_from_def by metis

lemma keeps_trace_withdrawals:
  "keeps (trace_from cs) (InsertWithdrawal x)" "keeps (trace_from cs) (SaveWithdrawal y)" "keeps (trace_from cs) (call_create dp c)"
proof -
  have "payouts w' = payouts w" if "InsertWithdrawal x w = (r, w')" for w :: "'m withdrawal_db_scheme" and r w'
    using that by (auto simp: InsertWithdrawal_def split: sum.splits)
  then show "keeps (trace_from cs) (InsertWithdrawal x)"
    using keeps_InsertWithdrawal [of x] unfolding keeps_def trace_from_def by metis
  have "payouts w' = payouts w" if "SaveWithdrawal y w = (r, w')" for w :: "'m withdrawal_db_scheme" and r w'
    using that by (auto simp: SaveWithdrawal_def split: sum.splits)
  then show "keeps (trace_from cs) (SaveWithdrawal y)"
    using keeps_SaveWithdrawal [of y] unfolding keeps_def trace_from_def by metis
  show "keeps (trace_from cs) (call_create dp c)"
    by (rule keepsI) (auto simp: call_create_def trace_from_def wd_inv_def dest: arg_cong [where f = length])
qed

interpretation trace: wd_statements "trace_from cs :: 'm withdrawal_db_scheme \<Rightarrow> bool" for cs
  by unfold_locales
    (simp add: trace_from_def,
     (rule keeps_trace_withdrawals | (rule keeps_trace_frame, rule inv_intros, erule frames wrapped_frames, assumption?))+)

interpretation kept_run: wd_history "terms_kept ts sts" for ts sts
  by unfold_locales (simp add: terms_kept_def wd_inv_clock)



subsection \<open>The idempotency key of a request\<close>

lemma request_tx_recorded:
  assumes "request_tx s m st mode quote auto h now w = (Inr x, w')"
  shows "x \<in> set (withdrawals w') \<and> withdrawal_key x = (m, mode, h)"
  using assms
proof (rule request_tx_Inr)
  fix w0 w1 w3 w4 alloc
  assume ins: "InsertWithdrawal (new_withdrawal s m st quote (next_wd w0) (''lj_'' @ id_gen w1 (next_id w1)) mode auto
      (wa_Source alloc) h now) w3 = (Inr x, w4)"
    and rows: "insert_allocations (next_wd w0) now True 1 (wa_Allocations alloc) w4 = (Inr True, w')"
  from InsertWithdrawal_effect [OF ins] have "x \<in> set (withdrawals w4)" "withdrawal_key x = (m, mode, h)"
    by (auto simp: withdrawal_key_def new_withdrawal_def)
  moreover have "withdrawals w' = withdrawals w4" using insert_allocations_True [OF rows] by auto
  ultimately show ?thesis by simp
qed

lemma withAllocations_id: "wd_ID (withAllocations x w) = wd_ID x"
  by (simp add: withAllocations_def)

lemma disburse_approved_recorded:
  assumes run: "disburse_approved s x w = (Inr y, w')" and inv: "wd_inv w" and x: "x \<in> set (withdrawals w)"
  shows "wd_ID y = wd_ID x \<and> (\<exists>z\<in>set (withdrawals w'). wd_ID z = wd_ID x \<and> withdrawal_key z = withdrawal_key x)
    \<and> stores w' = stores w"
proof -
  have row: "wd_ID r = wd_ID x" if "GetWithdrawalRow (wd_ID x) w2 = Inr r" for w2 :: "'a withdrawal_db_scheme" and r
    using that by (auto simp: GetWithdrawalRow_def dest: find_Some_mem)
  have ids: "wd_ID y = wd_ID x"
  proof (cases "wd_Status x = StatusApproved")
    case True
    then obtain w1 where "(case GetWithdrawalRow (wd_ID x) w1 of Inr r \<Rightarrow> ret (withAllocations r w1)
        | Inl _ \<Rightarrow> ret (withAllocations x w1)) w1 = (Inr y, w')"
      using run by (auto simp: disburse_approved_def bindS_eq_Inr)
    then have "y = withAllocations (case GetWithdrawalRow (wd_ID x) w1 of Inr r \<Rightarrow> r | Inl _ \<Rightarrow> x) w1"
      by (auto split: sum.splits)
    then have "wd_ID y = wd_ID (case GetWithdrawalRow (wd_ID x) w1 of Inr r \<Rightarrow> r | Inl _ \<Rightarrow> x)"
      by (simp only: withAllocations_id)
    also have "\<dots> = wd_ID x" using row [of w1] by (cases "GetWithdrawalRow (wd_ID x) w1") simp_all
    finally show ?thesis .
  qed (use run in \<open>auto simp: disburse_approved_def withAllocations_id\<close>)
  have "keeps (terms_kept [x] (stores w)) (disburse_approved s x)"
    unfolding disburse_approved_def by (intro inv_intros kept.lookups)
  from keepsD [OF this run terms_kept_now [OF inv x]] have k: "terms_kept [x] (stores w) w'" .
  then obtain z where z: "z \<in> set (withdrawals w')" "same_terms x z" by (auto simp: terms_kept_def list_ex_iff)
  with same_terms_fields(1,4) [OF z(2)] have "\<exists>z\<in>set (withdrawals w'). wd_ID z = wd_ID x \<and> withdrawal_key z = withdrawal_key x"
    by blast
  with ids k show ?thesis by (simp add: terms_kept_def)
qed

lemma request_recorded:
  assumes inv: "wd_inv w" and run: "RequestWithdrawal s st q key pm w = (Inr x, w')"
    and m: "resolveMerchant st w = Inr m"
  shows "(\<exists>z\<in>set (withdrawals w'). wd_ID z = wd_ID x \<and> withdrawal_key z = (m, wd_mode s pm, hashKey key)) \<and>
    stores w' = stores w \<and> wd_inv w'"
proof -
  have g: "request_guards s st q key w = Inr m"
    using run m by (auto simp: RequestWithdrawal_def request_guards_def bindS_def split: if_splits)
  have inv': "wd_inv w'" by (rule keepsD [OF sound.requests(1) run inv])
  show ?thesis
  proof (cases "GetWithdrawalByIdempotency m (wd_mode s pm) (hashKey key) w")
    case (Inr old)
    then have "w' = w" "wd_ID x = wd_ID old"
      using run g by (auto simp: RequestWithdrawal_def Let_def withAllocations_def)
    moreover have "old \<in> set (withdrawals w)" "withdrawal_key old = (m, wd_mode s pm, hashKey key)"
      using Inr by (auto simp: GetWithdrawalByIdempotency_def dest: find_Some_mem)
    ultimately show ?thesis using inv by auto
  next
    case (Inl e)
    then obtain quote y w1 where
      tx: "request_tx s m st (wd_mode s pm) quote (autoApprove s w) (hashKey key) (clock w) w = (Inr y, w1)"
      and post: "disburse_approved s y w1 = (Inr x, w')"
      using run g by (auto simp: RequestWithdrawal_def Let_def bindS_eq_Inr split: if_splits)
    have inv1: "wd_inv w1" by (rule keepsD [OF sound.request_body tx inv])
    have "keeps (terms_kept [] (stores w)) (request_tx s m st (wd_mode s pm) quote (autoApprove s w) (hashKey key) (clock w))"
      by (rule kept.request_body)
    from keepsD [OF this tx] have "stores w1 = stores w" using inv by (simp add: terms_kept_def)
    with request_tx_recorded [OF tx] disburse_approved_recorded [OF post inv1] inv' show ?thesis by metis
  qed
qed





subsection \<open>Completion\<close>

text \<open>What the wallets and lots are, whatever else the ledger records.\<close>

definition same_money :: "'m withdrawal_db_scheme \<Rightarrow> 'm withdrawal_db_scheme \<Rightarrow> bool" where
  "same_money w w' \<longleftrightarrow> wd_inv w' \<and> abs_wallet w' = abs_wallet w \<and> lots w' = lots w \<and> withdrawals w' = withdrawals w"

lemma same_money_refl: "wd_inv w \<Longrightarrow> same_money w w"
  by (simp add: same_money_def)

lemma same_money_trans: "same_money w w1 \<Longrightarrow> same_money w1 w2 \<Longrightarrow> same_money w w2"
  by (simp add: same_money_def)

lemma abs_wallet_next_id [simp]: "abs_wallet (w\<lparr>next_id := n\<rparr>) = abs_wallet w"
  by (simp add: abs_wallet_def GetBalance_def fun_eq_iff)

text \<open>A journal whose template does not move the wallet.\<close>

lemma neutral_post:
  fixes w :: "'m withdrawal_db_scheme"
  assumes inv: "wd_inv w" and legs: "build_template t = Inr (pj_Legs p)" and t: "template_wallet t = (0, 0)"
    and run: "PostJournal p (w\<lparr>next_id := n\<rparr>) = (r, w')"
  shows "same_money w w'"
proof -
  have inv': "wd_inv (w\<lparr>next_id := n\<rparr>)" using inv by simp
  then have "ledger_inv (w\<lparr>next_id := n\<rparr>)" unfolding wd_inv_def by blast
  then have rows: "rows_ok (w\<lparr>next_id := n\<rparr>)" by (rule ledger_inv_rows)
  have "wd_inv w'" by (rule keepsD [OF keeps_wd_ledger(1) run inv'])
  with run rows show ?thesis
  proof (cases rule: PostJournal_cases)
    case added
    have "abs_wallet w' = abs_wallet w"
      unfolding added(4) abs_wallet_posted using template_legs_delta [OF legs] t by simp
    with added(4) \<open>wd_inv w'\<close> show ?thesis by (simp add: same_money_def)
  qed (use \<open>wd_inv w'\<close> in \<open>simp_all add: same_money_def\<close>)
qed

lemma post_complete_neutral:
  assumes "wd_inv w" and "post_complete x now w = (Inr y, w')"
  shows "same_money w w' \<and> (\<exists>j. y = x\<lparr>wd_CompleteJournalID := Some j\<rparr>)"
proof (cases "wd_CompleteJournalID x")
  case None
  with assms(2) obtain legs k where
    legs: "build_template (WithdrawalComplete (wd_AmountIDR x) (wd_PlatformFeeIDR x) (wd_ProviderFeeQuotedIDR x)
      (wd_NetDisbursementIDR x)) = Inr legs"
    and post: "PostJournal (wd_post x (''lj_'' @ id_gen w (next_id w)) TemplateWithdrawalComplete
      (JournalReferenceWithdrawalComplete (wd_ID x)) ''Withdrawal complete '' (Some (wd_AmountIDR x)) now legs)
      (w\<lparr>next_id := Suc (next_id w)\<rparr>) = (Inr k, w')"
    and y: "y = x\<lparr>wd_CompleteJournalID := Some (''lj_'' @ id_gen w (next_id w))\<rparr>"
    by (auto simp: post_complete_def Let_def bindS_eq_Inr)
  have "same_money w w'" by (rule neutral_post [OF assms(1) _ _ post, of "WithdrawalComplete (wd_AmountIDR x)
      (wd_PlatformFeeIDR x) (wd_ProviderFeeQuotedIDR x) (wd_NetDisbursementIDR x)"]) (use legs in \<open>simp_all add: wd_post_def\<close>)
  with y show ?thesis by blast
next
  case (Some j)
  then have "y = x" "w' = w" using assms(2) by (simp_all add: post_complete_def)
  with Some assms(1) show ?thesis by (auto simp: same_money_refl intro!: exI [of _ j])
qed

lemma fee_settle_template: "\<exists>t. fee_settle_legs q a = build_template t \<and> template_wallet t = (0, 0)"
proof -
  consider "a = q" | "a > q" | "a < q" by linarith
  then show ?thesis
    by cases (rule exI [of _ "FeeSettleEqual q"], simp add: fee_settle_legs_def,
      rule exI [of _ "FeeSettleHigher q a"], simp add: fee_settle_legs_def,
      rule exI [of _ "FeeSettleLower q a"], simp add: fee_settle_legs_def)
qed

lemma post_fee_settle_neutral:
  assumes "wd_inv w" and "post_fee_settle x fee now w = (Inr y, w')"
  shows "same_money w w' \<and> (\<exists>j. y = x\<lparr>wd_FeeSettleJournalID := j\<rparr>)"
proof (cases "wd_FeeSettleJournalID x = None \<and> wd_ProviderFeeQuotedIDR x > 0")
  case True
  with assms(2) obtain legs k where
    legs: "fee_settle_legs (wd_ProviderFeeQuotedIDR x) (actual_fee x fee) = Inr legs"
    and post: "PostJournal (wd_post x (''lj_'' @ id_gen w (next_id w)) ''WITHDRAWAL_FEE_SETTLE''
      (JournalReferenceWithdrawalFeeSettle (wd_ID x)) ''Provider fee settle '' None now legs)
      (w\<lparr>next_id := Suc (next_id w)\<rparr>) = (Inr k, w')"
    and y: "y = x\<lparr>wd_FeeSettleJournalID := Some (''lj_'' @ id_gen w (next_id w))\<rparr>"
    by (auto simp: post_fee_settle_def Let_def bindS_eq_Inr)
  obtain t where t: "build_template t = Inr legs" "template_wallet t = (0, 0)" using fee_settle_template legs by metis
  have "same_money w w'" by (rule neutral_post [OF assms(1) _ t(2) post]) (use t in \<open>simp add: wd_post_def\<close>)
  with y show ?thesis by blast
next
  case False
  then have "y = x" "w' = w" using assms(2) by (auto simp: post_fee_settle_def Let_def)
  with assms(1) show ?thesis by (auto simp: same_money_refl intro!: exI [of _ "wd_FeeSettleJournalID x"])
qed


lemma saved_row:
  assumes "SaveWithdrawal x w = (Inr y, w')" and "LockWithdrawal i w = Inr r" and "wd_ID x = i"
  shows "LockWithdrawal i w' = Inr (saved_columns x r) \<and> y = saved_columns x r"
proof -
  from SaveWithdrawal_effect [OF assms(1)] assms(2,3) have
    w': "w' = w\<lparr>withdrawals := map (\<lambda>r. if wd_ID r = wd_ID x then saved_columns x r else r) (withdrawals w)\<rparr>"
    and y: "y = saved_columns x r" by (auto simp: LockWithdrawal_def)
  have r: "find (\<lambda>r. wd_ID r = i) (withdrawals w) = Some r" using assms(2) by (simp add: LockWithdrawal_def)
  then have "wd_ID r = i" using find_Some_mem by fastforce
  with r show ?thesis
    using y assms(3) by (simp add: LockWithdrawal_def w' find_map_update)
qed

lemma completed_stays:
  assumes "LockWithdrawal i w = Inr y" and "wd_Status y = StatusCompleted"
  shows "completeWithdrawal i ref fee now w = (Inr (), w) \<and> failAndRelease i reason w = (Inr (), w)"
  using assms by (simp add: completeWithdrawal_def with_tx_def complete_tx_def failAndRelease_def fail_tx_def)

text \<open>The shape of a completion that recaptures nothing.\<close>

definition recaptures :: "Withdrawal \<Rightarrow> bool" where
  "recaptures x \<longleftrightarrow> (wd_Status x = StatusFailed \<or> wd_Status x = StatusCancelled) \<and> wd_ReserveReleased x"

lemma complete_tx_held:
  assumes run: "complete_tx i ref fee now w = (Inr (), w')" and x: "LockWithdrawal i w = Inr x"
    and held: "\<not> recaptures x" and st: "wd_Status x \<noteq> StatusCompleted"
  obtains x2 w2 x3 w3 y where "post_complete x now w = (Inr x2, w2)" and "post_fee_settle x2 fee now w2 = (Inr x3, w3)"
    and "SaveWithdrawal (x3\<lparr>wd_ProviderDisbursementReference :=
        (if ref \<noteq> [] then Some ref else wd_ProviderDisbursementReference x3),
        wd_ProviderFeeActualIDR := Some (actual_fee x3 fee), wd_Status := StatusCompleted,
        wd_CompletedAt := Some now, wd_UpdatedAt := now\<rparr>) w3 = (Inr y, w')"
proof -
  let ?save = "\<lambda>x3. bindS (SaveWithdrawal (x3\<lparr>wd_ProviderDisbursementReference :=
        (if ref \<noteq> [] then Some ref else wd_ProviderDisbursementReference x3),
        wd_ProviderFeeActualIDR := Some (actual_fee x3 fee), wd_Status := StatusCompleted,
        wd_CompletedAt := Some now, wd_UpdatedAt := now\<rparr>)) (\<lambda>_. ret ())"
  let ?barred = "wd_Status x \<notin> set [StatusProcessing, StatusUnknownOutcome, StatusApproved, StatusFailed, StatusCancelled]
    \<and> \<not> CanTransition (wd_Status x) StatusCompleted"
  have c: "((wd_Status x = StatusFailed \<or> wd_Status x = StatusCancelled) \<and> wd_ReserveReleased x) = False"
    using held by (simp add: recaptures_def)
  have "complete_tx i ref fee now w = (if ?barred then throw ErrInvalidStatus
      else bindS (post_complete x now) (\<lambda>x2. bindS (post_fee_settle x2 fee now) ?save)) w"
    using st by (simp add: complete_tx_def x c)
  with run have "bindS (post_complete x now) (\<lambda>x2. bindS (post_fee_settle x2 fee now) ?save) w = (Inr (), w')"
    by (cases ?barred) (simp_all only: if_True if_False throw_app prod.inject sum.distinct simp_thms)
  then show thesis
    unfolding bindS_eq_Inr ret_app by (elim exE conjE Pair_inject) (hypsubst, rule that, assumption+)
qed

lemma completion_effect:
  fixes w :: "'m withdrawal_db_scheme"
  assumes inv: "wd_inv w" and row: "GetWithdrawalRow i w = Inr x" and held: "\<not> recaptures x"
    and run: "completeWithdrawal i ref fee now w = (Inr (), w')"
  shows "abs_wallet w' = abs_wallet w" and "lots w' = lots w"
    and "\<exists>y. LockWithdrawal i w' = Inr y \<and> wd_Status y = StatusCompleted \<and>
      wd_ReserveReleased y = wd_ReserveReleased x \<and> wd_RecaptureJournalID y = wd_RecaptureJournalID x"
proof -
  have x: "LockWithdrawal i w = Inr x" using row by (simp add: LockWithdrawal_def GetWithdrawalRow_def)
  then have i: "wd_ID x = i" by (auto simp: LockWithdrawal_def dest: find_Some_mem)
  have tx: "complete_tx i ref fee now w = (Inr (), w')" using run by (simp add: completeWithdrawal_def)
  have "abs_wallet w' = abs_wallet w \<and> lots w' = lots w \<and>
    (\<exists>y. LockWithdrawal i w' = Inr y \<and> wd_Status y = StatusCompleted \<and>
      wd_ReserveReleased y = wd_ReserveReleased x \<and> wd_RecaptureJournalID y = wd_RecaptureJournalID x)"
  proof (cases "wd_Status x = StatusCompleted")
    case True
    with tx x have "w' = w" by (simp add: complete_tx_def)
    with True x show ?thesis by simp
  next
    case False
    show ?thesis
      using tx x held False
    proof (rule complete_tx_held)
      fix x2 w2 x3 w3 y
      let ?z = "x3\<lparr>wd_ProviderDisbursementReference := (if ref \<noteq> [] then Some ref else wd_ProviderDisbursementReference x3),
        wd_ProviderFeeActualIDR := Some (actual_fee x3 fee), wd_Status := StatusCompleted,
        wd_CompletedAt := Some now, wd_UpdatedAt := now\<rparr>"
      assume p1: "post_complete x now w = (Inr x2, w2)" and p2: "post_fee_settle x2 fee now w2 = (Inr x3, w3)"
        and save: "SaveWithdrawal ?z w3 = (Inr y, w')"
      note n1 = post_complete_neutral [OF inv p1]
      then have inv2: "wd_inv w2" by (simp add: same_money_def)
      note n2 = post_fee_settle_neutral [OF inv2 p2]
      have money: "same_money w w3" using same_money_trans n1 n2 by blast
      have id: "wd_ID ?z = i" "wd_ReserveReleased ?z = wd_ReserveReleased x"
        "wd_RecaptureJournalID ?z = wd_RecaptureJournalID x" using n1 n2 i by auto
      have "LockWithdrawal i w3 = Inr x" using x money by (simp add: LockWithdrawal_def same_money_def)
      from saved_row [OF save this id(1)] id(2,3) have y: "LockWithdrawal i w' = Inr y" "wd_Status y = StatusCompleted"
        "wd_ReserveReleased y = wd_ReserveReleased x" "wd_RecaptureJournalID y = wd_RecaptureJournalID x"
        by (auto simp: saved_columns_def)
      from SaveWithdrawal_effect [OF save] obtain ws where w': "w' = w3\<lparr>withdrawals := ws\<rparr>" by blast
      have books: "same_books w3 w'" by (simp add: same_books_def w')
      show ?thesis
        using y money same_books_reads(1) [OF books] by (simp add: same_money_def w')
    qed
  qed
  then show "abs_wallet w' = abs_wallet w" "lots w' = lots w"
    "\<exists>y. LockWithdrawal i w' = Inr y \<and> wd_Status y = StatusCompleted \<and>
      wd_ReserveReleased y = wd_ReserveReleased x \<and> wd_RecaptureJournalID y = wd_RecaptureJournalID x" by blast+
qed

text \<open>
  C15. Completion: when a withdrawal whose reserve is held completes, the money has already left the
  wallet, so no wallet and no lot changes; the row is COMPLETED, and from then on a second completion
  (with any reference, fee and time) and a late failure are accepted and change nothing at all.
\<close>

theorem completion_settles_once:
  assumes "wd_inv w" and "GetWithdrawalRow i w = Inr x" and "\<not> wd_ReserveReleased x"
    and "completeWithdrawal i ref fee now w = (Inr (), w')"
  shows "abs_wallet w' = abs_wallet w \<and> lots w' = lots w \<and>
    (\<exists>y. GetWithdrawalRow i w' = Inr y \<and> wd_Status y = StatusCompleted) \<and>
    completeWithdrawal i ref' fee' now' w' = (Inr (), w') \<and> failAndRelease i reason w' = (Inr (), w')"
proof -
  have "\<not> recaptures x" using assms(3) by (simp add: recaptures_def)
  note E = completion_effect [OF assms(1,2) this assms(4)]
  from E(3) obtain y where y: "LockWithdrawal i w' = Inr y" "wd_Status y = StatusCompleted" by blast
  with E(1,2) completed_stays [OF y] show ?thesis by (auto simp: LockWithdrawal_def GetWithdrawalRow_def)
qed

text \<open>Journals that leave the wallet alone are accepted whenever their legs are well formed.\<close>

definition off_wallet :: "EntryLeg \<Rightarrow> bool" where
  "off_wallet l \<longleftrightarrow> \<not> wallet_account (leg_AccountCode l)"

lemma off_wallet_rows:
  assumes "list_all off_wallet ls" and "row_ok (balance_fields b)"
    and "wallet_source (pj_Source p) \<Longrightarrow> row_ok (source_fields sb)"
  shows "rows_run p ls b sb \<and> fold (leg_balance p) ls b = b \<and> fold (leg_source p) ls sb = sb"
  using assms
  by (induction ls) (auto simp: off_wallet_def leg_balance_def leg_source_def project_balance_def project_source_def
      wallet_account_def)

lemma show_nine: "show_int 9 = ''9''"
  by code_simp

lemma neutral_postable:
  assumes legs: "list_all off_wallet (pj_Legs p)" "list_all db_leg_ok (pj_Legs p)" "list_all component_ok (pj_Legs p)"
      "2 \<le> length (pj_Legs p)" "length (pj_Legs p) \<le> 9"
      "legs_side SideDebit (pj_Legs p) = legs_side SideCredit (pj_Legs p)" "in_i64 (legs_side SideDebit (pj_Legs p))"
    and inv: "rows_ok w" and fresh: "journal_fresh p w"
    and named: "pj_JournalID p \<noteq> []" "pj_MerchantID p \<noteq> []" "pj_JournalReference p \<noteq> []" "pj_IdempotencyKey p \<noteq> []"
      "pj_ReferenceType p \<noteq> []" "pj_ReferenceID p \<noteq> []" "pj_TemplateCode p \<noteq> []" "pj_TemplateCode p \<noteq> TemplatePaymentCapture"
    and m: "pj_MerchantID p \<in> set (merchants w)" and mode: "pj_PaymentMode p = ModeSandbox \<or> pj_PaymentMode p = ModeLive"
    and src: "pj_Source p \<in> {SourceStorefront, SourceQRISAPI, SourceMixed}"
  shows "postable p w"
proof -
  have b: "row_ok (balance_fields (start_balance p w))"
    using inv by (auto simp: start_balance_def rows_ok_def split: option.splits)
  have sb: "row_ok (source_fields (start_source p w))"
    using inv by (auto simp: start_source_def rows_ok_def split: option.splits)
  note run = off_wallet_rows [where p = p, OF legs(1) b sb]
  have nc: "\<not> counts_capture p" using named by (simp add: counts_capture_def)
  have fin: "final_balance p w = start_balance p w" "final_source p w = start_source p w"
    using run nc by (simp_all add: final_balance_def final_source_def Let_def)
  show ?thesis
    unfolding postable_def fin
    using legs named m mode src fresh run b sb by (simp add: insert_iff) blast
qed

text \<open>The withdrawal of the small world, approved and handed to the provider.\<close>

definition demo_sent :: "bool \<Rightarrow> Withdrawal" where
  "demo_sent b = demo_new\<lparr>wd_Status := StatusProcessing, wd_ReserveReleased := b,
     wd_ProviderDisbursementReference := Some ''ref''\<rparr>"

definition demo_flight :: "bool \<Rightarrow> withdrawal_db" where
  "demo_flight b = demo_requested\<lparr>withdrawals := [(demo_sent b)]\<rparr>"

lemma demo_sent_fields [simp]:
  "wd_ID (demo_sent b) = ''wd_5''" "wd_MerchantID (demo_sent b) = ''m1''" "wd_PaymentMode (demo_sent b) = ModeLive"
  "wd_Status (demo_sent b) = StatusProcessing" "wd_ReserveReleased (demo_sent b) = b" "wd_AmountIDR (demo_sent b) = 500"
  "wd_PlatformFeeIDR (demo_sent b) = 10" "wd_ProviderFeeQuotedIDR (demo_sent b) = 20" "wd_NetDisbursementIDR (demo_sent b) = 470"
  "wd_CompleteJournalID (demo_sent b) = None" "wd_FeeSettleJournalID (demo_sent b) = None" "wd_Source (demo_sent b) = SourceStorefront"
  by (simp_all add: demo_sent_def) (simp_all add: demo_new_def new_withdrawal_def demo_quote_def)

lemma demo_sent_check:
  "withdrawal_check ((demo_sent b)\<lparr>wd_CompleteJournalID := a, wd_FeeSettleJournalID := b0, wd_ProviderDisbursementReference := c,
     wd_ProviderFeeActualIDR := d, wd_Status := StatusCompleted, wd_CompletedAt := e, wd_UpdatedAt := f\<rparr>) = Inr ()"
  "withdrawal_check (demo_sent b) = Inr ()"
  by (simp_all add: withdrawal_check_def modes_def withdrawal_statuses_def demo_sent_def demo_new_def new_withdrawal_def
      demo_quote_def)

lemma demo_flight_inv: "wd_inv (demo_flight b)"
proof -
  have "withdrawals_ok [(demo_sent b)]" by (simp add: withdrawals_ok_def demo_sent_check clash_free_def)
  moreover have "alloc_refs_ok [demo_row] [(demo_sent b)]" by (simp add: alloc_refs_ok_def) (simp add: demo_row_def)
  ultimately show ?thesis using demo_requested_inv by (simp add: wd_inv_def demo_flight_def)
qed

lemma demo_flight_fields [simp]:
  "withdrawals (demo_flight b) = [(demo_sent b)]" "next_id (demo_flight b) = 8" "id_gen (demo_flight b) = (\<lambda>n. show_int (int n))"
  "merchants (demo_flight b) = [''m1'']" "journals (demo_flight b) = [mk_journal demo_post, mk_journal demo_reserve]"
  by (simp_all add: demo_flight_def)

lemma demo_completes: "\<exists>w. completeWithdrawal ''wd_5'' ''ref'' None 1000 (demo_flight b) = (Inr (), w)"
proof -
  obtain legs where legs: "BuildWithdrawalCompleteLegs 500 10 20 470 = Inr legs"
    using build_template_cases [of "WithdrawalComplete 500 10 20 470"] by (auto simp: i64_bounds)
  obtain fees where fees: "BuildProviderFeeSettleEqualLegs 20 = Inr fees"
    using build_template_cases [of "FeeSettleEqual 20"] by (auto simp: i64_bounds)
  let ?p = "wd_post (demo_sent b) ''lj_8'' TemplateWithdrawalComplete (JournalReferenceWithdrawalComplete ''wd_5'')
    ''Withdrawal complete '' (Some 500) 1000 legs"
  let ?w1 = "(demo_flight b)\<lparr>next_id := 9\<rparr>"
  let ?q = "\<lambda>x. wd_post x ''lj_9'' ''WITHDRAWAL_FEE_SETTLE'' (JournalReferenceWithdrawalFeeSettle ''wd_5'')
    ''Provider fee settle '' None 1000 fees"
  have inv1: "ledger_inv ?w1" using demo_flight_inv by (simp add: wd_inv_def)
  have "postable ?p ?w1"
    using legs
    by (intro neutral_postable ledger_inv_rows [OF inv1])
      (auto simp: wd_post_def build_defs checked_legs_Inr off_wallet_def wallet_account_def db_leg_ok_def component_ok_def
        chart_of_accounts_def fee_components_def mk_leg_def journal_fresh_def demo_reserve_def demo_post_def
        journal_reference_defs i64_bounds split: if_splits)
  then have post1: "PostJournal ?p ?w1 = (Inr ''lj_8'', posted ?p ?w1)"
    using postable_posts [OF inv1] by (simp add: wd_post_def)
  let ?x2 = "demo_sent b\<lparr>wd_CompleteJournalID := Some ''lj_8''\<rparr>"
  let ?w2 = "(posted ?p ?w1)\<lparr>next_id := 10\<rparr>"
  have "ledger_inv (posted ?p ?w1)" using keepsD [OF keeps_PostJournal post1 inv1] .
  then have inv2: "ledger_inv ?w2" by (rule ledger_inv_cong) simp_all
  have "postable (?q ?x2) ?w2"
    using fees
    by (intro neutral_postable ledger_inv_rows [OF inv2])
      (auto simp: wd_post_def build_defs checked_legs_Inr off_wallet_def wallet_account_def db_leg_ok_def component_ok_def
        chart_of_accounts_def fee_components_def mk_leg_def journal_fresh_def demo_reserve_def demo_post_def
        journal_reference_defs i64_bounds split: if_splits)
  then have post2: "PostJournal (?q ?x2) ?w2 = (Inr ''lj_9'', posted (?q ?x2) ?w2)"
    using postable_posts [OF inv2] by (simp add: wd_post_def)
  have p1: "post_complete (demo_sent b) 1000 (demo_flight b) = (Inr ?x2, posted ?p ?w1)"
    using post1 by (simp add: post_complete_def legs show_small Let_def)
  have p2: "post_fee_settle ?x2 None 1000 (posted ?p ?w1) =
      (Inr (?x2\<lparr>wd_FeeSettleJournalID := Some ''lj_9''\<rparr>), posted (?q ?x2) ?w2)"
    using post2 by (simp add: post_fee_settle_def fee_settle_legs_def actual_fee_def fees show_nine Let_def)
  have row: "LockWithdrawal ''wd_5'' (demo_flight b) = Inr (demo_sent b)" by (simp add: LockWithdrawal_def)
  have save: "\<exists>y w. SaveWithdrawal ((demo_sent b)\<lparr>wd_CompleteJournalID := Some ''lj_8'', wd_FeeSettleJournalID := Some ''lj_9'',
      wd_ProviderDisbursementReference := Some ''ref'', wd_ProviderFeeActualIDR := Some 20,
      wd_Status := StatusCompleted, wd_CompletedAt := Some 1000, wd_UpdatedAt := 1000\<rparr>) (posted (?q ?x2) ?w2) = (Inr y, w)"
  proof -
    have "saved_columns ((demo_sent b)\<lparr>wd_CompleteJournalID := Some ''lj_8'', wd_FeeSettleJournalID := Some ''lj_9'',
      wd_ProviderDisbursementReference := Some ''ref'', wd_ProviderFeeActualIDR := Some 20,
      wd_Status := StatusCompleted, wd_CompletedAt := Some 1000, wd_UpdatedAt := 1000\<rparr>) (demo_sent b) =
      (demo_sent b)\<lparr>wd_CompleteJournalID := Some ''lj_8'', wd_FeeSettleJournalID := Some ''lj_9'',
      wd_ProviderDisbursementReference := Some ''ref'', wd_ProviderFeeActualIDR := Some 20,
      wd_Status := StatusCompleted, wd_CompletedAt := Some 1000, wd_UpdatedAt := 1000\<rparr>"
      by (simp add: saved_columns_def)
    then show ?thesis
      by (simp add: SaveWithdrawal_def update_one_def demo_sent_check provider_refs_free_def first_failure.simps)
  qed
  have "\<exists>w. complete_tx ''wd_5'' ''ref'' None 1000 (demo_flight b) = (Inr (), w)"
    using save by (elim exE) (simp add: complete_tx_def row p1 p2 actual_fee_def)
  then show ?thesis by (simp add: completeWithdrawal_def)
qed

lemma completion_settles_once_witness:
  "\<exists>w. completeWithdrawal ''wd_5'' ''ref'' None 1000 (demo_flight False) = (Inr (), w) \<and>
     completeWithdrawal ''wd_5'' ''late'' (Some 25) 1700 w = (Inr (), w) \<and> failAndRelease ''wd_5'' ''late'' w = (Inr (), w)"
proof -
  obtain w where run: "completeWithdrawal ''wd_5'' ''ref'' None 1000 (demo_flight False) = (Inr (), w)"
    using demo_completes [of False] by (elim exE) (rule that)
  have "GetWithdrawalRow ''wd_5'' (demo_flight False) = Inr (demo_sent False)" by (simp add: GetWithdrawalRow_def)
  from completion_settles_once [OF demo_flight_inv this _ run] run show ?thesis by auto
qed


subsection \<open>Late callbacks\<close>

text \<open>
  What a provider word that is neither a success, a failure nor \<open>NOT_FOUND\<close> does: the row is
  PROCESSING again, whatever it was.
\<close>

lemma applyLookup_pending:
  assumes row: "GetWithdrawalRow i w = Inr x" and word: "pd_Status d = ''PENDING''"
    and run: "applyLookup i d w = (Inr (), w')"
  shows "\<exists>ws y. w' = w\<lparr>withdrawals := ws\<rparr> \<and> GetWithdrawalRow i w' = Inr y \<and> wd_Status y = StatusProcessing \<and>
    wd_ReserveReleased y = wd_ReserveReleased x \<and> wd_RecaptureJournalID y = wd_RecaptureJournalID x"
proof -
  have lock: "LockWithdrawal i w = Inr x" using row by (simp add: LockWithdrawal_def GetWithdrawalRow_def)
  then have i: "wd_ID x = i" by (auto simp: LockWithdrawal_def dest: find_Some_mem)
  have up: "to_upper ''PENDING'' = ''PENDING''" by code_simp
  let ?z = "x\<lparr>wd_ProviderDisbursementReference := (if pd_ProviderReference d \<noteq> [] then Some (pd_ProviderReference d)
      else wd_ProviderDisbursementReference x), wd_Status := StatusProcessing, wd_UpdatedAt := clock w\<rparr>"
  obtain y where save: "SaveWithdrawal ?z w = (Inr y, w')"
    using run by (auto simp: applyLookup_def row word up amend_def lock bindS_eq_Inr
        Let_def split: if_split_asm)
  have "wd_ID ?z = i" by (simp add: i)
  from saved_row [OF save lock this] SaveWithdrawal_effect [OF save] show ?thesis
    by (auto simp: LockWithdrawal_def GetWithdrawalRow_def saved_columns_def)
qed


text \<open>
  C16. A late PENDING callback defeats the recapture: when a withdrawal has FAILED and its reserve is
  back in the wallet, a PENDING word reopens it as PROCESSING (a step the status machine forbids),
  and the COMPLETED word that follows books the payout without taking the reserve back. The
  merchant keeps both the payout and the wallet.
\<close>

theorem late_pending_skips_recapture:
  assumes "wd_inv w" and "GetWithdrawalRow i w = Inr x" and "wd_Status x = StatusFailed" and "wd_ReserveReleased x"
    and "pd_Status d = ''PENDING''" and "applyLookup i d w = (Inr (), w1)"
    and "pd_Status d' = ''COMPLETED''" and "applyLookup i d' w1 = (Inr (), w2)"
  shows "\<not> CanTransition (wd_Status x) StatusProcessing \<and> abs_wallet w2 = abs_wallet w \<and>
    (\<exists>y. GetWithdrawalRow i w2 = Inr y \<and> wd_Status y = StatusCompleted \<and> wd_ReserveReleased y \<and>
       wd_RecaptureJournalID y = wd_RecaptureJournalID x)"
proof -
  from applyLookup_pending [OF assms(2,5,6)] obtain ws y where w1: "w1 = w\<lparr>withdrawals := ws\<rparr>"
    and y: "GetWithdrawalRow i w1 = Inr y" "wd_Status y = StatusProcessing" "wd_ReserveReleased y = wd_ReserveReleased x"
    "wd_RecaptureJournalID y = wd_RecaptureJournalID x" by blast
  have inv1: "wd_inv w1" by (rule keepsD [OF sound.lookups(2) assms(6,1)])
  have up: "to_upper ''COMPLETED'' = ''COMPLETED''" by code_simp
  have run: "completeWithdrawal i (pd_ProviderReference d') (pd_ProviderFeeIDR d') (clock w1) w1 = (Inr (), w2)"
    using assms(8) by (auto simp: applyLookup_def y assms(7) up Let_def split: if_split_asm)
  have "\<not> recaptures y" using y by (simp add: recaptures_def)
  note E = completion_effect [OF inv1 y(1) this run]
  have "same_books w w1" by (simp add: same_books_def w1)
  then have "abs_wallet w2 = abs_wallet w" using E(1) same_books_reads(1) by simp
  moreover have "\<not> CanTransition StatusFailed StatusProcessing" by code_simp
  ultimately show ?thesis using E(3) y assms(3,4) by (auto simp: LockWithdrawal_def GetWithdrawalRow_def)
qed

definition demo_reply :: "string \<Rightarrow> ProviderDisbursement" where
  "demo_reply word = \<lparr>pd_ProviderReference = ''ref'', pd_ExternalID = [], pd_Status = word, pd_NetAmountIDR = 470,
     pd_Currency = ''IDR'', pd_ProviderFeeIDR = None\<rparr>"

text \<open>The withdrawal of the small world as a failure leaves it: FAILED, its reserve given back.\<close>

definition demo_back_again :: withdrawal_db where
  "demo_back_again = demo_requested\<lparr>withdrawals := [demo_sent True\<lparr>wd_Status := StatusFailed\<rparr>]\<rparr>"

lemma late_pending_skips_recapture_witness:
  "\<exists>w1 w2. applyLookup ''wd_5'' (demo_reply ''PENDING'') demo_back_again = (Inr (), w1) \<and>
     applyLookup ''wd_5'' (demo_reply ''COMPLETED'') w1 = (Inr (), w2) \<and> abs_wallet w2 = abs_wallet demo_back_again"
proof -
  let ?x = "demo_sent True\<lparr>wd_Status := StatusFailed\<rparr>"
  have ups: "to_upper ''PENDING'' = ''PENDING''" "to_upper ''COMPLETED'' = ''COMPLETED''" by code_simp+
  have row: "GetWithdrawalRow ''wd_5'' demo_back_again = Inr ?x"
    by (simp add: GetWithdrawalRow_def demo_back_again_def)
  have lock: "LockWithdrawal ''wd_5'' demo_back_again = Inr ?x"
    by (simp add: LockWithdrawal_def demo_back_again_def)
  have x: "wd_ID ?x = ''wd_5''" "wd_NetDisbursementIDR ?x = 470" by simp_all
  have check: "withdrawal_check ?x = Inr ()"
    using demo_sent_check(2) [of True] by (simp add: withdrawal_check_def withdrawal_statuses_def)
  have inv: "wd_inv demo_back_again"
  proof -
    have "withdrawals_ok [?x]" by (simp add: withdrawals_ok_def check clash_free_def)
    moreover have "alloc_refs_ok [demo_row] [?x]" by (simp add: alloc_refs_ok_def) (simp add: demo_row_def)
    ultimately show ?thesis using demo_requested_inv by (simp add: wd_inv_def demo_back_again_def)
  qed
  have sent: "demo_sent True\<lparr>wd_ProviderDisbursementReference := Some ''ref'', wd_Status := StatusProcessing, wd_UpdatedAt := 1000\<rparr> =
      demo_sent True" by (simp add: demo_sent_def) (simp add: demo_new_def new_withdrawal_def)
  have "saved_columns (demo_sent True) ?x = demo_sent True" by (simp add: saved_columns_def demo_sent_def)
  then have save: "SaveWithdrawal (demo_sent True) demo_back_again = (Inr (demo_sent True), demo_flight True)"
    by (simp add: SaveWithdrawal_def update_one_def demo_back_again_def demo_sent_check provider_refs_free_def
        first_failure.simps demo_flight_def)
  have clock: "clock demo_back_again = 1000" by (simp add: demo_back_again_def demo_requested_def)
  have pend: "applyLookup ''wd_5'' (demo_reply ''PENDING'') demo_back_again = (Inr (), demo_flight True)"
    by (simp add: applyLookup_def row demo_reply_def ups x amend_def lock sent clock save with_tx_def)
  obtain w2 where "completeWithdrawal ''wd_5'' ''ref'' None 1000 (demo_flight True) = (Inr (), w2)"
    using demo_completes [of True] by (elim exE) (rule that)
  moreover have "GetWithdrawalRow ''wd_5'' (demo_flight True) = Inr (demo_sent True)" by (simp add: GetWithdrawalRow_def)
  moreover have "clock (demo_flight True) = 1000" by (simp add: demo_flight_def demo_requested_def)
  ultimately have paid: "applyLookup ''wd_5'' (demo_reply ''COMPLETED'') (demo_flight True) = (Inr (), w2)"
    by (simp add: applyLookup_def demo_reply_def ups)
  from late_pending_skips_recapture [OF inv row _ _ _ pend _ paid] have "abs_wallet w2 = abs_wallet demo_back_again"
    by (simp add: demo_reply_def)
  with pend paid show ?thesis by blast
qed

subsection \<open>Reviews\<close>

text \<open>The status a review action asks for.\<close>

definition review_target :: "string \<Rightarrow> string option" where
  "review_target act = (if act = ''approve'' then Some StatusApproved else if act = ''hold'' then Some StatusHeld
     else if act = ''reject'' then Some StatusRejected else None)"

definition past_review :: "string \<Rightarrow> bool" where
  "past_review st \<longleftrightarrow> st \<in> set [StatusApproved, StatusProcessing, StatusCompleted, StatusUnknownOutcome, StatusFailed]"



subsection \<open>Lookups, freezes and a second payout\<close>



text \<open>
  Submitting twice: \<open>DisburseWithdrawal\<close> on a withdrawal that is already PROCESSING, which its
  comment calls "already submitted, do not create second payout", sends the provider another create
  call (with the same external id), because the early return of the transaction body is taken for a
  fresh transition.
\<close>

theorem DisburseWithdrawal_resubmits:
  assumes "wd_inv w" and "ws_Disburse s = Some p" and "GetWithdrawalRow i w = Inr x" and "wd_Status x = StatusProcessing"
    and "GetBankAccount (wd_BankAccountID x) w = Inr bank"
    and "ws_decrypt s (ws_EncryptionKey s) (ba_AccountNumberCipher bank) = Inr plain"
    and "DisburseWithdrawal s i w = (r, w')"
  shows "\<exists>c cs. payouts w' = payouts w @ c # cs \<and> cd_NetAmountIDR c = wd_NetDisbursementIDR x"
proof -
  have lock: "LockWithdrawal i w = Inr x" using assms(3) by (simp add: LockWithdrawal_def GetWithdrawalRow_def)
  have b: "disburse_begin i (clock w) w = (Inr x, w)"
    by (simp add: disburse_begin_def lock assms(4) with_tx_def)
  define ext where "ext = (case wd_ProviderExternalID x of Some e \<Rightarrow> e | None \<Rightarrow> external_id (wd_ID x))"
  define c where "c = create_input s x ext plain"
  let ?f = "case dp_Create p (payouts w) c of
      Inl derr \<Rightarrow> if unknown_outcome derr then markUnknown (wd_ID x) ext (clock w) else failAndRelease (wd_ID x) (error_text derr)
    | Inr res \<Rightarrow> applyProviderCreateResult (wd_ID x) res"
  let ?w1 = "w\<lparr>payouts := payouts w @ [c]\<rparr>"
  have run: "?f ?w1 = (r, w')"
    using assms(7)
    by (simp add: DisburseWithdrawal_def assms(2,4,5,6) b call_create_def Let_def bindS_def ext_def [symmetric]
        c_def [symmetric])
  have "keeps (trace_from (payouts w @ [c])) ?f"
    by (intro inv_intros trace.outcomes trace.lookups)
  moreover have "trace_from (payouts w @ [c]) ?w1" using assms(1) by (simp add: trace_from_def wd_inv_def)
  ultimately have "trace_from (payouts w @ [c]) w'" using run by (blast dest: keepsD)
  then have "payouts w' = (payouts w @ [c]) @ drop (length (payouts w @ [c])) (payouts w')"
    unfolding trace_from_def by (metis append_take_drop_id)
  then show ?thesis by (auto simp: c_def create_input_def)
qed

definition demo_provider :: DisbursementProvider where
  "demo_provider = \<lparr>dp_Quote = (\<lambda>_. Inl (ProviderError False ''down'')),
     dp_Create = (\<lambda>_ _. Inl (ProviderError True ''timeout'')), dp_Get = (\<lambda>_ _. Inl (ProviderError True ''timeout'')),
     dp_ByExternal = None\<rparr>"

lemma DisburseWithdrawal_resubmits_witness:
  "\<exists>r w' c cs. DisburseWithdrawal (demo_wd_service\<lparr>ws_Disburse := Some demo_provider\<rparr>) ''wd_5'' (demo_flight False) = (r, w') \<and>
     payouts w' = c # cs \<and> cd_NetAmountIDR c = 470"
proof -
  let ?s = "demo_wd_service\<lparr>ws_Disburse := Some demo_provider\<rparr>"
  obtain r w' where run: "DisburseWithdrawal ?s ''wd_5'' (demo_flight False) = (r, w')" by (rule prod.exhaust)
  have row: "GetWithdrawalRow ''wd_5'' (demo_flight False) = Inr (demo_sent False)" by (simp add: GetWithdrawalRow_def)
  have "wd_BankAccountID (demo_sent False) = ''bank_a''"
    by (simp add: demo_sent_def demo_new_def new_withdrawal_def demo_quote_def)
  moreover have "bank_accounts (demo_flight False) = [demo_bank]" "payouts (demo_flight False) = []"
    by (simp_all add: demo_flight_def demo_requested_def demo_w2_def demo_w1_def)
  ultimately have bank: "GetBankAccount (wd_BankAccountID (demo_sent False)) (demo_flight False) = Inr demo_bank"
    and none: "payouts (demo_flight False) = []" by (simp_all add: GetBankAccount_def) (simp add: demo_bank_def)
  have plain: "ws_decrypt ?s (ws_EncryptionKey ?s) (ba_AccountNumberCipher demo_bank) = Inr (ba_AccountNumberCipher demo_bank)"
    by (simp add: demo_wd_service_def)
  from DisburseWithdrawal_resubmits [OF demo_flight_inv _ row _ bank plain run, of demo_provider] none run
  show ?thesis by auto
qed

text \<open>
  The freeze is looked for in SANDBOX only: \<open>merchantFrozen\<close> asks for the default mode with an
  empty string, which normalisation already turns into SANDBOX, so a configured default mode is never
  used and the frozen LIVE withdrawals of a merchant stop neither quotes nor requests.
\<close>

theorem merchantFrozen_sandbox_only:
  assumes "merchantFrozen s m w"
  shows "\<exists>x\<in>set (withdrawals w). wd_MerchantID x = m \<and> wd_WithdrawalFrozen x \<and> wd_PaymentMode x = ModeSandbox"
proof -
  have "trim_space [] = []" "to_upper [] = []" by code_simp+
  then have "wd_mode s [] = ModeSandbox" by (simp add: wd_mode_def NormalizePaymentMode_def Let_def)
  then show ?thesis
    using assms by (auto simp: merchantFrozen_def ListWithdrawalsByMerchant_def page_of_def list_ex_iff dest!: in_set_takeD)
qed

lemma merchantFrozen_sandbox_only_witness:
  "\<not> merchantFrozen demo_wd_service ''m1'' (demo_requested\<lparr>withdrawals := [demo_new\<lparr>wd_WithdrawalFrozen := True\<rparr>]\<rparr>) \<and>
   merchantFrozen demo_wd_service ''m1'' (demo_requested\<lparr>withdrawals :=
     [demo_new\<lparr>wd_WithdrawalFrozen := True, wd_PaymentMode := ModeSandbox\<rparr>]\<rparr>)"
proof
  show "\<not> merchantFrozen demo_wd_service ''m1'' (demo_requested\<lparr>withdrawals := [demo_new\<lparr>wd_WithdrawalFrozen := True\<rparr>]\<rparr>)"
    using merchantFrozen_sandbox_only [of demo_wd_service "''m1''" "demo_requested\<lparr>withdrawals := [demo_new\<lparr>wd_WithdrawalFrozen := True\<rparr>]\<rparr>"]
    by auto
  have "wd_mode demo_wd_service [] = ModeSandbox" by code_simp
  then show "merchantFrozen demo_wd_service ''m1'' (demo_requested\<lparr>withdrawals :=
     [demo_new\<lparr>wd_WithdrawalFrozen := True, wd_PaymentMode := ModeSandbox\<rparr>]\<rparr>)"
    by (simp add: merchantFrozen_def ListWithdrawalsByMerchant_def page_of_def)
qed

end
