(* ===== verification/Coupons.thy ===== *)
theory Coupons
  imports Digest Money
begin

text \<open>
  The coupon domain (\<open>internal/domain/coupons\<close>): the rows (\<open>types.go\<close>), the errors
  (\<open>errors.go\<close>), the validation and normalisation of seller input (\<open>validate.go\<close>) and the
  price computation of the checkout (\<open>pricing.go\<close>). The lifecycle of a coupon is an instance of
  the contract \<open>status_machine\<close>.
\<close>

subsection \<open>Types\<close>

abbreviation "KindPercent \<equiv> ''PERCENT''"
abbreviation "KindFixedIDR \<equiv> ''FIXED_IDR''"

abbreviation "StateDraft \<equiv> ''DRAFT''"
abbreviation "StateActive \<equiv> ''ACTIVE''"
abbreviation "StatePaused \<equiv> ''PAUSED''"
abbreviation "StateExpired \<equiv> ''EXPIRED''"
abbreviation "StateArchived \<equiv> ''ARCHIVED''"

abbreviation "ScopeAllProducts \<equiv> ''ALL_PRODUCTS''"
abbreviation "ScopeSelectedProducts \<equiv> ''SELECTED_PRODUCTS''"

abbreviation "ReservationReserved \<equiv> ''RESERVED''"
abbreviation "ReservationConsumed \<equiv> ''CONSUMED''"
abbreviation "ReservationReleased \<equiv> ''RELEASED''"
abbreviation "ReservationHeldUnknown \<equiv> ''HELD_UNKNOWN''"

record Coupon =
  cp_ID :: string
  cp_StoreID :: string
  cp_MerchantID :: string
  cp_CodeDisplay :: string
  cp_NormalizedCode :: string
  cp_CodeHash :: string
  cp_DiscountKind :: string
  cp_DiscountValue :: i64
  cp_MinMerchandiseIDR :: i64
  cp_MaxTotalUses :: "i64 option"
  cp_MaxPerCustomerUses :: "i64 option"
  cp_StartsAt :: "time option"
  cp_EndsAt :: "time option"
  cp_State :: string
  cp_Scope :: string
  cp_Version :: i64
  cp_PolicyVersion :: i64
  cp_ReservedCount :: i64
  cp_RedeemedCount :: i64
  cp_ProductIDs :: "string list"
  cp_CreatedBy :: "string option"
  cp_CreatedAt :: time
  cp_UpdatedAt :: time

record Reservation =
  rs_ID :: string
  rs_CouponID :: string
  rs_CouponPolicyVersion :: i64
  rs_StoreID :: string
  rs_OrderID :: string
  rs_IdempotencyKey :: string
  rs_BuyerIdentityHash :: "string option"
  rs_ProductID :: "string option"
  rs_DiscountKind :: string
  rs_DiscountValue :: i64
  rs_DiscountIDR :: i64
  rs_EligibleSubtotalIDR :: i64
  rs_MerchandiseIDR :: i64
  rs_TipIDR :: i64
  rs_UpsellIDR :: i64
  rs_GrossIDR :: i64
  rs_CodeSnapshot :: string
  rs_State :: string
  rs_ExpiresAt :: time
  rs_ConsumedAt :: "time option"
  rs_ReleasedAt :: "time option"
  rs_CreatedAt :: time
  rs_UpdatedAt :: time

record Redemption =
  rd_ID :: string
  rd_ReservationID :: string
  rd_CouponID :: string
  rd_CouponPolicyVersion :: i64
  rd_StoreID :: string
  rd_OrderID :: string
  rd_CodeSnapshot :: string
  rd_DiscountKind :: string
  rd_DiscountValue :: i64
  rd_DiscountIDR :: i64
  rd_EligibleSubtotalIDR :: i64
  rd_MerchandiseIDR :: i64
  rd_TipIDR :: i64
  rd_UpsellIDR :: i64
  rd_GrossIDR :: i64
  rd_BuyerIdentityHash :: "string option"
  rd_ProductID :: "string option"
  rd_CreatedAt :: time

record PriceSnapshot =
  ps_StoreID :: string
  ps_ProductID :: string
  ps_CouponID :: string
  ps_CouponCode :: string
  ps_CouponPolicyVersion :: i64
  ps_DiscountKind :: string
  ps_DiscountValue :: i64
  ps_EligibleSubtotalIDR :: i64
  ps_DiscountIDR :: i64
  ps_MerchandiseIDR :: i64
  ps_TipIDR :: i64
  ps_UpsellIDR :: i64
  ps_GrossIDR :: i64
  ps_CouponApplied :: bool
  ps_CouponUnavailable :: bool

subsection \<open>Errors\<close>

definition ErrCouponNotFound :: go_error where
  "ErrCouponNotFound = apperr_not_found ''RESOURCE_NOT_FOUND'' ''Resource not found''"

definition ErrCodeInvalid :: go_error where
  "ErrCodeInvalid = apperr_validation ''VALIDATION_FAILED'' ''Invalid coupon code''"

definition ErrCodeConflict :: go_error where
  "ErrCodeConflict = apperr_conflict ''CONFLICT'' ''Coupon code already exists in this store''"

definition ErrDiscountInvalid :: go_error where
  "ErrDiscountInvalid = apperr_validation ''VALIDATION_FAILED'' ''Invalid discount value''"

definition ErrKindInvalid :: go_error where
  "ErrKindInvalid = apperr_validation ''VALIDATION_FAILED'' ''Invalid discount kind''"

definition ErrScopeInvalid :: go_error where
  "ErrScopeInvalid = apperr_validation ''VALIDATION_FAILED'' ''Invalid product scope''"

definition ErrStateInvalid :: go_error where
  "ErrStateInvalid = apperr_validation ''VALIDATION_FAILED'' ''Invalid coupon state transition''"

definition ErrVersionConflict :: go_error where
  "ErrVersionConflict = apperr_conflict ''CONFLICT'' ''Coupon version conflict''"

definition ErrLimitInvalid :: go_error where
  "ErrLimitInvalid = apperr_validation ''VALIDATION_FAILED'' ''Invalid usage limit''"

definition ErrWindowInvalid :: go_error where
  "ErrWindowInvalid = apperr_validation ''VALIDATION_FAILED'' ''Invalid active window''"

definition ErrProductsRequired :: go_error where
  "ErrProductsRequired = apperr_validation ''VALIDATION_FAILED'' ''Selected product scope requires product IDs''"

definition ErrProductNotInStore :: go_error where
  "ErrProductNotInStore = apperr_validation ''VALIDATION_FAILED'' ''Product is not owned by this store''"

definition ErrCannotActivate :: go_error where
  "ErrCannotActivate = apperr_validation ''VALIDATION_FAILED'' ''Coupon cannot be activated''"

definition ErrCannotMutate :: go_error where
  "ErrCannotMutate = apperr_validation ''VALIDATION_FAILED'' ''Coupon cannot be modified in its current state''"

definition ErrCouponUnavailable :: go_error where
  "ErrCouponUnavailable = apperr_validation ''COUPON_UNAVAILABLE'' ''Coupon is invalid or unavailable''"

definition ErrReservationLimit :: go_error where
  "ErrReservationLimit = apperr_conflict ''COUPON_LIMIT_EXCEEDED'' ''Coupon usage limit reached''"

definition ErrReservationState :: go_error where
  "ErrReservationState = apperr_conflict ''CONFLICT'' ''Coupon reservation state conflict''"

subsection \<open>Coupon codes\<close>

definition CodeMaxLen :: nat where
  "CodeMaxLen = 32"

definition CodeMinLen :: nat where
  "CodeMinLen = 2"

text \<open>
  The loop of \<open>NormalizeCode\<close> over the upper-cased text: letters and digits are kept, runs of
  hyphens, underscores and blanks become one hyphen (none at the start), anything else is dropped.
  The flags are \<open>prevHyphen\<close> and \<open>b.Len() > 0\<close>. The letters and digits are those of ASCII, so the
  definitions are the code's functions on ASCII texts; a Unicode letter beyond ASCII, which the code
  keeps and \<open>ValidateCode\<close> then refuses, is outside them.
\<close>

definition ascii_text :: "string \<Rightarrow> bool" where
  "ascii_text s = list_all (\<lambda>c. of_char c < (128 :: nat)) s"

definition is_alnum :: "char \<Rightarrow> bool" where
  "is_alnum c \<longleftrightarrow> is_upper c \<or> is_lower c \<or> is_digit c"

fun normalize_runes :: "bool \<Rightarrow> bool \<Rightarrow> string \<Rightarrow> string" where
  "normalize_runes prev started [] = []"
| "normalize_runes prev started (r # rs) =
     (if is_alnum r then upper_char r # normalize_runes False True rs
      else if r \<in> set [CHR ''-'', CHR ''_'', CHR '' ''] then
        (if \<not> prev \<and> started then CHR ''-'' # normalize_runes True True rs
         else normalize_runes prev started rs)
      else normalize_runes prev started rs)"

definition NormalizeCode :: "string \<Rightarrow> string" where
  "NormalizeCode raw =
    (let s = to_upper (trim_space raw) in
     if s = [] then [] else trim_with (\<lambda>c. c = CHR ''-'') (normalize_runes False False s))"

text \<open>
  The regular expression \<open>^[A-Z0-9]+(-[A-Z0-9]+)*$\<close> as an automaton: the state says whether the
  last character was a letter or digit.
\<close>

fun code_run :: "bool \<Rightarrow> string \<Rightarrow> bool option" where
  "code_run a [] = Some a"
| "code_run a (c # cs) =
     (if is_upper c \<or> is_digit c then code_run True cs
      else if c = CHR ''-'' \<and> a then code_run False cs else None)"

definition codeShape :: "string \<Rightarrow> bool" where
  "codeShape s \<longleftrightarrow> code_run False s = Some True"

definition ValidateCode :: "string \<Rightarrow> unit result" where
  "ValidateCode normalized =
    (if length normalized < CodeMinLen \<or> length normalized > CodeMaxLen then Inl ErrCodeInvalid
     else if \<not> codeShape normalized then Inl ErrCodeInvalid
     else Inr ())"

definition HashCode :: "string \<Rightarrow> string" where
  "HashCode normalized = sha256_hex (''fersaku:coupon:v1:'' @ normalized)"

definition MaskCode :: "string \<Rightarrow> string" where
  "MaskCode display =
    (if display = [] then []
     else if length display \<le> 2 then ''**''
     else take 2 display @ replicate (min 6 (length display - 2)) (CHR ''*''))"

subsection \<open>Seller input\<close>

definition NormalizeDiscountKind :: "string \<Rightarrow> string result" where
  "NormalizeDiscountKind raw =
    (let s = to_upper (trim_space raw) in
     if s \<in> set [''PERCENT'', ''PERCENTAGE'', ''PCT''] then Inr KindPercent
     else if s \<in> set [''FIXED_IDR'', ''FIXED'', ''AMOUNT''] then Inr KindFixedIDR
     else Inl ErrKindInvalid)"

definition NormalizeScope :: "string \<Rightarrow> string result" where
  "NormalizeScope raw =
    (let s = map (\<lambda>c. if c = CHR '' '' then CHR ''_'' else c) (to_upper (trim_space raw)) in
     if s \<in> set [[], ''ALL_PRODUCTS'', ''ALL'', ''SEMUA_PRODUK''] then Inr ScopeAllProducts
     else if s \<in> set [''SELECTED_PRODUCTS'', ''SELECTED'', ''PRODUCTS'', ''PRODUK_TERTENTU''] then Inr ScopeSelectedProducts
     else Inl ErrScopeInvalid)"

definition PercentBpsMin :: i64 where
  "PercentBpsMin = 1"

definition PercentBpsMax :: i64 where
  "PercentBpsMax = 10000"

definition MaxFixedIDR :: i64 where
  "MaxFixedIDR = 100000000"

definition MaxMinMerchIDR :: i64 where
  "MaxMinMerchIDR = 100000000"

definition MaxProductScope :: nat where
  "MaxProductScope = 200"

definition ValidateDiscountValue :: "string \<Rightarrow> i64 \<Rightarrow> unit result" where
  "ValidateDiscountValue kind value =
    (if value \<le> 0 then Inl ErrDiscountInvalid
     else if kind = KindPercent then
       (if value < PercentBpsMin \<or> value > PercentBpsMax then Inl ErrDiscountInvalid else Inr ())
     else if kind = KindFixedIDR then
       (if value > MaxFixedIDR then Inl ErrDiscountInvalid else Inr ())
     else Inl ErrKindInvalid)"

definition ValidateMinMerchandise :: "i64 \<Rightarrow> unit result" where
  "ValidateMinMerchandise v = (if v < 0 \<or> v > MaxMinMerchIDR then Inl ErrLimitInvalid else Inr ())"

definition ValidateUsageLimit :: "i64 option \<Rightarrow> unit result" where
  "ValidateUsageLimit v =
    (case v of None \<Rightarrow> Inr () | Some n \<Rightarrow> if n \<le> 0 then Inl ErrLimitInvalid else Inr ())"

definition ValidateWindow :: "time option \<Rightarrow> time option \<Rightarrow> unit result" where
  "ValidateWindow starts ends =
    (case (starts, ends) of (Some a, Some b) \<Rightarrow> if a > b then Inl ErrWindowInvalid else Inr () | _ \<Rightarrow> Inr ())"

definition PercentToBps :: "i64 \<Rightarrow> i64 result" where
  "PercentToBps displayOrBps =
    (if displayOrBps \<le> 0 then Inl ErrDiscountInvalid
     else if displayOrBps \<le> 100 then Inr (wrap64 (displayOrBps * 100))
     else if displayOrBps > PercentBpsMax then Inl ErrDiscountInvalid
     else Inr displayOrBps)"

subsection \<open>The lifecycle of a coupon\<close>

definition CanTransitionCoupon :: "string \<Rightarrow> string \<Rightarrow> bool" where
  "CanTransitionCoupon from to \<longleftrightarrow>
    from = to \<or>
    (if from = StateDraft then to \<in> set [StateActive, StateArchived]
     else if from = StateActive then to \<in> set [StatePaused, StateExpired, StateArchived]
     else if from = StatePaused then to \<in> set [StateActive, StateArchived]
     else if from = StateExpired then to = StateArchived
     else False)"

definition IsEditable :: "string \<Rightarrow> bool" where
  "IsEditable s \<longleftrightarrow> s \<in> set [StateDraft, StateActive, StatePaused]"

definition CodeChangeAllowed :: "string \<Rightarrow> bool" where
  "CodeChangeAllowed s \<longleftrightarrow> s = StateDraft"

subsection \<open>Pricing\<close>

text \<open>All arithmetic is \<open>int64\<close>: the product of subtotal and basis points may wrap around.\<close>

definition ComputeDiscountIDR :: "string \<Rightarrow> i64 \<Rightarrow> i64 \<Rightarrow> i64" where
  "ComputeDiscountIDR kind value eligible =
    (if eligible \<le> 0 \<or> value \<le> 0 then 0
     else
       let clamp = (\<lambda>d. let d1 = (if d > eligible then eligible else d) in if d1 < 0 then 0 else d1) in
       if kind = KindPercent then clamp (go_div (wrap64 (wrap64 (eligible * value) + 5000)) 10000)
       else if kind = KindFixedIDR then clamp value
       else 0)"

definition BuildPriceSnapshot ::
    "string \<Rightarrow> string \<Rightarrow> i64 \<Rightarrow> i64 \<Rightarrow> i64 \<Rightarrow> Coupon option \<Rightarrow> bool \<Rightarrow> PriceSnapshot" where
  "BuildPriceSnapshot storeID productID merchandiseIDR tipIDR upsellIDR c applied =
    (let tip = max 0 tipIDR; upsell = max 0 upsellIDR; merch = max 0 merchandiseIDR;
         snap = \<lparr>ps_StoreID = storeID, ps_ProductID = productID, ps_CouponID = [], ps_CouponCode = [],
           ps_CouponPolicyVersion = 0, ps_DiscountKind = [], ps_DiscountValue = 0,
           ps_EligibleSubtotalIDR = merch, ps_DiscountIDR = 0, ps_MerchandiseIDR = merch, ps_TipIDR = tip,
           ps_UpsellIDR = upsell, ps_GrossIDR = 0, ps_CouponApplied = False, ps_CouponUnavailable = False\<rparr>;
         snap1 = (case c of Some c \<Rightarrow>
             if applied then snap\<lparr>ps_CouponApplied := True, ps_CouponID := cp_ID c, ps_CouponCode := cp_CodeDisplay c,
               ps_CouponPolicyVersion := cp_PolicyVersion c, ps_DiscountKind := cp_DiscountKind c,
               ps_DiscountValue := cp_DiscountValue c,
               ps_DiscountIDR := ComputeDiscountIDR (cp_DiscountKind c) (cp_DiscountValue c) merch\<rparr>
             else snap
           | None \<Rightarrow> snap);
         gross = wrap64 (wrap64 (wrap64 (merch - ps_DiscountIDR snap1) + tip) + upsell)
     in snap1\<lparr>ps_GrossIDR := (if gross < 0 then 0 else gross)\<rparr>)"

definition WindowActive :: "Coupon \<Rightarrow> time \<Rightarrow> bool" where
  "WindowActive c now \<longleftrightarrow>
    (case cp_StartsAt c of None \<Rightarrow> True | Some a \<Rightarrow> \<not> now < a) \<and>
    (case cp_EndsAt c of None \<Rightarrow> True | Some b \<Rightarrow> \<not> now > b)"

definition ProductInScope :: "Coupon \<Rightarrow> string \<Rightarrow> string set option \<Rightarrow> bool" where
  "ProductInScope c productID scopedIDs \<longleftrightarrow>
    (if cp_Scope c = ScopeAllProducts then True
     else if productID = [] then False
     else case scopedIDs of Some ids \<Rightarrow> productID \<in> ids | None \<Rightarrow> productID \<in> set (cp_ProductIDs c))"

definition MeetsMinimum :: "Coupon \<Rightarrow> i64 \<Rightarrow> bool" where
  "MeetsMinimum c merchandiseIDR \<longleftrightarrow> merchandiseIDR \<ge> cp_MinMerchandiseIDR c"

definition SlotsUsed :: "Coupon \<Rightarrow> i64" where
  "SlotsUsed c = wrap64 (cp_ReservedCount c + cp_RedeemedCount c)"

definition GlobalLimitReached :: "Coupon \<Rightarrow> bool" where
  "GlobalLimitReached c \<longleftrightarrow> (case cp_MaxTotalUses c of None \<Rightarrow> False | Some n \<Rightarrow> SlotsUsed c \<ge> n)"

subsection \<open>Codes are canonical\<close>

lemma is_alnum_upper [simp]: "is_alnum c \<Longrightarrow> is_upper (upper_char c) \<or> is_digit (upper_char c)"
  by (auto simp: is_alnum_def is_upper_def is_lower_def is_digit_def of_char_upper_char Let_def)

lemma hyphen_class [simp]: "\<not> is_upper (CHR ''-'')" "\<not> is_digit (CHR ''-'')" "\<not> is_space (CHR ''-'')" "\<not> is_alnum (CHR ''-'')"
    "upper_char (CHR ''-'') = CHR ''-''"
  by (simp_all add: is_alnum_def is_upper_def is_lower_def is_digit_def is_space_def upper_char_def)

lemma upper_or_digit:
  assumes "is_upper c \<or> is_digit c"
  shows "is_alnum c" and "upper_char c = c" and "\<not> is_space c" and "c \<noteq> CHR ''-''"
  using assms
  by (auto simp: is_alnum_def upper_char_def is_upper_def is_lower_def is_digit_def is_space_def Let_def)

lemma code_run_append: "code_run a (s @ t) = (case code_run a s of None \<Rightarrow> None | Some b \<Rightarrow> code_run b t)"
  by (induction a s rule: code_run.induct) simp_all

text \<open>What the loop writes runs through the automaton; it may end in one hyphen.\<close>

lemma normalize_runes_runs:
  "\<not> started \<longrightarrow> \<not> prev \<Longrightarrow> code_run (started \<and> \<not> prev) (normalize_runes prev started s) \<noteq> None"
  by (induction prev started s rule: normalize_runes.induct) auto

lemma code_run_hyphens:
  assumes "code_run a s = Some False" and "s \<noteq> []"
  shows "\<exists>t. s = t @ ''-'' \<and> code_run a t = Some True"
  using assms(2, 1)
proof (induction s rule: rev_nonempty_induct)
  case (single c)
  then show ?case by (auto split: if_splits)
next
  case (snoc c s)
  then show ?case by (auto simp: code_run_append split: option.splits if_splits)
qed

lemma shape_no_hyphen_end: "code_run a t = Some True \<Longrightarrow> t \<noteq> [] \<Longrightarrow> last t \<noteq> CHR ''-''"
  by (cases t rule: rev_exhaust) (auto simp: code_run_append split: option.splits if_splits)

lemma dropWhile_hd: "s = [] \<or> \<not> p (hd s) \<Longrightarrow> dropWhile p s = s"
  by (cases s) auto

lemma trim_with_id: "s = [] \<or> (\<not> p (hd s) \<and> \<not> p (last s)) \<Longrightarrow> trim_with p s = s"
  by (cases "s = []") (simp_all add: trim_with_def dropWhile_hd hd_rev)

lemma trim_code_run:
  assumes run: "code_run False s \<noteq> None"
  shows "trim_with (\<lambda>c. c = CHR ''-'') s = [] \<or> codeShape (trim_with (\<lambda>c. c = CHR ''-'') s)"
proof (cases "s = []")
  case True
  then show ?thesis by (simp add: trim_with_def)
next
  case ne: False
  from run obtain b where b: "code_run False s = Some b" by blast
  show ?thesis
  proof (cases b)
    case True
    moreover have "hd s \<noteq> CHR ''-''" using run ne by (cases s) auto
    moreover have "last s \<noteq> CHR ''-''" using shape_no_hyphen_end [of False s] b ne True by simp
    ultimately show ?thesis using b by (simp add: trim_with_id codeShape_def)
  next
    case False
    then obtain t where t: "s = t @ ''-''" "code_run False t = Some True"
      using code_run_hyphens [of False s] b ne by auto
    then have tne: "t \<noteq> []" by auto
    have "hd t \<noteq> CHR ''-''" using t tne by (cases t) auto
    moreover have "last t \<noteq> CHR ''-''" using shape_no_hyphen_end t(2) tne by blast
    ultimately have "trim_with (\<lambda>c. c = CHR ''-'') s = t"
      using tne by (simp add: t(1) trim_with_def dropWhile_hd hd_append hd_rev)
    with t(2) show ?thesis by (simp add: codeShape_def)
  qed
qed

lemma NormalizeCode_shape: "NormalizeCode raw = [] \<or> codeShape (NormalizeCode raw)"
proof -
  have "code_run False (normalize_runes False False s) \<noteq> None" for s
    using normalize_runes_runs [of False False s] by simp
  from trim_code_run [OF this] show ?thesis
    by (auto simp: NormalizeCode_def Let_def)
qed

text \<open>A text of the shape goes through the loop unchanged.\<close>

lemma code_run_upper: "code_run a s \<noteq> None \<Longrightarrow> to_upper s = s"
  by (induction a s rule: code_run.induct)
    (auto simp: to_upper_def upper_or_digit split: if_splits)

lemma code_run_chars: "code_run a s \<noteq> None \<Longrightarrow> c \<in> set s \<Longrightarrow> \<not> is_space c"
  by (induction a s rule: code_run.induct) (auto simp: upper_or_digit split: if_splits)

lemma normalize_runes_shape:
  "code_run a s \<noteq> None \<Longrightarrow> a \<longrightarrow> started \<Longrightarrow> started \<longrightarrow> prev = (\<not> a) \<Longrightarrow> normalize_runes prev started s = s"
proof (induction a s arbitrary: prev started rule: code_run.induct)
  case (2 a c cs)
  then show ?case by (auto simp: upper_or_digit split: if_splits)
qed simp

lemma NormalizeCode_fix:
  assumes "codeShape s"
  shows "NormalizeCode s = s"
proof -
  have run: "code_run False s = Some True" using assms by (simp add: codeShape_def)
  then have ne: "s \<noteq> []" by auto
  have "trim_space s = s"
    using code_run_chars [of False s] run ne by (simp add: trim_space_def trim_with_id)
  moreover have "normalize_runes False False s = s" using run by (intro normalize_runes_shape) auto
  moreover have "hd s \<noteq> CHR ''-''" using run ne by (cases s) auto
  moreover have "last s \<noteq> CHR ''-''" using shape_no_hyphen_end run ne by blast
  ultimately show ?thesis
    using run ne code_run_upper [of False s] by (simp add: NormalizeCode_def trim_with_id)
qed

text \<open>
  Code normalisation of an ASCII text is idempotent, and what it returns is empty or of the
  documented shape, so that validation after it only ever fails on the length.
\<close>

theorem NormalizeCode_canonical:
  assumes "ascii_text raw"
  shows "NormalizeCode (NormalizeCode raw) = NormalizeCode raw \<and>
   (ValidateCode (NormalizeCode raw) = Inr () \<longleftrightarrow>
      CodeMinLen \<le> length (NormalizeCode raw) \<and> length (NormalizeCode raw) \<le> CodeMaxLen)"
proof
  have "NormalizeCode [] = []" by (simp add: NormalizeCode_def trim_space_def trim_with_def to_upper_def)
  then show "NormalizeCode (NormalizeCode raw) = NormalizeCode raw"
    using NormalizeCode_shape [of raw] NormalizeCode_fix by auto
  show "ValidateCode (NormalizeCode raw) = Inr () \<longleftrightarrow>
      CodeMinLen \<le> length (NormalizeCode raw) \<and> length (NormalizeCode raw) \<le> CodeMaxLen"
    using NormalizeCode_shape [of raw] by (auto simp: ValidateCode_def CodeMinLen_def not_less)
qed

theorem NormalizeCode_canonical_witness:
  "ascii_text '' hemat _20'' \<and> NormalizeCode '' hemat _20'' = ''HEMAT-20'' \<and>
   ValidateCode (NormalizeCode '' hemat _20'') = Inr ()"
proof -
  have ascii: "ascii_text '' hemat _20''" and code: "NormalizeCode '' hemat _20'' = ''HEMAT-20''" by code_simp+
  from NormalizeCode_canonical [OF ascii] have "ValidateCode (NormalizeCode '' hemat _20'') = Inr ()"
    by (simp add: code CodeMinLen_def CodeMaxLen_def)
  with ascii code show ?thesis by blast
qed

subsection \<open>The lifecycle\<close>

interpretation coupon_sm: status_machine CanTransitionCoupon "\<lambda>s. s = StateArchived"
  by unfold_locales (auto simp: CanTransitionCoupon_def)

text \<open>
  An archived coupon stays archived, an expired one can only be archived, and a coupon that left
  the drafts never becomes a draft again (so its code can no longer change).
\<close>

theorem coupon_lifecycle:
  assumes "status_run CanTransitionCoupon s ts" and "t \<in> set ts"
  shows "(s = StateArchived \<longrightarrow> t = StateArchived) \<and>
    (s = StateExpired \<longrightarrow> t = StateExpired \<or> t = StateArchived) \<and>
    (s \<noteq> StateDraft \<longrightarrow> \<not> CodeChangeAllowed t)"
proof (intro conjI impI)
  show "t = StateArchived" if "s = StateArchived"
    using coupon_sm.run_from_final [OF that assms] that by simp
  show "t = StateExpired \<or> t = StateArchived" if "s = StateExpired"
    by (rule status_run_closed [OF assms]) (auto simp: that CanTransitionCoupon_def)
  show "\<not> CodeChangeAllowed t" if "s \<noteq> StateDraft"
    by (rule status_run_closed [OF assms])
      (use that in \<open>auto simp: CodeChangeAllowed_def CanTransitionCoupon_def split: if_splits\<close>)
qed

theorem coupon_lifecycle_witness:
  "\<not> CodeChangeAllowed StateArchived \<and> StatePaused \<noteq> StateDraft"
  using coupon_lifecycle [of StateActive "[StatePaused, StateArchived]" StateArchived]
  by (simp add: CanTransitionCoupon_def)

subsection \<open>Discounts and prices\<close>

lemma ComputeDiscountIDR_bounds: "0 \<le> ComputeDiscountIDR k v e" "ComputeDiscountIDR k v e \<le> max 0 e"
  by (auto simp: ComputeDiscountIDR_def Let_def)

text \<open>
  Wherever the fee engine's rounding does not overflow, a percentage discount is that rounding:
  both round half up, and a percentage up to 100 never exceeds the subtotal.
\<close>

theorem percent_discount_is_fee_rounding:
  assumes "in_i64 eligible" and "0 < v" and "v \<le> PercentBpsMax" and "0 < eligible"
    and "RoundHalfUpBps eligible v = Inr d"
  shows "ComputeDiscountIDR KindPercent v eligible = d"
proof -
  define p where "p = eligible * v"
  have p0: "0 < p" using assms(2,4) by (simp add: p_def)
  have dd: "d = (p + 5000) div 10000" and pm: "p + 5000 \<le> max_i64"
    using assms in_i64_downward [of 10000 v]
    by (auto simp: RoundHalfUpBps_exact p_def i64_bounds PercentBpsMax_def split: if_splits)
  have i: "in_i64 p" "in_i64 (p + 5000)" using p0 pm by (auto simp: i64_bounds)
  have "p \<le> eligible * 10000"
    using assms(3,4) by (simp add: p_def PercentBpsMax_def)
  then have "d \<le> eligible" using dd by linarith
  moreover have "0 \<le> d" using dd p0 by simp
  ultimately show ?thesis
    using assms(2,4) i p0 by (simp add: ComputeDiscountIDR_def p_def [symmetric] go_div_nonneg dd Let_def)
qed

theorem percent_discount_is_fee_rounding_witness:
  "RoundHalfUpBps 99 5000 = Inr 50 \<and> ComputeDiscountIDR KindPercent 5000 99 = 50"
proof -
  have r: "RoundHalfUpBps 99 5000 = Inr 50" by code_simp
  moreover have "ComputeDiscountIDR KindPercent 5000 99 = 50"
    by (rule percent_discount_is_fee_rounding) (simp_all add: r i64_bounds PercentBpsMax_def)
  ultimately show ?thesis ..
qed

text \<open>
  A price snapshot adds up: the discount is taken from the merchandise alone and never exceeds
  it, tip and upsell are charged in full, and without a coupon the discount is zero.
\<close>

theorem price_snapshot_adds_up:
  assumes "max 0 merch + max 0 tip + max 0 upsell \<le> max_i64"
    and p_def: "p = BuildPriceSnapshot store pid merch tip upsell c applied"
  shows "0 \<le> ps_DiscountIDR p \<and> ps_DiscountIDR p \<le> ps_MerchandiseIDR p \<and>
    ps_GrossIDR p = ps_MerchandiseIDR p - ps_DiscountIDR p + max 0 tip + max 0 upsell \<and>
    ps_MerchandiseIDR p = max 0 merch \<and>
    ps_CouponApplied p = (applied \<and> c \<noteq> None) \<and> (\<not> ps_CouponApplied p \<longrightarrow> ps_DiscountIDR p = 0)"
proof -
  define d where "d = ps_DiscountIDR p"
  define m where "m = max 0 merch"
  have d0: "d = (case c of Some c \<Rightarrow> if applied then
      ComputeDiscountIDR (cp_DiscountKind c) (cp_DiscountValue c) m else 0 | None \<Rightarrow> 0)"
    by (simp add: d_def p_def m_def BuildPriceSnapshot_def Let_def split: option.splits)
  then have d: "0 \<le> d" "d \<le> m"
    using ComputeDiscountIDR_bounds [of _ _ m] by (auto simp: m_def split: option.splits)
  have mp: "ps_MerchandiseIDR p = m"
    by (simp add: p_def m_def BuildPriceSnapshot_def Let_def split: option.splits)
  have "ps_GrossIDR p = (let g = wrap64 (wrap64 (wrap64 (m - d) + max 0 tip) + max 0 upsell)
      in if g < 0 then 0 else g)"
    by (simp add: p_def d_def m_def BuildPriceSnapshot_def Let_def split: option.splits)
  also have "\<dots> = m - d + max 0 tip + max 0 upsell"
  proof -
    have "in_i64 (m - d)" "in_i64 (m - d + max 0 tip)" "in_i64 (m - d + max 0 tip + max 0 upsell)"
      using assms(1) d by (auto simp: m_def i64_bounds)
    moreover have "0 \<le> m - d + max 0 tip + max 0 upsell" using d by simp
    ultimately show ?thesis by (simp add: Let_def not_less)
  qed
  finally have g: "ps_GrossIDR p = m - d + max 0 tip + max 0 upsell" .
  have ap: "ps_CouponApplied p = (applied \<and> c \<noteq> None)"
    by (simp add: p_def BuildPriceSnapshot_def Let_def split: option.splits)
  show ?thesis
    using d d0 g mp ap by (auto simp: d_def [symmetric] m_def [symmetric] split: option.splits)
qed

theorem price_snapshot_adds_up_witness:
  "ps_GrossIDR (BuildPriceSnapshot ''st'' ''pr'' 50000 5000 0 None False) = 55000"
  using price_snapshot_adds_up [of 50000 5000 0 _ "''st''" "''pr''" None False, OF _ refl]
  by (simp add: max_i64_def)

end
