(* ===== verification/Shop_Store.thy ===== *)
theory Shop_Store
  imports Withdrawal_Store
begin

text \<open>
  Tables several commerce components read and other components own: products, the members of a
  merchant, and the platform roles of a user; with the queries the repositories share on them and
  the access check every seller-facing service starts with (\<open>requireStoreAccess\<close>). The columns of a
  product are those the modelled services read.
\<close>

record ProductRow =
  pr_ID :: string
  pr_StoreID :: string
  pr_MerchantID :: string
  pr_Slug :: string
  pr_Title :: string
  pr_PriceIDR :: i64
  pr_Type :: string
  pr_Status :: string
  pr_Version :: string
  pr_AllowPWYT :: bool
  pr_MinimumPriceIDR :: "i64 option"
  pr_ActiveSchemaVersion :: "i64 option"
  pr_CreatedAt :: time
  pr_UpdatedAt :: time

record Membership =
  mm_MerchantID :: string
  mm_UserID :: string
  mm_Status :: string

record RoleRow =
  rl_ID :: string
  rl_Code :: string
  rl_ArchivedAt :: "time option"

record shop_db = withdrawal_db +
  products :: "ProductRow list"
  merchant_members :: "Membership list"
  user_roles :: "(string \<times> string) list"
  roles :: "RoleRow list"

definition UserCanAccessStore :: "string \<Rightarrow> string \<Rightarrow> 'm shop_db_scheme \<Rightarrow> bool" where
  "UserCanAccessStore userID storeID w =
    list_ex (\<lambda>(s, m). s = storeID \<and> list_ex (\<lambda>x. mm_MerchantID x = m \<and> mm_UserID x = userID \<and>
       mm_Status x = ''ACTIVE'') (merchant_members w)) (stores w)"

definition UserIsPlatformAdmin :: "string \<Rightarrow> 'm shop_db_scheme \<Rightarrow> bool" where
  "UserIsPlatformAdmin userID w =
    list_ex (\<lambda>(u, r). u = userID \<and> list_ex (\<lambda>x. rl_ID x = r \<and> rl_ArchivedAt x = None \<and>
       rl_Code x \<in> set [''SUPER_ADMIN'', ''ADMIN_SUPPORT'']) (roles w)) (user_roles w)"

definition ProductOwnedByStore :: "string \<Rightarrow> string \<Rightarrow> 'm shop_db_scheme \<Rightarrow> bool" where
  "ProductOwnedByStore storeID productID w =
    list_ex (\<lambda>p. pr_ID p = productID \<and> pr_StoreID p = storeID) (products w)"

definition get_product :: "string \<Rightarrow> string \<Rightarrow> 'm shop_db_scheme \<Rightarrow> ProductRow result" where
  "get_product storeID productID w =
    opt_row (find (\<lambda>p. pr_ID p = productID \<and> pr_StoreID p = storeID) (products w))"

definition GetProductPrice :: "string \<Rightarrow> string \<Rightarrow> 'm shop_db_scheme \<Rightarrow> (i64 \<times> string) result" where
  "GetProductPrice storeID productID w =
    bindE (get_product storeID productID w) (\<lambda>p. Inr (pr_PriceIDR p, pr_Status p))"

text \<open>
  \<open>requireStoreAccess\<close>: platform administrators and active members of the store's merchant get in;
  everyone else gets the service's "not found", as for a store that does not exist. \<open>nf\<close> is that
  error, which each service has its own value of.
\<close>

definition require_store_access ::
    "go_error \<Rightarrow> string \<Rightarrow> string \<Rightarrow> 'm shop_db_scheme \<Rightarrow> (string \<times> string) result" where
  "require_store_access nf userID storeID w =
    (if userID = [] then Inl (apperr_unauthorized ''AUTH_REQUIRED'' ''Authentication required'')
     else if storeID = [] then Inl nf
     else case get_store_merchant storeID w of
       Inl err \<Rightarrow> Inl (if is_not_found err then nf else apperr_internal ''INTERNAL_ERROR'' ''Store lookup failed'')
     | Inr st \<Rightarrow>
         if UserIsPlatformAdmin userID w then Inr st
         else if \<not> UserCanAccessStore userID storeID w then Inl nf
         else Inr st)"

text \<open>
  \<open>IsUniqueViolation\<close> (SQLSTATE 23505): the constraint the error names is a unique index or a primary
  key, which the schema names with these suffixes.
\<close>

definition has_suffix :: "string \<Rightarrow> string \<Rightarrow> bool" where
  "has_suffix p s \<longleftrightarrow> has_prefix (rev p) (rev s)"

definition is_unique_violation :: "go_error \<Rightarrow> bool" where
  "is_unique_violation e = (case e of PgError c \<Rightarrow>
     has_suffix ''_uidx'' c \<or> has_suffix ''_pkey'' c \<or> has_suffix ''_key'' c | _ \<Rightarrow> False)"

text \<open>
  \<open>apperr.AsAppError\<close>: the application error an error is or wraps; and the tail of a handler that
  hides every other error behind a message.
\<close>

fun as_app_error :: "go_error \<Rightarrow> go_error option" where
  "as_app_error (AppError k code message cause) = Some (AppError k code message cause)"
| "as_app_error (WrapError m e) = as_app_error e"
| "as_app_error e = None"

definition hide_errors :: "string \<Rightarrow> ('s, 'a) op \<Rightarrow> ('s, 'a) op" where
  "hide_errors message m = (\<lambda>w. case m w of
     (Inl e, w') \<Rightarrow> (Inl (case as_app_error e of Some ae \<Rightarrow> ae
        | None \<Rightarrow> apperr_internal ''INTERNAL_ERROR'' message), w')
   | (Inr a, w') \<Rightarrow> (Inr a, w'))"

text \<open>An identifier with its type prefix, unless the generator already put it there.\<close>

definition prefixed :: "string \<Rightarrow> string \<Rightarrow> string" where
  "prefixed p i = (if has_prefix p i then i else p @ i)"

text \<open>\<open>int32\<close> arithmetic of the version columns.\<close>

definition wrap32 :: "int \<Rightarrow> int" where
  "wrap32 x = (x + 2147483648) mod 4294967296 - 2147483648"

lemma wrap32_id: "-2147483648 \<le> x \<Longrightarrow> x < 2147483648 \<Longrightarrow> wrap32 x = x"
  by (simp add: wrap32_def)

lemma hide_errors_Inr [simp]: "hide_errors msg m w = (Inr a, w') \<longleftrightarrow> m w = (Inr a, w')"
  by (auto simp: hide_errors_def split: prod.splits sum.splits)

lemma keeps_hide_errors [inv_intros]: "keeps P m \<Longrightarrow> keeps P (hide_errors msg m)"
  by (auto simp: keeps_def hide_errors_def split: prod.splits sum.splits)

text \<open>
  Only platform administrators and active members get through the access check, and what comes back
  is the store asked for with its merchant.
\<close>

lemma require_store_access_Inr:
  "require_store_access nf u s w = Inr st \<longleftrightarrow>
     u \<noteq> [] \<and> s \<noteq> [] \<and> get_store_merchant s w = Inr st \<and>
     (UserIsPlatformAdmin u w \<or> UserCanAccessStore u s w)"
  by (auto simp: require_store_access_def split: sum.splits if_splits)

end
