(* ===== verification/Coupon_Store.thy ===== *)
theory Coupon_Store
  imports Shop_Store Coupons
begin

text \<open>
  The coupon tables of \<open>migrations/000009_coupons.up.sql\<close> and their repository
  (\<open>internal/adapters/postgres/coupon_repo.go\<close> over \<open>queries/coupons.sql\<close>): coupons, the products a
  coupon is restricted to, the reservations of a checkout and the redemptions of paid orders. The
  foreign key to \<open>users\<close> is left out, since that table is not part of the model.
\<close>

record coupon_db = shop_db +
  coupons :: "Coupon list"
  coupon_scopes :: "(string \<times> string \<times> string) list"
  coupon_reservations :: "Reservation list"
  coupon_redemptions :: "Redemption list"

subsection \<open>Coupons\<close>

definition coupon_check :: "Coupon \<Rightarrow> unit result" where
  "coupon_check c = first_failure
    [(cp_CodeDisplay c \<noteq> [], ''coupons_code_display_nonempty''),
     (cp_NormalizedCode c \<noteq> [], ''coupons_normalized_code_nonempty''),
     (cp_CodeHash c \<noteq> [], ''coupons_code_hash_nonempty''),
     (cp_DiscountKind c \<in> set [KindPercent, KindFixedIDR], ''coupons_discount_kind_check''),
     (cp_DiscountValue c > 0, ''coupons_discount_value_pos''),
     (cp_DiscountKind c \<noteq> KindPercent \<or> (1 \<le> cp_DiscountValue c \<and> cp_DiscountValue c \<le> 10000), ''coupons_percent_bps_check''),
     (cp_MinMerchandiseIDR c \<ge> 0, ''coupons_min_merch_nonneg''),
     (case cp_MaxTotalUses c of None \<Rightarrow> True | Some n \<Rightarrow> n > 0, ''coupons_max_total_pos''),
     (case cp_MaxPerCustomerUses c of None \<Rightarrow> True | Some n \<Rightarrow> n > 0, ''coupons_max_per_customer_pos''),
     (cp_State c \<in> set [StateDraft, StateActive, StatePaused, StateExpired, StateArchived], ''coupons_state_check''),
     (cp_Scope c \<in> set [ScopeAllProducts, ScopeSelectedProducts], ''coupons_scope_check''),
     (cp_Version c \<ge> 1, ''coupons_version_pos''),
     (cp_PolicyVersion c \<ge> 1, ''coupons_policy_version_pos''),
     (cp_ReservedCount c \<ge> 0, ''coupons_reserved_nonneg''),
     (cp_RedeemedCount c \<ge> 0, ''coupons_redeemed_nonneg''),
     (case (cp_StartsAt c, cp_EndsAt c) of (Some a, Some b) \<Rightarrow> a \<le> b | _ \<Rightarrow> True, ''coupons_window_order'')]"

definition coupon_key :: "Coupon \<Rightarrow> string \<times> string" where
  "coupon_key c = (cp_StoreID c, cp_NormalizedCode c)"

definition InsertCoupon :: "Coupon \<Rightarrow> ('m coupon_db_scheme, unit) op" where
  "InsertCoupon c = (\<lambda>w.
     case bindE (coupon_check c) (\<lambda>_. first_failure
       [(cp_ID c \<notin> cp_ID ` set (coupons w), ''coupons_pkey''),
        (coupon_key c \<notin> coupon_key ` set (coupons w), ''coupons_store_normalized_code_uidx''),
        (cp_StoreID c \<in> fst ` set (stores w), ''coupons_store_id_fkey''),
        (cp_MerchantID c \<in> set (merchants w), ''coupons_merchant_id_fkey'')]) of
       Inl e \<Rightarrow> (Inl e, w)
     | Inr _ \<Rightarrow> (Inr (), w\<lparr>coupons := coupons w @ [c\<lparr>cp_ProductIDs := []\<rparr>]\<rparr>))"

text \<open>\<open>UpdateCoupon\<close> writes every seller column, but neither the counters nor the owner.\<close>

definition coupon_columns :: "Coupon \<Rightarrow> Coupon \<Rightarrow> Coupon" where
  "coupon_columns c r = r\<lparr>cp_CodeDisplay := cp_CodeDisplay c, cp_NormalizedCode := cp_NormalizedCode c,
     cp_CodeHash := cp_CodeHash c, cp_DiscountKind := cp_DiscountKind c, cp_DiscountValue := cp_DiscountValue c,
     cp_MinMerchandiseIDR := cp_MinMerchandiseIDR c, cp_MaxTotalUses := cp_MaxTotalUses c,
     cp_MaxPerCustomerUses := cp_MaxPerCustomerUses c, cp_StartsAt := cp_StartsAt c, cp_EndsAt := cp_EndsAt c,
     cp_State := cp_State c, cp_Scope := cp_Scope c, cp_Version := cp_Version c,
     cp_PolicyVersion := cp_PolicyVersion c, cp_UpdatedAt := cp_UpdatedAt c\<rparr>"

definition UpdateCoupon :: "Coupon \<Rightarrow> i64 \<Rightarrow> ('m coupon_db_scheme, bool) op" where
  "UpdateCoupon c expectedVersion = (\<lambda>w.
     case update_one (\<lambda>r. cp_ID r = cp_ID c \<and> cp_StoreID r = cp_StoreID c \<and> cp_Version r = expectedVersion)
       (coupon_columns c)
       (\<lambda>r. bindE (coupon_check r) (\<lambda>_. first_failure
         [(\<not> list_ex (\<lambda>x. cp_ID x \<noteq> cp_ID r \<and> coupon_key x = coupon_key r) (coupons w),
           ''coupons_store_normalized_code_uidx'')])) (coupons w) of
       Inl e \<Rightarrow> (if is_not_found e then (Inr False, w) else (Inl e, w))
     | Inr (_, rows) \<Rightarrow> (Inr True, w\<lparr>coupons := rows\<rparr>))"

definition GetCouponByID :: "string \<Rightarrow> string \<Rightarrow> 'm coupon_db_scheme \<Rightarrow> Coupon result" where
  "GetCouponByID storeID couponID w =
    opt_row (find (\<lambda>c. cp_ID c = couponID \<and> cp_StoreID c = storeID) (coupons w))"

definition GetCouponByNormalizedCode :: "string \<Rightarrow> string \<Rightarrow> 'm coupon_db_scheme \<Rightarrow> Coupon result" where
  "GetCouponByNormalizedCode storeID code w =
    opt_row (find (\<lambda>c. cp_StoreID c = storeID \<and> cp_NormalizedCode c = code) (coupons w))"

definition ListCouponsByStore :: "string \<Rightarrow> 'm coupon_db_scheme \<Rightarrow> Coupon list" where
  "ListCouponsByStore storeID w =
    rev (sort_key (\<lambda>c. (cp_CreatedAt c, cp_ID c)) (filter (\<lambda>c. cp_StoreID c = storeID) (coupons w)))"

definition LockCouponForReserve :: "string \<Rightarrow> 'm coupon_db_scheme \<Rightarrow> Coupon result" where
  "LockCouponForReserve couponID w = opt_row (find (\<lambda>c. cp_ID c = couponID) (coupons w))"

definition adjusted :: "i64 \<Rightarrow> i64 \<Rightarrow> time \<Rightarrow> Coupon \<Rightarrow> Coupon" where
  "adjusted dr dd at c = c\<lparr>cp_ReservedCount := cp_ReservedCount c + dr,
     cp_RedeemedCount := cp_RedeemedCount c + dd, cp_UpdatedAt := at\<rparr>"

text \<open>
  \<open>AdjustCouponCounters\<close>: the WHERE clause skips the row when a counter would become negative, and
  the statement does not report how many rows it changed.
\<close>

definition AdjustCouponCounters :: "string \<Rightarrow> i64 \<Rightarrow> i64 \<Rightarrow> ('m coupon_db_scheme, unit) op" where
  "AdjustCouponCounters couponID dr dd = (\<lambda>w.
     case find (\<lambda>c. cp_ID c = couponID) (coupons w) of
       None \<Rightarrow> (Inr (), w)
     | Some c \<Rightarrow>
       (case bindE (pg_bigint (cp_ReservedCount c + dr)) (\<lambda>_. pg_bigint (cp_RedeemedCount c + dd)) of
          Inl e \<Rightarrow> (Inl e, w)
        | Inr _ \<Rightarrow>
          if cp_ReservedCount c + dr \<ge> 0 \<and> cp_RedeemedCount c + dd \<ge> 0
          then (Inr (), w\<lparr>coupons := map (\<lambda>x. if cp_ID x = couponID then adjusted dr dd (clock w) x else x) (coupons w)\<rparr>)
          else (Inr (), w)))"

subsection \<open>Product scopes\<close>

definition insert_scope :: "string \<Rightarrow> string \<Rightarrow> string \<Rightarrow> ('m coupon_db_scheme, unit) op" where
  "insert_scope couponID storeID productID = (\<lambda>w.
     case first_failure
       [((couponID, productID) \<notin> (\<lambda>(c, p, s). (c, p)) ` set (coupon_scopes w), ''coupon_product_scopes_pkey''),
        (couponID \<in> cp_ID ` set (coupons w), ''coupon_product_scopes_coupon_id_fkey''),
        (productID \<in> pr_ID ` set (products w), ''coupon_product_scopes_product_id_fkey''),
        (storeID \<in> fst ` set (stores w), ''coupon_product_scopes_store_id_fkey'')] of
       Inl e \<Rightarrow> (Inl e, w)
     | Inr _ \<Rightarrow> (Inr (), w\<lparr>coupon_scopes := coupon_scopes w @ [(couponID, productID, storeID)]\<rparr>))"

definition ReplaceProductScopes :: "string \<Rightarrow> string \<Rightarrow> string list \<Rightarrow> ('m coupon_db_scheme, unit) op" where
  "ReplaceProductScopes couponID storeID productIDs =
    bindS (\<lambda>w. (Inr (), w\<lparr>coupon_scopes := filter (\<lambda>(c, _). c \<noteq> couponID) (coupon_scopes w)\<rparr>))
      (\<lambda>_. for_each (insert_scope couponID storeID) productIDs)"

definition ListProductScopes :: "string \<Rightarrow> 'm coupon_db_scheme \<Rightarrow> string list" where
  "ListProductScopes couponID w =
    sort (map (\<lambda>(c, p, s). p) (filter (\<lambda>(c, p, s). c = couponID) (coupon_scopes w)))"

definition ProductScopeSet :: "string \<Rightarrow> 'm coupon_db_scheme \<Rightarrow> string set" where
  "ProductScopeSet couponID w = set (ListProductScopes couponID w)"

subsection \<open>Reservations and redemptions\<close>

definition reservation_check :: "Reservation \<Rightarrow> unit result" where
  "reservation_check r = first_failure
    [(rs_CouponPolicyVersion r \<ge> 1, ''coupon_reservations_policy_version_pos''),
     (rs_OrderID r \<noteq> [], ''coupon_reservations_order_nonempty''),
     (rs_IdempotencyKey r \<noteq> [], ''coupon_reservations_idem_nonempty''),
     (rs_DiscountKind r \<in> set [KindPercent, KindFixedIDR], ''coupon_reservations_discount_kind_check''),
     (rs_DiscountValue r > 0, ''coupon_reservations_discount_value_pos''),
     (rs_DiscountIDR r \<ge> 0, ''coupon_reservations_discount_nonneg''),
     (rs_EligibleSubtotalIDR r \<ge> 0, ''coupon_reservations_eligible_nonneg''),
     (rs_MerchandiseIDR r \<ge> 0, ''coupon_reservations_merch_nonneg''),
     (rs_TipIDR r \<ge> 0, ''coupon_reservations_tip_nonneg''),
     (rs_UpsellIDR r \<ge> 0, ''coupon_reservations_upsell_nonneg''),
     (rs_GrossIDR r \<ge> 0, ''coupon_reservations_gross_nonneg''),
     (rs_State r \<in> set [ReservationReserved, ReservationConsumed, ReservationReleased, ReservationHeldUnknown],
        ''coupon_reservations_state_check'')]"

definition order_key :: "Reservation \<Rightarrow> string \<times> string" where
  "order_key r = (rs_CouponID r, rs_OrderID r)"

definition idem_key :: "Reservation \<Rightarrow> string \<times> string" where
  "idem_key r = (rs_CouponID r, rs_IdempotencyKey r)"

definition InsertCouponReservation :: "Reservation \<Rightarrow> ('m coupon_db_scheme, unit) op" where
  "InsertCouponReservation r = (\<lambda>w.
     case bindE (reservation_check r) (\<lambda>_. first_failure
       [(rs_ID r \<notin> rs_ID ` set (coupon_reservations w), ''coupon_reservations_pkey''),
        (order_key r \<notin> order_key ` set (coupon_reservations w), ''coupon_reservations_coupon_order_uidx''),
        (idem_key r \<notin> idem_key ` set (coupon_reservations w), ''coupon_reservations_coupon_idem_uidx''),
        (rs_CouponID r \<in> cp_ID ` set (coupons w), ''coupon_reservations_coupon_id_fkey''),
        (rs_StoreID r \<in> fst ` set (stores w), ''coupon_reservations_store_id_fkey'')]) of
       Inl e \<Rightarrow> (Inl e, w)
     | Inr _ \<Rightarrow> (Inr (), w\<lparr>coupon_reservations := coupon_reservations w @ [r]\<rparr>))"

definition GetCouponReservation :: "string \<Rightarrow> 'm coupon_db_scheme \<Rightarrow> Reservation result" where
  "GetCouponReservation i w = opt_row (find (\<lambda>r. rs_ID r = i) (coupon_reservations w))"

definition GetCouponReservationByIdempotency :: "string \<Rightarrow> string \<Rightarrow> 'm coupon_db_scheme \<Rightarrow> Reservation result" where
  "GetCouponReservationByIdempotency couponID key w =
    opt_row (find (\<lambda>r. idem_key r = (couponID, key)) (coupon_reservations w))"

definition GetCouponReservationByOrder :: "string \<Rightarrow> string \<Rightarrow> 'm coupon_db_scheme \<Rightarrow> Reservation result" where
  "GetCouponReservationByOrder couponID orderID w =
    opt_row (find (\<lambda>r. order_key r = (couponID, orderID)) (coupon_reservations w))"

definition CountBuyerCouponUsage :: "string \<Rightarrow> string \<Rightarrow> 'm coupon_db_scheme \<Rightarrow> i64" where
  "CountBuyerCouponUsage couponID buyerHash w =
    int (length (filter (\<lambda>r. rs_CouponID r = couponID \<and> rs_BuyerIdentityHash r = Some buyerHash \<and>
       rs_State r \<in> set [ReservationReserved, ReservationHeldUnknown, ReservationConsumed]) (coupon_reservations w)))"

definition moved_to :: "string \<Rightarrow> time \<Rightarrow> Reservation \<Rightarrow> Reservation" where
  "moved_to to at r = r\<lparr>rs_State := to,
     rs_ConsumedAt := (if to = ReservationConsumed then Some at else rs_ConsumedAt r),
     rs_ReleasedAt := (if to = ReservationReleased then Some at else rs_ReleasedAt r),
     rs_UpdatedAt := at\<rparr>"

definition UpdateCouponReservationState ::
    "string \<Rightarrow> string \<Rightarrow> string \<Rightarrow> time \<Rightarrow> ('m coupon_db_scheme, bool) op" where
  "UpdateCouponReservationState i from to at = (\<lambda>w.
     case update_one (\<lambda>r. rs_ID r = i \<and> rs_State r = from) (moved_to to at) reservation_check
       (coupon_reservations w) of
       Inl e \<Rightarrow> (if is_not_found e then (Inr False, w) else (Inl e, w))
     | Inr (_, rows) \<Rightarrow> (Inr True, w\<lparr>coupon_reservations := rows\<rparr>))"

definition ListExpiredCouponReservations :: "time \<Rightarrow> int \<Rightarrow> 'm coupon_db_scheme \<Rightarrow> Reservation list" where
  "ListExpiredCouponReservations at limit w =
    take (nat limit) (sort_key rs_ExpiresAt
      (filter (\<lambda>r. rs_State r = ReservationReserved \<and> rs_ExpiresAt r \<le> at) (coupon_reservations w)))"

definition redemption_check :: "Redemption \<Rightarrow> unit result" where
  "redemption_check r = first_failure
    [(rd_CouponPolicyVersion r \<ge> 1, ''coupon_redemptions_policy_version_pos''),
     (rd_OrderID r \<noteq> [], ''coupon_redemptions_order_nonempty''),
     (rd_DiscountKind r \<in> set [KindPercent, KindFixedIDR], ''coupon_redemptions_discount_kind_check''),
     (rd_DiscountValue r > 0, ''coupon_redemptions_discount_value_pos''),
     (rd_DiscountIDR r \<ge> 0, ''coupon_redemptions_discount_nonneg''),
     (rd_EligibleSubtotalIDR r \<ge> 0, ''coupon_redemptions_eligible_nonneg''),
     (rd_MerchandiseIDR r \<ge> 0, ''coupon_redemptions_merch_nonneg''),
     (rd_TipIDR r \<ge> 0, ''coupon_redemptions_tip_nonneg''),
     (rd_UpsellIDR r \<ge> 0, ''coupon_redemptions_upsell_nonneg''),
     (rd_GrossIDR r \<ge> 0, ''coupon_redemptions_gross_nonneg'')]"

definition InsertRedemption :: "Redemption \<Rightarrow> ('m coupon_db_scheme, unit) op" where
  "InsertRedemption r = (\<lambda>w.
     case bindE (redemption_check r) (\<lambda>_. first_failure
       [(rd_ID r \<notin> rd_ID ` set (coupon_redemptions w), ''coupon_redemptions_pkey''),
        (rd_ReservationID r \<notin> rd_ReservationID ` set (coupon_redemptions w), ''coupon_redemptions_reservation_id_key''),
        (rd_OrderID r \<notin> rd_OrderID ` set (coupon_redemptions w), ''coupon_redemptions_order_uidx''),
        (rd_ReservationID r \<in> rs_ID ` set (coupon_reservations w), ''coupon_redemptions_reservation_id_fkey''),
        (rd_CouponID r \<in> cp_ID ` set (coupons w), ''coupon_redemptions_coupon_id_fkey''),
        (rd_StoreID r \<in> fst ` set (stores w), ''coupon_redemptions_store_id_fkey'')]) of
       Inl e \<Rightarrow> (Inl e, w)
     | Inr _ \<Rightarrow> (Inr (), w\<lparr>coupon_redemptions := coupon_redemptions w @ [r]\<rparr>))"

definition GetRedemptionByReservation :: "string \<Rightarrow> 'm coupon_db_scheme \<Rightarrow> Redemption result" where
  "GetRedemptionByReservation rid w = opt_row (find (\<lambda>r. rd_ReservationID r = rid) (coupon_redemptions w))"

end
