(* ===== verification/Coupon_Service.thy ===== *)
theory Coupon_Service
  imports Coupon_Store
begin

text \<open>
  The coupon service (\<open>internal/application/coupon_service.go\<close>): the seller's management of coupons,
  and the quote, hold, release and redemption of a coupon at checkout. The clock is read once per
  call. A read that follows a failed statement inside a transaction fails as well
  (\<open>after_failed_statement\<close>), so the recovery branches of the code after a unique violation keep
  their error exit only.
\<close>

subsection \<open>Seller access and reads\<close>

definition DefaultReservationTTL :: int where
  "DefaultReservationTTL = seconds (30 * 60)"

definition coupon_access :: "string \<Rightarrow> string \<Rightarrow> 'm coupon_db_scheme \<Rightarrow> (string \<times> string) result" where
  "coupon_access userID storeID w = require_store_access ErrCouponNotFound userID storeID w"

definition with_scopes :: "Coupon \<Rightarrow> 'm coupon_db_scheme \<Rightarrow> Coupon" where
  "with_scopes c w = c\<lparr>cp_ProductIDs := ListProductScopes (cp_ID c) w\<rparr>"

definition ListCoupons :: "string \<Rightarrow> string \<Rightarrow> 'm coupon_db_scheme \<Rightarrow> Coupon list result" where
  "ListCoupons userID storeID w =
    bindE (coupon_access userID storeID w) (\<lambda>_.
    Inr (map (\<lambda>c. with_scopes c w) (ListCouponsByStore storeID w)))"

definition GetCoupon :: "string \<Rightarrow> string \<Rightarrow> string \<Rightarrow> 'm coupon_db_scheme \<Rightarrow> Coupon result" where
  "GetCoupon userID storeID couponID w =
    bindE (coupon_access userID storeID w) (\<lambda>_.
    case GetCouponByID storeID couponID w of
      Inl err \<Rightarrow> Inl (if is_not_found err then ErrCouponNotFound
                     else apperr_internal ''INTERNAL_ERROR'' ''Coupon lookup failed'')
    | Inr c \<Rightarrow> Inr (with_scopes c w))"

subsection \<open>Creating a coupon\<close>

record CreateCouponInput =
  cc_Code :: string
  cc_DiscountKind :: string
  cc_DiscountValue :: i64
  cc_PercentIsBps :: bool
  cc_MinMerchandiseIDR :: i64
  cc_MaxTotalUses :: "i64 option"
  cc_MaxPerCustomerUses :: "i64 option"
  cc_StartsAt :: "time option"
  cc_EndsAt :: "time option"
  cc_Scope :: string
  cc_ProductIDs :: "string list"

text \<open>The loop of \<open>validateProductIDs\<close>: blanks and repetitions are skipped, a foreign product is refused.\<close>

fun collect_ids :: "(string \<Rightarrow> bool) \<Rightarrow> string list \<Rightarrow> string list \<Rightarrow> string list result" where
  "collect_ids owned out [] = Inr out"
| "collect_ids owned out (i # is) =
     (let i = trim_space i in
      if i = [] \<or> i \<in> set out then collect_ids owned out is
      else if \<not> owned i then Inl ErrProductNotInStore
      else collect_ids owned (out @ [i]) is)"

definition validateProductIDs ::
    "string \<Rightarrow> string \<Rightarrow> string list \<Rightarrow> 'm coupon_db_scheme \<Rightarrow> string list result" where
  "validateProductIDs storeID scope ids w =
    (if scope \<noteq> ScopeSelectedProducts then Inr []
     else if ids = [] then Inl ErrProductsRequired
     else if length ids > MaxProductScope then Inl ErrScopeInvalid
     else bindE (collect_ids (\<lambda>i. ProductOwnedByStore storeID i w) [] ids) (\<lambda>out.
       if out = [] then Inl ErrProductsRequired else Inr out))"

definition buildNewCoupon ::
    "string \<times> string \<Rightarrow> string \<Rightarrow> CreateCouponInput \<Rightarrow> ('m coupon_db_scheme, Coupon) op" where
  "buildNewCoupon st userID inp = with_state (\<lambda>w.
    let norm = NormalizeCode (cc_Code inp) in
    bindS (liftE (ValidateCode norm)) (\<lambda>_.
    bindS (liftE (NormalizeDiscountKind (cc_DiscountKind inp))) (\<lambda>kind.
    bindS (liftE (if kind = KindPercent \<and> \<not> cc_PercentIsBps inp then PercentToBps (cc_DiscountValue inp)
                  else Inr (cc_DiscountValue inp))) (\<lambda>val.
    bindS (liftE (ValidateDiscountValue kind val)) (\<lambda>_.
    bindS (liftE (ValidateMinMerchandise (cc_MinMerchandiseIDR inp))) (\<lambda>_.
    bindS (liftE (ValidateUsageLimit (cc_MaxTotalUses inp))) (\<lambda>_.
    bindS (liftE (ValidateUsageLimit (cc_MaxPerCustomerUses inp))) (\<lambda>_.
    bindS (liftE (ValidateWindow (cc_StartsAt inp) (cc_EndsAt inp))) (\<lambda>_.
    bindS (liftE (NormalizeScope (cc_Scope inp))) (\<lambda>scope.
    bindS (liftE (validateProductIDs (fst st) scope (cc_ProductIDs inp) w)) (\<lambda>productIDs.
    bindS new_id (\<lambda>i.
    ret \<lparr>cp_ID = prefixed ''cpn_'' i, cp_StoreID = fst st, cp_MerchantID = snd st, cp_CodeDisplay = norm,
      cp_NormalizedCode = norm, cp_CodeHash = HashCode norm, cp_DiscountKind = kind, cp_DiscountValue = val,
      cp_MinMerchandiseIDR = cc_MinMerchandiseIDR inp, cp_MaxTotalUses = cc_MaxTotalUses inp,
      cp_MaxPerCustomerUses = cc_MaxPerCustomerUses inp, cp_StartsAt = cc_StartsAt inp, cp_EndsAt = cc_EndsAt inp,
      cp_State = StateDraft, cp_Scope = scope, cp_Version = 1, cp_PolicyVersion = 1, cp_ReservedCount = 0,
      cp_RedeemedCount = 0, cp_ProductIDs = productIDs,
      cp_CreatedBy = (if userID \<noteq> [] then Some userID else None),
      cp_CreatedAt = clock w, cp_UpdatedAt = clock w\<rparr>))))))))))))"

definition create_tx :: "string \<Rightarrow> Coupon \<Rightarrow> ('m coupon_db_scheme, Coupon) op" where
  "create_tx storeID c =
    bindS (try_op (InsertCoupon c)) (\<lambda>r. case r of
      Inl err \<Rightarrow> throw (if is_unique_violation err then ErrCodeConflict else err)
    | Inr _ \<Rightarrow>
      if cp_Scope c = ScopeSelectedProducts
      then bindS (ReplaceProductScopes (cp_ID c) storeID (cp_ProductIDs c)) (\<lambda>_. ret c)
      else ret c)"

definition CreateCoupon ::
    "string \<Rightarrow> string \<Rightarrow> CreateCouponInput \<Rightarrow> ('m coupon_db_scheme, Coupon) op" where
  "CreateCoupon userID storeID inp = with_state (\<lambda>w.
    bindS (liftE (coupon_access userID storeID w)) (\<lambda>st.
    bindS (buildNewCoupon st userID inp) (\<lambda>c.
    hide_errors ''Create coupon failed'' (with_tx (create_tx storeID c)))))"

subsection \<open>Changing a coupon\<close>

record PatchCouponInput =
  pt_ExpectedVersion :: i64
  pt_DiscountKind :: "string option"
  pt_DiscountValue :: "i64 option"
  pt_PercentIsBps :: bool
  pt_MinMerchandiseIDR :: "i64 option"
  pt_MaxTotalUses :: "i64 option"
  pt_ClearMaxTotal :: bool
  pt_MaxPerCustomerUses :: "i64 option"
  pt_ClearMaxPerCustomer :: bool
  pt_StartsAt :: "time option"
  pt_ClearStartsAt :: bool
  pt_EndsAt :: "time option"
  pt_ClearEndsAt :: bool
  pt_Scope :: "string option"
  pt_ProductIDs :: "string list option"
  pt_Code :: "string option"

text \<open>
  The edits of \<open>PatchCoupon\<close>, in the order of the code. Each returns the coupon and whether the
  pricing policy changed.
\<close>

definition patch_code :: "PatchCouponInput \<Rightarrow> Coupon \<Rightarrow> Coupon result" where
  "patch_code inp c =
    (case pt_Code inp of None \<Rightarrow> Inr c
     | Some raw \<Rightarrow>
       if \<not> CodeChangeAllowed (cp_State c) then Inl ErrCannotMutate
       else let norm = NormalizeCode raw in
         bindE (ValidateCode norm) (\<lambda>_.
         Inr (c\<lparr>cp_CodeDisplay := norm, cp_NormalizedCode := norm, cp_CodeHash := HashCode norm\<rparr>)))"

definition patch_kind :: "PatchCouponInput \<Rightarrow> Coupon \<times> bool \<Rightarrow> (Coupon \<times> bool) result" where
  "patch_kind inp = (\<lambda>(c, bump).
    case pt_DiscountKind inp of None \<Rightarrow> Inr (c, bump)
    | Some raw \<Rightarrow> bindE (NormalizeDiscountKind raw) (\<lambda>kind.
        Inr (c\<lparr>cp_DiscountKind := kind\<rparr>, bump \<or> kind \<noteq> cp_DiscountKind c)))"

definition patch_value :: "PatchCouponInput \<Rightarrow> Coupon \<times> bool \<Rightarrow> (Coupon \<times> bool) result" where
  "patch_value inp = (\<lambda>(c, bump).
    case pt_DiscountValue inp of None \<Rightarrow> Inr (c, bump)
    | Some v \<Rightarrow>
      bindE (if cp_DiscountKind c = KindPercent \<and> \<not> pt_PercentIsBps inp then PercentToBps v else Inr v) (\<lambda>val.
      bindE (ValidateDiscountValue (cp_DiscountKind c) val) (\<lambda>_.
      Inr (c\<lparr>cp_DiscountValue := val\<rparr>, bump \<or> val \<noteq> cp_DiscountValue c))))"

definition patch_minimum :: "PatchCouponInput \<Rightarrow> Coupon \<times> bool \<Rightarrow> (Coupon \<times> bool) result" where
  "patch_minimum inp = (\<lambda>(c, bump).
    case pt_MinMerchandiseIDR inp of None \<Rightarrow> Inr (c, bump)
    | Some v \<Rightarrow> bindE (ValidateMinMerchandise v) (\<lambda>_.
        Inr (c\<lparr>cp_MinMerchandiseIDR := v\<rparr>, bump \<or> v \<noteq> cp_MinMerchandiseIDR c)))"

definition patch_limits :: "PatchCouponInput \<Rightarrow> Coupon \<times> bool \<Rightarrow> (Coupon \<times> bool) result" where
  "patch_limits inp = (\<lambda>(c, bump).
    bindE (if pt_ClearMaxTotal inp then Inr (c\<lparr>cp_MaxTotalUses := None\<rparr>, True)
           else case pt_MaxTotalUses inp of None \<Rightarrow> Inr (c, bump)
             | Some n \<Rightarrow> bindE (ValidateUsageLimit (Some n)) (\<lambda>_. Inr (c\<lparr>cp_MaxTotalUses := Some n\<rparr>, True)))
      (\<lambda>(c, bump).
        if pt_ClearMaxPerCustomer inp then Inr (c\<lparr>cp_MaxPerCustomerUses := None\<rparr>, True)
        else case pt_MaxPerCustomerUses inp of None \<Rightarrow> Inr (c, bump)
          | Some n \<Rightarrow> bindE (ValidateUsageLimit (Some n)) (\<lambda>_. Inr (c\<lparr>cp_MaxPerCustomerUses := Some n\<rparr>, True))))"

definition patch_window :: "PatchCouponInput \<Rightarrow> Coupon \<times> bool \<Rightarrow> (Coupon \<times> bool) result" where
  "patch_window inp = (\<lambda>(c, bump).
    let (c, bump) = (if pt_ClearStartsAt inp then (c\<lparr>cp_StartsAt := None\<rparr>, True)
           else case pt_StartsAt inp of None \<Rightarrow> (c, bump) | Some t \<Rightarrow> (c\<lparr>cp_StartsAt := Some t\<rparr>, True));
        (c, bump) = (if pt_ClearEndsAt inp then (c\<lparr>cp_EndsAt := None\<rparr>, True)
           else case pt_EndsAt inp of None \<Rightarrow> (c, bump) | Some t \<Rightarrow> (c\<lparr>cp_EndsAt := Some t\<rparr>, True))
    in bindE (ValidateWindow (cp_StartsAt c) (cp_EndsAt c)) (\<lambda>_. Inr (c, bump)))"

text \<open>The scope: answers the coupon, the policy flag, \<open>scopeChanged\<close> and the new product list.\<close>

definition patch_scope ::
    "PatchCouponInput \<Rightarrow> string \<Rightarrow> 'm coupon_db_scheme \<Rightarrow> Coupon \<times> bool \<Rightarrow> (Coupon \<times> bool \<times> bool \<times> string list) result" where
  "patch_scope inp storeID w = (\<lambda>(c, bump).
    bindE (case pt_Scope inp of None \<Rightarrow> Inr (c, bump, False)
           | Some raw \<Rightarrow> bindE (NormalizeScope raw) (\<lambda>scope.
               Inr (c\<lparr>cp_Scope := scope\<rparr>, bump \<or> scope \<noteq> cp_Scope c, scope \<noteq> cp_Scope c))) (\<lambda>(c, bump, changed).
    bindE (case pt_ProductIDs inp of
             Some ids \<Rightarrow> bindE (validateProductIDs storeID (cp_Scope c) ids w) (\<lambda>out. Inr (True, True, out))
           | None \<Rightarrow>
               if changed \<and> cp_Scope c = ScopeSelectedProducts then
                 let out = ListProductScopes (cp_ID c) w in
                 if out = [] then Inl ErrProductsRequired else Inr (bump, changed, out)
               else Inr (bump, changed, [])) (\<lambda>(bump, changed, productIDs).
    Inr (c, bump, changed, if cp_Scope c = ScopeAllProducts then [] else productIDs))))"

definition patched ::
    "PatchCouponInput \<Rightarrow> string \<Rightarrow> 'm coupon_db_scheme \<Rightarrow> Coupon \<Rightarrow> (Coupon \<times> bool \<times> string list) result" where
  "patched inp storeID w c =
    bindE (patch_code inp c) (\<lambda>c.
    bindE (patch_kind inp (c, False)) (\<lambda>x.
    bindE (patch_value inp x) (\<lambda>x.
    bindE (patch_minimum inp x) (\<lambda>x.
    bindE (patch_limits inp x) (\<lambda>x.
    bindE (patch_window inp x) (\<lambda>x.
    bindE (patch_scope inp storeID w x) (\<lambda>(c, bump, changed, productIDs).
    Inr (c\<lparr>cp_PolicyVersion := (if bump then wrap32 (cp_PolicyVersion c + 1) else cp_PolicyVersion c),
           cp_Version := wrap32 (cp_Version c + 1), cp_UpdatedAt := clock w\<rparr>, changed, productIDs))))))))"

definition patch_tx ::
    "string \<Rightarrow> string \<Rightarrow> PatchCouponInput \<Rightarrow> ('m coupon_db_scheme, Coupon) op" where
  "patch_tx storeID couponID inp = with_state (\<lambda>w.
    case GetCouponByID storeID couponID w of
      Inl err \<Rightarrow> throw (if is_not_found err then ErrCouponNotFound else err)
    | Inr c0 \<Rightarrow>
      if cp_Version c0 \<noteq> pt_ExpectedVersion inp then throw ErrVersionConflict
      else if \<not> IsEditable (cp_State c0) then throw ErrCannotMutate
      else bindS (liftE (patched inp storeID w c0)) (\<lambda>(c, changed, productIDs).
        bindS (try_op (UpdateCoupon c (pt_ExpectedVersion inp))) (\<lambda>r. case r of
          Inl err \<Rightarrow> throw (if is_unique_violation err then ErrCodeConflict else err)
        | Inr ok \<Rightarrow>
          if \<not> ok then throw ErrVersionConflict
          else bindS (if changed \<or> pt_ProductIDs inp \<noteq> None
                      then ReplaceProductScopes (cp_ID c) storeID productIDs else ret ()) (\<lambda>_.
            bindS (gets (with_scopes c)) ret))))"

definition PatchCoupon ::
    "string \<Rightarrow> string \<Rightarrow> string \<Rightarrow> PatchCouponInput \<Rightarrow> ('m coupon_db_scheme, Coupon) op" where
  "PatchCoupon userID storeID couponID inp = with_state (\<lambda>w.
    bindS (liftE (coupon_access userID storeID w)) (\<lambda>_.
    if pt_ExpectedVersion inp < 1 then throw (apperr_validation ''VALIDATION_FAILED'' ''expectedVersion is required'')
    else hide_errors ''Update coupon failed'' (with_tx (patch_tx storeID couponID inp))))"

definition validateForActivation :: "Coupon \<Rightarrow> 'm coupon_db_scheme \<Rightarrow> unit result" where
  "validateForActivation c w =
    bindE (ValidateDiscountValue (cp_DiscountKind c) (cp_DiscountValue c)) (\<lambda>_.
    bindE (ValidateWindow (cp_StartsAt c) (cp_EndsAt c)) (\<lambda>_.
    if cp_Scope c = ScopeSelectedProducts then
      let ids = ListProductScopes (cp_ID c) w in
      if ids = [] then Inl ErrProductsRequired
      else if list_all (\<lambda>p. ProductOwnedByStore (cp_StoreID c) p w) ids then Inr ()
      else Inl ErrProductNotInStore
    else Inr ()))"

definition transition_tx ::
    "string \<Rightarrow> string \<Rightarrow> string \<Rightarrow> bool \<Rightarrow> ('m coupon_db_scheme, Coupon) op" where
  "transition_tx storeID couponID to activating = with_state (\<lambda>w.
    case GetCouponByID storeID couponID w of
      Inl err \<Rightarrow> throw (if is_not_found err then ErrCouponNotFound else err)
    | Inr c \<Rightarrow>
      if cp_State c = to then ret (with_scopes c w)
      else if \<not> CanTransitionCoupon (cp_State c) to then throw ErrStateInvalid
      else bindS (liftE (if activating then bindE (validateForActivation c w) (\<lambda>_.
              case cp_EndsAt c of Some b \<Rightarrow> if clock w > b then Inl ErrCannotActivate else Inr ()
              | None \<Rightarrow> Inr ()) else Inr ())) (\<lambda>_.
        let c1 = c\<lparr>cp_State := to, cp_Version := wrap32 (cp_Version c + 1), cp_UpdatedAt := clock w\<rparr> in
        bindS (UpdateCoupon c1 (cp_Version c)) (\<lambda>ok.
        if \<not> ok then throw ErrVersionConflict else bindS (gets (with_scopes c1)) ret)))"

definition coupon_transition ::
    "string \<Rightarrow> string \<Rightarrow> string \<Rightarrow> string \<Rightarrow> bool \<Rightarrow> ('m coupon_db_scheme, Coupon) op" where
  "coupon_transition userID storeID couponID to activating = with_state (\<lambda>w.
    bindS (liftE (coupon_access userID storeID w)) (\<lambda>_.
    hide_errors ''Coupon state transition failed'' (with_tx (transition_tx storeID couponID to activating))))"

definition ActivateCoupon :: "string \<Rightarrow> string \<Rightarrow> string \<Rightarrow> ('m coupon_db_scheme, Coupon) op" where
  "ActivateCoupon userID storeID couponID = coupon_transition userID storeID couponID StateActive True"

definition PauseCoupon :: "string \<Rightarrow> string \<Rightarrow> string \<Rightarrow> ('m coupon_db_scheme, Coupon) op" where
  "PauseCoupon userID storeID couponID = coupon_transition userID storeID couponID StatePaused False"

definition ArchiveCoupon :: "string \<Rightarrow> string \<Rightarrow> string \<Rightarrow> ('m coupon_db_scheme, Coupon) op" where
  "ArchiveCoupon userID storeID couponID = coupon_transition userID storeID couponID StateArchived False"

subsection \<open>Quoting\<close>

record QuoteRequest =
  cq_StoreID :: string
  cq_ProductID :: string
  cq_MerchandiseIDR :: i64
  cq_TipIDR :: i64
  cq_UpsellIDR :: i64
  cq_CouponCode :: string
  cq_ClientDiscountIDR :: i64
  cq_BuyerIdentityHash :: string

text \<open>\<open>evaluateEligibility\<close>: the coupon, or the reason it does not apply (which no caller shows).\<close>

definition evaluateEligibility ::
    "string \<Rightarrow> string \<Rightarrow> i64 \<Rightarrow> string \<Rightarrow> string \<Rightarrow> time \<Rightarrow> 'm coupon_db_scheme \<Rightarrow> string + Coupon" where
  "evaluateEligibility storeID productID merchandiseIDR rawCode buyerHash now w =
    (let norm = NormalizeCode rawCode in
     case ValidateCode norm of Inl _ \<Rightarrow> Inl ''invalid_code''
     | Inr _ \<Rightarrow> (case GetCouponByNormalizedCode storeID norm w of Inl _ \<Rightarrow> Inl ''not_found''
     | Inr c \<Rightarrow>
       if cp_State c \<noteq> StateActive then Inl ''inactive''
       else if \<not> WindowActive c now then Inl ''window''
       else if \<not> MeetsMinimum c merchandiseIDR then Inl ''minimum''
       else if \<not> ProductInScope c productID (Some (ProductScopeSet (cp_ID c) w)) then Inl ''scope''
       else if GlobalLimitReached c then Inl ''global_limit''
       else case cp_MaxPerCustomerUses c of None \<Rightarrow> Inr c
         | Some n \<Rightarrow>
           if buyerHash \<noteq> [] \<and> CountBuyerCouponUsage (cp_ID c) buyerHash w \<ge> n then Inl ''buyer_limit''
           else Inr c))"

definition product_lookup :: "string \<Rightarrow> string \<Rightarrow> 'm coupon_db_scheme \<Rightarrow> i64 result" where
  "product_lookup storeID productID w =
    (case GetProductPrice storeID productID w of
       Inl err \<Rightarrow> Inl (if is_not_found err then ErrCouponNotFound
                      else apperr_internal ''INTERNAL_ERROR'' ''Product lookup failed'')
     | Inr (price, status) \<Rightarrow> if status \<noteq> ''published'' then Inl ErrCouponNotFound else Inr price)"

definition Quote_price :: "QuoteRequest \<Rightarrow> 'm coupon_db_scheme \<Rightarrow> PriceSnapshot result" where
  "Quote_price req w =
    (if cq_StoreID req = [] \<or> cq_ProductID req = []
     then Inl (apperr_validation ''VALIDATION_FAILED'' ''storeId and productId are required'')
     else bindE (product_lookup (cq_StoreID req) (cq_ProductID req) w) (\<lambda>price.
       let merch = max 0 (if cq_MerchandiseIDR req > 0 then cq_MerchandiseIDR req else price);
           build = BuildPriceSnapshot (cq_StoreID req) (cq_ProductID req) merch (cq_TipIDR req) (cq_UpsellIDR req);
           snap = build None False;
           code = trim_space (cq_CouponCode req)
       in if code = [] then Inr snap
          else case evaluateEligibility (cq_StoreID req) (cq_ProductID req) merch code
                 (cq_BuyerIdentityHash req) (clock w) w of
            Inl _ \<Rightarrow> Inr (snap\<lparr>ps_CouponUnavailable := True\<rparr>)
          | Inr c \<Rightarrow> Inr (build (Some c) True)))"

subsection \<open>Holding a coupon for a checkout\<close>

record ReserveRequest =
  rq_StoreID :: string
  rq_ProductID :: string
  rq_OrderID :: string
  rq_IdempotencyKey :: string
  rq_MerchandiseIDR :: i64
  rq_TipIDR :: i64
  rq_UpsellIDR :: i64
  rq_CouponCode :: string
  rq_ClientDiscountIDR :: i64
  rq_BuyerIdentityHash :: string
  rq_TTL :: int

record ReserveResult =
  rr_Reservation :: Reservation
  rr_Price :: PriceSnapshot
  rr_Replayed :: bool

definition replayed_price :: "ReserveRequest \<Rightarrow> Reservation \<Rightarrow> PriceSnapshot" where
  "replayed_price req r = \<lparr>ps_StoreID = rs_StoreID r, ps_ProductID = rq_ProductID req, ps_CouponID = rs_CouponID r,
     ps_CouponCode = rs_CodeSnapshot r, ps_CouponPolicyVersion = rs_CouponPolicyVersion r,
     ps_DiscountKind = rs_DiscountKind r, ps_DiscountValue = rs_DiscountValue r,
     ps_EligibleSubtotalIDR = rs_EligibleSubtotalIDR r, ps_DiscountIDR = rs_DiscountIDR r,
     ps_MerchandiseIDR = rs_MerchandiseIDR r, ps_TipIDR = rs_TipIDR r, ps_UpsellIDR = rs_UpsellIDR r,
     ps_GrossIDR = rs_GrossIDR r, ps_CouponApplied = True, ps_CouponUnavailable = False\<rparr>"

definition new_reservation ::
    "ReserveRequest \<Rightarrow> Coupon \<Rightarrow> PriceSnapshot \<Rightarrow> string \<Rightarrow> int \<Rightarrow> time \<Rightarrow> Reservation" where
  "new_reservation req c snap rid ttl now = \<lparr>rs_ID = rid, rs_CouponID = cp_ID c,
     rs_CouponPolicyVersion = cp_PolicyVersion c, rs_StoreID = rq_StoreID req, rs_OrderID = rq_OrderID req,
     rs_IdempotencyKey = rq_IdempotencyKey req,
     rs_BuyerIdentityHash = (if rq_BuyerIdentityHash req \<noteq> [] then Some (rq_BuyerIdentityHash req) else None),
     rs_ProductID = Some (rq_ProductID req), rs_DiscountKind = cp_DiscountKind c,
     rs_DiscountValue = cp_DiscountValue c, rs_DiscountIDR = ps_DiscountIDR snap,
     rs_EligibleSubtotalIDR = ps_EligibleSubtotalIDR snap, rs_MerchandiseIDR = ps_MerchandiseIDR snap,
     rs_TipIDR = ps_TipIDR snap, rs_UpsellIDR = ps_UpsellIDR snap, rs_GrossIDR = ps_GrossIDR snap,
     rs_CodeSnapshot = cp_CodeDisplay c, rs_State = ReservationReserved, rs_ExpiresAt = now + ttl,
     rs_ConsumedAt = None, rs_ReleasedAt = None, rs_CreatedAt = now, rs_UpdatedAt = now\<rparr>"

text \<open>The checks under the coupon's row lock.\<close>

definition reserve_checks :: "ReserveRequest \<Rightarrow> i64 \<Rightarrow> time \<Rightarrow> Coupon \<Rightarrow> 'm coupon_db_scheme \<Rightarrow> unit result" where
  "reserve_checks req merch now c w =
    (if cp_StoreID c \<noteq> rq_StoreID req then Inl ErrCouponUnavailable
     else if cp_State c \<noteq> StateActive \<or> \<not> WindowActive c now \<or> \<not> MeetsMinimum c merch then Inl ErrCouponUnavailable
     else if \<not> ProductInScope c (rq_ProductID req) (Some (ProductScopeSet (cp_ID c) w)) then Inl ErrCouponUnavailable
     else if GlobalLimitReached c then Inl ErrReservationLimit
     else if rq_BuyerIdentityHash req = [] then Inr ()
     else case cp_MaxPerCustomerUses c of None \<Rightarrow> Inr ()
       | Some n \<Rightarrow> if CountBuyerCouponUsage (cp_ID c) (rq_BuyerIdentityHash req) w \<ge> n then Inl ErrReservationLimit
           else Inr ())"

definition reserve_tx ::
    "ReserveRequest \<Rightarrow> i64 \<Rightarrow> int \<Rightarrow> ('m coupon_db_scheme, ReserveResult) op" where
  "reserve_tx req merch ttl = with_state (\<lambda>w.
    case GetCouponByNormalizedCode (rq_StoreID req) (NormalizeCode (rq_CouponCode req)) w of
      Inl _ \<Rightarrow> throw ErrCouponUnavailable
    | Inr c0 \<Rightarrow>
      (case GetCouponReservationByIdempotency (cp_ID c0) (rq_IdempotencyKey req) w of
         Inr existing \<Rightarrow> ret \<lparr>rr_Reservation = existing, rr_Price = replayed_price req existing, rr_Replayed = True\<rparr>
       | Inl err \<Rightarrow>
         if \<not> is_not_found err then throw err
         else case LockCouponForReserve (cp_ID c0) w of
           Inl _ \<Rightarrow> throw ErrCouponUnavailable
         | Inr c \<Rightarrow>
           bindS (liftE (reserve_checks req merch (clock w) c w)) (\<lambda>_.
           let snap = BuildPriceSnapshot (rq_StoreID req) (rq_ProductID req) merch (rq_TipIDR req) (rq_UpsellIDR req)
                 (Some c) True in
           if \<not> ps_CouponApplied snap then throw ErrCouponUnavailable
           else bindS new_id (\<lambda>i.
             let res = new_reservation req c snap (prefixed ''cpr_'' i) ttl (clock w) in
             bindS (try_op (InsertCouponReservation res)) (\<lambda>r. case r of
               Inl err \<Rightarrow>
                 if \<not> is_unique_violation err then throw err
                 else (case after_failed_statement
                         (GetCouponReservationByIdempotency (cp_ID c) (rq_IdempotencyKey req) w) of
                     Inr existing \<Rightarrow> ret \<lparr>rr_Reservation = existing, rr_Price = snap, rr_Replayed = True\<rparr>
                   | Inl _ \<Rightarrow> throw ErrReservationLimit)
             | Inr _ \<Rightarrow>
                 bindS (AdjustCouponCounters (cp_ID c) 1 0) (\<lambda>_.
                 ret \<lparr>rr_Reservation = res, rr_Price = snap, rr_Replayed = False\<rparr>))))))"

definition Reserve :: "ReserveRequest \<Rightarrow> ('m coupon_db_scheme, ReserveResult) op" where
  "Reserve req = with_state (\<lambda>w.
    if rq_StoreID req = [] \<or> rq_ProductID req = [] \<or> rq_OrderID req = [] \<or> rq_IdempotencyKey req = []
    then throw (apperr_validation ''VALIDATION_FAILED'' ''storeId, productId, orderId, and Idempotency-Key are required'')
    else if trim_space (rq_CouponCode req) = [] then throw ErrCouponUnavailable
    else bindS (liftE (product_lookup (rq_StoreID req) (rq_ProductID req) w)) (\<lambda>price.
      let merch = (if rq_MerchandiseIDR req > 0 then rq_MerchandiseIDR req else price);
          ttl = (if rq_TTL req \<le> 0 then DefaultReservationTTL else rq_TTL req)
      in hide_errors ''Coupon reservation failed'' (with_tx (reserve_tx req merch ttl))))"

subsection \<open>Ending a hold\<close>

definition reservation_of :: "string \<Rightarrow> 'm coupon_db_scheme \<Rightarrow> Reservation result" where
  "reservation_of i w =
    (case GetCouponReservation i w of
       Inl err \<Rightarrow> Inl (if is_not_found err then ErrCouponNotFound else err) | Inr r \<Rightarrow> Inr r)"

definition release_tx :: "string \<Rightarrow> ('m coupon_db_scheme, Reservation) op" where
  "release_tx reservationID = with_state (\<lambda>w.
    bindS (liftE (reservation_of reservationID w)) (\<lambda>r.
    if rs_State r = ReservationReleased then ret r
    else if rs_State r = ReservationConsumed then throw ErrReservationState
    else bindS (liftE (LockCouponForReserve (rs_CouponID r) w)) (\<lambda>_.
      bindS (UpdateCouponReservationState (rs_ID r) (rs_State r) ReservationReleased (clock w)) (\<lambda>ok.
      if \<not> ok then with_state (\<lambda>w.
        bindS (liftE (GetCouponReservation reservationID w)) (\<lambda>r2.
        if rs_State r2 = ReservationReleased then ret r2 else throw ErrReservationState))
      else bindS (AdjustCouponCounters (rs_CouponID r) (- 1) 0) (\<lambda>_.
        ret (r\<lparr>rs_State := ReservationReleased, rs_ReleasedAt := Some (clock w), rs_UpdatedAt := clock w\<rparr>))))))"

definition ReleaseReservation :: "string \<Rightarrow> ('m coupon_db_scheme, Reservation) op" where
  "ReleaseReservation reservationID =
    (if reservationID = [] then throw ErrCouponNotFound
     else hide_errors ''Release reservation failed'' (with_tx (release_tx reservationID)))"

definition redemption_of :: "Reservation \<Rightarrow> string \<Rightarrow> time \<Rightarrow> Redemption" where
  "redemption_of r redID now = \<lparr>rd_ID = redID, rd_ReservationID = rs_ID r, rd_CouponID = rs_CouponID r,
     rd_CouponPolicyVersion = rs_CouponPolicyVersion r, rd_StoreID = rs_StoreID r, rd_OrderID = rs_OrderID r,
     rd_CodeSnapshot = rs_CodeSnapshot r, rd_DiscountKind = rs_DiscountKind r, rd_DiscountValue = rs_DiscountValue r,
     rd_DiscountIDR = rs_DiscountIDR r, rd_EligibleSubtotalIDR = rs_EligibleSubtotalIDR r,
     rd_MerchandiseIDR = rs_MerchandiseIDR r, rd_TipIDR = rs_TipIDR r, rd_UpsellIDR = rs_UpsellIDR r,
     rd_GrossIDR = rs_GrossIDR r, rd_BuyerIdentityHash = rs_BuyerIdentityHash r, rd_ProductID = rs_ProductID r,
     rd_CreatedAt = now\<rparr>"

definition convert_tx :: "string \<Rightarrow> ('m coupon_db_scheme, Redemption) op" where
  "convert_tx reservationID = with_state (\<lambda>w.
    bindS (liftE (reservation_of reservationID w)) (\<lambda>r.
    case GetRedemptionByReservation reservationID w of
      Inr existing \<Rightarrow> ret existing
    | Inl err \<Rightarrow>
      if \<not> is_not_found err then throw err
      else if rs_State r = ReservationReleased then throw ErrReservationState
      else if rs_State r \<noteq> ReservationReserved \<and> rs_State r \<noteq> ReservationHeldUnknown then throw ErrReservationState
      else bindS (liftE (LockCouponForReserve (rs_CouponID r) w)) (\<lambda>_.
        bindS (UpdateCouponReservationState (rs_ID r) (rs_State r) ReservationConsumed (clock w)) (\<lambda>ok.
        if \<not> ok then with_state (\<lambda>w.
          case GetRedemptionByReservation reservationID w of
            Inr existing \<Rightarrow> ret existing | Inl _ \<Rightarrow> throw ErrReservationState)
        else bindS (AdjustCouponCounters (rs_CouponID r) (- 1) 1) (\<lambda>_.
          bindS new_id (\<lambda>i.
          let red = redemption_of r (prefixed ''crd_'' i) (clock w) in
          bindS (try_op (InsertRedemption red)) (\<lambda>res. case res of
            Inr _ \<Rightarrow> ret red
          | Inl err \<Rightarrow>
            if \<not> is_unique_violation err then throw err
            else (case after_failed_statement (GetRedemptionByReservation reservationID w) of
                Inr existing \<Rightarrow> ret existing
              | Inl _ \<Rightarrow> throw ErrReservationState))))))))"

definition ConvertReservationToRedemption :: "string \<Rightarrow> ('m coupon_db_scheme, Redemption) op" where
  "ConvertReservationToRedemption reservationID =
    (if reservationID = [] then throw ErrCouponNotFound
     else (\<lambda>w. case with_tx (convert_tx reservationID) w of
       (Inl e, w') \<Rightarrow> (Inl (case as_app_error e of Some ae \<Rightarrow> ae
          | None \<Rightarrow> apperr_wrap KindInternal ''INTERNAL_ERROR'' ''Convert reservation failed'' e), w')
     | (Inr red, w') \<Rightarrow> (Inr red, w')))"

definition hold_tx :: "string \<Rightarrow> ('m coupon_db_scheme, Reservation) op" where
  "hold_tx reservationID = with_state (\<lambda>w.
    bindS (liftE (reservation_of reservationID w)) (\<lambda>r.
    if rs_State r = ReservationHeldUnknown then ret r
    else if rs_State r \<noteq> ReservationReserved then throw ErrReservationState
    else bindS (UpdateCouponReservationState (rs_ID r) ReservationReserved ReservationHeldUnknown (clock w)) (\<lambda>ok.
      if \<not> ok then throw ErrReservationState
      else ret (r\<lparr>rs_State := ReservationHeldUnknown, rs_UpdatedAt := clock w\<rparr>))))"

definition MarkReservationHeldUnknown :: "string \<Rightarrow> ('m coupon_db_scheme, Reservation) op" where
  "MarkReservationHeldUnknown reservationID =
    hide_errors ''Hold reservation failed'' (with_tx (hold_tx reservationID))"

text \<open>The worker's loop: a release that fails is logged and skipped; it counts the released holds.\<close>

fun expire_each :: "Reservation list \<Rightarrow> int \<Rightarrow> ('m coupon_db_scheme, int) op" where
  "expire_each [] n = ret n"
| "expire_each (r # rs) n =
     (if rs_State r \<noteq> ReservationReserved then expire_each rs n
      else bindS (try_op (ReleaseReservation (rs_ID r))) (\<lambda>x. case x of
        Inl _ \<Rightarrow> expire_each rs n | Inr _ \<Rightarrow> expire_each rs (n + 1)))"

definition ExpireReservations :: "int \<Rightarrow> ('m coupon_db_scheme, int) op" where
  "ExpireReservations limit = with_state (\<lambda>w.
    expire_each (ListExpiredCouponReservations (clock w) (if limit \<le> 0 then 50 else limit) w) 0)"

end
