(* ===== verification/Coupon_Invariant.thy ===== *)
theory Coupon_Invariant
  imports Coupon_Service
begin

text \<open>
  What every call of the coupon service keeps: keys are unique, rows satisfy their constraints, the
  counters of a coupon are the numbers of its held and redeemed reservations, and redemptions are
  exactly the snapshots of the consumed reservations. A transaction may pass through states that
  break this, so the proofs go transaction by transaction: the success of each is computed, its
  failure undoes it.
\<close>

subsection \<open>The invariant\<close>

definition holds_slot :: "Reservation \<Rightarrow> bool" where
  "holds_slot r \<longleftrightarrow> rs_State r \<in> set [ReservationReserved, ReservationHeldUnknown]"

definition held_of :: "string \<Rightarrow> Reservation list \<Rightarrow> int" where
  "held_of c rs = int (length (filter (\<lambda>r. rs_CouponID r = c \<and> holds_slot r) rs))"

definition consumed_of :: "string \<Rightarrow> Reservation list \<Rightarrow> int" where
  "consumed_of c rs = int (length (filter (\<lambda>r. rs_CouponID r = c \<and> rs_State r = ReservationConsumed) rs))"

definition coupon_rows_ok :: "Coupon list \<Rightarrow> bool" where
  "coupon_rows_ok cs \<longleftrightarrow> distinct (map cp_ID cs) \<and> distinct (map coupon_key cs) \<and>
     list_all (\<lambda>c. coupon_check c = Inr ()) cs"

definition reservation_rows_ok :: "Reservation list \<Rightarrow> bool" where
  "reservation_rows_ok rs \<longleftrightarrow> distinct (map rs_ID rs) \<and> distinct (map order_key rs) \<and> distinct (map idem_key rs) \<and>
     list_all (\<lambda>r. reservation_check r = Inr ()) rs"

definition counters_ok :: "Coupon list \<Rightarrow> Reservation list \<Rightarrow> bool" where
  "counters_ok cs rs \<longleftrightarrow> list_all (\<lambda>c. cp_ReservedCount c = held_of (cp_ID c) rs \<and>
     cp_RedeemedCount c = consumed_of (cp_ID c) rs) cs \<and> list_all (\<lambda>r. rs_CouponID r \<in> set (map cp_ID cs)) rs"

definition redemptions_ok :: "Reservation list \<Rightarrow> Redemption list \<Rightarrow> bool" where
  "redemptions_ok rs ds \<longleftrightarrow> distinct (map rd_ReservationID ds) \<and> distinct (map rd_OrderID ds) \<and>
     (\<forall>d\<in>set ds. \<exists>r\<in>set rs. rs_State r = ReservationConsumed \<and> d = redemption_of r (rd_ID d) (rd_CreatedAt d)) \<and>
     (\<forall>r\<in>set rs. rs_State r = ReservationConsumed \<longrightarrow> rs_ID r \<in> set (map rd_ReservationID ds))"

definition coupon_inv :: "'m coupon_db_scheme \<Rightarrow> bool" where
  "coupon_inv w \<longleftrightarrow> coupon_rows_ok (coupons w) \<and> reservation_rows_ok (coupon_reservations w) \<and>
     counters_ok (coupons w) (coupon_reservations w) \<and>
     redemptions_ok (coupon_reservations w) (coupon_redemptions w)"

lemma coupon_inv_next_id [simp]: "coupon_inv (w\<lparr>next_id := n\<rparr>) = coupon_inv w"
  by (simp add: coupon_inv_def)

lemma coupon_inv_scopes [simp]: "coupon_inv (w\<lparr>coupon_scopes := s\<rparr>) = coupon_inv w"
  by (simp add: coupon_inv_def)

lemma coupon_inv_clock [simp]: "coupon_inv (w\<lparr>clock := t\<rparr>) = coupon_inv w"
  by (simp add: coupon_inv_def)

subsection \<open>Transactions and rows\<close>

text \<open>The statements that succeed, computed.\<close>

lemma InsertCouponReservation_Inr:
  "InsertCouponReservation r w = (Inr u, w') \<longleftrightarrow> reservation_check r = Inr () \<and>
     rs_ID r \<notin> rs_ID ` set (coupon_reservations w) \<and> order_key r \<notin> order_key ` set (coupon_reservations w) \<and>
     idem_key r \<notin> idem_key ` set (coupon_reservations w) \<and> rs_CouponID r \<in> cp_ID ` set (coupons w) \<and>
     rs_StoreID r \<in> fst ` set (stores w) \<and>
     w' = w\<lparr>coupon_reservations := coupon_reservations w @ [r]\<rparr>"
  unfolding InsertCouponReservation_def insert_Inr bindE_eq_Inr by (simp add: conj_ac)

lemma InsertRedemption_Inr:
  "InsertRedemption r w = (Inr u, w') \<Longrightarrow>
     rd_ReservationID r \<notin> rd_ReservationID ` set (coupon_redemptions w) \<and>
     rd_OrderID r \<notin> rd_OrderID ` set (coupon_redemptions w) \<and>
     w' = w\<lparr>coupon_redemptions := coupon_redemptions w @ [r]\<rparr>"
  unfolding InsertRedemption_def insert_Inr bindE_eq_Inr by simp

lemma UpdateCouponReservationState_Inr:
  assumes "UpdateCouponReservationState i from to at w = (Inr ok, w')"
  obtains "\<not> ok" "w' = w"
  | r where "ok" "r \<in> set (coupon_reservations w)" "rs_ID r = i" "rs_State r = from"
      "reservation_check (moved_to to at r) = Inr ()"
      "w' = w\<lparr>coupon_reservations := map (\<lambda>r. if rs_ID r = i \<and> rs_State r = from then moved_to to at r else r)
        (coupon_reservations w)\<rparr>"
proof (cases "update_one (\<lambda>r. rs_ID r = i \<and> rs_State r = from) (moved_to to at) reservation_check
       (coupon_reservations w)")
  case (Inl e)
  with assms that(1) show ?thesis
    by (simp add: UpdateCouponReservationState_def split: if_splits)
next
  case (Inr p)
  obtain r' rows where p: "p = (r', rows)" by (cases p)
  with Inr obtain r where "find (\<lambda>r. rs_ID r = i \<and> rs_State r = from) (coupon_reservations w) = Some r"
    "reservation_check (moved_to to at r) = Inr ()"
    "rows = map (\<lambda>r. if rs_ID r = i \<and> rs_State r = from then moved_to to at r else r) (coupon_reservations w)"
    by (auto simp: update_one_Inr)
  moreover from this(1) have "r \<in> set (coupon_reservations w)" "rs_ID r = i" "rs_State r = from"
    by (auto simp: find_Some_iff)
  ultimately show ?thesis
    using assms that(2) [of r] Inr p by (simp add: UpdateCouponReservationState_def)
qed

lemma AdjustCouponCounters_Inr:
  assumes "AdjustCouponCounters i dr dd w = (Inr u, w')" and "distinct (map cp_ID (coupons w))"
    and "c \<in> set (coupons w)" and "cp_ID c = i"
    and "0 \<le> cp_ReservedCount c + dr" and "0 \<le> cp_RedeemedCount c + dd"
  shows "w' = w\<lparr>coupons := map (\<lambda>x. if cp_ID x = i then adjusted dr dd (clock w) x else x) (coupons w)\<rparr>"
proof -
  have "find (\<lambda>x. cp_ID x = i) (coupons w) = Some c"
    using find_distinct [OF assms(2,3)] assms(4) by simp
  then show ?thesis using assms(1,5,6)
    by (auto simp: AdjustCouponCounters_def split: sum.splits if_splits)
qed

subsection \<open>Moving a held reservation\<close>

lemma moved_to_fields [simp]:
  "rs_ID (moved_to to at r) = rs_ID r" "rs_CouponID (moved_to to at r) = rs_CouponID r"
  "rs_State (moved_to to at r) = to" "order_key (moved_to to at r) = order_key r"
  "idem_key (moved_to to at r) = idem_key r" "redemption_of (moved_to to at r) i t = redemption_of r i t"
  by (simp_all add: moved_to_def order_key_def idem_key_def redemption_of_def)

lemma adjusted_fields [simp]:
  "cp_ID (adjusted dr dd at c) = cp_ID c" "coupon_key (adjusted dr dd at c) = coupon_key c"
  "cp_ReservedCount (adjusted dr dd at c) = cp_ReservedCount c + dr"
  "cp_RedeemedCount (adjusted dr dd at c) = cp_RedeemedCount c + dd"
  "cp_MaxTotalUses (adjusted dr dd at c) = cp_MaxTotalUses c"
  by (simp_all add: adjusted_def coupon_key_def)

text \<open>The update of one row of a table by its key, as the statements write it.\<close>

definition move_row :: "Reservation \<Rightarrow> string \<Rightarrow> time \<Rightarrow> Reservation list \<Rightarrow> Reservation list" where
  "move_row r to at rs = map (\<lambda>x. if rs_ID x = rs_ID r \<and> rs_State x = rs_State r then moved_to to at x else x) rs"

definition adjust_row :: "string \<Rightarrow> i64 \<Rightarrow> i64 \<Rightarrow> time \<Rightarrow> Coupon list \<Rightarrow> Coupon list" where
  "adjust_row i dr dd at cs = map (\<lambda>x. if cp_ID x = i then adjusted dr dd at x else x) cs"

lemma move_row_keys [simp]:
  "map rs_ID (move_row r to at rs) = map rs_ID rs" "map order_key (move_row r to at rs) = map order_key rs"
  "map idem_key (move_row r to at rs) = map idem_key rs" "map rs_CouponID (move_row r to at rs) = map rs_CouponID rs"
  unfolding move_row_def by (rule map_update_key, simp)+

lemma adjust_row_keys [simp]:
  "map cp_ID (adjust_row i dr dd at cs) = map cp_ID cs" "map coupon_key (adjust_row i dr dd at cs) = map coupon_key cs"
  unfolding adjust_row_def by (rule map_update_key, simp)+

lemma move_row_mem:
  "x \<in> set (move_row r to at rs) \<Longrightarrow> x \<in> set rs \<and> \<not> (rs_ID x = rs_ID r \<and> rs_State x = rs_State r) \<or>
    (\<exists>y\<in>set rs. rs_ID y = rs_ID r \<and> rs_State y = rs_State r \<and> x = moved_to to at y)"
  by (auto simp: move_row_def)

lemma held_of_move:
  assumes "distinct (map rs_ID rs)" and "r \<in> set rs" and "holds_slot r"
  shows "held_of c (move_row r to at rs) =
      held_of c rs - of_bool (rs_CouponID r = c) + of_bool (rs_CouponID r = c \<and> holds_slot (moved_to to at r))"
    and "consumed_of c (move_row r to at rs) =
      consumed_of c rs + of_bool (rs_CouponID r = c \<and> to = ReservationConsumed)"
proof -
  have nc: "rs_State r \<noteq> ReservationConsumed" using assms(3) by (auto simp: holds_slot_def)
  have cu: "int (length (filter P (move_row r to at rs))) =
      int (length (filter P rs)) - of_bool (P r) + of_bool (P (moved_to to at r))" for P
    unfolding move_row_def using assms(1,2) by (intro count_update [where key = rs_ID]) auto
  show "held_of c (move_row r to at rs) =
      held_of c rs - of_bool (rs_CouponID r = c) + of_bool (rs_CouponID r = c \<and> holds_slot (moved_to to at r))"
    using assms(3) by (simp add: held_of_def cu)
  show "consumed_of c (move_row r to at rs) =
      consumed_of c rs + of_bool (rs_CouponID r = c \<and> to = ReservationConsumed)"
    using nc by (simp add: consumed_of_def cu)
qed

lemma reservation_rows_move:
  assumes "reservation_rows_ok rs" and "r \<in> set rs" and "reservation_check (moved_to to at r) = Inr ()"
  shows "reservation_rows_ok (move_row r to at rs)"
proof -
  have d: "distinct (map rs_ID rs)" using assms(1) by (simp add: reservation_rows_ok_def)
  have "reservation_check x = Inr ()" if "x \<in> set (move_row r to at rs)" for x
    using move_row_mem [OF that]
  proof (elim disjE bexE conjE)
    fix y assume y: "y \<in> set rs" "rs_ID y = rs_ID r" "x = moved_to to at y"
    then have "y = r" using find_unique_key [OF d y(1) assms(2)] by simp
    with y(3) assms(3) show ?thesis by simp
  qed (use assms(1) in \<open>auto simp: reservation_rows_ok_def list_all_iff\<close>)
  with assms(1) show ?thesis by (auto simp: reservation_rows_ok_def list_all_iff)
qed

lemma coupon_rows_adjust:
  assumes "coupon_rows_ok cs"
    and "\<And>c. c \<in> set cs \<Longrightarrow> cp_ID c = i \<Longrightarrow> 0 \<le> cp_ReservedCount c + dr \<and> 0 \<le> cp_RedeemedCount c + dd"
  shows "coupon_rows_ok (adjust_row i dr dd at cs)"
proof -
  have "coupon_check x = Inr ()" if "x \<in> set (adjust_row i dr dd at cs)" for x
  proof -
    from that obtain c where c: "c \<in> set cs" "x = (if cp_ID c = i then adjusted dr dd at c else c)"
      by (auto simp: adjust_row_def)
    have "coupon_check c = Inr ()" using assms(1) c(1) by (simp add: coupon_rows_ok_def list_all_iff)
    then have "coupon_check (adjusted dr dd at c) = Inr ()" if "cp_ID c = i"
      using assms(2) [OF c(1) that] by (simp add: coupon_check_def adjusted_def)
    with c \<open>coupon_check c = Inr ()\<close> show ?thesis by simp
  qed
  with assms(1) show ?thesis by (auto simp: coupon_rows_ok_def list_all_iff)
qed

lemma counters_ok_move:
  assumes "counters_ok cs rs" and "distinct (map rs_ID rs)" and "r \<in> set rs" and "holds_slot r"
    and "dr = of_bool (holds_slot (moved_to to at r)) - 1" and "dd = of_bool (to = ReservationConsumed)"
  shows "counters_ok (adjust_row (rs_CouponID r) dr dd t cs) (move_row r to at rs)"
proof -
  let ?cs = "adjust_row (rs_CouponID r) dr dd t cs" and ?rs = "move_row r to at rs"
  have "cp_ReservedCount x = held_of (cp_ID x) ?rs \<and> cp_RedeemedCount x = consumed_of (cp_ID x) ?rs"
    if "x \<in> set ?cs" for x
  proof -
    from that obtain c where c: "c \<in> set cs" "x = (if cp_ID c = rs_CouponID r then adjusted dr dd t c else c)"
      by (auto simp: adjust_row_def)
    have "cp_ReservedCount c = held_of (cp_ID c) rs" "cp_RedeemedCount c = consumed_of (cp_ID c) rs"
      using assms(1) c(1) by (auto simp: counters_ok_def list_all_iff)
    then show ?thesis using held_of_move [OF assms(2-4)] c(2) assms(5,6) by simp
  qed
  moreover have "rs_CouponID x \<in> set (map cp_ID ?cs)" if "x \<in> set ?rs" for x
  proof -
    have "\<exists>y\<in>set rs. rs_CouponID x = rs_CouponID y" using move_row_mem [OF that] by auto
    with assms(1) show ?thesis unfolding adjust_row_keys counters_ok_def list_all_iff by auto
  qed
  ultimately show ?thesis by (simp add: counters_ok_def list_all_iff)
qed

lemma redemptions_ok_move:
  assumes "redemptions_ok rs ds" and "holds_slot r" and "to \<noteq> ReservationConsumed"
  shows "redemptions_ok (move_row r to at rs) ds"
proof -
  have keep: "x \<in> set (move_row r to at rs)" if "x \<in> set rs" "rs_State x = ReservationConsumed" for x
    using that assms(2) by (force simp: move_row_def holds_slot_def)
  have only: "x \<in> set rs" if "x \<in> set (move_row r to at rs)" "rs_State x = ReservationConsumed" for x
    using move_row_mem [OF that(1)] that(2) assms(3) by auto
  from assms(1) keep only show ?thesis unfolding redemptions_ok_def by blast
qed

lemma redemptions_ok_consume:
  assumes ok: "redemptions_ok rs ds" and r: "r \<in> set rs" "holds_slot r" and d: "distinct (map rs_ID rs)"
    and new: "rs_ID r \<notin> rd_ReservationID ` set ds" "rs_OrderID r \<notin> rd_OrderID ` set ds"
  shows "redemptions_ok (move_row r ReservationConsumed at rs) (ds @ [redemption_of r i t])"
proof -
  let ?rs = "move_row r ReservationConsumed at rs"
  have keep: "x \<in> set ?rs" if "x \<in> set rs" "rs_State x = ReservationConsumed" for x
    using that r(2) by (force simp: move_row_def holds_slot_def)
  have mine: "moved_to ReservationConsumed at r \<in> set ?rs"
    using r(1) by (force simp: move_row_def)
  have only: "x \<in> set rs \<or> rs_ID x = rs_ID r" if "x \<in> set ?rs" for x
    using move_row_mem [OF that] by auto
  have f: "rd_ReservationID (redemption_of r i t) = rs_ID r" "rd_OrderID (redemption_of r i t) = rs_OrderID r"
    "rd_ID (redemption_of r i t) = i" "rd_CreatedAt (redemption_of r i t) = t"
    by (simp_all add: redemption_of_def)
  have "\<exists>y\<in>set ?rs. rs_State y = ReservationConsumed \<and> x = redemption_of y (rd_ID x) (rd_CreatedAt x)"
    if "x \<in> set (ds @ [redemption_of r i t])" for x
  proof (cases "x \<in> set ds")
    case True
    with ok keep show ?thesis unfolding redemptions_ok_def by blast
  next
    case False
    with that have "x = redemption_of r i t" by simp
    then have "x = redemption_of (moved_to ReservationConsumed at r) (rd_ID x) (rd_CreatedAt x)"
      by (simp add: f)
    with mine show ?thesis by (metis moved_to_fields(3))
  qed
  moreover have "rs_ID x \<in> set (map rd_ReservationID (ds @ [redemption_of r i t]))"
    if "x \<in> set ?rs" "rs_State x = ReservationConsumed" for x
    using move_row_mem [OF that(1)]
  proof (elim disjE bexE conjE)
    assume "x \<in> set rs"
    then have "rs_ID x \<in> set (map rd_ReservationID ds)"
      using ok that(2) unfolding redemptions_ok_def by blast
    then show ?thesis by simp
  next
    fix y assume "rs_ID y = rs_ID r" "x = moved_to ReservationConsumed at y"
    then show ?thesis by (simp add: f)
  qed
  ultimately show ?thesis using ok new by (simp add: redemptions_ok_def f)
qed

subsection \<open>What the transactions do\<close>

lemma held_of_pos: "r \<in> set rs \<Longrightarrow> holds_slot r \<Longrightarrow> 1 \<le> held_of (rs_CouponID r) rs"
  by (auto simp: held_of_def Suc_le_eq filter_empty_conv simp flip: length_greater_0_conv)

lemma reservation_of_Inr:
  assumes "reservation_of i w = Inr r"
  shows "r \<in> set (coupon_reservations w)" and "rs_ID r = i" and "GetCouponReservation i w = Inr r"
  using assms by (auto simp: reservation_of_def GetCouponReservation_def opt_row_def find_Some_iff
      split: sum.splits option.splits)

lemma LockCoupon_Inr:
  assumes "LockCouponForReserve i w = Inr c"
  shows "c \<in> set (coupons w)" and "cp_ID c = i"
  using assms by (auto simp: LockCouponForReserve_def opt_row_def find_Some_iff split: option.splits)

lemma coupon_inv_parts:
  assumes "coupon_inv w"
  shows "distinct (map cp_ID (coupons w))" and "distinct (map rs_ID (coupon_reservations w))"
    and "c \<in> set (coupons w) \<Longrightarrow> cp_ReservedCount c = held_of (cp_ID c) (coupon_reservations w)"
    and "c \<in> set (coupons w) \<Longrightarrow> cp_RedeemedCount c = consumed_of (cp_ID c) (coupon_reservations w)"
    and "c \<in> set (coupons w) \<Longrightarrow> coupon_check c = Inr ()"
    and "r \<in> set (coupon_reservations w) \<Longrightarrow> reservation_check r = Inr ()"
  using assms by (auto simp: coupon_inv_def coupon_rows_ok_def reservation_rows_ok_def counters_ok_def list_all_iff)

lemma counts_nonneg [simp]: "0 \<le> held_of c rs" "0 \<le> consumed_of c rs"
  by (simp_all add: held_of_def consumed_of_def)

text \<open>
  The state of a reservation moves and its coupon's counters follow, in one transaction.
\<close>

lemma moved_and_adjusted:
  assumes inv: "coupon_inv w" and r: "r \<in> set (coupon_reservations w)" "holds_slot r"
    and upd: "UpdateCouponReservationState (rs_ID r) (rs_State r) to t w = (Inr True, w1)"
    and lock: "LockCouponForReserve (rs_CouponID r) w = Inr c"
    and adj: "AdjustCouponCounters (rs_CouponID r) (- 1) dd w1 = (Inr u, w2)" and dd: "0 \<le> dd"
  shows "reservation_check (moved_to to t r) = Inr ()"
    and "w2 = w\<lparr>coupon_reservations := move_row r to t (coupon_reservations w),
      coupons := adjust_row (rs_CouponID r) (- 1) dd (clock w) (coupons w)\<rparr>"
proof -
  note d = coupon_inv_parts [OF inv]
  obtain r1 where r1: "r1 \<in> set (coupon_reservations w)" "rs_ID r1 = rs_ID r"
      "reservation_check (moved_to to t r1) = Inr ()"
    and w1: "w1 = w\<lparr>coupon_reservations := move_row r to t (coupon_reservations w)\<rparr>"
    using upd unfolding move_row_def by (elim UpdateCouponReservationState_Inr) auto
  have "r1 = r" using find_unique_key [OF d(2) r1(1) r(1) r1(2)] .
  with r1(3) show "reservation_check (moved_to to t r) = Inr ()" by simp
  have "1 \<le> cp_ReservedCount c" "0 \<le> cp_RedeemedCount c"
    using d(3,4) [of c] LockCoupon_Inr [OF lock] held_of_pos [OF r] by auto
  from AdjustCouponCounters_Inr [OF adj, of c] this dd LockCoupon_Inr [OF lock] d(1)
  show "w2 = w\<lparr>coupon_reservations := move_row r to t (coupon_reservations w),
      coupons := adjust_row (rs_CouponID r) (- 1) dd (clock w) (coupons w)\<rparr>"
    by (simp add: w1 adjust_row_def)
qed

lemma release_tx_Inr:
  assumes inv: "coupon_inv w" and run: "release_tx i w = (Inr r', w')"
  obtains (done_before) "w' = w" "r' \<in> set (coupon_reservations w)" "rs_ID r' = i" "rs_State r' = ReservationReleased"
  | (released) r where "r \<in> set (coupon_reservations w)" "rs_ID r = i" "holds_slot r"
      "reservation_check (moved_to ReservationReleased (clock w) r) = Inr ()"
      "r' = moved_to ReservationReleased (clock w) r"
      "w' = w\<lparr>coupon_reservations := move_row r ReservationReleased (clock w) (coupon_reservations w),
        coupons := adjust_row (rs_CouponID r) (- 1) 0 (clock w) (coupons w)\<rparr>"
proof -
  from run obtain r where r: "reservation_of i w = Inr r"
    by (auto simp: release_tx_def bindS_eq_Inr)
  note mem = reservation_of_Inr [OF r]
  consider "rs_State r = ReservationReleased" | "rs_State r = ReservationConsumed"
    | "rs_State r \<noteq> ReservationReleased" "rs_State r \<noteq> ReservationConsumed" by blast
  then show thesis
  proof cases
    case 1
    with run r mem show ?thesis by (intro done_before) (simp_all add: release_tx_def)
  next
    case 2
    with run r show ?thesis by (simp add: release_tx_def)
  next
    case 3
    have hs: "holds_slot r"
      using 3 coupon_inv_parts(6) [OF inv mem(1)] by (auto simp: reservation_check_def holds_slot_def)
    from run r 3 obtain c ok w1 where lock: "LockCouponForReserve (rs_CouponID r) w = Inr c"
      and upd: "UpdateCouponReservationState (rs_ID r) (rs_State r) ReservationReleased (clock w) w = (Inr ok, w1)"
      and rest: "(if \<not> ok then with_state (\<lambda>w.
        bindS (liftE (GetCouponReservation i w)) (\<lambda>r2.
        if rs_State r2 = ReservationReleased then ret r2 else throw ErrReservationState))
      else bindS (AdjustCouponCounters (rs_CouponID r) (- 1) 0) (\<lambda>_.
        ret (r\<lparr>rs_State := ReservationReleased, rs_ReleasedAt := Some (clock w), rs_UpdatedAt := clock w\<rparr>))) w1
        = (Inr r', w')"
      by (auto simp: release_tx_def bindS_eq_Inr)
    show ?thesis
    proof (cases ok)
      case False
      with upd have "w1 = w" by (elim UpdateCouponReservationState_Inr) auto
      with rest False mem(3) 3 show ?thesis by simp
    next
      case True
      with rest obtain u where adj: "AdjustCouponCounters (rs_CouponID r) (- 1) 0 w1 = (Inr u, w')"
        and r': "r' = r\<lparr>rs_State := ReservationReleased, rs_ReleasedAt := Some (clock w), rs_UpdatedAt := clock w\<rparr>"
        by (auto simp: bindS_eq_Inr)
      from upd True have "UpdateCouponReservationState (rs_ID r) (rs_State r) ReservationReleased (clock w) w = (Inr True, w1)"
        by simp
      from moved_and_adjusted [OF inv mem(1) hs this lock adj] mem hs r' show ?thesis
        by (intro released [of r]) (simp_all add: moved_to_def)
    qed
  qed
qed

lemma convert_tx_Inr:
  fixes w :: "'m coupon_db_scheme"
  assumes inv: "coupon_inv w" and run: "convert_tx i w = (Inr d, w')"
  obtains (done_before) "w' = w" "GetRedemptionByReservation i w = Inr d"
  | (redeemed) r k where "r \<in> set (coupon_reservations w)" "rs_ID r = i" "holds_slot r"
      "reservation_check (moved_to ReservationConsumed (clock w) r) = Inr ()"
      "rs_ID r \<notin> rd_ReservationID ` set (coupon_redemptions w)"
      "rs_OrderID r \<notin> rd_OrderID ` set (coupon_redemptions w)"
      "d = redemption_of r k (clock w)"
      "w' = w\<lparr>next_id := Suc (next_id w),
        coupon_reservations := move_row r ReservationConsumed (clock w) (coupon_reservations w),
        coupons := adjust_row (rs_CouponID r) (- 1) 1 (clock w) (coupons w),
        coupon_redemptions := coupon_redemptions w @ [d]\<rparr>"
proof -
  from run obtain r where r: "reservation_of i w = Inr r"
    by (auto simp: convert_tx_def bindS_eq_Inr)
  note mem = reservation_of_Inr [OF r]
  show thesis
  proof (cases "GetRedemptionByReservation i w")
    case (Inr x)
    with run r show ?thesis by (intro done_before) (simp_all add: convert_tx_def)
  next
    case (Inl e)
    define m :: "('m coupon_db_scheme, Redemption) op" where "m = bindS (liftE (LockCouponForReserve (rs_CouponID r) w)) (\<lambda>_.
        bindS (UpdateCouponReservationState (rs_ID r) (rs_State r) ReservationConsumed (clock w)) (\<lambda>ok.
        if \<not> ok then with_state (\<lambda>w.
          case GetRedemptionByReservation i w of
            Inr existing \<Rightarrow> ret existing | Inl _ \<Rightarrow> throw ErrReservationState)
        else bindS (AdjustCouponCounters (rs_CouponID r) (- 1) 1) (\<lambda>_.
          bindS new_id (\<lambda>k.
          let red = redemption_of r (prefixed ''crd_'' k) (clock w) in
          bindS (try_op (InsertRedemption red)) (\<lambda>res. case res of
            Inr _ \<Rightarrow> ret red
          | Inl err \<Rightarrow>
            if \<not> is_unique_violation err then throw err
            else (case after_failed_statement (GetRedemptionByReservation i w) of
                Inr existing \<Rightarrow> ret existing
              | Inl _ \<Rightarrow> throw ErrReservationState))))))"
    have hs: "holds_slot r" and rest: "m w = (Inr d, w')"
      using run r Inl by (auto simp: convert_tx_def holds_slot_def m_def split: if_splits)
    from rest obtain c ok w1 where lock: "LockCouponForReserve (rs_CouponID r) w = Inr c"
      and upd: "UpdateCouponReservationState (rs_ID r) (rs_State r) ReservationConsumed (clock w) w = (Inr ok, w1)"
      by (auto simp: m_def bindS_eq_Inr)
    show ?thesis
    proof (cases ok)
      case False
      with upd have "w1 = w" by (elim UpdateCouponReservationState_Inr) auto
      with rest lock upd False Inl show ?thesis by (simp add: m_def bindS_def)
    next
      case True
      with rest lock upd obtain u w2 where adj: "AdjustCouponCounters (rs_CouponID r) (- 1) 1 w1 = (Inr u, w2)"
        by (auto simp: m_def bindS_eq_Inr)
      define red where "red = redemption_of r (prefixed ''crd_'' (id_gen w2 (next_id w2))) (clock w)"
      define w3 where "w3 = w2\<lparr>next_id := Suc (next_id w2)\<rparr>"
      obtain res w4 where ins: "InsertRedemption red w3 = (res, w4)" by (cases "InsertRedemption red w3")
      from rest lock upd True adj ins obtain v where res: "res = Inr v" "d = red" "w' = w4"
        by (cases res) (auto simp: m_def bindS_def red_def [symmetric] w3_def [symmetric] try_op_def
            after_failed_statement_def Let_def split: if_splits)
      from upd True have "UpdateCouponReservationState (rs_ID r) (rs_State r) ReservationConsumed (clock w) w = (Inr True, w1)"
        by simp
      from moved_and_adjusted [OF inv mem(1) hs this lock adj]
      have ck: "reservation_check (moved_to ReservationConsumed (clock w) r) = Inr ()"
        and w2: "w2 = w\<lparr>coupon_reservations := move_row r ReservationConsumed (clock w) (coupon_reservations w),
          coupons := adjust_row (rs_CouponID r) (- 1) 1 (clock w) (coupons w)\<rparr>" by simp_all
      from ins res have "InsertRedemption red w3 = (Inr v, w4)" by simp
      from InsertRedemption_Inr [OF this] ck mem hs res w2 show ?thesis
        by (intro redeemed [of r]) (simp_all add: w3_def red_def redemption_of_def)
    qed
  qed
qed

lemma hold_tx_Inr:
  assumes inv: "coupon_inv w" and run: "hold_tx i w = (Inr r', w')"
  obtains (done_before) "w' = w"
  | (held) r where "r \<in> set (coupon_reservations w)" "rs_ID r = i" "rs_State r = ReservationReserved"
      "reservation_check (moved_to ReservationHeldUnknown (clock w) r) = Inr ()"
      "w' = w\<lparr>coupon_reservations := move_row r ReservationHeldUnknown (clock w) (coupon_reservations w)\<rparr>"
proof -
  from run obtain r where r: "reservation_of i w = Inr r"
    by (auto simp: hold_tx_def bindS_eq_Inr)
  note mem = reservation_of_Inr [OF r]
  show thesis
  proof (cases "rs_State r = ReservationReserved")
    case False
    with run r done_before show ?thesis by (auto simp: hold_tx_def split: if_splits)
  next
    case True
    with run r obtain ok where
      upd: "UpdateCouponReservationState (rs_ID r) ReservationReserved ReservationHeldUnknown (clock w) w = (Inr ok, w')"
      and ok: ok
      by (auto simp: hold_tx_def bindS_eq_Inr split: if_splits)
    from upd ok obtain r1 where r1: "r1 \<in> set (coupon_reservations w)" "rs_ID r1 = rs_ID r"
        "reservation_check (moved_to ReservationHeldUnknown (clock w) r1) = Inr ()"
      and w': "w' = w\<lparr>coupon_reservations := move_row r ReservationHeldUnknown (clock w) (coupon_reservations w)\<rparr>"
      unfolding move_row_def True by (elim UpdateCouponReservationState_Inr) auto
    have "r1 = r" using find_unique_key [OF coupon_inv_parts(2) [OF inv] r1(1) mem(1) r1(2)] .
    with r1(3) w' mem True show ?thesis by (intro held) simp_all
  qed
qed

text \<open>A new hold: the checks passed on the locked coupon, and its counter grew by one.\<close>

lemma GetCouponByNormalizedCode_Inr:
  "GetCouponByNormalizedCode s code w = Inr c \<Longrightarrow> c \<in> set (coupons w) \<and> cp_StoreID c = s \<and> cp_NormalizedCode c = code"
  by (auto simp: GetCouponByNormalizedCode_def opt_row_def find_Some_iff split: option.splits)

lemma LockCoupon_mem: "distinct (map cp_ID (coupons w)) \<Longrightarrow> c \<in> set (coupons w) \<Longrightarrow> LockCouponForReserve (cp_ID c) w = Inr c"
  by (simp add: LockCouponForReserve_def find_distinct opt_row_def)

lemma reserve_tx_Inr:
  assumes inv: "coupon_inv w" and run: "reserve_tx req merch ttl w = (Inr x, w')"
  obtains (replayed) c where "GetCouponByNormalizedCode (rq_StoreID req) (NormalizeCode (rq_CouponCode req)) w = Inr c"
      "GetCouponReservationByIdempotency (cp_ID c) (rq_IdempotencyKey req) w = Inr (rr_Reservation x)"
      "rr_Replayed x" "w' = w"
  | (reserved) c where "GetCouponByNormalizedCode (rq_StoreID req) (NormalizeCode (rq_CouponCode req)) w = Inr c"
      "c \<in> set (coupons w)" "reserve_checks req merch (clock w) c w = Inr ()" "\<not> rr_Replayed x"
      "rr_Price x = BuildPriceSnapshot (rq_StoreID req) (rq_ProductID req) merch (rq_TipIDR req) (rq_UpsellIDR req) (Some c) True"
      "rr_Reservation x = new_reservation req c (rr_Price x) (prefixed ''cpr_'' (id_gen w (next_id w))) ttl (clock w)"
      "reservation_check (rr_Reservation x) = Inr ()"
      "rs_ID (rr_Reservation x) \<notin> rs_ID ` set (coupon_reservations w)"
      "order_key (rr_Reservation x) \<notin> order_key ` set (coupon_reservations w)"
      "idem_key (rr_Reservation x) \<notin> idem_key ` set (coupon_reservations w)"
      "w' = w\<lparr>next_id := Suc (next_id w), coupon_reservations := coupon_reservations w @ [rr_Reservation x],
        coupons := adjust_row (cp_ID c) 1 0 (clock w) (coupons w)\<rparr>"
proof -
  from run obtain c where c: "GetCouponByNormalizedCode (rq_StoreID req) (NormalizeCode (rq_CouponCode req)) w = Inr c"
    by (cases "GetCouponByNormalizedCode (rq_StoreID req) (NormalizeCode (rq_CouponCode req)) w")
      (auto simp: reserve_tx_def)
  note mem = GetCouponByNormalizedCode_Inr [OF c, THEN conjunct1]
  note d = coupon_inv_parts [OF inv]
  show thesis
  proof (cases "GetCouponReservationByIdempotency (cp_ID c) (rq_IdempotencyKey req) w")
    case (Inr e)
    with run c show ?thesis by (intro replayed) (auto simp: reserve_tx_def)
  next
    case (Inl e)
    define snap where "snap = BuildPriceSnapshot (rq_StoreID req) (rq_ProductID req) merch (rq_TipIDR req)
      (rq_UpsellIDR req) (Some c) True"
    define res where "res = new_reservation req c snap (prefixed ''cpr_'' (id_gen w (next_id w))) ttl (clock w)"
    define w1 where "w1 = w\<lparr>next_id := Suc (next_id w)\<rparr>"
    have chk: "reserve_checks req merch (clock w) c w = Inr ()"
      using run c Inl LockCoupon_mem [OF d(1) mem]
      by (cases "reserve_checks req merch (clock w) c w") (auto simp: reserve_tx_def split: if_splits)
    obtain ins w2 where i: "InsertCouponReservation res w1 = (ins, w2)" by (cases "InsertCouponReservation res w1")
    from run c Inl LockCoupon_mem [OF d(1) mem] chk i obtain u where ins: "ins = Inr u"
      and rest: "bindS (AdjustCouponCounters (cp_ID c) 1 0) (\<lambda>_.
                 ret \<lparr>rr_Reservation = res, rr_Price = snap, rr_Replayed = False\<rparr>) w2 = (Inr x, w')"
      by (cases ins) (auto simp: reserve_tx_def Let_def snap_def [symmetric] bindS_def [of new_id]
          res_def w1_def try_op_def after_failed_statement_def bindS_def [of "\<lambda>s. _ s"]
          split: if_splits)
    have "InsertCouponReservation res w1 = (Inr u, w2)" using i ins by simp
    note fresh = this [unfolded InsertCouponReservation_Inr]
    from rest obtain v where adj: "AdjustCouponCounters (cp_ID c) 1 0 w2 = (Inr v, w')"
      and x: "x = \<lparr>rr_Reservation = res, rr_Price = snap, rr_Replayed = False\<rparr>"
      by (auto simp: bindS_eq_Inr)
    have "0 \<le> cp_ReservedCount c" "0 \<le> cp_RedeemedCount c" using d(3,4) [OF mem] by simp_all
    then have "w' = w2\<lparr>coupons := adjust_row (cp_ID c) 1 0 (clock w2) (coupons w2)\<rparr>"
      unfolding adjust_row_def
      using fresh mem d(1) by (intro AdjustCouponCounters_Inr [OF adj, of c]) (simp_all add: w1_def)
    with fresh c mem chk x show ?thesis
      by (intro reserved [of c]) (simp_all add: w1_def snap_def res_def)
  qed
qed

subsection \<open>The invariant is kept\<close>

lemma InsertCoupon_Inr:
  "InsertCoupon c w = (Inr u, w') \<longleftrightarrow> coupon_check c = Inr () \<and> cp_ID c \<notin> cp_ID ` set (coupons w) \<and>
     coupon_key c \<notin> coupon_key ` set (coupons w) \<and> cp_StoreID c \<in> fst ` set (stores w) \<and>
     cp_MerchantID c \<in> set (merchants w) \<and> w' = w\<lparr>coupons := coupons w @ [c\<lparr>cp_ProductIDs := []\<rparr>]\<rparr>"
  unfolding InsertCoupon_def insert_Inr bindE_eq_Inr by (simp add: conj_ac)

lemma coupon_inv_insert:
  assumes inv: "coupon_inv w" and run: "InsertCoupon c w = (Inr u, w')"
    and zero: "cp_ReservedCount c = 0" "cp_RedeemedCount c = 0"
  shows "coupon_inv w'"
proof -
  let ?rs = "coupon_reservations w"
  from run [unfolded InsertCoupon_Inr] have new: "cp_ID c \<notin> set (map cp_ID (coupons w))"
    and key: "coupon_key c \<notin> coupon_key ` set (coupons w)" and ck: "coupon_check c = Inr ()"
    and w': "w' = w\<lparr>coupons := coupons w @ [c\<lparr>cp_ProductIDs := []\<rparr>]\<rparr>" by simp_all
  have refs: "\<And>r. r \<in> set ?rs \<Longrightarrow> rs_CouponID r \<in> set (map cp_ID (coupons w))"
    using inv by (simp add: coupon_inv_def counters_ok_def list_all_iff)
  have "rs_CouponID x \<noteq> cp_ID c" if "x \<in> set ?rs" for x
    using refs [OF that] new by auto
  then have "held_of (cp_ID c) ?rs = 0" "consumed_of (cp_ID c) ?rs = 0"
    by (auto simp: held_of_def consumed_of_def filter_empty_conv)
  moreover have "coupon_check (c\<lparr>cp_ProductIDs := []\<rparr>) = Inr ()"
    using ck by (simp add: coupon_check_def)
  moreover have "coupon_key (c\<lparr>cp_ProductIDs := []\<rparr>) = coupon_key c" by (simp add: coupon_key_def)
  ultimately show ?thesis
    using inv new key zero by (auto simp: w' coupon_inv_def coupon_rows_ok_def counters_ok_def list_all_iff)
qed

lemma coupon_columns_fields [simp]:
  "cp_ID (coupon_columns c r) = cp_ID r" "cp_StoreID (coupon_columns c r) = cp_StoreID r"
  "cp_ReservedCount (coupon_columns c r) = cp_ReservedCount r" "cp_RedeemedCount (coupon_columns c r) = cp_RedeemedCount r"
  "cp_State (coupon_columns c r) = cp_State c" "cp_Version (coupon_columns c r) = cp_Version c"
  by (simp_all add: coupon_columns_def)

lemma UpdateCoupon_Inr:
  assumes "UpdateCoupon c v w = (Inr ok, w')"
  obtains "\<not> ok" "w' = w"
  | r where "ok" "r \<in> set (coupons w)" "cp_ID r = cp_ID c" "cp_StoreID r = cp_StoreID c" "cp_Version r = v"
      "coupon_check (coupon_columns c r) = Inr ()"
      "\<And>x. x \<in> set (coupons w) \<Longrightarrow> cp_ID x \<noteq> cp_ID r \<Longrightarrow> coupon_key x \<noteq> coupon_key (coupon_columns c r)"
      "w' = w\<lparr>coupons := map (\<lambda>r. if cp_ID r = cp_ID c \<and> cp_StoreID r = cp_StoreID c \<and> cp_Version r = v
        then coupon_columns c r else r) (coupons w)\<rparr>"
proof -
  let ?sel = "\<lambda>r. cp_ID r = cp_ID c \<and> cp_StoreID r = cp_StoreID c \<and> cp_Version r = v"
  let ?chk = "\<lambda>r. bindE (coupon_check r) (\<lambda>_. first_failure
         [(\<not> list_ex (\<lambda>x. cp_ID x \<noteq> cp_ID r \<and> coupon_key x = coupon_key r) (coupons w),
           ''coupons_store_normalized_code_uidx'')])"
  show thesis
  proof (cases "update_one ?sel (coupon_columns c) ?chk (coupons w)")
    case (Inl e)
    with assms that(1) show ?thesis by (simp add: UpdateCoupon_def split: if_splits)
  next
    case (Inr p)
    obtain r' rows where p: "p = (r', rows)" by (cases p)
    with Inr obtain r where f: "find ?sel (coupons w) = Some r" and k: "?chk (coupon_columns c r) = Inr ()"
      and rows: "rows = map (\<lambda>r. if ?sel r then coupon_columns c r else r) (coupons w)"
      by (auto simp: update_one_Inr)
    from f have r: "r \<in> set (coupons w)" "?sel r" by (auto simp: find_Some_iff)
    from k have "coupon_check (coupon_columns c r) = Inr ()"
      and "\<not> list_ex (\<lambda>x. cp_ID x \<noteq> cp_ID r \<and> coupon_key x = coupon_key (coupon_columns c r)) (coupons w)"
      by (auto simp: bindE_eq_Inr)
    with r show ?thesis
      using assms that(2) [of r] Inr p rows by (auto simp: UpdateCoupon_def list_ex_iff)
  qed
qed

lemma distinct_keys_update:
  assumes "distinct (map key xs)" and "distinct (map idf xs)" and "r \<in> set xs"
    and "\<And>x. x \<in> set xs \<Longrightarrow> idf x \<noteq> idf r \<Longrightarrow> key x \<noteq> key (f r)"
    and "\<And>x. x \<in> set xs \<Longrightarrow> sel x \<Longrightarrow> x = r"
  shows "distinct (map key (map (\<lambda>x. if sel x then f x else x) xs))"
proof (cases "sel r")
  case False
  then have "map (\<lambda>x. if sel x then f x else x) xs = xs" using assms(5) by (intro map_idI) auto
  with assms(1) show ?thesis by simp
next
  case True
  from split_list [OF assms(3)] obtain ys zs where xs: "xs = ys @ r # zs" by blast
  have other: "\<not> sel x" if "x \<in> set ys \<union> set zs" for x
    using assms(2) assms(5) [of x] that by (auto simp: xs)
  have m: "map (\<lambda>x. if sel x then f x else x) ys = ys" "map (\<lambda>x. if sel x then f x else x) zs = zs"
    by (rule map_idI, simp add: other)+
  have new: "idf r \<notin> idf ` (set ys \<union> set zs)" using assms(2) by (auto simp: xs)
  have "key (f r) \<noteq> key x" if "x \<in> set ys \<union> set zs" for x
  proof -
    have "idf x \<noteq> idf r" using new that by (metis image_eqI)
    with assms(4) [of x] that show ?thesis by (auto simp: xs)
  qed
  then have "key (f r) \<notin> key ` set ys" "key (f r) \<notin> key ` set zs" by auto
  with assms(1) True show ?thesis by (simp add: xs m)
qed

lemma coupon_inv_update:
  assumes inv: "coupon_inv w" and run: "UpdateCoupon c v w = (Inr ok, w')"
  shows "coupon_inv w'"
  using run
proof (cases rule: UpdateCoupon_Inr)
  case (2 r)
  let ?sel = "\<lambda>x. cp_ID x = cp_ID c \<and> cp_StoreID x = cp_StoreID c \<and> cp_Version x = v"
  let ?cs = "map (\<lambda>x. if ?sel x then coupon_columns c x else x) (coupons w)"
  note d = coupon_inv_parts [OF inv]
  have only: "x = r" if "x \<in> set (coupons w)" "?sel x" for x
    using find_unique_key [OF d(1) that(1) 2(2)] that(2) 2(3) by simp
  have ids: "map cp_ID ?cs = map cp_ID (coupons w)" by (rule map_update_key) simp
  have keys: "distinct (map coupon_key ?cs)"
  proof (rule distinct_keys_update [where key = coupon_key and idf = cp_ID and r = r])
    show "distinct (map coupon_key (coupons w))" using inv by (simp add: coupon_inv_def coupon_rows_ok_def)
    show "distinct (map cp_ID (coupons w))" by (rule d(1))
    show "r \<in> set (coupons w)" by (rule 2(2))
    show "coupon_key x \<noteq> coupon_key (coupon_columns c r)" if "x \<in> set (coupons w)" "cp_ID x \<noteq> cp_ID r" for x
      by (rule 2(7) [OF that])
    show "x = r" if "x \<in> set (coupons w)" "?sel x" for x
      by (rule only [OF that])
  qed
  have row: "coupon_check x = Inr () \<and> cp_ReservedCount x = held_of (cp_ID x) (coupon_reservations w) \<and>
      cp_RedeemedCount x = consumed_of (cp_ID x) (coupon_reservations w)" if "x \<in> set ?cs" for x
  proof -
    from that obtain y where y: "y \<in> set (coupons w)" "x = (if ?sel y then coupon_columns c y else y)" by auto
    then show ?thesis using only [OF y(1)] 2(6) d(3-5) [OF y(1)] by auto
  qed
  have "coupon_rows_ok ?cs" using d(1) keys ids row by (auto simp: coupon_rows_ok_def list_all_iff simp del: map_map)
  moreover have "counters_ok ?cs (coupon_reservations w)"
    using inv row unfolding coupon_inv_def counters_ok_def ids list_all_iff by blast
  ultimately show ?thesis using inv 2(8) by (simp add: coupon_inv_def)
qed (use inv in simp)

lemma coupon_inv_moved:
  assumes inv: "coupon_inv w" and r: "r \<in> set (coupon_reservations w)" "holds_slot r"
    and ck: "reservation_check (moved_to to at r) = Inr ()"
    and to: "to = ReservationReleased \<and> dd = 0 \<or> to = ReservationConsumed \<and> dd = 1"
  shows "coupon_rows_ok (adjust_row (rs_CouponID r) (- 1) dd t (coupons w))"
    and "reservation_rows_ok (move_row r to at (coupon_reservations w))"
    and "counters_ok (adjust_row (rs_CouponID r) (- 1) dd t (coupons w)) (move_row r to at (coupon_reservations w))"
proof -
  note d = coupon_inv_parts [OF inv]
  show "coupon_rows_ok (adjust_row (rs_CouponID r) (- 1) dd t (coupons w))"
    using inv d(3,4) held_of_pos [OF r] to by (intro coupon_rows_adjust) (auto simp: coupon_inv_def)
  show "reservation_rows_ok (move_row r to at (coupon_reservations w))"
    using inv by (intro reservation_rows_move [OF _ r(1) ck]) (simp add: coupon_inv_def)
  show "counters_ok (adjust_row (rs_CouponID r) (- 1) dd t (coupons w)) (move_row r to at (coupon_reservations w))"
    using inv to by (intro counters_ok_move [OF _ d(2) r]) (auto simp: coupon_inv_def holds_slot_def)
qed

lemma coupon_inv_release:
  assumes "coupon_inv w" and "release_tx i w = (Inr x, w')"
  shows "coupon_inv w'"
  using assms
proof (cases rule: release_tx_Inr)
  case (released r)
  from coupon_inv_moved [OF assms(1) released(1,3,4)] assms(1) released(3)
  show ?thesis by (simp add: released(6) coupon_inv_def redemptions_ok_move)
qed (use assms in simp)

lemma coupon_inv_convert:
  assumes "coupon_inv w" and "convert_tx i w = (Inr x, w')"
  shows "coupon_inv w'"
  using assms
proof (cases rule: convert_tx_Inr)
  case (redeemed r k)
  have "redemptions_ok (move_row r ReservationConsumed (clock w) (coupon_reservations w)) (coupon_redemptions w @ [x])"
    unfolding redeemed(7) using assms(1) coupon_inv_parts(2) [OF assms(1)]
    by (intro redemptions_ok_consume [OF _ redeemed(1,3) _ redeemed(5,6)]) (simp_all add: coupon_inv_def)
  with coupon_inv_moved [OF assms(1) redeemed(1,3,4)] show ?thesis by (simp add: redeemed(8) coupon_inv_def)
qed (use assms in simp)

lemma coupon_inv_hold:
  assumes "coupon_inv w" and "hold_tx i w = (Inr x, w')"
  shows "coupon_inv w'"
  using assms
proof (cases rule: hold_tx_Inr)
  case (held r)
  note d = coupon_inv_parts [OF assms(1)]
  let ?rs = "move_row r ReservationHeldUnknown (clock w) (coupon_reservations w)"
  have hs: "holds_slot r" using held(3) by (simp add: holds_slot_def)
  have "held_of c ?rs = held_of c (coupon_reservations w)" "consumed_of c ?rs = consumed_of c (coupon_reservations w)" for c
    using held_of_move [OF d(2) held(1) hs] by (simp_all add: holds_slot_def)
  moreover have "rs_CouponID x \<in> set (map cp_ID (coupons w))" if "x \<in> set ?rs" for x
  proof -
    from move_row_mem [OF that] obtain y where "y \<in> set (coupon_reservations w)" "rs_CouponID x = rs_CouponID y" by auto
    with assms(1) show ?thesis by (simp add: coupon_inv_def counters_ok_def list_all_iff)
  qed
  ultimately have "counters_ok (coupons w) ?rs"
    using assms(1) by (simp add: coupon_inv_def counters_ok_def list_all_iff)
  moreover have "reservation_rows_ok ?rs"
    using assms(1) by (intro reservation_rows_move [OF _ held(1,4)]) (simp add: coupon_inv_def)
  ultimately show ?thesis
    using assms(1) hs by (simp add: held(5) coupon_inv_def redemptions_ok_move)
qed (use assms in simp)

lemma new_reservation_fields [simp]:
  "rs_ID (new_reservation req c snap i ttl at) = i" "rs_CouponID (new_reservation req c snap i ttl at) = cp_ID c"
  "rs_State (new_reservation req c snap i ttl at) = ReservationReserved"
  "rs_OrderID (new_reservation req c snap i ttl at) = rq_OrderID req"
  "rs_BuyerIdentityHash (new_reservation req c snap i ttl at) =
     (if rq_BuyerIdentityHash req \<noteq> [] then Some (rq_BuyerIdentityHash req) else None)"
  by (simp_all add: new_reservation_def)

lemma held_of_snoc:
  "held_of c (rs @ [r]) = held_of c rs + of_bool (rs_CouponID r = c \<and> holds_slot r)"
  "consumed_of c (rs @ [r]) = consumed_of c rs + of_bool (rs_CouponID r = c \<and> rs_State r = ReservationConsumed)"
  by (simp_all add: held_of_def consumed_of_def)

lemma coupon_inv_reserve:
  assumes inv: "coupon_inv w" and run: "reserve_tx req merch ttl w = (Inr x, w')"
  shows "coupon_inv w'"
  using inv run
proof (cases rule: reserve_tx_Inr)
  case (reserved c)
  let ?r = "rr_Reservation x" and ?rs = "coupon_reservations w"
  let ?cs = "adjust_row (cp_ID c) 1 0 (clock w) (coupons w)"
  note d = coupon_inv_parts [OF inv]
  have rid: "rs_CouponID ?r = cp_ID c" "holds_slot ?r" "rs_State ?r \<noteq> ReservationConsumed"
    by (simp_all add: reserved(6) holds_slot_def)
  have "coupon_rows_ok ?cs"
    using inv d(3,4) by (intro coupon_rows_adjust) (auto simp: coupon_inv_def)
  moreover have "reservation_rows_ok (?rs @ [?r])"
    using inv reserved(7-10) by (simp add: coupon_inv_def reservation_rows_ok_def)
  moreover have "counters_ok ?cs (?rs @ [?r])"
  proof -
    have "cp_ReservedCount y = held_of (cp_ID y) (?rs @ [?r]) \<and> cp_RedeemedCount y = consumed_of (cp_ID y) (?rs @ [?r])"
      if "y \<in> set ?cs" for y
    proof -
      from that obtain b where b: "b \<in> set (coupons w)" "y = (if cp_ID b = cp_ID c then adjusted 1 0 (clock w) b else b)"
        by (auto simp: adjust_row_def)
      with d(3,4) [OF b(1)] rid show ?thesis by (simp add: held_of_snoc)
    qed
    moreover have "rs_CouponID y \<in> set (map cp_ID ?cs)" if "y \<in> set (?rs @ [?r])" for y
    proof -
      have "cp_ID c \<in> set (map cp_ID (coupons w))" using reserved(2) by simp
      with that rid(1) inv show ?thesis
        unfolding adjust_row_keys by (auto simp: coupon_inv_def counters_ok_def list_all_iff simp del: set_map)
    qed
    ultimately show ?thesis by (simp add: counters_ok_def list_all_iff)
  qed
  moreover have "redemptions_ok (?rs @ [?r]) (coupon_redemptions w)"
  proof -
    have "\<exists>r\<in>set (?rs @ [?r]). rs_State r = ReservationConsumed \<and> y = redemption_of r (rd_ID y) (rd_CreatedAt y)"
      if "y \<in> set (coupon_redemptions w)" for y
    proof -
      from inv that have "\<exists>r\<in>set ?rs. rs_State r = ReservationConsumed \<and> y = redemption_of r (rd_ID y) (rd_CreatedAt y)"
        by (simp add: coupon_inv_def redemptions_ok_def)
      then show ?thesis by (elim bexE) (rule bexI, assumption, simp)
    qed
    with inv rid(3) show ?thesis by (simp add: coupon_inv_def redemptions_ok_def)
  qed
  ultimately show ?thesis by (simp add: reserved(11) coupon_inv_def)
qed (use inv in simp)

subsection \<open>New coupons\<close>

lemma InsertCoupon_Inl: "InsertCoupon c w = (Inl e, w') \<Longrightarrow> w' = w"
  by (auto simp: InsertCoupon_def split: sum.splits)

lemma UpdateCoupon_Inl: "UpdateCoupon c v w = (Inl e, w') \<Longrightarrow> w' = w"
  by (auto simp: UpdateCoupon_def split: sum.splits prod.splits if_splits)

text \<open>The rules for the control flow of a handler, without those for its transactions.\<close>

lemma keeps_case_prod: "(\<And>x y. keeps P (f x y)) \<Longrightarrow> keeps P (case v of (x, y) \<Rightarrow> f x y)"
  by (cases v) simp

lemmas keeps_flow = keeps_ret keeps_throw keeps_liftE keeps_gets keeps_bindS keeps_try_op keeps_if
  keeps_with_state keeps_case_option keeps_case_sum keeps_case_prod keeps_hide_errors

lemma buildNewCoupon_Inr:
  "buildNewCoupon st u inp w = (Inr c, w1) \<Longrightarrow> cp_ReservedCount c = 0 \<and> cp_RedeemedCount c = 0 \<and>
     w1 = w\<lparr>next_id := Suc (next_id w)\<rparr>"
  by (auto simp: buildNewCoupon_def bindS_eq_Inr Let_def)

lemma buildNewCoupon_Inl: "buildNewCoupon st u inp w = (Inl e, w1) \<Longrightarrow> w1 = w"
  unfolding buildNewCoupon_def Let_def with_state_app
  by (elim bindS_cases) (auto simp: new_id_def)

end
