(* ===== verification/Coupon_History.thy ===== *)
theory Coupon_History
  imports Coupon_Invariant
begin

text \<open>
  The coupon service over time. The locale \<open>coupon_transactions\<close> is the contract between the
  transactions of the service and a property of the tables they keep; inside it every handler, and
  any sequence of handler calls and clock ticks, keeps the property. It is interpreted for the
  invariant, for the terms of a redemption and for the final state of a reservation.
\<close>

subsection \<open>What every handler keeps\<close>

locale coupon_transactions =
  fixes P :: "'m coupon_db_scheme \<Rightarrow> bool"
  assumes ids: "P w \<Longrightarrow> P (w\<lparr>next_id := n\<rparr>)"
    and ticks: "P w \<Longrightarrow> P (w\<lparr>clock := t\<rparr>)"
    and scopes: "P w \<Longrightarrow> P (w\<lparr>coupon_scopes := s\<rparr>)"
    and inserts: "P w \<Longrightarrow> InsertCoupon c w = (Inr u, w') \<Longrightarrow> cp_ReservedCount c = 0 \<Longrightarrow>
      cp_RedeemedCount c = 0 \<Longrightarrow> P w'"
    and updates: "P w \<Longrightarrow> UpdateCoupon c v w = (Inr ok, w') \<Longrightarrow> P w'"
    and reserves: "P w \<Longrightarrow> reserve_tx req m ttl w = (Inr x, w') \<Longrightarrow> P w'"
    and releases: "P w \<Longrightarrow> release_tx i w = (Inr r, w') \<Longrightarrow> P w'"
    and converts: "P w \<Longrightarrow> convert_tx i w = (Inr d, w') \<Longrightarrow> P w'"
    and holds: "P w \<Longrightarrow> hold_tx i w = (Inr r, w') \<Longrightarrow> P w'"
begin

lemma tx: "(\<And>w a w'. P w \<Longrightarrow> m w = (Inr a, w') \<Longrightarrow> P w') \<Longrightarrow> keeps P (with_tx m)"
  by (rule keeps_tx) (auto intro: ids)

lemma transactions:
  "keeps P (with_tx (reserve_tx req m ttl))" "keeps P (with_tx (release_tx i))"
  "keeps P (with_tx (convert_tx i))" "keeps P (with_tx (hold_tx i))"
  by (rule tx, erule reserves releases converts holds, assumption)+

lemma statements:
  "cp_ReservedCount c = 0 \<Longrightarrow> cp_RedeemedCount c = 0 \<Longrightarrow> keeps P (InsertCoupon c)"
  "keeps P (UpdateCoupon c v)" "keeps P (insert_scope i s p)"
proof -
  show "cp_ReservedCount c = 0 \<Longrightarrow> cp_RedeemedCount c = 0 \<Longrightarrow> keeps P (InsertCoupon c)"
    by (rule keepsI) (metis InsertCoupon_Inl inserts sum.exhaust)
  show "keeps P (UpdateCoupon c v)"
    by (rule keepsI) (metis UpdateCoupon_Inl updates sum.exhaust)
  show "keeps P (insert_scope i s p)"
    by (rule keepsI) (auto simp: insert_scope_def intro: scopes split: sum.splits)
qed

lemma replaces: "keeps P (ReplaceProductScopes i s ps)"
proof -
  have "keeps P (\<lambda>w. (Inr (), w\<lparr>coupon_scopes := filter (\<lambda>(c, _). c \<noteq> i) (coupon_scopes w)\<rparr>))"
    by (rule keepsI) (auto intro: scopes)
  then show ?thesis
    unfolding ReplaceProductScopes_def by (intro keeps_flow keeps_for_each statements)
qed

lemma creates: "keeps P (CreateCoupon u s inp)"
proof (rule keepsI)
  fix w r w' assume P: "P w" and run: "CreateCoupon u s inp w = (r, w')"
  show "P w'"
  proof (cases "coupon_access u s w")
    case (Inl e)
    with run P show ?thesis by (simp add: CreateCoupon_def)
  next
    case (Inr st)
    show ?thesis
    proof (cases "buildNewCoupon st u inp w")
      case (Pair b w1)
      show ?thesis
      proof (cases b)
        case (Inl e)
        with Pair buildNewCoupon_Inl [of st u inp w e w1] run \<open>coupon_access u s w = Inr st\<close> P show ?thesis
          by (simp add: CreateCoupon_def)
      next
        case (Inr c)
        note b = buildNewCoupon_Inr [OF Pair [unfolded Inr]]
        have "keeps P (hide_errors ''Create coupon failed'' (with_tx (create_tx s c)))"
          using b unfolding create_tx_def
          by (intro keeps_hide_errors keeps_with_tx keeps_flow replaces statements ids) simp_all
        moreover have "P w1" using P b by (simp add: ids)
        ultimately show ?thesis
          using run Pair Inr \<open>coupon_access u s w = Inr st\<close> by (auto simp: CreateCoupon_def dest: keepsD)
      qed
    qed
  qed
qed

lemma edits: "keeps P (PatchCoupon u s i inp)" "keeps P (coupon_transition u s i to act)"
proof -
  have "keeps P (patch_tx s i inp)"
    unfolding patch_tx_def by (intro keeps_flow replaces statements)
  then have "keeps P (with_tx (patch_tx s i inp))" by (rule keeps_with_tx) (rule ids)
  then show "keeps P (PatchCoupon u s i inp)"
    unfolding PatchCoupon_def by (intro keeps_flow)
  have "keeps P (transition_tx s i to act)"
    unfolding transition_tx_def Let_def by (intro keeps_flow statements)
  then have "keeps P (with_tx (transition_tx s i to act))" by (rule keeps_with_tx) (rule ids)
  then show "keeps P (coupon_transition u s i to act)"
    unfolding coupon_transition_def by (intro keeps_flow)
qed

lemma checkout: "keeps P (Reserve req)" "keeps P (ReleaseReservation i)"
  "keeps P (ConvertReservationToRedemption i)" "keeps P (MarkReservationHeldUnknown i)"
proof -
  show "keeps P (Reserve req)"
    unfolding Reserve_def Let_def by (intro keeps_flow transactions)
  show "keeps P (ReleaseReservation i)"
    unfolding ReleaseReservation_def by (intro keeps_flow transactions)
  show "keeps P (MarkReservationHeldUnknown i)"
    unfolding MarkReservationHeldUnknown_def by (intro keeps_flow transactions)
  show "keeps P (ConvertReservationToRedemption i)"
    using transactions(3) [of i] keeps_throw [of P ErrCouponNotFound]
    by (auto simp: ConvertReservationToRedemption_def keeps_def split: prod.splits sum.splits dest: converts)
qed

lemma expiry: "keeps P (ExpireReservations limit)"
proof -
  have "keeps P (expire_each rs n)" for rs n
  proof (induction rs n rule: expire_each.induct)
    case (2 r rs n)
    then show ?case by (auto intro!: keeps_flow checkout)
  next
    case (1 n)
    show ?case unfolding expire_each.simps by (rule keeps_ret)
  qed
  then show ?thesis unfolding ExpireReservations_def by (intro keeps_flow)
qed

end

subsection \<open>Sequences of calls\<close>

text \<open>
  A call of the service by a seller, the checkout or the worker, with any arguments and whatever its
  result, or the passing of time.
\<close>

inductive coupon_step :: "'m coupon_db_scheme \<Rightarrow> 'm coupon_db_scheme \<Rightarrow> bool" where
  create: "CreateCoupon u s ci w = (rc, w') \<Longrightarrow> coupon_step w w'"
| patch: "PatchCoupon u s i pin w = (rc, w') \<Longrightarrow> coupon_step w w'"
| activate: "ActivateCoupon u s i w = (rc, w') \<Longrightarrow> coupon_step w w'"
| pause: "PauseCoupon u s i w = (rc, w') \<Longrightarrow> coupon_step w w'"
| archive: "ArchiveCoupon u s i w = (rc, w') \<Longrightarrow> coupon_step w w'"
| reserve: "Reserve req w = (rr, w') \<Longrightarrow> coupon_step w w'"
| release: "ReleaseReservation i w = (rs, w') \<Longrightarrow> coupon_step w w'"
| convert: "ConvertReservationToRedemption i w = (rd, w') \<Longrightarrow> coupon_step w w'"
| hold: "MarkReservationHeldUnknown i w = (rs, w') \<Longrightarrow> coupon_step w w'"
| expire: "ExpireReservations n w = (rn, w') \<Longrightarrow> coupon_step w w'"
| tick: "coupon_step w (w\<lparr>clock := t\<rparr>)"

context coupon_transactions
begin

lemma step: "coupon_step w w' \<Longrightarrow> P w \<Longrightarrow> P w'"
  by (induction rule: coupon_step.induct)
    (auto simp: ActivateCoupon_def PauseCoupon_def ArchiveCoupon_def
      dest: keepsD [OF creates] keepsD [OF edits(1)] keepsD [OF edits(2)] keepsD [OF checkout(1)]
        keepsD [OF checkout(2)] keepsD [OF checkout(3)] keepsD [OF checkout(4)] keepsD [OF expiry] intro: ticks)

lemma run: "coupon_step\<^sup>*\<^sup>* w w' \<Longrightarrow> P w \<Longrightarrow> P w'"
  by (induction rule: rtranclp_induct) (auto intro: step)

end

interpretation sound_coupons: coupon_transactions coupon_inv
  by unfold_locales (simp, simp, simp, rule coupon_inv_insert, assumption+, erule coupon_inv_update, assumption,
    erule coupon_inv_reserve, assumption, erule coupon_inv_release, assumption, erule coupon_inv_convert, assumption,
    erule coupon_inv_hold, assumption)

end
