(* ===== verification/Coupon_Runs.thy ===== *)
theory Coupon_Runs
  imports Coupon_History
begin

text \<open>
  What the coupon service promises to the checkout, over any history: counters that count, limits,
  the finality of a release or a redemption, and the freeing of a slot; with a small world in which
  the theorems are applied.
\<close>

subsection \<open>Calls at a reservation that has ended\<close>

lemma GetCouponReservation_mem:
  assumes "coupon_inv w" and "r \<in> set (coupon_reservations w)"
  shows "reservation_of (rs_ID r) w = Inr r" "GetCouponReservation (rs_ID r) w = Inr r"
  using find_distinct [OF coupon_inv_parts(2) [OF assms(1)] assms(2)]
  by (simp_all add: reservation_of_def GetCouponReservation_def opt_row_def)

lemma with_tx_ret: "m w = (Inr a, w) \<Longrightarrow> with_tx m w = (Inr a, w)"
  by (simp add: with_tx_def)

lemma with_tx_refuse: "m w = (Inl e, w) \<Longrightarrow> with_tx m w = (Inl e, w)"
  by (simp add: with_tx_def)

lemma app_ErrReservationState [simp]: "as_app_error ErrReservationState = Some ErrReservationState"
  by (simp add: ErrReservationState_def apperr_defs)

lemma at_released:
  assumes inv: "coupon_inv w" and r: "r \<in> set (coupon_reservations w)" "rs_State r = ReservationReleased"
    and ne: "rs_ID r \<noteq> []"
  shows "ReleaseReservation (rs_ID r) w = (Inr r, w)"
    and "ConvertReservationToRedemption (rs_ID r) w = (Inl ErrReservationState, w)"
proof -
  note res = GetCouponReservation_mem [OF inv r(1)]
  have "release_tx (rs_ID r) w = (Inr r, w)" using res r(2) by (simp add: release_tx_def)
  with ne show "ReleaseReservation (rs_ID r) w = (Inr r, w)"
    by (simp add: ReleaseReservation_def with_tx_ret)
  have "rd_ReservationID d \<noteq> rs_ID r" if "d \<in> set (coupon_redemptions w)" for d
  proof
    assume eq: "rd_ReservationID d = rs_ID r"
    from inv that obtain y where y: "y \<in> set (coupon_reservations w)" "rs_State y = ReservationConsumed"
      and d: "d = redemption_of y (rd_ID d) (rd_CreatedAt d)"
      unfolding coupon_inv_def redemptions_ok_def by blast
    from arg_cong [OF d, of rd_ReservationID] eq have "rs_ID y = rs_ID r" by (simp add: redemption_of_def)
    with find_unique_key [OF coupon_inv_parts(2) [OF inv] y(1) r(1)] y(2) r(2) show False by simp
  qed
  then have "GetRedemptionByReservation (rs_ID r) w = Inl ErrNoRows"
    by (simp add: GetRedemptionByReservation_def opt_row_def find_None_iff split: option.splits)
  then have "convert_tx (rs_ID r) w = (Inl ErrReservationState, w)"
    using res r(2) by (simp add: convert_tx_def is_not_found_def)
  with ne show "ConvertReservationToRedemption (rs_ID r) w = (Inl ErrReservationState, w)"
    by (simp add: ConvertReservationToRedemption_def with_tx_refuse)
qed

lemma at_redeemed:
  assumes inv: "coupon_inv w" and d: "d \<in> set (coupon_redemptions w)" and ne: "rd_ReservationID d \<noteq> []"
  shows "ConvertReservationToRedemption (rd_ReservationID d) w = (Inr d, w)"
    and "ReleaseReservation (rd_ReservationID d) w = (Inl ErrReservationState, w)"
proof -
  from inv d obtain r where r: "r \<in> set (coupon_reservations w)" "rs_State r = ReservationConsumed"
    and dr: "d = redemption_of r (rd_ID d) (rd_CreatedAt d)"
    unfolding coupon_inv_def redemptions_ok_def by blast
  from arg_cong [OF dr, of rd_ReservationID] have i: "rd_ReservationID d = rs_ID r" by (simp add: redemption_of_def)
  note res = GetCouponReservation_mem [OF inv r(1), folded i]
  have "GetRedemptionByReservation (rd_ReservationID d) w = Inr d"
    using inv find_distinct [of rd_ReservationID "coupon_redemptions w" d] d
    by (simp add: GetRedemptionByReservation_def opt_row_def coupon_inv_def redemptions_ok_def)
  then have "convert_tx (rd_ReservationID d) w = (Inr d, w)" using res by (simp add: convert_tx_def)
  with ne show "ConvertReservationToRedemption (rd_ReservationID d) w = (Inr d, w)"
    by (simp add: ConvertReservationToRedemption_def with_tx_ret)
  have "release_tx (rd_ReservationID d) w = (Inl ErrReservationState, w)"
    using res r(2) by (simp add: release_tx_def)
  with ne show "ReleaseReservation (rd_ReservationID d) w = (Inl ErrReservationState, w)"
    by (simp add: ReleaseReservation_def with_tx_refuse hide_errors_def)
qed

subsection \<open>An end is final\<close>

definition released_in :: "string \<Rightarrow> 'm coupon_db_scheme \<Rightarrow> bool" where
  "released_in i w \<longleftrightarrow> coupon_inv w \<and>
     (\<exists>r\<in>set (coupon_reservations w). rs_ID r = i \<and> rs_State r = ReservationReleased)"

definition redeemed_in :: "Redemption \<Rightarrow> 'm coupon_db_scheme \<Rightarrow> bool" where
  "redeemed_in d w \<longleftrightarrow> coupon_inv w \<and> d \<in> set (coupon_redemptions w)"

lemma move_row_keeps:
  "x \<in> set rs \<Longrightarrow> rs_State x \<noteq> rs_State r \<Longrightarrow> x \<in> set (move_row r to at rs)"
  by (force simp: move_row_def)

lemma released_in_moved:
  assumes "released_in i w" and "holds_slot q" and "coupon_reservations w' = move_row q to at (coupon_reservations w)"
    and "coupon_inv w'"
  shows "released_in i w'"
proof -
  from assms(1) obtain r where r: "r \<in> set (coupon_reservations w)" "rs_ID r = i" "rs_State r = ReservationReleased"
    by (auto simp: released_in_def)
  then have "r \<in> set (move_row q to at (coupon_reservations w))"
    using assms(2) by (intro move_row_keeps) (auto simp: holds_slot_def)
  with r assms(3,4) show ?thesis by (auto simp: released_in_def)
qed

lemma UpdateCoupon_frame:
  "UpdateCoupon c v w = (Inr ok, w') \<Longrightarrow> coupon_reservations w' = coupon_reservations w \<and>
     coupon_redemptions w' = coupon_redemptions w"
  by (erule UpdateCoupon_Inr) simp_all

interpretation released: coupon_transactions "released_in i" for i
proof unfold_locales
  fix w w' :: "'a coupon_db_scheme" and c v ok req m ttl x j r d u s n t
  show "released_in i w \<Longrightarrow> released_in i (w\<lparr>next_id := n\<rparr>)" by (simp add: released_in_def)
  show "released_in i w \<Longrightarrow> released_in i (w\<lparr>clock := t\<rparr>)" by (simp add: released_in_def)
  show "released_in i w \<Longrightarrow> released_in i (w\<lparr>coupon_scopes := s\<rparr>)" by (simp add: released_in_def)
  show "released_in i w'" if "released_in i w" "InsertCoupon c w = (Inr u, w')"
    "cp_ReservedCount c = 0" "cp_RedeemedCount c = 0"
    using that coupon_inv_insert [of w c u w'] by (auto simp: released_in_def InsertCoupon_Inr)
  show "released_in i w'" if "released_in i w" "UpdateCoupon c v w = (Inr ok, w')"
    using that coupon_inv_update UpdateCoupon_frame [OF that(2)] by (auto simp: released_in_def)
  show "released_in i w'" if "released_in i w" "reserve_tx req m ttl w = (Inr x, w')"
  proof -
    have inv: "coupon_inv w" using that(1) by (simp add: released_in_def)
    show ?thesis
      using inv that(2) by (cases rule: reserve_tx_Inr)
        (use that coupon_inv_reserve [OF inv that(2)] in \<open>auto simp: released_in_def\<close>)
  qed
  show "released_in i w'" if "released_in i w" "release_tx j w = (Inr r, w')"
  proof -
    have inv: "coupon_inv w" using that(1) by (simp add: released_in_def)
    show ?thesis
      using inv that(2)
    proof (cases rule: release_tx_Inr)
      case (released q)
      then show ?thesis
        by (intro released_in_moved [OF that(1) _ _ coupon_inv_release [OF inv that(2)]]) (simp_all add: holds_slot_def)
    qed (use that(1) in simp)
  qed
  show "released_in i w'" if "released_in i w" "convert_tx j w = (Inr d, w')"
  proof -
    have inv: "coupon_inv w" using that(1) by (simp add: released_in_def)
    show ?thesis
      using inv that(2)
    proof (cases rule: convert_tx_Inr)
      case (redeemed q k)
      then show ?thesis
        by (intro released_in_moved [OF that(1) _ _ coupon_inv_convert [OF inv that(2)]]) (simp_all add: holds_slot_def)
    qed (use that(1) in simp)
  qed
  show "released_in i w'" if "released_in i w" "hold_tx j w = (Inr r, w')"
  proof -
    have inv: "coupon_inv w" using that(1) by (simp add: released_in_def)
    show ?thesis
      using inv that(2)
    proof (cases rule: hold_tx_Inr)
      case (held q)
      then show ?thesis
        by (intro released_in_moved [OF that(1) _ _ coupon_inv_hold [OF inv that(2)]]) (simp_all add: holds_slot_def)
    qed (use that(1) in simp)
  qed
qed

interpretation redeemed: coupon_transactions "redeemed_in d" for d
proof unfold_locales
  fix w w' :: "'a coupon_db_scheme" and c v ok req m ttl x j r e u s n t
  show "redeemed_in d w \<Longrightarrow> redeemed_in d (w\<lparr>next_id := n\<rparr>)" by (simp add: redeemed_in_def)
  show "redeemed_in d w \<Longrightarrow> redeemed_in d (w\<lparr>clock := t\<rparr>)" by (simp add: redeemed_in_def)
  show "redeemed_in d w \<Longrightarrow> redeemed_in d (w\<lparr>coupon_scopes := s\<rparr>)" by (simp add: redeemed_in_def)
  show "redeemed_in d w'" if "redeemed_in d w" "InsertCoupon c w = (Inr u, w')"
    "cp_ReservedCount c = 0" "cp_RedeemedCount c = 0"
    using that coupon_inv_insert [of w c u w'] by (auto simp: redeemed_in_def InsertCoupon_Inr)
  show "redeemed_in d w'" if "redeemed_in d w" "UpdateCoupon c v w = (Inr ok, w')"
    using that coupon_inv_update UpdateCoupon_frame [OF that(2)] by (auto simp: redeemed_in_def)
  show "redeemed_in d w'" if "redeemed_in d w" "reserve_tx req m ttl w = (Inr x, w')"
    using that coupon_inv_reserve [of w req m ttl x w']
    by (auto simp: redeemed_in_def elim: reserve_tx_Inr)
  show "redeemed_in d w'" if "redeemed_in d w" "release_tx j w = (Inr r, w')"
    using that coupon_inv_release [of w j r w'] by (auto simp: redeemed_in_def elim: release_tx_Inr)
  show "redeemed_in d w'" if "redeemed_in d w" "convert_tx j w = (Inr e, w')"
    using that coupon_inv_convert [of w j e w'] by (auto simp: redeemed_in_def elim: convert_tx_Inr)
  show "redeemed_in d w'" if "redeemed_in d w" "hold_tx j w = (Inr r, w')"
    using that coupon_inv_hold [of w j r w'] by (auto simp: redeemed_in_def elim: hold_tx_Inr)
qed

lemma ReleaseReservation_Inr:
  "ReleaseReservation i w = (Inr r, w') \<longleftrightarrow> i \<noteq> [] \<and> release_tx i w = (Inr r, w')"
  by (simp add: ReleaseReservation_def)

lemma ConvertReservation_Inr:
  "ConvertReservationToRedemption i w = (Inr d, w') \<longleftrightarrow> i \<noteq> [] \<and> convert_tx i w = (Inr d, w')"
  by (auto simp: ConvertReservationToRedemption_def with_tx_def split: prod.splits sum.splits)

lemma release_ends:
  assumes inv: "coupon_inv w" and run: "ReleaseReservation i w = (Inr r, w')"
  shows "released_in i w'"
proof -
  from run have tx: "release_tx i w = (Inr r, w')" by (simp add: ReleaseReservation_Inr)
  note inv' = coupon_inv_release [OF inv tx]
  show ?thesis using inv tx
  proof (cases rule: release_tx_Inr)
    case done_before
    with inv show ?thesis by (auto simp: released_in_def)
  next
    case (released q)
    then have "moved_to ReservationReleased (clock w) q \<in> set (coupon_reservations w')"
      by (auto simp: move_row_def)
    moreover have "rs_State (moved_to ReservationReleased (clock w) q) = ReservationReleased" by simp
    moreover have "rs_ID (moved_to ReservationReleased (clock w) q) = i" using released(2) by simp
    ultimately show ?thesis using inv' unfolding released_in_def by blast
  qed
qed

text \<open>
  C22. A release is final: after any later calls of the service, releasing again succeeds without
  changing anything and converting the reservation is refused without changing anything.
\<close>

theorem release_is_final:
  assumes "coupon_inv w" and "ReleaseReservation i w = (Inr r, w1)" and "coupon_step\<^sup>*\<^sup>* w1 w2"
  shows "\<exists>r2. ReleaseReservation i w2 = (Inr r2, w2) \<and> rs_ID r2 = i \<and> rs_State r2 = ReservationReleased \<and>
    ConvertReservationToRedemption i w2 = (Inl ErrReservationState, w2)"
proof -
  have "released_in i w2" using released.run [OF assms(3) release_ends [OF assms(1,2)]] .
  then obtain r2 where "coupon_inv w2" "r2 \<in> set (coupon_reservations w2)" "rs_ID r2 = i"
    "rs_State r2 = ReservationReleased" by (auto simp: released_in_def)
  moreover have "i \<noteq> []" using assms(2) by (simp add: ReleaseReservation_Inr)
  ultimately show ?thesis using at_released [of w2 r2] by auto
qed

text \<open>
  C23. A redemption is final: after any later calls, converting the reservation again returns the same
  redemption and changes nothing, and releasing it is refused.
\<close>

theorem redemption_is_final:
  assumes "coupon_inv w" and "ConvertReservationToRedemption i w = (Inr d, w1)" and "coupon_step\<^sup>*\<^sup>* w1 w2"
  shows "ConvertReservationToRedemption i w2 = (Inr d, w2) \<and>
    ReleaseReservation i w2 = (Inl ErrReservationState, w2)"
proof -
  from assms(2) have ne: "i \<noteq> []" and tx: "convert_tx i w = (Inr d, w1)" by (simp_all add: ConvertReservation_Inr)
  have "d \<in> set (coupon_redemptions w1) \<and> rd_ReservationID d = i"
    using assms(1) tx
  proof (cases rule: convert_tx_Inr)
    case done_before
    then show ?thesis
      by (auto simp: GetRedemptionByReservation_def opt_row_def find_Some_iff split: option.splits)
  qed (simp add: redemption_of_def)
  then have "redeemed_in d w1" and i: "rd_ReservationID d = i"
    using coupon_inv_convert [OF assms(1) tx] by (simp_all add: redeemed_in_def)
  from redeemed.run [OF assms(3) this(1)] have "coupon_inv w2" "d \<in> set (coupon_redemptions w2)"
    by (simp_all add: redeemed_in_def)
  from at_redeemed [OF this] ne i show ?thesis by simp
qed

subsection \<open>Counters and limits\<close>

lemma redeemed_count:
  assumes inv: "coupon_inv w"
  shows "consumed_of c (coupon_reservations w) = int (length (filter (\<lambda>d. rd_CouponID d = c) (coupon_redemptions w)))"
proof -
  let ?rs = "filter (\<lambda>r. rs_CouponID r = c \<and> rs_State r = ReservationConsumed) (coupon_reservations w)"
  let ?ds = "filter (\<lambda>d. rd_CouponID d = c) (coupon_redemptions w)"
  have ok: "redemptions_ok (coupon_reservations w) (coupon_redemptions w)" using inv by (simp add: coupon_inv_def)
  have src: "\<exists>r\<in>set (coupon_reservations w). rs_State r = ReservationConsumed \<and> rs_ID r = rd_ReservationID d \<and>
      rs_CouponID r = rd_CouponID d" if "d \<in> set (coupon_redemptions w)" for d
  proof -
    from ok that obtain r where "r \<in> set (coupon_reservations w)" "rs_State r = ReservationConsumed"
      "d = redemption_of r (rd_ID d) (rd_CreatedAt d)" unfolding redemptions_ok_def by blast
    then show ?thesis
      by (metis redemption_of_def Redemption.select_convs(2,3))
  qed
  have "set (map rs_ID ?rs) = set (map rd_ReservationID ?ds)"
  proof (rule set_eqI, rule iffI)
    fix i assume "i \<in> set (map rs_ID ?rs)"
    then obtain r where r: "r \<in> set (coupon_reservations w)" "rs_CouponID r = c" "rs_State r = ReservationConsumed"
      "rs_ID r = i" by auto
    then have "i \<in> set (map rd_ReservationID (coupon_redemptions w))" using ok unfolding redemptions_ok_def by blast
    then obtain d where d: "d \<in> set (coupon_redemptions w)" "rd_ReservationID d = i" by auto
    from src [OF d(1)] d(2) obtain y where y: "y \<in> set (coupon_reservations w)" "rs_ID y = i" "rs_CouponID y = rd_CouponID d"
      by auto
    have "y = r" using find_unique_key [OF coupon_inv_parts(2) [OF inv] y(1) r(1)] y(2) r(4) by simp
    with d y(3) r(2) show "i \<in> set (map rd_ReservationID ?ds)" by force
  next
    fix i assume "i \<in> set (map rd_ReservationID ?ds)"
    then obtain d where "d \<in> set (coupon_redemptions w)" "rd_CouponID d = c" "rd_ReservationID d = i" by auto
    with src [of d] show "i \<in> set (map rs_ID ?rs)" by force
  qed
  moreover have "distinct (map rs_ID ?rs)"
    using coupon_inv_parts(2) [OF inv] by (rule distinct_map_filter)
  moreover have "distinct (map rd_ReservationID ?ds)"
    using ok unfolding redemptions_ok_def by (intro distinct_map_filter) simp
  ultimately have "length (map rs_ID ?rs) = length (map rd_ReservationID ?ds)"
    using distinct_card [of "map rs_ID ?rs"] distinct_card [of "map rd_ReservationID ?ds"] by (simp only:)
  then show ?thesis by (simp add: consumed_of_def)
qed

text \<open>
  C20. Whatever calls sellers, checkouts and workers make, the counters of a coupon stay the numbers of
  its live holds and of its redemptions, and the tables stay consistent.
\<close>

theorem coupon_history_sound:
  assumes "coupon_inv w" and "coupon_step\<^sup>*\<^sup>* w w'" and "c \<in> set (coupons w')"
  shows "cp_ReservedCount c = held_of (cp_ID c) (coupon_reservations w') \<and>
    cp_RedeemedCount c = int (length (filter (\<lambda>d. rd_CouponID d = cp_ID c) (coupon_redemptions w'))) \<and>
    coupon_inv w'"
proof -
  have inv: "coupon_inv w'" using sound_coupons.run [OF assms(2,1)] .
  with coupon_inv_parts(3,4) [OF inv assms(3)] redeemed_count [OF inv] show ?thesis by simp
qed

subsection \<open>A new hold\<close>

definition merchandise :: "ReserveRequest \<Rightarrow> i64 \<Rightarrow> i64" where
  "merchandise req price = (if rq_MerchandiseIDR req > 0 then rq_MerchandiseIDR req else price)"

definition hold_time :: "ReserveRequest \<Rightarrow> int" where
  "hold_time req = (if rq_TTL req \<le> 0 then DefaultReservationTTL else rq_TTL req)"

definition complete_request :: "ReserveRequest \<Rightarrow> bool" where
  "complete_request req \<longleftrightarrow> rq_StoreID req \<noteq> [] \<and> rq_ProductID req \<noteq> [] \<and> rq_OrderID req \<noteq> [] \<and>
     rq_IdempotencyKey req \<noteq> [] \<and> trim_space (rq_CouponCode req) \<noteq> []"

lemma Reserve_Inr:
  "Reserve req w = (Inr x, w') \<longleftrightarrow> complete_request req \<and>
     (\<exists>price. product_lookup (rq_StoreID req) (rq_ProductID req) w = Inr price \<and>
        reserve_tx req (merchandise req price) (hold_time req) w = (Inr x, w'))"
  by (cases "product_lookup (rq_StoreID req) (rq_ProductID req) w")
    (auto simp: Reserve_def complete_request_def merchandise_def hold_time_def Let_def)

lemma slots_bounded:
  assumes "int (length rs) \<le> max_i64"
  shows "in_i64 (held_of c rs)" and "in_i64 (consumed_of c rs)" and "in_i64 (held_of c rs + consumed_of c rs)"
proof -
  have "held_of c rs + consumed_of c rs \<le> int (length rs)"
    unfolding held_of_def consumed_of_def by (induction rs) (auto simp: holds_slot_def)
  then show "in_i64 (held_of c rs)" "in_i64 (consumed_of c rs)" "in_i64 (held_of c rs + consumed_of c rs)"
    using assms counts_nonneg [of c rs] unfolding in_i64_def min_i64_def by linarith+
qed

lemma CountBuyer_snoc:
  "CountBuyerCouponUsage c b (w\<lparr>next_id := n, coupon_reservations := rs @ [r], coupons := cs\<rparr>) =
     CountBuyerCouponUsage c b (w\<lparr>coupon_reservations := rs\<rparr>) + of_bool (rs_CouponID r = c \<and>
       rs_BuyerIdentityHash r = Some b \<and> rs_State r \<in> set [ReservationReserved, ReservationHeldUnknown, ReservationConsumed])"
  by (simp add: CountBuyerCouponUsage_def)

text \<open>
  C21. A new hold takes exactly one slot of an active coupon of the store, and never one too many: the
  slots in use afterwards are within the coupon's limit, and the buyer's uses within the buyer limit.
\<close>

theorem Reserve_within_limits:
  assumes inv: "coupon_inv w" and run: "Reserve req w = (Inr x, w')" and new: "\<not> rr_Replayed x"
    and small: "int (length (coupon_reservations w)) \<le> max_i64"
  shows "\<exists>c\<in>set (coupons w). cp_ID c = rs_CouponID (rr_Reservation x) \<and> cp_StoreID c = rq_StoreID req \<and>
    cp_State c = StateActive \<and> WindowActive c (clock w) \<and>
    held_of (cp_ID c) (coupon_reservations w') = held_of (cp_ID c) (coupon_reservations w) + 1 \<and>
    (\<forall>n. cp_MaxTotalUses c = Some n \<longrightarrow>
       held_of (cp_ID c) (coupon_reservations w') + consumed_of (cp_ID c) (coupon_reservations w') \<le> n) \<and>
    (\<forall>n. cp_MaxPerCustomerUses c = Some n \<longrightarrow> rq_BuyerIdentityHash req \<noteq> [] \<longrightarrow>
       CountBuyerCouponUsage (cp_ID c) (rq_BuyerIdentityHash req) w' \<le> n)"
proof -
  from run [unfolded Reserve_Inr] obtain m ttl where tx: "reserve_tx req m ttl w = (Inr x, w')" by blast
  from inv tx show ?thesis
  proof (cases rule: reserve_tx_Inr)
    case (reserved c)
    let ?r = "rr_Reservation x"
    note d = coupon_inv_parts [OF inv]
    have rid: "rs_CouponID ?r = cp_ID c" "rs_State ?r = ReservationReserved" "holds_slot ?r"
      by (simp_all add: reserved(6) holds_slot_def)
    have chk: "cp_StoreID c = rq_StoreID req" "cp_State c = StateActive" "WindowActive c (clock w)"
        "\<not> GlobalLimitReached c"
      and buyer: "\<And>n. cp_MaxPerCustomerUses c = Some n \<Longrightarrow> rq_BuyerIdentityHash req \<noteq> [] \<Longrightarrow>
        CountBuyerCouponUsage (cp_ID c) (rq_BuyerIdentityHash req) w < n"
      using reserved(3) by (auto simp: reserve_checks_def split: if_splits option.splits)
    have slots: "held_of (cp_ID c) (coupon_reservations w') = held_of (cp_ID c) (coupon_reservations w) + 1"
        "consumed_of (cp_ID c) (coupon_reservations w') = consumed_of (cp_ID c) (coupon_reservations w)"
      using rid by (simp_all add: reserved(11) held_of_snoc)
    have "SlotsUsed c = held_of (cp_ID c) (coupon_reservations w) + consumed_of (cp_ID c) (coupon_reservations w)"
      using d(3,4) [OF reserved(2)] slots_bounded(3) [OF small] by (simp add: SlotsUsed_def)
    then have "\<forall>n. cp_MaxTotalUses c = Some n \<longrightarrow>
        held_of (cp_ID c) (coupon_reservations w') + consumed_of (cp_ID c) (coupon_reservations w') \<le> n"
      using chk(4) slots by (auto simp: GlobalLimitReached_def)
    moreover have "\<forall>n. cp_MaxPerCustomerUses c = Some n \<longrightarrow> rq_BuyerIdentityHash req \<noteq> [] \<longrightarrow>
        CountBuyerCouponUsage (cp_ID c) (rq_BuyerIdentityHash req) w' \<le> n"
      using buyer rid unfolding reserved(11) CountBuyer_snoc by (auto simp: of_bool_def)
    ultimately show ?thesis using reserved(2) rid(1) chk slots(1) by (intro bexI [of _ c]) simp_all
  qed (use new in simp)
qed

subsection \<open>Giving a slot back\<close>

definition counters :: "'m coupon_db_scheme \<Rightarrow> (string \<times> i64 \<times> i64) list" where
  "counters w = map (\<lambda>c. (cp_ID c, cp_ReservedCount c, cp_RedeemedCount c)) (coupons w)"

lemma UpdateState_succeeds:
  assumes "distinct (map rs_ID (coupon_reservations w))" and "r \<in> set (coupon_reservations w)"
    and "reservation_check (moved_to to at r) = Inr ()"
  shows "UpdateCouponReservationState (rs_ID r) (rs_State r) to at w =
    (Inr True, w\<lparr>coupon_reservations := move_row r to at (coupon_reservations w)\<rparr>)"
proof -
  have "find (\<lambda>x. rs_ID x = rs_ID r \<and> rs_State x = rs_State r) (coupon_reservations w) = Some r"
    using assms(1,2)
  proof (induction "coupon_reservations w" arbitrary: w)
    case (Cons y ys)
    then show ?case
      by (cases "y = r") (auto simp: Cons.hyps(2) [symmetric] intro: Cons.hyps(1) [of "w\<lparr>coupon_reservations := ys\<rparr>", simplified])
  qed simp
  with assms(3) show ?thesis
    by (simp add: UpdateCouponReservationState_def update_one_def move_row_def)
qed

lemma Adjust_succeeds:
  assumes "distinct (map cp_ID (coupons w))" and "c \<in> set (coupons w)" and "cp_ID c = i"
    and "in_i64 (cp_ReservedCount c + dr)" and "in_i64 (cp_RedeemedCount c + dd)"
    and "0 \<le> cp_ReservedCount c + dr" and "0 \<le> cp_RedeemedCount c + dd"
  shows "AdjustCouponCounters i dr dd w = (Inr (), w\<lparr>coupons := adjust_row i dr dd (clock w) (coupons w)\<rparr>)"
proof -
  have "find (\<lambda>x. cp_ID x = i) (coupons w) = Some c"
    using find_distinct [OF assms(1,2)] assms(3) by simp
  with assms(4-7) show ?thesis by (simp add: AdjustCouponCounters_def adjust_row_def pg_bigint_def)
qed

lemma release_held:
  assumes inv: "coupon_inv w" and r: "r \<in> set (coupon_reservations w)" "holds_slot r" and ne: "rs_ID r \<noteq> []"
    and small: "int (length (coupon_reservations w)) \<le> max_i64"
  shows "ReleaseReservation (rs_ID r) w = (Inr (moved_to ReservationReleased (clock w) r),
    w\<lparr>coupon_reservations := move_row r ReservationReleased (clock w) (coupon_reservations w),
      coupons := adjust_row (rs_CouponID r) (- 1) 0 (clock w) (coupons w)\<rparr>)"
proof -
  note d = coupon_inv_parts [OF inv]
  have "rs_CouponID r \<in> set (map cp_ID (coupons w))"
    using inv r(1) by (simp add: coupon_inv_def counters_ok_def list_all_iff)
  then obtain c where c: "c \<in> set (coupons w)" "cp_ID c = rs_CouponID r" by auto
  have ck: "reservation_check (moved_to ReservationReleased (clock w) r) = Inr ()"
    using d(6) [OF r(1)] by (simp add: reservation_check_def moved_to_def)
  have "1 \<le> cp_ReservedCount c" "0 \<le> cp_RedeemedCount c"
    using d(3,4) [OF c(1)] held_of_pos [OF r] c(2) by simp_all
  moreover have "in_i64 (cp_ReservedCount c)" "in_i64 (cp_RedeemedCount c)"
    using d(3,4) [OF c(1)] slots_bounded(1,2) [OF small] by simp_all
  ultimately have adj: "AdjustCouponCounters (rs_CouponID r) (- 1) 0
      (w\<lparr>coupon_reservations := move_row r ReservationReleased (clock w) (coupon_reservations w)\<rparr>) =
    (Inr (), w\<lparr>coupon_reservations := move_row r ReservationReleased (clock w) (coupon_reservations w),
      coupons := adjust_row (rs_CouponID r) (- 1) 0 (clock w) (coupons w)\<rparr>)"
    using d(1) c by (subst Adjust_succeeds [of _ c]) (auto simp: in_i64_def min_i64_def)
  have "rs_State r \<noteq> ReservationReleased" "rs_State r \<noteq> ReservationConsumed"
    using r(2) by (auto simp: holds_slot_def)
  moreover have "LockCouponForReserve (rs_CouponID r) w = Inr c"
    using LockCoupon_mem [OF d(1) c(1)] c(2) by simp
  ultimately have "release_tx (rs_ID r) w = (Inr (moved_to ReservationReleased (clock w) r),
    w\<lparr>coupon_reservations := move_row r ReservationReleased (clock w) (coupon_reservations w),
      coupons := adjust_row (rs_CouponID r) (- 1) 0 (clock w) (coupons w)\<rparr>)"
    using GetCouponReservation_mem(1) [OF inv r(1)] UpdateState_succeeds [OF d(2) r(1) ck] adj
    by (simp add: release_tx_def moved_to_def)
  with ne show ?thesis by (simp add: ReleaseReservation_Inr)
qed

lemma prefixed_ne [simp]: "prefixed (p # ps) i \<noteq> []"
  by (cases i) (auto simp: prefixed_def)

text \<open>
  A hold that was just taken can always be released, and then every counter is what it was before.
\<close>

theorem Reserve_Release_roundtrip:
  assumes inv: "coupon_inv w" and run: "Reserve req w = (Inr x, w1)" and new: "\<not> rr_Replayed x"
    and small: "int (length (coupon_reservations w1)) \<le> max_i64"
  shows "\<exists>r w2. ReleaseReservation (rs_ID (rr_Reservation x)) w1 = (Inr r, w2) \<and>
    rs_State r = ReservationReleased \<and> counters w2 = counters w"
proof -
  from run [unfolded Reserve_Inr] obtain m ttl where tx: "reserve_tx req m ttl w = (Inr x, w1)" by blast
  let ?r = "rr_Reservation x"
  from inv tx show ?thesis
  proof (cases rule: reserve_tx_Inr)
    case (reserved c)
    have mem: "?r \<in> set (coupon_reservations w1)" and hs: "holds_slot ?r" and cid: "rs_CouponID ?r = cp_ID c"
      by (simp_all add: reserved(11)) (simp_all add: reserved(6) holds_slot_def)
    have ne: "rs_ID ?r \<noteq> []" by (simp add: reserved(6))
    note rel = release_held [OF coupon_inv_reserve [OF inv tx] mem hs ne small]
    have "counters (w1\<lparr>coupon_reservations := rs, coupons := adjust_row (rs_CouponID ?r) (- 1) 0 t (coupons w1)\<rparr>) = counters w"
      for rs t
      by (simp add: counters_def adjust_row_def reserved(11) cid)
    with rel show ?thesis by simp
  qed (use new in simp)
qed

subsection \<open>Replays\<close>

lemma find_map_keyed:
  assumes "\<And>x. key (f x) = key x"
  shows "find (\<lambda>x. key x = k) (map f xs) = map_option f (find (\<lambda>x. key x = k) xs)"
  by (induction xs) (auto simp: assms)

lemma code_after_adjust:
  assumes "GetCouponByNormalizedCode s code w = Inr c"
  shows "GetCouponByNormalizedCode s code (w'\<lparr>coupons := adjust_row i dr dd t (coupons w)\<rparr>) =
    Inr (if cp_ID c = i then adjusted dr dd t c else c)"
proof -
  let ?f = "\<lambda>x. if cp_ID x = i then adjusted dr dd t x else x"
  have k: "(cp_StoreID x = s \<and> cp_NormalizedCode x = code) \<longleftrightarrow> coupon_key x = (s, code)" for x
    by (simp add: coupon_key_def)
  have "find (\<lambda>x. coupon_key x = (s, code)) (coupons w) = Some c"
    using assms by (simp add: GetCouponByNormalizedCode_def opt_row_def k split: option.splits)
  then have "find (\<lambda>x. coupon_key x = (s, code)) (map ?f (coupons w)) = Some (?f c)"
    by (subst find_map_keyed) simp_all
  then show ?thesis by (simp add: GetCouponByNormalizedCode_def opt_row_def k adjust_row_def)
qed

lemma idem_lookup:
  assumes "coupon_inv w" and "r \<in> set (coupon_reservations w)"
  shows "GetCouponReservationByIdempotency (rs_CouponID r) (rs_IdempotencyKey r) w = Inr r"
proof -
  have "distinct (map idem_key (coupon_reservations w))"
    using assms(1) by (simp add: coupon_inv_def reservation_rows_ok_def)
  from find_distinct [OF this assms(2)] show ?thesis
    by (simp add: GetCouponReservationByIdempotency_def opt_row_def idem_key_def)
qed

text \<open>
  Retrying a checkout whose hold was released answers the released hold as a success: the caller
  is told the discount applies, but no slot is taken for it.
\<close>

theorem Reserve_replays_released_hold:
  assumes inv: "coupon_inv w" and run: "Reserve req w = (Inr x, w1)" and new: "\<not> rr_Replayed x"
    and small: "int (length (coupon_reservations w1)) \<le> max_i64"
    and rel: "ReleaseReservation (rs_ID (rr_Reservation x)) w1 = (Inr r, w2)"
  shows "\<exists>y. Reserve req w2 = (Inr y, w2) \<and> rr_Replayed y \<and> ps_CouponApplied (rr_Price y) \<and>
    ps_DiscountIDR (rr_Price y) = ps_DiscountIDR (rr_Price x) \<and> rs_State (rr_Reservation y) = ReservationReleased"
proof -
  from run [unfolded Reserve_Inr] obtain price where ok: "complete_request req"
    and look: "product_lookup (rq_StoreID req) (rq_ProductID req) w = Inr price"
    and tx: "reserve_tx req (merchandise req price) (hold_time req) w = (Inr x, w1)" by blast
  let ?r = "rr_Reservation x"
  from inv tx show ?thesis
  proof (cases rule: reserve_tx_Inr)
    case (reserved c)
    let ?moved = "moved_to ReservationReleased (clock w1) ?r"
    have mem: "?r \<in> set (coupon_reservations w1)" and hs: "holds_slot ?r" and cid: "rs_CouponID ?r = cp_ID c"
      by (simp_all add: reserved(11)) (simp_all add: reserved(6) holds_slot_def)
    have ne: "rs_ID ?r \<noteq> []" by (simp add: reserved(6))
    note inv1 = coupon_inv_reserve [OF inv tx]
    from release_held [OF inv1 mem hs ne small] rel
    have w2: "w2 = w1\<lparr>coupon_reservations := move_row ?r ReservationReleased (clock w1) (coupon_reservations w1),
        coupons := adjust_row (cp_ID c) (- 1) 0 (clock w1) (coupons w1)\<rparr>"
      by (simp add: cid)
    from rel have "release_tx (rs_ID ?r) w1 = (Inr r, w2)" by (simp add: ReleaseReservation_Inr)
    note inv2 = coupon_inv_release [OF inv1 this]
    have "?moved \<in> set (coupon_reservations w2)" using mem by (auto simp: w2 move_row_def)
    from idem_lookup [OF inv2 this]
    have idem: "GetCouponReservationByIdempotency (cp_ID c) (rq_IdempotencyKey req) w2 = Inr ?moved"
      by (simp add: moved_to_def reserved(6) new_reservation_def)
    have "GetCouponByNormalizedCode (rq_StoreID req) (NormalizeCode (rq_CouponCode req)) w1 =
        Inr (adjusted 1 0 (clock w) c)"
      using code_after_adjust [OF reserved(1), where w' = "w\<lparr>next_id := Suc (next_id w),
          coupon_reservations := coupon_reservations w @ [?r]\<rparr>" and i = "cp_ID c" and dr = 1 and dd = 0 and t = "clock w"]
      by (simp add: reserved(11))
    from code_after_adjust [OF this, where w' = w2 and i = "cp_ID c" and dr = "- 1" and dd = 0 and t = "clock w1"]
    have code: "GetCouponByNormalizedCode (rq_StoreID req) (NormalizeCode (rq_CouponCode req)) w2 =
        Inr (adjusted (- 1) 0 (clock w1) (adjusted 1 0 (clock w) c))"
      by (simp add: w2)
    have look2: "product_lookup (rq_StoreID req) (rq_ProductID req) w2 = Inr price"
      using look by (simp add: w2 reserved(11) product_lookup_def GetProductPrice_def get_product_def)
    let ?y = "\<lparr>rr_Reservation = ?moved, rr_Price = replayed_price req ?moved, rr_Replayed = True\<rparr>"
    have "reserve_tx req (merchandise req price) (hold_time req) w2 = (Inr ?y, w2)"
      using code idem by (simp add: reserve_tx_def)
    with ok look2 have "Reserve req w2 = (Inr ?y, w2)" by (auto simp: Reserve_Inr)
    moreover have "rs_DiscountIDR ?moved = ps_DiscountIDR (rr_Price x)"
      by (simp add: moved_to_def reserved(6) new_reservation_def)
    moreover have "rs_State ?moved = ReservationReleased" by (simp add: moved_to_def)
    ultimately show ?thesis by (intro exI [of _ ?y]) (simp add: replayed_price_def)
  qed (use new in simp)
qed

subsection \<open>A small world\<close>

text \<open>One store with a published product of 50000 rupiah and one active coupon of 20 % with two uses.\<close>

definition demo_coupon :: Coupon where
  "demo_coupon = \<lparr>cp_ID = ''cpn_1'', cp_StoreID = ''st1'', cp_MerchantID = ''m1'', cp_CodeDisplay = ''HEMAT20'',
     cp_NormalizedCode = ''HEMAT20'', cp_CodeHash = ''h'', cp_DiscountKind = KindPercent, cp_DiscountValue = 2000,
     cp_MinMerchandiseIDR = 0, cp_MaxTotalUses = Some 2, cp_MaxPerCustomerUses = Some 1, cp_StartsAt = None,
     cp_EndsAt = None, cp_State = StateActive, cp_Scope = ScopeAllProducts, cp_Version = 2, cp_PolicyVersion = 1,
     cp_ReservedCount = 0, cp_RedeemedCount = 0, cp_ProductIDs = [], cp_CreatedBy = None, cp_CreatedAt = 0,
     cp_UpdatedAt = 0\<rparr>"

definition demo_product :: ProductRow where
  "demo_product = \<lparr>pr_ID = ''pr_1'', pr_StoreID = ''st1'', pr_MerchantID = ''m1'', pr_Slug = ''kelas'', pr_Title = ''Kelas'',
     pr_PriceIDR = 50000, pr_Type = ''code'', pr_Status = ''published'', pr_Version = ''1.0.0'', pr_AllowPWYT = False,
     pr_MinimumPriceIDR = None, pr_ActiveSchemaVersion = None, pr_CreatedAt = 0, pr_UpdatedAt = 0\<rparr>"

definition demo_shop :: coupon_db where
  "demo_shop = \<lparr>id_gen = (\<lambda>n. show_int (int n)), next_id = 0, clock = 1000, schema_meta = Map.empty,
     merchants = [''m1''], stores = [(''st1'', ''m1'')], fee_policies = [], fee_snapshots = [],
     journals = [], entries = [], lots = [], balances = Map.empty, source_balances = Map.empty,
     payment_settlements = Map.empty, bank_accounts = [], withdrawal_locks = [], withdrawal_quotes = [],
     withdrawals = [], allocations = [], payouts = [], products = [demo_product], merchant_members = [],
     user_roles = [], roles = [], coupons = [demo_coupon], coupon_scopes = [], coupon_reservations = [],
     coupon_redemptions = []\<rparr>"

definition demo_hold :: ReserveRequest where
  "demo_hold = \<lparr>rq_StoreID = ''st1'', rq_ProductID = ''pr_1'', rq_OrderID = ''ord_1'', rq_IdempotencyKey = ''k1'',
     rq_MerchandiseIDR = 0, rq_TipIDR = 0, rq_UpsellIDR = 0, rq_CouponCode = ''hemat20'', rq_ClientDiscountIDR = 0,
     rq_BuyerIdentityHash = ''b'', rq_TTL = 0\<rparr>"

definition demo_price :: PriceSnapshot where
  "demo_price = BuildPriceSnapshot ''st1'' ''pr_1'' 50000 0 0 (Some demo_coupon) True"

definition demo_reservation :: Reservation where
  "demo_reservation = new_reservation demo_hold demo_coupon demo_price ''cpr_0'' DefaultReservationTTL 1000"

definition demo_held :: coupon_db where
  "demo_held = demo_shop\<lparr>next_id := 1, coupon_reservations := [demo_reservation],
     coupons := adjust_row ''cpn_1'' 1 0 1000 [demo_coupon]\<rparr>"

lemma demo_shop_fields [simp]:
  "coupons demo_shop = [demo_coupon]" "coupon_reservations demo_shop = []" "coupon_redemptions demo_shop = []"
  "products demo_shop = [demo_product]" "clock demo_shop = 1000" "next_id demo_shop = 0"
  "id_gen demo_shop = (\<lambda>n. show_int (int n))" "stores demo_shop = [(''st1'', ''m1'')]" "coupon_scopes demo_shop = []"
  by (simp_all add: demo_shop_def)

lemma demo_shop_inv: "coupon_inv demo_shop"
  by (simp add: coupon_inv_def coupon_rows_ok_def reservation_rows_ok_def counters_ok_def redemptions_ok_def
      coupon_check_def demo_coupon_def held_of_def consumed_of_def)

lemma demo_code: "NormalizeCode ''hemat20'' = ''HEMAT20''" "trim_space ''hemat20'' = ''hemat20''"
  by code_simp+

lemma demo_ids: "prefixed ''cpr_'' (show_int 0) = ''cpr_0''" "prefixed ''crd_'' (show_int 1) = ''crd_1''"
  by code_simp+

lemma demo_coupon_fields [simp]:
  "cp_ID demo_coupon = ''cpn_1''" "cp_StoreID demo_coupon = ''st1''" "cp_NormalizedCode demo_coupon = ''HEMAT20''"
  "cp_DiscountKind demo_coupon = KindPercent" "cp_DiscountValue demo_coupon = 2000"
  "cp_MinMerchandiseIDR demo_coupon = 0" "cp_MaxTotalUses demo_coupon = Some 2"
  "cp_MaxPerCustomerUses demo_coupon = Some 1" "cp_StartsAt demo_coupon = None" "cp_EndsAt demo_coupon = None"
  "cp_State demo_coupon = StateActive" "cp_Scope demo_coupon = ScopeAllProducts"
  "cp_ReservedCount demo_coupon = 0" "cp_RedeemedCount demo_coupon = 0" "cp_PolicyVersion demo_coupon = 1"
  by (simp_all add: demo_coupon_def)

lemma demo_hold_fields [simp]:
  "rq_StoreID demo_hold = ''st1''" "rq_ProductID demo_hold = ''pr_1''" "rq_OrderID demo_hold = ''ord_1''"
  "rq_IdempotencyKey demo_hold = ''k1''" "rq_MerchandiseIDR demo_hold = 0" "rq_TipIDR demo_hold = 0"
  "rq_UpsellIDR demo_hold = 0" "rq_CouponCode demo_hold = ''hemat20''" "rq_BuyerIdentityHash demo_hold = ''b''"
  "rq_TTL demo_hold = 0"
  by (simp_all add: demo_hold_def)

lemma demo_price_fields [simp]: "ps_DiscountIDR demo_price = 10000" "ps_GrossIDR demo_price = 40000"
  "ps_EligibleSubtotalIDR demo_price = 50000" "ps_MerchandiseIDR demo_price = 50000" "ps_TipIDR demo_price = 0"
  "ps_UpsellIDR demo_price = 0" "ps_CouponApplied demo_price"
  by code_simp+

lemma demo_reserves:
  "Reserve demo_hold demo_shop =
    (Inr \<lparr>rr_Reservation = demo_reservation, rr_Price = demo_price, rr_Replayed = False\<rparr>, demo_held)"
proof -
  have look: "product_lookup ''st1'' ''pr_1'' demo_shop = Inr 50000"
    by (simp add: product_lookup_def GetProductPrice_def get_product_def demo_product_def opt_row_def)
  have code: "GetCouponByNormalizedCode ''st1'' ''HEMAT20'' demo_shop = Inr demo_coupon"
    by (simp add: GetCouponByNormalizedCode_def opt_row_def demo_coupon_def)
  have lock: "LockCouponForReserve ''cpn_1'' demo_shop = Inr demo_coupon"
    by (simp add: LockCouponForReserve_def opt_row_def demo_coupon_def)
  have chk: "reserve_checks demo_hold 50000 1000 demo_coupon demo_shop = Inr ()"
    by (simp add: reserve_checks_def WindowActive_def MeetsMinimum_def ProductInScope_def
        GlobalLimitReached_def SlotsUsed_def CountBuyerCouponUsage_def)
  have ins: "InsertCouponReservation demo_reservation (demo_shop\<lparr>next_id := 1\<rparr>) =
      (Inr (), demo_shop\<lparr>next_id := 1, coupon_reservations := [demo_reservation]\<rparr>)"
    unfolding InsertCouponReservation_Inr
    by (simp add: reservation_check_def demo_reservation_def new_reservation_def)
  have adj: "AdjustCouponCounters ''cpn_1'' 1 0 (demo_shop\<lparr>next_id := 1, coupon_reservations := [demo_reservation]\<rparr>) =
      (Inr (), demo_held)"
    by (subst Adjust_succeeds [of _ demo_coupon]) (simp_all add: demo_held_def i64_bounds)
  have snap: "BuildPriceSnapshot ''st1'' ''pr_1'' 50000 0 0 (Some demo_coupon) True = demo_price"
    by (simp add: demo_price_def)
  have res: "new_reservation demo_hold demo_coupon demo_price ''cpr_0'' DefaultReservationTTL 1000 = demo_reservation"
    by (simp add: demo_reservation_def)
  have "reserve_tx demo_hold 50000 DefaultReservationTTL demo_shop =
    (Inr \<lparr>rr_Reservation = demo_reservation, rr_Price = demo_price, rr_Replayed = False\<rparr>, demo_held)"
    using code lock chk ins adj snap res
    by (simp add: reserve_tx_def demo_code GetCouponReservationByIdempotency_def opt_row_def
        is_not_found_def bindS_def try_op_def Let_def demo_ids)
  then show ?thesis
    unfolding Reserve_Inr using look by (simp add: complete_request_def demo_code merchandise_def hold_time_def)
qed

definition demo_released :: coupon_db where
  "demo_released = demo_held\<lparr>
     coupon_reservations := move_row demo_reservation ReservationReleased 1000 (coupon_reservations demo_held),
     coupons := adjust_row ''cpn_1'' (- 1) 0 1000 (coupons demo_held)\<rparr>"

lemma demo_held_inv: "coupon_inv demo_held"
  using sound_coupons.step [OF coupon_step.reserve [OF demo_reserves] demo_shop_inv] .

lemma demo_reservation_fields [simp]: "rs_ID demo_reservation = ''cpr_0''" "rs_CouponID demo_reservation = ''cpn_1''"
  "rs_State demo_reservation = ReservationReserved" "rs_ExpiresAt demo_reservation = 1000 + DefaultReservationTTL"
  by (simp_all add: demo_reservation_def new_reservation_def)

lemma demo_held_fields [simp]: "coupon_reservations demo_held = [demo_reservation]" "clock demo_held = 1000"
  "coupon_redemptions demo_held = []"
  by (simp_all add: demo_held_def)

lemma demo_releases:
  "ReleaseReservation ''cpr_0'' demo_held = (Inr (moved_to ReservationReleased 1000 demo_reservation), demo_released)"
  using release_held [OF demo_held_inv, of demo_reservation]
  by (simp add: holds_slot_def max_i64_def demo_released_def)

definition demo_redemption :: Redemption where
  "demo_redemption = redemption_of demo_reservation ''crd_1'' 1000"

definition demo_redeemed :: coupon_db where
  "demo_redeemed = demo_held\<lparr>next_id := 2,
     coupon_reservations := move_row demo_reservation ReservationConsumed 1000 [demo_reservation],
     coupons := adjust_row ''cpn_1'' (- 1) 1 1000 (coupons demo_held),
     coupon_redemptions := [demo_redemption]\<rparr>"

lemma demo_redeems: "ConvertReservationToRedemption ''cpr_0'' demo_held = (Inr demo_redemption, demo_redeemed)"
proof -
  have get: "reservation_of ''cpr_0'' demo_held = Inr demo_reservation"
    by (simp add: reservation_of_def GetCouponReservation_def opt_row_def)
  have none: "GetRedemptionByReservation ''cpr_0'' demo_held = Inl ErrNoRows"
    by (simp add: GetRedemptionByReservation_def opt_row_def)
  have "LockCouponForReserve ''cpn_1'' demo_held = Inr (adjusted 1 0 1000 demo_coupon)"
    by (simp add: LockCouponForReserve_def opt_row_def demo_held_def adjust_row_def)
  moreover have "UpdateCouponReservationState ''cpr_0'' ReservationReserved ReservationConsumed 1000 demo_held =
      (Inr True, demo_held\<lparr>coupon_reservations := move_row demo_reservation ReservationConsumed 1000 [demo_reservation]\<rparr>)"
    using UpdateState_succeeds [of demo_held demo_reservation ReservationConsumed 1000]
    by (simp add: reservation_check_def moved_to_def demo_reservation_def new_reservation_def)
  moreover have "AdjustCouponCounters ''cpn_1'' (- 1) 1
      (demo_held\<lparr>coupon_reservations := move_row demo_reservation ReservationConsumed 1000 [demo_reservation]\<rparr>) =
    (Inr (), demo_held\<lparr>coupon_reservations := move_row demo_reservation ReservationConsumed 1000 [demo_reservation],
      coupons := adjust_row ''cpn_1'' (- 1) 1 1000 (coupons demo_held)\<rparr>)"
    by (subst Adjust_succeeds [of _ "adjusted 1 0 1000 demo_coupon"])
      (simp_all add: demo_held_def adjust_row_def i64_bounds)
  moreover have "InsertRedemption demo_redemption (demo_held\<lparr>
      coupon_reservations := move_row demo_reservation ReservationConsumed 1000 [demo_reservation],
      coupons := adjust_row ''cpn_1'' (- 1) 1 1000 (coupons demo_held), next_id := Suc (Suc 0)\<rparr>) = (Inr (), demo_redeemed)"
    unfolding InsertRedemption_def insert_Inr bindE_eq_Inr
    by (simp add: redemption_check_def demo_redemption_def redemption_of_def demo_redeemed_def move_row_def
        adjust_row_def demo_held_def demo_reservation_def new_reservation_def)
  moreover have "redemption_of demo_reservation ''crd_1'' 1000 = demo_redemption" by (simp add: demo_redemption_def)
  moreover have "next_id demo_held = 1" "id_gen demo_held = (\<lambda>n. show_int (int n))" by (simp_all add: demo_held_def)
  ultimately have "convert_tx ''cpr_0'' demo_held = (Inr demo_redemption, demo_redeemed)"
    using get none
    by (simp add: convert_tx_def is_not_found_def bindS_def try_op_def Let_def demo_ids)
  then show ?thesis by (simp add: ConvertReservation_Inr)
qed

lemma later: "coupon_step\<^sup>*\<^sup>* w (w\<lparr>clock := t\<rparr>)"
  using coupon_step.tick by (rule r_into_rtranclp)

theorem release_is_final_witness:
  "ConvertReservationToRedemption ''cpr_0'' (demo_released\<lparr>clock := 9000\<rparr>) =
    (Inl ErrReservationState, demo_released\<lparr>clock := 9000\<rparr>)"
  using release_is_final [OF demo_held_inv demo_releases later] by blast

theorem redemption_is_final_witness:
  "ReleaseReservation ''cpr_0'' (demo_redeemed\<lparr>clock := 9000\<rparr>) =
    (Inl ErrReservationState, demo_redeemed\<lparr>clock := 9000\<rparr>)"
  using redemption_is_final [OF demo_held_inv demo_redeems later] by blast

theorem coupon_history_sound_witness:
  "coupon_step\<^sup>*\<^sup>* demo_shop demo_redeemed \<and> coupon_inv demo_redeemed"
proof -
  have "coupon_step demo_shop demo_held" by (rule coupon_step.reserve [OF demo_reserves])
  moreover have "coupon_step demo_held demo_redeemed" by (rule coupon_step.convert [OF demo_redeems])
  ultimately have run: "coupon_step\<^sup>*\<^sup>* demo_shop demo_redeemed" by simp
  have "adjusted (- 1) 1 1000 (adjusted 1 0 1000 demo_coupon) \<in> set (coupons demo_redeemed)"
    by (simp add: demo_redeemed_def demo_held_def adjust_row_def)
  from coupon_history_sound [OF demo_shop_inv run this] run show ?thesis by blast
qed

theorem Reserve_within_limits_witness:
  "CountBuyerCouponUsage ''cpn_1'' ''b'' demo_held \<le> 1"
  using Reserve_within_limits [OF demo_shop_inv demo_reserves] by (simp add: max_i64_def)

theorem Reserve_Release_roundtrip_witness:
  "\<exists>r w2. ReleaseReservation ''cpr_0'' demo_held = (Inr r, w2) \<and> rs_State r = ReservationReleased \<and>
    counters w2 = counters demo_shop"
  using Reserve_Release_roundtrip [OF demo_shop_inv demo_reserves] by (simp add: max_i64_def)

theorem Reserve_replays_released_hold_witness:
  "\<exists>y. Reserve demo_hold demo_released = (Inr y, demo_released) \<and> ps_DiscountIDR (rr_Price y) = 10000 \<and>
    rs_State (rr_Reservation y) = ReservationReleased"
proof -
  let ?x = "\<lparr>rr_Reservation = demo_reservation, rr_Price = demo_price, rr_Replayed = False\<rparr>"
  have "ReleaseReservation (rs_ID (rr_Reservation ?x)) demo_held =
      (Inr (moved_to ReservationReleased 1000 demo_reservation), demo_released)" by (simp add: demo_releases)
  from Reserve_replays_released_hold [OF demo_shop_inv demo_reserves _ _ this]
  obtain y where "Reserve demo_hold demo_released = (Inr y, demo_released)" "ps_DiscountIDR (rr_Price y) = 10000"
    "rs_State (rr_Reservation y) = ReservationReleased" by (auto simp: max_i64_def)
  then show ?thesis by (intro exI conjI)
qed

end
