(* ===== verification/Json_Text.thy ===== *)
theory Json_Text
  imports Digest "HOL-Library.AList"
begin

text \<open>
  The parts of \<open>encoding/json\<close> and \<open>strconv\<close> the modelled packages use: \<open>json.Marshal\<close> of strings,
  booleans, lists and string maps (with the HTML escaping that is its default), \<open>json.Unmarshal\<close>
  into a \<open>map[string]string\<close>, and \<open>strconv.Quote\<close> (the verb \<open>%q\<close>). A text is the list of its
  bytes. Bytes above 127 are copied, as the library does for valid UTF-8 without the line separators
  U+2028 and U+2029.
\<close>

abbreviation "chr_quote \<equiv> CHR 0x22"
abbreviation "chr_backslash \<equiv> CHR 0x5C"

subsection \<open>Marshalling\<close>

definition hex2 :: "nat \<Rightarrow> string" where
  "hex2 n = [hex_char (int (n div 16)), hex_char (int (n mod 16))]"

definition json_escape_char :: "char \<Rightarrow> string" where
  "json_escape_char c =
    (let n = of_char c :: nat in
     if c = chr_quote \<or> c = chr_backslash then [chr_backslash, c]
     else if n = 8 then [chr_backslash, CHR ''b'']
     else if n = 12 then [chr_backslash, CHR ''f'']
     else if n = 10 then [chr_backslash, CHR ''n'']
     else if n = 13 then [chr_backslash, CHR ''r'']
     else if n = 9 then [chr_backslash, CHR ''t'']
     else if n < 32 \<or> c = CHR ''<'' \<or> c = CHR ''>'' \<or> c = CHR ''&''
       then [chr_backslash, CHR ''u'', CHR ''0'', CHR ''0''] @ hex2 n
     else [c])"

definition json_escape :: "string \<Rightarrow> string" where
  "json_escape s = concat (map json_escape_char s)"

definition json_string :: "string \<Rightarrow> string" where
  "json_string s = chr_quote # json_escape s @ [chr_quote]"

definition json_bool :: "bool \<Rightarrow> string" where
  "json_bool b = (if b then ''true'' else ''false'')"

fun join_with :: "string \<Rightarrow> string list \<Rightarrow> string" where
  "join_with sep [] = []"
| "join_with sep [x] = x"
| "join_with sep (x # y # ys) = x @ sep @ join_with sep (y # ys)"

definition json_array :: "string list \<Rightarrow> string" where
  "json_array xs = CHR ''['' # join_with '','' xs @ '']''"

definition json_member :: "string \<times> string \<Rightarrow> string" where
  "json_member kv = json_string (fst kv) @ CHR '':'' # snd kv"

text \<open>The members of a struct come in the order of its fields, those of a map sorted by key.\<close>

definition json_object :: "(string \<times> string) list \<Rightarrow> string" where
  "json_object kvs = CHR ''{'' # join_with '','' (map json_member kvs) @ ''}''"

definition json_string_map :: "(string \<times> string) list \<Rightarrow> string" where
  "json_string_map m = json_object (map (\<lambda>(k, v). (k, json_string v)) (sort_key fst m))"

subsection \<open>Unmarshalling into a string map\<close>

definition hex_val :: "char \<Rightarrow> nat option" where
  "hex_val c = (let n = of_char c :: nat in
     if 48 \<le> n \<and> n \<le> 57 then Some (n - 48)
     else if 97 \<le> n \<and> n \<le> 102 then Some (n - 87)
     else if 65 \<le> n \<and> n \<le> 70 then Some (n - 55)
     else None)"

definition hex4 :: "char \<Rightarrow> char \<Rightarrow> char \<Rightarrow> char \<Rightarrow> nat option" where
  "hex4 a b c d = (case (hex_val a, hex_val b, hex_val c, hex_val d) of
     (Some w, Some x, Some y, Some z) \<Rightarrow> Some (((w * 16 + x) * 16 + y) * 16 + z) | _ \<Rightarrow> None)"

definition utf8 :: "nat \<Rightarrow> string" where
  "utf8 n = map char_of
    (if n < 0x80 then [n]
     else if n < 0x800 then [0xC0 + n div 64, 0x80 + n mod 64]
     else if n < 0x10000 then [0xE0 + n div 4096, 0x80 + n div 64 mod 64, 0x80 + n mod 64]
     else [0xF0 + n div 262144, 0x80 + n div 4096 mod 64, 0x80 + n div 64 mod 64, 0x80 + n mod 64])"

definition short_escape :: "char \<Rightarrow> char option" where
  "short_escape c =
    (if c = chr_quote \<or> c = chr_backslash \<or> c = CHR ''/'' then Some c
     else if c = CHR ''b'' then Some (char_of (8 :: nat))
     else if c = CHR ''f'' then Some (char_of (12 :: nat))
     else if c = CHR ''n'' then Some (char_of (10 :: nat))
     else if c = CHR ''r'' then Some (char_of (13 :: nat))
     else if c = CHR ''t'' then Some (char_of (9 :: nat))
     else None)"

text \<open>
  The code point of an escape \<open>\u\<close> with its four digits and, for the first half of a surrogate pair,
  the second half after it; a half on its own stands for U+FFFD.
\<close>

definition surrogate :: "nat \<Rightarrow> bool" where
  "surrogate n \<longleftrightarrow> 0xD800 \<le> n \<and> n < 0xE000"

definition second_half :: "string \<Rightarrow> nat option" where
  "second_half s = (case s of
     b # u # w # x # y # z # rest \<Rightarrow> (if b = chr_backslash \<and> u = CHR ''u'' then hex4 w x y z else None) | _ \<Rightarrow> None)"

definition escaped_point :: "nat \<Rightarrow> string \<Rightarrow> nat \<times> string" where
  "escaped_point n rest =
    (if \<not> surrogate n then (n, rest)
     else case second_half rest of
       Some m \<Rightarrow> (if n < 0xDC00 \<and> 0xDC00 \<le> m \<and> m < 0xE000
          then (0x10000 + (n - 0xD800) * 1024 + (m - 0xDC00), drop 6 rest) else (0xFFFD, rest))
     | None \<Rightarrow> (0xFFFD, rest))"

definition json_prepend :: "string \<Rightarrow> (string \<times> string) option \<Rightarrow> (string \<times> string) option" where
  "json_prepend p r = map_option (\<lambda>(s, rest). (p @ s, rest)) r"

lemma escaped_point_shrinks: "length (snd (escaped_point n rest)) \<le> length rest"
  by (simp add: escaped_point_def split: option.split)

lemma json_prepend_Some [simp]:
  "json_prepend p r = Some (t, rest) \<longleftrightarrow> (\<exists>s. r = Some (s, rest) \<and> t = p @ s)"
  by (auto simp: json_prepend_def)

text \<open>The characters of a string after its opening quote, and the text after its closing quote.\<close>

function json_chars :: "string \<Rightarrow> (string \<times> string) option" where
  "json_chars s = (case s of [] \<Rightarrow> None | c # cs \<Rightarrow>
     if c = chr_quote then Some ([], cs)
     else if c = chr_backslash then (case cs of [] \<Rightarrow> None | e # ds \<Rightarrow>
       if e = CHR ''u'' then (case ds of
           w # x # y # z # rest \<Rightarrow> (case hex4 w x y z of None \<Rightarrow> None
              | Some n \<Rightarrow> json_prepend (utf8 (fst (escaped_point n rest))) (json_chars (snd (escaped_point n rest))))
         | _ \<Rightarrow> None)
       else (case short_escape e of None \<Rightarrow> None | Some x \<Rightarrow> json_prepend [x] (json_chars ds)))
     else if of_char c < (32 :: nat) then None
     else json_prepend [c] (json_chars cs))"
  by pat_completeness auto
termination
proof (relation "measure length", simp_all)
  fix n :: nat and rest :: string
  show "length (snd (escaped_point n rest)) < Suc (Suc (Suc (Suc (Suc (Suc (length rest))))))"
    using escaped_point_shrinks [of n rest] by simp
qed

declare json_chars.simps [simp del]

definition json_ws :: "string \<Rightarrow> string" where
  "json_ws s = dropWhile (\<lambda>c. of_char c \<in> {32, 9, 10, 13 :: nat}) s"

text \<open>A string or \<open>null\<close>, which sets the element to the empty string; anything else is an error.\<close>

definition json_value :: "string \<Rightarrow> (string \<times> string) option" where
  "json_value s = (case s of [] \<Rightarrow> None | c # cs \<Rightarrow>
     if c = chr_quote then json_chars cs
     else if has_prefix ''null'' s then Some ([], drop 4 s) else None)"

definition json_expect :: "char \<Rightarrow> string \<Rightarrow> string option" where
  "json_expect c s = (case json_ws s of [] \<Rightarrow> None | d # rest \<Rightarrow> if d = c then Some rest else None)"

definition json_pair :: "string \<Rightarrow> ((string \<times> string) \<times> string) option" where
  "json_pair s = Option.bind (json_expect chr_quote s) (\<lambda>s. Option.bind (json_chars s) (\<lambda>(k, s).
     Option.bind (json_expect (CHR '':'') s) (\<lambda>s. Option.bind (json_value (json_ws s)) (\<lambda>(v, s).
     Some ((k, v), json_ws s)))))"

lemma json_chars_shrinks: "json_chars s = Some (t, rest) \<Longrightarrow> length rest < length s"
proof (induction s arbitrary: t rule: json_chars.induct)
  case (1 s)
  from "1.prems" have run: "json_chars s = Some (t, rest)" .
  then obtain c cs where s: "s = c # cs" by (cases s) (simp_all add: json_chars.simps)
  note run = run [unfolded s json_chars.simps [of "c # cs"] list.case]
  show ?case
  proof (cases "c = chr_quote")
    case True
    with run s show ?thesis by simp
  next
    case quote: False
    show ?thesis
    proof (cases "c = chr_backslash")
      case False
      with quote run s have "\<not> of_char c < (32 :: nat)" "\<exists>u. json_chars cs = Some (u, rest)"
        by (auto split: if_splits)
      with "1.IH"(3) [OF s quote False] s show ?thesis by fastforce
    next
      case esc: True
      with run s obtain e ds where cs: "cs = e # ds" by (cases cs) simp_all
      show ?thesis
      proof (cases "e = CHR ''u''")
        case True
        with run s cs esc obtain w x y z r n where ds: "ds = w # x # y # z # r" and n: "hex4 w x y z = Some n"
          and rec: "\<exists>u. json_chars (snd (escaped_point n r)) = Some (u, rest)"
          by (auto split: list.splits option.splits)
        from "1.IH"(1) [OF s quote esc cs True ds refl refl refl n] rec
        have "length rest < length (snd (escaped_point n r))" by blast
        with escaped_point_shrinks [of n r] show ?thesis by (simp add: s cs ds)
      next
        case False
        with run s cs esc obtain x where x: "short_escape e = Some x" and rec: "\<exists>u. json_chars ds = Some (u, rest)"
          by (auto split: option.splits)
        from "1.IH"(2) [OF s quote esc cs False x] rec show ?thesis by (auto simp: s cs)
      qed
    qed
  qed
qed

lemma json_ws_shrinks: "length (json_ws s) \<le> length s"
  by (simp add: json_ws_def length_dropWhile_le)

lemma json_expect_shrinks: "json_expect c s = Some r \<Longrightarrow> length r < length s"
  using json_ws_shrinks [of s] by (auto simp: json_expect_def split: list.splits if_splits)

lemma json_value_shrinks: "json_value s = Some (v, r) \<Longrightarrow> length r < length s"
  by (auto simp: json_value_def split: list.splits if_splits dest: json_chars_shrinks)

lemma json_pair_shrinks: "json_pair s = Some (p, r) \<Longrightarrow> length r < length s"
proof -
  assume "json_pair s = Some (p, r)"
  then obtain s1 k s2 s3 v s4 where "json_expect chr_quote s = Some s1" "json_chars s1 = Some (k, s2)"
    "json_expect (CHR '':'') s2 = Some s3" "json_value (json_ws s3) = Some (v, s4)" "r = json_ws s4"
    by (auto simp: json_pair_def bind_eq_Some_conv)
  from json_expect_shrinks [OF this(1)] json_chars_shrinks [OF this(2)] json_expect_shrinks [OF this(3)]
    json_value_shrinks [OF this(4)] json_ws_shrinks [of s3] json_ws_shrinks [of s4] this(5)
  show ?thesis by simp
qed

text \<open>The members of an object after its opening brace or after a comma, up to its closing brace.\<close>

function json_members :: "string \<Rightarrow> ((string \<times> string) list \<times> string) option" where
  "json_members s = (case json_pair s of None \<Rightarrow> None
     | Some (kv, r) \<Rightarrow> (case r of [] \<Rightarrow> None
        | c # r' \<Rightarrow> if c = CHR ''}'' then Some ([kv], r')
            else if c = CHR '','' then map_option (\<lambda>(kvs, r). (kv # kvs, r)) (json_members r')
            else None))"
  by pat_completeness auto
termination
  by (relation "measure length") (auto dest: json_pair_shrinks)

declare json_members.simps [simp del]

definition map_set :: "'k \<Rightarrow> 'v \<Rightarrow> ('k \<times> 'v) list \<Rightarrow> ('k \<times> 'v) list" where
  "map_set k v m = AList.update k v m"

text \<open>\<open>json.Unmarshal\<close> into an empty \<open>map[string]string\<close>: a later duplicate of a key wins.\<close>

definition json_parse_map :: "string \<Rightarrow> (string \<times> string) list option" where
  "json_parse_map s =
    (let t = json_ws s in
     if has_prefix ''null'' t then (if json_ws (drop 4 t) = [] then Some [] else None)
     else case json_expect (CHR ''{'') t of None \<Rightarrow> None
       | Some r \<Rightarrow> (case json_expect (CHR ''}'') r of
           Some r' \<Rightarrow> (if json_ws r' = [] then Some [] else None)
         | None \<Rightarrow> (case json_members r of None \<Rightarrow> None
             | Some (kvs, r') \<Rightarrow> if json_ws r' = [] then Some (fold (\<lambda>(k, v). map_set k v) kvs []) else None)))"

subsection \<open>Reading back what was written\<close>

lemma hex_val_hex_char: "n < 16 \<Longrightarrow> hex_val (hex_char (int n)) = Some n"
proof -
  assume n: "n < 16"
  have "(of_char (hex_char (int n)) :: int) = int (if n < 10 then 48 + n else 87 + n)"
    using n by (simp add: hex_char_def)
  then have "int (of_char (hex_char (int n))) = int (if n < 10 then 48 + n else 87 + n)"
    by (simp only: of_nat_of_char)
  then have "of_char (hex_char (int n)) = (if n < 10 then 48 + n else 87 + n)" by (simp only: of_nat_eq_iff)
  with n show ?thesis by (simp add: hex_val_def Let_def)
qed

lemma hex4_hex2: "n < 256 \<Longrightarrow> hex4 (CHR ''0'') (CHR ''0'') (hex_char (int (n div 16))) (hex_char (int (n mod 16))) = Some n"
proof -
  assume n: "n < 256"
  have "hex_val (CHR ''0'') = Some 0" by code_simp
  moreover have "hex_val (hex_char (int (n div 16))) = Some (n div 16)" using n by (intro hex_val_hex_char) simp
  moreover have "hex_val (hex_char (int (n mod 16))) = Some (n mod 16)" by (intro hex_val_hex_char) simp
  ultimately show ?thesis by (simp add: hex4_def)
qed

lemma json_chars_step: "json_chars (json_escape_char c @ t) = json_prepend [c] (json_chars t)"
proof -
  have short: "json_chars (chr_backslash # e # t) = json_prepend [x] (json_chars t)"
    if "short_escape e = Some x" "e \<noteq> CHR ''u''" for e x
    using that by (subst json_chars.simps) simp
  have long: "json_chars (chr_backslash # CHR ''u'' # CHR ''0'' # CHR ''0'' # hex2 (of_char c) @ t) =
      json_prepend [c] (json_chars t)" if "of_char c < (128 :: nat)"
  proof -
    have "hex4 (CHR ''0'') (CHR ''0'') (hex_char (int (of_char c div 16))) (hex_char (int (of_char c mod 16))) =
        Some (of_char c)" using that by (intro hex4_hex2) simp
    with that show ?thesis
      by (subst json_chars.simps) (simp add: hex2_def escaped_point_def surrogate_def utf8_def)
  qed
  have plain: "json_chars (c # t) = json_prepend [c] (json_chars t)"
    if "c \<noteq> chr_quote" "c \<noteq> chr_backslash" "\<not> of_char c < (32 :: nat)"
    using that by (subst json_chars.simps) simp
  have char: "c = char_of n" if "of_char c = n" for n :: nat using that by (metis char_of_char)
  define n where "n = (of_char c :: nat)"
  consider "c = chr_quote \<or> c = chr_backslash" | "n = 8" | "n = 12" | "n = 10" | "n = 13" | "n = 9"
    | "c \<noteq> chr_quote" "c \<noteq> chr_backslash" "n \<notin> {8, 12, 10, 13, 9}" by auto
  then show ?thesis
  proof cases
    case 1
    then show ?thesis using short [of c c] by (auto simp: json_escape_char_def short_escape_def)
  next
    case 7
    show ?thesis
    proof (cases "n < 32 \<or> c = CHR ''<'' \<or> c = CHR ''>'' \<or> c = CHR ''&''")
      case True
      then have "n < 128" by (auto simp: n_def)
      with True 7 long show ?thesis by (simp add: json_escape_char_def n_def [symmetric])
    next
      case False
      with 7 plain show ?thesis by (simp add: json_escape_char_def n_def [symmetric])
    qed
  qed (use short char [folded n_def] in \<open>simp add: json_escape_char_def short_escape_def\<close>)+
qed

lemma json_chars_escape: "json_chars (json_escape s @ chr_quote # r) = Some (s, r)"
proof (induction s)
  case Nil
  show ?case by (subst json_chars.simps) (simp add: json_escape_def)
next
  case (Cons c s)
  have "json_chars (json_escape_char c @ json_escape s @ chr_quote # r) = Some (c # s, r)"
    by (subst json_chars_step) (simp add: Cons)
  then show ?case by (simp add: json_escape_def)
qed

lemma json_ws_skip [simp]: "of_char c \<notin> {32, 9, 10, 13 :: nat} \<Longrightarrow> json_ws (c # s) = c # s"
  by (simp add: json_ws_def)

lemma json_pair_member: "json_pair (json_member (k, json_string v) @ t) = Some ((k, v), json_ws t)"
  by (simp add: json_pair_def json_member_def json_string_def json_expect_def json_value_def json_chars_escape)

lemma json_members_written:
  "kvs \<noteq> [] \<Longrightarrow> json_members (join_with '','' (map json_member (map (\<lambda>(k, v). (k, json_string v)) kvs)) @ CHR ''}'' # r) =
     Some (kvs, r)"
proof (induction kvs)
  case (Cons kv kvs)
  obtain k v where kv: "kv = (k, v)" by (cases kv)
  show ?case
  proof (cases kvs)
    case Nil
    then show ?thesis by (subst json_members.simps) (simp add: kv json_pair_member)
  next
    case (Cons x xs)
    then have "json_members (join_with '','' (map json_member (map (\<lambda>(k, v). (k, json_string v)) kvs)) @ CHR ''}'' # r) =
        Some (kvs, r)" using Cons.IH by simp
    with Cons show ?thesis by (subst json_members.simps) (simp add: kv json_pair_member)
  qed
qed simp

lemma map_set_new: "k \<notin> fst ` set m \<Longrightarrow> map_set k v m = m @ [(k, v)]"
  by (induction m) (auto simp: map_set_def)

lemma fold_map_set: "distinct (map fst (m @ kvs)) \<Longrightarrow> fold (\<lambda>(k, v). map_set k v) kvs m = m @ kvs"
proof (induction kvs arbitrary: m)
  case (Cons kv kvs)
  then have "fst kv \<notin> fst ` set m" by auto
  then have "(\<lambda>(k, v). map_set k v) kv m = m @ [kv]" by (cases kv) (simp add: map_set_new)
  with Cons show ?case by simp
qed simp

lemma json_map_roundtrip:
  assumes "distinct (map fst m)"
  shows "json_parse_map (json_string_map m) = Some (sort_key fst m)"
proof (cases "sort_key fst m = []")
  case True
  then show ?thesis
    by (simp add: json_parse_map_def json_string_map_def json_object_def json_expect_def) (simp add: json_ws_def)
next
  case False
  let ?m = "sort_key fst m"
  let ?text = "join_with '','' (map json_member (map (\<lambda>(k, v). (k, json_string v)) ?m))"
  have "distinct (map fst ?m)" using assms by (simp add: distinct_map inj_on_def)
  then have "fold (\<lambda>(k, v). map_set k v) ?m [] = ?m" using fold_map_set [of "[]"] by simp
  moreover have "json_members (?text @ ''}'') = Some (?m, [])" using json_members_written [OF False] by simp
  moreover obtain u where "?text = chr_quote # u"
    using False by (cases ?m rule: list.exhaust; cases "tl ?m") (auto simp: json_member_def json_string_def split: prod.splits)
  then have "json_expect (CHR ''}'') (?text @ ''}'') = None" by (simp add: json_expect_def)
  ultimately show ?thesis
    unfolding json_parse_map_def json_string_map_def json_object_def
    by (simp add: json_expect_def [of "CHR ''{''"]) (simp add: json_ws_def)
qed

subsection \<open>Quoting in error messages\<close>

definition quote_char :: "char \<Rightarrow> string" where
  "quote_char c =
    (let n = of_char c :: nat in
     if c = chr_quote \<or> c = chr_backslash then [chr_backslash, c]
     else if n = 7 then [chr_backslash, CHR ''a'']
     else if n = 8 then [chr_backslash, CHR ''b'']
     else if n = 12 then [chr_backslash, CHR ''f'']
     else if n = 10 then [chr_backslash, CHR ''n'']
     else if n = 13 then [chr_backslash, CHR ''r'']
     else if n = 9 then [chr_backslash, CHR ''t'']
     else if n = 11 then [chr_backslash, CHR ''v'']
     else if n < 32 \<or> n = 127 then [chr_backslash, CHR ''x''] @ hex2 n
     else [c])"

definition go_quote :: "string \<Rightarrow> string" where
  "go_quote s = chr_quote # concat (map quote_char s) @ [chr_quote]"

end
