(* ===== verification/Aead.thy ===== *)
theory Aead
  imports Digest
begin

text \<open>
  The envelope of \<open>internal/security/aead.go\<close>: a version byte, the nonce and the sealed text. The
  block cipher of the Go library (\<open>crypto/aes\<close>, \<open>crypto/cipher\<close>) and its random nonces are
  parameters: \<open>Gcm\<close> holds \<open>Seal\<close> and \<open>Open\<close> for a key and a nonce, and \<open>gcm_ok\<close> states what
  the library documents of them, that opening returns what was sealed and that sealing appends a tag
  of 16 bytes.
\<close>

record Gcm =
  gcm_Seal :: "int list \<Rightarrow> int list \<Rightarrow> int list \<Rightarrow> int list"
  gcm_Open :: "int list \<Rightarrow> int list \<Rightarrow> int list \<Rightarrow> int list option"

definition gcm_ok :: "Gcm \<Rightarrow> bool" where
  "gcm_ok g \<longleftrightarrow> (\<forall>k n p. gcm_Open g k n (gcm_Seal g k n p) = Some p \<and> length (gcm_Seal g k n p) = length p + 16)"

definition KeyVersionV1 :: string where
  "KeyVersionV1 = ''v1''"

definition aeadVersionByte :: int where
  "aeadVersionByte = 1"

definition aeadNonceSize :: nat where
  "aeadNonceSize = 12"

definition aeadOverheadMin :: nat where
  "aeadOverheadMin = 1 + aeadNonceSize + 16"

definition ErrEmptyKey :: go_error where
  "ErrEmptyKey = PlainError ''security: encryption key is empty''"

definition ErrCiphertextInvalid :: go_error where
  "ErrCiphertextInvalid = PlainError ''security: ciphertext invalid''"

definition DeriveKey32 :: "string \<Rightarrow> int list result" where
  "DeriveKey32 secret =
    (let s = trim_space secret in if s = [] then Inl ErrEmptyKey else Inr (sha256 (string_bytes s)))"

definition EncryptAEAD :: "Gcm \<Rightarrow> int list \<Rightarrow> string \<Rightarrow> int list \<Rightarrow> (string \<times> int list) result" where
  "EncryptAEAD g nonce secret plaintext =
    bindE (DeriveKey32 secret) (\<lambda>key.
      Inr (KeyVersionV1, aeadVersionByte # nonce @ gcm_Seal g key nonce plaintext))"

definition DecryptAEAD :: "Gcm \<Rightarrow> string \<Rightarrow> int list \<Rightarrow> int list result" where
  "DecryptAEAD g secret ciphertext =
    bindE (DeriveKey32 secret) (\<lambda>key.
      if length ciphertext < aeadOverheadMin then Inl ErrCiphertextInvalid
      else if hd ciphertext \<noteq> aeadVersionByte then Inl ErrCiphertextInvalid
      else let nonce = take aeadNonceSize (drop 1 ciphertext); sealed = drop (1 + aeadNonceSize) ciphertext in
        case gcm_Open g key nonce sealed of None \<Rightarrow> Inl ErrCiphertextInvalid | Some plain \<Rightarrow> Inr plain)"

lemma Decrypt_Encrypt:
  assumes "gcm_ok g" and "length nonce = aeadNonceSize" and "EncryptAEAD g nonce secret p = Inr (kv, ct)"
  shows "DecryptAEAD g secret ct = Inr p" and "ct \<noteq> []"
proof -
  obtain key where key: "DeriveKey32 secret = Inr key" and ct: "ct = aeadVersionByte # nonce @ gcm_Seal g key nonce p"
    using assms(3) by (auto simp: EncryptAEAD_def bindE_eq_Inr)
  have "gcm_Open g key nonce (gcm_Seal g key nonce p) = Some p" "length (gcm_Seal g key nonce p) = length p + 16"
    using assms(1) unfolding gcm_ok_def by blast+
  then show "DecryptAEAD g secret ct = Inr p"
    using assms(2) by (simp add: DecryptAEAD_def key ct aeadOverheadMin_def aeadVersionByte_def Let_def)
  show "ct \<noteq> []" by (simp add: ct)
qed

text \<open>Only the blank key fails to encrypt.\<close>

lemma Encrypt_succeeds: "trim_space secret \<noteq> [] \<Longrightarrow> \<exists>ct. EncryptAEAD g nonce secret p = Inr (KeyVersionV1, ct)"
  by (simp add: EncryptAEAD_def DeriveKey32_def Let_def)

text \<open>A cipher that satisfies the contract: it appends the tag and changes nothing else.\<close>

definition plain_gcm :: Gcm where
  "plain_gcm = \<lparr>gcm_Seal = (\<lambda>k n p. p @ replicate 16 0), gcm_Open = (\<lambda>k n c. Some (take (length c - 16) c))\<rparr>"

lemma plain_gcm_ok: "gcm_ok plain_gcm"
  by (simp add: gcm_ok_def plain_gcm_def)

end
