(* ===== verification/Inventory.thy ===== *)
theory Inventory
  imports Json_Text Money "HOL-Library.Multiset"
begin

text \<open>
  The inventory domain (\<open>internal/domain/inventory\<close>): schemas of a product's credentials, stock units
  and the reservations on them (\<open>types.go\<close>), the errors (\<open>errors.go\<close>), the validation of a schema
  and of an imported row and the masking of values (\<open>validate.go\<close>). A Go map of strings is the list
  of its entries in the order in which the runtime iterates over it.
\<close>

subsection \<open>Types\<close>

abbreviation "StatusAvailable \<equiv> ''AVAILABLE''"
abbreviation "StatusReserved \<equiv> ''RESERVED''"
abbreviation "StatusDelivered \<equiv> ''DELIVERED''"
abbreviation "StatusRevoked \<equiv> ''REVOKED''"

abbreviation "StockReserved \<equiv> ''RESERVED''"
abbreviation "StockReleased \<equiv> ''RELEASED''"
abbreviation "StockDelivered \<equiv> ''DELIVERED''"
abbreviation "StockHeldUnknown \<equiv> ''HELD_UNKNOWN''"

type_synonym go_map = "(string \<times> string) list"

record FieldDef =
  fd_Key :: string
  fd_Label :: string
  fd_Secret :: bool
  fd_Required :: bool
  fd_BuyerCopyable :: bool
  fd_Unique :: bool

record Schema =
  sm_ID :: string
  sm_ProductID :: string
  sm_StoreID :: string
  sm_MerchantID :: string
  sm_Version :: int
  sm_Fields :: "FieldDef list"
  sm_Delimiter :: string
  sm_Checksum :: string
  sm_CreatedBy :: "string option"
  sm_CreatedAt :: time

record StockItem =
  si_ID :: string
  si_ProductID :: string
  si_StoreID :: string
  si_MerchantID :: string
  si_SchemaVersion :: int
  si_Status :: string
  si_EncryptedPayload :: "int list"
  si_KeyVersion :: string
  si_MaskedPreview :: go_map
  si_UniqueKeyHash :: "string option"
  si_CreatedBy :: "string option"
  si_CreatedAt :: time
  si_UpdatedAt :: time
  si_ReservedAt :: "time option"
  si_DeliveredAt :: "time option"
  si_RevokedAt :: "time option"

record StockReservation =
  sr_ID :: string
  sr_StockItemID :: string
  sr_ProductID :: string
  sr_StoreID :: string
  sr_MerchantID :: string
  sr_OrderID :: "string option"
  sr_CheckoutID :: "string option"
  sr_IdempotencyKey :: string
  sr_Status :: string
  sr_ExpiresAt :: time
  sr_ReleasedAt :: "time option"
  sr_DeliveredAt :: "time option"
  sr_CreatedAt :: time
  sr_UpdatedAt :: time

record ProductSummary =
  su_ProductID :: string
  su_StoreID :: string
  su_Title :: string
  su_Type :: string
  su_ActiveSchemaVersion :: "int option"
  su_Available :: i64
  su_Reserved :: i64
  su_Delivered :: i64
  su_Revoked :: i64
  su_Total :: i64

record RevealAudit =
  ra_ID :: string
  ra_StockItemID :: string
  ra_StoreID :: string
  ra_ProductID :: string
  ra_ActorUserID :: string
  ra_Reason :: string
  ra_MFAVerified :: bool
  ra_PayloadHash :: "int list"
  ra_CreatedAt :: time

subsection \<open>Errors\<close>

definition ErrStockNotFound :: go_error where
  "ErrStockNotFound = apperr_not_found ''RESOURCE_NOT_FOUND'' ''Resource not found''"

definition ErrSchemaInvalid :: go_error where
  "ErrSchemaInvalid = apperr_validation ''VALIDATION_FAILED'' ''Invalid inventory schema''"

definition ErrSchemaConflict :: go_error where
  "ErrSchemaConflict = apperr_conflict ''INVENTORY_SCHEMA_CONFLICT'' ''Inventory schema version conflict''"

definition ErrImportInvalid :: go_error where
  "ErrImportInvalid = apperr_validation ''VALIDATION_FAILED'' ''Stock import validation failed''"

definition ErrImportStaleSchema :: go_error where
  "ErrImportStaleSchema = apperr_conflict ''INVENTORY_IMPORT_STALE'' ''Stock import schema version is stale''"

definition ErrOutOfStock :: go_error where
  "ErrOutOfStock = apperr_conflict ''INVENTORY_OUT_OF_STOCK'' ''No available stock units''"

definition ErrItemState :: go_error where
  "ErrItemState = apperr_conflict ''CONFLICT'' ''Stock item state conflict''"

definition ErrStockReservationState :: go_error where
  "ErrStockReservationState = apperr_conflict ''CONFLICT'' ''Stock reservation state conflict''"

definition ErrRevealDenied :: go_error where
  "ErrRevealDenied = apperr_forbidden ''INVENTORY_REVEAL_DENIED'' ''Credential reveal denied''"

definition ErrEncryptionConfig :: go_error where
  "ErrEncryptionConfig = apperr_internal ''INTERNAL_ERROR'' ''Stock encryption is not configured''"

subsection \<open>Schemas\<close>

definition maxFields :: nat where "maxFields = 32"
definition maxFieldLabel :: nat where "maxFieldLabel = 120"
definition maxFieldValue :: nat where "maxFieldValue = 2048"
definition maxImportBatch :: nat where "maxImportBatch = 500"
definition maxDelimiterLen :: nat where "maxDelimiterLen = 8"

definition NormalizeFieldKey :: "string \<Rightarrow> string" where
  "NormalizeFieldKey k = to_lower (trim_space k)"

text \<open>The regular expression \<open>^[a-z][a-z0-9_]{0,63}$\<close>.\<close>

definition fieldKeyRe :: "string \<Rightarrow> bool" where
  "fieldKeyRe k = (case k of [] \<Rightarrow> False
     | c # cs \<Rightarrow> is_lower c \<and> length cs \<le> 63 \<and> list_all (\<lambda>c. is_lower c \<or> is_digit c \<or> c = CHR ''_'') cs)"

text \<open>
  The loop of \<open>ValidateSchemaFields\<close>: the index, the keys seen, whether a secret field was seen, and
  the fields still to check; the result holds the fields with the keys and labels the loop writes
  back into the slice.
\<close>

definition schema_error :: "string \<Rightarrow> go_error" where
  "schema_error m = WrapError m ErrSchemaInvalid"

fun check_fields :: "int \<Rightarrow> string list \<Rightarrow> bool \<Rightarrow> FieldDef list \<Rightarrow> (FieldDef list \<times> bool) result" where
  "check_fields i seen hasSecret [] = Inr ([], hasSecret)"
| "check_fields i seen hasSecret (f # fs) =
    (let key = NormalizeFieldKey (fd_Key f); label = trim_space (fd_Label f) in
     if \<not> fieldKeyRe key then Inl (schema_error (''invalid field key at index '' @ show_int i))
     else if key \<in> set seen then Inl (schema_error (''duplicate field key '' @ go_quote key))
     else if label = [] \<or> length label > maxFieldLabel then Inl (schema_error (''invalid label for field '' @ go_quote key))
     else bindE (check_fields (i + 1) (key # seen) (hasSecret \<or> fd_Secret f) fs) (\<lambda>(gs, h).
       Inr (f\<lparr>fd_Key := key, fd_Label := label\<rparr> # gs, h)))"

definition ValidateSchemaFields :: "FieldDef list \<Rightarrow> string \<Rightarrow> FieldDef list result" where
  "ValidateSchemaFields flds delimiter =
    (if flds = [] then Inl (schema_error ''at least one field is required'')
     else if length flds > maxFields then Inl (schema_error ''too many fields'')
     else let delim = (if delimiter = [] then '','' else delimiter) in
       if length delim > maxDelimiterLen then Inl (schema_error ''delimiter too long'')
       else bindE (check_fields 0 [] False flds) (\<lambda>(fs, hasSecret).
         if \<not> hasSecret then Inl (schema_error ''at least one secret field is required'') else Inr fs))"

definition field_json :: "FieldDef \<Rightarrow> string" where
  "field_json f = json_object
    [(''key'', json_string (fd_Key f)), (''label'', json_string (fd_Label f)), (''secret'', json_bool (fd_Secret f)),
     (''required'', json_bool (fd_Required f)), (''buyerCopyable'', json_bool (fd_BuyerCopyable f)),
     (''unique'', json_bool (fd_Unique f))]"

definition SchemaChecksum :: "FieldDef list \<Rightarrow> string \<Rightarrow> string" where
  "SchemaChecksum flds delimiter =
    (let norm = map (\<lambda>f. f\<lparr>fd_Key := NormalizeFieldKey (fd_Key f), fd_Label := trim_space (fd_Label f)\<rparr>) flds;
         delim = (if delimiter = [] then '','' else delimiter) in
     sha256_hex (json_object [(''fields'', json_array (map field_json norm)), (''delimiter'', json_string delim)]))"

subsection \<open>Rows of an import\<close>

definition go_get :: "string \<Rightarrow> go_map \<Rightarrow> string" where
  "go_get k m = (case map_of m k of None \<Rightarrow> [] | Some v \<Rightarrow> v)"

text \<open>The value of a field: under its own key, or else under the first key that normalises to it.\<close>

definition field_value :: "string \<Rightarrow> go_map \<Rightarrow> string option" where
  "field_value key values = (case map_of values key of Some v \<Rightarrow> Some v
     | None \<Rightarrow> map_option snd (find (\<lambda>(k, v). NormalizeFieldKey k = key) values))"

definition import_error :: "string \<Rightarrow> go_error" where
  "import_error m = WrapError m ErrImportInvalid"

fun import_fields :: "FieldDef list \<Rightarrow> go_map \<Rightarrow> go_map \<Rightarrow> string list \<Rightarrow> (go_map \<times> string list) result" where
  "import_fields [] values normalized uniqueParts = Inr (normalized, uniqueParts)"
| "import_fields (f # fs) values normalized uniqueParts =
    (let raw = field_value (fd_Key f) values; v = trim_space (case raw of None \<Rightarrow> [] | Some s \<Rightarrow> s) in
     if fd_Required f \<and> (raw = None \<or> v = []) then Inl (import_error (''missing required field '' @ go_quote (fd_Key f)))
     else if length v > maxFieldValue then Inl (import_error (''field '' @ go_quote (fd_Key f) @ '' too long''))
     else import_fields fs values (map_set (fd_Key f) v normalized)
       (if fd_Unique f \<and> v \<noteq> [] then uniqueParts @ [fd_Key f @ ''='' @ v] else uniqueParts))"

definition ValidateImportRow :: "Schema \<Rightarrow> go_map \<Rightarrow> (go_map \<times> string option) result" where
  "ValidateImportRow schema values =
    bindE (import_fields (sm_Fields schema) values [] []) (\<lambda>(normalized, uniqueParts).
      case find (\<lambda>(k, v). NormalizeFieldKey k \<notin> fd_Key ` set (sm_Fields schema)) values of
        Some (k, v) \<Rightarrow> Inl (import_error (''unknown field '' @ go_quote k))
      | None \<Rightarrow> Inr (normalized,
          if uniqueParts \<noteq> [] then Some (sha256_hex (join_with ''|'' uniqueParts)) else None))"

definition mask_value :: "FieldDef \<Rightarrow> string \<Rightarrow> string" where
  "mask_value f v =
    (if fd_Secret f then (if v = [] then [] else ''***'')
     else if length v > 64 then take 61 v @ ''...'' else v)"

definition MaskValues :: "Schema \<Rightarrow> go_map \<Rightarrow> go_map" where
  "MaskValues schema values =
    fold (\<lambda>f. map_set (fd_Key f) (mask_value f (go_get (fd_Key f) values))) (sm_Fields schema) []"

subsection \<open>What a mask gives away\<close>

lemma mask_value_secret: "fd_Secret f \<Longrightarrow> mask_value f v \<in> {[], ''***''}"
  by (simp add: mask_value_def)

lemma map_of_map_set: "map_of (map_set k v m) = (map_of m)(k \<mapsto> v)"
  by (simp add: map_set_def update_conv')

lemma masked_fold_other:
  "k \<notin> fd_Key ` set fs \<Longrightarrow> map_of (fold (\<lambda>f. map_set (fd_Key f) (g f)) fs m) k = map_of m k"
  by (induction fs arbitrary: m) (auto simp: map_of_map_set)

lemma masked_fold:
  "f \<in> set fs \<Longrightarrow> distinct (map fd_Key fs) \<Longrightarrow>
     map_of (fold (\<lambda>f. map_set (fd_Key f) (g f)) fs m) (fd_Key f) = Some (g f)"
  by (induction fs arbitrary: m) (auto simp: map_of_map_set masked_fold_other)

text \<open>
  The masked preview of a unit says nothing of its secrets: two rows that agree on the fields
  that are not secret, and on which secret fields are filled in, have the same preview, and a secret
  field is shown as nothing or as three stars.
\<close>

theorem mask_hides_secrets:
  assumes "distinct (map fd_Key (sm_Fields schema))"
    and "\<And>f. f \<in> set (sm_Fields schema) \<Longrightarrow> \<not> fd_Secret f \<Longrightarrow> go_get (fd_Key f) vs = go_get (fd_Key f) vs'"
    and "\<And>f. f \<in> set (sm_Fields schema) \<Longrightarrow> fd_Secret f \<Longrightarrow> go_get (fd_Key f) vs = [] \<longleftrightarrow> go_get (fd_Key f) vs' = []"
  shows "MaskValues schema vs = MaskValues schema vs' \<and>
    (\<forall>f\<in>set (sm_Fields schema). fd_Secret f \<longrightarrow> go_get (fd_Key f) (MaskValues schema vs) \<in> {[], ''***''})"
proof (intro conjI ballI impI)
  have "mask_value f (go_get (fd_Key f) vs) = mask_value f (go_get (fd_Key f) vs')" if "f \<in> set (sm_Fields schema)" for f
    using assms(2,3) [OF that] by (cases "fd_Secret f") (simp_all add: mask_value_def)
  then show "MaskValues schema vs = MaskValues schema vs'"
    unfolding MaskValues_def by (intro fold_cong refl) simp
next
  fix f assume f: "f \<in> set (sm_Fields schema)" and secret: "fd_Secret f"
  have "map_of (MaskValues schema vs) (fd_Key f) = Some (mask_value f (go_get (fd_Key f) vs))"
    unfolding MaskValues_def using f assms(1) by (rule masked_fold)
  then have "go_get (fd_Key f) (MaskValues schema vs) = mask_value f (go_get (fd_Key f) vs)"
    by (simp add: go_get_def)
  with mask_value_secret [OF secret] show "go_get (fd_Key f) (MaskValues schema vs) \<in> {[], ''***''}" by simp
qed

definition demo_fields :: "FieldDef list" where
  "demo_fields =
    [\<lparr>fd_Key = ''email'', fd_Label = ''Email'', fd_Secret = False, fd_Required = True, fd_BuyerCopyable = True, fd_Unique = True\<rparr>,
     \<lparr>fd_Key = ''password'', fd_Label = ''Password'', fd_Secret = True, fd_Required = True, fd_BuyerCopyable = True, fd_Unique = False\<rparr>]"

definition demo_schema :: Schema where
  "demo_schema = \<lparr>sm_ID = ''sch_1'', sm_ProductID = ''pr_1'', sm_StoreID = ''st1'', sm_MerchantID = ''m1'', sm_Version = 1,
     sm_Fields = demo_fields, sm_Delimiter = '','', sm_Checksum = ''c'', sm_CreatedBy = None, sm_CreatedAt = 0\<rparr>"

lemma demo_schema_fields: "sm_Fields demo_schema = demo_fields" "sm_Version demo_schema = 1"
  by (simp_all add: demo_schema_def)

theorem mask_hides_secrets_witness:
  "MaskValues demo_schema [(''email'', ''a@b''), (''password'', ''hunter2'')] =
   MaskValues demo_schema [(''email'', ''a@b''), (''password'', ''x'')]"
proof -
  let ?vs = "[(''email'', ''a@b''), (''password'', ''hunter2'')]" and ?vs' = "[(''email'', ''a@b''), (''password'', ''x'')]"
  have 1: "distinct (map fd_Key (sm_Fields demo_schema))" by code_simp
  have 2: "go_get (fd_Key f) ?vs = go_get (fd_Key f) ?vs'" if "f \<in> set (sm_Fields demo_schema)" "\<not> fd_Secret f" for f
    using that by (auto simp: demo_schema_fields demo_fields_def go_get_def)
  have 3: "go_get (fd_Key f) ?vs = [] \<longleftrightarrow> go_get (fd_Key f) ?vs' = []"
    if "f \<in> set (sm_Fields demo_schema)" "fd_Secret f" for f
    using that by (auto simp: demo_schema_fields demo_fields_def go_get_def)
  show ?thesis using mask_hides_secrets [of demo_schema ?vs ?vs', OF 1 2 3] by blast
qed

subsection \<open>The order of a map\<close>

lemma find_unique:
  assumes "set xs = set ys" and "\<And>x y. x \<in> set xs \<Longrightarrow> y \<in> set xs \<Longrightarrow> P x \<Longrightarrow> P y \<Longrightarrow> x = y"
  shows "find P xs = find P ys"
proof (cases "find P xs")
  case None
  then show ?thesis using assms(1) by (metis find_None_iff)
next
  case (Some x)
  then have x: "x \<in> set xs" "P x" by (auto simp: find_Some_iff)
  with assms(1) obtain y where y: "find P ys = Some y" by (metis find_None_iff option.exhaust)
  then have "y \<in> set ys" "P y" by (auto simp: find_Some_iff)
  with x assms Some y show ?thesis by metis
qed

lemma field_value_order:
  assumes "set vs = set vs'" and "distinct (map (NormalizeFieldKey \<circ> fst) vs)" and "distinct (map (NormalizeFieldKey \<circ> fst) vs')"
  shows "field_value k vs = field_value k vs'"
proof -
  have "distinct (map fst vs)" "distinct (map fst vs')"
    using assms(2,3) by (auto simp: distinct_map inj_on_def)
  with assms(1) have "map_of vs = map_of vs'" by (simp add: map_of_inject_set)
  moreover have "find (\<lambda>(k', v). NormalizeFieldKey k' = k) vs = find (\<lambda>(k', v). NormalizeFieldKey k' = k) vs'"
    using assms(1) by (rule find_unique) (use assms(2) in \<open>force simp: distinct_map inj_on_def\<close>)
  ultimately show ?thesis unfolding field_value_def by (cases "map_of vs' k") simp_all
qed

lemma import_fields_order:
  assumes "\<And>k. field_value k vs = field_value k vs'"
  shows "import_fields fs vs n u = import_fields fs vs' n u"
  by (induction fs arbitrary: n u) (simp_all only: import_fields.simps assms)

text \<open>
  A row is accepted, and stored as the same values with the same unique key, in whatever order
  the runtime iterates over its map, as long as no two of its keys name the same field.
\<close>

theorem import_row_order_irrelevant:
  assumes "distinct (map (NormalizeFieldKey \<circ> fst) vs)" and "mset vs' = mset vs"
  shows "ValidateImportRow schema vs' = Inr r \<longleftrightarrow> ValidateImportRow schema vs = Inr r"
proof -
  have same: "set vs' = set vs" using assms(2) by (rule mset_eq_setD)
  have "mset (map (NormalizeFieldKey \<circ> fst) vs') = mset (map (NormalizeFieldKey \<circ> fst) vs)" using assms(2) by simp
  then have "distinct (map (NormalizeFieldKey \<circ> fst) vs')" using assms(1) by (rule mset_eq_imp_distinct_iff [THEN iffD2])
  from field_value_order [OF same this assms(1)] have "import_fields fs vs' n u = import_fields fs vs n u" for fs n u
    by (rule import_fields_order)
  moreover
  let ?unknown = "\<lambda>(k, v). NormalizeFieldKey k \<notin> fd_Key ` set (sm_Fields schema)"
  have "find ?unknown vs' = None \<longleftrightarrow> find ?unknown vs = None" using same by (simp add: find_None_iff)
  ultimately show ?thesis
    by (cases "find ?unknown vs"; cases "find ?unknown vs'"; cases "import_fields (sm_Fields schema) vs [] []")
      (simp_all add: ValidateImportRow_def split: prod.split)
qed

theorem import_row_order_irrelevant_witness:
  "\<forall>r. ValidateImportRow demo_schema [(''Password'', ''x''), (''email'', ''a@b'')] = Inr r \<longleftrightarrow>
   ValidateImportRow demo_schema [(''email'', ''a@b''), (''Password'', ''x'')] = Inr r"
  by (intro allI import_row_order_irrelevant) (code_simp, simp)

text \<open>
  Two keys that name the same field make the stored value depend on the iteration order, which the
  language leaves open.
\<close>

lemma import_row_order_matters:
  "import_fields demo_fields [(''Email'', ''a''), (''EMAIL'', ''b''), (''password'', ''x'')] [] [] =
     Inr ([(''email'', ''a''), (''password'', ''x'')], [''email=a''])"
  "import_fields demo_fields [(''EMAIL'', ''b''), (''Email'', ''a''), (''password'', ''x'')] [] [] =
     Inr ([(''email'', ''b''), (''password'', ''x'')], [''email=b''])"
  by code_simp+

subsection \<open>Schemas that pass validation\<close>

lemma check_fields_keys:
  "check_fields i seen h fs = Inr (gs, h') \<Longrightarrow>
     distinct (map fd_Key gs) \<and> fd_Key ` set gs \<inter> set seen = {} \<and>
     map fd_Key gs = map (NormalizeFieldKey \<circ> fd_Key) fs \<and> length gs = length fs \<and>
     (h' \<longleftrightarrow> h \<or> (\<exists>f\<in>set gs. fd_Secret f)) \<and> (\<forall>f\<in>set gs. fieldKeyRe (fd_Key f) \<and> fd_Label f \<noteq> [])"
proof (induction i seen h fs arbitrary: gs h' rule: check_fields.induct)
  case (2 i seen h f fs)
  let ?key = "NormalizeFieldKey (fd_Key f)" and ?label = "trim_space (fd_Label f)"
  from "2.prems" have ok: "fieldKeyRe ?key" "?key \<notin> set seen" "?label \<noteq> []" "length ?label \<le> maxFieldLabel"
    by (auto simp: Let_def split: if_splits)
  with "2.prems" obtain gs' where rec: "check_fields (i + 1) (?key # seen) (h \<or> fd_Secret f) fs = Inr (gs', h')"
    and gs: "gs = f\<lparr>fd_Key := ?key, fd_Label := ?label\<rparr> # gs'"
    by (auto simp: Let_def bindE_eq_Inr)
  from "2.IH" [OF refl refl _ _ _ rec] ok have ih: "distinct (map fd_Key gs')" "fd_Key ` set gs' \<inter> set (?key # seen) = {}"
    "map fd_Key gs' = map (NormalizeFieldKey \<circ> fd_Key) fs" "length gs' = length fs"
    "h' \<longleftrightarrow> (h \<or> fd_Secret f) \<or> (\<exists>f\<in>set gs'. fd_Secret f)" "\<forall>f\<in>set gs'. fieldKeyRe (fd_Key f) \<and> fd_Label f \<noteq> []"
    by auto
  have "distinct (map fd_Key gs)" "fd_Key ` set gs \<inter> set seen = {}" using ih(1,2) ok(2) by (auto simp: gs)
  moreover have "map fd_Key gs = map (NormalizeFieldKey \<circ> fd_Key) (f # fs)" using ih(3) by (simp add: gs)
  moreover have "length gs = length (f # fs)" "h' \<longleftrightarrow> h \<or> (\<exists>f\<in>set gs. fd_Secret f)"
    "\<forall>f\<in>set gs. fieldKeyRe (fd_Key f) \<and> fd_Label f \<noteq> []" using ih(4,5,6) ok by (auto simp: gs)
  ultimately show ?case by blast
qed auto

text \<open>
  A schema that passes validation has between one and 32 fields with distinct, well-formed keys and
  labels, at least one of them secret, in the order they were given.
\<close>

lemma ValidateSchemaFields_sound:
  assumes "ValidateSchemaFields flds delim = Inr gs"
  shows "distinct (map fd_Key gs)" and "1 \<le> length gs" and "length gs \<le> maxFields" and "\<exists>f\<in>set gs. fd_Secret f"
    and "\<forall>f\<in>set gs. fieldKeyRe (fd_Key f) \<and> fd_Label f \<noteq> []"
    and "map fd_Key gs = map (NormalizeFieldKey \<circ> fd_Key) flds"
proof -
  from assms obtain h where run: "check_fields 0 [] False flds = Inr (gs, h)" and h: "h" and n: "flds \<noteq> []" "length flds \<le> maxFields"
    by (auto simp: ValidateSchemaFields_def Let_def bindE_eq_Inr split: if_splits)
  from check_fields_keys [OF run] h n
  show "distinct (map fd_Key gs)" "1 \<le> length gs" "length gs \<le> maxFields" "\<exists>f\<in>set gs. fd_Secret f"
    "\<forall>f\<in>set gs. fieldKeyRe (fd_Key f) \<and> fd_Label f \<noteq> []" "map fd_Key gs = map (NormalizeFieldKey \<circ> fd_Key) flds"
    by (auto simp: Suc_le_eq)
qed

end
