(* ===== verification/Inventory_Store.thy ===== *)
theory Inventory_Store
  imports Coupon_Store Inventory
begin

text \<open>
  The inventory tables of \<open>migrations/000011_inventory.up.sql\<close> and their repository
  (\<open>internal/adapters/postgres/inventory_repo.go\<close> over \<open>queries/inventory.sql\<close>). The JSON columns hold
  the values the repository marshals. Rows are claimed with \<open>FOR UPDATE SKIP LOCKED\<close>; transactions
  run one after another here, so no row is ever skipped. The foreign keys to \<open>users\<close> are left out.
\<close>

record inventory_db = coupon_db +
  inventory_schemas :: "Schema list"
  stock_items :: "StockItem list"
  stock_reservations :: "StockReservation list"
  stock_reveal_audits :: "RevealAudit list"

subsection \<open>Schemas\<close>

definition schema_key :: "Schema \<Rightarrow> string \<times> int" where
  "schema_key s = (sm_ProductID s, sm_Version s)"

definition InsertSchema :: "Schema \<Rightarrow> ('m inventory_db_scheme, unit) op" where
  "InsertSchema s = (\<lambda>w.
     case first_failure
       [(sm_Version s \<ge> 1, ''inventory_schemas_version_pos''),
        (sm_Checksum s \<noteq> [], ''inventory_schemas_checksum_nonempty''),
        (sm_ID s \<notin> sm_ID ` set (inventory_schemas w), ''inventory_schemas_pkey''),
        (schema_key s \<notin> schema_key ` set (inventory_schemas w), ''inventory_schemas_product_version_uidx''),
        (sm_ProductID s \<in> pr_ID ` set (products w), ''inventory_schemas_product_id_fkey''),
        (sm_StoreID s \<in> fst ` set (stores w), ''inventory_schemas_store_id_fkey''),
        (sm_MerchantID s \<in> set (merchants w), ''inventory_schemas_merchant_id_fkey'')] of
       Inl e \<Rightarrow> (Inl e, w)
     | Inr _ \<Rightarrow> (Inr (), w\<lparr>inventory_schemas := inventory_schemas w @ [s]\<rparr>))"

definition SetProductActiveSchema :: "string \<Rightarrow> string \<Rightarrow> int \<Rightarrow> time \<Rightarrow> ('m inventory_db_scheme, unit) op" where
  "SetProductActiveSchema storeID productID version at = (\<lambda>w.
     let sel = (\<lambda>p. pr_ID p = productID \<and> pr_StoreID p = storeID) in
     if list_ex sel (products w) \<and> version < 1 then (Inl (PgError ''products_active_schema_version_pos''), w)
     else (Inr (), w\<lparr>products := map (\<lambda>p. if sel p
        then p\<lparr>pr_ActiveSchemaVersion := Some version, pr_UpdatedAt := at\<rparr> else p) (products w)\<rparr>))"

definition GetSchemaByVersion :: "string \<Rightarrow> int \<Rightarrow> 'm inventory_db_scheme \<Rightarrow> Schema result" where
  "GetSchemaByVersion productID version w =
    opt_row (find (\<lambda>s. sm_ProductID s = productID \<and> sm_Version s = version) (inventory_schemas w))"

definition GetActiveSchema :: "string \<Rightarrow> string \<Rightarrow> 'm inventory_db_scheme \<Rightarrow> Schema result" where
  "GetActiveSchema storeID productID w =
    bindE (get_product storeID productID w) (\<lambda>p.
      case pr_ActiveSchemaVersion p of None \<Rightarrow> Inl ErrNoRows | Some v \<Rightarrow> GetSchemaByVersion productID v w)"

definition MaxSchemaVersion :: "string \<Rightarrow> 'm inventory_db_scheme \<Rightarrow> int" where
  "MaxSchemaVersion productID w =
    (case map sm_Version (filter (\<lambda>s. sm_ProductID s = productID) (inventory_schemas w)) of
       [] \<Rightarrow> 0 | v # vs \<Rightarrow> fold max vs v)"

subsection \<open>Stock units\<close>

definition item_check :: "StockItem \<Rightarrow> unit result" where
  "item_check i = first_failure
    [(si_SchemaVersion i \<ge> 1, ''stock_items_schema_version_pos''),
     (si_Status i \<in> set [StatusAvailable, StatusReserved, StatusDelivered, StatusRevoked], ''stock_items_status_check''),
     (si_EncryptedPayload i \<noteq> [], ''stock_items_payload_nonempty'')]"

definition item_key :: "StockItem \<Rightarrow> string \<times> string option" where
  "item_key i = (si_ProductID i, si_UniqueKeyHash i)"

definition InsertStockItem :: "StockItem \<Rightarrow> ('m inventory_db_scheme, unit) op" where
  "InsertStockItem i = (\<lambda>w.
     case bindE (item_check i) (\<lambda>_. first_failure
       [(si_ID i \<notin> si_ID ` set (stock_items w), ''stock_items_pkey''),
        (si_UniqueKeyHash i = None \<or> item_key i \<notin> item_key ` set (stock_items w), ''stock_items_product_unique_key_uidx''),
        (si_ProductID i \<in> pr_ID ` set (products w), ''stock_items_product_id_fkey''),
        (si_StoreID i \<in> fst ` set (stores w), ''stock_items_store_id_fkey''),
        (si_MerchantID i \<in> set (merchants w), ''stock_items_merchant_id_fkey'')]) of
       Inl e \<Rightarrow> (Inl e, w)
     | Inr _ \<Rightarrow> (Inr (), w\<lparr>stock_items := stock_items w @ [i]\<rparr>))"

definition GetStockItemByID :: "string \<Rightarrow> string \<Rightarrow> 'm inventory_db_scheme \<Rightarrow> StockItem result" where
  "GetStockItemByID storeID itemID w =
    opt_row (find (\<lambda>i. si_ID i = itemID \<and> si_StoreID i = storeID) (stock_items w))"

definition items_of :: "string \<Rightarrow> string \<Rightarrow> 'm inventory_db_scheme \<Rightarrow> StockItem list" where
  "items_of storeID productID w =
    filter (\<lambda>i. si_ProductID i = productID \<and> si_StoreID i = storeID) (stock_items w)"

definition ListStockItemsByProduct :: "string \<Rightarrow> string \<Rightarrow> int \<Rightarrow> 'm inventory_db_scheme \<Rightarrow> StockItem list" where
  "ListStockItemsByProduct storeID productID limit w =
    take (nat limit) (rev (sort_key (\<lambda>i. (si_CreatedAt i, si_ID i)) (items_of storeID productID w)))"

definition count_status :: "string \<Rightarrow> StockItem list \<Rightarrow> i64" where
  "count_status s items = int (length (filter (\<lambda>i. si_Status i = s) items))"

definition CountStockByStatus :: "string \<Rightarrow> string \<Rightarrow> 'm inventory_db_scheme \<Rightarrow> (string \<times> i64) list" where
  "CountStockByStatus storeID productID w =
    (let items = items_of storeID productID w in
     map (\<lambda>s. (s, count_status s items)) (remdups (map si_Status items)))"

definition product_summary :: "'m inventory_db_scheme \<Rightarrow> ProductRow \<Rightarrow> ProductSummary" where
  "product_summary w p =
    (let items = filter (\<lambda>i. si_ProductID i = pr_ID p) (stock_items w) in
     \<lparr>su_ProductID = pr_ID p, su_StoreID = pr_StoreID p, su_Title = pr_Title p, su_Type = pr_Type p,
      su_ActiveSchemaVersion = pr_ActiveSchemaVersion p,
      su_Available = count_status StatusAvailable items, su_Reserved = count_status StatusReserved items,
      su_Delivered = count_status StatusDelivered items, su_Revoked = count_status StatusRevoked items,
      su_Total = int (length items)\<rparr>)"

definition ListProductSummaries_rows :: "string \<Rightarrow> 'm inventory_db_scheme \<Rightarrow> ProductSummary list" where
  "ListProductSummaries_rows storeID w =
    map (product_summary w) (rev (sort_key (\<lambda>p. (pr_CreatedAt p, pr_ID p))
      (filter (\<lambda>p. pr_StoreID p = storeID) (products w))))"

definition ClaimAvailableStockItem :: "string \<Rightarrow> string \<Rightarrow> 'm inventory_db_scheme \<Rightarrow> StockItem result" where
  "ClaimAvailableStockItem storeID productID w =
    (case sort_key (\<lambda>i. (si_CreatedAt i, si_ID i))
        (filter (\<lambda>i. si_Status i = StatusAvailable) (items_of storeID productID w)) of
       [] \<Rightarrow> Inl ErrNoRows | i # _ \<Rightarrow> Inr i)"

definition item_moved :: "string \<Rightarrow> time \<Rightarrow> StockItem \<Rightarrow> StockItem" where
  "item_moved to at i = i\<lparr>si_Status := to, si_UpdatedAt := at,
     si_ReservedAt := (if to = StatusReserved then Some at else si_ReservedAt i),
     si_DeliveredAt := (if to = StatusDelivered then Some at else si_DeliveredAt i),
     si_RevokedAt := (if to = StatusRevoked then Some at else si_RevokedAt i)\<rparr>"

definition UpdateStockItemStatus :: "string \<Rightarrow> string \<Rightarrow> string \<Rightarrow> time \<Rightarrow> ('m inventory_db_scheme, bool) op" where
  "UpdateStockItemStatus i from to at = (\<lambda>w.
     case update_one (\<lambda>x. si_ID x = i \<and> si_Status x = from) (item_moved to at) item_check (stock_items w) of
       Inl e \<Rightarrow> (if is_not_found e then (Inr False, w) else (Inl e, w))
     | Inr (_, rows) \<Rightarrow> (Inr True, w\<lparr>stock_items := rows\<rparr>))"

subsection \<open>Reservations\<close>

text \<open>
  The indexes: one reservation per unit among the live ones (\<open>RESERVED\<close>, \<open>HELD_UNKNOWN\<close>,
  \<open>DELIVERED\<close>), one per product and key, one delivered per order and product.
\<close>

definition stock_live :: "StockReservation \<Rightarrow> bool" where
  "stock_live r \<longleftrightarrow> sr_Status r \<in> set [StockReserved, StockHeldUnknown, StockDelivered]"

definition stock_reservation_check :: "StockReservation \<Rightarrow> unit result" where
  "stock_reservation_check r = first_failure
    [(sr_Status r \<in> set [StockReserved, StockReleased, StockDelivered, StockHeldUnknown], ''stock_reservations_status_check''),
     (sr_IdempotencyKey r \<noteq> [], ''stock_reservations_idem_nonempty''),
     (sr_OrderID r \<noteq> None \<or> sr_CheckoutID r \<noteq> None, ''stock_reservations_ref_present'')]"

definition stock_indexes :: "StockReservation \<Rightarrow> StockReservation list \<Rightarrow> unit result" where
  "stock_indexes r others = first_failure
    [(sr_ID r \<notin> sr_ID ` set others, ''stock_reservations_pkey''),
     (stock_live r \<longrightarrow> list_all (\<lambda>x. stock_live x \<longrightarrow> sr_StockItemID x \<noteq> sr_StockItemID r) others,
        ''stock_reservations_active_item_uidx''),
     ((sr_ProductID r, sr_IdempotencyKey r) \<notin> (\<lambda>x. (sr_ProductID x, sr_IdempotencyKey x)) ` set others,
        ''stock_reservations_product_idem_uidx''),
     (sr_Status r = StockDelivered \<longrightarrow> sr_OrderID r \<noteq> None \<longrightarrow>
        list_all (\<lambda>x. sr_Status x = StockDelivered \<longrightarrow> (sr_OrderID x, sr_ProductID x) \<noteq> (sr_OrderID r, sr_ProductID r)) others,
        ''stock_reservations_order_product_delivered_uidx'')]"

definition InsertStockReservation :: "StockReservation \<Rightarrow> ('m inventory_db_scheme, unit) op" where
  "InsertStockReservation r = (\<lambda>w.
     case bindE (stock_reservation_check r) (\<lambda>_. bindE (stock_indexes r (stock_reservations w)) (\<lambda>_. first_failure
       [(sr_StockItemID r \<in> si_ID ` set (stock_items w), ''stock_reservations_stock_item_id_fkey''),
        (sr_ProductID r \<in> pr_ID ` set (products w), ''stock_reservations_product_id_fkey''),
        (sr_StoreID r \<in> fst ` set (stores w), ''stock_reservations_store_id_fkey''),
        (sr_MerchantID r \<in> set (merchants w), ''stock_reservations_merchant_id_fkey'')])) of
       Inl e \<Rightarrow> (Inl e, w)
     | Inr _ \<Rightarrow> (Inr (), w\<lparr>stock_reservations := stock_reservations w @ [r]\<rparr>))"

definition GetStockReservation :: "string \<Rightarrow> 'm inventory_db_scheme \<Rightarrow> StockReservation result" where
  "GetStockReservation i w = opt_row (find (\<lambda>r. sr_ID r = i) (stock_reservations w))"

definition GetStockReservationByIdempotency :: "string \<Rightarrow> string \<Rightarrow> 'm inventory_db_scheme \<Rightarrow> StockReservation result" where
  "GetStockReservationByIdempotency productID key w =
    opt_row (find (\<lambda>r. sr_ProductID r = productID \<and> sr_IdempotencyKey r = key) (stock_reservations w))"

definition stock_moved :: "string \<Rightarrow> time \<Rightarrow> StockReservation \<Rightarrow> StockReservation" where
  "stock_moved to at r = r\<lparr>sr_Status := to, sr_UpdatedAt := at,
     sr_ReleasedAt := (if to = StockReleased then Some at else sr_ReleasedAt r),
     sr_DeliveredAt := (if to = StockDelivered then Some at else sr_DeliveredAt r)\<rparr>"

definition UpdateStockReservationStatus ::
    "string \<Rightarrow> string \<Rightarrow> string \<Rightarrow> time \<Rightarrow> ('m inventory_db_scheme, bool) op" where
  "UpdateStockReservationStatus i from to at = (\<lambda>w.
     let sel = (\<lambda>r. sr_ID r = i \<and> sr_Status r = from) in
     case update_one sel (stock_moved to at)
       (\<lambda>r. bindE (stock_reservation_check r) (\<lambda>_. stock_indexes r (filter (\<lambda>x. \<not> sel x) (stock_reservations w))))
       (stock_reservations w) of
       Inl e \<Rightarrow> (if is_not_found e then (Inr False, w) else (Inl e, w))
     | Inr (_, rows) \<Rightarrow> (Inr True, w\<lparr>stock_reservations := rows\<rparr>))"

definition ListExpiredStockReservations :: "time \<Rightarrow> int \<Rightarrow> 'm inventory_db_scheme \<Rightarrow> StockReservation list" where
  "ListExpiredStockReservations at limit w =
    take (nat limit) (sort_key sr_ExpiresAt
      (filter (\<lambda>r. sr_Status r = StockReserved \<and> sr_ExpiresAt r \<le> at) (stock_reservations w)))"

subsection \<open>Reveals\<close>

definition InsertRevealAudit :: "RevealAudit \<Rightarrow> ('m inventory_db_scheme, unit) op" where
  "InsertRevealAudit a = (\<lambda>w.
     case first_failure
       [(ra_Reason a \<noteq> [], ''stock_reveal_audits_reason_nonempty''),
        (length (ra_PayloadHash a) = 32, ''stock_reveal_audits_hash_len''),
        (ra_ID a \<notin> ra_ID ` set (stock_reveal_audits w), ''stock_reveal_audits_pkey''),
        (ra_StockItemID a \<in> si_ID ` set (stock_items w), ''stock_reveal_audits_stock_item_id_fkey''),
        (ra_StoreID a \<in> fst ` set (stores w), ''stock_reveal_audits_store_id_fkey''),
        (ra_ProductID a \<in> pr_ID ` set (products w), ''stock_reveal_audits_product_id_fkey'')] of
       Inl e \<Rightarrow> (Inl e, w)
     | Inr _ \<Rightarrow> (Inr (), w\<lparr>stock_reveal_audits := stock_reveal_audits w @ [a]\<rparr>))"

end
