(* ===== verification/Inventory_Service.thy ===== *)
theory Inventory_Service
  imports Inventory_Store Aead
begin

text \<open>
  \<open>internal/application/inventory_service.go\<close>: the schema of a product, the import of encrypted stock
  units, the reservation of one unit for a checkout, its release or its delivery, the expiry of
  holds, and the seller's reveal and revoke. The service has an encryption key; the cipher and the
  nonces it draws are parameters (theory \<open>Aead\<close>), the nonce of a draw being numbered by the
  identifiers drawn so far.
\<close>

record InventoryService =
  ins_EncryptionKey :: string
  ins_Gcm :: Gcm
  ins_Nonce :: "nat \<Rightarrow> int list"

definition DefaultStockReservationTTL :: int where
  "DefaultStockReservationTTL = seconds (30 * 60)"

definition inventory_access :: "string \<Rightarrow> string \<Rightarrow> 'm inventory_db_scheme \<Rightarrow> (string \<times> string) result" where
  "inventory_access userID storeID w = require_store_access ErrStockNotFound userID storeID w"

definition internal :: "string \<Rightarrow> go_error" where
  "internal m = apperr_internal ''INTERNAL_ERROR'' m"

text \<open>A failed lookup is either the given \<open>not found\<close> or an internal error with the given message.\<close>

definition lookup_or :: "go_error \<Rightarrow> string \<Rightarrow> 'a result \<Rightarrow> 'a result" where
  "lookup_or nf m r = (case r of Inr a \<Rightarrow> Inr a | Inl e \<Rightarrow> Inl (if is_not_found e then nf else internal m))"

text \<open>A statement whose errors are replaced by an internal error with the given message.\<close>

definition or_internal :: "string \<Rightarrow> ('s, 'a) op \<Rightarrow> ('s, 'a) op" where
  "or_internal m op = (\<lambda>w. case op w of (Inl e, w') \<Rightarrow> (Inl (internal m), w') | (Inr a, w') \<Rightarrow> (Inr a, w'))"

definition requireProduct :: "string \<Rightarrow> string \<Rightarrow> 'm inventory_db_scheme \<Rightarrow> ProductRow result" where
  "requireProduct storeID productID w =
    lookup_or ErrStockNotFound ''Product lookup failed'' (get_product storeID productID w)"

definition encryptionSecret :: "InventoryService \<Rightarrow> string result" where
  "encryptionSecret s = (let k = trim_space (ins_EncryptionKey s) in if k = [] then Inl ErrEncryptionConfig else Inr k)"

subsection \<open>Schemas\<close>

record PutSchemaInput =
  pi_ExpectedVersion :: "int option"
  pi_Fields :: "FieldDef list"
  pi_Delimiter :: string

definition GetSchema :: "string \<Rightarrow> string \<Rightarrow> string \<Rightarrow> 'm inventory_db_scheme \<Rightarrow> Schema result" where
  "GetSchema userID storeID productID w =
    bindE (inventory_access userID storeID w) (\<lambda>_. bindE (requireProduct storeID productID w) (\<lambda>_.
    lookup_or ErrStockNotFound ''Schema lookup failed'' (GetActiveSchema storeID productID w)))"

definition put_tx ::
    "string \<Rightarrow> string \<times> string \<Rightarrow> string \<Rightarrow> PutSchemaInput \<Rightarrow> FieldDef list \<Rightarrow> string \<Rightarrow> ('m inventory_db_scheme, Schema) op" where
  "put_tx userID st productID inp flds delim = with_state (\<lambda>w.
    bindS (liftE (requireProduct (fst st) productID w)) (\<lambda>p.
    if pr_ActiveSchemaVersion p \<noteq> pi_ExpectedVersion inp then throw ErrSchemaConflict
    else
      let maxV = MaxSchemaVersion productID w; next0 = wrap32 (maxV + 1); nxt = (if next0 < 1 then 1 else next0) in
      bindS new_id (\<lambda>i.
      let created = \<lparr>sm_ID = i, sm_ProductID = productID, sm_StoreID = fst st, sm_MerchantID = snd st,
            sm_Version = nxt, sm_Fields = flds, sm_Delimiter = delim, sm_Checksum = SchemaChecksum flds delim,
            sm_CreatedBy = Some userID, sm_CreatedAt = clock w\<rparr> in
      bindS (try_op (InsertSchema created)) (\<lambda>r. case r of
        Inl e \<Rightarrow> throw (if is_unique_violation e then ErrSchemaConflict else internal ''Schema insert failed'')
      | Inr _ \<Rightarrow> bindS (or_internal ''Activate schema failed''
            (SetProductActiveSchema (fst st) productID nxt (clock w))) (\<lambda>_. ret created)))))"

definition PutSchema :: "string \<Rightarrow> string \<Rightarrow> string \<Rightarrow> PutSchemaInput \<Rightarrow> ('m inventory_db_scheme, Schema) op" where
  "PutSchema userID storeID productID inp = with_state (\<lambda>w.
    bindS (liftE (inventory_access userID storeID w)) (\<lambda>st.
    bindS (liftE (requireProduct storeID productID w)) (\<lambda>_.
    let delim = (if pi_Delimiter inp = [] then '','' else pi_Delimiter inp) in
    bindS (liftE (ValidateSchemaFields (pi_Fields inp) delim)) (\<lambda>flds.
    with_tx (put_tx userID st productID inp flds delim)))))"

subsection \<open>Listings\<close>

definition ListProductSummaries :: "string \<Rightarrow> string \<Rightarrow> 'm inventory_db_scheme \<Rightarrow> ProductSummary list result" where
  "ListProductSummaries userID storeID w =
    bindE (inventory_access userID storeID w) (\<lambda>_. Inr (ListProductSummaries_rows storeID w))"

definition count_of :: "string \<Rightarrow> (string \<times> i64) list \<Rightarrow> i64" where
  "count_of s counts = (case map_of counts s of None \<Rightarrow> 0 | Some n \<Rightarrow> n)"

definition no_payload :: "StockItem \<Rightarrow> StockItem" where
  "no_payload i = i\<lparr>si_EncryptedPayload := []\<rparr>"

definition GetProductInventory ::
    "string \<Rightarrow> string \<Rightarrow> string \<Rightarrow> 'm inventory_db_scheme \<Rightarrow> (ProductSummary \<times> StockItem list) result" where
  "GetProductInventory userID storeID productID w =
    bindE (inventory_access userID storeID w) (\<lambda>_. bindE (requireProduct storeID productID w) (\<lambda>p.
    let counts = CountStockByStatus storeID productID w;
        av = count_of StatusAvailable counts; re = count_of StatusReserved counts;
        de = count_of StatusDelivered counts; rv = count_of StatusRevoked counts in
    Inr (\<lparr>su_ProductID = productID, su_StoreID = storeID, su_Title = pr_Title p, su_Type = pr_Type p,
          su_ActiveSchemaVersion = pr_ActiveSchemaVersion p, su_Available = av, su_Reserved = re,
          su_Delivered = de, su_Revoked = rv, su_Total = wrap64 (av + re + de + rv)\<rparr>,
       map no_payload (ListStockItemsByProduct storeID productID 100 w))))"

subsection \<open>Import\<close>

record ImportItemsInput =
  ii_ExpectedSchemaVersion :: int
  ii_Items :: "go_map list"

record ImportResult =
  ir_Imported :: int
  ir_ItemIDs :: "string list"

definition new_item ::
    "string \<Rightarrow> string \<times> string \<Rightarrow> string \<Rightarrow> Schema \<Rightarrow> time \<Rightarrow> go_map \<Rightarrow> string option \<Rightarrow> string \<Rightarrow> int list \<Rightarrow> string \<Rightarrow> StockItem" where
  "new_item userID st productID sch now norm uh keyVer ct itemID =
    \<lparr>si_ID = itemID, si_ProductID = productID, si_StoreID = fst st, si_MerchantID = snd st,
     si_SchemaVersion = sm_Version sch, si_Status = StatusAvailable, si_EncryptedPayload = ct, si_KeyVersion = keyVer,
     si_MaskedPreview = MaskValues sch norm, si_UniqueKeyHash = uh, si_CreatedBy = Some userID, si_CreatedAt = now,
     si_UpdatedAt = now, si_ReservedAt = None, si_DeliveredAt = None, si_RevokedAt = None\<rparr>"

definition import_row ::
    "InventoryService \<Rightarrow> string \<Rightarrow> string \<Rightarrow> string \<times> string \<Rightarrow> string \<Rightarrow> Schema \<Rightarrow> go_map \<Rightarrow> ('m inventory_db_scheme, string) op" where
  "import_row s secret userID st productID sch raw = with_state (\<lambda>w.
    bindS (liftE (ValidateImportRow sch raw)) (\<lambda>(norm, uh).
    case EncryptAEAD (ins_Gcm s) (ins_Nonce s (next_id w)) secret (string_bytes (json_string_map norm)) of
      Inl _ \<Rightarrow> throw ErrEncryptionConfig
    | Inr (keyVer, ct) \<Rightarrow> bindS new_id (\<lambda>itemID.
        bindS (try_op (InsertStockItem (new_item userID st productID sch (clock w) norm uh keyVer ct itemID))) (\<lambda>r. case r of
          Inl e \<Rightarrow> throw (if is_unique_violation e then apperr_conflict ''CONFLICT'' ''Duplicate stock unique key in import''
            else internal ''Insert stock item failed'')
        | Inr _ \<Rightarrow> ret itemID))))"

fun import_rows ::
    "InventoryService \<Rightarrow> string \<Rightarrow> string \<Rightarrow> string \<times> string \<Rightarrow> string \<Rightarrow> Schema \<Rightarrow> go_map list \<Rightarrow>
     ('m inventory_db_scheme, string list) op" where
  "import_rows s secret userID st productID sch [] = ret []"
| "import_rows s secret userID st productID sch (raw # raws) =
    bindS (import_row s secret userID st productID sch raw) (\<lambda>i.
    bindS (import_rows s secret userID st productID sch raws) (\<lambda>is. ret (i # is)))"

definition import_tx ::
    "InventoryService \<Rightarrow> string \<Rightarrow> string \<Rightarrow> string \<times> string \<Rightarrow> string \<Rightarrow> ImportItemsInput \<Rightarrow> ('m inventory_db_scheme, ImportResult) op" where
  "import_tx s secret userID st productID inp = with_state (\<lambda>w.
    bindS (liftE (lookup_or ErrImportStaleSchema ''Schema lookup failed'' (GetActiveSchema (fst st) productID w))) (\<lambda>sch.
    if sm_Version sch \<noteq> ii_ExpectedSchemaVersion inp then throw ErrImportStaleSchema
    else bindS (import_rows s secret userID st productID sch (ii_Items inp)) (\<lambda>ids.
      ret \<lparr>ir_Imported = int (length ids), ir_ItemIDs = ids\<rparr>)))"

definition ImportItems ::
    "InventoryService \<Rightarrow> string \<Rightarrow> string \<Rightarrow> string \<Rightarrow> ImportItemsInput \<Rightarrow> ('m inventory_db_scheme, ImportResult) op" where
  "ImportItems s userID storeID productID inp = with_state (\<lambda>w.
    bindS (liftE (inventory_access userID storeID w)) (\<lambda>st.
    bindS (liftE (requireProduct storeID productID w)) (\<lambda>_.
    if ii_Items inp = [] then throw (apperr_validation ''VALIDATION_FAILED'' ''Import requires at least one item'')
    else if length (ii_Items inp) > maxImportBatch then throw (apperr_validation ''VALIDATION_FAILED'' ''Import batch too large'')
    else bindS (liftE (encryptionSecret s)) (\<lambda>secret. with_tx (import_tx s secret userID st productID inp)))))"

subsection \<open>Reserving a unit\<close>

record ReserveStockRequest =
  sq_StoreID :: string
  sq_ProductID :: string
  sq_OrderID :: string
  sq_CheckoutID :: string
  sq_IdempotencyKey :: string
  sq_TTL :: int

record ReserveStockResult =
  sx_Reservation :: StockReservation
  sx_Item :: "StockItem option"
  sx_Replayed :: bool

text \<open>A replay answers the stored reservation with its unit, or without one when it is not in the store.\<close>

definition replayed_stock :: "string \<Rightarrow> StockReservation \<Rightarrow> 'm inventory_db_scheme \<Rightarrow> ReserveStockResult" where
  "replayed_stock storeID existing w = \<lparr>sx_Reservation = existing,
     sx_Item = (case GetStockItemByID storeID (sr_StockItemID existing) w of Inl _ \<Rightarrow> None | Inr i \<Rightarrow> Some (no_payload i)),
     sx_Replayed = True\<rparr>"

definition opt_string :: "string \<Rightarrow> string option" where
  "opt_string s = (if s = [] then None else Some s)"

definition new_stock_reservation :: "ReserveStockRequest \<Rightarrow> StockItem \<Rightarrow> string \<Rightarrow> int \<Rightarrow> time \<Rightarrow> StockReservation" where
  "new_stock_reservation req item i ttl now =
    \<lparr>sr_ID = i, sr_StockItemID = si_ID item, sr_ProductID = sq_ProductID req, sr_StoreID = sq_StoreID req,
     sr_MerchantID = si_MerchantID item, sr_OrderID = opt_string (sq_OrderID req), sr_CheckoutID = opt_string (sq_CheckoutID req),
     sr_IdempotencyKey = sq_IdempotencyKey req, sr_Status = StockReserved, sr_ExpiresAt = now + ttl,
     sr_ReleasedAt = None, sr_DeliveredAt = None, sr_CreatedAt = now, sr_UpdatedAt = now\<rparr>"

text \<open>
  The INSERT of the hold; after a unique violation the code looks for the reservation of a concurrent
  request, in the same transaction.
\<close>

definition store_hold ::
    "'m inventory_db_scheme \<Rightarrow> ReserveStockRequest \<Rightarrow> StockItem \<Rightarrow> StockReservation \<Rightarrow> ('m inventory_db_scheme, ReserveStockResult) op" where
  "store_hold w req item res =
    bindS (try_op (InsertStockReservation res)) (\<lambda>r. case r of
      Inl e \<Rightarrow>
        if is_unique_violation e then
          (case after_failed_statement (GetStockReservationByIdempotency (sq_ProductID req) (sq_IdempotencyKey req) w) of
             Inl _ \<Rightarrow> throw ErrOutOfStock
           | Inr existing \<Rightarrow> ret \<lparr>sx_Reservation = existing, sx_Item = Some (no_payload item), sx_Replayed = True\<rparr>)
        else throw (internal ''Insert reservation failed'')
    | Inr _ \<Rightarrow> ret \<lparr>sx_Reservation = res,
        sx_Item = Some (no_payload (item\<lparr>si_Status := StatusReserved\<rparr>)), sx_Replayed = False\<rparr>)"

definition claim_tx :: "ReserveStockRequest \<Rightarrow> int \<Rightarrow> ('m inventory_db_scheme, ReserveStockResult) op" where
  "claim_tx req ttl = with_state (\<lambda>w.
    case GetStockReservationByIdempotency (sq_ProductID req) (sq_IdempotencyKey req) w of
      Inr existing \<Rightarrow> ret (replayed_stock (sq_StoreID req) existing w)
    | Inl e \<Rightarrow>
      if \<not> is_not_found e then throw (internal ''Reservation lookup failed'')
      else bindS (liftE (lookup_or ErrOutOfStock ''Claim stock failed''
          (ClaimAvailableStockItem (sq_StoreID req) (sq_ProductID req) w))) (\<lambda>item.
        bindS (or_internal ''Reserve stock status failed''
          (UpdateStockItemStatus (si_ID item) StatusAvailable StatusReserved (clock w))) (\<lambda>ok.
        if \<not> ok then throw ErrOutOfStock
        else bindS new_id (\<lambda>i. store_hold w req item (new_stock_reservation req item i ttl (clock w))))))"

definition ReserveStock :: "ReserveStockRequest \<Rightarrow> ('m inventory_db_scheme, ReserveStockResult) op" where
  "ReserveStock req =
    (if sq_ProductID req = [] \<or> sq_StoreID req = []
       then throw (apperr_validation ''VALIDATION_FAILED'' ''storeId and productId required'')
     else if trim_space (sq_IdempotencyKey req) = []
       then throw (apperr_validation ''VALIDATION_FAILED'' ''Idempotency-Key required'')
     else if sq_OrderID req = [] \<and> sq_CheckoutID req = []
       then throw (apperr_validation ''VALIDATION_FAILED'' ''orderId or checkoutId required'')
     else let ttl = (if sq_TTL req \<le> 0 then DefaultStockReservationTTL else sq_TTL req) in
       with_state (\<lambda>w.
         case GetStockReservationByIdempotency (sq_ProductID req) (sq_IdempotencyKey req) w of
           Inr existing \<Rightarrow> ret (replayed_stock (sq_StoreID req) existing w)
         | Inl e \<Rightarrow> if \<not> is_not_found e then throw (internal ''Reservation lookup failed'') else with_tx (claim_tx req ttl)))"

subsection \<open>Release, delivery and expiry\<close>

definition stock_reservation_of :: "string \<Rightarrow> 'm inventory_db_scheme \<Rightarrow> StockReservation result" where
  "stock_reservation_of i w = lookup_or ErrStockNotFound ''Reservation lookup failed'' (GetStockReservation i w)"

definition stock_release_tx :: "string \<Rightarrow> ('m inventory_db_scheme, StockReservation) op" where
  "stock_release_tx i = with_state (\<lambda>w.
    bindS (liftE (stock_reservation_of i w)) (\<lambda>res.
    if sr_Status res = StockReleased then ret res
    else if sr_Status res \<noteq> StockReserved \<and> sr_Status res \<noteq> StockHeldUnknown then throw ErrStockReservationState
    else bindS (or_internal ''Release reservation failed''
        (UpdateStockReservationStatus (sr_ID res) (sr_Status res) StockReleased (clock w))) (\<lambda>ok.
      if \<not> ok then throw ErrStockReservationState
      else bindS (in_tx_ignored (UpdateStockItemStatus (sr_StockItemID res) StatusReserved StatusAvailable (clock w))) (\<lambda>_.
        ret (res\<lparr>sr_Status := StockReleased, sr_ReleasedAt := Some (clock w), sr_UpdatedAt := clock w\<rparr>)))))"

definition ReleaseStock :: "string \<Rightarrow> ('m inventory_db_scheme, StockReservation) op" where
  "ReleaseStock i = with_tx (stock_release_tx i)"

text \<open>The delivery of the unit itself; the code also tries a unit that is on offer.\<close>

definition deliver_unit :: "string \<Rightarrow> time \<Rightarrow> ('m inventory_db_scheme, unit) op" where
  "deliver_unit itemID at =
    bindS (or_internal ''Deliver stock failed'' (UpdateStockItemStatus itemID StatusReserved StatusDelivered at)) (\<lambda>ok.
    if ok then ret ()
    else bindS (try_op (UpdateStockItemStatus itemID StatusAvailable StatusDelivered at)) (\<lambda>r.
      if r = Inr True then ret () else throw ErrItemState))"

definition allocate_tx :: "string \<Rightarrow> ('m inventory_db_scheme, StockReservation \<times> StockItem) op" where
  "allocate_tx i = with_state (\<lambda>w.
    bindS (liftE (stock_reservation_of i w)) (\<lambda>res.
    if sr_Status res = StockDelivered then
      (case GetStockItemByID (sr_StoreID res) (sr_StockItemID res) w of
         Inl _ \<Rightarrow> throw (internal ''Stock item lookup failed'') | Inr item \<Rightarrow> ret (res, no_payload item))
    else if sr_Status res \<noteq> StockReserved \<and> sr_Status res \<noteq> StockHeldUnknown then throw ErrStockReservationState
    else bindS (or_internal ''Deliver reservation failed''
        (UpdateStockReservationStatus (sr_ID res) (sr_Status res) StockDelivered (clock w))) (\<lambda>ok.
      if \<not> ok then throw ErrStockReservationState
      else bindS (deliver_unit (sr_StockItemID res) (clock w)) (\<lambda>_. with_state (\<lambda>w'.
        case GetStockItemByID (sr_StoreID res) (sr_StockItemID res) w' of
            Inl _ \<Rightarrow> throw (internal ''Stock item lookup failed'')
          | Inr item \<Rightarrow> ret (res\<lparr>sr_Status := StockDelivered, sr_DeliveredAt := Some (clock w), sr_UpdatedAt := clock w\<rparr>,
              no_payload item))))))"

definition AllocateOnFulfillment :: "string \<Rightarrow> ('m inventory_db_scheme, StockReservation \<times> StockItem) op" where
  "AllocateOnFulfillment i = with_tx (allocate_tx i)"

fun expire_stock :: "time \<Rightarrow> StockReservation list \<Rightarrow> ('m inventory_db_scheme, int) op" where
  "expire_stock now [] = ret 0"
| "expire_stock now (res # rest) =
    bindS (or_internal ''Expire reservation failed''
      (UpdateStockReservationStatus (sr_ID res) StockReserved StockReleased now)) (\<lambda>ok.
    if \<not> ok then expire_stock now rest
    else bindS (in_tx_ignored (UpdateStockItemStatus (sr_StockItemID res) StatusReserved StatusAvailable now)) (\<lambda>_.
      bindS (expire_stock now rest) (\<lambda>n. ret (n + 1))))"

definition ExpireStock :: "int \<Rightarrow> ('m inventory_db_scheme, int) op" where
  "ExpireStock limit = with_tx (with_state (\<lambda>w.
    expire_stock (clock w) (ListExpiredStockReservations (clock w) (if limit \<le> 0 then 50 else limit) w)))"

subsection \<open>Reveal and revoke\<close>

record RevealResult =
  rv_ItemID :: string
  rv_ProductID :: string
  rv_SchemaVersion :: int
  rv_Status :: string
  rv_Secrets :: go_map
  rv_Masked :: go_map
  rv_AuditID :: string

definition bytes_string :: "int list \<Rightarrow> string" where
  "bytes_string bs = map char_of bs"

definition item_of :: "string \<Rightarrow> string \<Rightarrow> 'm inventory_db_scheme \<Rightarrow> StockItem result" where
  "item_of storeID itemID w = lookup_or ErrStockNotFound ''Stock item lookup failed'' (GetStockItemByID storeID itemID w)"

definition RevealItem ::
    "InventoryService \<Rightarrow> string \<Rightarrow> string \<Rightarrow> string \<Rightarrow> string \<Rightarrow> bool \<Rightarrow> ('m inventory_db_scheme, RevealResult) op" where
  "RevealItem s userID storeID itemID reason mfaVerified = with_state (\<lambda>w.
    bindS (liftE (inventory_access userID storeID w)) (\<lambda>_.
    let reason = trim_space reason in
    if reason = [] \<or> length reason > 500 then throw (apperr_validation ''VALIDATION_FAILED'' ''Reveal reason is required'')
    else bindS (liftE (encryptionSecret s)) (\<lambda>secret.
    bindS (liftE (item_of storeID itemID w)) (\<lambda>item.
    if si_Status item = StatusRevoked then throw ErrRevealDenied
    else case DecryptAEAD (ins_Gcm s) secret (si_EncryptedPayload item) of
      Inl _ \<Rightarrow> throw (internal ''Decrypt stock failed'')
    | Inr plain \<Rightarrow>
      (case json_parse_map (bytes_string plain) of
         None \<Rightarrow> throw (internal ''Decode stock payload failed'')
       | Some vals \<Rightarrow> bindS new_id (\<lambda>auditID.
           bindS (or_internal ''Reveal audit failed'' (InsertRevealAudit
             \<lparr>ra_ID = auditID, ra_StockItemID = si_ID item, ra_StoreID = si_StoreID item, ra_ProductID = si_ProductID item,
              ra_ActorUserID = userID, ra_Reason = reason, ra_MFAVerified = mfaVerified,
              ra_PayloadHash = sha256 (si_EncryptedPayload item), ra_CreatedAt = clock w\<rparr>)) (\<lambda>_.
           ret \<lparr>rv_ItemID = si_ID item, rv_ProductID = si_ProductID item, rv_SchemaVersion = si_SchemaVersion item,
             rv_Status = si_Status item, rv_Secrets = vals, rv_Masked = si_MaskedPreview item, rv_AuditID = auditID\<rparr>)))))))"

definition RevokeItem :: "string \<Rightarrow> string \<Rightarrow> string \<Rightarrow> ('m inventory_db_scheme, StockItem) op" where
  "RevokeItem userID storeID itemID = with_state (\<lambda>w.
    bindS (liftE (inventory_access userID storeID w)) (\<lambda>_.
    bindS (liftE (item_of storeID itemID w)) (\<lambda>item.
    if si_Status item = StatusRevoked then ret (no_payload item)
    else if si_Status item = StatusDelivered then throw ErrItemState
    else bindS (or_internal ''Revoke stock failed''
        (UpdateStockItemStatus (si_ID item) (si_Status item) StatusRevoked (clock w))) (\<lambda>ok.
      if \<not> ok then throw ErrItemState
      else ret (no_payload (item\<lparr>si_Status := StatusRevoked, si_RevokedAt := Some (clock w), si_UpdatedAt := clock w\<rparr>))))))"

end
