(* ===== verification/Stock_Spec.thy ===== *)
theory Stock_Spec
  imports Inventory
begin

text \<open>
  What the inventory promises, without tables, keys and errors: a state of stock is the status of
  every unit and the unit and status of every reservation, and five kinds of move change it. The
  contract is that a unit is promised to at most one checkout at a time and delivered at most once;
  it holds in every state the moves reach.
\<close>

type_synonym stock_state = "(string \<Rightarrow> string option) \<times> (string \<Rightarrow> (string \<times> string) option)"

definition holding :: "string \<Rightarrow> bool" where
  "holding s \<longleftrightarrow> s = StockReserved \<or> s = StockHeldUnknown"

inductive stock_move :: "stock_state \<Rightarrow> stock_state \<Rightarrow> bool" where
  add: "U u = None \<Longrightarrow> stock_move (U, H) (U(u \<mapsto> StatusAvailable), H)"
| claim: "U u = Some StatusAvailable \<Longrightarrow> H r = None \<Longrightarrow> stock_move (U, H) (U(u \<mapsto> StatusReserved), H(r \<mapsto> (u, StockReserved)))"
| release: "H r = Some (u, s) \<Longrightarrow> holding s \<Longrightarrow>
    stock_move (U, H) (if U u = Some StatusReserved then U(u \<mapsto> StatusAvailable) else U, H(r \<mapsto> (u, StockReleased)))"
| deliver: "H r = Some (u, s) \<Longrightarrow> holding s \<Longrightarrow> U u = Some StatusReserved \<Longrightarrow>
    stock_move (U, H) (U(u \<mapsto> StatusDelivered), H(r \<mapsto> (u, StockDelivered)))"
| revoke: "U u = Some t \<Longrightarrow> t = StatusAvailable \<or> t = StatusReserved \<Longrightarrow> stock_move (U, H) (U(u \<mapsto> StatusRevoked), H)"

inductive_cases stock_moveE: "stock_move s s'"

text \<open>
  The states of stock in which every unit is where its reservations say: a unit on offer has no live
  reservation, a reserved one is held, a delivered one was delivered to someone, and no unit has two
  live reservations.
\<close>

definition live_status :: "string \<Rightarrow> bool" where
  "live_status s \<longleftrightarrow> holding s \<or> s = StockDelivered"

definition fits :: "string \<Rightarrow> string \<Rightarrow> bool" where
  "fits s t \<longleftrightarrow> (s = StockDelivered \<longrightarrow> t = StatusDelivered) \<and> (holding s \<longrightarrow> t = StatusReserved \<or> t = StatusRevoked)"

definition stock_sound :: "stock_state \<Rightarrow> bool" where
  "stock_sound = (\<lambda>(U, H).
     (\<forall>r u s. H r = Some (u, s) \<longrightarrow> (\<exists>t. U u = Some t \<and> fits s t)) \<and>
     (\<forall>u. U u = Some StatusReserved \<longrightarrow> (\<exists>r s. H r = Some (u, s) \<and> holding s)) \<and>
     (\<forall>u. U u = Some StatusDelivered \<longrightarrow> (\<exists>r. H r = Some (u, StockDelivered))) \<and>
     (\<forall>r r' u s s'. H r = Some (u, s) \<longrightarrow> H r' = Some (u, s') \<longrightarrow> live_status s \<longrightarrow> live_status s' \<longrightarrow> r = r'))"

lemma stock_soundD:
  assumes "stock_sound (U, H)"
  shows "H r = Some (u, s) \<Longrightarrow> \<exists>t. U u = Some t \<and> fits s t"
    and "U u = Some StatusReserved \<Longrightarrow> \<exists>r s. H r = Some (u, s) \<and> holding s"
    and "U u = Some StatusDelivered \<Longrightarrow> \<exists>r. H r = Some (u, StockDelivered)"
    and "H r = Some (u, s) \<Longrightarrow> H r' = Some (u, s') \<Longrightarrow> live_status s \<Longrightarrow> live_status s' \<Longrightarrow> r = r'"
  using assms unfolding stock_sound_def by blast+

lemma holding_simps [simp]: "holding StockReserved" "holding StockHeldUnknown" "\<not> holding StockReleased" "\<not> holding StockDelivered"
  by (simp_all add: holding_def)

lemma live_simps [simp]: "live_status StockReserved" "live_status StockHeldUnknown" "live_status StockDelivered" "\<not> live_status StockReleased"
  by (simp_all add: live_status_def)

lemma available_free:
  assumes "stock_sound (U, H)" and "U u = Some StatusAvailable" and "H r = Some (u, s)"
  shows "\<not> live_status s"
  using stock_soundD(1) [OF assms(1,3)] assms(2) by (auto simp: fits_def live_status_def)

lemma reserved_not_delivered:
  assumes "stock_sound (U, H)" and "U u = Some StatusReserved" and "H r = Some (u, s)"
  shows "s \<noteq> StockDelivered"
  using stock_soundD(1) [OF assms(1,3)] assms(2) by (auto simp: fits_def)

lemma stock_soundI:
  assumes "\<And>r u s. H r = Some (u, s) \<Longrightarrow> \<exists>t. U u = Some t \<and> fits s t"
    and "\<And>u. U u = Some StatusReserved \<Longrightarrow> \<exists>r s. H r = Some (u, s) \<and> holding s"
    and "\<And>u. U u = Some StatusDelivered \<Longrightarrow> \<exists>r. H r = Some (u, StockDelivered)"
    and "\<And>r r' u s s'. H r = Some (u, s) \<Longrightarrow> H r' = Some (u, s') \<Longrightarrow> live_status s \<Longrightarrow> live_status s' \<Longrightarrow> r = r'"
  shows "stock_sound (U, H)"
  using assms unfolding stock_sound_def by blast

lemma sound_add: "stock_sound (U, H) \<Longrightarrow> U u = None \<Longrightarrow> stock_sound (U(u \<mapsto> StatusAvailable), H)"
  using stock_soundD [of U H] by (intro stock_soundI) (fastforce split: if_splits)+

lemma sound_claim:
  assumes s: "stock_sound (U, H)" and u: "U u = Some StatusAvailable" and r: "H r = None"
  shows "stock_sound (U(u \<mapsto> StatusReserved), H(r \<mapsto> (u, StockReserved)))"
proof (rule stock_soundI)
  fix r' u' s' assume H: "(H(r \<mapsto> (u, StockReserved))) r' = Some (u', s')"
  show "\<exists>t. (U(u \<mapsto> StatusReserved)) u' = Some t \<and> fits s' t"
  proof (cases "r' = r")
    case True
    with H show ?thesis by (auto simp: fits_def)
  next
    case False
    then have "H r' = Some (u', s')" using H by simp
    with stock_soundD(1) [OF s this] available_free [OF s u] show ?thesis
      by (auto simp: fits_def live_status_def)
  qed
next
  fix u' assume "(U(u \<mapsto> StatusReserved)) u' = Some StatusReserved"
  then consider "u' = u" | "u' \<noteq> u" "U u' = Some StatusReserved" by (auto split: if_splits)
  then show "\<exists>r' s'. (H(r \<mapsto> (u, StockReserved))) r' = Some (u', s') \<and> holding s'"
  proof cases
    case 2
    with stock_soundD(2) [OF s] obtain r' s' where "H r' = Some (u', s')" "holding s'" by blast
    moreover from this r have "r' \<noteq> r" by auto
    ultimately show ?thesis by auto
  qed auto
next
  fix u' assume "(U(u \<mapsto> StatusReserved)) u' = Some StatusDelivered"
  then have "U u' = Some StatusDelivered" by (auto split: if_splits)
  from stock_soundD(3) [OF s this] obtain r' where "H r' = Some (u', StockDelivered)" by blast
  moreover from this r have "r' \<noteq> r" by auto
  ultimately show "\<exists>r'. (H(r \<mapsto> (u, StockReserved))) r' = Some (u', StockDelivered)" by auto
next
  fix r1 r2 u' s1 s2
  assume H: "(H(r \<mapsto> (u, StockReserved))) r1 = Some (u', s1)" "(H(r \<mapsto> (u, StockReserved))) r2 = Some (u', s2)"
    and l: "live_status s1" "live_status s2"
  show "r1 = r2"
    using H l stock_soundD(4) [OF s] available_free [OF s u] by (auto split: if_splits)
qed

lemma sound_release:
  assumes s: "stock_sound (U, H)" and r: "H r = Some (u, st)" and h: "holding st"
  shows "stock_sound (if U u = Some StatusReserved then U(u \<mapsto> StatusAvailable) else U, H(r \<mapsto> (u, StockReleased)))"
proof (rule stock_soundI)
  have live: "live_status st" using h by (simp add: live_status_def)
  let ?U = "if U u = Some StatusReserved then U(u \<mapsto> StatusAvailable) else U"
  fix r' u' s' assume H: "(H(r \<mapsto> (u, StockReleased))) r' = Some (u', s')"
  obtain t where t: "U u = Some t" "fits st t" using stock_soundD(1) [OF s r] by blast
  show "\<exists>t. ?U u' = Some t \<and> fits s' t"
  proof (cases "r' = r")
    case True
    with H t show ?thesis by (auto simp: fits_def)
  next
    case False
    then have H': "H r' = Some (u', s')" using H by simp
    show ?thesis
    proof (cases "u' = u")
      case True
      then have "\<not> live_status s'" using stock_soundD(4) [OF s r, of r' s'] H' False live by blast
      then show ?thesis using True t by (auto simp: fits_def live_status_def)
    qed (use stock_soundD(1) [OF s H'] in auto)
  qed
next
  have live: "live_status st" using h by (simp add: live_status_def)
  let ?U = "if U u = Some StatusReserved then U(u \<mapsto> StatusAvailable) else U"
  fix u' assume U: "?U u' = Some StatusReserved"
  then have u: "u' \<noteq> u" "U u' = Some StatusReserved" by (auto split: if_splits)
  from stock_soundD(2) [OF s u(2)] obtain r' s' where r': "H r' = Some (u', s')" "holding s'" by blast
  with r u(1) have "r' \<noteq> r" by auto
  with r' show "\<exists>r' s'. (H(r \<mapsto> (u, StockReleased))) r' = Some (u', s') \<and> holding s'" by auto
next
  let ?U = "if U u = Some StatusReserved then U(u \<mapsto> StatusAvailable) else U"
  fix u' assume "?U u' = Some StatusDelivered"
  then have "U u' = Some StatusDelivered" by (auto split: if_splits)
  from stock_soundD(3) [OF s this] obtain r' where r': "H r' = Some (u', StockDelivered)" by blast
  with r h have "r' \<noteq> r" by auto
  with r' show "\<exists>r'. (H(r \<mapsto> (u, StockReleased))) r' = Some (u', StockDelivered)" by auto
next
  fix r1 r2 u' s1 s2
  assume H: "(H(r \<mapsto> (u, StockReleased))) r1 = Some (u', s1)" "(H(r \<mapsto> (u, StockReleased))) r2 = Some (u', s2)"
    and l: "live_status s1" "live_status s2"
  have "r1 \<noteq> r" "r2 \<noteq> r" using H l by auto
  with H l show "r1 = r2" using stock_soundD(4) [OF s] by auto
qed

lemma sound_deliver:
  assumes s: "stock_sound (U, H)" and r: "H r = Some (u, st)" and h: "holding st" and u: "U u = Some StatusReserved"
  shows "stock_sound (U(u \<mapsto> StatusDelivered), H(r \<mapsto> (u, StockDelivered)))"
proof (rule stock_soundI)
  have live: "live_status st" using h by (simp add: live_status_def)
  fix r' u' s' assume H: "(H(r \<mapsto> (u, StockDelivered))) r' = Some (u', s')"
  show "\<exists>t. (U(u \<mapsto> StatusDelivered)) u' = Some t \<and> fits s' t"
  proof (cases "r' = r")
    case True
    with H show ?thesis by (auto simp: fits_def)
  next
    case False
    then have H': "H r' = Some (u', s')" using H by simp
    show ?thesis
    proof (cases "u' = u")
      case True
      then have "\<not> live_status s'" using stock_soundD(4) [OF s r, of r' s'] H' False live by blast
      then show ?thesis using True by (auto simp: fits_def live_status_def)
    qed (use stock_soundD(1) [OF s H'] in auto)
  qed
next
  fix u' assume U: "(U(u \<mapsto> StatusDelivered)) u' = Some StatusReserved"
  then have u': "u' \<noteq> u" "U u' = Some StatusReserved" by (auto split: if_splits)
  from stock_soundD(2) [OF s u'(2)] obtain r' s' where r': "H r' = Some (u', s')" "holding s'" by blast
  with r u'(1) have "r' \<noteq> r" by auto
  with r' show "\<exists>r' s'. (H(r \<mapsto> (u, StockDelivered))) r' = Some (u', s') \<and> holding s'" by auto
next
  fix u' assume U: "(U(u \<mapsto> StatusDelivered)) u' = Some StatusDelivered"
  show "\<exists>r'. (H(r \<mapsto> (u, StockDelivered))) r' = Some (u', StockDelivered)"
  proof (cases "u' = u")
    case False
    with U have "U u' = Some StatusDelivered" by simp
    from stock_soundD(3) [OF s this] obtain r' where r': "H r' = Some (u', StockDelivered)" by blast
    with r False have "r' \<noteq> r" by auto
    with r' show ?thesis by auto
  qed auto
next
  fix r1 r2 u' s1 s2
  assume H: "(H(r \<mapsto> (u, StockDelivered))) r1 = Some (u', s1)" "(H(r \<mapsto> (u, StockDelivered))) r2 = Some (u', s2)"
    and l: "live_status s1" "live_status s2"
  have live: "live_status st" using h by (simp add: live_status_def)
  show "r1 = r2" using H l live r stock_soundD(4) [OF s] by (auto split: if_splits)
qed

lemma sound_revoke:
  assumes s: "stock_sound (U, H)" and u: "U u = Some t" and t: "t = StatusAvailable \<or> t = StatusReserved"
  shows "stock_sound (U(u \<mapsto> StatusRevoked), H)"
proof (rule stock_soundI)
  fix r u' s' assume H: "H r = Some (u', s')"
  show "\<exists>t. (U(u \<mapsto> StatusRevoked)) u' = Some t \<and> fits s' t"
  proof (cases "u' = u")
    case True
    with stock_soundD(1) [OF s H] u t have "s' \<noteq> StockDelivered" by (auto simp: fits_def)
    then show ?thesis using True by (auto simp: fits_def)
  qed (use stock_soundD(1) [OF s H] in auto)
next
  fix u' assume "(U(u \<mapsto> StatusRevoked)) u' = Some StatusReserved"
  then have "U u' = Some StatusReserved" by (auto split: if_splits)
  then show "\<exists>r s. H r = Some (u', s) \<and> holding s" by (rule stock_soundD(2) [OF s])
next
  fix u' assume "(U(u \<mapsto> StatusRevoked)) u' = Some StatusDelivered"
  then have "U u' = Some StatusDelivered" by (auto split: if_splits)
  then show "\<exists>r. H r = Some (u', StockDelivered)" by (rule stock_soundD(3) [OF s])
qed (use stock_soundD(4) [OF s] in blast)

lemma sound_move:
  assumes "stock_move s s'" and "stock_sound s"
  shows "stock_sound s'"
  using assms(1)
proof cases
  case (add U u H)
  with assms(2) show ?thesis by (simp only: sound_add)
next
  case (claim U u H r)
  with assms(2) show ?thesis by (simp only: sound_claim)
next
  case (release H r u s U)
  with assms(2) sound_release [of U H r u s] show ?thesis by simp
next
  case (deliver H r u s U)
  with assms(2) sound_deliver [of U H r u s] show ?thesis by simp
next
  case (revoke U u t H)
  with assms(2) sound_revoke [of U H u t] show ?thesis by simp
qed

lemma sound_run: "stock_move\<^sup>*\<^sup>* s s' \<Longrightarrow> stock_sound s \<Longrightarrow> stock_sound s'"
  by (induction rule: rtranclp_induct) (auto intro: sound_move)

text \<open>What is over stays over: a delivered reservation, a released one, and a unit that is delivered or revoked.\<close>

lemma reservation_stays: "stock_move (U, H) (U', H') \<Longrightarrow> H r = Some (u, s) \<Longrightarrow> \<not> holding s \<Longrightarrow> H' r = Some (u, s)"
  by (erule stock_moveE) (auto split: if_splits)

lemma reservation_stays_run:
  "stock_move\<^sup>*\<^sup>* x y \<Longrightarrow> snd x r = Some (u, s) \<Longrightarrow> \<not> holding s \<Longrightarrow> snd y r = Some (u, s)"
proof (induction rule: rtranclp_induct)
  case (step y z)
  then show ?case using reservation_stays [of "fst y" "snd y" "fst z" "snd z" r u s] by simp
qed

lemma unit_stays: "stock_move (U, H) (U', H') \<Longrightarrow> U u = Some t \<Longrightarrow> t = StatusDelivered \<or> t = StatusRevoked \<Longrightarrow> U' u = Some t"
  by (erule stock_moveE) (auto split: if_splits)

lemma unit_stays_run:
  "stock_move\<^sup>*\<^sup>* x y \<Longrightarrow> fst x u = Some t \<Longrightarrow> t = StatusDelivered \<or> t = StatusRevoked \<Longrightarrow> fst y u = Some t"
proof (induction rule: rtranclp_induct)
  case (step y z)
  then show ?case using unit_stays [of "fst y" "snd y" "fst z" "snd z" u t] by simp
qed

text \<open>A reservation never changes its unit.\<close>

lemma hold_stays: "stock_move (U, H) (U', H') \<Longrightarrow> H r = Some (u, s) \<Longrightarrow> \<exists>s'. H' r = Some (u, s')"
  by (erule stock_moveE) (auto split: if_splits)

lemma hold_stays_run: "stock_move\<^sup>*\<^sup>* x y \<Longrightarrow> \<exists>s. snd x r = Some (u, s) \<Longrightarrow> \<exists>s. snd y r = Some (u, s)"
proof (induction rule: rtranclp_induct)
  case (step y z)
  then show ?case using hold_stays [of "fst y" "snd y" "fst z" "snd z" r u] by auto
qed

end
