(* ===== verification/Inventory_Refines.thy ===== *)
theory Inventory_Refines
  imports Inventory_Service Stock_Spec
begin

text \<open>
  The inventory service implements the moves of \<open>Stock_Spec\<close>: the abstraction reads the status of
  every unit and the unit and status of every reservation off the tables, and every call of the
  service, whatever its arguments and its result, is a sequence of moves. So what the moves keep
  holds for the tables in every state a run of the service reaches.
\<close>

subsection \<open>The abstraction\<close>

definition units :: "StockItem list \<Rightarrow> string \<Rightarrow> string option" where
  "units items = map_of (map (\<lambda>i. (si_ID i, si_Status i)) items)"

definition holds :: "StockReservation list \<Rightarrow> string \<Rightarrow> (string \<times> string) option" where
  "holds rs = map_of (map (\<lambda>r. (sr_ID r, sr_StockItemID r, sr_Status r)) rs)"

definition stock_abs :: "'m inventory_db_scheme \<Rightarrow> stock_state" where
  "stock_abs w = (units (stock_items w), holds (stock_reservations w))"

definition res_key :: "StockReservation \<Rightarrow> string \<times> string" where
  "res_key r = (sr_ProductID r, sr_IdempotencyKey r)"

text \<open>What the constraints keep of the rows themselves.\<close>

definition unit_for :: "StockReservation \<Rightarrow> StockItem \<Rightarrow> bool" where
  "unit_for r i \<longleftrightarrow> si_ID i = sr_StockItemID r \<and> si_StoreID i = sr_StoreID r \<and> si_ProductID i = sr_ProductID r"

definition stock_rows :: "StockItem list \<Rightarrow> StockReservation list \<Rightarrow> bool" where
  "stock_rows items rs \<longleftrightarrow> distinct (map si_ID items) \<and> distinct (map sr_ID rs) \<and> distinct (map res_key rs) \<and>
     list_all (\<lambda>i. item_check i = Inr ()) items \<and> list_all (\<lambda>r. stock_reservation_check r = Inr ()) rs \<and>
     list_all (\<lambda>r. list_ex (unit_for r) items) rs"

definition inventory_inv :: "'m inventory_db_scheme \<Rightarrow> bool" where
  "inventory_inv w \<longleftrightarrow> stock_rows (stock_items w) (stock_reservations w) \<and> stock_sound (stock_abs w)"

lemma stock_abs_simps [simp]:
  "stock_abs (w\<lparr>next_id := n\<rparr>) = stock_abs w" "stock_abs (w\<lparr>clock := t\<rparr>) = stock_abs w"
  "stock_abs (w\<lparr>products := ps\<rparr>) = stock_abs w" "stock_abs (w\<lparr>inventory_schemas := ss\<rparr>) = stock_abs w"
  "stock_abs (w\<lparr>stock_reveal_audits := as\<rparr>) = stock_abs w"
  by (simp_all add: stock_abs_def)

lemma inventory_inv_simps [simp]:
  "inventory_inv (w\<lparr>next_id := n\<rparr>) = inventory_inv w" "inventory_inv (w\<lparr>clock := t\<rparr>) = inventory_inv w"
  "inventory_inv (w\<lparr>products := ps\<rparr>) = inventory_inv w" "inventory_inv (w\<lparr>inventory_schemas := ss\<rparr>) = inventory_inv w"
  "inventory_inv (w\<lparr>stock_reveal_audits := as\<rparr>) = inventory_inv w"
  by (simp_all add: inventory_inv_def)

lemma units_None: "units items u = None \<longleftrightarrow> u \<notin> si_ID ` set items"
  by (simp add: units_def map_of_eq_None_iff image_image)

lemma holds_None: "holds rs r = None \<longleftrightarrow> r \<notin> sr_ID ` set rs"
  by (simp add: holds_def map_of_eq_None_iff image_image)

lemma units_mem: "distinct (map si_ID items) \<Longrightarrow> i \<in> set items \<Longrightarrow> units items (si_ID i) = Some (si_Status i)"
  unfolding units_def by (rule map_of_is_SomeI) (auto simp: comp_def)

lemma holds_mem: "distinct (map sr_ID rs) \<Longrightarrow> r \<in> set rs \<Longrightarrow> holds rs (sr_ID r) = Some (sr_StockItemID r, sr_Status r)"
  unfolding holds_def by (rule map_of_is_SomeI) (auto simp: comp_def)

lemma units_Some: "units items u = Some s \<Longrightarrow> \<exists>i\<in>set items. si_ID i = u \<and> si_Status i = s"
  by (auto simp: units_def dest!: map_of_SomeD)

lemma holds_Some: "holds rs r = Some (u, s) \<Longrightarrow> \<exists>x\<in>set rs. sr_ID x = r \<and> sr_StockItemID x = u \<and> sr_Status x = s"
  by (auto simp: holds_def dest!: map_of_SomeD)

lemma map_of_snoc: "k \<notin> fst ` set m \<Longrightarrow> map_of (m @ [(k, v)]) = (map_of m)(k \<mapsto> v)"
  by (induction m) (auto simp: fun_eq_iff)

lemma units_snoc: "si_ID i \<notin> si_ID ` set items \<Longrightarrow> units (items @ [i]) = (units items)(si_ID i \<mapsto> si_Status i)"
  by (simp add: units_def map_of_snoc image_image del: map_of_append)

lemma holds_snoc: "sr_ID r \<notin> sr_ID ` set rs \<Longrightarrow> holds (rs @ [r]) = (holds rs)(sr_ID r \<mapsto> (sr_StockItemID r, sr_Status r))"
  by (simp add: holds_def map_of_snoc image_image del: map_of_append)

lemma map_of_update:
  assumes "distinct (map key xs)" and "r \<in> set xs" and "sel r" and "\<And>x. x \<in> set xs \<Longrightarrow> sel x \<Longrightarrow> key x = key r"
    and "key (g r) = key r"
  shows "map_of (map (\<lambda>x. (key x, val x)) (map (\<lambda>x. if sel x then g x else x) xs)) =
    (map_of (map (\<lambda>x. (key x, val x)) xs))(key r \<mapsto> val (g r))"
proof -
  have only: "x = r" if "x \<in> set xs" "sel x" for x
    using find_unique_key [OF assms(1) that(1) assms(2)] assms(4) that by blast
  have eq: "map (\<lambda>x. if sel x then g x else x) xs = map (\<lambda>x. if x = r then g x else x) xs"
    by (rule map_cong [OF refl]) (metis only assms(3))
  have "map_of (map (\<lambda>x. (key x, val x)) (map (\<lambda>x. if x = r then g x else x) ys)) =
      (if r \<in> set ys then (map_of (map (\<lambda>x. (key x, val x)) ys))(key r \<mapsto> val (g r))
       else map_of (map (\<lambda>x. (key x, val x)) ys))" if "distinct (map key ys)" "set ys \<subseteq> set xs" for ys
    using that
  proof (induction ys)
    case (Cons y ys)
    have new: "key y \<noteq> key r" if "r \<in> set ys" using Cons.prems(1) that by auto
    show ?case
    proof (cases "y = r")
      case True
      with new have "r \<notin> set ys" by blast
      with Cons True assms(5) show ?thesis by simp
    next
      case False
      with Cons new show ?thesis by (cases "r \<in> set ys") (simp_all add: fun_eq_iff)
    qed
  qed simp
  from this [OF assms(1) subset_refl] assms(2) show ?thesis unfolding eq by simp
qed

subsection \<open>The statements\<close>

definition move_item :: "string \<Rightarrow> string \<Rightarrow> string \<Rightarrow> time \<Rightarrow> StockItem list \<Rightarrow> StockItem list" where
  "move_item u from to at = map (\<lambda>x. if si_ID x = u \<and> si_Status x = from then item_moved to at x else x)"

definition move_res :: "string \<Rightarrow> string \<Rightarrow> string \<Rightarrow> time \<Rightarrow> StockReservation list \<Rightarrow> StockReservation list" where
  "move_res i from to at = map (\<lambda>x. if sr_ID x = i \<and> sr_Status x = from then stock_moved to at x else x)"

lemma item_moved_simps [simp]: "si_ID (item_moved to at i) = si_ID i" "si_Status (item_moved to at i) = to"
  "si_StoreID (item_moved to at i) = si_StoreID i" "si_ProductID (item_moved to at i) = si_ProductID i"
  "si_EncryptedPayload (item_moved to at i) = si_EncryptedPayload i" "si_CreatedAt (item_moved to at i) = si_CreatedAt i"
  by (simp_all add: item_moved_def)

lemma stock_moved_simps [simp]: "sr_ID (stock_moved to at r) = sr_ID r" "sr_Status (stock_moved to at r) = to"
  "sr_StockItemID (stock_moved to at r) = sr_StockItemID r" "sr_StoreID (stock_moved to at r) = sr_StoreID r"
  "sr_ProductID (stock_moved to at r) = sr_ProductID r" "sr_IdempotencyKey (stock_moved to at r) = sr_IdempotencyKey r"
  "res_key (stock_moved to at r) = res_key r"
  by (simp_all add: stock_moved_def res_key_def)

abbreviation "item_statuses \<equiv> {StatusAvailable, StatusReserved, StatusDelivered, StatusRevoked}"
abbreviation "res_statuses \<equiv> {StockReserved, StockReleased, StockDelivered, StockHeldUnknown}"

lemma item_check_moved: "item_check i = Inr () \<Longrightarrow> to \<in> item_statuses \<Longrightarrow> item_check (item_moved to at i) = Inr ()"
  by (auto simp: item_check_def item_moved_def)

lemma res_check_moved:
  "stock_reservation_check r = Inr () \<Longrightarrow> to \<in> res_statuses \<Longrightarrow> stock_reservation_check (stock_moved to at r) = Inr ()"
  by (auto simp: stock_reservation_check_def stock_moved_def)

lemma units_move:
  assumes "distinct (map si_ID items)" and "units items u = Some from"
  shows "units (move_item u from to at items) = (units items)(u \<mapsto> to)"
proof -
  from units_Some [OF assms(2)] obtain i where i: "i \<in> set items" "si_ID i = u" "si_Status i = from" by blast
  from map_of_update [of si_ID items i "\<lambda>x. si_ID x = u \<and> si_Status x = from" "item_moved to at" si_Status] assms(1) i
  show ?thesis by (simp add: units_def move_item_def)
qed

lemma holds_move:
  assumes "distinct (map sr_ID rs)" and "holds rs r = Some (u, from)"
  shows "holds (move_res r from to at rs) = (holds rs)(r \<mapsto> (u, to))"
proof -
  from holds_Some [OF assms(2)] obtain x where x: "x \<in> set rs" "sr_ID x = r" "sr_StockItemID x = u" "sr_Status x = from" by blast
  from map_of_update [of sr_ID rs x "\<lambda>x. sr_ID x = r \<and> sr_Status x = from" "stock_moved to at" "\<lambda>x. (sr_StockItemID x, sr_Status x)"]
    assms(1) x
  show ?thesis by (simp add: holds_def move_res_def)
qed

lemma list_ex_move: "list_ex (unit_for r) (move_item u from to at items) = list_ex (unit_for r) items"
  unfolding move_item_def by (induction items) (simp_all add: unit_for_def)

lemma stock_rows_move_item: "stock_rows items rs \<Longrightarrow> to \<in> item_statuses \<Longrightarrow> stock_rows (move_item u from to at items) rs"
proof -
  assume rows: "stock_rows items rs" and to: "to \<in> item_statuses"
  have "map si_ID (move_item u from to at items) = map si_ID items"
    unfolding move_item_def by (rule map_update_key) simp
  moreover have "list_all (\<lambda>i. item_check i = Inr ()) (move_item u from to at items)"
    using rows item_check_moved [OF _ to] by (auto simp: stock_rows_def move_item_def list_all_iff)
  ultimately show ?thesis using rows by (simp add: stock_rows_def list_ex_move)
qed

lemma unit_for_moved [simp]: "unit_for (stock_moved to at r) = unit_for r"
  by (simp add: fun_eq_iff unit_for_def)

lemma stock_rows_move_res: "stock_rows items rs \<Longrightarrow> to \<in> res_statuses \<Longrightarrow> stock_rows items (move_res i from to at rs)"
proof -
  assume rows: "stock_rows items rs" and to: "to \<in> res_statuses"
  have "map sr_ID (move_res i from to at rs) = map sr_ID rs" "map res_key (move_res i from to at rs) = map res_key rs"
    unfolding move_res_def by (rule map_update_key, simp)+
  moreover have "list_all (\<lambda>r. stock_reservation_check r = Inr ()) (move_res i from to at rs)"
    using rows res_check_moved [OF _ to] by (auto simp: stock_rows_def move_res_def list_all_iff)
  moreover have "list_all (\<lambda>r. list_ex (unit_for r) items) (move_res i from to at rs)"
    using rows by (auto simp: stock_rows_def move_res_def list_all_iff)
  ultimately show ?thesis using rows by (simp add: stock_rows_def)
qed

text \<open>The outcomes of the two UPDATE statements.\<close>

lemma UpdateItem_True:
  assumes "stock_rows (stock_items w) rs" and "UpdateStockItemStatus u from to at w = (Inr True, w')"
  shows "units (stock_items w) u = Some from" and "w' = w\<lparr>stock_items := move_item u from to at (stock_items w)\<rparr>"
proof -
  from assms(2) obtain i where i: "find (\<lambda>x. si_ID x = u \<and> si_Status x = from) (stock_items w) = Some i"
    and w': "w' = w\<lparr>stock_items := move_item u from to at (stock_items w)\<rparr>"
    by (auto simp: UpdateStockItemStatus_def update_one_Inr move_item_def split: sum.splits if_splits)
  then have "i \<in> set (stock_items w)" "si_ID i = u" "si_Status i = from" by (auto simp: find_Some_iff)
  with assms(1) show "units (stock_items w) u = Some from" by (auto simp: stock_rows_def dest: units_mem)
  show "w' = w\<lparr>stock_items := move_item u from to at (stock_items w)\<rparr>" by (rule w')
qed

lemma first_failure_db: "first_failure cs \<noteq> Inl ErrNoRows"
  by (induction cs rule: first_failure.induct) (simp_all add: first_failure.simps)

lemma UpdateItem_False:
  "UpdateStockItemStatus u from to at w = (Inr False, w') \<Longrightarrow> w' = w \<and> units (stock_items w) u \<noteq> Some from"
  by (auto simp: UpdateStockItemStatus_def update_one_def is_not_found_def find_None_iff item_check_def first_failure_db
      split: option.splits sum.splits if_splits dest: units_Some)

lemma UpdateRes_True:
  assumes "stock_rows items (stock_reservations w)"
    and "UpdateStockReservationStatus i from to at w = (Inr True, w')"
  shows "\<exists>u. holds (stock_reservations w) i = Some (u, from)"
    and "w' = w\<lparr>stock_reservations := move_res i from to at (stock_reservations w)\<rparr>"
proof -
  from assms(2) obtain r where r: "find (\<lambda>x. sr_ID x = i \<and> sr_Status x = from) (stock_reservations w) = Some r"
    and w': "w' = w\<lparr>stock_reservations := move_res i from to at (stock_reservations w)\<rparr>"
    by (auto simp: UpdateStockReservationStatus_def Let_def update_one_Inr move_res_def split: sum.splits if_splits)
  then have "r \<in> set (stock_reservations w)" "sr_ID r = i" "sr_Status r = from" by (auto simp: find_Some_iff)
  with assms(1) show "\<exists>u. holds (stock_reservations w) i = Some (u, from)"
    by (auto simp: stock_rows_def dest: holds_mem)
  show "w' = w\<lparr>stock_reservations := move_res i from to at (stock_reservations w)\<rparr>" by (rule w')
qed

lemma UpdateRes_False: "UpdateStockReservationStatus i from to at w = (Inr False, w') \<Longrightarrow> w' = w"
  by (auto simp: UpdateStockReservationStatus_def Let_def split: sum.splits if_splits)

lemma or_internal_Inr [simp]: "or_internal m op w = (Inr a, w') \<longleftrightarrow> op w = (Inr a, w')"
  by (auto simp: or_internal_def split: prod.splits sum.splits)

lemma lookup_or_Inr [simp]: "lookup_or nf m r = Inr a \<longleftrightarrow> r = Inr a"
  by (auto simp: lookup_or_def split: sum.splits)

lemma GetStockReservation_mem:
  assumes "GetStockReservation i w = Inr r"
  shows "r \<in> set (stock_reservations w)" and "sr_ID r = i"
  using assms by (auto simp: GetStockReservation_def find_Some_iff)

subsection \<open>The transactions\<close>

lemma InsertStockReservation_Inr:
  "InsertStockReservation r w = (Inr u, w') \<longleftrightarrow> stock_reservation_check r = Inr () \<and>
     stock_indexes r (stock_reservations w) = Inr () \<and> sr_StockItemID r \<in> si_ID ` set (stock_items w) \<and>
     sr_ProductID r \<in> pr_ID ` set (products w) \<and> sr_StoreID r \<in> fst ` set (stores w) \<and>
     sr_MerchantID r \<in> set (merchants w) \<and> w' = w\<lparr>stock_reservations := stock_reservations w @ [r]\<rparr>"
  unfolding InsertStockReservation_def insert_Inr bindE_eq_Inr by simp

lemma ClaimAvailable_Inr:
  assumes "ClaimAvailableStockItem storeID productID w = Inr i"
  shows "i \<in> set (stock_items w)" and "si_Status i = StatusAvailable" and "si_ProductID i = productID"
    and "si_StoreID i = storeID"
    and "\<And>j. j \<in> set (stock_items w) \<Longrightarrow> si_Status j = StatusAvailable \<Longrightarrow> si_ProductID j = productID \<Longrightarrow>
      si_StoreID j = storeID \<Longrightarrow> (si_CreatedAt i, si_ID i) \<le> (si_CreatedAt j, si_ID j)"
proof -
  let ?av = "filter (\<lambda>i. si_Status i = StatusAvailable) (items_of storeID productID w)"
  obtain rest where s: "sort_key (\<lambda>i. (si_CreatedAt i, si_ID i)) ?av = i # rest"
    using assms by (auto simp: ClaimAvailableStockItem_def split: list.splits)
  have "set (sort_key (\<lambda>i. (si_CreatedAt i, si_ID i)) ?av) = set ?av" by (rule set_sort)
  then have set: "set ?av = set (i # rest)" unfolding s by (rule sym)
  then have "i \<in> set ?av" by simp
  then show "i \<in> set (stock_items w)" "si_Status i = StatusAvailable" "si_ProductID i = productID" "si_StoreID i = storeID"
    by (auto simp: items_of_def)
  fix j assume "j \<in> set (stock_items w)" "si_Status j = StatusAvailable" "si_ProductID j = productID" "si_StoreID j = storeID"
  then have "j \<in> set ?av" by (simp add: items_of_def)
  then have "j \<in> set (i # rest)" unfolding set .
  moreover have "sorted (map (\<lambda>i. (si_CreatedAt i, si_ID i)) (i # rest))" unfolding s [symmetric] by (rule sorted_sort_key)
  ultimately show "(si_CreatedAt i, si_ID i) \<le> (si_CreatedAt j, si_ID j)" by auto
qed

lemma ClaimAvailable_Inl: "ClaimAvailableStockItem storeID productID w = Inl e \<longleftrightarrow>
    e = ErrNoRows \<and> (\<forall>i\<in>set (stock_items w). si_ProductID i = productID \<longrightarrow> si_StoreID i = storeID \<longrightarrow> si_Status i \<noteq> StatusAvailable)"
proof -
  let ?av = "filter (\<lambda>i. si_Status i = StatusAvailable) (items_of storeID productID w)"
  have "sort_key (\<lambda>i. (si_CreatedAt i, si_ID i)) ?av = [] \<longleftrightarrow> ?av = []"
    by (simp only: length_0_conv [symmetric] length_sort)
  moreover have "ClaimAvailableStockItem storeID productID w = Inl e \<longleftrightarrow>
      e = ErrNoRows \<and> sort_key (\<lambda>i. (si_CreatedAt i, si_ID i)) ?av = []"
    by (auto simp: ClaimAvailableStockItem_def split: list.splits)
  moreover have "?av = [] \<longleftrightarrow>
      (\<forall>i\<in>set (stock_items w). si_ProductID i = productID \<longrightarrow> si_StoreID i = storeID \<longrightarrow> si_Status i \<noteq> StatusAvailable)"
    by (auto simp: items_of_def filter_empty_conv)
  ultimately show ?thesis by blast
qed

lemma store_hold_Inr:
  "store_hold w req item res w1 = (Inr x, w') \<longleftrightarrow> InsertStockReservation res w1 = (Inr (), w') \<and>
     x = \<lparr>sx_Reservation = res, sx_Item = Some (no_payload (item\<lparr>si_Status := StatusReserved\<rparr>)), sx_Replayed = False\<rparr>"
proof (cases "InsertStockReservation res w1")
  case (Pair q w2)
  then show ?thesis by (cases q) (auto simp: store_hold_def bindS_def try_op_def after_failed_statement_def)
qed

lemma claim_tx_Inr:
  assumes rows: "stock_rows (stock_items w) (stock_reservations w)" and run: "claim_tx req ttl w = (Inr x, w')"
  obtains (replay) existing where
      "GetStockReservationByIdempotency (sq_ProductID req) (sq_IdempotencyKey req) w = Inr existing"
      "w' = w" "x = replayed_stock (sq_StoreID req) existing w"
  | (claimed) item res where
      "GetStockReservationByIdempotency (sq_ProductID req) (sq_IdempotencyKey req) w = Inl ErrNoRows"
      "ClaimAvailableStockItem (sq_StoreID req) (sq_ProductID req) w = Inr item"
      "res = new_stock_reservation req item (id_gen w (next_id w)) ttl (clock w)"
      "stock_reservation_check res = Inr ()" "stock_indexes res (stock_reservations w) = Inr ()"
      "w' = w\<lparr>stock_items := move_item (si_ID item) StatusAvailable StatusReserved (clock w) (stock_items w),
         next_id := Suc (next_id w), stock_reservations := stock_reservations w @ [res]\<rparr>"
      "x = \<lparr>sx_Reservation = res, sx_Item = Some (no_payload (item\<lparr>si_Status := StatusReserved\<rparr>)), sx_Replayed = False\<rparr>"
proof (cases "GetStockReservationByIdempotency (sq_ProductID req) (sq_IdempotencyKey req) w")
  case (Inr existing)
  have "w' = w" "x = replayed_stock (sq_StoreID req) existing w"
    using run [unfolded claim_tx_def with_state_app Inr sum.case ret_app] by auto
  then show ?thesis by (rule replay [OF Inr])
next
  case (Inl e)
  have e: "e = ErrNoRows" using Inl by (auto simp: GetStockReservationByIdempotency_def opt_row_def split: option.splits)
  note run = run [unfolded claim_tx_def with_state_app Inl sum.case e is_not_found_def simp_thms if_False,
      unfolded bindS_eq_Inr liftE_app]
  from run obtain item w1 ok where item: "ClaimAvailableStockItem (sq_StoreID req) (sq_ProductID req) w = Inr item"
    and upd: "UpdateStockItemStatus (si_ID item) StatusAvailable StatusReserved (clock w) w = (Inr ok, w1)"
    and run: "(if \<not> ok then throw ErrOutOfStock
      else bindS new_id (\<lambda>i. store_hold w req item (new_stock_reservation req item i ttl (clock w)))) w1 = (Inr x, w')"
    by auto
  have ok: ok using run by (cases ok) simp_all
  have w1: "w1 = w\<lparr>stock_items := move_item (si_ID item) StatusAvailable StatusReserved (clock w) (stock_items w)\<rparr>"
    using UpdateItem_True(2) [OF rows] upd ok by simp
  define res where "res = new_stock_reservation req item (id_gen w (next_id w)) ttl (clock w)"
  have "store_hold w req item res (w1\<lparr>next_id := Suc (next_id w)\<rparr>) = (Inr x, w')"
    using run ok by (simp add: w1 res_def)
  then have ins: "InsertStockReservation res (w1\<lparr>next_id := Suc (next_id w)\<rparr>) = (Inr (), w') \<and>
      x = \<lparr>sx_Reservation = res, sx_Item = Some (no_payload (item\<lparr>si_Status := StatusReserved\<rparr>)), sx_Replayed = False\<rparr>"
    by (simp add: store_hold_Inr)
  then have "w' = w\<lparr>stock_items := move_item (si_ID item) StatusAvailable StatusReserved (clock w) (stock_items w),
         next_id := Suc (next_id w), stock_reservations := stock_reservations w @ [res]\<rparr>"
    "stock_reservation_check res = Inr ()" "stock_indexes res (stock_reservations w) = Inr ()"
    by (simp_all add: InsertStockReservation_Inr w1)
  then show ?thesis using claimed [OF _ item res_def] Inl e ins by blast
qed

definition follows :: "stock_state \<Rightarrow> 'm inventory_db_scheme \<Rightarrow> bool" where
  "follows s0 w \<longleftrightarrow> inventory_inv w \<and> stock_move\<^sup>*\<^sup>* s0 (stock_abs w)"

lemma follows_simps [simp]:
  "follows s0 (w\<lparr>next_id := n\<rparr>) = follows s0 w" "follows s0 (w\<lparr>clock := t\<rparr>) = follows s0 w"
  "follows s0 (w\<lparr>products := ps\<rparr>) = follows s0 w" "follows s0 (w\<lparr>inventory_schemas := ss\<rparr>) = follows s0 w"
  "follows s0 (w\<lparr>stock_reveal_audits := as\<rparr>) = follows s0 w"
  by (simp_all add: follows_def)

lemma follows_move:
  assumes "follows s0 w" and "stock_move (stock_abs w) (stock_abs w')"
    and "stock_rows (stock_items w') (stock_reservations w')"
  shows "follows s0 w'"
  using assms sound_move [OF assms(2)] by (auto simp: follows_def inventory_inv_def)

lemma follows_rows: "follows s0 w \<Longrightarrow> stock_rows (stock_items w) (stock_reservations w)"
  by (simp add: follows_def inventory_inv_def)

lemma stock_rowsD:
  assumes "stock_rows items rs"
  shows "distinct (map si_ID items)" and "distinct (map sr_ID rs)" and "distinct (map res_key rs)"
    and "\<And>i. i \<in> set items \<Longrightarrow> item_check i = Inr ()" and "\<And>r. r \<in> set rs \<Longrightarrow> stock_reservation_check r = Inr ()"
    and "\<And>r. r \<in> set rs \<Longrightarrow> \<exists>i\<in>set items. unit_for r i"
  using assms by (auto simp: stock_rows_def list_all_iff list_ex_iff)

lemma stock_indexes_Inr:
  "stock_indexes r others = Inr () \<longleftrightarrow> sr_ID r \<notin> sr_ID ` set others \<and> res_key r \<notin> res_key ` set others \<and>
     (stock_live r \<longrightarrow> (\<forall>x\<in>set others. stock_live x \<longrightarrow> sr_StockItemID x \<noteq> sr_StockItemID r)) \<and>
     (sr_Status r = StockDelivered \<longrightarrow> sr_OrderID r \<noteq> None \<longrightarrow>
        (\<forall>x\<in>set others. sr_Status x = StockDelivered \<longrightarrow> (sr_OrderID x, sr_ProductID x) \<noteq> (sr_OrderID r, sr_ProductID r)))"
  by (auto simp: stock_indexes_def list_all_iff res_key_def [abs_def])

lemma follows_claim:
  assumes f: "follows s0 w" and run: "claim_tx req ttl w = (Inr x, w')"
  shows "follows s0 w'"
  using follows_rows [OF f] run
proof (cases rule: claim_tx_Inr)
  case (claimed item res)
  let ?items = "stock_items w" and ?rs = "stock_reservations w"
  note rows = stock_rowsD [OF follows_rows [OF f]]
  note c = ClaimAvailable_Inr [OF claimed(2)]
  have avail: "units ?items (si_ID item) = Some StatusAvailable" using units_mem [OF rows(1) c(1)] c(2) by simp
  have res: "sr_ID res \<notin> sr_ID ` set ?rs" "res_key res \<notin> res_key ` set ?rs"
    using claimed(5) by (simp_all add: stock_indexes_Inr)
  have fields: "sr_StockItemID res = si_ID item" "sr_Status res = StockReserved" "unit_for res item"
    using c(3,4) by (simp_all add: claimed(3) new_stock_reservation_def unit_for_def)
  have "stock_abs w' = ((units ?items)(si_ID item \<mapsto> StatusReserved), (holds ?rs)(sr_ID res \<mapsto> (si_ID item, StockReserved)))"
    using units_move [OF rows(1) avail] holds_snoc [OF res(1)] by (simp add: stock_abs_def claimed(6) fields)
  then have move: "stock_move (stock_abs w) (stock_abs w')"
    using stock_move.claim [of "units ?items" "si_ID item" "holds ?rs" "sr_ID res"] avail res(1) by (simp add: stock_abs_def holds_None)
  have r1: "stock_rows (move_item (si_ID item) StatusAvailable StatusReserved (clock w) ?items) ?rs"
    using follows_rows [OF f] by (rule stock_rows_move_item) simp
  have "list_ex (unit_for res) (move_item (si_ID item) StatusAvailable StatusReserved (clock w) ?items)"
    unfolding list_ex_move using c(1) fields(3) by (auto simp: list_ex_iff)
  with r1 res claimed(4) have "stock_rows (stock_items w') (stock_reservations w')"
    by (auto simp: stock_rows_def claimed(6))
  from follows_move [OF f move this] show ?thesis .
qed (use f in simp)

text \<open>
  Giving up a hold, by a release or at its expiry, is one move: the reservation is released and its
  unit goes back on offer unless it was revoked meanwhile.
\<close>

lemma follows_free:
  assumes f: "follows s0 w" and h: "holds (stock_reservations w) i = Some (u, st)" "holding st"
    and upd: "UpdateStockItemStatus u StatusReserved StatusAvailable at
      (w\<lparr>stock_reservations := move_res i st StockReleased at (stock_reservations w)\<rparr>) = (Inr ok, w')"
  shows "follows s0 w'"
proof -
  let ?rs = "move_res i st StockReleased at (stock_reservations w)" and ?w = "w\<lparr>stock_reservations := move_res i st StockReleased at (stock_reservations w)\<rparr>"
  have rows: "stock_rows (stock_items w) ?rs" using follows_rows [OF f] by (rule stock_rows_move_res) simp
  note ids = stock_rowsD(1,2) [OF follows_rows [OF f]]
  have rs: "holds ?rs = (holds (stock_reservations w))(i \<mapsto> (u, StockReleased))" using holds_move [OF ids(2) h(1)] .
  note move = stock_move.release [of "holds (stock_reservations w)" i u st "units (stock_items w)", OF h]
  show ?thesis
  proof (cases ok)
    case True
    have rows': "stock_rows (stock_items ?w) ?rs" using rows by simp
    from UpdateItem_True [OF rows' upd [unfolded True [THEN eqTrueI]]] have reserved: "units (stock_items w) u = Some StatusReserved"
      and w': "w' = ?w\<lparr>stock_items := move_item u StatusReserved StatusAvailable at (stock_items w)\<rparr>" by simp_all
    have "stock_move (stock_abs w) (stock_abs w')"
      using move reserved by (simp add: stock_abs_def w' rs units_move [OF ids(1) reserved])
    moreover have "stock_rows (stock_items w') (stock_reservations w')"
      using stock_rows_move_item [OF rows, of StatusAvailable] by (simp add: w')
    ultimately show ?thesis by (rule follows_move [OF f])
  next
    case False
    have "ok = False" using False by simp
    from UpdateItem_False [OF upd [unfolded this]]
    have w': "w' = ?w" and other: "units (stock_items w) u \<noteq> Some StatusReserved" by simp_all
    have "stock_move (stock_abs w) (stock_abs w')" using move other by (simp add: stock_abs_def w' rs)
    moreover have "stock_rows (stock_items w') (stock_reservations w')" using rows by (simp add: w')
    ultimately show ?thesis by (rule follows_move [OF f])
  qed
qed

lemma stock_release_tx_Inr:
  assumes rows: "stock_rows (stock_items w) (stock_reservations w)" and run: "stock_release_tx i w = (Inr x, w')"
  obtains (done_before) "GetStockReservation i w = Inr x" "sr_Status x = StockReleased" "w' = w"
  | (released) r ok where "GetStockReservation i w = Inr r" "holding (sr_Status r)"
      "holds (stock_reservations w) i = Some (sr_StockItemID r, sr_Status r)"
      "UpdateStockItemStatus (sr_StockItemID r) StatusReserved StatusAvailable (clock w)
        (w\<lparr>stock_reservations := move_res i (sr_Status r) StockReleased (clock w) (stock_reservations w)\<rparr>) = (Inr ok, w')"
      "x = r\<lparr>sr_Status := StockReleased, sr_ReleasedAt := Some (clock w), sr_UpdatedAt := clock w\<rparr>"
proof -
  from run obtain r where r: "GetStockReservation i w = Inr r"
    and run: "(if sr_Status r = StockReleased then ret r
      else if sr_Status r \<noteq> StockReserved \<and> sr_Status r \<noteq> StockHeldUnknown then throw ErrStockReservationState
      else bindS (or_internal ''Release reservation failed''
          (UpdateStockReservationStatus (sr_ID r) (sr_Status r) StockReleased (clock w))) (\<lambda>ok.
        if \<not> ok then throw ErrStockReservationState
        else bindS (in_tx_ignored (UpdateStockItemStatus (sr_StockItemID r) StatusReserved StatusAvailable (clock w))) (\<lambda>_.
          ret (r\<lparr>sr_Status := StockReleased, sr_ReleasedAt := Some (clock w), sr_UpdatedAt := clock w\<rparr>)))) w = (Inr x, w')"
    by (auto simp: stock_release_tx_def stock_reservation_of_def bindS_eq_Inr)
  have id: "sr_ID r = i" using GetStockReservation_mem [OF r] by simp
  have held: "holds (stock_reservations w) i = Some (sr_StockItemID r, sr_Status r)"
    using holds_mem [OF stock_rowsD(2) [OF rows] GetStockReservation_mem(1) [OF r]] id by simp
  show ?thesis
  proof (cases "sr_Status r = StockReleased")
    case True
    with run have "x = r" "w' = w" by simp_all
    with r True show ?thesis by (intro done_before) simp_all
  next
    case False
    have h: "holding (sr_Status r)"
      using run False by (cases "sr_Status r = StockReserved \<or> sr_Status r = StockHeldUnknown") (auto simp: holding_def)
    then have cond: "\<not> (sr_Status r \<noteq> StockReserved \<and> sr_Status r \<noteq> StockHeldUnknown)" by (auto simp: holding_def)
    from run [unfolded if_not_P [OF False] if_not_P [OF cond], unfolded bindS_eq_Inr or_internal_Inr]
    obtain ok1 w1 where upd: "UpdateStockReservationStatus (sr_ID r) (sr_Status r) StockReleased (clock w) w = (Inr ok1, w1)"
      and run: "(if \<not> ok1 then throw ErrStockReservationState
        else bindS (in_tx_ignored (UpdateStockItemStatus (sr_StockItemID r) StatusReserved StatusAvailable (clock w))) (\<lambda>_.
          ret (r\<lparr>sr_Status := StockReleased, sr_ReleasedAt := Some (clock w), sr_UpdatedAt := clock w\<rparr>))) w1 = (Inr x, w')"
      by blast
    have ok1: "ok1 = True" using run by (cases ok1) simp_all
    have w1: "w1 = w\<lparr>stock_reservations := move_res i (sr_Status r) StockReleased (clock w) (stock_reservations w)\<rparr>"
      using UpdateRes_True(2) [OF rows upd [unfolded ok1]] by (simp add: id)
    from run ok1 obtain ok where "UpdateStockItemStatus (sr_StockItemID r) StatusReserved StatusAvailable (clock w) w1 = (Inr ok, w')"
      and "x = r\<lparr>sr_Status := StockReleased, sr_ReleasedAt := Some (clock w), sr_UpdatedAt := clock w\<rparr>"
      by (auto simp: bindS_eq_Inr)
    then show ?thesis using released [OF r h held] w1 by blast
  qed
qed

lemma follows_release:
  assumes f: "follows s0 w" and run: "stock_release_tx i w = (Inr x, w')"
  shows "follows s0 w'"
  using follows_rows [OF f] run
proof (cases rule: stock_release_tx_Inr)
  case (released r ok)
  from follows_free [OF f released(3,2,4)] show ?thesis .
qed (use f in simp)

lemma holds_moves: "holds (move_res i from to at rs) j =
    (case holds rs j of None \<Rightarrow> None | Some (u, s) \<Rightarrow> Some (u, if j = i \<and> s = from then to else s))"
  unfolding move_res_def holds_def by (induction rs) auto

lemma follows_expire:
  assumes "follows s0 w" and "\<And>r. r \<in> set rs \<Longrightarrow> \<exists>s. holds (stock_reservations w) (sr_ID r) = Some (sr_StockItemID r, s)"
    and "expire_stock now rs w = (Inr n, w')"
  shows "follows s0 w'"
  using assms
proof (induction rs arbitrary: w n)
  case (Cons r rs)
  note f = Cons.prems(1)
  from Cons.prems(3) [unfolded expire_stock.simps bindS_eq_Inr or_internal_Inr] obtain ok w1
    where upd: "UpdateStockReservationStatus (sr_ID r) StockReserved StockReleased now w = (Inr ok, w1)"
      and run: "(if \<not> ok then expire_stock now rs
        else bindS (in_tx_ignored (UpdateStockItemStatus (sr_StockItemID r) StatusReserved StatusAvailable now)) (\<lambda>_.
          bindS (expire_stock now rs) (\<lambda>n. ret (n + 1)))) w1 = (Inr n, w')" by blast
  show ?case
  proof (cases ok)
    case False
    with UpdateRes_False [of "sr_ID r" _ _ now w w1] upd have "w1 = w" by simp
    with Cons.IH [OF f] Cons.prems(2) run False show ?thesis by simp
  next
    case True
    note upd = UpdateRes_True [OF follows_rows [OF f] upd [unfolded True [THEN eqTrueI]]]
    from run True obtain ok2 w2 m
      where free: "UpdateStockItemStatus (sr_StockItemID r) StatusReserved StatusAvailable now w1 = (Inr ok2, w2)"
        and rest: "expire_stock now rs w2 = (Inr m, w')" by (auto simp: bindS_eq_Inr)
    obtain s where s: "holds (stock_reservations w) (sr_ID r) = Some (sr_StockItemID r, s)"
      using Cons.prems(2) [of r] by auto
    with upd(1) have "s = StockReserved" by auto
    with s have held: "holds (stock_reservations w) (sr_ID r) = Some (sr_StockItemID r, StockReserved)" by simp
    from follows_free [OF f held] free upd(2) have f2: "follows s0 w2" by simp
    have "stock_reservations w2 = move_res (sr_ID r) StockReserved StockReleased now (stock_reservations w)"
      using free upd(2) by (auto simp: UpdateStockItemStatus_def split: sum.splits if_splits)
    then have "\<exists>s. holds (stock_reservations w2) (sr_ID x) = Some (sr_StockItemID x, s)" if "x \<in> set rs" for x
      using Cons.prems(2) [of x] that by (auto simp: holds_moves)
    from Cons.IH [OF f2 this rest] show ?thesis by simp
  qed
qed simp

lemma deliver_unit_reserved:
  assumes rows: "stock_rows (stock_items w) (stock_reservations w)" and free: "units (stock_items w) u \<noteq> Some StatusAvailable"
    and run: "deliver_unit u at w = (Inr x, w')"
  shows "units (stock_items w) u = Some StatusReserved"
    and "w' = w\<lparr>stock_items := move_item u StatusReserved StatusDelivered at (stock_items w)\<rparr>"
proof -
  from run obtain ok w1 where upd: "UpdateStockItemStatus u StatusReserved StatusDelivered at w = (Inr ok, w1)"
    and run: "(if ok then ret () else bindS (try_op (UpdateStockItemStatus u StatusAvailable StatusDelivered at)) (\<lambda>r.
      if r = Inr True then ret () else throw ErrItemState)) w1 = (Inr x, w')"
    by (auto simp: deliver_unit_def bindS_eq_Inr)
  have "ok = True"
  proof (rule ccontr)
    assume "ok \<noteq> True"
    then have "w1 = w" using upd UpdateItem_False [of u _ _ at w w1] by simp
    with run \<open>ok \<noteq> True\<close> obtain w2 where "UpdateStockItemStatus u StatusAvailable StatusDelivered at w = (Inr True, w2)"
      by (cases "UpdateStockItemStatus u StatusAvailable StatusDelivered at w") (auto simp: bindS_def try_op_def split: if_splits)
    from UpdateItem_True(1) [OF rows this] free show False by simp
  qed
  with UpdateItem_True [OF rows] upd run show "units (stock_items w) u = Some StatusReserved"
    "w' = w\<lparr>stock_items := move_item u StatusReserved StatusDelivered at (stock_items w)\<rparr>" by simp_all
qed

lemma allocate_tx_Inr:
  assumes inv: "inventory_inv w" and run: "allocate_tx i w = (Inr x, w')"
  obtains (done_before) r item where "GetStockReservation i w = Inr r" "sr_Status r = StockDelivered"
      "GetStockItemByID (sr_StoreID r) (sr_StockItemID r) w = Inr item" "x = (r, no_payload item)" "w' = w"
  | (delivered) r item where "GetStockReservation i w = Inr r" "holding (sr_Status r)"
      "holds (stock_reservations w) i = Some (sr_StockItemID r, sr_Status r)"
      "units (stock_items w) (sr_StockItemID r) = Some StatusReserved"
      "w' = w\<lparr>stock_reservations := move_res i (sr_Status r) StockDelivered (clock w) (stock_reservations w),
         stock_items := move_item (sr_StockItemID r) StatusReserved StatusDelivered (clock w) (stock_items w)\<rparr>"
      "GetStockItemByID (sr_StoreID r) (sr_StockItemID r) w' = Inr item"
      "x = (r\<lparr>sr_Status := StockDelivered, sr_DeliveredAt := Some (clock w), sr_UpdatedAt := clock w\<rparr>, no_payload item)"
proof -
  have rows: "stock_rows (stock_items w) (stock_reservations w)" and sound: "stock_sound (stock_abs w)"
    using inv by (simp_all add: inventory_inv_def)
  obtain r where r: "GetStockReservation i w = Inr r"
    using run by (cases "GetStockReservation i w") (simp_all add: allocate_tx_def stock_reservation_of_def lookup_or_def)
  have id: "sr_ID r = i" using GetStockReservation_mem [OF r] by simp
  have held: "holds (stock_reservations w) i = Some (sr_StockItemID r, sr_Status r)"
    using holds_mem [OF stock_rowsD(2) [OF rows] GetStockReservation_mem(1) [OF r]] id by simp
  have get: "stock_reservation_of i w = Inr r" using r by (simp add: stock_reservation_of_def)
  show ?thesis
  proof (cases "sr_Status r = StockDelivered")
    case True
    then obtain item where "GetStockItemByID (sr_StoreID r) (sr_StockItemID r) w = Inr item" "x = (r, no_payload item)" "w' = w"
      using run get by (cases "GetStockItemByID (sr_StoreID r) (sr_StockItemID r) w") (simp_all add: allocate_tx_def)
    with r True show ?thesis by (intro done_before)
  next
    case False
    have cond: "\<not> (sr_Status r \<noteq> StockReserved \<and> sr_Status r \<noteq> StockHeldUnknown)"
      using run get False by (cases "sr_Status r \<noteq> StockReserved \<and> sr_Status r \<noteq> StockHeldUnknown") (simp_all add: allocate_tx_def)
    then have h: "holding (sr_Status r)" by (auto simp: holding_def)
    from run get False cond obtain ok w1
      where upd: "UpdateStockReservationStatus i (sr_Status r) StockDelivered (clock w) w = (Inr ok, w1)"
        and run: "(if \<not> ok then throw ErrStockReservationState
          else bindS (deliver_unit (sr_StockItemID r) (clock w)) (\<lambda>_. with_state (\<lambda>w'.
            case GetStockItemByID (sr_StoreID r) (sr_StockItemID r) w' of
              Inl _ \<Rightarrow> throw (internal ''Stock item lookup failed'')
            | Inr item \<Rightarrow> ret (r\<lparr>sr_Status := StockDelivered, sr_DeliveredAt := Some (clock w), sr_UpdatedAt := clock w\<rparr>,
              no_payload item)))) w1 = (Inr x, w')"
      by (auto simp: allocate_tx_def bindS_eq_Inr id)
    have ok: "ok = True" using run by (cases ok) simp_all
    have w1: "w1 = w\<lparr>stock_reservations := move_res i (sr_Status r) StockDelivered (clock w) (stock_reservations w)\<rparr>"
      using UpdateRes_True(2) [OF rows upd [unfolded ok]] .
    have rows1: "stock_rows (stock_items w1) (stock_reservations w1)"
      using stock_rows_move_res [OF rows, of StockDelivered] by (simp add: w1)
    have free: "units (stock_items w1) (sr_StockItemID r) \<noteq> Some StatusAvailable"
      using available_free [OF sound [unfolded stock_abs_def] _ held] h by (auto simp: w1 live_status_def)
    from run ok obtain y w2 where del: "deliver_unit (sr_StockItemID r) (clock w) w1 = (Inr y, w2)"
      and run: "(case GetStockItemByID (sr_StoreID r) (sr_StockItemID r) w2 of
              Inl _ \<Rightarrow> throw (internal ''Stock item lookup failed'')
            | Inr item \<Rightarrow> ret (r\<lparr>sr_Status := StockDelivered, sr_DeliveredAt := Some (clock w), sr_UpdatedAt := clock w\<rparr>,
              no_payload item)) w2 = (Inr x, w')"
      by (auto simp: bindS_eq_Inr)
    from run obtain item where item: "GetStockItemByID (sr_StoreID r) (sr_StockItemID r) w2 = Inr item" "w' = w2"
        "x = (r\<lparr>sr_Status := StockDelivered, sr_DeliveredAt := Some (clock w), sr_UpdatedAt := clock w\<rparr>, no_payload item)"
      by (cases "GetStockItemByID (sr_StoreID r) (sr_StockItemID r) w2") simp_all
    from deliver_unit_reserved [OF rows1 free del] item h held r show ?thesis
      by (intro delivered [OF r h held]) (simp_all add: w1)
  qed
qed

lemma follows_allocate:
  assumes f: "follows s0 w" and run: "allocate_tx i w = (Inr x, w')"
  shows "follows s0 w'"
proof -
  have inv: "inventory_inv w" using f by (simp add: follows_def)
  note rows = follows_rows [OF f]
  from inv run show ?thesis
  proof (cases rule: allocate_tx_Inr)
    case (delivered r item)
    have "stock_move (stock_abs w) (stock_abs w')"
      using stock_move.deliver [of "holds (stock_reservations w)" i "sr_StockItemID r" "sr_Status r" "units (stock_items w)",
          OF delivered(3,2,4)] holds_move [OF stock_rowsD(2) [OF rows] delivered(3)]
        units_move [OF stock_rowsD(1) [OF rows] delivered(4)]
      by (simp add: stock_abs_def delivered(5))
    moreover have "stock_rows (stock_items w') (stock_reservations w')"
      using stock_rows_move_item [OF stock_rows_move_res [OF rows, of StockDelivered], of StatusDelivered]
      by (simp add: delivered(5))
    ultimately show ?thesis by (rule follows_move [OF f])
  qed (use f in simp)
qed

lemma InsertStockItem_Inr:
  "InsertStockItem i w = (Inr u, w') \<longleftrightarrow> item_check i = Inr () \<and> si_ID i \<notin> si_ID ` set (stock_items w) \<and>
     (si_UniqueKeyHash i = None \<or> item_key i \<notin> item_key ` set (stock_items w)) \<and> si_ProductID i \<in> pr_ID ` set (products w) \<and>
     si_StoreID i \<in> fst ` set (stores w) \<and> si_MerchantID i \<in> set (merchants w) \<and>
     w' = w\<lparr>stock_items := stock_items w @ [i]\<rparr>"
  unfolding InsertStockItem_def insert_Inr bindE_eq_Inr by simp

lemma import_row_Inr:
  assumes "import_row s secret userID st productID sch raw w = (Inr i, w')"
  obtains norm uh keyVer ct where "ValidateImportRow sch raw = Inr (norm, uh)"
    "EncryptAEAD (ins_Gcm s) (ins_Nonce s (next_id w)) secret (string_bytes (json_string_map norm)) = Inr (keyVer, ct)"
    "i = id_gen w (next_id w)"
    "InsertStockItem (new_item userID st productID sch (clock w) norm uh keyVer ct i) (w\<lparr>next_id := Suc (next_id w)\<rparr>) = (Inr (), w')"
proof -
  from assms obtain norm uh where v: "ValidateImportRow sch raw = Inr (norm, uh)"
    by (cases "ValidateImportRow sch raw") (auto simp: import_row_def)
  with assms obtain keyVer ct
    where e: "EncryptAEAD (ins_Gcm s) (ins_Nonce s (next_id w)) secret (string_bytes (json_string_map norm)) = Inr (keyVer, ct)"
    by (cases "EncryptAEAD (ins_Gcm s) (ins_Nonce s (next_id w)) secret (string_bytes (json_string_map norm))")
      (auto simp: import_row_def)
  let ?item = "new_item userID st productID sch (clock w) norm uh keyVer ct (id_gen w (next_id w))"
  obtain q w2 where q: "InsertStockItem ?item (w\<lparr>next_id := Suc (next_id w)\<rparr>) = (q, w2)"
    by (cases "InsertStockItem ?item (w\<lparr>next_id := Suc (next_id w)\<rparr>)")
  from assms v e q have "q = Inr () \<and> w2 = w' \<and> i = id_gen w (next_id w)"
    by (cases q) (simp_all add: import_row_def bindS_def try_op_def)
  with q v e show ?thesis by (intro that) simp_all
qed

lemma follows_add:
  assumes f: "follows s0 w" and ins: "InsertStockItem i w = (Inr u, w')" and av: "si_Status i = StatusAvailable"
  shows "follows s0 w'"
proof -
  from ins have new: "si_ID i \<notin> si_ID ` set (stock_items w)" and ok: "item_check i = Inr ()"
    and w': "w' = w\<lparr>stock_items := stock_items w @ [i]\<rparr>" by (simp_all add: InsertStockItem_Inr)
  have "stock_move (stock_abs w) (stock_abs w')"
    using stock_move.add [of "units (stock_items w)" "si_ID i" "holds (stock_reservations w)"] new
    by (simp add: stock_abs_def w' units_snoc units_None av)
  moreover have "stock_rows (stock_items w') (stock_reservations w')"
    using follows_rows [OF f] new ok by (auto simp: stock_rows_def w' list_all_iff)
  ultimately show ?thesis by (rule follows_move [OF f])
qed

lemma follows_import_row:
  assumes f: "follows s0 w" and run: "import_row s secret userID st productID sch raw w = (Inr i, w')"
  shows "follows s0 w'"
  using run
proof (cases rule: import_row_Inr)
  case (1 norm uh keyVer ct)
  have "follows s0 (w\<lparr>next_id := Suc (next_id w)\<rparr>)" using f by simp
  from follows_add [OF this 1(4)] show ?thesis by (simp add: new_item_def)
qed

lemma follows_import_rows:
  "follows s0 w \<Longrightarrow> import_rows s secret userID st productID sch raws w = (Inr is, w') \<Longrightarrow> follows s0 w'"
proof (induction raws arbitrary: w "is")
  case (Cons raw raws)
  then obtain i w1 js where "import_row s secret userID st productID sch raw w = (Inr i, w1)"
    "import_rows s secret userID st productID sch raws w1 = (Inr js, w')" by (auto simp: bindS_eq_Inr)
  with Cons.IH [OF follows_import_row [OF Cons.prems(1)]] show ?case by blast
qed simp

lemma follows_import: "follows s0 w \<Longrightarrow> import_tx s secret userID st productID inp w = (Inr x, w') \<Longrightarrow> follows s0 w'"
  by (auto simp: import_tx_def bindS_eq_Inr split: if_splits dest: follows_import_rows)

lemma put_tx_Inr:
  assumes "put_tx userID st productID inp flds delim w = (Inr c, w')"
  obtains p where "get_product (fst st) productID w = Inr p" "pr_ActiveSchemaVersion p = pi_ExpectedVersion inp"
    "InsertSchema c (w\<lparr>next_id := Suc (next_id w)\<rparr>) =
       (Inr (), w\<lparr>next_id := Suc (next_id w), inventory_schemas := inventory_schemas w @ [c]\<rparr>)"
    "c = \<lparr>sm_ID = id_gen w (next_id w), sm_ProductID = productID, sm_StoreID = fst st, sm_MerchantID = snd st,
       sm_Version = (let n = wrap32 (MaxSchemaVersion productID w + 1) in if n < 1 then 1 else n), sm_Fields = flds,
       sm_Delimiter = delim, sm_Checksum = SchemaChecksum flds delim, sm_CreatedBy = Some userID, sm_CreatedAt = clock w\<rparr>"
    "SetProductActiveSchema (fst st) productID (sm_Version c) (clock w)
       (w\<lparr>next_id := Suc (next_id w), inventory_schemas := inventory_schemas w @ [c]\<rparr>) = (Inr (), w')"
proof -
  from assms obtain p where p: "get_product (fst st) productID w = Inr p"
    by (cases "get_product (fst st) productID w") (auto simp: put_tx_def requireProduct_def lookup_or_def)
  then have get: "requireProduct (fst st) productID w = Inr p" by (simp add: requireProduct_def)
  have ver: "pr_ActiveSchemaVersion p = pi_ExpectedVersion inp"
    using assms get by (cases "pr_ActiveSchemaVersion p = pi_ExpectedVersion inp") (simp_all add: put_tx_def)
  let ?c = "\<lparr>sm_ID = id_gen w (next_id w), sm_ProductID = productID, sm_StoreID = fst st, sm_MerchantID = snd st,
       sm_Version = (let n = wrap32 (MaxSchemaVersion productID w + 1) in if n < 1 then 1 else n), sm_Fields = flds,
       sm_Delimiter = delim, sm_Checksum = SchemaChecksum flds delim, sm_CreatedBy = Some userID, sm_CreatedAt = clock w\<rparr>"
  obtain q w2 where q: "InsertSchema ?c (w\<lparr>next_id := Suc (next_id w)\<rparr>) = (q, w2)"
    by (cases "InsertSchema ?c (w\<lparr>next_id := Suc (next_id w)\<rparr>)")
  from assms get ver q have ok: "q = Inr ()" by (cases q) (simp_all add: put_tx_def Let_def bindS_def try_op_def)
  then have w2: "w2 = w\<lparr>next_id := Suc (next_id w), inventory_schemas := inventory_schemas w @ [?c]\<rparr>"
    using q unfolding ok InsertSchema_def insert_Inr by simp
  from assms get ver q ok have "or_internal ''Activate schema failed'' (SetProductActiveSchema (fst st) productID (sm_Version ?c) (clock w)) w2 = (Inr (), w') \<and> c = ?c"
    by (auto simp: put_tx_def Let_def bindS_def try_op_def split: prod.splits sum.splits)
  then show ?thesis using that [OF p ver] q ok w2 by simp
qed

lemma follows_put:
  assumes f: "follows s0 w" and run: "put_tx userID st productID inp flds delim w = (Inr c, w')"
  shows "follows s0 w'"
  using run
proof (cases rule: put_tx_Inr)
  case (1 p)
  from 1(5) obtain ps where "w' = w\<lparr>next_id := Suc (next_id w), inventory_schemas := inventory_schemas w @ [c], products := ps\<rparr>"
    by (auto simp: SetProductActiveSchema_def Let_def split: if_splits)
  with f show ?thesis by simp
qed

end
