(* ===== verification/Inventory_Runs.thy ===== *)
theory Inventory_Runs
  imports Inventory_Refines
begin

text \<open>
  Runs of the inventory service: any sequence of calls by sellers, checkouts, the fulfilment and the
  expiry worker. Each is a sequence of the moves of \<open>Stock_Spec\<close>, and the promises of the inventory
  follow from what the moves keep.
\<close>

subsection \<open>Calls\<close>

lemma keeps_put: "keeps (follows s0) (PutSchema u s p inp)"
  unfolding PutSchema_def Let_def
  by (intro keeps_with_state keeps_bindS keeps_liftE keeps_tx) (auto dest: follows_put)

lemma keeps_import: "keeps (follows s0) (ImportItems svc u s p inp)"
  unfolding ImportItems_def
  by (intro keeps_with_state keeps_bindS keeps_liftE keeps_if keeps_throw keeps_tx) (auto dest: follows_import)

lemma keeps_reserve: "keeps (follows s0) (ReserveStock req)"
  unfolding ReserveStock_def Let_def
  by (intro keeps_with_state keeps_if keeps_throw keeps_case_sum keeps_ret keeps_tx) (auto dest: follows_claim)

lemma keeps_release: "keeps (follows s0) (ReleaseStock i)"
  unfolding ReleaseStock_def by (intro keeps_tx) (auto dest: follows_release)

lemma keeps_allocate: "keeps (follows s0) (AllocateOnFulfillment i)"
  unfolding AllocateOnFulfillment_def by (intro keeps_tx) (auto dest: follows_allocate)

lemma keeps_expire: "keeps (follows s0) (ExpireStock limit)"
  unfolding ExpireStock_def
proof (intro keeps_tx)
  fix w w' :: "'a inventory_db_scheme" and n
  assume f: "follows s0 w" and run: "with_state (\<lambda>w. expire_stock (clock w)
    (ListExpiredStockReservations (clock w) (if limit \<le> 0 then 50 else limit) w)) w = (Inr n, w')"
  have "\<exists>s. holds (stock_reservations w) (sr_ID r) = Some (sr_StockItemID r, s)"
    if "r \<in> set (ListExpiredStockReservations (clock w) (if limit \<le> 0 then 50 else limit) w)" for r
  proof -
    have "r \<in> set (stock_reservations w)"
      using that by (auto simp: ListExpiredStockReservations_def dest!: in_set_takeD)
    from holds_mem [OF stock_rowsD(2) [OF follows_rows [OF f]] this] show ?thesis by blast
  qed
  from follows_expire [OF f this] run show "follows s0 w'" by simp
qed simp

lemma item_of_mem: "item_of storeID i w = Inr x \<Longrightarrow> x \<in> set (stock_items w) \<and> si_ID x = i"
  by (auto simp: item_of_def GetStockItemByID_def find_Some_iff)

lemma follows_revoke:
  assumes f: "follows s0 w" and x: "x \<in> set (stock_items w)"
    and st: "si_Status x \<noteq> StatusRevoked" "si_Status x \<noteq> StatusDelivered"
    and upd: "UpdateStockItemStatus (si_ID x) (si_Status x) StatusRevoked at w = (Inr ok, w')"
  shows "follows s0 w'"
proof (cases ok)
  case True
  note rows = follows_rows [OF f]
  have "item_check x = Inr ()" using stock_rowsD(4) [OF rows x] .
  then have "si_Status x = StatusAvailable \<or> si_Status x = StatusReserved" using st by (auto simp: item_check_def)
  moreover note u = UpdateItem_True [OF rows upd [unfolded True [THEN eqTrueI]]]
  ultimately have "stock_move (stock_abs w) (stock_abs w')"
    using stock_move.revoke [of "units (stock_items w)" "si_ID x" "si_Status x" "holds (stock_reservations w)"]
      units_move [OF stock_rowsD(1) [OF rows] u(1)] by (simp add: stock_abs_def)
  moreover have "stock_rows (stock_items w') (stock_reservations w')"
    using stock_rows_move_item [OF rows, of StatusRevoked] by (simp add: u(2))
  ultimately show ?thesis by (rule follows_move [OF f])
next
  case False
  then have "w' = w" using upd UpdateItem_False [of "si_ID x" "si_Status x" StatusRevoked at w w'] by simp
  with f show ?thesis by simp
qed

lemma UpdateItem_Inl: "UpdateStockItemStatus u from to at w = (Inl e, w') \<Longrightarrow> w' = w"
  by (auto simp: UpdateStockItemStatus_def split: sum.splits if_splits)

lemma keeps_revoke: "keeps (follows s0) (RevokeItem u s i)"
proof (rule keepsI)
  fix w w' :: "'a inventory_db_scheme" and r
  assume f: "follows s0 w" and run: "RevokeItem u s i w = (r, w')"
  show "follows s0 w'"
  proof (cases "inventory_access u s w")
    case (Inl e)
    with run f show ?thesis by (simp add: RevokeItem_def)
  next
    case acc: (Inr st)
    show ?thesis
    proof (cases "item_of s i w")
      case (Inl e)
      with run f acc show ?thesis by (simp add: RevokeItem_def)
    next
      case (Inr x)
      note x = item_of_mem [OF Inr]
      show ?thesis
      proof (cases "si_Status x = StatusRevoked \<or> si_Status x = StatusDelivered")
        case True
        with run f acc Inr show ?thesis by (auto simp: RevokeItem_def)
      next
        case st: False
        obtain q w1 where q: "UpdateStockItemStatus (si_ID x) (si_Status x) StatusRevoked (clock w) w = (q, w1)"
          by (cases "UpdateStockItemStatus (si_ID x) (si_Status x) StatusRevoked (clock w) w")
        have w': "w' = w1" using run st acc Inr q
          by (cases q) (auto simp: RevokeItem_def bindS_def or_internal_def split: if_splits)
        show ?thesis
        proof (cases q)
          case (Inl e)
          with q UpdateItem_Inl f w' show ?thesis by blast
        next
          case (Inr ok)
          with follows_revoke [OF f] x st q w' show ?thesis by blast
        qed
      qed
    qed
  qed
qed

lemma InsertRevealAudit_state:
  "InsertRevealAudit a w = (r, w') \<Longrightarrow> w' = w \<or> w' = w\<lparr>stock_reveal_audits := stock_reveal_audits w @ [a]\<rparr>"
  by (auto simp: InsertRevealAudit_def split: sum.splits)

lemma keeps_reveal: "keeps (follows s0) (RevealItem svc u s i reason mfa)"
proof -
  have ins: "keeps (follows s0) (or_internal m (InsertRevealAudit a))" for m a
    by (rule keepsI) (auto simp: or_internal_def split: prod.splits sum.splits dest!: InsertRevealAudit_state)
  have ids: "keeps (follows s0) new_id" by (rule keeps_new_id) simp
  show ?thesis
    unfolding RevealItem_def Let_def
    by (intro keeps_with_state keeps_bindS keeps_liftE keeps_if keeps_throw keeps_case_sum keeps_case_option keeps_ret ins ids)
qed

subsection \<open>Sequences of calls\<close>

inductive inventory_step :: "'m inventory_db_scheme \<Rightarrow> 'm inventory_db_scheme \<Rightarrow> bool" where
  put: "PutSchema u s p inp w = (rs, w') \<Longrightarrow> inventory_step w w'"
| import_items: "ImportItems svc u s p iin w = (ri, w') \<Longrightarrow> inventory_step w w'"
| reserve: "ReserveStock req w = (rr, w') \<Longrightarrow> inventory_step w w'"
| release: "ReleaseStock i w = (rl, w') \<Longrightarrow> inventory_step w w'"
| allocate: "AllocateOnFulfillment i w = (ra, w') \<Longrightarrow> inventory_step w w'"
| expire: "ExpireStock n w = (rn, w') \<Longrightarrow> inventory_step w w'"
| reveal: "RevealItem svc u s i reason mfa w = (rv, w') \<Longrightarrow> inventory_step w w'"
| revoke: "RevokeItem u s i w = (rk, w') \<Longrightarrow> inventory_step w w'"
| tick: "inventory_step w (w\<lparr>clock := t\<rparr>)"

lemma step_follows:
  assumes "inventory_step w w'" and "follows s0 w"
  shows "follows s0 w'"
  using assms(1)
proof cases
  case (put u s p inp rs)
  from keepsD [OF keeps_put put assms(2)] show ?thesis .
next
  case (import_items svc u s p iin ri)
  from keepsD [OF keeps_import import_items assms(2)] show ?thesis .
next
  case (reserve req rr)
  from keepsD [OF keeps_reserve reserve assms(2)] show ?thesis .
next
  case (release i rl)
  from keepsD [OF keeps_release release assms(2)] show ?thesis .
next
  case (allocate i ra)
  from keepsD [OF keeps_allocate allocate assms(2)] show ?thesis .
next
  case (expire n rn)
  from keepsD [OF keeps_expire expire assms(2)] show ?thesis .
next
  case (reveal svc u s i reason mfa rv)
  from keepsD [OF keeps_reveal reveal assms(2)] show ?thesis .
next
  case (revoke u s i rk)
  from keepsD [OF keeps_revoke revoke assms(2)] show ?thesis .
next
  case (tick t)
  with assms(2) show ?thesis by simp
qed

lemma run_follows: "inventory_step\<^sup>*\<^sup>* w w' \<Longrightarrow> follows s0 w \<Longrightarrow> follows s0 w'"
  by (induction rule: rtranclp_induct) (auto intro: step_follows)

lemma follows_start: "inventory_inv w \<Longrightarrow> follows (stock_abs w) w"
  by (simp add: follows_def)

lemma inventory_run:
  assumes "inventory_inv w" and "inventory_step\<^sup>*\<^sup>* w w'"
  shows "stock_move\<^sup>*\<^sup>* (stock_abs w) (stock_abs w')" and "inventory_inv w'"
  using run_follows [OF assms(2) follows_start [OF assms(1)]] by (simp_all add: follows_def)

text \<open>
  C24. Every run of the inventory service is a sequence of moves of the stock specification, whatever
  the calls answer.
\<close>

theorem inventory_refines_stock:
  assumes "inventory_inv w" and "inventory_step\<^sup>*\<^sup>* w w'"
  shows "stock_move\<^sup>*\<^sup>* (stock_abs w) (stock_abs w') \<and> inventory_inv w'"
  using inventory_run [OF assms] by simp

text \<open>
  C25. However sellers, checkouts and workers interleave, no unit is promised to two reservations at
  once, a unit on offer has no live reservation, and a delivered unit was delivered to exactly one
  reservation.
\<close>

theorem never_sold_twice:
  assumes "inventory_inv w" and "inventory_step\<^sup>*\<^sup>* w w'" and "i \<in> set (stock_items w')"
  shows "(\<forall>r\<in>set (stock_reservations w'). \<forall>r'\<in>set (stock_reservations w').
      stock_live r \<and> stock_live r' \<and> sr_StockItemID r = si_ID i \<and> sr_StockItemID r' = si_ID i \<longrightarrow> r = r') \<and>
    (si_Status i = StatusAvailable \<longrightarrow> (\<forall>r\<in>set (stock_reservations w'). sr_StockItemID r = si_ID i \<longrightarrow> \<not> stock_live r)) \<and>
    (si_Status i = StatusDelivered \<longrightarrow>
      (\<exists>!r. r \<in> set (stock_reservations w') \<and> sr_StockItemID r = si_ID i \<and> sr_Status r = StockDelivered))"
proof -
  have inv: "inventory_inv w'" using run_follows [OF assms(2) follows_start [OF assms(1)]] by (simp add: follows_def)
  let ?U = "units (stock_items w')" and ?H = "holds (stock_reservations w')"
  have rows: "stock_rows (stock_items w') (stock_reservations w')" and sound: "stock_sound (?U, ?H)"
    using inv by (simp_all add: inventory_inv_def stock_abs_def)
  have unit: "?U (si_ID i) = Some (si_Status i)" using units_mem [OF stock_rowsD(1) [OF rows] assms(3)] .
  have held: "?H (sr_ID r) = Some (sr_StockItemID r, sr_Status r)" if "r \<in> set (stock_reservations w')" for r
    using holds_mem [OF stock_rowsD(2) [OF rows] that] .
  have live: "stock_live r \<longleftrightarrow> live_status (sr_Status r)" for r
    by (auto simp: stock_live_def live_status_def holding_def)
  have one: "r = r'" if "r \<in> set (stock_reservations w')" "r' \<in> set (stock_reservations w')"
    "stock_live r" "stock_live r'" "sr_StockItemID r = si_ID i" "sr_StockItemID r' = si_ID i" for r r'
  proof -
    have "sr_ID r = sr_ID r'"
      using stock_soundD(4) [OF sound, of "sr_ID r" "si_ID i" "sr_Status r" "sr_ID r'" "sr_Status r'"]
        held [OF that(1)] held [OF that(2)] that by (simp add: live)
    with find_unique_key [OF stock_rowsD(2) [OF rows] that(1,2)] show ?thesis .
  qed
  have free: "\<not> stock_live r" if "si_Status i = StatusAvailable" "r \<in> set (stock_reservations w')" "sr_StockItemID r = si_ID i" for r
    using available_free [OF sound, of "si_ID i" "sr_ID r" "sr_Status r"] unit held [OF that(2)] that by (simp add: live)
  have sold: "\<exists>!r. r \<in> set (stock_reservations w') \<and> sr_StockItemID r = si_ID i \<and> sr_Status r = StockDelivered"
    if "si_Status i = StatusDelivered"
  proof -
    from stock_soundD(3) [OF sound] unit that obtain k where "?H k = Some (si_ID i, StockDelivered)" by auto
    from holds_Some [OF this] obtain r where "r \<in> set (stock_reservations w')" "sr_StockItemID r = si_ID i" "sr_Status r = StockDelivered"
      by blast
    then show ?thesis using one by (intro ex1I [of _ r]) (auto simp: stock_live_def)
  qed
  show ?thesis using one free sold by blast
qed

subsection \<open>Delivery, release and revocation\<close>

lemma find_only:
  "distinct (map key xs) \<Longrightarrow> x \<in> set xs \<Longrightarrow> P x \<Longrightarrow> (\<And>y. P y \<Longrightarrow> key y = key x) \<Longrightarrow> find P xs = Some x"
proof (induction xs)
  case (Cons y ys)
  show ?case
  proof (cases "y = x")
    case False
    with Cons.prems(1,2) have "key y \<noteq> key x" by auto
    with Cons.prems(4) [of y] have "\<not> P y" by blast
    moreover have "distinct (map key ys)" "x \<in> set ys" using Cons.prems(1,2) False by simp_all
    then have "find P ys = Some x" using Cons.prems(3,4) by (rule Cons.IH)
    ultimately show ?thesis by simp
  qed (use Cons.prems(3) in simp)
qed simp

lemma GetStockReservation_row:
  assumes "inventory_inv w" and "r \<in> set (stock_reservations w)"
  shows "GetStockReservation (sr_ID r) w = Inr r"
  using find_only [of sr_ID "stock_reservations w" r "\<lambda>x. sr_ID x = sr_ID r"] assms
  by (simp add: GetStockReservation_def inventory_inv_def stock_rows_def)

lemma reservation_row:
  assumes "snd (stock_abs w) i = Some (u, s)"
  obtains r where "r \<in> set (stock_reservations w)" "sr_ID r = i" "sr_StockItemID r = u" "sr_Status r = s"
proof -
  have "holds (stock_reservations w) i = Some (u, s)" using assms by (simp add: stock_abs_def)
  then obtain r where "r \<in> set (stock_reservations w)" "sr_ID r = i" "sr_StockItemID r = u" "sr_Status r = s"
    using holds_Some by metis
  then show ?thesis by (rule that)
qed

lemma unit_row:
  assumes inv: "inventory_inv w" and r: "r \<in> set (stock_reservations w)"
  obtains i where "i \<in> set (stock_items w)" "si_ID i = sr_StockItemID r"
    "GetStockItemByID (sr_StoreID r) (sr_StockItemID r) w = Inr i" "si_ProductID i = sr_ProductID r"
    "units (stock_items w) (sr_StockItemID r) = Some (si_Status i)"
proof -
  have rows: "stock_rows (stock_items w) (stock_reservations w)" using inv by (simp add: inventory_inv_def)
  from stock_rowsD(6) [OF rows r] obtain i where i: "i \<in> set (stock_items w)" "unit_for r i" by blast
  then have u: "si_ID i = sr_StockItemID r" "si_StoreID i = sr_StoreID r" "si_ProductID i = sr_ProductID r"
    by (simp_all add: unit_for_def)
  have "find (\<lambda>j. si_ID j = sr_StockItemID r \<and> si_StoreID j = sr_StoreID r) (stock_items w) = Some i"
    by (rule find_only [OF stock_rowsD(1) [OF rows] i(1)]) (simp_all add: u)
  then have "GetStockItemByID (sr_StoreID r) (sr_StockItemID r) w = Inr i" by (simp add: GetStockItemByID_def)
  moreover have "units (stock_items w) (sr_StockItemID r) = Some (si_Status i)"
    using units_mem [OF stock_rowsD(1) [OF rows] i(1)] u(1) by simp
  ultimately show ?thesis using i(1) u by (intro that)
qed

lemma refuse_tx: "m w = (Inl e, w) \<Longrightarrow> with_tx m w = (Inl e, w)"
  by (simp add: with_tx_def)

lemma at_delivered:
  assumes inv: "inventory_inv w" and r: "r \<in> set (stock_reservations w)" "sr_Status r = StockDelivered"
  shows "\<exists>item. AllocateOnFulfillment (sr_ID r) w = (Inr (r, no_payload item), w) \<and> si_Status item = StatusDelivered \<and>
    si_ID item = sr_StockItemID r" and "ReleaseStock (sr_ID r) w = (Inl ErrStockReservationState, w)"
proof -
  have get: "stock_reservation_of (sr_ID r) w = Inr r"
    using GetStockReservation_row [OF inv r(1)] by (simp add: stock_reservation_of_def)
  show "ReleaseStock (sr_ID r) w = (Inl ErrStockReservationState, w)"
    unfolding ReleaseStock_def by (rule refuse_tx) (simp add: stock_release_tx_def get r(2))
  from inv r(1) obtain i where i: "i \<in> set (stock_items w)" "si_ID i = sr_StockItemID r"
    "GetStockItemByID (sr_StoreID r) (sr_StockItemID r) w = Inr i" and u: "units (stock_items w) (sr_StockItemID r) = Some (si_Status i)"
    by (rule unit_row)
  have rows: "stock_rows (stock_items w) (stock_reservations w)" and sound: "stock_sound (units (stock_items w), holds (stock_reservations w))"
    using inv by (simp_all add: inventory_inv_def stock_abs_def)
  have "holds (stock_reservations w) (sr_ID r) = Some (sr_StockItemID r, StockDelivered)"
    using holds_mem [OF stock_rowsD(2) [OF rows] r(1)] r(2) by simp
  from stock_soundD(1) [OF sound this] u have "si_Status i = StatusDelivered" by (simp add: fits_def)
  moreover have "allocate_tx (sr_ID r) w = (Inr (r, no_payload i), w)" by (simp add: allocate_tx_def get r(2) i(3))
  ultimately show "\<exists>item. AllocateOnFulfillment (sr_ID r) w = (Inr (r, no_payload item), w) \<and> si_Status item = StatusDelivered \<and>
    si_ID item = sr_StockItemID r" using i(2) by (intro exI [of _ i]) (simp add: AllocateOnFulfillment_def)
qed

lemma allocated_holds:
  assumes "inventory_inv w" and "AllocateOnFulfillment i w = (Inr (r, it), w1)"
  shows "snd (stock_abs w1) i = Some (sr_StockItemID r, StockDelivered)"
proof -
  from assms(2) have "allocate_tx i w = (Inr (r, it), w1)" by (simp add: AllocateOnFulfillment_def)
  with assms(1) show ?thesis
  proof (cases rule: allocate_tx_Inr)
    case (done_before q item)
    then have "q = r" "w1 = w" "sr_ID r = i" "r \<in> set (stock_reservations w)"
      using GetStockReservation_mem [OF done_before(1)] by simp_all
    with done_before(2) show ?thesis
      using holds_mem [OF stock_rowsD(2)] assms(1) by (auto simp: inventory_inv_def stock_abs_def)
  next
    case (delivered q item)
    have "distinct (map sr_ID (stock_reservations w))" using assms(1) by (auto simp: inventory_inv_def stock_rows_def)
    from holds_move [OF this delivered(3)] delivered(5,7) show ?thesis by (simp add: stock_abs_def)
  qed
qed

text \<open>
  C26. A delivery is final: whatever is called later, fulfilling the reservation again answers the same
  unit and changes nothing, and releasing it is refused.
\<close>

theorem delivery_is_final:
  assumes "inventory_inv w" and "AllocateOnFulfillment i w = (Inr (r, it), w1)" and "inventory_step\<^sup>*\<^sup>* w1 w2"
  shows "\<exists>r2 it2. AllocateOnFulfillment i w2 = (Inr (r2, it2), w2) \<and> si_ID it2 = sr_StockItemID r \<and>
    sr_Status r2 = StockDelivered \<and> si_Status it2 = StatusDelivered \<and>
    ReleaseStock i w2 = (Inl ErrStockReservationState, w2)"
proof -
  have "follows (stock_abs w) w1"
    using keepsD [OF keeps_allocate assms(2) follows_start [OF assms(1)]] .
  then have "inventory_inv w1" by (simp add: follows_def)
  note run = inventory_run(1) [OF this assms(3)] and inv2 = inventory_run(2) [OF this assms(3)]
  have "snd (stock_abs w2) i = Some (sr_StockItemID r, StockDelivered)"
    using reservation_stays_run [OF run allocated_holds [OF assms(1,2)]] by simp
  then obtain r2 where r2: "r2 \<in> set (stock_reservations w2)" "sr_ID r2 = i" "sr_StockItemID r2 = sr_StockItemID r"
    "sr_Status r2 = StockDelivered" by (rule reservation_row)
  from at_delivered [OF inv2 r2(1,4)] r2(2,3) obtain item
    where "AllocateOnFulfillment i w2 = (Inr (r2, no_payload item), w2)" "si_Status item = StatusDelivered"
      "si_ID item = sr_StockItemID r" "ReleaseStock i w2 = (Inl ErrStockReservationState, w2)" by auto
  then show ?thesis using r2(4) by (intro exI [of _ r2] exI [of _ "no_payload item"]) (simp add: no_payload_def)
qed

end
