(* ===== verification/Inventory_Checkout.thy ===== *)
theory Inventory_Checkout
  imports Inventory_Runs
begin

text \<open>
  What a checkout may rely on: a hold is granted exactly when a unit is on offer, on the oldest such
  unit; a hold given back leaves the stock as it was; and what happens to a hold whose unit the
  seller revokes.
\<close>

subsection \<open>Taking a hold\<close>

definition complete_stock_request :: "ReserveStockRequest \<Rightarrow> bool" where
  "complete_stock_request req \<longleftrightarrow> sq_ProductID req \<noteq> [] \<and> sq_StoreID req \<noteq> [] \<and>
     trim_space (sq_IdempotencyKey req) \<noteq> [] \<and> (sq_OrderID req \<noteq> [] \<or> sq_CheckoutID req \<noteq> [])"

definition stock_hold_time :: "ReserveStockRequest \<Rightarrow> int" where
  "stock_hold_time req = (if sq_TTL req \<le> 0 then DefaultStockReservationTTL else sq_TTL req)"

lemma ReserveStock_new:
  assumes "complete_stock_request req"
    and "GetStockReservationByIdempotency (sq_ProductID req) (sq_IdempotencyKey req) w = Inl ErrNoRows"
  shows "ReserveStock req w = with_tx (claim_tx req (stock_hold_time req)) w"
  using assms by (auto simp: ReserveStock_def complete_stock_request_def stock_hold_time_def is_not_found_def Let_def)

lemma ReserveStock_Inr_new:
  assumes "ReserveStock req w = (Inr x, w')" and "\<not> sx_Replayed x"
  shows "complete_stock_request req"
    and "GetStockReservationByIdempotency (sq_ProductID req) (sq_IdempotencyKey req) w = Inl ErrNoRows"
    and "claim_tx req (stock_hold_time req) w = (Inr x, w')"
proof -
  show c: "complete_stock_request req"
    using assms(1) by (auto simp: ReserveStock_def complete_stock_request_def split: if_splits)
  have other: "GetStockReservationByIdempotency (sq_ProductID req) (sq_IdempotencyKey req) w \<noteq> Inr e" for e
    using assms c by (auto simp: ReserveStock_def complete_stock_request_def replayed_stock_def Let_def split: if_splits)
  show none: "GetStockReservationByIdempotency (sq_ProductID req) (sq_IdempotencyKey req) w = Inl ErrNoRows"
  proof (cases "find (\<lambda>r. sr_ProductID r = sq_ProductID req \<and> sr_IdempotencyKey r = sq_IdempotencyKey req) (stock_reservations w)")
    case (Some a)
    with other [of a] show ?thesis by (simp add: GetStockReservationByIdempotency_def)
  qed (simp add: GetStockReservationByIdempotency_def)
  show "claim_tx req (stock_hold_time req) w = (Inr x, w')" using ReserveStock_new [OF c none, symmetric] assms(1) by simp
qed

lemma UpdateItem_succeeds:
  assumes rows: "stock_rows (stock_items w) rs" and i: "i \<in> set (stock_items w)" and to: "to \<in> item_statuses"
  shows "UpdateStockItemStatus (si_ID i) (si_Status i) to at w =
    (Inr True, w\<lparr>stock_items := move_item (si_ID i) (si_Status i) to at (stock_items w)\<rparr>)"
proof -
  have "find (\<lambda>x. si_ID x = si_ID i \<and> si_Status x = si_Status i) (stock_items w) = Some i"
    by (rule find_only [OF stock_rowsD(1) [OF rows] i]) simp_all
  with item_check_moved [OF stock_rowsD(4) [OF rows i] to] show ?thesis
    by (simp add: UpdateStockItemStatus_def update_one_def move_item_def)
qed

lemma ids_move: "si_ID ` set (move_item u from to at items) = si_ID ` set items"
proof -
  have "map si_ID (move_item u from to at items) = map si_ID items"
    unfolding move_item_def by (rule map_update_key) simp
  then show ?thesis by (metis set_map)
qed

definition hold_granted :: "ReserveStockRequest \<Rightarrow> StockItem \<Rightarrow> 'm inventory_db_scheme \<Rightarrow> 'm inventory_db_scheme" where
  "hold_granted req i w = w\<lparr>stock_items := move_item (si_ID i) StatusAvailable StatusReserved (clock w) (stock_items w),
     next_id := Suc (next_id w), stock_reservations := stock_reservations w @
       [new_stock_reservation req i (id_gen w (next_id w)) (stock_hold_time req) (clock w)]\<rparr>"

lemma ReserveStock_grants:
  assumes inv: "inventory_inv w" and req: "complete_stock_request req"
    and new: "GetStockReservationByIdempotency (sq_ProductID req) (sq_IdempotencyKey req) w = Inl ErrNoRows"
    and ids: "id_gen w (next_id w) \<notin> sr_ID ` set (stock_reservations w)"
    and fk: "sq_ProductID req \<in> pr_ID ` set (products w)" "sq_StoreID req \<in> fst ` set (stores w)"
      "si_MerchantID ` set (stock_items w) \<subseteq> set (merchants w)"
    and claim: "ClaimAvailableStockItem (sq_StoreID req) (sq_ProductID req) w = Inr i"
  shows "ReserveStock req w =
    (Inr \<lparr>sx_Reservation = new_stock_reservation req i (id_gen w (next_id w)) (stock_hold_time req) (clock w),
       sx_Item = Some (no_payload (i\<lparr>si_Status := StatusReserved\<rparr>)), sx_Replayed = False\<rparr>, hold_granted req i w)"
proof -
  note c = ClaimAvailable_Inr [OF claim]
  have rows: "stock_rows (stock_items w) (stock_reservations w)" and sound: "stock_sound (units (stock_items w), holds (stock_reservations w))"
    using inv by (simp_all add: inventory_inv_def stock_abs_def)
  have unit: "units (stock_items w) (si_ID i) = Some StatusAvailable" using units_mem [OF stock_rowsD(1) [OF rows] c(1)] c(2) by simp
  define w1 where "w1 = w\<lparr>stock_items := move_item (si_ID i) StatusAvailable StatusReserved (clock w) (stock_items w)\<rparr>"
  define res where "res = new_stock_reservation req i (id_gen w (next_id w)) (stock_hold_time req) (clock w)"
  have upd: "UpdateStockItemStatus (si_ID i) StatusAvailable StatusReserved (clock w) w = (Inr True, w1)"
    using UpdateItem_succeeds [OF rows c(1), of StatusReserved] c(2) by (simp add: w1_def)
  have "trim_space [] = []" by (simp add: trim_space_def trim_with_def)
  then have chk: "stock_reservation_check res = Inr ()"
    using req by (auto simp: stock_reservation_check_def res_def new_stock_reservation_def opt_string_def complete_stock_request_def)
  have key: "res_key res \<notin> res_key ` set (stock_reservations w)"
    using new by (auto simp: GetStockReservationByIdempotency_def opt_row_def find_None_iff res_key_def res_def
        new_stock_reservation_def split: option.splits)
  have free: "sr_StockItemID x \<noteq> si_ID i" if "x \<in> set (stock_reservations w)" "stock_live x" for x
    using available_free [OF sound unit, of "sr_ID x" "sr_Status x"] holds_mem [OF stock_rowsD(2) [OF rows] that(1)] that(2)
    by (auto simp: stock_live_def live_status_def holding_def)
  have idx: "stock_indexes res (stock_reservations w) = Inr ()"
    using ids key free by (simp add: stock_indexes_Inr res_def new_stock_reservation_def)
  have fks: "sr_StockItemID res \<in> si_ID ` set (stock_items w1)" "sr_ProductID res \<in> pr_ID ` set (products w)"
    "sr_StoreID res \<in> fst ` set (stores w)" "sr_MerchantID res \<in> set (merchants w)"
    using c(1) fk ids_move [of "si_ID i" StatusAvailable StatusReserved "clock w" "stock_items w"]
    by (auto simp: res_def new_stock_reservation_def w1_def)
  have granted: "hold_granted req i w = w1\<lparr>next_id := Suc (next_id w), stock_reservations := stock_reservations w @ [res]\<rparr>"
    by (simp add: hold_granted_def w1_def res_def)
  have ins: "InsertStockReservation res (w1\<lparr>next_id := Suc (next_id w)\<rparr>) = (Inr (), hold_granted req i w)"
    unfolding InsertStockReservation_Inr granted using chk idx fks by (simp add: w1_def)
  let ?x = "\<lparr>sx_Reservation = res, sx_Item = Some (no_payload (i\<lparr>si_Status := StatusReserved\<rparr>)), sx_Replayed = False\<rparr>"
  have hold: "store_hold w req i res (w1\<lparr>next_id := Suc (next_id w)\<rparr>) = (Inr ?x, hold_granted req i w)"
    using ins by (simp add: store_hold_Inr)
  have "claim_tx req (stock_hold_time req) w = (Inr ?x, hold_granted req i w)"
    using new claim upd hold by (simp add: claim_tx_def is_not_found_def lookup_or_def or_internal_def bindS_def w1_def res_def)
  then show ?thesis using ReserveStock_new [OF req new] by (simp add: res_def)
qed

lemma units_granted:
  assumes "inventory_inv w" and "ClaimAvailableStockItem storeID productID w = Inr i"
  shows "fst (stock_abs (hold_granted req i w)) = (fst (stock_abs w))(si_ID i \<mapsto> StatusReserved)"
proof -
  have ids: "distinct (map si_ID (stock_items w))" using assms(1) by (simp add: inventory_inv_def stock_rows_def)
  note c = ClaimAvailable_Inr [OF assms(2)]
  have unit: "units (stock_items w) (si_ID i) = Some StatusAvailable" using units_mem [OF ids c(1)] c(2) by simp
  from units_move [OF ids unit] show ?thesis by (simp add: hold_granted_def stock_abs_def)
qed

text \<open>
  C27. A complete request with a new key gets a hold exactly when the product has a unit on offer in
  the store, and then on the oldest one; otherwise it is told that the product is out of stock.
\<close>

theorem ReserveStock_outcome:
  assumes inv: "inventory_inv w" and req: "complete_stock_request req"
    and new: "GetStockReservationByIdempotency (sq_ProductID req) (sq_IdempotencyKey req) w = Inl ErrNoRows"
    and ids: "id_gen w (next_id w) \<notin> sr_ID ` set (stock_reservations w)"
    and fk: "sq_ProductID req \<in> pr_ID ` set (products w)" "sq_StoreID req \<in> fst ` set (stores w)"
      "si_MerchantID ` set (stock_items w) \<subseteq> set (merchants w)"
  shows "case ClaimAvailableStockItem (sq_StoreID req) (sq_ProductID req) w of
      Inl _ \<Rightarrow> ReserveStock req w = (Inl ErrOutOfStock, w) \<and>
        (\<forall>i\<in>set (stock_items w). si_ProductID i = sq_ProductID req \<longrightarrow> si_StoreID i = sq_StoreID req \<longrightarrow> si_Status i \<noteq> StatusAvailable)
    | Inr i \<Rightarrow> (\<exists>x w'. ReserveStock req w = (Inr x, w') \<and> \<not> sx_Replayed x \<and>
        sr_StockItemID (sx_Reservation x) = si_ID i \<and> sr_Status (sx_Reservation x) = StockReserved \<and>
        sr_ExpiresAt (sx_Reservation x) = clock w + stock_hold_time req \<and>
        fst (stock_abs w') = (fst (stock_abs w))(si_ID i \<mapsto> StatusReserved)) \<and>
        (\<forall>j\<in>set (stock_items w). si_Status j = StatusAvailable \<longrightarrow> si_ProductID j = sq_ProductID req \<longrightarrow>
           si_StoreID j = sq_StoreID req \<longrightarrow> (si_CreatedAt i, si_ID i) \<le> (si_CreatedAt j, si_ID j))"
proof (cases "ClaimAvailableStockItem (sq_StoreID req) (sq_ProductID req) w")
  case (Inl e)
  then have "e = ErrNoRows" by (simp add: ClaimAvailable_Inl)
  with Inl new have "claim_tx req (stock_hold_time req) w = (Inl ErrOutOfStock, w)"
    by (simp add: claim_tx_def is_not_found_def lookup_or_def)
  with Inl ClaimAvailable_Inl [of "sq_StoreID req" "sq_ProductID req" w e] ReserveStock_new [OF req new] show ?thesis
    by (simp add: refuse_tx)
next
  case (Inr i)
  from ReserveStock_grants [OF assms Inr] units_granted [OF inv Inr] ClaimAvailable_Inr(5) [OF Inr] Inr show ?thesis
    by (auto simp: new_stock_reservation_def)
qed

subsection \<open>Giving it back\<close>

lemma UpdateRes_released:
  assumes rows: "stock_rows items (stock_reservations w)" and r: "r \<in> set (stock_reservations w)"
  shows "UpdateStockReservationStatus (sr_ID r) (sr_Status r) StockReleased at w =
    (Inr True, w\<lparr>stock_reservations := move_res (sr_ID r) (sr_Status r) StockReleased at (stock_reservations w)\<rparr>)"
proof -
  let ?sel = "\<lambda>x. sr_ID x = sr_ID r \<and> sr_Status x = sr_Status r"
  have find: "find ?sel (stock_reservations w) = Some r"
    by (rule find_only [OF stock_rowsD(2) [OF rows] r]) simp_all
  have other: "x \<noteq> r" if "x \<in> set (filter (\<lambda>x. \<not> ?sel x) (stock_reservations w))" for x using that by auto
  have "sr_ID r \<notin> sr_ID ` set (filter (\<lambda>x. \<not> ?sel x) (stock_reservations w))"
    using find_unique_key [OF stock_rowsD(2) [OF rows] _ r] other by auto
  moreover have "res_key r \<notin> res_key ` set (filter (\<lambda>x. \<not> ?sel x) (stock_reservations w))"
    using find_unique_key [OF stock_rowsD(3) [OF rows] _ r] other by force
  ultimately have "stock_indexes (stock_moved StockReleased at r) (filter (\<lambda>x. \<not> ?sel x) (stock_reservations w)) = Inr ()"
    by (simp add: stock_indexes_Inr stock_live_def)
  with find res_check_moved [OF stock_rowsD(5) [OF rows r], of StockReleased at] show ?thesis
    by (simp add: UpdateStockReservationStatus_def Let_def update_one_def move_res_def)
qed

lemma release_holding:
  assumes inv: "inventory_inv w" and r: "r \<in> set (stock_reservations w)" "holding (sr_Status r)"
    and u: "units (stock_items w) (sr_StockItemID r) = Some StatusReserved"
  shows "ReleaseStock (sr_ID r) w = (Inr (stock_moved StockReleased (clock w) r),
    w\<lparr>stock_reservations := move_res (sr_ID r) (sr_Status r) StockReleased (clock w) (stock_reservations w),
      stock_items := move_item (sr_StockItemID r) StatusReserved StatusAvailable (clock w) (stock_items w)\<rparr>)"
proof -
  have rows: "stock_rows (stock_items w) (stock_reservations w)" using inv by (simp add: inventory_inv_def)
  let ?w1 = "w\<lparr>stock_reservations := move_res (sr_ID r) (sr_Status r) StockReleased (clock w) (stock_reservations w)\<rparr>"
  have upd: "UpdateStockReservationStatus (sr_ID r) (sr_Status r) StockReleased (clock w) w = (Inr True, ?w1)"
    using UpdateRes_released [OF rows r(1)] .
  from units_Some [OF u] obtain i where i: "i \<in> set (stock_items ?w1)" "si_ID i = sr_StockItemID r" "si_Status i = StatusReserved" by auto
  have rows1: "stock_rows (stock_items ?w1) (stock_reservations w)" using rows by simp
  have item: "UpdateStockItemStatus (sr_StockItemID r) StatusReserved StatusAvailable (clock w) ?w1 = (Inr True,
      ?w1\<lparr>stock_items := move_item (sr_StockItemID r) StatusReserved StatusAvailable (clock w) (stock_items w)\<rparr>)"
    using UpdateItem_succeeds [OF rows1 i(1), of StatusAvailable "clock w"] by (simp add: i(2,3))
  have get: "stock_reservation_of (sr_ID r) w = Inr r"
    using GetStockReservation_row [OF inv r(1)] by (simp add: stock_reservation_of_def)
  have st: "sr_Status r \<noteq> StockReleased" "\<not> (sr_Status r \<noteq> StockReserved \<and> sr_Status r \<noteq> StockHeldUnknown)"
    using r(2) by (auto simp: holding_def)
  have "stock_release_tx (sr_ID r) w = (Inr (stock_moved StockReleased (clock w) r),
    ?w1\<lparr>stock_items := move_item (sr_StockItemID r) StatusReserved StatusAvailable (clock w) (stock_items w)\<rparr>)"
    using get st upd item by (simp add: stock_release_tx_def or_internal_def in_tx_ignored_def bindS_def stock_moved_def)
  then show ?thesis by (simp add: ReleaseStock_def)
qed

text \<open>What a new hold means for the unit, and how any such hold is undone.\<close>

lemma hold_taken:
  assumes inv: "inventory_inv w" and run: "ReserveStock req w = (Inr x, w1)" and new: "\<not> sx_Replayed x"
  obtains i where "inventory_inv w1" "sx_Reservation x \<in> set (stock_reservations w1)"
    "sr_Status (sx_Reservation x) = StockReserved" "sx_Item x = Some i" "sr_StockItemID (sx_Reservation x) = si_ID i"
    "units (stock_items w) (si_ID i) = Some StatusAvailable"
    "units (stock_items w1) = (units (stock_items w))(si_ID i \<mapsto> StatusReserved)"
proof -
  have rows: "stock_rows (stock_items w) (stock_reservations w)" using inv by (simp add: inventory_inv_def)
  have inv1: "inventory_inv w1" using keepsD [OF keeps_reserve run follows_start [OF inv]] by (simp add: follows_def)
  from rows ReserveStock_Inr_new(3) [OF run new] show ?thesis
  proof (cases rule: claim_tx_Inr)
    case (claimed item res)
    note c = ClaimAvailable_Inr [OF claimed(2)]
    have unit: "units (stock_items w) (si_ID item) = Some StatusAvailable" using units_mem [OF stock_rowsD(1) [OF rows] c(1)] c(2) by simp
    have "units (stock_items w1) = (units (stock_items w))(si_ID item \<mapsto> StatusReserved)"
      using units_move [OF stock_rowsD(1) [OF rows] unit] by (simp add: claimed(6))
    with unit inv1 that [of "no_payload (item\<lparr>si_Status := StatusReserved\<rparr>)"] show ?thesis
      by (simp add: claimed(3,6,7) new_stock_reservation_def no_payload_def)
  qed (use new in \<open>simp add: replayed_stock_def\<close>)
qed

lemma hold_given_back:
  assumes inv: "inventory_inv w" and r: "r \<in> set (stock_reservations w)" "holding (sr_Status r)"
    and u: "units (stock_items w) = U(sr_StockItemID r \<mapsto> StatusReserved)" and was: "U (sr_StockItemID r) = Some StatusAvailable"
  shows "\<exists>r' w2. ReleaseStock (sr_ID r) w = (Inr r', w2) \<and> sr_Status r' = StockReleased \<and> units (stock_items w2) = U"
proof -
  have reserved: "units (stock_items w) (sr_StockItemID r) = Some StatusReserved" by (simp add: u)
  have rows: "stock_rows (stock_items w) (stock_reservations w)" using inv by (simp add: inventory_inv_def)
  have "units (move_item (sr_StockItemID r) StatusReserved StatusAvailable (clock w) (stock_items w)) = U"
    using units_move [OF stock_rowsD(1) [OF rows] reserved] was by (simp add: u fun_eq_iff)
  with release_holding [OF inv r reserved] show ?thesis by simp
qed

text \<open>
  C28. A hold that was just taken can be given back at once, and then every unit has the status it had.
\<close>

theorem stock_hold_roundtrip:
  assumes inv: "inventory_inv w" and run: "ReserveStock req w = (Inr x, w1)" and new: "\<not> sx_Replayed x"
  shows "\<exists>r w2. ReleaseStock (sr_ID (sx_Reservation x)) w1 = (Inr r, w2) \<and> sr_Status r = StockReleased \<and>
    fst (stock_abs w2) = fst (stock_abs w)"
proof -
  from hold_taken [OF assms] obtain i where "inventory_inv w1" "sx_Reservation x \<in> set (stock_reservations w1)"
    "holding (sr_Status (sx_Reservation x))" "units (stock_items w) (sr_StockItemID (sx_Reservation x)) = Some StatusAvailable"
    "units (stock_items w1) = (units (stock_items w))(sr_StockItemID (sx_Reservation x) \<mapsto> StatusReserved)"
    by (metis holding_simps(1))
  from hold_given_back [OF this(1,2,3,5,4)] show ?thesis by (auto simp: stock_abs_def)
qed

subsection \<open>Revoking a promised unit\<close>


subsection \<open>Delivering a hold\<close>

definition delivered_world :: "StockReservation \<Rightarrow> 'm inventory_db_scheme \<Rightarrow> 'm inventory_db_scheme" where
  "delivered_world r w =
    w\<lparr>stock_reservations := move_res (sr_ID r) (sr_Status r) StockDelivered (clock w) (stock_reservations w),
      stock_items := move_item (sr_StockItemID r) StatusReserved StatusDelivered (clock w) (stock_items w)\<rparr>"

lemma deliver_holding:
  assumes inv: "inventory_inv w" and r: "r \<in> set (stock_reservations w)" "holding (sr_Status r)"
    and u: "units (stock_items w) (sr_StockItemID r) = Some StatusReserved"
    and once: "\<And>x. x \<in> set (stock_reservations w) \<Longrightarrow> sr_OrderID x = sr_OrderID r \<Longrightarrow> sr_ProductID x = sr_ProductID r \<Longrightarrow>
      sr_Status x \<noteq> StockDelivered"
  shows "\<exists>item. AllocateOnFulfillment (sr_ID r) w = (Inr (stock_moved StockDelivered (clock w) r, no_payload item), delivered_world r w)"
proof -
  have rows: "stock_rows (stock_items w) (stock_reservations w)" and sound: "stock_sound (units (stock_items w), holds (stock_reservations w))"
    using inv by (simp_all add: inventory_inv_def stock_abs_def)
  let ?sel = "\<lambda>x. sr_ID x = sr_ID r \<and> sr_Status x = sr_Status r"
  let ?others = "filter (\<lambda>x. \<not> ?sel x) (stock_reservations w)"
  let ?w1 = "w\<lparr>stock_reservations := move_res (sr_ID r) (sr_Status r) StockDelivered (clock w) (stock_reservations w)\<rparr>"
  have find: "find ?sel (stock_reservations w) = Some r"
    by (rule find_only [OF stock_rowsD(2) [OF rows] r(1)]) simp_all
  have live: "live_status (sr_Status r)" using r(2) by (simp add: live_status_def)
  have other: "x \<in> set (stock_reservations w)" "sr_ID x \<noteq> sr_ID r" if "x \<in> set ?others" for x
  proof -
    show mem: "x \<in> set (stock_reservations w)" using that by simp
    show "sr_ID x \<noteq> sr_ID r"
    proof
      assume "sr_ID x = sr_ID r"
      from find_unique_key [OF stock_rowsD(2) [OF rows] mem r(1) this] that show False by simp
    qed
  qed
  have key: "res_key r \<notin> res_key ` set ?others"
  proof
    assume "res_key r \<in> res_key ` set ?others"
    then obtain x where x: "res_key r = res_key x" "x \<in> set ?others" by (rule imageE)
    from find_unique_key [OF stock_rowsD(3) [OF rows] r(1) other(1) [OF x(2)] x(1)] other(2) [OF x(2)] show False by simp
  qed
  have pk: "sr_ID r \<notin> sr_ID ` set ?others"
  proof
    assume "sr_ID r \<in> sr_ID ` set ?others"
    then obtain x where x: "sr_ID r = sr_ID x" "x \<in> set ?others" by (rule imageE)
    from other(2) [OF x(2)] x(1) show False by simp
  qed
  have alone: "sr_StockItemID x \<noteq> sr_StockItemID r" if x: "x \<in> set ?others" "stock_live x" for x
  proof
    assume same: "sr_StockItemID x = sr_StockItemID r"
    have "live_status (sr_Status x)" using x(2) by (auto simp: stock_live_def live_status_def holding_def)
    with stock_soundD(4) [OF sound _ holds_mem [OF stock_rowsD(2) [OF rows] r(1)], of "sr_ID x" "sr_Status x"] live
      holds_mem [OF stock_rowsD(2) [OF rows] other(1) [OF x(1)]] same other(2) [OF x(1)]
    show False by simp
  qed
  have first: "(sr_OrderID x, sr_ProductID x) \<noteq> (sr_OrderID r, sr_ProductID r)"
    if "x \<in> set ?others" "sr_Status x = StockDelivered" for x
    using once [OF other(1) [OF that(1)]] that(2) by auto
  have order: "sr_OrderID (stock_moved StockDelivered (clock w) r) = sr_OrderID r" by (simp add: stock_moved_def)
  have "stock_indexes (stock_moved StockDelivered (clock w) r) ?others = Inr ()"
    unfolding stock_indexes_Inr stock_moved_simps order
    by (intro conjI impI ballI pk key) (rule alone first, assumption, assumption)+
  with find res_check_moved [OF stock_rowsD(5) [OF rows r(1)], of StockDelivered "clock w"]
  have upd: "UpdateStockReservationStatus (sr_ID r) (sr_Status r) StockDelivered (clock w) w = (Inr True, ?w1)"
    by (simp add: UpdateStockReservationStatus_def Let_def update_one_def move_res_def)
  from units_Some [OF u] obtain i where i: "i \<in> set (stock_items ?w1)" "si_ID i = sr_StockItemID r" "si_Status i = StatusReserved" by auto
  have rows1: "stock_rows (stock_items ?w1) (stock_reservations w)" using rows by simp
  have unit: "deliver_unit (sr_StockItemID r) (clock w) ?w1 = (Inr (), delivered_world r w)"
    using UpdateItem_succeeds [OF rows1 i(1), of StatusDelivered "clock w"]
    by (simp add: deliver_unit_def or_internal_def bindS_def i(2,3) delivered_world_def)
  have get: "stock_reservation_of (sr_ID r) w = Inr r"
    using GetStockReservation_row [OF inv r(1)] by (simp add: stock_reservation_of_def)
  have st: "sr_Status r \<noteq> StockDelivered" "\<not> (sr_Status r \<noteq> StockReserved \<and> sr_Status r \<noteq> StockHeldUnknown)"
    using r(2) by (auto simp: holding_def)
  have rows2: "stock_rows (stock_items (delivered_world r w)) (stock_reservations w)"
    using stock_rows_move_item [OF rows, of StatusDelivered] by (simp add: delivered_world_def)
  from stock_rowsD(6) [OF rows2 r(1)] obtain item where item: "item \<in> set (stock_items (delivered_world r w))" "unit_for r item" by blast
  have "find (\<lambda>j. si_ID j = sr_StockItemID r \<and> si_StoreID j = sr_StoreID r) (stock_items (delivered_world r w)) = Some item"
    by (rule find_only [OF stock_rowsD(1) [OF rows2] item(1)]) (use item(2) in \<open>simp_all add: unit_for_def\<close>)
  then have "GetStockItemByID (sr_StoreID r) (sr_StockItemID r) (delivered_world r w) = Inr item" by (simp add: GetStockItemByID_def)
  then have "allocate_tx (sr_ID r) w = (Inr (stock_moved StockDelivered (clock w) r, no_payload item), delivered_world r w)"
    using get st upd unit by (simp add: allocate_tx_def or_internal_def bindS_def stock_moved_def)
  then show ?thesis by (auto simp: AllocateOnFulfillment_def)
qed

end
