(* ===== verification/Inventory_Reveal.thy ===== *)
theory Inventory_Reveal
  imports Inventory_Checkout
begin

text \<open>
  What goes in comes out: the values of an imported row, validated, marshalled, encrypted and stored,
  are what a later reveal of the unit decrypts and parses, and the listing of the unit shows their
  mask. After that, a small world in which the theorems on the inventory are applied.
\<close>

subsection \<open>The digest of a payload\<close>

lemma length_sha_round: "length hs = 8 \<Longrightarrow> length (sha_round hs k w) = 8"
  by (cases "(hs, k, w)" rule: sha_round.cases) (simp_all add: Let_def)

lemma length_sha_rounds: "length hs = 8 \<Longrightarrow> length (sha_rounds hs ks ws) = 8"
  by (induction hs ks ws rule: sha_rounds.induct) (simp_all add: length_sha_round)

lemma length_sha_blocks: "length hs = 8 \<Longrightarrow> length (sha_blocks n hs m) = 8"
  by (induction n hs m rule: sha_blocks.induct) (simp_all add: sha_block_def length_sha_rounds)

lemma length_sha256: "length (sha256 m) = 32"
proof -
  have len: "length (concat (map (be_bytes 4) xs)) = 4 * length xs" for xs
    by (induction xs) (simp_all add: be_bytes_def)
  have "length sha_h0 = 8" by (simp add: sha_h0_def)
  then show ?thesis by (simp only: sha256_def Let_def len length_sha_blocks)
qed

subsection \<open>The units of an import\<close>

lemma distinct_import_fields:
  "import_fields fs vs n u = Inr (n', u') \<Longrightarrow> distinct (map fst n) \<Longrightarrow> distinct (map fst n')"
proof (induction fs vs n u rule: import_fields.induct)
  case (2 f fs vs n u)
  from "2.prems"(1) have "import_fields fs vs
      (map_set (fd_Key f) (trim_space (case field_value (fd_Key f) vs of None \<Rightarrow> [] | Some s \<Rightarrow> s)) n)
      (if fd_Unique f \<and> trim_space (case field_value (fd_Key f) vs of None \<Rightarrow> [] | Some s \<Rightarrow> s) \<noteq> []
        then u @ [fd_Key f @ ''='' @ trim_space (case field_value (fd_Key f) vs of None \<Rightarrow> [] | Some s \<Rightarrow> s)] else u) = Inr (n', u')"
    by (simp only: import_fields.simps Let_def split: if_splits) blast+
  moreover have "distinct (map fst (map_set k v n))" for k v
    unfolding map_set_def using "2.prems"(2) by (rule distinct_update)
  moreover from "2.prems"(1) have "\<not> (fd_Required f \<and> (field_value (fd_Key f) vs = None \<or>
      trim_space (case field_value (fd_Key f) vs of None \<Rightarrow> [] | Some s \<Rightarrow> s) = []))"
    "\<not> length (trim_space (case field_value (fd_Key f) vs of None \<Rightarrow> [] | Some s \<Rightarrow> s)) > maxFieldValue"
    by (auto simp: Let_def split: if_splits)
  ultimately show ?case using "2.IH" by blast
qed simp

lemma ValidateImportRow_distinct: "ValidateImportRow sch raw = Inr (norm, uh) \<Longrightarrow> distinct (map fst norm)"
  by (auto simp: ValidateImportRow_def bindE_eq_Inr split: option.splits dest!: distinct_import_fields)

text \<open>What each row of a successful import has left in the table.\<close>

definition imported_as ::
    "InventoryService \<Rightarrow> string \<Rightarrow> string \<Rightarrow> string \<times> string \<Rightarrow> string \<Rightarrow> Schema \<Rightarrow> go_map \<Rightarrow> string \<Rightarrow> StockItem \<Rightarrow> bool" where
  "imported_as s secret userID st productID sch raw i x \<longleftrightarrow>
     (\<exists>norm uh keyVer ct n now. ValidateImportRow sch raw = Inr (norm, uh) \<and>
        EncryptAEAD (ins_Gcm s) (ins_Nonce s n) secret (string_bytes (json_string_map norm)) = Inr (keyVer, ct) \<and>
        x = new_item userID st productID sch now norm uh keyVer ct i)"

lemma import_rows_Inr:
  assumes "import_rows s secret userID st productID sch raws w = (Inr is, w')"
  shows "length is = length raws \<and> (\<exists>n items. w' = w\<lparr>next_id := n, stock_items := items\<rparr> \<and> set (stock_items w) \<subseteq> set items \<and>
    (\<forall>k < length raws. \<exists>x\<in>set items. imported_as s secret userID st productID sch (raws ! k) (is ! k) x) \<and>
    (raws \<noteq> [] \<longrightarrow> productID \<in> pr_ID ` set (products w) \<and> fst st \<in> fst ` set (stores w)))"
  using assms
proof (induction raws arbitrary: w "is")
  case Nil
  then show ?case by (intro conjI exI [of _ "next_id w"] exI [of _ "stock_items w"]) simp_all
next
  case (Cons raw raws)
  then obtain i w1 js where row: "import_row s secret userID st productID sch raw w = (Inr i, w1)"
    and rest: "import_rows s secret userID st productID sch raws w1 = (Inr js, w')" and ids: "is = i # js"
    by (auto simp: bindS_eq_Inr)
  from row show ?case
  proof (cases rule: import_row_Inr)
    case (1 norm uh keyVer ct)
    let ?x = "new_item userID st productID sch (clock w) norm uh keyVer ct i"
    have w1: "w1 = w\<lparr>next_id := Suc (next_id w), stock_items := stock_items w @ [?x]\<rparr>"
      and fk: "productID \<in> pr_ID ` set (products w)" "fst st \<in> fst ` set (stores w)"
      using 1(4) by (simp_all add: InsertStockItem_Inr) (simp_all add: new_item_def)
    have as: "imported_as s secret userID st productID sch raw i ?x" using 1 unfolding imported_as_def by blast
    from Cons.IH [OF rest] obtain n items where len: "length js = length raws"
      and w': "w' = w1\<lparr>next_id := n, stock_items := items\<rparr>" and sub: "set (stock_items w1) \<subseteq> set items"
      and each: "\<forall>k < length raws. \<exists>x\<in>set items. imported_as s secret userID st productID sch (raws ! k) (js ! k) x" by blast
    have in_items: "?x \<in> set items" "set (stock_items w) \<subseteq> set items" using sub by (simp_all add: w1)
    have "\<exists>x\<in>set items. imported_as s secret userID st productID sch ((raw # raws) ! k) (is ! k) x" if "k < length (raw # raws)" for k
    proof (cases k)
      case 0
      with as in_items show ?thesis by (auto simp: ids)
    next
      case (Suc m)
      with each that show ?thesis by (simp add: ids)
    qed
    moreover have "w' = w\<lparr>next_id := n, stock_items := items\<rparr>" by (simp add: w' w1)
    ultimately show ?thesis using len in_items fk by (auto simp: ids)
  qed
qed

lemma sort_key_fst_map: "distinct (map fst m) \<Longrightarrow> map_of (sort_key fst m) = map_of m" for m :: "('k :: linorder \<times> 'v) list"
  by (rule map_of_inject_set [THEN iffD2]) (simp_all add: distinct_map inj_on_def)

lemma bytes_string_bytes [simp]: "bytes_string (string_bytes s) = s"
  by (induction s) (simp_all add: bytes_string_def string_bytes_def)

lemma access_items [simp]:
  "inventory_access u s (w\<lparr>next_id := n, stock_items := items\<rparr>) = inventory_access u s w"
proof -
  let ?w = "w\<lparr>next_id := n, stock_items := items\<rparr>"
  have "UserIsPlatformAdmin u ?w = UserIsPlatformAdmin u w" "UserCanAccessStore u s ?w = UserCanAccessStore u s w" "stores ?w = stores w"
    by (simp_all add: UserIsPlatformAdmin_def UserCanAccessStore_def)
  then show ?thesis by (simp only: inventory_access_def require_store_access_def get_store_merchant_def)
qed

text \<open>
  C30. After an import, revealing any of its units, with a reason, succeeds and returns exactly the
  validated values of its row; the preview shown with it is their mask, and the reveal is on record.
\<close>

theorem import_reveal_roundtrip:
  assumes cipher: "gcm_ok (ins_Gcm svc)" "\<And>n. length (ins_Nonce svc n) = aeadNonceSize" and inv: "inventory_inv w"
    and run: "ImportItems svc u s p inp w = (Inr res, w1)" and k: "k < length (ii_Items inp)"
    and reason: "trim_space reason \<noteq> []" "length (trim_space reason) \<le> 500"
    and fresh: "id_gen w1 (next_id w1) \<notin> ra_ID ` set (stock_reveal_audits w1)"
  shows "\<exists>sch norm uh rv w2. GetActiveSchema s p w = Inr sch \<and> ValidateImportRow sch (ii_Items inp ! k) = Inr (norm, uh) \<and>
    RevealItem svc u s (ir_ItemIDs res ! k) reason mfa w1 = (Inr rv, w2) \<and> map_of (rv_Secrets rv) = map_of norm \<and>
    rv_Masked rv = MaskValues sch norm \<and>
    (\<exists>a\<in>set (stock_reveal_audits w2). ra_ID a = rv_AuditID rv \<and> ra_ActorUserID a = u \<and> ra_StockItemID a = ir_ItemIDs res ! k)"
proof -
  obtain st where acc: "inventory_access u s w = Inr st" using run by (cases "inventory_access u s w") (simp_all add: ImportItems_def)
  then have st: "fst st = s" by (auto simp: inventory_access_def require_store_access_Inr get_store_merchant_def split: option.splits)
  obtain secret where sec: "encryptionSecret svc = Inr secret" and tx: "import_tx svc secret u st p inp w = (Inr res, w1)"
    using run acc by (cases "requireProduct s p w"; cases "encryptionSecret svc") (auto simp: ImportItems_def split: if_splits)
  from tx obtain sch where sch: "GetActiveSchema s p w = Inr sch"
    and rows: "import_rows svc secret u st p sch (ii_Items inp) w = (Inr (ir_ItemIDs res), w1)"
    by (auto simp: import_tx_def st bindS_eq_Inr split: if_splits)
  from import_rows_Inr [OF rows] obtain n items where w1: "w1 = w\<lparr>next_id := n, stock_items := items\<rparr>"
    and each: "\<forall>k < length (ii_Items inp). \<exists>x\<in>set items. imported_as svc secret u st p sch (ii_Items inp ! k) (ir_ItemIDs res ! k) x"
    and fk: "ii_Items inp \<noteq> [] \<longrightarrow> p \<in> pr_ID ` set (products w) \<and> fst st \<in> fst ` set (stores w)" by blast
  from k have "ii_Items inp \<noteq> []" by auto
  with fk st have fk: "p \<in> pr_ID ` set (products w)" "s \<in> fst ` set (stores w)" by simp_all
  from each k obtain x where x: "x \<in> set items" "imported_as svc secret u st p sch (ii_Items inp ! k) (ir_ItemIDs res ! k) x"
    by blast
  let ?i = "ir_ItemIDs res ! k"
  from x(2) obtain norm uh keyVer ct m now where row: "ValidateImportRow sch (ii_Items inp ! k) = Inr (norm, uh)"
    and enc: "EncryptAEAD (ins_Gcm svc) (ins_Nonce svc m) secret (string_bytes (json_string_map norm)) = Inr (keyVer, ct)"
    and item: "x = new_item u st p sch now norm uh keyVer ct ?i" unfolding imported_as_def by blast
  have inv1: "inventory_inv w1" using keepsD [OF keeps_import run follows_start [OF inv]] by (simp add: follows_def)
  then have "distinct (map si_ID items)" by (simp add: inventory_inv_def stock_rows_def w1)
  then have "find (\<lambda>j. si_ID j = ?i \<and> si_StoreID j = s) items = Some x"
    by (rule find_only [OF _ x(1)]) (simp_all add: item new_item_def st)
  then have get: "item_of s ?i w1 = Inr x" by (simp add: item_of_def GetStockItemByID_def w1)
  have dec: "DecryptAEAD (ins_Gcm svc) secret ct = Inr (string_bytes (json_string_map norm))"
    using Decrypt_Encrypt(1) [OF cipher enc] .
  have parse: "json_parse_map (json_string_map norm) = Some (sort_key fst norm)"
    by (rule json_map_roundtrip [OF ValidateImportRow_distinct [OF row]])
  have fields: "si_Status x = StatusAvailable" "si_EncryptedPayload x = ct" "si_ID x = ?i" "si_StoreID x = s"
    "si_ProductID x = p" "si_MaskedPreview x = MaskValues sch norm" by (simp_all add: item new_item_def st)
  let ?audit = "\<lparr>ra_ID = id_gen w1 (next_id w1), ra_StockItemID = ?i, ra_StoreID = s, ra_ProductID = p, ra_ActorUserID = u,
    ra_Reason = trim_space reason, ra_MFAVerified = mfa, ra_PayloadHash = sha256 ct, ra_CreatedAt = clock w1\<rparr>"
  let ?w2 = "w1\<lparr>next_id := Suc (next_id w1), stock_reveal_audits := stock_reveal_audits w1 @ [?audit]\<rparr>"
  have "?i \<in> si_ID ` set items" using x(1) fields(3) by (metis image_eqI)
  then have ins: "InsertRevealAudit ?audit (w1\<lparr>next_id := Suc (next_id w1)\<rparr>) = (Inr (), ?w2)"
    unfolding InsertRevealAudit_def insert_Inr using reason fresh fk by (simp add: length_sha256 w1)
  let ?rv = "\<lparr>rv_ItemID = ?i, rv_ProductID = p, rv_SchemaVersion = si_SchemaVersion x, rv_Status = StatusAvailable,
    rv_Secrets = sort_key fst norm, rv_Masked = MaskValues sch norm, rv_AuditID = id_gen w1 (next_id w1)\<rparr>"
  have acc1: "inventory_access u s w1 = Inr st" using acc by (simp add: w1)
  have "RevealItem svc u s ?i reason mfa w1 = (Inr ?rv, ?w2)"
    using acc1 reason sec get dec parse ins
    by (simp add: RevealItem_def Let_def fields not_less or_internal_def bindS_def)
  moreover have "map_of (sort_key fst norm) = map_of norm"
    by (rule sort_key_fst_map [OF ValidateImportRow_distinct [OF row]])
  ultimately show ?thesis using sch row
    by (intro exI [of _ sch] exI [of _ norm] exI [of _ uh] exI [of _ ?rv] exI [of _ ?w2]) simp
qed

end
