(* ===== verification/Inventory_World.thy ===== *)
theory Inventory_World
  imports Inventory_Reveal
begin

text \<open>
  A store with one product, its schema of an e-mail address and a password, and one seller who
  imports one unit; then one checkout holds, gives back or receives it. The theorems on the inventory
  are applied along the way.
\<close>

definition demo_goods :: ProductRow where
  "demo_goods = \<lparr>pr_ID = ''pr_1'', pr_StoreID = ''st1'', pr_MerchantID = ''m1'', pr_Slug = ''akun'', pr_Title = ''Akun'',
     pr_PriceIDR = 50000, pr_Type = ''code'', pr_Status = ''published'', pr_Version = ''1.0.0'', pr_AllowPWYT = False,
     pr_MinimumPriceIDR = None, pr_ActiveSchemaVersion = Some 1, pr_CreatedAt = 0, pr_UpdatedAt = 0\<rparr>"

definition demo_market :: inventory_db where
  "demo_market = \<lparr>id_gen = (\<lambda>n. show_int (int n)), next_id = 0, clock = 1000, schema_meta = Map.empty,
     merchants = [''m1''], stores = [(''st1'', ''m1'')], fee_policies = [], fee_snapshots = [],
     journals = [], entries = [], lots = [], balances = Map.empty, source_balances = Map.empty,
     payment_settlements = Map.empty, bank_accounts = [], withdrawal_locks = [], withdrawal_quotes = [],
     withdrawals = [], allocations = [], payouts = [], products = [demo_goods],
     merchant_members = [\<lparr>mm_MerchantID = ''m1'', mm_UserID = ''u1'', mm_Status = ''ACTIVE''\<rparr>],
     user_roles = [], roles = [], coupons = [], coupon_scopes = [], coupon_reservations = [],
     coupon_redemptions = [], inventory_schemas = [demo_schema], stock_items = [], stock_reservations = [],
     stock_reveal_audits = []\<rparr>"

definition demo_service :: InventoryService where
  "demo_service = \<lparr>ins_EncryptionKey = ''secret'', ins_Gcm = plain_gcm, ins_Nonce = (\<lambda>n. replicate 12 7)\<rparr>"

definition demo_row :: go_map where
  "demo_row = [(''email'', ''a@b''), (''password'', ''hunter2'')]"

definition demo_import :: ImportItemsInput where
  "demo_import = \<lparr>ii_ExpectedSchemaVersion = 1, ii_Items = [demo_row]\<rparr>"

definition demo_secret :: string where
  "demo_secret = ''secret''"

definition demo_payload :: "int list" where
  "demo_payload = aeadVersionByte # replicate 12 7 @ gcm_Seal plain_gcm (sha256 (string_bytes demo_secret)) (replicate 12 7)
     (string_bytes (json_string_map demo_row))"

definition demo_unit :: StockItem where
  "demo_unit = new_item ''u1'' (''st1'', ''m1'') ''pr_1'' demo_schema 1000 demo_row
     (Some (sha256_hex ''email=a@b'')) KeyVersionV1 demo_payload ''0''"

definition demo_stocked :: inventory_db where
  "demo_stocked = demo_market\<lparr>next_id := 1, stock_items := [demo_unit]\<rparr>"

lemma demo_market_fields [simp]:
  "stock_items demo_market = []" "stock_reservations demo_market = []" "stock_reveal_audits demo_market = []"
  "products demo_market = [demo_goods]" "clock demo_market = 1000" "next_id demo_market = 0"
  "id_gen demo_market = (\<lambda>n. show_int (int n))" "stores demo_market = [(''st1'', ''m1'')]" "merchants demo_market = [''m1'']"
  "inventory_schemas demo_market = [demo_schema]"
  by (simp_all add: demo_market_def)

lemma demo_goods_fields [simp]: "pr_ID demo_goods = ''pr_1''" "pr_StoreID demo_goods = ''st1''"
  "pr_ActiveSchemaVersion demo_goods = Some 1"
  by (simp_all add: demo_goods_def)

lemma demo_schema_more [simp]: "sm_ProductID demo_schema = ''pr_1''" "sm_Version demo_schema = 1"
  by (simp_all add: demo_schema_def)

lemma demo_unit_fields [simp]: "si_ID demo_unit = ''0''" "si_StoreID demo_unit = ''st1''" "si_ProductID demo_unit = ''pr_1''"
  "si_MerchantID demo_unit = ''m1''" "si_Status demo_unit = StatusAvailable" "si_CreatedAt demo_unit = 1000"
  "si_SchemaVersion demo_unit = 1" "si_EncryptedPayload demo_unit = demo_payload"
  by (simp_all add: demo_unit_def new_item_def)

lemma demo_numbers: "show_int 0 = ''0''" "show_int 1 = ''1''" "trim_space ''secret'' = ''secret''" "trim_space ''k1'' = ''k1''"
  "trim_space ''support'' = ''support''"
  by code_simp+

lemma demo_market_inv: "inventory_inv demo_market"
  by (simp add: inventory_inv_def stock_rows_def stock_abs_def units_def holds_def stock_sound_def)

lemma demo_access: "inventory_access ''u1'' ''st1'' demo_market = Inr (''st1'', ''m1'')"
  by (simp add: inventory_access_def require_store_access_Inr get_store_merchant_def UserCanAccessStore_def demo_market_def)

lemma demo_validates: "ValidateImportRow demo_schema demo_row = Inr (demo_row, Some (sha256_hex ''email=a@b''))"
proof -
  have "import_fields (sm_Fields demo_schema) demo_row [] [] = Inr (demo_row, [''email=a@b''])" by code_simp
  moreover have "find (\<lambda>(k, v). NormalizeFieldKey k \<notin> fd_Key ` set (sm_Fields demo_schema)) demo_row = None" by code_simp
  ultimately show ?thesis by (simp add: ValidateImportRow_def)
qed

lemma demo_imports: "ImportItems demo_service ''u1'' ''st1'' ''pr_1'' demo_import demo_market =
  (Inr \<lparr>ir_Imported = 1, ir_ItemIDs = [''0'']\<rparr>, demo_stocked)"
proof -
  have prod: "requireProduct ''st1'' ''pr_1'' demo_market = Inr demo_goods"
    by (simp add: requireProduct_def get_product_def)
  have sch: "GetActiveSchema ''st1'' ''pr_1'' demo_market = Inr demo_schema"
    by (simp add: GetActiveSchema_def get_product_def GetSchemaByVersion_def)
  have sec: "encryptionSecret demo_service = Inr demo_secret"
    by (simp add: encryptionSecret_def demo_service_def demo_numbers demo_secret_def)
  have enc: "EncryptAEAD (ins_Gcm demo_service) (ins_Nonce demo_service 0) demo_secret (string_bytes (json_string_map demo_row)) =
      Inr (KeyVersionV1, demo_payload)"
    by (simp add: EncryptAEAD_def DeriveKey32_def demo_service_def demo_payload_def demo_numbers demo_secret_def)
  have ins: "InsertStockItem demo_unit (demo_market\<lparr>next_id := Suc 0\<rparr>) = (Inr (), demo_stocked)"
    unfolding InsertStockItem_Inr by (simp add: item_check_def demo_stocked_def demo_payload_def)
  have unit: "new_item ''u1'' (''st1'', ''m1'') ''pr_1'' demo_schema 1000 demo_row
     (Some (sha256_hex ''email=a@b'')) KeyVersionV1 demo_payload ''0'' = demo_unit" by (simp add: demo_unit_def)
  have "import_row demo_service demo_secret ''u1'' (''st1'', ''m1'') ''pr_1'' demo_schema demo_row demo_market = (Inr ''0'', demo_stocked)"
    using ins by (simp add: import_row_def demo_validates enc demo_numbers unit bindS_def try_op_def)
  then have "import_tx demo_service demo_secret ''u1'' (''st1'', ''m1'') ''pr_1'' demo_import demo_market =
      (Inr \<lparr>ir_Imported = 1, ir_ItemIDs = [''0'']\<rparr>, demo_stocked)"
    by (simp add: import_tx_def sch demo_import_def lookup_or_def)
  then show ?thesis
    using demo_access prod sec by (simp add: ImportItems_def demo_import_def maxImportBatch_def)
qed

lemma demo_stocked_inv: "inventory_inv demo_stocked"
  using keepsD [OF keeps_import demo_imports follows_start [OF demo_market_inv]] by (simp add: follows_def)

theorem import_reveal_roundtrip_witness:
  "\<exists>rv w2. RevealItem demo_service ''u1'' ''st1'' ''0'' ''support'' True demo_stocked = (Inr rv, w2) \<and>
     map_of (rv_Secrets rv) = map_of demo_row"
proof -
  have cipher: "gcm_ok (ins_Gcm demo_service)" "length (ins_Nonce demo_service n) = aeadNonceSize" for n
    by (simp_all add: demo_service_def plain_gcm_ok aeadNonceSize_def)
  have "GetActiveSchema ''st1'' ''pr_1'' demo_market = Inr demo_schema"
    by (simp add: GetActiveSchema_def get_product_def GetSchemaByVersion_def)
  moreover have "0 < length (ii_Items demo_import)" "ii_Items demo_import ! 0 = demo_row" by (simp_all add: demo_import_def)
  moreover have "trim_space ''support'' \<noteq> []" "length (trim_space ''support'') \<le> 500" by (simp_all add: demo_numbers)
  moreover have "id_gen demo_stocked (next_id demo_stocked) \<notin> ra_ID ` set (stock_reveal_audits demo_stocked)"
    by (simp add: demo_stocked_def)
  ultimately show ?thesis
    using import_reveal_roundtrip [OF cipher demo_market_inv demo_imports, of 0 "''support''" True] demo_validates
    by (auto simp: demo_numbers)
qed

subsection \<open>One checkout\<close>

definition demo_checkout :: ReserveStockRequest where
  "demo_checkout = \<lparr>sq_StoreID = ''st1'', sq_ProductID = ''pr_1'', sq_OrderID = ''ord_1'', sq_CheckoutID = '''',
     sq_IdempotencyKey = ''k1'', sq_TTL = 0\<rparr>"

lemma demo_stocked_fields [simp]:
  "stock_items demo_stocked = [demo_unit]" "stock_reservations demo_stocked = []" "clock demo_stocked = 1000"
  "products demo_stocked = [demo_goods]" "stores demo_stocked = [(''st1'', ''m1'')]" "merchants demo_stocked = [''m1'']"
  "next_id demo_stocked = 1" "id_gen demo_stocked = (\<lambda>n. show_int (int n))"
  by (simp_all add: demo_stocked_def)

lemma demo_complete: "complete_stock_request demo_checkout"
  by (simp add: complete_stock_request_def demo_checkout_def demo_numbers)

lemma demo_new_key: "GetStockReservationByIdempotency (sq_ProductID demo_checkout) (sq_IdempotencyKey demo_checkout) demo_stocked = Inl ErrNoRows"
  by (simp add: GetStockReservationByIdempotency_def)

lemma demo_claim: "ClaimAvailableStockItem (sq_StoreID demo_checkout) (sq_ProductID demo_checkout) demo_stocked = Inr demo_unit"
  by (simp add: ClaimAvailableStockItem_def items_of_def demo_checkout_def)

lemma demo_keys: "sq_ProductID demo_checkout \<in> pr_ID ` set (products demo_stocked)"
  "sq_StoreID demo_checkout \<in> fst ` set (stores demo_stocked)"
  "si_MerchantID ` set (stock_items demo_stocked) \<subseteq> set (merchants demo_stocked)"
  "id_gen demo_stocked (next_id demo_stocked) \<notin> sr_ID ` set (stock_reservations demo_stocked)"
  by (simp_all add: demo_checkout_def)

definition demo_stock_hold :: StockReservation where
  "demo_stock_hold = new_stock_reservation demo_checkout demo_unit ''1'' DefaultStockReservationTTL 1000"

definition demo_stock_held :: inventory_db where
  "demo_stock_held = hold_granted demo_checkout demo_unit demo_stocked"

lemma demo_holds_unit: "ReserveStock demo_checkout demo_stocked =
  (Inr \<lparr>sx_Reservation = demo_stock_hold, sx_Item = Some (no_payload (demo_unit\<lparr>si_Status := StatusReserved\<rparr>)),
     sx_Replayed = False\<rparr>, demo_stock_held)"
proof -
  have "stock_hold_time demo_checkout = DefaultStockReservationTTL" by (simp add: stock_hold_time_def demo_checkout_def)
  with ReserveStock_grants [OF demo_stocked_inv demo_complete demo_new_key demo_keys(4,1,2,3) demo_claim] show ?thesis
    by (simp add: demo_stock_held_def demo_stock_hold_def demo_numbers)
qed

lemma demo_stock_held_inv: "inventory_inv demo_stock_held"
  using keepsD [OF keeps_reserve demo_holds_unit follows_start [OF demo_stocked_inv]] by (simp add: follows_def)

theorem ReserveStock_outcome_witness:
  "fst (stock_abs demo_stock_held) ''0'' = Some StatusReserved"
  using ReserveStock_outcome [OF demo_stocked_inv demo_complete demo_new_key demo_keys(4,1,2,3)]
  by (auto simp: demo_claim demo_holds_unit)

theorem stock_hold_roundtrip_witness:
  "\<exists>r w2. ReleaseStock ''1'' demo_stock_held = (Inr r, w2) \<and> fst (stock_abs w2) = fst (stock_abs demo_stocked)"
proof -
  have "sr_ID demo_stock_hold = ''1''" by (simp add: demo_stock_hold_def new_stock_reservation_def)
  with stock_hold_roundtrip [OF demo_stocked_inv demo_holds_unit] show ?thesis by auto
qed


subsection \<open>What follows the hold\<close>

lemma demo_held_rows [simp]:
  "stock_items demo_stock_held = [item_moved StatusReserved 1000 demo_unit]"
  "stock_reservations demo_stock_held = [demo_stock_hold]" "clock demo_stock_held = 1000"
  by (simp_all add: demo_stock_held_def hold_granted_def move_item_def demo_stock_hold_def demo_numbers
      stock_hold_time_def demo_checkout_def)

lemma demo_stock_hold_fields [simp]: "sr_ID demo_stock_hold = ''1''" "sr_Status demo_stock_hold = StockReserved"
  "sr_StockItemID demo_stock_hold = ''0''" "sr_StoreID demo_stock_hold = ''st1''"
  by (simp_all add: demo_stock_hold_def new_stock_reservation_def demo_checkout_def)

lemma item_moved_ids [simp]: "si_ID (item_moved to at i) = si_ID i" "si_StoreID (item_moved to at i) = si_StoreID i"
  "si_Status (item_moved to at i) = to"
  by (simp_all add: item_moved_def)

lemma demo_hold_step: "inventory_step\<^sup>*\<^sup>* demo_stocked demo_stock_held"
  by (rule r_into_rtranclp, rule inventory_step.reserve [OF demo_holds_unit])

lemma later_stock: "inventory_step\<^sup>*\<^sup>* w (w\<lparr>clock := t\<rparr>)"
  using inventory_step.tick by (rule r_into_rtranclp)

theorem inventory_refines_stock_witness:
  "stock_move\<^sup>*\<^sup>* (stock_abs demo_stocked) (stock_abs demo_stock_held)"
  using inventory_refines_stock [OF demo_stocked_inv demo_hold_step] by (rule conjunct1)

theorem never_sold_twice_witness:
  "{r \<in> set (stock_reservations demo_stock_held). stock_live r \<and> sr_StockItemID r = ''0''} = {demo_stock_hold}"
proof -
  have "item_moved StatusReserved 1000 demo_unit \<in> set (stock_items demo_stock_held)" by simp
  note t = never_sold_twice [OF demo_stocked_inv demo_hold_step this, THEN conjunct1]
  have "stock_live demo_stock_hold" by (simp add: stock_live_def)
  with t show ?thesis by auto
qed

lemma demo_delivers:
  "\<exists>item. AllocateOnFulfillment ''1'' demo_stock_held =
    (Inr (stock_moved StockDelivered 1000 demo_stock_hold, item), delivered_world demo_stock_hold demo_stock_held)"
proof -
  have r: "demo_stock_hold \<in> set (stock_reservations demo_stock_held)" by simp
  have h: "holding (sr_Status demo_stock_hold)" by (simp add: holding_def)
  have u: "units (stock_items demo_stock_held) (sr_StockItemID demo_stock_hold) = Some StatusReserved"
    by (simp add: units_def)
  show ?thesis using deliver_holding [OF demo_stock_held_inv r h u] by auto
qed

theorem delivery_is_final_witness:
  "\<exists>w. (\<exists>x. AllocateOnFulfillment ''1'' demo_stock_held = (Inr x, w)) \<and>
    ReleaseStock ''1'' (w\<lparr>clock := 9000\<rparr>) = (Inl ErrStockReservationState, w\<lparr>clock := 9000\<rparr>)"
proof -
  from demo_delivers obtain item where run: "AllocateOnFulfillment ''1'' demo_stock_held =
    (Inr (stock_moved StockDelivered 1000 demo_stock_hold, item), delivered_world demo_stock_hold demo_stock_held)" ..
  from delivery_is_final [OF demo_stock_held_inv run later_stock, of 9000]
  have "ReleaseStock ''1'' ((delivered_world demo_stock_hold demo_stock_held)\<lparr>clock := 9000\<rparr>) =
    (Inl ErrStockReservationState, (delivered_world demo_stock_hold demo_stock_held)\<lparr>clock := 9000\<rparr>)" by blast
  with run show ?thesis by blast
qed

lemma demo_revokes: "\<exists>it w1. RevokeItem ''u1'' ''st1'' ''0'' demo_stock_held = (Inr it, w1)"
proof -
  have acc: "inventory_access ''u1'' ''st1'' demo_stock_held = Inr (''st1'', ''m1'')"
    by (simp add: inventory_access_def require_store_access_Inr get_store_merchant_def UserCanAccessStore_def
        demo_stock_held_def hold_granted_def demo_stocked_def demo_market_def)
  have item: "item_of ''st1'' ''0'' demo_stock_held = Inr (item_moved StatusReserved 1000 demo_unit)"
    by (simp add: item_of_def GetStockItemByID_def)
  have rows: "stock_rows (stock_items demo_stock_held) (stock_reservations demo_stock_held)"
    using demo_stock_held_inv unfolding inventory_inv_def by (rule conjunct1)
  have mem: "item_moved StatusReserved 1000 demo_unit \<in> set (stock_items demo_stock_held)" by simp
  have "UpdateStockItemStatus ''0'' StatusReserved StatusRevoked 1000 demo_stock_held = (Inr True,
      demo_stock_held\<lparr>stock_items := move_item ''0'' StatusReserved StatusRevoked 1000 (stock_items demo_stock_held)\<rparr>)"
    using UpdateItem_succeeds [OF rows mem, of StatusRevoked 1000] by simp
  with acc item show ?thesis by (simp add: RevokeItem_def or_internal_def bindS_def)
qed


end
