(* ===== verification/Json_Value.thy ===== *)
theory Json_Value
  imports Json_Text
begin

text \<open>
  \<open>json.Unmarshal\<close> into a \<open>map[string]any\<close>, the conversions of a JSON number to \<open>float64\<close> and
  of a \<open>float64\<close> to \<open>int64\<close>, and \<open>fmt.Sscan\<close> into an \<open>int64\<close>: what the payment envelopes use
  of the standard library. The decoder limits the nesting to 10,000 levels (\<open>maxNestingDepth\<close>), which
  is the argument \<open>d\<close> below; the argument \<open>n\<close> only makes the recursion structural, and
  \<open>json_fuel_enough\<close> shows that the amount \<open>json_parse\<close> starts with does not cut anything off.
\<close>

subsection \<open>Numbers\<close>

text \<open>A literal is its sign, the digits before and after the point, and the exponent.\<close>

record json_literal =
  jl_Negative :: bool
  jl_Digits :: nat
  jl_Exponent :: int

definition digits_nat :: "string \<Rightarrow> nat" where
  "digits_nat s = foldl (\<lambda>a c. a * 10 + (of_char c - 48)) 0 s"

text \<open>At least one digit, and then the text after the digits.\<close>

definition take_digits :: "string \<Rightarrow> (string \<times> string) option" where
  "take_digits s = (let ds = takeWhile is_digit s in if ds = [] then None else Some (ds, dropWhile is_digit s))"

definition json_int_part :: "string \<Rightarrow> (string \<times> string) option" where
  "json_int_part s = (case s of c # cs \<Rightarrow> if c = CHR ''0'' then Some (''0'', cs) else take_digits s | [] \<Rightarrow> None)"

definition json_fraction :: "string \<Rightarrow> (string \<times> string) option" where
  "json_fraction s = (case s of c # cs \<Rightarrow> if c = CHR ''.'' then take_digits cs else Some ([], s) | [] \<Rightarrow> Some ([], s))"

definition json_exponent :: "string \<Rightarrow> (int \<times> string) option" where
  "json_exponent s = (case s of
     c # cs \<Rightarrow> if c = CHR ''e'' \<or> c = CHR ''E'' then
         (let neg = (case cs of x # _ \<Rightarrow> x = CHR ''-'' | [] \<Rightarrow> False);
              rest = (case cs of x # xs \<Rightarrow> if x = CHR ''-'' \<or> x = CHR ''+'' then xs else cs | [] \<Rightarrow> cs)
          in map_option (\<lambda>(ds, r). (if neg then - int (digits_nat ds) else int (digits_nat ds), r)) (take_digits rest))
       else Some (0, s)
   | [] \<Rightarrow> Some (0, s))"

definition json_number :: "string \<Rightarrow> (json_literal \<times> string) option" where
  "json_number s =
    (let neg = (case s of c # _ \<Rightarrow> c = CHR ''-'' | [] \<Rightarrow> False) in
     Option.bind (json_int_part (if neg then tl s else s)) (\<lambda>(ds, s).
     Option.bind (json_fraction s) (\<lambda>(fs, s).
     Option.bind (json_exponent s) (\<lambda>(e, s).
     Some (\<lparr>jl_Negative = neg, jl_Digits = digits_nat (ds @ fs), jl_Exponent = e - int (length fs)\<rparr>, s)))))"

text \<open>
  \<open>strconv.ParseFloat\<close>: the nearest \<open>float64\<close>, ties to even, as a mantissa and a power of two; a
  value too large is an error.
\<close>

fun bit_count :: "nat \<Rightarrow> int" where
  "bit_count n = (if n = 0 then 0 else 1 + bit_count (n div 2))"

declare bit_count.simps [simp del]

definition half_even :: "nat \<Rightarrow> nat \<Rightarrow> nat" where
  "half_even p q = (let d = p div q; r = p mod q in
     if 2 * r < q \<or> (2 * r = q \<and> even d) then d else d + 1)"

record float64 =
  fl_Negative :: bool
  fl_Mantissa :: nat
  fl_Power :: int

definition scaled :: "nat \<Rightarrow> int \<Rightarrow> nat" where
  "scaled n e = n * 2 ^ nat e"

definition to_float64 :: "json_literal \<Rightarrow> float64 option" where
  "to_float64 l =
    (let p = jl_Digits l * 10 ^ nat (jl_Exponent l); q = 10 ^ nat (- jl_Exponent l) :: nat;
         k0 = bit_count p - bit_count q - 53;
         k1 = (if scaled p (- k0) div scaled q k0 < 2 ^ 52 then k0 - 1
               else if scaled p (- k0) div scaled q k0 \<ge> 2 ^ 53 then k0 + 1 else k0);
         k = max k1 (-1074);
         m = half_even (scaled p (- k)) (scaled q k)
     in if p \<noteq> 0 \<and> k + bit_count m > 1024 then None
        else Some \<lparr>fl_Negative = jl_Negative l, fl_Mantissa = (if p = 0 then 0 else m), fl_Power = (if p = 0 then 0 else k)\<rparr>)"

definition fl_magnitude :: "float64 \<Rightarrow> int" where
  "fl_magnitude f = int (scaled (fl_Mantissa f) (fl_Power f) div 2 ^ nat (- fl_Power f))"

text \<open>
  \<open>int64(t)\<close>: towards zero; outside the range the language leaves the result open, and the value
  here is the one of amd64.
\<close>

definition float_int64 :: "float64 \<Rightarrow> i64" where
  "float_int64 f = (let i = (if fl_Negative f then - fl_magnitude f else fl_magnitude f) in
     if in_i64 i then i else min_i64)"

text \<open>\<open>t == float64(int64(t))\<close>: the value is an integer that \<open>int64\<close> holds.\<close>

definition float_is_int64 :: "float64 \<Rightarrow> bool" where
  "float_is_int64 f \<longleftrightarrow> 2 ^ nat (- fl_Power f) dvd fl_Mantissa f \<and>
     in_i64 (if fl_Negative f then - fl_magnitude f else fl_magnitude f)"

subsection \<open>Values\<close>

datatype json =
    JNull
  | JBool bool
  | JNumber float64
  | JString string
  | JArray "json list"
  | JObject "(string \<times> json) list"

text \<open>
  A number too large for \<open>float64\<close> does not stop the decoder, but the call fails in the end, as it
  does for a syntax error; here both are \<open>None\<close>.
\<close>

definition json_atom :: "string \<Rightarrow> (json \<times> string) option" where
  "json_atom s =
    (if has_prefix ''null'' s then Some (JNull, drop 4 s)
     else if has_prefix ''true'' s then Some (JBool True, drop 4 s)
     else if has_prefix ''false'' s then Some (JBool False, drop 5 s)
     else Option.bind (json_number s) (\<lambda>(l, r). map_option (\<lambda>f. (JNumber f, r)) (to_float64 l)))"

fun json_val :: "nat \<Rightarrow> nat \<Rightarrow> string \<Rightarrow> (json \<times> string) option"
  and json_elems :: "nat \<Rightarrow> nat \<Rightarrow> string \<Rightarrow> (json list \<times> string) option"
  and json_fields :: "nat \<Rightarrow> nat \<Rightarrow> string \<Rightarrow> ((string \<times> json) list \<times> string) option" where
  "json_val 0 d s = None"
| "json_val (Suc n) d s = (case s of [] \<Rightarrow> None | c # cs \<Rightarrow>
     if c = chr_quote then map_option (\<lambda>(t, r). (JString t, r)) (json_chars cs)
     else if c = CHR ''['' then
       (if d = 0 then None
        else case json_expect (CHR '']'') cs of Some r \<Rightarrow> Some (JArray [], r)
          | None \<Rightarrow> map_option (\<lambda>(vs, r). (JArray vs, r)) (json_elems n (d - 1) (json_ws cs)))
     else if c = CHR ''{'' then
       (if d = 0 then None
        else case json_expect (CHR ''}'') cs of Some r \<Rightarrow> Some (JObject [], r)
          | None \<Rightarrow> map_option (\<lambda>(kvs, r). (JObject kvs, r)) (json_fields n (d - 1) cs))
     else json_atom s)"
| "json_elems 0 d s = None"
| "json_elems (Suc n) d s = (case json_val n d s of None \<Rightarrow> None
     | Some (v, r) \<Rightarrow> (case json_ws r of [] \<Rightarrow> None
        | c # r' \<Rightarrow> if c = CHR '']'' then Some ([v], r')
            else if c = CHR '','' then map_option (\<lambda>(vs, r). (v # vs, r)) (json_elems n d (json_ws r'))
            else None))"
| "json_fields 0 d s = None"
| "json_fields (Suc n) d s =
     (case Option.bind (json_expect chr_quote s) json_chars of None \<Rightarrow> None
      | Some (k, s1) \<Rightarrow> (case json_expect (CHR '':'') s1 of None \<Rightarrow> None
         | Some s2 \<Rightarrow> (case json_val n d (json_ws s2) of None \<Rightarrow> None
            | Some (v, r) \<Rightarrow> (case json_ws r of [] \<Rightarrow> None
               | c # r' \<Rightarrow> if c = CHR ''}'' then Some ([(k, v)], r')
                   else if c = CHR '','' then map_option (\<lambda>(kvs, r). ((k, v) # kvs, r)) (json_fields n d r')
                   else None))))"

definition maxNestingDepth :: nat where
  "maxNestingDepth = 10000"

definition json_fuel :: "string \<Rightarrow> nat" where
  "json_fuel s = 2 * length s + 1"

definition json_parse :: "string \<Rightarrow> json option" where
  "json_parse s = (case json_val (json_fuel s) maxNestingDepth (json_ws s) of
     Some (v, r) \<Rightarrow> if json_ws r = [] then Some v else None | None \<Rightarrow> None)"

text \<open>
  A \<open>map[string]any\<close> takes an object (a later duplicate of a key wins) or \<open>null\<close>; any other value
  is an error.
\<close>

definition json_parse_any_map :: "string \<Rightarrow> (string \<times> json) list option" where
  "json_parse_any_map s = (case json_parse s of
     Some (JObject kvs) \<Rightarrow> Some (fold (\<lambda>(k, v). map_set k v) kvs [])
   | Some JNull \<Rightarrow> Some [] | _ \<Rightarrow> None)"

subsection \<open>The fuel is enough\<close>

lemma take_digits_shrinks: "take_digits s = Some (ds, r) \<Longrightarrow> length r < length s"
proof -
  assume run: "take_digits s = Some (ds, r)"
  then obtain c cs where s: "s = c # cs" and "is_digit c"
    by (cases s) (auto simp: take_digits_def Let_def split: if_splits)
  moreover from this run have "r = dropWhile is_digit cs" by (auto simp: take_digits_def Let_def split: if_splits)
  ultimately show ?thesis by (simp add: length_dropWhile_le le_imp_less_Suc)
qed

lemma json_int_part_shrinks: "json_int_part s = Some (ds, r) \<Longrightarrow> length r < length s"
  by (auto simp: json_int_part_def split: list.splits if_splits dest: take_digits_shrinks)

lemma json_fraction_shrinks: "json_fraction s = Some (ds, r) \<Longrightarrow> length r \<le> length s"
  by (auto simp: json_fraction_def split: list.splits if_splits dest: take_digits_shrinks)

lemma json_exponent_shrinks: "json_exponent s = Some (e, r) \<Longrightarrow> length r \<le> length s"
  by (auto simp: json_exponent_def Let_def split: list.splits if_splits dest!: take_digits_shrinks)

lemma json_number_shrinks: "json_number s = Some (l, r) \<Longrightarrow> length r < length s"
proof -
  assume "json_number s = Some (l, r)"
  then obtain t ds s1 fs s2 e where run: "json_int_part t = Some (ds, s1)" "json_fraction s1 = Some (fs, s2)"
    "json_exponent s2 = Some (e, r)" and t: "t = s \<or> t = tl s"
    by (auto simp: json_number_def Let_def bind_eq_Some_conv split: if_splits)
  from json_int_part_shrinks [OF run(1)] json_fraction_shrinks [OF run(2)] json_exponent_shrinks [OF run(3)]
  have "length r < length t" by simp
  with t show ?thesis by auto
qed

lemma json_atom_shrinks:
  assumes "json_atom s = Some (v, r)"
  shows "length r < length s"
proof (cases "s = []")
  case True
  with assms show ?thesis by (simp add: json_atom_def json_number_def json_int_part_def)
next
  case False
  with assms show ?thesis
    by (auto simp: json_atom_def bind_eq_Some_conv split: if_splits dest: json_number_shrinks)
qed

lemma json_shrinks:
  "json_val n d s = Some (v, r) \<Longrightarrow> length r < length s"
  "json_elems n d s = Some (vs, r) \<Longrightarrow> length r < length s"
  "json_fields n d s = Some (kvs, r) \<Longrightarrow> length r < length s"
proof (induction n d s and n d s and n d s arbitrary: v r and vs r and kvs r rule: json_val_json_elems_json_fields.induct)
  case (2 n d s)
  then obtain c cs where s: "s = c # cs" by (cases s) auto
  have ws: "length (json_ws cs) \<le> length cs" by (rule json_ws_shrinks)
  show ?case
  proof (cases "c = chr_quote \<or> c = CHR ''['' \<or> c = CHR ''{''")
    case False
    with "2.prems" s have "json_atom s = Some (v, r)" by simp
    then show ?thesis by (rule json_atom_shrinks)
  next
    case True
    then consider "c = chr_quote" | "c = CHR ''[''" | "c = CHR ''{''" by blast
    then show ?thesis
    proof cases
      case 1
      with "2.prems" s show ?thesis by (auto dest: json_chars_shrinks)
    next
      case 2
      then have q: "c \<noteq> chr_quote" by simp
      note IH = "2.IH"(1) [OF s q 2]
      show ?thesis using "2.prems" s 2 q IH ws
        by (auto split: if_splits option.splits dest: json_expect_shrinks)
    next
      case 3
      then have q: "c \<noteq> chr_quote" "c \<noteq> CHR ''[''" by simp_all
      note IH = "2.IH"(2) [OF s q 3]
      show ?thesis using "2.prems" s 3 q IH
        by (auto split: if_splits option.splits dest: json_expect_shrinks)
    qed
  qed
next
  case (4 n d s)
  from "4.prems" obtain v r1 where v: "json_val n d s = Some (v, r1)" by (auto split: option.splits)
  from "4.IH"(1) [OF v] have "length r1 < length s" .
  with json_ws_shrinks [of r1] have r1: "length (json_ws r1) < length s" by simp
  from "4.prems" v obtain c r' where r': "json_ws r1 = c # r'" by (cases "json_ws r1") simp_all
  show ?case
  proof (cases "c = CHR '']''")
    case True
    with "4.prems" v r' r1 show ?thesis by simp
  next
    case False
    with "4.prems" v r' obtain vs' where e: "c = CHR '',''" "json_elems n d (json_ws r') = Some (vs', r)"
      by (auto split: if_splits)
    from "4.IH"(2) [OF v refl r' False e(1,2)] r1 r' json_ws_shrinks [of r'] show ?thesis by simp
  qed
next
  case (6 n d s)
  from "6.prems" obtain k s1 s2 where k: "Option.bind (json_expect chr_quote s) json_chars = Some (k, s1)"
    and s2: "json_expect (CHR '':'') s1 = Some s2" by (auto split: option.splits)
  from k have "length s1 < length s" by (auto simp: bind_eq_Some_conv dest!: json_expect_shrinks json_chars_shrinks)
  with json_expect_shrinks [OF s2] json_ws_shrinks [of s2] have l2: "length (json_ws s2) < length s" by simp
  from "6.prems" k s2 obtain v r1 where v: "json_val n d (json_ws s2) = Some (v, r1)" by (auto split: option.splits)
  from "6.IH"(1) [OF k refl s2 v] l2 json_ws_shrinks [of r1] have r1: "length (json_ws r1) < length s" by simp
  from "6.prems" k s2 v obtain c r' where r': "json_ws r1 = c # r'" by (cases "json_ws r1") simp_all
  show ?case
  proof (cases "c = CHR ''}''")
    case True
    with "6.prems" k s2 v r' r1 show ?thesis by simp
  next
    case False
    with "6.prems" k s2 v r' obtain kvs' where e: "c = CHR '',''" "json_fields n d r' = Some (kvs', r)"
      by (auto split: if_splits)
    from "6.IH"(2) [OF k refl s2 v refl r' False e(1,2)] r1 r' show ?thesis by simp
  qed
qed simp_all

definition fuel_free :: "string \<Rightarrow> bool" where
  "fuel_free s \<longleftrightarrow>
    (\<forall>n m d. 2 * length s + 1 \<le> n \<longrightarrow> 2 * length s + 1 \<le> m \<longrightarrow> json_val n d s = json_val m d s) \<and>
    (\<forall>n m d. 2 * length s + 2 \<le> n \<longrightarrow> 2 * length s + 2 \<le> m \<longrightarrow> json_elems n d s = json_elems m d s) \<and>
    (\<forall>n m d. 2 * length s + 2 \<le> n \<longrightarrow> 2 * length s + 2 \<le> m \<longrightarrow> json_fields n d s = json_fields m d s)"

lemma fuel_freeD:
  "fuel_free s \<Longrightarrow> 2 * length s + 1 \<le> n \<Longrightarrow> 2 * length s + 1 \<le> m \<Longrightarrow> json_val n d s = json_val m d s"
  "fuel_free s \<Longrightarrow> 2 * length s + 2 \<le> n \<Longrightarrow> 2 * length s + 2 \<le> m \<Longrightarrow> json_elems n d s = json_elems m d s"
  "fuel_free s \<Longrightarrow> 2 * length s + 2 \<le> n \<Longrightarrow> 2 * length s + 2 \<le> m \<Longrightarrow> json_fields n d s = json_fields m d s"
  unfolding fuel_free_def by blast+

lemma enough_for_val:
  assumes "\<And>t. length t < length s \<Longrightarrow> fuel_free t" and n: "2 * length s + 1 \<le> Suc n" and m: "2 * length s + 1 \<le> Suc m"
  shows "json_val (Suc n) d s = json_val (Suc m) d s"
proof (cases s)
  case (Cons c cs)
  have ws: "length (json_ws cs) \<le> length cs" by (rule json_ws_shrinks)
  then have "json_elems n (d - 1) (json_ws cs) = json_elems m (d - 1) (json_ws cs)"
    using n m by (intro fuel_freeD(2) assms(1)) (auto simp: Cons)
  moreover have "json_fields n (d - 1) cs = json_fields m (d - 1) cs"
    using n m by (intro fuel_freeD(3) assms(1)) (auto simp: Cons)
  ultimately show ?thesis by (simp add: Cons split: option.split)
qed simp

lemma enough_for_elems:
  assumes small: "\<And>t. length t < length s \<Longrightarrow> fuel_free t" and n: "2 * length s + 2 \<le> Suc n" and m: "2 * length s + 2 \<le> Suc m"
    and val: "json_val n d s = json_val m d s"
  shows "json_elems (Suc n) d s = json_elems (Suc m) d s"
proof (cases "json_val m d s")
  case (Some vr)
  obtain v r where vr: "vr = (v, r)" by (cases vr)
  have r: "length r < length s" using json_shrinks(1) Some vr by blast
  show ?thesis
  proof (cases "json_ws r")
    case (Cons c r')
    have "length (json_ws r') < length s" using json_ws_shrinks [of r] json_ws_shrinks [of r'] Cons r by simp
    then have "json_elems n d (json_ws r') = json_elems m d (json_ws r')"
      using n m by (intro fuel_freeD(2) small) auto
    with Cons Some vr val show ?thesis by simp
  qed (use Some vr val in simp)
qed (use val in simp)

lemma enough_for_fields:
  assumes small: "\<And>t. length t < length s \<Longrightarrow> fuel_free t" and n: "2 * length s + 2 \<le> Suc n" and m: "2 * length s + 2 \<le> Suc m"
  shows "json_fields (Suc n) d s = json_fields (Suc m) d s"
proof (cases "Option.bind (json_expect chr_quote s) json_chars")
  case (Some ks)
  obtain k s1 where ks: "ks = (k, s1)" by (cases ks)
  have l1: "length s1 < length s"
    using Some ks by (auto simp: bind_eq_Some_conv dest!: json_expect_shrinks json_chars_shrinks)
  show ?thesis
  proof (cases "json_expect (CHR '':'') s1")
    case s2: (Some s2)
    have l2: "length (json_ws s2) < length s"
      using json_expect_shrinks [OF s2] json_ws_shrinks [of s2] l1 by simp
    then have val: "json_val n d (json_ws s2) = json_val m d (json_ws s2)"
      using n m by (intro fuel_freeD(1) small) auto
    show ?thesis
    proof (cases "json_val m d (json_ws s2)")
      case v: (Some vr)
      obtain v r where vr: "vr = (v, r)" by (cases vr)
      have r: "length r < length s" using json_shrinks(1) v vr l2 by fastforce
      show ?thesis
      proof (cases "json_ws r")
        case (Cons c r')
        have "length r' < length s" using json_ws_shrinks [of r] Cons r by simp
        then have "json_fields n d r' = json_fields m d r'" using n m by (intro fuel_freeD(3) small) auto
        with Cons Some ks s2 v vr val show ?thesis by simp
      qed (use Some ks s2 v vr val in simp)
    qed (use Some ks s2 val in simp)
  qed (use Some ks in simp)
qed simp

lemma all_fuel_free: "fuel_free s"
proof (induction s rule: measure_induct_rule [of length])
  case (less s)
  have val: "json_val n d s = json_val m d s" if nm: "2 * length s + 1 \<le> n" "2 * length s + 1 \<le> m" for n m d
  proof -
    obtain n' m' where "n = Suc n'" "m = Suc m'" using nm by (cases n; cases m) auto
    with enough_for_val [OF less, of s n' m' d] nm show ?thesis by simp
  qed
  have elems: "json_elems n d s = json_elems m d s" if nm: "2 * length s + 2 \<le> n" "2 * length s + 2 \<le> m" for n m d
  proof -
    obtain n' m' where "n = Suc n'" "m = Suc m'" using nm by (cases n; cases m) auto
    with enough_for_elems [OF less, of s n' m' d] val [of n' m' d] nm show ?thesis by simp
  qed
  have fields: "json_fields n d s = json_fields m d s" if nm: "2 * length s + 2 \<le> n" "2 * length s + 2 \<le> m" for n m d
  proof -
    obtain n' m' where "n = Suc n'" "m = Suc m'" using nm by (cases n; cases m) auto
    with enough_for_fields [OF less, of s n' m' d] nm show ?thesis by simp
  qed
  show ?case unfolding fuel_free_def by (intro conjI allI impI) (rule val elems fields; assumption)+
qed

lemma json_fuel_enough: "json_fuel s \<le> n \<Longrightarrow> json_val n d s = json_val (json_fuel s) d s"
  by (rule fuel_freeD(1) [OF all_fuel_free]) (simp_all add: json_fuel_def)

end
