(* ===== verification/Md5.thy ===== *)
theory Md5
  imports Digest
begin

text \<open>
  MD5 (RFC 1321), which the callbacks of one payment provider are signed with: what the code uses of
  \<open>crypto/md5\<close>. Words are integers from 0 to \<open>2 ^ 32 - 1\<close>, read from the bytes little-endian.
\<close>

unbundle bit_operations_syntax

definition md5_k :: "int list" where
  "md5_k =
    [3614090360, 3905402710, 606105819, 3250441966, 4118548399, 1200080426, 2821735955, 4249261313,
     1770035416, 2336552879, 4294925233, 2304563134, 1804603682, 4254626195, 2792965006, 1236535329,
     4129170786, 3225465664, 643717713, 3921069994, 3593408605, 38016083, 3634488961, 3889429448,
     568446438, 3275163606, 4107603335, 1163531501, 2850285829, 4243563512, 1735328473, 2368359562,
     4294588738, 2272392833, 1839030562, 4259657740, 2763975236, 1272893353, 4139469664, 3200236656,
     681279174, 3936430074, 3572445317, 76029189, 3654602809, 3873151461, 530742520, 3299628645,
     4096336452, 1126891415, 2878612391, 4237533241, 1700485571, 2399980690, 4293915773, 2240044497,
     1873313359, 4264355552, 2734768916, 1309151649, 4149444226, 3174756917, 718787259, 3951481745]"

definition md5_s :: "nat list" where
  "md5_s = concat (replicate 4 [7, 12, 17, 22]) @ concat (replicate 4 [5, 9, 14, 20]) @
     concat (replicate 4 [4, 11, 16, 23]) @ concat (replicate 4 [6, 10, 15, 21])"

definition rotl32 :: "nat \<Rightarrow> int \<Rightarrow> int" where
  "rotl32 n x = (x * 2 ^ n) mod two32 + x div 2 ^ (32 - n)"

definition not32 :: "int \<Rightarrow> int" where
  "not32 x = 4294967295 - x"

text \<open>The mixing function of step \<open>i\<close> and the word of the block it uses.\<close>

definition md5_mix :: "nat \<Rightarrow> int \<Rightarrow> int \<Rightarrow> int \<Rightarrow> int" where
  "md5_mix i b c d =
    (if i < 16 then (b AND c) OR (not32 b AND d)
     else if i < 32 then (d AND b) OR (not32 d AND c)
     else if i < 48 then (b XOR c) XOR d
     else c XOR (b OR not32 d))"

definition md5_word :: "nat \<Rightarrow> nat" where
  "md5_word i =
    (if i < 16 then i else if i < 32 then (5 * i + 1) mod 16
     else if i < 48 then (3 * i + 5) mod 16 else (7 * i) mod 16)"

type_synonym md5_state = "int \<times> int \<times> int \<times> int"

fun md5_steps :: "int list \<Rightarrow> (nat \<times> int \<times> nat) list \<Rightarrow> md5_state \<Rightarrow> md5_state" where
  "md5_steps ws [] st = st"
| "md5_steps ws ((i, k, s) # steps) (a, b, c, d) =
     md5_steps ws steps
       (d, add32 b (rotl32 s (add32 (add32 a (md5_mix i b c d)) (add32 k (ws ! md5_word i)))), b, c)"

fun le_words :: "int list \<Rightarrow> int list" where
  "le_words (a # b # c # d # rest) = (((d * 256 + c) * 256 + b) * 256 + a) # le_words rest"
| "le_words _ = []"

definition le_bytes :: "nat \<Rightarrow> int \<Rightarrow> int list" where
  "le_bytes n x = rev (be_bytes n x)"

definition md5_block :: "md5_state \<Rightarrow> int list \<Rightarrow> md5_state" where
  "md5_block st block =
    (case (st, md5_steps (le_words block) (zip [0..<64] (zip md5_k md5_s)) st) of
       ((a, b, c, d), (a', b', c', d')) \<Rightarrow> (add32 a a', add32 b b', add32 c c', add32 d d'))"

fun md5_blocks :: "nat \<Rightarrow> md5_state \<Rightarrow> int list \<Rightarrow> md5_state" where
  "md5_blocks 0 st m = st"
| "md5_blocks (Suc n) st m = md5_blocks n (md5_block st (take 64 m)) (drop 64 m)"

definition md5_pad :: "int list \<Rightarrow> int list" where
  "md5_pad m = m @ [128] @ replicate ((119 - length m mod 64) mod 64) 0 @ le_bytes 8 (8 * int (length m))"

definition md5 :: "int list \<Rightarrow> int list" where
  "md5 m = (let p = md5_pad m in
     case md5_blocks (length p div 64) (1732584193, 4023233417, 2562383102, 271733878) p of
       (a, b, c, d) \<Rightarrow> le_bytes 4 a @ le_bytes 4 b @ le_bytes 4 c @ le_bytes 4 d)"

text \<open>\<open>hex.EncodeToString(md5.Sum([]byte(s)))\<close>\<close>

definition md5_hex :: "string \<Rightarrow> string" where
  "md5_hex s = hex_encode (md5 (string_bytes s))"

text \<open>The test vectors of RFC 1321 for the empty text and for \<open>abc\<close>.\<close>

lemma md5_vectors: "md5_hex [] = ''d41d8cd98f00b204e9800998ecf8427e''" "md5_hex ''abc'' = ''900150983cd24fb0d6963f7d28e17f72''"
  by code_simp+

end
