(* ===== verification/Payments.thy ===== *)
theory Payments
  imports Digest Shop_Store
begin

text \<open>
  The payments domain (\<open>internal/domain/payments\<close>: \<open>types.go\<close>, \<open>sm.go\<close>, \<open>callback.go\<close>,
  \<open>errors.go\<close>) and the order rows (\<open>internal/domain/orders/types.go\<close>): payment intents and their
  status machine, provider events, settlements, and the keys that make a provider event unique.
\<close>

subsection \<open>Constants\<close>

abbreviation "ProviderXendit \<equiv> ''XENDIT''"
abbreviation "ProviderDuitku \<equiv> ''DUITKU''"
abbreviation "AccountScopePrimary \<equiv> ''xendit-primary''"
abbreviation "AccountScopeDuitkuPrimary \<equiv> ''duitku-primary''"

abbreviation "IntentRequiresPayment \<equiv> ''REQUIRES_PAYMENT''"
abbreviation "IntentPending \<equiv> ''PENDING''"
abbreviation "IntentCancelPending \<equiv> ''CANCEL_PENDING''"
abbreviation "IntentExpirePending \<equiv> ''EXPIRE_PENDING''"
abbreviation "IntentUnknownOutcome \<equiv> ''UNKNOWN_OUTCOME''"
abbreviation "IntentPaid \<equiv> ''PAID''"
abbreviation "IntentFailed \<equiv> ''FAILED''"
abbreviation "IntentExpired \<equiv> ''EXPIRED''"
abbreviation "IntentCancelled \<equiv> ''CANCELLED''"

abbreviation "FinancialNormal \<equiv> ''NORMAL''"
abbreviation "FinancialProviderReversalHeld \<equiv> ''PROVIDER_REVERSAL_HELD''"
abbreviation "FinancialProviderReversalConf \<equiv> ''PROVIDER_REVERSAL_CONFIRMED''"

abbreviation "OrderCreated \<equiv> ''CREATED''"
abbreviation "OrderPendingPayment \<equiv> ''PENDING_PAYMENT''"
abbreviation "OrderPaid \<equiv> ''PAID''"
abbreviation "OrderFulfilling \<equiv> ''FULFILLING''"
abbreviation "OrderFulfilled \<equiv> ''FULFILLED''"
abbreviation "OrderDeliveryFailed \<equiv> ''DELIVERY_FAILED''"
abbreviation "OrderFailed \<equiv> ''FAILED''"
abbreviation "OrderExpired \<equiv> ''EXPIRED''"
abbreviation "OrderCancelled \<equiv> ''CANCELLED''"

abbreviation "PaymentUnpaid \<equiv> ''UNPAID''"
abbreviation "PaymentPending \<equiv> ''PENDING''"
abbreviation "PaymentPaid \<equiv> ''PAID''"
abbreviation "PaymentFailed \<equiv> ''FAILED''"
abbreviation "PaymentExpired \<equiv> ''EXPIRED''"
abbreviation "PaymentCancelled \<equiv> ''CANCELLED''"

abbreviation "CallbackAccepted \<equiv> ''ACCEPTED''"
abbreviation "CallbackProcessing \<equiv> ''PROCESSING''"
abbreviation "CallbackProcessed \<equiv> ''PROCESSED''"
abbreviation "CallbackFailed \<equiv> ''FAILED''"
abbreviation "CallbackQuarantined \<equiv> ''QUARANTINED''"

abbreviation "NormalizedPaid \<equiv> ''PAID''"
abbreviation "NormalizedExpired \<equiv> ''EXPIRED''"
abbreviation "NormalizedCancelled \<equiv> ''CANCELLED''"
abbreviation "NormalizedFailed \<equiv> ''FAILED''"
abbreviation "NormalizedPending \<equiv> ''PENDING''"
abbreviation "NormalizedUnknown \<equiv> ''UNKNOWN''"
abbreviation "NormalizedReversal \<equiv> ''REVERSAL''"

subsection \<open>Payment intents\<close>

text \<open>The snapshots are JSON texts.\<close>

record Intent =
  it_ID :: string
  it_OrderID :: string
  it_StoreID :: string
  it_MerchantID :: string
  it_PaymentMode :: string
  it_Source :: string
  it_Provider :: string
  it_AccountScope :: string
  it_ProviderReference :: "string option"
  it_ExternalID :: string
  it_AmountIDR :: i64
  it_Currency :: string
  it_FeeSnapshotID :: "string option"
  it_CouponReservationID :: "string option"
  it_StockReservationID :: "string option"
  it_Status :: string
  it_ProviderFinancialState :: string
  it_QRString :: "string option"
  it_QRImageURL :: "string option"
  it_ExpiresAt :: time
  it_CancelRequestedAt :: "time option"
  it_ExpireRequestedAt :: "time option"
  it_CancelReason :: "string option"
  it_ExpireReason :: "string option"
  it_UnknownOperation :: "string option"
  it_LookupScheduledAt :: "time option"
  it_LookupAttempts :: int
  it_PaidLate :: bool
  it_PrecedingStatus :: "string option"
  it_BuyerUserID :: "string option"
  it_BuyerEmail :: string
  it_BuyerSessionID :: "string option"
  it_PublicTokenHash :: "string option"
  it_IdempotencyKeyHash :: string
  it_RequestHash :: string
  it_ProductSnapshot :: string
  it_PriceSnapshot :: string
  it_MerchantReference :: "string option"
  it_Description :: string
  it_SuccessURL :: "string option"
  it_FailureURL :: "string option"
  it_WebhookEndpointID :: "string option"
  it_WebhookConfigVersion :: "int option"
  it_Metadata :: string
  it_Version :: int
  it_CreatedAt :: time
  it_UpdatedAt :: time

definition CanRequestCancel :: "Intent \<Rightarrow> bool" where
  "CanRequestCancel i \<longleftrightarrow> it_Status i \<in> {IntentRequiresPayment, IntentPending, IntentUnknownOutcome, IntentCancelPending}"

definition IsTerminalUnpaid :: "Intent \<Rightarrow> bool" where
  "IsTerminalUnpaid i \<longleftrightarrow> it_Status i \<in> {IntentFailed, IntentExpired, IntentCancelled}"

definition IsPaid :: "Intent \<Rightarrow> bool" where
  "IsPaid i \<longleftrightarrow> it_Status i = IntentPaid"

definition CanRequestExpire :: "Intent \<Rightarrow> bool" where
  "CanRequestExpire i \<longleftrightarrow> it_Status i \<in> {IntentRequiresPayment, IntentPending, IntentUnknownOutcome, IntentExpirePending}"

definition DefaultCheckoutTTL :: int where
  "DefaultCheckoutTTL = seconds 1800"

definition DefaultLookupDelay :: int where
  "DefaultLookupDelay = seconds 30"

definition ErrPaymentNotFound :: go_error where
  "ErrPaymentNotFound = apperr_not_found ''RESOURCE_NOT_FOUND'' ''Payment intent not found''"

definition ErrInvalidTransition :: go_error where
  "ErrInvalidTransition = PlainError ''invalid payment transition''"

definition ErrIdempotencyConflict :: go_error where
  "ErrIdempotencyConflict = apperr_conflict ''IDEMPOTENCY_CONFLICT'' ''Idempotency key conflict''"

definition ErrProductUnavailable :: go_error where
  "ErrProductUnavailable = apperr_not_found ''RESOURCE_NOT_FOUND'' ''Product not available''"

definition ErrPaymentAmount :: go_error where
  "ErrPaymentAmount = apperr_validation ''VALIDATION_FAILED'' ''Invalid payment amount''"

definition ErrCheckoutClosed :: go_error where
  "ErrCheckoutClosed = apperr_conflict ''CONFLICT'' ''Checkout is no longer pending''"

definition ErrSimulateDisabled :: go_error where
  "ErrSimulateDisabled = apperr_not_found ''RESOURCE_NOT_FOUND'' ''Not found''"

subsection \<open>The status machine\<close>

definition intent_allowed :: "string \<Rightarrow> string \<Rightarrow> bool" where
  "intent_allowed from to =
    (if from = IntentRequiresPayment then to \<in> {IntentPending, IntentPaid, IntentFailed, IntentExpirePending,
       IntentCancelPending, IntentUnknownOutcome}
     else if from = IntentPending then to \<in> {IntentPaid, IntentFailed, IntentCancelPending, IntentExpirePending,
       IntentUnknownOutcome}
     else if from = IntentCancelPending then to \<in> {IntentCancelled, IntentUnknownOutcome, IntentPaid}
     else if from = IntentExpirePending then to \<in> {IntentExpired, IntentUnknownOutcome, IntentPaid}
     else if from = IntentUnknownOutcome then to \<in> {IntentPending, IntentPaid, IntentFailed, IntentCancelled, IntentExpired}
     else if from \<in> {IntentFailed, IntentCancelled, IntentExpired} then to = IntentPaid
     else False)"

definition Transition :: "string \<Rightarrow> string \<Rightarrow> unit result" where
  "Transition from to =
    (if from = to then Inr ()
     else if \<not> intent_allowed from to then Inl (WrapError (from @ '' -> '' @ to) ErrInvalidTransition)
     else Inr ())"

definition MapProviderStatus :: "string \<Rightarrow> string" where
  "MapProviderStatus s =
    (if s \<in> {''PENDING'', ''ACTIVE'', ''REQUIRES_ACTION''} then IntentPending
     else if s \<in> {''PAID'', ''SUCCEEDED'', ''COMPLETED''} then IntentPaid
     else if s = ''EXPIRED'' then IntentExpired
     else if s \<in> {''CANCELLED'', ''CANCELED'', ''VOIDED''} then IntentCancelled
     else if s = ''FAILED'' then IntentFailed
     else IntentUnknownOutcome)"

interpretation payment_sm: status_machine "\<lambda>s t. Transition s t = Inr ()" "\<lambda>s. s = IntentPaid"
  by unfold_locales (simp_all add: Transition_def intent_allowed_def split: if_splits)

subsection \<open>Provider events and settlements\<close>

record ProviderEvent =
  ev_CallbackID :: string
  ev_Provider :: string
  ev_AccountScope :: string
  ev_PaymentMode :: string
  ev_ProviderEventID :: string
  ev_ReceivedAt :: time
  ev_NormalizedType :: "string option"
  ev_ProcessingState :: string
  ev_FailureCode :: "string option"
  ev_AttemptCount :: int
  ev_LeaseOwner :: "string option"
  ev_LeaseUntil :: "time option"
  ev_NextRetryAt :: "time option"
  ev_ProcessedAt :: "time option"
  ev_PaymentIntentID :: "string option"
  ev_PayloadDigest :: "string option"
  ev_EncryptedPayload :: string
  ev_RawEventType :: "string option"
  ev_ProviderReference :: "string option"
  ev_ExternalID :: "string option"
  ev_AmountIDR :: "i64 option"
  ev_Currency :: "string option"
  ev_MismatchCode :: "string option"
  ev_AlertCode :: "string option"
  ev_ReplayCount :: int
  ev_LastReplayAt :: "time option"
  ev_LastReplayReason :: "string option"
  ev_QuarantineReason :: "string option"
  ev_CreatedAt :: time
  ev_UpdatedAt :: time

record CallbackRejection =
  rj_ID :: string
  rj_Provider :: string
  rj_AccountScope :: "string option"
  rj_PaymentMode :: "string option"
  rj_Reason :: string
  rj_HTTPStatus :: int
  rj_ContentType :: "string option"
  rj_BodyBytes :: int
  rj_BodyDigest :: "string option"
  rj_ClientIP :: "string option"
  rj_RequestID :: "string option"
  rj_ReceivedAt :: time
  rj_CreatedAt :: time

record Settlement =
  st_ID :: string
  st_PaymentIntentID :: string
  st_OrderID :: string
  st_MerchantID :: string
  st_StoreID :: "string option"
  st_PaymentMode :: string
  st_Source :: string
  st_Provider :: string
  st_AccountScope :: string
  st_ProviderReference :: "string option"
  st_ProviderEventID :: "string option"
  st_JournalReference :: string
  st_GrossIDR :: i64
  st_FeeIDR :: i64
  st_MerchantNetIDR :: i64
  st_Currency :: string
  st_PaidLate :: bool
  st_PrecedingStatus :: "string option"
  st_Status :: string
  st_PostedAt :: time
  st_CreatedAt :: time

record NormalizedCallback =
  nc_ProviderEventID :: string
  nc_RawEventType :: string
  nc_NormalizedType :: string
  nc_ProviderReference :: string
  nc_ExternalID :: string
  nc_AmountIDR :: i64
  nc_Currency :: string
  nc_Status :: string

definition MaxCallbackBodyBytes :: nat where
  "MaxCallbackBodyBytes = 256 * 1024"

definition JournalReferencePaid :: "string \<Rightarrow> string" where
  "JournalReferencePaid paymentIntentID = ''PAYMENT_CAPTURE:'' @ paymentIntentID"

definition bars :: "string list \<Rightarrow> string" where
  "bars xs = (case xs of [] \<Rightarrow> [] | x # ys \<Rightarrow> x @ concat (map (\<lambda>y. ''|'' @ y) ys))"

definition FingerprintEventIDForProvider ::
    "string \<Rightarrow> string \<Rightarrow> string \<Rightarrow> string \<Rightarrow> string \<Rightarrow> string \<Rightarrow> string" where
  "FingerprintEventIDForProvider provider accountScope paymentMode providerRef rawType bodyDigest =
    (let p0 = to_lower (trim_space provider); p = (if p0 = [] then ''xendit'' else p0) in
     ''fp_'' @ hex_encode (take 16 (sha256 (string_bytes
       (bars [p, accountScope, paymentMode, providerRef, rawType, bodyDigest])))))"

definition FingerprintEventID :: "string \<Rightarrow> string \<Rightarrow> string \<Rightarrow> string \<Rightarrow> string \<Rightarrow> string" where
  "FingerprintEventID = FingerprintEventIDForProvider ProviderXendit"

definition DigestBody :: "string \<Rightarrow> string" where
  "DigestBody body = sha256_hex body"

definition CanonicalEventKey :: "string \<Rightarrow> string \<Rightarrow> string \<Rightarrow> string \<Rightarrow> string" where
  "CanonicalEventKey provider accountScope paymentMode providerEventID =
    bars [provider, accountScope, paymentMode, providerEventID]"

subsection \<open>Orders\<close>

text \<open>\<open>CheckoutOrder\<close> embeds \<open>orders.Order\<close>; its columns come after those of the order.\<close>

record Order =
  or_ID :: string
  or_OrderNumber :: string
  or_StoreID :: string
  or_MerchantID :: string
  or_BuyerUserID :: "string option"
  or_BuyerEmail :: string
  or_BuyerName :: string
  or_PaymentStatus :: string
  or_Source :: string
  or_Currency :: string
  or_SubtotalIDR :: i64
  or_DiscountIDR :: i64
  or_TipIDR :: i64
  or_FeeIDR :: i64
  or_GrossIDR :: i64
  or_MerchantNetIDR :: i64
  or_CouponCode :: "string option"
  or_CouponVersion :: "int option"
  or_PaidAt :: "time option"
  or_CreatedAt :: time
  or_UpdatedAt :: time

record CheckoutOrder = Order +
  or_OrderStatus :: string
  or_PaymentMode :: string
  or_FeeSnapshotID :: "string option"
  or_CouponReservationID :: "string option"
  or_PublicTokenHash :: "string option"
  or_BuyerSessionID :: "string option"
  or_ExpiresAt :: "time option"
  or_IdempotencyKeyHash :: "string option"

record OrderItem =
  oi_ID :: string
  oi_OrderID :: string
  oi_StoreID :: string
  oi_MerchantID :: string
  oi_ProductID :: string
  oi_ProductVersion :: string
  oi_ProductTitle :: string
  oi_ProductType :: string
  oi_UnitPriceIDR :: i64
  oi_Quantity :: int
  oi_LineSubtotalIDR :: i64
  oi_DiscountAllocationIDR :: i64
  oi_LineTotalIDR :: i64
  oi_DeliveryKind :: string
  oi_StockReservationID :: "string option"
  oi_StockItemID :: "string option"
  oi_ObjectID :: "string option"
  oi_CreatedAt :: time

definition order_is_paid :: "'a Order_scheme \<Rightarrow> bool" where
  "order_is_paid x \<longleftrightarrow> or_PaymentStatus x = PaymentPaid \<and> or_PaidAt x \<noteq> None"

end
