(* ===== verification/Payment_Envelopes.thy ===== *)
theory Payment_Envelopes
  imports Payments Json_Value
begin

text \<open>
  The callback bodies of the two payment providers (\<open>internal/domain/payments/xendit_envelope.go\<close> and
  \<open>duitku_envelope.go\<close>): which members are read, in which order of preference, and what their words
  mean. Go's formatting of a number that is not an integer, and of an array or object, is a parameter
  (\<open>sprint\<close>, which stands for \<open>fmt.Sprint\<close>).
\<close>

subsection \<open>Text\<close>

text \<open>\<open>strings.Contains(s, p)\<close>\<close>

fun contains :: "string \<Rightarrow> string \<Rightarrow> bool" where
  "contains [] p = (p = [])"
| "contains (c # cs) p = (has_prefix p (c # cs) \<or> contains cs p)"

text \<open>
  \<open>fmt.Sscan\<close> into an \<open>int64\<close>: leading space, a sign, and an integer in Go's syntax for literals (a
  prefix for the base, a leading zero for octal, single underscores between digits); what follows is
  not read.
\<close>

definition scans :: "nat \<Rightarrow> char \<Rightarrow> bool" where
  "scans base c \<longleftrightarrow> c = CHR ''_'' \<or> (case hex_val c of Some v \<Rightarrow> v < base | None \<Rightarrow> False)"

fun underscores_ok :: "bool \<Rightarrow> string \<Rightarrow> bool" where
  "underscores_ok digit [] = digit"
| "underscores_ok digit (c # cs) = (if c = CHR ''_'' then digit \<and> underscores_ok False cs else underscores_ok True cs)"

definition base_value :: "nat \<Rightarrow> string \<Rightarrow> int" where
  "base_value base s = foldl (\<lambda>a c. case hex_val c of Some v \<Rightarrow> a * int base + int v | None \<Rightarrow> a) 0 s"

definition scan_magnitude :: "string \<Rightarrow> int option" where
  "scan_magnitude s =
    (let (base, rest, prefixed) = (case s of
         c # cs \<Rightarrow> if c \<noteq> CHR ''0'' then (10, s, False)
           else (case cs of
               x # xs \<Rightarrow> if x \<in> {CHR ''b'', CHR ''B''} then (2, xs, False) else if x \<in> {CHR ''o'', CHR ''O''} then (8, xs, False)
                  else if x \<in> {CHR ''x'', CHR ''X''} then (16, xs, False) else (8, cs, True)
             | [] \<Rightarrow> (8, [], True))
       | [] \<Rightarrow> (10, [], False));
         tok = takeWhile (scans base) rest
     in if tok = [] then (if prefixed then Some 0 else None)
        else if \<not> underscores_ok (base \<noteq> 10) tok then None
        else Some (base_value base tok))"

definition go_sscan_int :: "string \<Rightarrow> int option" where
  "go_sscan_int s =
    (let t = dropWhile is_space s;
         neg = (case t of c # _ \<Rightarrow> c = CHR ''-'' | [] \<Rightarrow> False);
         u = (case t of c # cs \<Rightarrow> if c = CHR ''-'' \<or> c = CHR ''+'' then cs else t | [] \<Rightarrow> [])
     in case scan_magnitude u of None \<Rightarrow> None
        | Some n \<Rightarrow> (let i = (if neg then - n else n) in if in_i64 i then Some i else None))"

definition coalesce :: "string \<Rightarrow> string \<Rightarrow> string" where
  "coalesce a b = (if trim_space a \<noteq> [] then a else b)"

subsection \<open>Xendit\<close>

type_synonym json_map = "(string \<times> json) list"

text \<open>The later of two members with the same name counts.\<close>

definition member_of :: "json_map \<Rightarrow> string \<Rightarrow> json option" where
  "member_of m k = map_of (rev m) k"

fun firstString :: "json_map \<Rightarrow> string list \<Rightarrow> string" where
  "firstString m [] = []"
| "firstString m (k # ks) = (case member_of m k of
     Some (JString t) \<Rightarrow> if trim_space t \<noteq> [] then trim_space t else firstString m ks
   | _ \<Rightarrow> firstString m ks)"

fun firstInt64 :: "json_map \<Rightarrow> string list \<Rightarrow> i64" where
  "firstInt64 m [] = 0"
| "firstInt64 m (k # ks) = (case member_of m k of
     Some (JNumber f) \<Rightarrow> float_int64 f
   | Some (JString t) \<Rightarrow> (case go_sscan_int t of Some n \<Rightarrow> n | None \<Rightarrow> firstInt64 m ks)
   | _ \<Rightarrow> firstInt64 m ks)"

definition mapXenditStatus :: "string \<Rightarrow> string \<Rightarrow> string \<times> string" where
  "mapXenditStatus eventType status =
    (let e = to_upper (trim_space eventType); s = to_upper (trim_space status); combined = e @ '' '' @ s in
     if contains combined ''REFUND'' \<or> contains combined ''REVERSAL'' \<or> contains combined ''CHARGEBACK''
       then (NormalizedReversal, IntentPaid)
     else if s \<in> {''PAID'', ''SUCCEEDED'', ''COMPLETED'', ''SETTLED'', ''SUCCESS''} then (NormalizedPaid, IntentPaid)
     else if s = ''EXPIRED'' then (NormalizedExpired, IntentExpired)
     else if s \<in> {''CANCELLED'', ''CANCELED'', ''VOIDED''} then (NormalizedCancelled, IntentCancelled)
     else if s = ''FAILED'' then (NormalizedFailed, IntentFailed)
     else if s \<in> {''PENDING'', ''ACTIVE'', ''REQUIRES_ACTION'', ''WAITING''} then (NormalizedPending, IntentPending)
     else if contains e ''PAID'' \<or> contains e ''SUCCESS'' \<or> contains e ''COMPLETED'' then (NormalizedPaid, IntentPaid)
     else if contains e ''EXPIRED'' then (NormalizedExpired, IntentExpired)
     else if contains e ''CANCEL'' then (NormalizedCancelled, IntentCancelled)
     else if contains e ''FAILED'' then (NormalizedFailed, IntentFailed)
     else (NormalizedUnknown, IntentUnknownOutcome))"

definition or_else :: "string \<Rightarrow> string \<Rightarrow> string" where
  "or_else a b = (if a = [] then b else a)"

definition normalize_xendit :: "json_map \<Rightarrow> NormalizedCallback" where
  "normalize_xendit raw =
    (let dat = (case member_of raw ''data'' of Some (JObject m) \<Rightarrow> m | _ \<Rightarrow> raw);
         eventID = or_else (firstString raw [''id'', ''event_id'', ''eventId'']) (firstString dat [''id'', ''event_id'', ''eventId'']);
         rawType = or_else (firstString raw [''event'', ''type'', ''event_type'', ''eventType''])
           (firstString dat [''event'', ''type'', ''status'']);
         statusRaw = or_else (firstString dat [''status'', ''payment_status'', ''paymentStatus'']) (firstString raw [''status'']);
         ref0 = firstString dat [''id'', ''qr_id'', ''qrId'', ''payment_id'', ''paymentId'', ''external_id''];
         ref1 = or_else (firstString dat [''qr_id'', ''qrId'', ''payment_id'', ''paymentId'']) ref0;
         ref = or_else ref1 (firstString dat [''id'']);
         externalID = or_else (firstString dat [''external_id'', ''externalId'', ''reference_id'', ''referenceId''])
           (firstString raw [''external_id'', ''externalId'']);
         amount0 = firstInt64 dat [''amount'', ''paid_amount'', ''paidAmount'', ''gross_amount''];
         amount = (if amount0 = 0 then firstInt64 raw [''amount'', ''paid_amount''] else amount0);
         currency = or_else (to_upper (firstString dat [''currency''])) (or_else (to_upper (firstString raw [''currency''])) CurrencyIDR);
         (normalized, mappedStatus) = mapXenditStatus rawType statusRaw
     in \<lparr>nc_ProviderEventID = eventID, nc_RawEventType = coalesce rawType statusRaw, nc_NormalizedType = normalized,
         nc_ProviderReference = ref, nc_ExternalID = externalID, nc_AmountIDR = amount, nc_Currency = currency,
         nc_Status = mappedStatus\<rparr>)"

definition ParseXenditEnvelope :: "string \<Rightarrow> NormalizedCallback result" where
  "ParseXenditEnvelope body =
    (if body = [] then Inl (PlainError ''empty body'')
     else case json_parse_any_map body of None \<Rightarrow> Inl (PlainError ''malformed json'')
       | Some raw \<Rightarrow> Inr (normalize_xendit raw))"

subsection \<open>Duitku\<close>

type_synonym text_map = "(string \<times> string) list"

record DuitkuCallbackFields =
  du_MerchantCode :: string
  du_Amount :: string
  du_MerchantOrderID :: string
  du_Signature :: string
  du_Reference :: string
  du_ResultCode :: string
  du_PaymentCode :: string
  du_ProductDetail :: string
  du_SettlementDate :: string
  du_IssuerCode :: string
  du_Raw :: text_map

definition field_text :: "(json \<Rightarrow> string) \<Rightarrow> json \<Rightarrow> string option" where
  "field_text sprint v = (case v of
     JNull \<Rightarrow> None
   | JString t \<Rightarrow> Some (trim_space t)
   | JNumber f \<Rightarrow> Some (if float_is_int64 f then show_int (float_int64 f) else sprint v)
   | JBool b \<Rightarrow> Some (json_bool b)
   | _ \<Rightarrow> Some (trim_space (sprint v)))"

text \<open>\<open>url.ParseQuery\<close>: the first value of every key; any malformed pair makes the call fail.\<close>

fun url_unescape :: "string \<Rightarrow> string option" where
  "url_unescape [] = Some []"
| "url_unescape (c # cs) =
    (if c = CHR ''%'' then (case cs of
        x # y # rest \<Rightarrow> (case (hex_val x, hex_val y) of
            (Some h, Some l) \<Rightarrow> map_option (\<lambda>t. char_of (h * 16 + l) # t) (url_unescape rest) | _ \<Rightarrow> None)
      | _ \<Rightarrow> None)
     else map_option (\<lambda>t. (if c = CHR ''+'' then CHR '' '' else c) # t) (url_unescape cs))"

text \<open>\<open>strings.Cut\<close> at the first occurrence of a byte.\<close>

definition cut_at :: "char \<Rightarrow> string \<Rightarrow> string \<times> string" where
  "cut_at x s = (takeWhile (\<lambda>c. c \<noteq> x) s, drop 1 (dropWhile (\<lambda>c. c \<noteq> x) s))"

function split_on :: "char \<Rightarrow> string \<Rightarrow> string list" where
  "split_on x s = (if s = [] then [] else fst (cut_at x s) # split_on x (snd (cut_at x s)))"
  by pat_completeness auto
termination
proof (relation "measure (\<lambda>(x, s). length s)", simp)
  fix x and s :: string
  assume "s \<noteq> []"
  then have "length (drop 1 (dropWhile (\<lambda>c. c \<noteq> x) s)) < length s"
    using length_dropWhile_le [of "\<lambda>c. c \<noteq> x" s] by (cases s) auto
  then show "((x, snd (cut_at x s)), (x, s)) \<in> measure (\<lambda>(x, s). length s)"
    by (simp add: cut_at_def)
qed

declare split_on.simps [simp del]

definition query_pair :: "string \<Rightarrow> (string \<times> string) option" where
  "query_pair p =
    (if CHR '';'' \<in> set p then None
     else case cut_at (CHR ''='') p of (k, v) \<Rightarrow>
       Option.bind (url_unescape k) (\<lambda>k. map_option (\<lambda>v. (k, v)) (url_unescape v)))"

fun query_pairs :: "string list \<Rightarrow> (string \<times> string) list option" where
  "query_pairs [] = Some []"
| "query_pairs (p # ps) =
    (if p = [] then query_pairs ps
     else Option.bind (query_pair p) (\<lambda>kv. map_option (\<lambda>kvs. kv # kvs) (query_pairs ps)))"

definition parse_query :: "string \<Rightarrow> text_map option" where
  "parse_query q = map_option (\<lambda>kvs. fold (\<lambda>(k, v) m. if k \<in> fst ` set m then m else m @ [(k, v)]) kvs [])
     (query_pairs (split_on (CHR ''&'') q))"

definition parseDuitkuFields :: "(json \<Rightarrow> string) \<Rightarrow> string \<Rightarrow> text_map result" where
  "parseDuitkuFields sprint body =
    (let t = trim_space body in
     if t = [] then Inl (PlainError ''empty body'')
     else if has_prefix ''{'' t then
       (case json_parse_any_map t of None \<Rightarrow> Inl (PlainError ''malformed json'')
        | Some raw \<Rightarrow> Inr (List.map_filter (\<lambda>(k, v). map_option (\<lambda>x. (k, x)) (field_text sprint v)) raw))
     else (case parse_query t of None \<Rightarrow> Inl (PlainError ''malformed form'')
        | Some vals \<Rightarrow> if vals = [] then Inl (PlainError ''malformed envelope'')
            else Inr (map (\<lambda>(k, v). (k, trim_space v)) vals)))"

fun firstMapString :: "text_map \<Rightarrow> string list \<Rightarrow> string" where
  "firstMapString m [] = []"
| "firstMapString m (k # ks) = (case map_of m k of
     Some v \<Rightarrow> if trim_space v \<noteq> [] then trim_space v else firstMapString m ks | None \<Rightarrow> firstMapString m ks)"

definition ParseDuitkuCallbackFields :: "(json \<Rightarrow> string) \<Rightarrow> string \<Rightarrow> DuitkuCallbackFields result" where
  "ParseDuitkuCallbackFields sprint body =
    (if body = [] then Inl (PlainError ''empty body'')
     else bindE (parseDuitkuFields sprint body) (\<lambda>raw. Inr
       \<lparr>du_MerchantCode = firstMapString raw [''merchantCode'', ''merchant_code''],
        du_Amount = firstMapString raw [''amount'', ''paymentAmount'', ''payment_amount''],
        du_MerchantOrderID = firstMapString raw [''merchantOrderId'', ''merchant_order_id''],
        du_Signature = firstMapString raw [''signature''],
        du_Reference = firstMapString raw [''reference''],
        du_ResultCode = firstMapString raw [''resultCode'', ''result_code'', ''statusCode'', ''status_code''],
        du_PaymentCode = firstMapString raw [''paymentCode'', ''payment_code'', ''paymentMethod'', ''payment_method''],
        du_ProductDetail = firstMapString raw [''productDetail'', ''productDetails'', ''product_detail'', ''product_details''],
        du_SettlementDate = firstMapString raw [''settlementDate'', ''settlement_date''],
        du_IssuerCode = firstMapString raw [''issuerCode'', ''issuer_code''],
        du_Raw = raw\<rparr>))"

definition mapDuitkuResultCode :: "string \<Rightarrow> string \<Rightarrow> string \<times> string" where
  "mapDuitkuResultCode resultCode message =
    (let code = trim_space resultCode; msg = to_lower (trim_space message); has = contains msg in
     if has ''expired'' \<or> has ''kadaluarsa'' \<or> has ''expire'' then (NormalizedExpired, IntentExpired)
     else if code = ''00'' then (NormalizedPaid, IntentPaid)
     else if code = ''01'' then (if has ''cancel'' \<or> has ''fail'' then (NormalizedFailed, IntentFailed)
       else (NormalizedPending, IntentPending))
     else if code = ''02'' then (if has ''cancel'' \<or> has ''canceled'' \<or> has ''cancelled''
       then (NormalizedCancelled, IntentCancelled) else (NormalizedFailed, IntentFailed))
     else if has ''success'' \<or> has ''paid'' \<or> has ''berhasil'' then (NormalizedPaid, IntentPaid)
     else if has ''cancel'' \<or> has ''canceled'' \<or> has ''cancelled'' then (NormalizedCancelled, IntentCancelled)
     else if has ''fail'' \<or> has ''gagal'' \<or> has ''reject'' then (NormalizedFailed, IntentFailed)
     else if has ''process'' \<or> has ''pending'' \<or> has ''waiting'' then (NormalizedPending, IntentPending)
     else (NormalizedUnknown, IntentUnknownOutcome))"

definition parseAmountString :: "string \<Rightarrow> i64" where
  "parseAmountString s =
    (let t = fst (cut_at (CHR ''.'') (trim_space s)) in case go_sscan_int t of Some n \<Rightarrow> n | None \<Rightarrow> 0)"

definition normalizeDuitkuFields :: "text_map \<Rightarrow> NormalizedCallback" where
  "normalizeDuitkuFields raw =
    (let merchantOrderID = firstMapString raw [''merchantOrderId'', ''merchant_order_id''];
         reference = firstMapString raw [''reference''];
         resultCode = firstMapString raw [''resultCode'', ''result_code'', ''statusCode'', ''status_code''];
         amount = parseAmountString (firstMapString raw [''amount'', ''paymentAmount'', ''payment_amount'']);
         (normalized, mappedStatus) = mapDuitkuResultCode resultCode
           (firstMapString raw [''statusMessage'', ''status_message'', ''additionalParam'']);
         eventID0 = (if reference \<noteq> [] then (if resultCode \<noteq> [] then reference @ '':'' @ resultCode else reference) else []);
         eventID = (if eventID0 = [] \<and> merchantOrderID \<noteq> [] \<and> resultCode \<noteq> [] then merchantOrderID @ '':'' @ resultCode else eventID0)
     in \<lparr>nc_ProviderEventID = eventID, nc_RawEventType = coalesce resultCode ''duitku.callback'', nc_NormalizedType = normalized,
         nc_ProviderReference = or_else reference merchantOrderID, nc_ExternalID = merchantOrderID, nc_AmountIDR = amount,
         nc_Currency = CurrencyIDR, nc_Status = mappedStatus\<rparr>)"

definition ParseDuitkuEnvelope :: "(json \<Rightarrow> string) \<Rightarrow> string \<Rightarrow> NormalizedCallback result" where
  "ParseDuitkuEnvelope sprint body =
    (if body = [] then Inl (PlainError ''empty body'')
     else bindE (parseDuitkuFields sprint body) (\<lambda>raw. Inr (normalizeDuitkuFields raw)))"

subsection \<open>What the parsers answer\<close>

text \<open>
  The evidence a callback can carry: the normalized type with the status it stands for. A reversal
  keeps the payment paid; its containment is a separate state.
\<close>

definition evidence_table :: "(string \<times> string) list" where
  "evidence_table = [(NormalizedPaid, IntentPaid), (NormalizedExpired, IntentExpired), (NormalizedCancelled, IntentCancelled),
     (NormalizedFailed, IntentFailed), (NormalizedPending, IntentPending), (NormalizedReversal, IntentPaid),
     (NormalizedUnknown, IntentUnknownOutcome)]"

lemma if_mem: "x \<in> S \<Longrightarrow> y \<in> S \<Longrightarrow> (if b then x else y) \<in> S"
  by simp

lemma mapXenditStatus_table: "mapXenditStatus e s \<in> set evidence_table"
  unfolding mapXenditStatus_def Let_def by (intro if_mem) (simp_all add: evidence_table_def)

lemma mapDuitkuResultCode_table: "mapDuitkuResultCode c m \<in> set evidence_table"
  unfolding mapDuitkuResultCode_def Let_def by (intro if_mem) (simp_all add: evidence_table_def)

lemma in_i64_float: "in_i64 (float_int64 f)"
  by (simp add: float_int64_def Let_def i64_bounds)

lemma go_sscan_int_range: "go_sscan_int s = Some n \<Longrightarrow> in_i64 n"
  by (auto simp: go_sscan_int_def Let_def split: option.splits if_splits)

lemma firstInt64_range: "in_i64 (firstInt64 m ks)"
  by (induction ks) (auto simp: in_i64_float go_sscan_int_range split: option.splits json.splits)

lemma parseAmountString_range: "in_i64 (parseAmountString s)"
  by (auto simp: parseAmountString_def Let_def go_sscan_int_range split: option.splits)

definition well_typed :: "NormalizedCallback \<Rightarrow> bool" where
  "well_typed nc \<longleftrightarrow> (nc_NormalizedType nc, nc_Status nc) \<in> set evidence_table \<and> in_i64 (nc_AmountIDR nc) \<and> nc_Currency nc \<noteq> []"

lemma well_typed_let: "(\<And>x. x = a \<Longrightarrow> well_typed (f x)) \<Longrightarrow> well_typed (Let a f)"
  by (simp add: Let_def)

lemma well_typed_case: "(\<And>a b. p = (a, b) \<Longrightarrow> well_typed (f a b)) \<Longrightarrow> well_typed (case p of (a, b) \<Rightarrow> f a b)"
  by (cases p) simp

lemma currency_given: "or_else a (or_else b CurrencyIDR) \<noteq> []"
  by (simp add: or_else_def)

lemma normalize_xendit_well_typed: "well_typed (normalize_xendit m)"
  unfolding normalize_xendit_def
  apply (rule well_typed_let)+
  apply (rule well_typed_case)
  apply (simp only: well_typed_def NormalizedCallback.select_convs)
  apply (intro conjI)
    apply (metis mapXenditStatus_table)
   apply (simp only: firstInt64_range simp_thms split: if_split)
  apply (rule currency_given)
  done

lemma normalizeDuitkuFields_well_typed: "well_typed (normalizeDuitkuFields m)"
  unfolding normalizeDuitkuFields_def
  apply (rule well_typed_let)+
  apply (rule well_typed_case)
  apply (rule well_typed_let)+
  apply (simp only: well_typed_def NormalizedCallback.select_convs)
  apply (intro conjI)
    apply (metis mapDuitkuResultCode_table)
   apply (simp only: parseAmountString_range)
  apply simp
  done

text \<open>
  C8. Whatever bytes a provider sends, a callback that parses carries a consistent pair of event
  type and payment status, an amount that an \<open>int64\<close> holds, and a currency.
\<close>

theorem envelopes_well_typed:
  assumes "ParseXenditEnvelope body = Inr nc \<or> ParseDuitkuEnvelope sprint body = Inr nc"
  shows "(nc_NormalizedType nc, nc_Status nc) \<in> set evidence_table \<and> in_i64 (nc_AmountIDR nc) \<and> nc_Currency nc \<noteq> []"
proof -
  from assms consider m where "nc = normalize_xendit m" | m where "nc = normalizeDuitkuFields m"
    by (auto simp: ParseXenditEnvelope_def ParseDuitkuEnvelope_def bindE_eq_Inr split: if_splits option.splits)
  then have "well_typed nc" by cases (simp_all only: normalize_xendit_well_typed normalizeDuitkuFields_well_typed)
  then show ?thesis unfolding well_typed_def .
qed

theorem envelopes_well_typed_witness:
  "\<exists>nc. ParseDuitkuEnvelope (\<lambda>_. []) ''merchantOrderId=o1&resultCode=00&amount=15000.00'' = Inr nc \<and>
     nc_AmountIDR nc = 15000 \<and> (nc_NormalizedType nc, nc_Status nc) \<in> set evidence_table"
proof -
  let ?body = "''merchantOrderId=o1&resultCode=00&amount=15000.00''"
  have "case ParseDuitkuEnvelope (\<lambda>_. []) ?body of Inr nc \<Rightarrow> nc_AmountIDR nc = 15000 | Inl e \<Rightarrow> False" by code_simp
  then obtain nc where nc: "ParseDuitkuEnvelope (\<lambda>_. []) ?body = Inr nc" "nc_AmountIDR nc = 15000"
    by (cases "ParseDuitkuEnvelope (\<lambda>_. []) ?body") simp_all
  with envelopes_well_typed [of ?body nc "\<lambda>_. []"] show ?thesis by blast
qed

definition json_any_map_at :: "nat \<Rightarrow> string \<Rightarrow> json_map option" where
  "json_any_map_at n s = (case json_val n maxNestingDepth (json_ws s) of
     Some (JObject kvs, r) \<Rightarrow> if json_ws r = [] then Some (fold (\<lambda>(k, v). map_set k v) kvs []) else None
   | Some (JNull, r) \<Rightarrow> if json_ws r = [] then Some [] else None
   | _ \<Rightarrow> None)"


lemmas json_numeral = json_val.simps(2) [of "pred_numeral k" for k, folded numeral_eq_Suc]
  json_elems.simps(2) [of "pred_numeral k" for k, folded numeral_eq_Suc]
  json_fields.simps(2) [of "pred_numeral k" for k, folded numeral_eq_Suc]

definition demo_unpaid :: string where
  "demo_unpaid = ''{'' @ [chr_quote] @ ''status'' @ [chr_quote] @ '':'' @ [chr_quote] @ ''UNPAID'' @ [chr_quote] @ ''}''"

lemma demo_unpaid_parses: "json_parse_any_map demo_unpaid = Some [(''status'', JString ''UNPAID'')]"
proof -
  have "json_chars (''status'' @ [chr_quote] @ '':'' @ [chr_quote] @ ''UNPAID'' @ [chr_quote] @ ''}'') =
      Some (''status'', '':'' @ [chr_quote] @ ''UNPAID'' @ [chr_quote] @ ''}'')"
    "json_chars (''UNPAID'' @ [chr_quote] @ ''}'') = Some (''UNPAID'', ''}'')" by code_simp+
  then show ?thesis
    by (simp add: demo_unpaid_def json_parse_any_map_def json_parse_def json_fuel_def maxNestingDepth_def json_numeral json_expect_def json_ws_def map_set_def)
qed


lemma firstString_append: "firstString m (ks @ js) = or_else (firstString m ks) (firstString m js)"
  by (induction ks) (auto simp: or_else_def split: option.splits json.splits)

lemma trim_with_idem: "trim_with p (trim_with p s) = trim_with p s"
proof -
  define t where "t = dropWhile p s"
  define u where "u = rev (dropWhile p (rev t))"
  have t: "t = u @ rev (takeWhile p (rev t))"
    unfolding u_def by (metis rev_append rev_rev_ident takeWhile_dropWhile_id)
  have "dropWhile p u = u"
  proof (cases u)
    case (Cons x xs)
    with t have "hd t = x" "t \<noteq> []" by (metis append_Cons list.sel(1), metis append_Cons list.discI)
    then have "\<not> p x" unfolding t_def by (metis hd_dropWhile)
    with Cons show ?thesis by simp
  qed simp
  moreover have "dropWhile p (rev u) = rev u" by (simp add: u_def dropWhile_idem)
  ultimately show ?thesis by (simp add: trim_with_def u_def t_def)
qed

text \<open>
  C9. A Xendit body whose only news is the status \<open>UNPAID\<close>, in any case and without an event
  name, parses as a payment: the status also stands in for the event, and every event that contains
  \<open>PAID\<close> counts as paid.
\<close>

theorem unpaid_status_parses_as_paid:
  assumes "json_parse_any_map body = Some m" and "body \<noteq> []" and "member_of m ''data'' = None"
    and "firstString m [''event'', ''type'', ''event_type'', ''eventType''] = []"
    and "member_of m ''status'' = Some (JString st)" and "to_upper (trim_space st) = ''UNPAID''"
  shows "\<exists>nc. ParseXenditEnvelope body = Inr nc \<and> nc_NormalizedType nc = NormalizedPaid \<and> nc_Status nc = IntentPaid"
proof -
  from assms(6) have ne: "trim_space st \<noteq> []" by (auto simp: to_upper_def)
  have "map upper_char (trim_space st) = ''UNPAID''" using assms(6) by (simp add: to_upper_def)
  have idem: "trim_space (trim_space t) = trim_space t" for t :: string
    by (simp add: trim_space_def trim_with_idem)
  have status: "firstString m (''status'' # ks) = trim_space st" for ks using assms(5) ne by simp
  have none: "firstString m [''event'', ''type''] = []"
    using firstString_append [of m "[''event'', ''type'']" "[''event_type'', ''eventType'']"] assms(4)
    by (simp add: or_else_def split: if_splits)
  have event: "firstString m [''event'', ''type'', ''status''] = trim_space st"
    using firstString_append [of m "[''event'', ''type'']" "[''status'']"] none status [of "[]"] by (simp add: or_else_def)
  have map: "mapXenditStatus (trim_space st) (trim_space st) = (NormalizedPaid, IntentPaid)"
    unfolding mapXenditStatus_def idem assms(6) by code_simp
  have "nc_NormalizedType (normalize_xendit m) = NormalizedPaid \<and> nc_Status (normalize_xendit m) = IntentPaid"
    unfolding normalize_xendit_def Let_def assms(3,4) option.case event status
    by (simp only: or_else_def ne map prod.case NormalizedCallback.select_convs simp_thms if_True if_False)
  then show ?thesis using assms(1,2) by (simp add: ParseXenditEnvelope_def)
qed

theorem unpaid_status_parses_as_paid_witness:
  "\<exists>nc. ParseXenditEnvelope demo_unpaid = Inr nc \<and> nc_NormalizedType nc = NormalizedPaid \<and> nc_Status nc = IntentPaid"
proof -
  have "demo_unpaid \<noteq> []" by (simp add: demo_unpaid_def)
  moreover have "to_upper (trim_space ''UNPAID'') = ''UNPAID''" by code_simp
  ultimately show ?thesis
    using unpaid_status_parses_as_paid [OF demo_unpaid_parses, of "''UNPAID''"] by (simp add: member_of_def)
qed

end
