(* ===== verification/Tokens.thy ===== *)
theory Tokens
  imports Digest
begin

text \<open>
  Tokens and addresses (\<open>internal/domain/auth/token.go\<close>): the hash a token is stored as, keyed with
  HMAC-SHA256 when a secret is configured, and the normal form of an e-mail address. The random bytes
  of \<open>GenerateToken\<close> are a parameter of the services that call it.
\<close>

unbundle bit_operations_syntax

definition hmac_pad :: "int \<Rightarrow> int list \<Rightarrow> int list" where
  "hmac_pad x key = map (\<lambda>b. b XOR x) key"

definition hmac_sha256 :: "int list \<Rightarrow> int list \<Rightarrow> int list" where
  "hmac_sha256 key msg =
    (let k0 = (if length key > 64 then sha256 key else key);
         k = k0 @ replicate (64 - length k0) 0
     in sha256 (hmac_pad 92 k @ sha256 (hmac_pad 54 k @ msg)))"

definition HashToken :: "string \<Rightarrow> string" where
  "HashToken raw = sha256_hex raw"

definition HashTokenKeyed :: "string \<Rightarrow> string \<Rightarrow> string" where
  "HashTokenKeyed raw secret =
    (if secret = [] then HashToken raw else hex_encode (hmac_sha256 (string_bytes secret) (string_bytes raw)))"

definition EqualHash :: "string \<Rightarrow> string \<Rightarrow> bool" where
  "EqualHash a b \<longleftrightarrow> (if length a \<noteq> length b then False else string_bytes a = string_bytes b)"

definition HashIPUA :: "string \<Rightarrow> string" where
  "HashIPUA v = (if v = [] then [] else sha256_hex v)"

definition NormalizeEmail :: "string \<Rightarrow> string" where
  "NormalizeEmail email =
    (let e = trim_space (to_lower email); user = takeWhile (\<lambda>c. c \<noteq> CHR ''@'') e;
         host = drop 1 (dropWhile (\<lambda>c. c \<noteq> CHR ''@'') e) in
     if e = [] \<or> CHR ''@'' \<notin> set e \<or> CHR '' '' \<in> set e then []
     else if user = [] \<or> host = [] \<or> CHR ''.'' \<notin> set host then []
     else e)"

text \<open>The first test vector of RFC 4231.\<close>

lemma hmac_vector:
  "hex_encode (hmac_sha256 (replicate 20 11) (string_bytes ''Hi There'')) =
    ''b0344c61d8db38535ca8afceaf0bf12b881dc200c9833da726e9376c2e32cff7''"
  by code_simp

lemma lower_char_idem: "lower_char (lower_char c) = lower_char c"
proof (cases "is_upper c")
  case True
  then have n: "65 \<le> (of_char c :: nat)" "(of_char c :: nat) \<le> 90" by (simp_all add: is_upper_def Let_def)
  then have "(of_char (lower_char c) :: nat) = of_char c + 32" using True by (simp add: lower_char_def)
  with n have "\<not> is_upper (lower_char c)" by (simp add: is_upper_def Let_def)
  then show ?thesis by (simp add: lower_char_def [of "lower_char c"])
qed (simp add: lower_char_def)

end
