(* ===== verification/Checkout_Store.thy ===== *)
theory Checkout_Store
  imports Inventory_Store Payments
begin

text \<open>
  The checkout tables (\<open>migrations/000001\<close>, \<open>000012\<close>, \<open>000015\<close>, \<open>000016\<close>, \<open>000033\<close>) and their repository
  (\<open>internal/adapters/postgres/checkout_repo.go\<close> over \<open>queries/checkout.sql\<close>): orders, their items,
  payment intents, idempotency records and outbox events. The foreign keys to \<open>users\<close> are left out;
  a \<open>jsonb\<close> column holds the text written to it. \<open>qris_calls\<close> is not a table: it is the sequence of
  calls made to the payment provider so far, which the provider's answers may depend on.
\<close>

record PaymentIntentPatch =
  ip_ProviderReference :: "string option"
  ip_QRString :: "string option"
  ip_QRImageURL :: "string option"
  ip_ExpireRequestedAt :: "time option"
  ip_ExpireReason :: "string option"
  ip_CancelRequestedAt :: "time option"
  ip_CancelReason :: "string option"
  ip_UnknownOperation :: "string option"
  ip_LookupScheduledAt :: "time option"
  ip_LookupAttempts :: "int option"
  ip_PrecedingStatus :: "string option"
  ip_ClearUnknown :: bool

record IdempotencyRecord =
  ik_ID :: string
  ik_SubjectType :: string
  ik_SubjectID :: string
  ik_Operation :: string
  ik_PaymentMode :: "string option"
  ik_KeyHash :: string
  ik_RequestHash :: string
  ik_Status :: string
  ik_ResourceType :: "string option"
  ik_ResourceID :: "string option"
  ik_ResponseStatus :: "int option"
  ik_ResponseBody :: string
  ik_RequestID :: "string option"
  ik_LeaseExpiresAt :: "time option"
  ik_ExpiresAt :: time

record OutboxEvent =
  ob_ID :: string
  ob_Topic :: string
  ob_Payload :: string
  ob_Status :: string
  ob_AvailableAt :: time
  ob_CreatedAt :: time
  ob_DedupeKey :: "string option"
  ob_PaymentMode :: "string option"

record CreateQRISInput =
  cq_ExternalID :: string
  cq_AmountIDR :: i64
  cq_Currency :: string
  cq_Description :: string
  cq_ExpiresAt :: time
  cq_PaymentMode :: string
  cq_AccountScope :: string
  cq_IdempotencyKey :: string
  cq_Metadata :: "(string \<times> string) list"

datatype qris_call =
    QrisCreate CreateQRISInput
  | QrisGet string
  | QrisExpire string
  | QrisSimulatePay string

record checkout_db = inventory_db +
  orders :: "CheckoutOrder list"
  order_items :: "OrderItem list"
  payment_intents :: "Intent list"
  idempotency_records :: "IdempotencyRecord list"
  outbox_events :: "OutboxEvent list"
  qris_calls :: "qris_call list"

subsection \<open>Products and stores\<close>

definition CheckoutGetProduct :: "string \<Rightarrow> string \<Rightarrow> 'm checkout_db_scheme \<Rightarrow> ProductRow result" where
  "CheckoutGetProduct storeID productID w = get_product storeID productID w"

definition CheckoutGetStore :: "string \<Rightarrow> 'm checkout_db_scheme \<Rightarrow> (string \<times> string) result" where
  "CheckoutGetStore storeID w = get_store_merchant storeID w"

subsection \<open>Orders\<close>

definition order_check :: "CheckoutOrder \<Rightarrow> unit result" where
  "order_check x = first_failure
    [(or_OrderNumber x \<noteq> [], ''orders_order_number_nonempty''),
     (or_PaymentStatus x \<in> set [PaymentUnpaid, PaymentPending, PaymentPaid, PaymentFailed, PaymentExpired, PaymentCancelled,
        OrderCreated, OrderPendingPayment, OrderFulfilling, OrderFulfilled, OrderDeliveryFailed], ''orders_payment_status_check''),
     (or_OrderStatus x \<in> set [OrderCreated, OrderPendingPayment, OrderPaid, OrderFulfilling, OrderFulfilled,
        OrderDeliveryFailed, OrderFailed, OrderExpired, OrderCancelled], ''orders_order_status_check''),
     (or_PaymentMode x \<in> set modes, ''orders_payment_mode_check''),
     (or_Source x \<in> set [SourceStorefront, SourceQRISAPI], ''orders_source_check''),
     (or_Currency x = CurrencyIDR, ''orders_currency_check''),
     (or_SubtotalIDR x \<ge> 0 \<and> or_DiscountIDR x \<ge> 0 \<and> or_TipIDR x \<ge> 0 \<and> or_FeeIDR x \<ge> 0 \<and> or_GrossIDR x \<ge> 0 \<and>
        or_MerchantNetIDR x \<ge> 0, ''orders_money_nonneg'')]"

definition InsertOrder :: "CheckoutOrder \<Rightarrow> ('m checkout_db_scheme, unit) op" where
  "InsertOrder x = (\<lambda>w.
     case bindE (order_check x) (\<lambda>_. first_failure
       [(or_ID x \<notin> or_ID ` set (orders w), ''orders_pkey''),
        (or_OrderNumber x \<notin> or_OrderNumber ` set (orders w), ''orders_order_number_uidx''),
        (or_StoreID x \<in> fst ` set (stores w), ''orders_store_id_fkey''),
        (or_MerchantID x \<in> set (merchants w), ''orders_merchant_id_fkey'')]) of
       Inl e \<Rightarrow> (Inl e, w)
     | Inr _ \<Rightarrow> (Inr (), w\<lparr>orders := orders w @ [x]\<rparr>))"

definition GetOrderByID :: "string \<Rightarrow> 'm checkout_db_scheme \<Rightarrow> CheckoutOrder result" where
  "GetOrderByID i w = opt_row (find (\<lambda>x. or_ID x = i) (orders w))"

text \<open>An UPDATE that is not \<open>RETURNING\<close> reports no missing row.\<close>

definition UpdateOrderStatus :: "string \<Rightarrow> string \<Rightarrow> string \<Rightarrow> time \<Rightarrow> ('m checkout_db_scheme, unit) op" where
  "UpdateOrderStatus i paymentStatus orderStatus at = (\<lambda>w.
     case update_one (\<lambda>x. or_ID x = i)
       (\<lambda>x. x\<lparr>or_PaymentStatus := paymentStatus, or_OrderStatus := orderStatus, or_UpdatedAt := at\<rparr>) order_check (orders w) of
       Inl e \<Rightarrow> (if is_not_found e then (Inr (), w) else (Inl e, w))
     | Inr (_, rows) \<Rightarrow> (Inr (), w\<lparr>orders := rows\<rparr>))"

subsection \<open>Order items\<close>

definition order_item_check :: "OrderItem \<Rightarrow> unit result" where
  "order_item_check i = first_failure
    [(oi_ProductTitle i \<noteq> [], ''order_items_title_nonempty''),
     (oi_ProductType i \<in> set [''download'', ''link'', ''code''], ''order_items_type_check''),
     (oi_Quantity i > 0, ''order_items_qty_pos''),
     (oi_UnitPriceIDR i \<ge> 0 \<and> oi_LineSubtotalIDR i \<ge> 0 \<and> oi_DiscountAllocationIDR i \<ge> 0 \<and> oi_LineTotalIDR i \<ge> 0,
        ''order_items_money_nonneg''),
     (oi_DeliveryKind i \<in> set [''DOWNLOAD'', ''PROTECTED_LINK'', ''CREDENTIAL'', ''CODE''], ''order_items_delivery_kind_check'')]"

definition InsertOrderItem :: "OrderItem \<Rightarrow> ('m checkout_db_scheme, unit) op" where
  "InsertOrderItem i = (\<lambda>w.
     case bindE (order_item_check i) (\<lambda>_. first_failure
       [(oi_ID i \<notin> oi_ID ` set (order_items w), ''order_items_pkey''),
        (oi_OrderID i \<in> or_ID ` set (orders w), ''order_items_order_id_fkey''),
        (oi_StoreID i \<in> fst ` set (stores w), ''order_items_store_id_fkey''),
        (oi_MerchantID i \<in> set (merchants w), ''order_items_merchant_id_fkey''),
        (oi_ProductID i \<in> pr_ID ` set (products w), ''order_items_product_id_fkey'')]) of
       Inl e \<Rightarrow> (Inl e, w)
     | Inr _ \<Rightarrow> (Inr (), w\<lparr>order_items := order_items w @ [i]\<rparr>))"

definition ListOrderItems :: "string \<Rightarrow> 'm checkout_db_scheme \<Rightarrow> OrderItem list" where
  "ListOrderItems orderID w =
    sort_key (\<lambda>i. (oi_CreatedAt i, oi_ID i)) (filter (\<lambda>i. oi_OrderID i = orderID) (order_items w))"

subsection \<open>Payment intents\<close>

definition intent_check :: "Intent \<Rightarrow> unit result" where
  "intent_check i = first_failure
    [(it_PaymentMode i \<in> set modes, ''payment_intents_mode_check''),
     (it_Source i \<in> set [SourceStorefront, SourceQRISAPI], ''payment_intents_source_check''),
     (it_Provider i \<in> set [ProviderXendit, ProviderDuitku], ''payment_intents_provider_check''),
     (it_Currency i = CurrencyIDR, ''payment_intents_currency_check''),
     (it_AmountIDR i > 0, ''payment_intents_amount_pos''),
     (it_Status i \<in> set [IntentRequiresPayment, IntentPending, IntentCancelPending, IntentExpirePending,
        IntentUnknownOutcome, IntentPaid, IntentFailed, IntentExpired, IntentCancelled], ''payment_intents_status_check''),
     (it_ProviderFinancialState i \<in> set [FinancialNormal, FinancialProviderReversalHeld, FinancialProviderReversalConf],
        ''payment_intents_financial_state_check''),
     (it_Version i \<ge> 1, ''payment_intents_version_pos''),
     (it_LookupAttempts i \<ge> 0, ''payment_intents_lookup_attempts_nonneg'')]"

definition provider_ref_key :: "Intent \<Rightarrow> string \<times> string \<times> string \<times> string option" where
  "provider_ref_key i = (it_Provider i, it_AccountScope i, it_PaymentMode i, it_ProviderReference i)"

definition intent_idem_key :: "Intent \<Rightarrow> string \<times> string \<times> string" where
  "intent_idem_key i = (it_Source i, it_PaymentMode i, it_IdempotencyKeyHash i)"

definition merchant_ref_key :: "Intent \<Rightarrow> string \<times> string \<times> string option" where
  "merchant_ref_key i = (it_MerchantID i, it_PaymentMode i, it_MerchantReference i)"

definition intent_indexes :: "Intent \<Rightarrow> Intent list \<Rightarrow> unit result" where
  "intent_indexes i others = first_failure
    [(it_ID i \<notin> it_ID ` set others, ''payment_intents_pkey''),
     (it_OrderID i \<notin> it_OrderID ` set others, ''payment_intents_order_uidx''),
     (it_ProviderReference i = None \<or> provider_ref_key i \<notin> provider_ref_key ` set others, ''payment_intents_provider_ref_uidx''),
     ((it_PaymentMode i, it_ExternalID i) \<notin> (\<lambda>x. (it_PaymentMode x, it_ExternalID x)) ` set others,
        ''payment_intents_external_id_uidx''),
     (intent_idem_key i \<notin> intent_idem_key ` set others, ''payment_intents_idempotency_uidx''),
     (it_MerchantReference i \<in> set [None, Some []] \<or> merchant_ref_key i \<notin> merchant_ref_key ` set others,
        ''payment_intents_merchant_ref_uidx'')]"

text \<open>
  The checkout's statements write and read the columns of \<open>000015\<close> only: an inserted row has the
  defaults of the gateway columns of \<open>000016\<close>, and what a query answers has their zero values.
\<close>

definition default_gateway_columns :: "Intent \<Rightarrow> Intent" where
  "default_gateway_columns i = i\<lparr>it_MerchantReference := None, it_Description := [], it_SuccessURL := None,
     it_FailureURL := None, it_WebhookEndpointID := None, it_WebhookConfigVersion := None, it_Metadata := ''{}''\<rparr>"

definition mapCheckoutPaymentIntent :: "Intent \<Rightarrow> Intent" where
  "mapCheckoutPaymentIntent i = (default_gateway_columns i)\<lparr>it_Metadata := []\<rparr>"

definition InsertPaymentIntent :: "Intent \<Rightarrow> ('m checkout_db_scheme, unit) op" where
  "InsertPaymentIntent pi = (\<lambda>w.
     let i = default_gateway_columns pi in
     case bindE (intent_check i) (\<lambda>_. bindE (intent_indexes i (payment_intents w)) (\<lambda>_. first_failure
       [(it_OrderID i \<in> or_ID ` set (orders w), ''payment_intents_order_id_fkey''),
        (it_StoreID i \<in> fst ` set (stores w), ''payment_intents_store_id_fkey''),
        (it_MerchantID i \<in> set (merchants w), ''payment_intents_merchant_id_fkey''),
        (case it_FeeSnapshotID i of None \<Rightarrow> True | Some f \<Rightarrow> f \<in> sn_ID ` set (fee_snapshots w),
           ''payment_intents_fee_snapshot_id_fkey'')])) of
       Inl e \<Rightarrow> (Inl e, w)
     | Inr _ \<Rightarrow> (Inr (), w\<lparr>payment_intents := payment_intents w @ [i]\<rparr>))"

definition intent_row :: "(Intent \<Rightarrow> bool) \<Rightarrow> 'm checkout_db_scheme \<Rightarrow> Intent result" where
  "intent_row sel w = opt_row (map_option mapCheckoutPaymentIntent (find sel (payment_intents w)))"

definition GetPaymentIntentByID :: "string \<Rightarrow> 'm checkout_db_scheme \<Rightarrow> Intent result" where
  "GetPaymentIntentByID i w = intent_row (\<lambda>x. it_ID x = i) w"

definition GetPaymentIntentByOrder :: "string \<Rightarrow> 'm checkout_db_scheme \<Rightarrow> Intent result" where
  "GetPaymentIntentByOrder orderID w = intent_row (\<lambda>x. it_OrderID x = orderID) w"

definition GetPaymentIntentByIdempotency ::
    "string \<Rightarrow> string \<Rightarrow> string \<Rightarrow> 'm checkout_db_scheme \<Rightarrow> Intent result" where
  "GetPaymentIntentByIdempotency source mode keyHash w = intent_row (\<lambda>x. intent_idem_key x = (source, mode, keyHash)) w"

text \<open>\<open>COALESCE(new, old)\<close>\<close>

definition keep_old :: "'a option \<Rightarrow> 'a option \<Rightarrow> 'a option" where
  "keep_old new old = (case new of None \<Rightarrow> old | Some _ \<Rightarrow> new)"

definition patched_intent :: "string \<Rightarrow> PaymentIntentPatch \<Rightarrow> time \<Rightarrow> Intent \<Rightarrow> Intent" where
  "patched_intent to p at i = i\<lparr>it_Status := to,
     it_ProviderReference := keep_old (ip_ProviderReference p) (it_ProviderReference i),
     it_QRString := keep_old (ip_QRString p) (it_QRString i), it_QRImageURL := keep_old (ip_QRImageURL p) (it_QRImageURL i),
     it_ExpireRequestedAt := keep_old (ip_ExpireRequestedAt p) (it_ExpireRequestedAt i),
     it_ExpireReason := keep_old (ip_ExpireReason p) (it_ExpireReason i),
     it_CancelRequestedAt := keep_old (ip_CancelRequestedAt p) (it_CancelRequestedAt i),
     it_CancelReason := keep_old (ip_CancelReason p) (it_CancelReason i),
     it_UnknownOperation := keep_old (ip_UnknownOperation p) (it_UnknownOperation i),
     it_LookupScheduledAt := keep_old (ip_LookupScheduledAt p) (it_LookupScheduledAt i),
     it_LookupAttempts := (case ip_LookupAttempts p of None \<Rightarrow> it_LookupAttempts i | Some n \<Rightarrow> n),
     it_PrecedingStatus := keep_old (ip_PrecedingStatus p) (it_PrecedingStatus i),
     it_Version := it_Version i + 1, it_UpdatedAt := at\<rparr>"

text \<open>The forced update has no status guard, and overwrites the two columns of an unknown outcome.\<close>

definition forced_intent :: "string \<Rightarrow> PaymentIntentPatch \<Rightarrow> time \<Rightarrow> Intent \<Rightarrow> Intent" where
  "forced_intent to p at i = i\<lparr>it_Status := to,
     it_ProviderReference := keep_old (ip_ProviderReference p) (it_ProviderReference i),
     it_QRString := keep_old (ip_QRString p) (it_QRString i), it_QRImageURL := keep_old (ip_QRImageURL p) (it_QRImageURL i),
     it_ExpireRequestedAt := keep_old (ip_ExpireRequestedAt p) (it_ExpireRequestedAt i),
     it_ExpireReason := keep_old (ip_ExpireReason p) (it_ExpireReason i),
     it_UnknownOperation := ip_UnknownOperation p, it_LookupScheduledAt := ip_LookupScheduledAt p,
     it_LookupAttempts := (case ip_LookupAttempts p of None \<Rightarrow> it_LookupAttempts i | Some n \<Rightarrow> n),
     it_PrecedingStatus := keep_old (ip_PrecedingStatus p) (it_PrecedingStatus i),
     it_Version := it_Version i + 1, it_UpdatedAt := at\<rparr>"

definition update_intent :: "(Intent \<Rightarrow> bool) \<Rightarrow> (Intent \<Rightarrow> Intent) \<Rightarrow> ('m checkout_db_scheme, Intent) op" where
  "update_intent sel f = (\<lambda>w.
     case update_one sel f
       (\<lambda>i. bindE (intent_check i) (\<lambda>_. bindE (first_failure [(it_Version i < 2 ^ 31, ''integer out of range'')])
          (\<lambda>_. intent_indexes i (filter (\<lambda>x. \<not> sel x) (payment_intents w))))) (payment_intents w) of
       Inl e \<Rightarrow> (Inl e, w)
     | Inr (i, rows) \<Rightarrow> (Inr (mapCheckoutPaymentIntent i), w\<lparr>payment_intents := rows\<rparr>))"

definition UpdatePaymentIntentStatus ::
    "string \<Rightarrow> string \<Rightarrow> string \<Rightarrow> PaymentIntentPatch \<Rightarrow> time \<Rightarrow> ('m checkout_db_scheme, Intent) op" where
  "UpdatePaymentIntentStatus i from to p at =
    update_intent (\<lambda>x. it_ID x = i \<and> it_Status x = from) (patched_intent to p at)"

definition ForceUpdatePaymentIntent ::
    "string \<Rightarrow> string \<Rightarrow> PaymentIntentPatch \<Rightarrow> time \<Rightarrow> ('m checkout_db_scheme, Intent) op" where
  "ForceUpdatePaymentIntent i to p at = update_intent (\<lambda>x. it_ID x = i) (forced_intent to p at)"

subsection \<open>Idempotency records and the outbox\<close>

definition idem_scope :: "IdempotencyRecord \<Rightarrow> string \<times> string \<times> string \<times> string option \<times> string" where
  "idem_scope r = (ik_SubjectType r, ik_SubjectID r, ik_Operation r, ik_PaymentMode r, ik_KeyHash r)"

definition mode_or_null :: "string option \<Rightarrow> bool" where
  "mode_or_null m = (case m of None \<Rightarrow> True | Some x \<Rightarrow> x \<in> set modes)"

text \<open>\<open>ON CONFLICT DO NOTHING\<close> on the scope: the answer is whether the row was inserted.\<close>

definition TryInsertIdempotency :: "IdempotencyRecord \<Rightarrow> ('m checkout_db_scheme, bool) op" where
  "TryInsertIdempotency r = (\<lambda>w.
     case first_failure
       [(ik_Status r \<in> set [''IN_PROGRESS'', ''COMPLETED'', ''FAILED'', ''UNKNOWN_PROVIDER_OUTCOME''],
          ''idempotency_records_status_check''),
        (mode_or_null (ik_PaymentMode r), ''idempotency_records_payment_mode_check'')] of
       Inl e \<Rightarrow> (Inl e, w)
     | Inr _ \<Rightarrow>
       if idem_scope r \<in> idem_scope ` set (idempotency_records w) then (Inr False, w)
       else if ik_ID r \<in> ik_ID ` set (idempotency_records w) then (Inl (PgError ''idempotency_records_pkey''), w)
       else (Inr True, w\<lparr>idempotency_records := idempotency_records w @ [r]\<rparr>))"

definition GetIdempotency ::
    "string \<Rightarrow> string \<Rightarrow> string \<Rightarrow> string option \<Rightarrow> string \<Rightarrow> 'm checkout_db_scheme \<Rightarrow> IdempotencyRecord result" where
  "GetIdempotency subjectType subjectID operation paymentMode keyHash w =
    opt_row (find (\<lambda>r. idem_scope r = (subjectType, subjectID, operation, paymentMode, keyHash)) (idempotency_records w))"

definition CompleteIdempotency ::
    "string \<Rightarrow> string \<Rightarrow> string option \<Rightarrow> string option \<Rightarrow> int \<Rightarrow> string \<Rightarrow> ('m checkout_db_scheme, IdempotencyRecord) op" where
  "CompleteIdempotency i status resourceType resourceID responseStatus body = (\<lambda>w.
     case update_one (\<lambda>r. ik_ID r = i)
       (\<lambda>r. r\<lparr>ik_Status := status, ik_ResourceType := resourceType, ik_ResourceID := resourceID,
          ik_ResponseStatus := Some responseStatus, ik_ResponseBody := body, ik_LeaseExpiresAt := None\<rparr>)
       (\<lambda>r. first_failure [(ik_Status r \<in> set [''IN_PROGRESS'', ''COMPLETED'', ''FAILED'', ''UNKNOWN_PROVIDER_OUTCOME''],
          ''idempotency_records_status_check'')]) (idempotency_records w) of
       Inl e \<Rightarrow> (Inl e, w)
     | Inr (r, rows) \<Rightarrow> (Inr r, w\<lparr>idempotency_records := rows\<rparr>))"

definition InsertOutbox ::
    "string \<Rightarrow> string \<Rightarrow> string \<Rightarrow> string option \<Rightarrow> string option \<Rightarrow> time \<Rightarrow> ('m checkout_db_scheme, unit) op" where
  "InsertOutbox i topic payload dedupeKey paymentMode availableAt = (\<lambda>w.
     case first_failure
       [(mode_or_null paymentMode, ''outbox_events_payment_mode_check''),
        (i \<notin> ob_ID ` set (outbox_events w), ''outbox_events_pkey''),
        (dedupeKey = None \<or> dedupeKey \<notin> ob_DedupeKey ` set (outbox_events w), ''outbox_events_dedupe_key_uidx'')] of
       Inl e \<Rightarrow> (Inl e, w)
     | Inr _ \<Rightarrow> (Inr (), w\<lparr>outbox_events := outbox_events w @ [\<lparr>ob_ID = i, ob_Topic = topic, ob_Payload = payload,
         ob_Status = ''pending'', ob_AvailableAt = availableAt, ob_CreatedAt = clock w, ob_DedupeKey = dedupeKey,
         ob_PaymentMode = paymentMode\<rparr>]\<rparr>))"

end
