(* ===== verification/Checkout_Service.thy ===== *)
theory Checkout_Service
  imports Checkout_Store Coupon_Service Inventory_Service Tokens
begin

text \<open>
  \<open>internal/application/checkout_service.go\<close>: the hosted checkout. An intent is created with the
  server's price, a coupon hold and a stock hold, recorded with its order in one transaction, and only
  then sent to the payment provider, whose answer decides whether it becomes payable, fails, or stays
  in an unknown state that only a lookup resolves.

  Parameters, carried in the service record: the QRIS provider (its answers are functions of the calls
  made so far), the random tokens (numbered by the identifiers drawn so far) and the emergency switch.
  The analytics capture at the end of \<open>CreateIntent\<close>, which only writes the analytics tables and
  whose errors are logged, is left out.
\<close>

subsection \<open>The provider and the service\<close>

record CreateQRISResult =
  cs_ProviderReference :: string
  cs_QRString :: string
  cs_QRImageURL :: string
  cs_Status :: string
  cs_ExpiresAt :: time

record ProviderPayment =
  pp_ProviderReference :: string
  pp_ExternalID :: string
  pp_AmountIDR :: i64
  pp_Currency :: string
  pp_Status :: string
  pp_PaidAt :: "time option"
  pp_ExpiresAt :: "time option"

record QRISProvider =
  qp_CreateQRIS :: "qris_call list \<Rightarrow> CreateQRISInput \<Rightarrow> CreateQRISResult result"
  qp_GetPayment :: "qris_call list \<Rightarrow> string \<Rightarrow> ProviderPayment result"
  qp_ExpirePayment :: "qris_call list \<Rightarrow> string \<Rightarrow> ProviderPayment result"
  qp_SimulatePay :: bool

record CheckoutService =
  ck_Fees :: "FeeService option"
  ck_Coupons :: bool
  ck_Inventory :: bool
  ck_QRIS :: "QRISProvider option"
  ck_PaymentMode :: string
  ck_AccountScope :: string
  ck_PaymentProvider :: string
  ck_PaymentAccountScope :: string
  ck_SimulateEnabled :: bool
  ck_TokenSecret :: string
  ck_EmergencyDisabled :: "(string \<Rightarrow> bool result) option"
  ck_Token :: "nat \<Rightarrow> string result"

definition ck_mode :: "CheckoutService \<Rightarrow> string" where
  "ck_mode s = (if ck_PaymentMode s = ModeLive then ModeLive else ModeSandbox)"

definition accountScope :: "CheckoutService \<Rightarrow> string" where
  "accountScope s = (if ck_AccountScope s \<noteq> [] then ck_AccountScope s else AccountScopePrimary)"

definition paymentProvider :: "CheckoutService \<Rightarrow> string" where
  "paymentProvider s = (if ck_PaymentProvider s \<noteq> [] then ck_PaymentProvider s else ProviderXendit)"

definition paymentAccountScope :: "CheckoutService \<Rightarrow> string" where
  "paymentAccountScope s = (if ck_PaymentAccountScope s \<noteq> [] then ck_PaymentAccountScope s else accountScope s)"

definition hash_key :: "string \<Rightarrow> string" where
  "hash_key raw = sha256_hex raw"

definition hashToken :: "CheckoutService \<Rightarrow> string \<Rightarrow> string" where
  "hashToken s raw = HashTokenKeyed raw (ck_TokenSecret s)"

text \<open>\<open>perr.(*ports.ProviderError)\<close> and \<open>IsUnknownOutcome\<close>: the type assertion does not look inside a chain.\<close>

definition outcome_unknown :: "go_error \<Rightarrow> bool" where
  "outcome_unknown e = (case e of ProviderError u _ \<Rightarrow> u | _ \<Rightarrow> False)"

text \<open>A call to the provider: recorded, and answered as a function of the calls before it.\<close>

definition qris_create :: "QRISProvider \<Rightarrow> CreateQRISInput \<Rightarrow> ('m checkout_db_scheme, CreateQRISResult result) op" where
  "qris_create p x = (\<lambda>w. (Inr (qp_CreateQRIS p (qris_calls w) x), w\<lparr>qris_calls := qris_calls w @ [QrisCreate x]\<rparr>))"

definition qris_get :: "QRISProvider \<Rightarrow> string \<Rightarrow> ('m checkout_db_scheme, ProviderPayment result) op" where
  "qris_get p ref = (\<lambda>w. (Inr (qp_GetPayment p (qris_calls w) ref), w\<lparr>qris_calls := qris_calls w @ [QrisGet ref]\<rparr>))"

definition qris_expire :: "QRISProvider \<Rightarrow> string \<Rightarrow> ('m checkout_db_scheme, ProviderPayment result) op" where
  "qris_expire p ref = (\<lambda>w. (Inr (qp_ExpirePayment p (qris_calls w) ref), w\<lparr>qris_calls := qris_calls w @ [QrisExpire ref]\<rparr>))"

definition qris_simulate :: "string \<Rightarrow> ('m checkout_db_scheme, unit) op" where
  "qris_simulate ref = (\<lambda>w. (Inr (), w\<lparr>qris_calls := qris_calls w @ [QrisSimulatePay ref]\<rparr>))"

definition no_patch :: PaymentIntentPatch where
  "no_patch = \<lparr>ip_ProviderReference = None, ip_QRString = None, ip_QRImageURL = None, ip_ExpireRequestedAt = None,
     ip_ExpireReason = None, ip_CancelRequestedAt = None, ip_CancelReason = None, ip_UnknownOperation = None,
     ip_LookupScheduledAt = None, ip_LookupAttempts = None, ip_PrecedingStatus = None, ip_ClearUnknown = False\<rparr>"

definition unknown_patch :: "string \<Rightarrow> time \<Rightarrow> PaymentIntentPatch" where
  "unknown_patch operation now = no_patch\<lparr>ip_UnknownOperation := Some operation,
     ip_LookupScheduledAt := Some (now + DefaultLookupDelay)\<rparr>"

text \<open>A call whose result and error the code drops (\<open>_, _ = f(x)\<close>), when the service and the id are there.\<close>

definition drop_result :: "('s, 'a) op \<Rightarrow> ('s, unit) op" where
  "drop_result m = bindS (try_op m) (\<lambda>_. ret ())"

definition free_stock :: "CheckoutService \<Rightarrow> string option \<Rightarrow> ('m checkout_db_scheme, unit) op" where
  "free_stock s i = (case i of None \<Rightarrow> ret () | Some r \<Rightarrow> if ck_Inventory s then drop_result (ReleaseStock r) else ret ())"

definition free_coupon :: "CheckoutService \<Rightarrow> string option \<Rightarrow> ('m checkout_db_scheme, unit) op" where
  "free_coupon s i = (case i of None \<Rightarrow> ret () | Some r \<Rightarrow> if ck_Coupons s then drop_result (ReleaseReservation r) else ret ())"

definition hold_coupon :: "CheckoutService \<Rightarrow> string option \<Rightarrow> ('m checkout_db_scheme, unit) op" where
  "hold_coupon s i = (case i of None \<Rightarrow> ret ()
     | Some r \<Rightarrow> if ck_Coupons s then drop_result (MarkReservationHeldUnknown r) else ret ())"

definition schedule :: "string \<Rightarrow> string \<Rightarrow> string \<Rightarrow> string \<Rightarrow> time \<Rightarrow> ('m checkout_db_scheme, unit) op" where
  "schedule topic payload dedupe mode at =
    bindS new_id (\<lambda>i. drop_result (InsertOutbox i topic payload (Some dedupe) (Some mode) at))"

subsection \<open>Reading\<close>

text \<open>A failed lookup is the given error when the row is missing and an internal error otherwise.\<close>

definition intent_lookup :: "'a result \<Rightarrow> 'a result" where
  "intent_lookup r = lookup_or ErrPaymentNotFound ''Payment intent lookup failed'' r"

definition GetIntent :: "string \<Rightarrow> 'm checkout_db_scheme \<Rightarrow> (Intent \<times> CheckoutOrder) result" where
  "GetIntent intentID w =
    (if intentID = [] then Inl ErrPaymentNotFound
     else bindE (intent_lookup (GetPaymentIntentByID intentID w)) (\<lambda>pi.
       case GetOrderByID (it_OrderID pi) w of
         Inl _ \<Rightarrow> Inl (internal ''Order lookup failed'') | Inr ord \<Rightarrow> Inr (pi, ord)))"

definition GetOrderPublic :: "string \<Rightarrow> 'm checkout_db_scheme \<Rightarrow> (CheckoutOrder \<times> Intent option) result" where
  "GetOrderPublic orderID w =
    (if orderID = [] then Inl ErrPaymentNotFound
     else bindE (lookup_or ErrPaymentNotFound ''Order lookup failed'' (GetOrderByID orderID w)) (\<lambda>ord.
       case GetPaymentIntentByOrder orderID w of
         Inl e \<Rightarrow> if is_not_found e then Inr (ord, None) else Inl (internal ''Payment intent lookup failed'')
       | Inr pi \<Rightarrow> Inr (ord, Some pi)))"

subsection \<open>Creating an intent\<close>

text \<open>The attribution fields of the request, which only the analytics capture reads, are left out.\<close>

record CreateIntentRequest =
  ci_StoreID :: string
  ci_ProductID :: string
  ci_ClientUnitPriceIDR :: i64
  ci_ClientTotalIDR :: i64
  ci_PayWhatYouWantIDR :: i64
  ci_TipIDR :: i64
  ci_UpsellProductIDs :: "string list"
  ci_CouponCode :: string
  ci_BuyerEmail :: string
  ci_BuyerName :: string
  ci_BuyerUserID :: string
  ci_BuyerSessionID :: string
  ci_BuyerIdentityHash :: string
  ci_IdempotencyKey :: string
  ci_ClientDiscountIDR :: i64

record CreateIntentResult =
  cx_Intent :: Intent
  cx_Order :: CheckoutOrder
  cx_Item :: "OrderItem option"
  cx_PublicToken :: string
  cx_Replayed :: bool
  cx_FeeIDR :: i64
  cx_MerchantNetIDR :: i64
  cx_GrossIDR :: i64
  cx_SubtotalIDR :: i64
  cx_DiscountIDR :: i64
  cx_TipIDR :: i64

definition create_guards :: "CheckoutService \<Rightarrow> CreateIntentRequest \<Rightarrow> unit result" where
  "create_guards s req =
    (if ci_StoreID req = [] \<or> ci_ProductID req = []
       then Inl (apperr_validation ''VALIDATION_FAILED'' ''storeId and productId are required'')
     else if trim_space (ci_IdempotencyKey req) = []
       then Inl (apperr_validation ''VALIDATION_FAILED'' ''Idempotency-Key is required'')
     else case ck_EmergencyDisabled s of None \<Rightarrow> Inr ()
       | Some f \<Rightarrow> if f ''QRIS_CHECKOUT'' = Inr True
           then Inl (apperr_forbidden ''FORBIDDEN'' ''QRIS checkout is temporarily disabled'') else Inr ())"

definition request_hash :: "CheckoutService \<Rightarrow> CreateIntentRequest \<Rightarrow> string" where
  "request_hash s req = hash_key (''v1|'' @ ci_StoreID req @ ''|'' @ ci_ProductID req @ ''|'' @ ck_mode s @ ''|'' @
     show_int (ci_PayWhatYouWantIDR req) @ ''|'' @ show_int (ci_TipIDR req) @ ''|'' @
     trim_space (to_lower (ci_CouponCode req)) @ ''|'' @ trim_space (to_lower (ci_BuyerEmail req)))"

definition replayed_intent :: "Intent \<Rightarrow> CheckoutOrder \<Rightarrow> OrderItem list \<Rightarrow> CreateIntentResult" where
  "replayed_intent pi ord items =
    \<lparr>cx_Intent = pi, cx_Order = ord, cx_Item = (case items of [] \<Rightarrow> None | i # _ \<Rightarrow> Some i), cx_PublicToken = [],
     cx_Replayed = True, cx_FeeIDR = or_FeeIDR ord, cx_MerchantNetIDR = or_MerchantNetIDR ord, cx_GrossIDR = or_GrossIDR ord,
     cx_SubtotalIDR = or_SubtotalIDR ord, cx_DiscountIDR = or_DiscountIDR ord, cx_TipIDR = or_TipIDR ord\<rparr>"

definition checkout_product :: "CreateIntentRequest \<Rightarrow> 'm checkout_db_scheme \<Rightarrow> ProductRow result" where
  "checkout_product req w =
    bindE (lookup_or ErrProductUnavailable ''Product lookup failed'' (CheckoutGetProduct (ci_StoreID req) (ci_ProductID req) w)) (\<lambda>p.
    if pr_Status p \<noteq> ''published'' then Inl ErrProductUnavailable
    else bindE (lookup_or ErrProductUnavailable ''Store lookup failed'' (CheckoutGetStore (ci_StoreID req) w)) (\<lambda>st.
      if snd st \<noteq> pr_MerchantID p then Inl ErrProductUnavailable else Inr p))"

definition merchandise_price :: "CreateIntentRequest \<Rightarrow> ProductRow \<Rightarrow> i64 result" where
  "merchandise_price req p =
    (if pr_AllowPWYT p then
       (let lowest = (case pr_MinimumPriceIDR p of None \<Rightarrow> pr_PriceIDR p | Some m \<Rightarrow> m) in
        if ci_PayWhatYouWantIDR req > 0 then
          (if ci_PayWhatYouWantIDR req < lowest
           then Inl (apperr_validation ''VALIDATION_FAILED'' ''Pay-what-you-want amount below minimum'')
           else Inr (ci_PayWhatYouWantIDR req))
        else Inr (if pr_PriceIDR p < lowest then lowest else pr_PriceIDR p))
     else Inr (pr_PriceIDR p))"

definition buyer_identity :: "CreateIntentRequest \<Rightarrow> string" where
  "buyer_identity req =
    (let h0 = ci_BuyerIdentityHash req;
         h1 = (if h0 = [] \<and> ci_BuyerUserID req \<noteq> [] then ''user:'' @ ci_BuyerUserID req else h0)
     in if h1 = [] \<and> ci_BuyerEmail req \<noteq> [] then ''email:'' @ NormalizeEmail (ci_BuyerEmail req) else h1)"

text \<open>What the coupon leaves of the price: the hold and its code, and the amounts to charge.\<close>

record Pricing =
  pc_ReservationID :: "string option"
  pc_CouponCode :: "string option"
  pc_CouponVersion :: "int option"
  pc_DiscountIDR :: i64
  pc_GrossBeforeFee :: i64
  pc_MerchandiseIDR :: i64
  pc_TipIDR :: i64

definition coupon_request :: "CreateIntentRequest \<Rightarrow> string \<Rightarrow> i64 \<Rightarrow> i64 \<Rightarrow> ReserveRequest" where
  "coupon_request req orderID merch tip =
    \<lparr>rq_StoreID = ci_StoreID req, rq_ProductID = ci_ProductID req, rq_OrderID = orderID,
     rq_IdempotencyKey = ''checkout:'' @ ci_IdempotencyKey req, rq_MerchandiseIDR = merch, rq_TipIDR = tip,
     rq_UpsellIDR = 0, rq_CouponCode = ci_CouponCode req, rq_ClientDiscountIDR = ci_ClientDiscountIDR req,
     rq_BuyerIdentityHash = buyer_identity req, rq_TTL = DefaultCheckoutTTL\<rparr>"

definition priced ::
    "CheckoutService \<Rightarrow> CreateIntentRequest \<Rightarrow> string \<Rightarrow> i64 \<Rightarrow> i64 \<Rightarrow> ('m checkout_db_scheme, Pricing) op" where
  "priced s req orderID merch tip =
    (if trim_space (ci_CouponCode req) \<noteq> [] then
       (if \<not> ck_Coupons s then throw (apperr_validation ''COUPON_UNAVAILABLE'' ''Coupon unavailable'')
        else bindS (Reserve (coupon_request req orderID merch tip)) (\<lambda>cres.
          let p = rr_Price cres in
          ret \<lparr>pc_ReservationID = Some (rs_ID (rr_Reservation cres)), pc_CouponCode = Some (ps_CouponCode p),
            pc_CouponVersion = Some (ps_CouponPolicyVersion p), pc_DiscountIDR = ps_DiscountIDR p,
            pc_GrossBeforeFee = ps_GrossIDR p, pc_MerchandiseIDR = ps_MerchandiseIDR p, pc_TipIDR = ps_TipIDR p\<rparr>))
     else ret \<lparr>pc_ReservationID = None, pc_CouponCode = None, pc_CouponVersion = None, pc_DiscountIDR = 0,
       pc_GrossBeforeFee = wrap64 (merch + tip), pc_MerchandiseIDR = merch, pc_TipIDR = tip\<rparr>)"

definition fee_of ::
    "CheckoutService \<Rightarrow> i64 \<Rightarrow> ('m checkout_db_scheme, TransactionFeeResult \<times> FeePolicy \<times> string) op" where
  "fee_of s gross =
    (if gross \<le> 0 then throw ErrPaymentAmount
     else case ck_Fees s of
       None \<Rightarrow> throw (internal ''Fee service unavailable'')
     | Some fees \<Rightarrow> with_state (\<lambda>w.
         bindS (liftE (CalculateTransaction fees gross SourceStorefront w)) (\<lambda>(res, policy).
         bindS (SnapshotTransaction fees SourceStorefront res policy) (\<lambda>snap. ret (res, policy, sn_ID snap)))))"

text \<open>The unit of a product that delivers codes; when there is none, the coupon hold is given back.\<close>

definition stock_request :: "CreateIntentRequest \<Rightarrow> string \<Rightarrow> string \<Rightarrow> ReserveStockRequest" where
  "stock_request req orderID intentID =
    \<lparr>sq_StoreID = ci_StoreID req, sq_ProductID = ci_ProductID req, sq_OrderID = orderID, sq_CheckoutID = intentID,
     sq_IdempotencyKey = ''checkout:'' @ ci_IdempotencyKey req, sq_TTL = DefaultCheckoutTTL\<rparr>"

definition stock_hold ::
    "CheckoutService \<Rightarrow> CreateIntentRequest \<Rightarrow> ProductRow \<Rightarrow> string \<Rightarrow> string \<Rightarrow> string option \<Rightarrow>
     ('m checkout_db_scheme, string option \<times> string option) op" where
  "stock_hold s req p orderID intentID couponRes =
    (if pr_Type p \<noteq> ''code'' then ret (None, None)
     else if \<not> ck_Inventory s then throw (internal ''Inventory unavailable'')
     else bindS (try_op (ReserveStock (stock_request req orderID intentID))) (\<lambda>r. case r of
         Inl e \<Rightarrow> bindS (free_coupon s couponRes) (\<lambda>_. throw e)
       | Inr sres \<Rightarrow> ret (Some (sr_ID (sx_Reservation sres)),
           Some (case sx_Item sres of None \<Rightarrow> [] | Some i \<Rightarrow> si_ID i))))"

subsection \<open>The rows of a new checkout\<close>

text \<open>The snapshots are maps, which \<open>json.Marshal\<close> writes with their keys sorted.\<close>

definition product_snapshot :: "ProductRow \<Rightarrow> i64 \<Rightarrow> string" where
  "product_snapshot p unitPrice = json_object
    [(''allowPwyt'', json_bool (pr_AllowPWYT p)), (''catalogPrice'', show_int (pr_PriceIDR p)),
     (''productId'', json_string (pr_ID p)), (''title'', json_string (pr_Title p)), (''type'', json_string (pr_Type p)),
     (''unitPrice'', show_int unitPrice), (''version'', json_string (pr_Version p))]"

definition price_snapshot :: "Pricing \<Rightarrow> TransactionFeeResult \<Rightarrow> FeePolicy \<Rightarrow> string \<Rightarrow> string" where
  "price_snapshot c fee policy snapID = json_object
    [(''discountIdr'', show_int (pc_DiscountIDR c)), (''feeIdr'', show_int (tf_TotalFeeIDR fee)),
     (''feeSnapshotId'', json_string snapID), (''grossIdr'', show_int (tf_GrossIDR fee)),
     (''merchandiseIdr'', show_int (pc_MerchandiseIDR c)), (''merchantNetIdr'', show_int (tf_NetIDR fee)),
     (''policyVersion'', json_string (fp_VersionID policy)), (''tipIdr'', show_int (pc_TipIDR c))]"

definition delivery_kind :: "string \<Rightarrow> string" where
  "delivery_kind ty = (if ty = ''link'' then ''PROTECTED_LINK'' else if ty = ''code'' then ''CODE'' else ''DOWNLOAD'')"

definition order_number :: "string \<Rightarrow> string" where
  "order_number orderID = ''ORD-'' @ drop (length orderID - 10) orderID"

definition contact_email :: "CreateIntentRequest \<Rightarrow> string" where
  "contact_email req = (let e = NormalizeEmail (ci_BuyerEmail req) in
     if e = [] then trim_space (to_lower (ci_BuyerEmail req)) else e)"

text \<open>The identifiers of a new checkout, drawn before anything is held.\<close>

record CheckoutIDs =
  id_Order :: string
  id_Intent :: string
  id_Item :: string

definition checkout_ids :: "('m checkout_db_scheme, CheckoutIDs) op" where
  "checkout_ids = bindS new_id (\<lambda>a. bindS new_id (\<lambda>b. bindS new_id (\<lambda>c.
     ret \<lparr>id_Order = prefixed ''ord_'' a, id_Intent = prefixed ''pi_'' b, id_Item = c\<rparr>)))"

definition external_ref :: "CheckoutService \<Rightarrow> CheckoutIDs \<Rightarrow> string" where
  "external_ref s ids = ''fersaku_'' @ ck_mode s @ ''_'' @ id_Intent ids"

text \<open>What the rows are made of, once prices, fee, holds and the public token are known.\<close>

record Draft =
  df_IDs :: CheckoutIDs
  df_Product :: ProductRow
  df_Pricing :: Pricing
  df_Fee :: TransactionFeeResult
  df_Policy :: FeePolicy
  df_FeeSnapshotID :: string
  df_StockReservationID :: "string option"
  df_StockItemID :: "string option"
  df_PublicToken :: string
  df_Now :: time

definition new_order :: "CheckoutService \<Rightarrow> CreateIntentRequest \<Rightarrow> Draft \<Rightarrow> CheckoutOrder" where
  "new_order s req d =
    \<lparr>or_ID = id_Order (df_IDs d), or_OrderNumber = order_number (id_Order (df_IDs d)), or_StoreID = ci_StoreID req,
     or_MerchantID = pr_MerchantID (df_Product d), or_BuyerUserID = opt_string (ci_BuyerUserID req),
     or_BuyerEmail = contact_email req, or_BuyerName = trim_space (ci_BuyerName req), or_PaymentStatus = PaymentPending,
     or_Source = SourceStorefront, or_Currency = CurrencyIDR, or_SubtotalIDR = pc_MerchandiseIDR (df_Pricing d),
     or_DiscountIDR = pc_DiscountIDR (df_Pricing d), or_TipIDR = pc_TipIDR (df_Pricing d),
     or_FeeIDR = tf_TotalFeeIDR (df_Fee d), or_GrossIDR = tf_GrossIDR (df_Fee d), or_MerchantNetIDR = tf_NetIDR (df_Fee d),
     or_CouponCode = pc_CouponCode (df_Pricing d), or_CouponVersion = pc_CouponVersion (df_Pricing d), or_PaidAt = None,
     or_CreatedAt = df_Now d, or_UpdatedAt = df_Now d, or_OrderStatus = OrderPendingPayment, or_PaymentMode = ck_mode s,
     or_FeeSnapshotID = Some (df_FeeSnapshotID d), or_CouponReservationID = pc_ReservationID (df_Pricing d),
     or_PublicTokenHash = Some (hashToken s (df_PublicToken d)), or_BuyerSessionID = opt_string (ci_BuyerSessionID req),
     or_ExpiresAt = Some (df_Now d + DefaultCheckoutTTL), or_IdempotencyKeyHash = Some (hash_key (ci_IdempotencyKey req))\<rparr>"

definition new_order_item :: "CreateIntentRequest \<Rightarrow> Draft \<Rightarrow> OrderItem" where
  "new_order_item req d =
    (let c = df_Pricing d; p = df_Product d in
     \<lparr>oi_ID = id_Item (df_IDs d), oi_OrderID = id_Order (df_IDs d), oi_StoreID = ci_StoreID req,
      oi_MerchantID = pr_MerchantID p, oi_ProductID = pr_ID p, oi_ProductVersion = pr_Version p, oi_ProductTitle = pr_Title p,
      oi_ProductType = pr_Type p, oi_UnitPriceIDR = pc_MerchandiseIDR c, oi_Quantity = 1,
      oi_LineSubtotalIDR = pc_MerchandiseIDR c, oi_DiscountAllocationIDR = pc_DiscountIDR c,
      oi_LineTotalIDR = wrap64 (pc_MerchandiseIDR c - pc_DiscountIDR c), oi_DeliveryKind = delivery_kind (pr_Type p),
      oi_StockReservationID = df_StockReservationID d, oi_StockItemID = df_StockItemID d, oi_ObjectID = None,
      oi_CreatedAt = df_Now d\<rparr>)"

definition new_intent :: "CheckoutService \<Rightarrow> CreateIntentRequest \<Rightarrow> Draft \<Rightarrow> Intent" where
  "new_intent s req d =
    \<lparr>it_ID = id_Intent (df_IDs d), it_OrderID = id_Order (df_IDs d), it_StoreID = ci_StoreID req,
     it_MerchantID = pr_MerchantID (df_Product d), it_PaymentMode = ck_mode s, it_Source = SourceStorefront,
     it_Provider = paymentProvider s, it_AccountScope = paymentAccountScope s, it_ProviderReference = None,
     it_ExternalID = external_ref s (df_IDs d), it_AmountIDR = tf_GrossIDR (df_Fee d), it_Currency = CurrencyIDR,
     it_FeeSnapshotID = Some (df_FeeSnapshotID d), it_CouponReservationID = pc_ReservationID (df_Pricing d),
     it_StockReservationID = df_StockReservationID d, it_Status = IntentRequiresPayment,
     it_ProviderFinancialState = FinancialNormal, it_QRString = None, it_QRImageURL = None,
     it_ExpiresAt = df_Now d + DefaultCheckoutTTL, it_CancelRequestedAt = None, it_ExpireRequestedAt = None,
     it_CancelReason = None, it_ExpireReason = None, it_UnknownOperation = None, it_LookupScheduledAt = None,
     it_LookupAttempts = 0, it_PaidLate = False, it_PrecedingStatus = None, it_BuyerUserID = opt_string (ci_BuyerUserID req),
     it_BuyerEmail = contact_email req, it_BuyerSessionID = opt_string (ci_BuyerSessionID req),
     it_PublicTokenHash = Some (hashToken s (df_PublicToken d)), it_IdempotencyKeyHash = hash_key (ci_IdempotencyKey req),
     it_RequestHash = request_hash s req, it_ProductSnapshot = product_snapshot (df_Product d) (pc_MerchandiseIDR (df_Pricing d)),
     it_PriceSnapshot = price_snapshot (df_Pricing d) (df_Fee d) (df_Policy d) (df_FeeSnapshotID d),
     it_MerchantReference = None, it_Description = [], it_SuccessURL = None, it_FailureURL = None,
     it_WebhookEndpointID = None, it_WebhookConfigVersion = None, it_Metadata = [], it_Version = 1,
     it_CreatedAt = df_Now d, it_UpdatedAt = df_Now d\<rparr>"

subsection \<open>The transaction and the provider call\<close>

definition idempotency_record :: "CheckoutService \<Rightarrow> CreateIntentRequest \<Rightarrow> Draft \<Rightarrow> string \<Rightarrow> IdempotencyRecord" where
  "idempotency_record s req d i =
    \<lparr>ik_ID = i, ik_SubjectType = ''checkout'', ik_SubjectID = ci_StoreID req, ik_Operation = ''checkout.create_intent'',
     ik_PaymentMode = Some (ck_mode s), ik_KeyHash = hash_key (ci_IdempotencyKey req), ik_RequestHash = request_hash s req,
     ik_Status = ''IN_PROGRESS'', ik_ResourceType = Some ''payment_intent'', ik_ResourceID = Some (id_Intent (df_IDs d)),
     ik_ResponseStatus = None, ik_ResponseBody = [], ik_RequestID = None, ik_LeaseExpiresAt = Some (df_Now d + seconds 120),
     ik_ExpiresAt = df_Now d + seconds (24 * 60 * 60)\<rparr>"

definition create_checkout_tx :: "CheckoutService \<Rightarrow> CreateIntentRequest \<Rightarrow> Draft \<Rightarrow> ('m checkout_db_scheme, unit) op" where
  "create_checkout_tx s req d =
    bindS new_id (\<lambda>i.
    bindS (TryInsertIdempotency (idempotency_record s req d i)) (\<lambda>inserted.
    if \<not> inserted then throw ErrIdempotencyConflict
    else bindS (InsertOrder (new_order s req d)) (\<lambda>_.
      bindS (InsertOrderItem (new_order_item req d)) (\<lambda>_.
      bindS (try_op (InsertPaymentIntent (new_intent s req d))) (\<lambda>r. case r of
        Inl e \<Rightarrow> throw (if is_unique_violation e then ErrIdempotencyConflict else e)
      | Inr _ \<Rightarrow> ret ())))))"

text \<open>
  When the transaction fails, the holds are given back; after a conflict the winner's intent is
  answered. A failed order lookup is dropped there and leaves Go's zero order (\<open>zero_order\<close>).
\<close>

definition zero_order :: CheckoutOrder where
  "zero_order = \<lparr>or_ID = [], or_OrderNumber = [], or_StoreID = [], or_MerchantID = [], or_BuyerUserID = None,
     or_BuyerEmail = [], or_BuyerName = [], or_PaymentStatus = [], or_Source = [], or_Currency = [], or_SubtotalIDR = 0,
     or_DiscountIDR = 0, or_TipIDR = 0, or_FeeIDR = 0, or_GrossIDR = 0, or_MerchantNetIDR = 0, or_CouponCode = None,
     or_CouponVersion = None, or_PaidAt = None, or_CreatedAt = time_zero, or_UpdatedAt = time_zero, or_OrderStatus = [],
     or_PaymentMode = [], or_FeeSnapshotID = None, or_CouponReservationID = None, or_PublicTokenHash = None,
     or_BuyerSessionID = None, or_ExpiresAt = None, or_IdempotencyKeyHash = None\<rparr>"

definition conflict_answer ::
    "CheckoutService \<Rightarrow> CreateIntentRequest \<Rightarrow> go_error \<Rightarrow> ('m checkout_db_scheme, CreateIntentResult) op" where
  "conflict_answer s req e =
    (let failed = throw (apperr_wrap KindInternal ''INTERNAL_ERROR'' ''Failed to create checkout'' e) in
     if e \<noteq> ErrIdempotencyConflict then failed
     else with_state (\<lambda>w.
       case GetPaymentIntentByIdempotency SourceStorefront (ck_mode s) (hash_key (ci_IdempotencyKey req)) w of
         Inl _ \<Rightarrow> failed
       | Inr existing \<Rightarrow>
         if it_RequestHash existing \<noteq> request_hash s req then throw ErrIdempotencyConflict
         else ret (replayed_intent existing
           (case GetOrderByID (it_OrderID existing) w of Inl _ \<Rightarrow> zero_order | Inr ord \<Rightarrow> ord)
           (ListOrderItems (it_OrderID existing) w))))"

definition create_failed ::
    "CheckoutService \<Rightarrow> CreateIntentRequest \<Rightarrow> Draft \<Rightarrow> go_error \<Rightarrow> ('m checkout_db_scheme, CreateIntentResult) op" where
  "create_failed s req d e =
    bindS (free_stock s (df_StockReservationID d)) (\<lambda>_.
    bindS (free_coupon s (pc_ReservationID (df_Pricing d))) (\<lambda>_. conflict_answer s req e))"

definition create_input_qris :: "CheckoutService \<Rightarrow> CreateIntentRequest \<Rightarrow> Draft \<Rightarrow> CreateQRISInput" where
  "create_input_qris s req d =
    \<lparr>cq_ExternalID = external_ref s (df_IDs d), cq_AmountIDR = tf_GrossIDR (df_Fee d), cq_Currency = CurrencyIDR,
     cq_Description = ''Fersaku order '' @ order_number (id_Order (df_IDs d)), cq_ExpiresAt = df_Now d + DefaultCheckoutTTL,
     cq_PaymentMode = ck_mode s, cq_AccountScope = paymentAccountScope s, cq_IdempotencyKey = ci_IdempotencyKey req,
     cq_Metadata = [(''orderId'', id_Order (df_IDs d)), (''intentId'', id_Intent (df_IDs d)), (''source'', SourceStorefront)]\<rparr>"

definition created_result ::
    "CheckoutService \<Rightarrow> CreateIntentRequest \<Rightarrow> Draft \<Rightarrow> Intent \<Rightarrow> CreateIntentResult" where
  "created_result s req d pi =
    \<lparr>cx_Intent = pi, cx_Order = new_order s req d, cx_Item = Some (new_order_item req d), cx_PublicToken = df_PublicToken d,
     cx_Replayed = False, cx_FeeIDR = tf_TotalFeeIDR (df_Fee d), cx_MerchantNetIDR = tf_NetIDR (df_Fee d),
     cx_GrossIDR = tf_GrossIDR (df_Fee d), cx_SubtotalIDR = pc_MerchandiseIDR (df_Pricing d),
     cx_DiscountIDR = pc_DiscountIDR (df_Pricing d), cx_TipIDR = pc_TipIDR (df_Pricing d)\<rparr>"

text \<open>
  The provider did not accept: an unknown outcome keeps the holds and asks for a lookup, a rejection
  gives the holds back and fails the intent and the order.
\<close>

definition lookup_payload :: "string \<Rightarrow> string \<Rightarrow> string" where
  "lookup_payload intentID operation =
    json_object [(''operation'', json_string operation), (''paymentIntentId'', json_string intentID)]"

definition provider_failed ::
    "CheckoutService \<Rightarrow> CreateIntentRequest \<Rightarrow> Draft \<Rightarrow> go_error \<Rightarrow> ('m checkout_db_scheme, CreateIntentResult) op" where
  "provider_failed s req d e =
    (let now = df_Now d; intentID = id_Intent (df_IDs d); couponRes = pc_ReservationID (df_Pricing d) in
     if outcome_unknown e then
       bindS (try_op (ForceUpdatePaymentIntent intentID IntentUnknownOutcome (unknown_patch ''CREATE'' now) now)) (\<lambda>r.
       let pi = (case r of Inr i \<Rightarrow> i | Inl _ \<Rightarrow> (new_intent s req d)\<lparr>it_Status := IntentUnknownOutcome\<rparr>) in
       bindS (hold_coupon s couponRes) (\<lambda>_.
       bindS (schedule ''payment_intent.lookup'' (lookup_payload intentID ''CREATE'') (''lookup:'' @ intentID) (ck_mode s)
         (now + DefaultLookupDelay)) (\<lambda>_. ret (created_result s req d pi))))
     else
       bindS (free_stock s (df_StockReservationID d)) (\<lambda>_.
       bindS (free_coupon s couponRes) (\<lambda>_.
       bindS (drop_result (ForceUpdatePaymentIntent intentID IntentFailed no_patch now)) (\<lambda>_.
       bindS (drop_result (UpdateOrderStatus (id_Order (df_IDs d)) PaymentFailed OrderFailed now)) (\<lambda>_.
       throw (apperr_new KindUnavailable ''INTERNAL_ERROR'' ''Payment provider rejected create''))))))"

definition response_body :: "Draft \<Rightarrow> Intent \<Rightarrow> string" where
  "response_body d pi = json_object
    [(''amount'', show_int (it_AmountIDR pi)), (''orderId'', json_string (id_Order (df_IDs d))),
     (''paymentIntentId'', json_string (id_Intent (df_IDs d))), (''status'', json_string (it_Status pi))]"

text \<open>The provider accepted: the intent becomes payable, and the response is kept under its key.\<close>

definition activate_intent :: "Draft \<Rightarrow> CreateQRISResult \<Rightarrow> ('m checkout_db_scheme, Intent) op" where
  "activate_intent d created =
    (let patch = no_patch\<lparr>ip_ProviderReference := Some (cs_ProviderReference created), ip_QRString := Some (cs_QRString created),
           ip_QRImageURL := Some (cs_QRImageURL created)\<rparr> in
     bindS (try_op (UpdatePaymentIntentStatus (id_Intent (df_IDs d)) IntentRequiresPayment IntentPending patch (df_Now d))) (\<lambda>r.
     case r of Inr i \<Rightarrow> ret i
       | Inl _ \<Rightarrow> or_internal ''Failed to activate payment intent''
           (ForceUpdatePaymentIntent (id_Intent (df_IDs d)) IntentPending patch (df_Now d))))"

definition finish_created ::
    "CheckoutService \<Rightarrow> CreateIntentRequest \<Rightarrow> Draft \<Rightarrow> Intent \<Rightarrow> ('m checkout_db_scheme, CreateIntentResult) op" where
  "finish_created s req d pi =
    (let intentID = id_Intent (df_IDs d) in
     bindS (with_state (\<lambda>w.
       case GetIdempotency ''checkout'' (ci_StoreID req) ''checkout.create_intent'' (Some (ck_mode s))
           (hash_key (ci_IdempotencyKey req)) w of
         Inl _ \<Rightarrow> ret ()
       | Inr rec \<Rightarrow> drop_result (CompleteIdempotency (ik_ID rec) ''COMPLETED'' (Some ''payment_intent'') (Some intentID) 201
           (response_body d pi)))) (\<lambda>_.
     bindS (schedule ''payment_intent.expire'' (json_object [(''paymentIntentId'', json_string intentID)])
       (''expire:'' @ intentID) (ck_mode s) (df_Now d + DefaultCheckoutTTL)) (\<lambda>_.
     ret (created_result s req d pi))))"

definition activated ::
    "CheckoutService \<Rightarrow> CreateIntentRequest \<Rightarrow> Draft \<Rightarrow> CreateQRISResult \<Rightarrow> ('m checkout_db_scheme, CreateIntentResult) op" where
  "activated s req d created = bindS (activate_intent d created) (finish_created s req d)"

definition provider_answered ::
    "CheckoutService \<Rightarrow> CreateIntentRequest \<Rightarrow> Draft \<Rightarrow> CreateQRISResult result \<Rightarrow> ('m checkout_db_scheme, CreateIntentResult) op" where
  "provider_answered s req d res = (case res of Inl e \<Rightarrow> provider_failed s req d e | Inr created \<Rightarrow> activated s req d created)"

definition submit ::
    "CheckoutService \<Rightarrow> CreateIntentRequest \<Rightarrow> Draft \<Rightarrow> ('m checkout_db_scheme, CreateIntentResult) op" where
  "submit s req d =
    bindS (try_op (with_tx (create_checkout_tx s req d))) (\<lambda>r. case r of
      Inl e \<Rightarrow> create_failed s req d e
    | Inr _ \<Rightarrow>
      (case ck_QRIS s of
         None \<Rightarrow> throw (internal ''Payment provider unavailable'')
       | Some p \<Rightarrow> bindS (qris_create p (create_input_qris s req d)) (provider_answered s req d)))"

text \<open>
  A new checkout: the coupon, the fee snapshot, the unit and the token in this order, then the rows.
  An order identifier shorter than ten bytes makes the slice of the order number panic.
\<close>

definition draft_of ::
    "CheckoutIDs \<Rightarrow> ProductRow \<Rightarrow> Pricing \<Rightarrow> TransactionFeeResult \<times> FeePolicy \<times> string \<Rightarrow>
     string option \<times> string option \<Rightarrow> string \<Rightarrow> time \<Rightarrow> Draft" where
  "draft_of ids p c fee hold token now =
    \<lparr>df_IDs = ids, df_Product = p, df_Pricing = c, df_Fee = fst fee, df_Policy = fst (snd fee),
     df_FeeSnapshotID = snd (snd fee), df_StockReservationID = fst hold, df_StockItemID = snd hold,
     df_PublicToken = token, df_Now = now\<rparr>"

definition submit_draft ::
    "CheckoutService \<Rightarrow> CreateIntentRequest \<Rightarrow> CheckoutIDs \<Rightarrow> (string \<Rightarrow> time \<Rightarrow> Draft) \<Rightarrow>
     ('m checkout_db_scheme, CreateIntentResult) op" where
  "submit_draft s req ids d = with_state (\<lambda>w.
    case ck_Token s (next_id w) of
      Inl _ \<Rightarrow> throw (internal ''Token generation failed'')
    | Inr token \<Rightarrow>
      if length (id_Order ids) < 10 then throw (PlainError ''slice bounds out of range'')
      else submit s req (d token (clock w)))"

definition fresh_intent ::
    "CheckoutService \<Rightarrow> CreateIntentRequest \<Rightarrow> ProductRow \<Rightarrow> i64 \<Rightarrow> ('m checkout_db_scheme, CreateIntentResult) op" where
  "fresh_intent s req p merch =
    bindS checkout_ids (\<lambda>ids.
    bindS (priced s req (id_Order ids) merch (max 0 (ci_TipIDR req))) (\<lambda>c.
    bindS (fee_of s (pc_GrossBeforeFee c)) (\<lambda>fee.
    bindS (stock_hold s req p (id_Order ids) (id_Intent ids) (pc_ReservationID c)) (\<lambda>hold.
    submit_draft s req ids (draft_of ids p c fee hold)))))"

definition replay_answer :: "CheckoutService \<Rightarrow> CreateIntentRequest \<Rightarrow> Intent \<Rightarrow> ('m checkout_db_scheme, CreateIntentResult) op" where
  "replay_answer s req existing = with_state (\<lambda>w.
    if it_RequestHash existing \<noteq> request_hash s req then throw ErrIdempotencyConflict
    else case GetOrderByID (it_OrderID existing) w of
        Inl _ \<Rightarrow> throw (internal ''Order lookup failed'')
      | Inr ord \<Rightarrow> ret (replayed_intent existing ord (ListOrderItems (it_OrderID existing) w)))"

definition new_checkout :: "CheckoutService \<Rightarrow> CreateIntentRequest \<Rightarrow> ('m checkout_db_scheme, CreateIntentResult) op" where
  "new_checkout s req = with_state (\<lambda>w.
    bindS (liftE (checkout_product req w)) (\<lambda>p.
    bindS (liftE (merchandise_price req p)) (\<lambda>merch. fresh_intent s req p merch)))"

definition CreateIntent :: "CheckoutService \<Rightarrow> CreateIntentRequest \<Rightarrow> ('m checkout_db_scheme, CreateIntentResult) op" where
  "CreateIntent s req = with_state (\<lambda>w.
    bindS (liftE (create_guards s req)) (\<lambda>_.
    case GetPaymentIntentByIdempotency SourceStorefront (ck_mode s) (hash_key (ci_IdempotencyKey req)) w of
      Inr existing \<Rightarrow> replay_answer s req existing
    | Inl e \<Rightarrow>
      if \<not> is_not_found e then throw (internal ''Idempotency lookup failed'') else new_checkout s req))"

subsection \<open>Expiring, looking up, simulating\<close>

text \<open>An update whose error is dropped: the row it answers, or the one known before.\<close>

definition force_or ::
    "Intent \<Rightarrow> string \<Rightarrow> string \<Rightarrow> PaymentIntentPatch \<Rightarrow> time \<Rightarrow> ('m checkout_db_scheme, Intent) op" where
  "force_or other i to p at =
    bindS (try_op (ForceUpdatePaymentIntent i to p at)) (\<lambda>r. case r of Inl _ \<Rightarrow> ret other | Inr pi \<Rightarrow> ret pi)"

text \<open>The verified unpaid ends: the order follows the intent and the holds are given back.\<close>

definition close_unpaid :: "CheckoutService \<Rightarrow> Intent \<Rightarrow> string \<Rightarrow> string \<Rightarrow> ('m checkout_db_scheme, unit) op" where
  "close_unpaid s pi paymentStatus orderStatus = with_state (\<lambda>w.
    bindS (drop_result (UpdateOrderStatus (it_OrderID pi) paymentStatus orderStatus (clock w))) (\<lambda>_.
    bindS (free_stock s (it_StockReservationID pi)) (\<lambda>_. free_coupon s (it_CouponReservationID pi))))"

record ExpireIntentRequest =
  ei_IntentID :: string
  ei_IdempotencyKey :: string
  ei_Reason :: string
  ei_BuyerSessionID :: string

definition expire_answer ::
    "CheckoutService \<Rightarrow> Intent \<Rightarrow> ProviderPayment result \<Rightarrow> time \<Rightarrow> ('m checkout_db_scheme, Intent \<times> int) op" where
  "expire_answer s pi res now = (case res of
     Inl e \<Rightarrow>
       if outcome_unknown e then
         bindS (force_or (pi\<lparr>it_Status := IntentUnknownOutcome\<rparr>) (it_ID pi) IntentUnknownOutcome (unknown_patch ''EXPIRE'' now) now) (\<lambda>pi.
         bindS (hold_coupon s (it_CouponReservationID pi)) (\<lambda>_.
         bindS (schedule ''payment_intent.lookup'' (lookup_payload (it_ID pi) ''EXPIRE'') (''lookup-expire:'' @ it_ID pi)
           (it_PaymentMode pi) (now + DefaultLookupDelay)) (\<lambda>_. ret (pi, 202))))
       else ret (pi, 202)
   | Inr prov \<Rightarrow>
     (let mapped = MapProviderStatus (pp_Status prov) in
      if mapped = IntentExpired then
        bindS (force_or (pi\<lparr>it_Status := IntentExpired\<rparr>) (it_ID pi) IntentExpired
          (no_patch\<lparr>ip_PrecedingStatus := Some (it_Status pi)\<rparr>) now) (\<lambda>pi.
        bindS (close_unpaid s pi PaymentExpired OrderExpired) (\<lambda>_. ret (pi, 200)))
      else if mapped = IntentPaid then
        bindS (force_or pi (it_ID pi) IntentPaid no_patch now) (\<lambda>pi. ret (pi, 200))
      else if mapped = IntentPending then ret (pi, 202)
      else bindS (force_or pi (it_ID pi) IntentUnknownOutcome (unknown_patch ''EXPIRE'' now) now) (\<lambda>pi. ret (pi, 202))))"

text \<open>After the local request: without a reference there is nothing to ask the provider.\<close>

definition expire_requested :: "CheckoutService \<Rightarrow> Intent \<Rightarrow> time \<Rightarrow> ('m checkout_db_scheme, Intent \<times> int) op" where
  "expire_requested s pi now =
    (if it_ProviderReference pi \<in> set [None, Some []] then
       bindS (drop_result (ForceUpdatePaymentIntent (it_ID pi) IntentUnknownOutcome (unknown_patch ''EXPIRE'' now) now)) (\<lambda>_.
       bindS (hold_coupon s (it_CouponReservationID pi)) (\<lambda>_. ret (pi\<lparr>it_Status := IntentUnknownOutcome\<rparr>, 202)))
     else case ck_QRIS s of None \<Rightarrow> ret (pi, 202)
       | Some p \<Rightarrow> bindS (qris_expire p (the (it_ProviderReference pi))) (\<lambda>res. expire_answer s pi res now))"

definition ExpireIntent :: "CheckoutService \<Rightarrow> ExpireIntentRequest \<Rightarrow> ('m checkout_db_scheme, Intent \<times> int) op" where
  "ExpireIntent s req = with_state (\<lambda>w.
    if ei_IntentID req = [] then throw ErrPaymentNotFound
    else if trim_space (ei_IdempotencyKey req) = []
      then throw (apperr_validation ''VALIDATION_FAILED'' ''Idempotency-Key is required'')
    else bindS (liftE (intent_lookup (GetPaymentIntentByID (ei_IntentID req) w))) (\<lambda>pi.
      if it_Status pi \<in> set [IntentExpired, IntentCancelled, IntentFailed, IntentPaid] then ret (pi, 200)
      else if it_Status pi \<in> set [IntentExpirePending, IntentUnknownOutcome] then ret (pi, 202)
      else if \<not> CanRequestExpire pi then throw ErrCheckoutClosed
      else bindS (try_op (UpdatePaymentIntentStatus (it_ID pi) (it_Status pi) IntentExpirePending
          (no_patch\<lparr>ip_ExpireRequestedAt := Some (clock w),
             ip_ExpireReason := Some (if ei_Reason req = [] then ''buyer_or_system_expire'' else ei_Reason req)\<rparr>) (clock w))) (\<lambda>r.
        case r of
          Inl _ \<Rightarrow> with_state (\<lambda>w. case GetPaymentIntentByID (it_ID pi) w of
             Inr pi2 \<Rightarrow> ret (pi2, 202) | Inl _ \<Rightarrow> throw (internal ''Failed to request expire''))
        | Inr pi \<Rightarrow> expire_requested s pi (clock w))))"

definition lookup_answer :: "CheckoutService \<Rightarrow> Intent \<Rightarrow> ProviderPayment \<Rightarrow> time \<Rightarrow> ('m checkout_db_scheme, Intent) op" where
  "lookup_answer s pi prov now =
    (let mapped = MapProviderStatus (pp_Status prov) in
     if mapped = IntentPaid then force_or pi (it_ID pi) IntentPaid no_patch now
     else if mapped = IntentExpired \<and> (it_UnknownOperation pi = Some ''EXPIRE'' \<or> it_Status pi = IntentExpirePending) then
       bindS (force_or pi (it_ID pi) IntentExpired no_patch now) (\<lambda>pi.
       bindS (close_unpaid s pi PaymentExpired OrderExpired) (\<lambda>_. ret pi))
     else if mapped = IntentCancelled \<and> it_UnknownOperation pi = Some ''CANCEL'' then
       bindS (force_or pi (it_ID pi) IntentCancelled no_patch now) (\<lambda>pi.
       bindS (close_unpaid s pi PaymentCancelled OrderCancelled) (\<lambda>_. ret pi))
     else if mapped = IntentPending \<and> it_Status pi = IntentUnknownOutcome then force_or pi (it_ID pi) IntentPending no_patch now
     else ret pi)"

definition LookupProvider :: "CheckoutService \<Rightarrow> string \<Rightarrow> ('m checkout_db_scheme, Intent) op" where
  "LookupProvider s intentID = with_state (\<lambda>w.
    case GetPaymentIntentByID intentID w of
      Inl e \<Rightarrow> throw (if is_not_found e then ErrPaymentNotFound else e)
    | Inr pi \<Rightarrow>
      (case ck_QRIS s of None \<Rightarrow> ret pi
       | Some p \<Rightarrow>
         if it_ProviderReference pi \<in> set [None, Some []] then ret pi
         else bindS (qris_get p (the (it_ProviderReference pi))) (\<lambda>res. case res of
             Inl _ \<Rightarrow> ret pi
           | Inr prov \<Rightarrow> lookup_answer s pi prov (clock w))))"

definition SimulatePayment :: "CheckoutService \<Rightarrow> string \<Rightarrow> ('m checkout_db_scheme, Intent) op" where
  "SimulatePayment s intentID = with_state (\<lambda>w.
    if \<not> ck_SimulateEnabled s then throw ErrSimulateDisabled
    else case GetPaymentIntentByID intentID w of
      Inl e \<Rightarrow> throw (if is_not_found e then ErrPaymentNotFound else e)
    | Inr pi \<Rightarrow>
      bindS (case (it_ProviderReference pi, ck_QRIS s) of
          (Some ref, Some p) \<Rightarrow> if qp_SimulatePay p then qris_simulate ref else ret ()
        | _ \<Rightarrow> ret ()) (\<lambda>_.
      bindS (or_internal ''Simulate paid failed'' (ForceUpdatePaymentIntent (it_ID pi) IntentPaid no_patch (clock w))) (\<lambda>fin.
      bindS (drop_result (UpdateOrderStatus (it_OrderID pi) PaymentPaid OrderPaid (clock w))) (\<lambda>_. ret fin))))"

end
