(* ===== verification/Checkout_Runs.thy ===== *)
theory Checkout_Runs
  imports Checkout_Service Coupon_Runs Inventory_Checkout
begin

text \<open>
  What the checkout does over time. The tables of the checkout are its own: no coupon, stock or fee
  operation touches them. Every change of an intent's status follows the status machine of the domain,
  whatever the provider answers, and the amount charged is the server's.
\<close>

subsection \<open>The other components leave the checkout's tables alone\<close>

definition checkout_tables where
  "checkout_tables w = (orders w, order_items w, payment_intents w, idempotency_records w, outbox_events w, qris_calls w)"

lemma checkout_tables_simps [simp]:
  "checkout_tables (w\<lparr>next_id := n\<rparr>) = checkout_tables w" "checkout_tables (w\<lparr>fee_snapshots := a\<rparr>) = checkout_tables w"
  "checkout_tables (w\<lparr>coupons := b\<rparr>) = checkout_tables w" "checkout_tables (w\<lparr>coupon_reservations := c\<rparr>) = checkout_tables w"
  "checkout_tables (w\<lparr>coupon_redemptions := d\<rparr>) = checkout_tables w" "checkout_tables (w\<lparr>stock_items := e\<rparr>) = checkout_tables w"
  "checkout_tables (w\<lparr>stock_reservations := f\<rparr>) = checkout_tables w"
  by (simp_all add: checkout_tables_def)

abbreviation "frames v m \<equiv> keeps (\<lambda>w. checkout_tables w = v) m"

lemma frames_new_id [inv_intros]: "frames v new_id"
  by (rule keeps_new_id) simp

lemma frames_with_tx: "frames v m \<Longrightarrow> frames v (with_tx m)"
  by (rule keeps_with_tx) simp_all

lemma frames_coupon_store [inv_intros]:
  "frames v (AdjustCouponCounters i a b)" "frames v (InsertCouponReservation r)"
  "frames v (UpdateCouponReservationState i from to at)"
  by (auto simp: keeps_def AdjustCouponCounters_def InsertCouponReservation_def UpdateCouponReservationState_def
      split: option.splits sum.splits if_splits prod.splits)

lemma frames_stock_store [inv_intros]:
  "frames v (UpdateStockItemStatus i from to at)" "frames v (UpdateStockReservationStatus i from to at)"
  "frames v (InsertStockReservation r)"
  by (auto simp: keeps_def UpdateStockItemStatus_def UpdateStockReservationStatus_def InsertStockReservation_def Let_def
      split: option.splits sum.splits if_splits prod.splits)

lemma keeps_or_internal [inv_intros]: "keeps P m \<Longrightarrow> keeps P (or_internal msg m)"
  by (auto simp: keeps_def or_internal_def split: prod.splits sum.splits)

lemma keeps_drop_result [inv_intros]: "keeps P m \<Longrightarrow> keeps P (drop_result m)"
  unfolding drop_result_def by (intro inv_intros)

lemma frames_Reserve [inv_intros]: "frames v (Reserve req)"
  unfolding Reserve_def reserve_tx_def Let_def
  by (intro inv_intros frames_with_tx keeps_case_sum keeps_case_option) (auto intro!: inv_intros)

lemma frames_ReleaseReservation [inv_intros]: "frames v (ReleaseReservation i)"
  unfolding ReleaseReservation_def release_tx_def Let_def
  by (intro inv_intros frames_with_tx keeps_case_sum keeps_case_option) (auto intro!: inv_intros)

lemma frames_MarkReservationHeldUnknown [inv_intros]: "frames v (MarkReservationHeldUnknown i)"
  unfolding MarkReservationHeldUnknown_def hold_tx_def Let_def
  by (intro inv_intros frames_with_tx keeps_case_sum keeps_case_option) (auto intro!: inv_intros)

lemma frames_ReserveStock [inv_intros]: "frames v (ReserveStock req)"
  unfolding ReserveStock_def claim_tx_def store_hold_def Let_def
  by (intro inv_intros frames_with_tx keeps_case_sum keeps_case_option) (auto intro!: inv_intros)

lemma frames_ReleaseStock [inv_intros]: "frames v (ReleaseStock i)"
  unfolding ReleaseStock_def stock_release_tx_def Let_def
  by (intro inv_intros frames_with_tx keeps_case_sum keeps_case_option) (auto intro!: inv_intros)

lemma frames_InsertSnapshot [inv_intros]: "frames v (InsertSnapshot sn)"
  by (auto simp: keeps_def InsertSnapshot_def split: option.splits sum.splits if_splits prod.splits)

lemma frames_SnapshotTransaction [inv_intros]: "frames v (SnapshotTransaction s source res policy)"
  unfolding SnapshotTransaction_def by (intro inv_intros)

lemma frames_holds [inv_intros]:
  "frames v (free_stock s i)" "frames v (free_coupon s i)" "frames v (hold_coupon s i)"
  unfolding free_stock_def free_coupon_def hold_coupon_def by (intro inv_intros)+

lemma frames_checkout_ids [inv_intros]: "frames v checkout_ids"
  unfolding checkout_ids_def by (intro inv_intros)

lemma frames_priced [inv_intros]: "frames v (priced s req i a b)"
  unfolding priced_def Let_def by (intro inv_intros)

lemma frames_fee_of [inv_intros]: "frames v (fee_of s gross)"
  unfolding fee_of_def by (intro inv_intros keeps_case_prod)

lemma frames_stock_hold [inv_intros]: "frames v (stock_hold s req p i j c)"
  unfolding stock_hold_def by (intro inv_intros)

subsection \<open>One intent's row\<close>

text \<open>
  \<open>row_is x w\<close>: \<open>x\<close> is the row of its id. \<open>evolves R w w'\<close>: every such row is followed in \<open>w'\<close> by a row
  it is related to. The relation is reflexive and transitive, so operations compose.
\<close>

definition row_is :: "Intent \<Rightarrow> 'm checkout_db_scheme \<Rightarrow> bool" where
  "row_is x w \<longleftrightarrow> filter (\<lambda>y. it_ID y = it_ID x) (payment_intents w) = [x]"

definition evolves :: "(Intent \<Rightarrow> Intent \<Rightarrow> bool) \<Rightarrow> 'm checkout_db_scheme \<Rightarrow> 'm checkout_db_scheme \<Rightarrow> bool" where
  "evolves R w w' \<longleftrightarrow> (\<forall>x. row_is x w \<longrightarrow> (\<exists>y. row_is y w' \<and> it_ID y = it_ID x \<and> R x y))"

definition moves ::
    "('m checkout_db_scheme \<Rightarrow> bool) \<Rightarrow> (Intent \<Rightarrow> Intent \<Rightarrow> bool) \<Rightarrow> ('m checkout_db_scheme, 'a) op \<Rightarrow> bool" where
  "moves C R m \<longleftrightarrow> (\<forall>w r w'. C w \<longrightarrow> m w = (r, w') \<longrightarrow> evolves R w w')"

abbreviation "steady v m \<equiv> keeps (\<lambda>w. payment_intents w = v) m"

lemma steady_frames:
  assumes "\<And>v. frames v m"
  shows "steady v m"
proof (rule keepsI)
  fix s r s' assume "payment_intents s = v" and run: "m s = (r, s')"
  from keepsD [OF assms run refl] this(1) show "payment_intents s' = v" by (simp add: checkout_tables_def)
qed

lemma steadyD: "steady (payment_intents w) m \<Longrightarrow> m w = (r, w') \<Longrightarrow> payment_intents w' = payment_intents w"
  by (auto dest: keepsD)

lemma row_is_cong: "payment_intents w' = payment_intents w \<Longrightarrow> row_is x w' = row_is x w"
  by (simp add: row_is_def)

lemma row_find:
  assumes "row_is x w" and "it_ID x = j"
  shows "find (\<lambda>y. it_ID y = j) (payment_intents w) = Some x"
proof -
  have "find P xs = Some x" if "filter P xs = [x]" for P and xs :: "Intent list"
    using that by (induction xs) (auto split: if_splits)
  with assms show ?thesis by (simp add: row_is_def)
qed

lemma row_read: "GetPaymentIntentByID j w = Inr pi \<Longrightarrow> row_is x w \<Longrightarrow> it_ID x = j \<Longrightarrow> pi = mapCheckoutPaymentIntent x"
  by (simp add: GetPaymentIntentByID_def intent_row_def row_find opt_row_def)

lemma mapCheckoutPaymentIntent_simps [simp]:
  "it_ID (mapCheckoutPaymentIntent x) = it_ID x" "it_Status (mapCheckoutPaymentIntent x) = it_Status x"
  "it_UnknownOperation (mapCheckoutPaymentIntent x) = it_UnknownOperation x"
  "it_OrderID (mapCheckoutPaymentIntent x) = it_OrderID x" "it_AmountIDR (mapCheckoutPaymentIntent x) = it_AmountIDR x"
  "it_RequestHash (mapCheckoutPaymentIntent x) = it_RequestHash x"
  "it_StockReservationID (mapCheckoutPaymentIntent x) = it_StockReservationID x"
  "it_CouponReservationID (mapCheckoutPaymentIntent x) = it_CouponReservationID x"
  "it_ProviderReference (mapCheckoutPaymentIntent x) = it_ProviderReference x"
  by (simp_all add: mapCheckoutPaymentIntent_def default_gateway_columns_def)

lemma filter_map_other:
  assumes "\<And>y. it_ID (f y) = it_ID y"
  shows "filter (\<lambda>y. it_ID y = i) (map (\<lambda>y. if sel y then f y else y) xs) =
    map (\<lambda>y. if sel y then f y else y) (filter (\<lambda>y. it_ID y = i) xs)"
  by (induction xs) (auto simp: assms)

text \<open>An update by id, perhaps with a guard, either changes nothing or changes that row as it should.\<close>

lemma update_intent_row:
  assumes run: "update_intent (\<lambda>y. it_ID y = j \<and> g y) f w = (r, w')" and keep: "\<And>y. it_ID (f y) = it_ID y"
    and x: "row_is x w"
  shows "payment_intents w' = payment_intents w \<and> (\<exists>e. r = Inl e) \<or> it_ID x \<noteq> j \<and> row_is x w' \<or>
    it_ID x = j \<and> g x \<and> row_is (f x) w' \<and> r = Inr (mapCheckoutPaymentIntent (f x))"
proof (cases r)
  case (Inl e)
  with run show ?thesis by (auto simp: update_intent_def split: sum.splits prod.splits)
next
  case (Inr pi)
  define sel where "sel = (\<lambda>y. it_ID y = j \<and> g y)"
  from run Inr obtain z where z: "find sel (payment_intents w) = Some z" "pi = mapCheckoutPaymentIntent (f z)"
    and w': "payment_intents w' = map (\<lambda>y. if sel y then f y else y) (payment_intents w)"
    by (auto simp: update_intent_def update_one_Inr sel_def split: sum.splits prod.splits)
  have rows: "filter (\<lambda>y. it_ID y = i) (payment_intents w') =
      map (\<lambda>y. if sel y then f y else y) (filter (\<lambda>y. it_ID y = i) (payment_intents w))" for i
    unfolding w' by (rule filter_map_other [OF keep])
  show ?thesis
  proof (cases "it_ID x = j")
    case False
    with rows [of "it_ID x"] x show ?thesis by (simp add: row_is_def sel_def)
  next
    case True
    from z(1) have "z \<in> set (payment_intents w)" "sel z" by (auto simp: find_Some_iff)
    with True have "z \<in> set (filter (\<lambda>y. it_ID y = it_ID x) (payment_intents w))" by (simp add: sel_def)
    with x have "z = x" by (simp add: row_is_def)
    with True z \<open>sel z\<close> rows [of "it_ID x"] x Inr show ?thesis by (simp add: row_is_def sel_def keep)
  qed
qed

lemma evolves_same: "reflp R \<Longrightarrow> payment_intents w' = payment_intents w \<Longrightarrow> evolves R w w'"
  unfolding evolves_def using row_is_cong by (metis reflpD)

lemma evolves_trans: "transp R \<Longrightarrow> evolves R w w1 \<Longrightarrow> evolves R w1 w2 \<Longrightarrow> evolves R w w2"
  unfolding evolves_def by (metis transpD)

lemma movesI: "(\<And>w r w'. C w \<Longrightarrow> m w = (r, w') \<Longrightarrow> evolves R w w') \<Longrightarrow> moves C R m"
  by (simp add: moves_def)

lemma movesD: "moves C R m \<Longrightarrow> C w \<Longrightarrow> m w = (r, w') \<Longrightarrow> evolves R w w'"
  by (simp add: moves_def)

lemma moves_weaken: "moves C R m \<Longrightarrow> (\<And>w. D w \<Longrightarrow> C w) \<Longrightarrow> moves D R m"
  by (simp add: moves_def)

lemma moves_steady: "reflp R \<Longrightarrow> (\<And>v. steady v m) \<Longrightarrow> moves C R m"
  by (rule movesI) (auto intro: evolves_same dest: steadyD)

lemma moves_bind:
  assumes "transp R" and "moves C R m" and "\<And>a w w1. C w \<Longrightarrow> m w = (Inr a, w1) \<Longrightarrow> D a w1"
    and "\<And>a. moves (D a) R (f a)"
  shows "moves C R (bindS m f)"
proof (rule movesI)
  fix w r w' assume c: "C w" and run: "bindS m f w = (r, w')"
  from run show "evolves R w w'"
  proof (cases rule: bindS_cases)
    case (err e)
    from movesD [OF assms(2) c err(1)] show ?thesis .
  next
    case (ok a w1)
    from movesD [OF assms(2) c ok(1)] movesD [OF assms(4) assms(3) [OF c ok(1)] ok(2)] show ?thesis
      by (rule evolves_trans [OF assms(1)])
  qed
qed

lemma moves_tx: "reflp R \<Longrightarrow> moves C R m \<Longrightarrow> moves C R (with_tx m)"
proof (rule movesI)
  fix w r w' assume r: "reflp R" and m: "moves C R m" and c: "C w" and run: "with_tx m w = (r, w')"
  show "evolves R w w'"
  proof (cases r)
    case (Inl e)
    with with_tx_fail run obtain n where "w' = w\<lparr>next_id := n\<rparr>" by blast
    with r show ?thesis by (intro evolves_same) simp_all
  next
    case (Inr a)
    with run movesD [OF m c] show ?thesis by simp
  qed
qed

lemma moves_try: "moves C R m \<Longrightarrow> moves C R (try_op m)"
  by (auto simp: moves_def try_op_def split: prod.splits)

lemma moves_drop: "transp R \<Longrightarrow> reflp R \<Longrightarrow> moves C R m \<Longrightarrow> moves C R (drop_result m)"
  unfolding drop_result_def by (rule moves_bind [where D = "\<lambda>_ _. True"]) (auto intro: moves_try moves_steady inv_intros)

lemma moves_or_internal: "moves C R m \<Longrightarrow> moves C R (or_internal msg m)"
  by (auto simp: moves_def or_internal_def split: prod.splits sum.splits)

lemma moves_update:
  assumes "reflp R" and keep: "\<And>y. it_ID (f y) = it_ID y"
    and step: "\<And>w x. C w \<Longrightarrow> row_is x w \<Longrightarrow> it_ID x = j \<Longrightarrow> g x \<Longrightarrow> R x (f x)"
  shows "moves C R (update_intent (\<lambda>y. it_ID y = j \<and> g y) f)"
proof (rule movesI)
  fix w r w' assume c: "C w" and run: "update_intent (\<lambda>y. it_ID y = j \<and> g y) f w = (r, w')"
  show "evolves R w w'" unfolding evolves_def
  proof (intro allI impI)
    fix x assume x: "row_is x w"
    from update_intent_row [OF run keep x] show "\<exists>y. row_is y w' \<and> it_ID y = it_ID x \<and> R x y"
      using step [OF c x] x assms(1) keep by (metis reflpD row_is_cong)
  qed
qed

subsection \<open>Lawful changes\<close>

text \<open>The terms of an intent never change, and its status follows the edges of the status machine.\<close>

definition intent_terms where
  "intent_terms x = (it_OrderID x, it_StoreID x, it_MerchantID x, it_PaymentMode x, it_Source x, it_Provider x,
     it_AccountScope x, it_ExternalID x, it_AmountIDR x, it_Currency x, it_FeeSnapshotID x, it_CouponReservationID x,
     it_StockReservationID x, it_IdempotencyKeyHash x, it_RequestHash x)"

definition status_known :: "Intent \<Rightarrow> bool" where
  "status_known x \<longleftrightarrow> it_Status x \<in> set [IntentRequiresPayment, IntentPending, IntentCancelPending, IntentExpirePending,
     IntentUnknownOutcome, IntentPaid, IntentFailed, IntentExpired, IntentCancelled] \<and>
     (it_UnknownOperation x = None \<or> it_Status x = IntentUnknownOutcome)"

definition status_edge :: "string \<Rightarrow> string \<Rightarrow> bool" where
  "status_edge a b \<longleftrightarrow> Transition a b = Inr ()"

definition lawful :: "Intent \<Rightarrow> Intent \<Rightarrow> bool" where
  "lawful x y \<longleftrightarrow> intent_terms y = intent_terms x \<and>
     (status_known x \<longrightarrow> status_known y \<and> status_edge\<^sup>*\<^sup>* (it_Status x) (it_Status y))"

lemma reflp_lawful: "reflp lawful"
  by (rule reflpI) (simp add: lawful_def)

lemma transp_lawful: "transp lawful"
  by (rule transpI) (auto simp: lawful_def)

lemma patch_fields [simp]:
  "it_ID (forced_intent to p at x) = it_ID x" "it_Status (forced_intent to p at x) = to"
  "it_UnknownOperation (forced_intent to p at x) = ip_UnknownOperation p"
  "intent_terms (forced_intent to p at x) = intent_terms x"
  "it_ID (patched_intent to p at x) = it_ID x" "it_Status (patched_intent to p at x) = to"
  "it_UnknownOperation (patched_intent to p at x) = keep_old (ip_UnknownOperation p) (it_UnknownOperation x)"
  "intent_terms (patched_intent to p at x) = intent_terms x"
  by (simp_all add: forced_intent_def patched_intent_def intent_terms_def)

lemma no_patch_fields [simp]:
  "ip_UnknownOperation no_patch = None" "ip_UnknownOperation (unknown_patch a t) = Some a"
  by (simp_all add: no_patch_def unknown_patch_def)

lemma lawful_forced:
  assumes "status_known x \<Longrightarrow> status_edge (it_Status x) to"
    and "to \<in> set [IntentRequiresPayment, IntentPending, IntentCancelPending, IntentExpirePending,
     IntentUnknownOutcome, IntentPaid, IntentFailed, IntentExpired, IntentCancelled]"
    and "ip_UnknownOperation p = None \<or> to = IntentUnknownOutcome"
  shows "lawful x (forced_intent to p at x)"
  using assms by (auto simp: lawful_def status_known_def)

lemma edges [simp]:
  "status_edge a a" "status_edge IntentUnknownOutcome IntentPending" "status_edge IntentUnknownOutcome IntentExpired"
  "status_edge IntentUnknownOutcome IntentCancelled" "status_edge IntentExpirePending IntentExpired"
  "status_edge IntentExpirePending IntentUnknownOutcome" "status_edge IntentExpirePending IntentPaid"
  "status_edge IntentRequiresPayment IntentPending" "status_edge IntentRequiresPayment IntentUnknownOutcome"
  "status_edge IntentRequiresPayment IntentFailed" "status_edge IntentRequiresPayment IntentExpirePending"
  "status_edge IntentPending IntentExpirePending"
  by (simp_all add: status_edge_def Transition_def intent_allowed_def)

text \<open>Payment can always be recognised, from whatever status.\<close>

lemma edge_paid: "status_known x \<Longrightarrow> status_edge (it_Status x) IntentPaid"
  by (auto simp: status_known_def status_edge_def Transition_def intent_allowed_def)

lemma moves_force:
  assumes "\<And>w x. C w \<Longrightarrow> row_is x w \<Longrightarrow> it_ID x = j \<Longrightarrow> status_known x \<Longrightarrow> status_edge (it_Status x) to"
    and "to \<in> set [IntentRequiresPayment, IntentPending, IntentCancelPending, IntentExpirePending,
     IntentUnknownOutcome, IntentPaid, IntentFailed, IntentExpired, IntentCancelled]"
    and "ip_UnknownOperation p = None \<or> to = IntentUnknownOutcome"
  shows "moves C lawful (ForceUpdatePaymentIntent j to p at)"
proof -
  have "moves C lawful (update_intent (\<lambda>y. it_ID y = j \<and> True) (forced_intent to p at))"
    by (rule moves_update [OF reflp_lawful patch_fields(1)]) (rule lawful_forced [OF assms])
  then show ?thesis by (simp add: ForceUpdatePaymentIntent_def)
qed

lemma moves_force_or:
  "moves C lawful (ForceUpdatePaymentIntent j to p at) \<Longrightarrow> moves C lawful (force_or other j to p at)"
  unfolding force_or_def
  by (rule moves_bind [OF transp_lawful moves_try, where D = "\<lambda>_ _. True"])
    (auto intro!: moves_steady reflp_lawful inv_intros)

lemma moves_with_state: "(\<And>v. C v \<Longrightarrow> moves (\<lambda>w. w = v) R (f v)) \<Longrightarrow> moves C R (with_state f)"
  by (simp add: moves_def)

definition knows :: "Intent \<Rightarrow> 'm checkout_db_scheme \<Rightarrow> bool" where
  "knows pi w \<longleftrightarrow> (\<forall>x. row_is x w \<longrightarrow> it_ID x = it_ID pi \<longrightarrow>
     it_Status x = it_Status pi \<and> it_UnknownOperation x = it_UnknownOperation pi)"

lemma read_id: "GetPaymentIntentByID j w = Inr pi \<Longrightarrow> it_ID pi = j"
proof -
  assume "GetPaymentIntentByID j w = Inr pi"
  then obtain z where "find (\<lambda>x. it_ID x = j) (payment_intents w) = Some z" "pi = mapCheckoutPaymentIntent z"
    by (cases "find (\<lambda>x. it_ID x = j) (payment_intents w)") (simp_all add: GetPaymentIntentByID_def intent_row_def opt_row_def)
  then show ?thesis using find_Some_mem by fastforce
qed

lemma knows_read: "GetPaymentIntentByID j w = Inr pi \<Longrightarrow> knows pi w"
  unfolding knows_def using row_read [of j w pi] read_id [of j w pi] by simp

lemma knows_steady: "knows pi w \<Longrightarrow> payment_intents w' = payment_intents w \<Longrightarrow> knows pi w'"
  by (simp add: knows_def row_is_def)

lemma steady_store [inv_intros]:
  "steady v (UpdateOrderStatus i a b t)" "steady v (InsertOutbox i c d e f t)" "steady v (TryInsertIdempotency rec)"
  "steady v (InsertOrder x)" "steady v (InsertOrderItem y)" "steady v (CompleteIdempotency i a rt ri n body)"
  "steady v (qris_create p inp)" "steady v (qris_get p ref)" "steady v (qris_expire p ref)" "steady v (qris_simulate ref)"
  by (auto simp: keeps_def UpdateOrderStatus_def InsertOutbox_def TryInsertIdempotency_def InsertOrder_def InsertOrderItem_def
      CompleteIdempotency_def qris_create_def qris_get_def qris_expire_def qris_simulate_def
      split: sum.splits if_splits prod.splits)

lemma steady_new_id [inv_intros]: "steady v new_id"
  by (rule keeps_new_id) simp

lemma steady_other [inv_intros]:
  "steady v (free_stock s i)" "steady v (free_coupon s i)" "steady v (hold_coupon s i)" "steady v checkout_ids"
  "steady v (priced s req oid a b)" "steady v (fee_of s gross)" "steady v (stock_hold s req p oid j c)"
  by (rule steady_frames, rule inv_intros)+

lemma steady_close_unpaid [inv_intros]: "steady v (close_unpaid s pi a b)"
  unfolding close_unpaid_def by (intro inv_intros)

lemma steady_schedule [inv_intros]: "steady v (schedule topic payload dedupe mode at)"
  unfolding schedule_def by (intro inv_intros)

lemma moves_steady_lawful: "(\<And>v. steady v m) \<Longrightarrow> moves C lawful m"
  by (rule moves_steady [OF reflp_lawful])

lemma moves_then_steady:
  assumes "moves C lawful m" and "\<And>a v. steady v (f a)"
  shows "moves C lawful (bindS m f)"
  by (rule moves_bind [OF transp_lawful assms(1), where D = "\<lambda>_ _. True"]) (auto intro!: moves_steady_lawful assms(2))

lemma steady_then_moves:
  assumes "\<And>v. steady v m" and "\<And>a. moves C lawful (f a)"
    and "\<And>w w'. C w \<Longrightarrow> payment_intents w' = payment_intents w \<Longrightarrow> C w'"
  shows "moves C lawful (bindS m f)"
  by (rule moves_bind [OF transp_lawful moves_steady_lawful [OF assms(1)], where D = "\<lambda>_. C"])
    (auto intro: assms(2,3) dest: steadyD [OF assms(1)])

lemma moves_if: "(c \<Longrightarrow> moves C R a) \<Longrightarrow> (\<not> c \<Longrightarrow> moves C R b) \<Longrightarrow> moves C R (if c then a else b)"
  by simp

lemma moves_lookup_answer: "moves (knows pi) lawful (lookup_answer s pi prov now)"
proof -
  let ?m = "MapProviderStatus (pp_Status prov)"
  have paid: "moves (knows pi) lawful (force_or pi (it_ID pi) IntentPaid no_patch now)"
    by (intro moves_force_or moves_force) (auto intro: edge_paid)
  have known: "it_UnknownOperation pi = Some a \<Longrightarrow> knows pi w \<Longrightarrow> row_is x w \<Longrightarrow> it_ID x = it_ID pi \<Longrightarrow> status_known x \<Longrightarrow>
      it_Status x = IntentUnknownOutcome" for a w x
    by (auto simp: knows_def status_known_def)
  have expired: "moves (knows pi) lawful (force_or pi (it_ID pi) IntentExpired no_patch now)"
    if "it_UnknownOperation pi = Some ''EXPIRE'' \<or> it_Status pi = IntentExpirePending"
  proof (intro moves_force_or moves_force)
    fix w :: "'b checkout_db_scheme" and x
    assume x: "knows pi w" "row_is x w" "it_ID x = it_ID pi" "status_known x"
    from x(1-3) have "it_Status x = it_Status pi" by (simp add: knows_def)
    with that known [OF _ x] have "it_Status x = IntentUnknownOutcome \<or> it_Status x = IntentExpirePending" by metis
    then show "status_edge (it_Status x) IntentExpired" by (elim disjE) (simp_all only: edges)
  qed simp_all
  have cancelled: "moves (knows pi) lawful (force_or pi (it_ID pi) IntentCancelled no_patch now)"
    if "it_UnknownOperation pi = Some ''CANCEL''"
    by (intro moves_force_or moves_force) (simp_all only: known [OF that] edges list.set insert_iff no_patch_fields simp_thms)
  have pending: "moves (knows pi) lawful (force_or pi (it_ID pi) IntentPending no_patch now)"
    if "it_Status pi = IntentUnknownOutcome"
    using that by (intro moves_force_or moves_force) (auto simp: knows_def)
  show ?thesis
    unfolding lookup_answer_def Let_def
    by (intro moves_if paid pending moves_then_steady [OF expired] moves_then_steady [OF cancelled])
      (auto intro!: inv_intros moves_steady_lawful)
qed

lemma moves_case_option:
  "(v = None \<Longrightarrow> moves C R a) \<Longrightarrow> (\<And>x. v = Some x \<Longrightarrow> moves C R (f x)) \<Longrightarrow> moves C R (case v of None \<Rightarrow> a | Some x \<Rightarrow> f x)"
  by (cases v) simp_all

lemma moves_case_sum:
  "(\<And>x. v = Inl x \<Longrightarrow> moves C R (f x)) \<Longrightarrow> (\<And>y. v = Inr y \<Longrightarrow> moves C R (g y)) \<Longrightarrow>
     moves C R (case v of Inl x \<Rightarrow> f x | Inr y \<Rightarrow> g y)"
  by (cases v) simp_all

lemma moves_ret [intro]: "moves C lawful (ret a)" "moves C lawful (throw e)" "moves C lawful (liftE r)"
  by (auto intro!: moves_steady_lawful inv_intros)

lemma moves_LookupProvider: "moves (\<lambda>_. True) lawful (LookupProvider s i)"
  unfolding LookupProvider_def
proof (intro moves_with_state moves_case_sum moves_case_option moves_if moves_ret)
  fix v :: "'a checkout_db_scheme" and pi p
  assume read: "GetPaymentIntentByID i v = Inr pi"
  have "moves (knows pi) lawful
    (bindS (qris_get p (the (it_ProviderReference pi))) (\<lambda>res. case res of Inl _ \<Rightarrow> ret pi | Inr prov \<Rightarrow> lookup_answer s pi prov (clock v)))"
    by (rule steady_then_moves) (auto intro: inv_intros knows_steady moves_lookup_answer split: sum.split)
  then show "moves (\<lambda>w. w = v) lawful
    (bindS (qris_get p (the (it_ProviderReference pi))) (\<lambda>res. case res of Inl _ \<Rightarrow> ret pi | Inr prov \<Rightarrow> lookup_answer s pi prov (clock v)))"
    by (rule moves_weaken) (simp add: knows_read [OF read])
qed

lemma moves_SimulatePayment: "moves (\<lambda>_. True) lawful (SimulatePayment s i)"
  unfolding SimulatePayment_def
proof (intro moves_with_state moves_case_sum moves_if moves_ret)
  fix v :: "'a checkout_db_scheme" and pi
  have paid: "moves C lawful (or_internal msg (ForceUpdatePaymentIntent j IntentPaid no_patch t))"
    for C :: "'a checkout_db_scheme \<Rightarrow> bool" and msg j t
    by (intro moves_or_internal moves_force) (auto intro: edge_paid)
  show "moves (\<lambda>w. w = v) lawful (bindS (case (it_ProviderReference pi, ck_QRIS s) of
      (Some ref, Some p) \<Rightarrow> if qp_SimulatePay p then qris_simulate ref else ret () | _ \<Rightarrow> ret ())
    (\<lambda>_. bindS (or_internal ''Simulate paid failed'' (ForceUpdatePaymentIntent (it_ID pi) IntentPaid no_patch (clock v)))
      (\<lambda>fin. bindS (drop_result (UpdateOrderStatus (it_OrderID pi) PaymentPaid OrderPaid (clock v))) (\<lambda>_. ret fin))))"
    by (rule moves_weaken [where C = "\<lambda>_. True"], rule steady_then_moves)
      (auto intro!: inv_intros moves_then_steady paid split: option.splits)
qed

text \<open>Once the request to expire is recorded, every outcome is an edge from \<open>EXPIRE_PENDING\<close>.\<close>

lemma moves_from_pending:
  assumes "it_Status pi = IntentExpirePending" and "status_edge IntentExpirePending to"
    and "to \<in> set [IntentRequiresPayment, IntentPending, IntentCancelPending, IntentExpirePending,
     IntentUnknownOutcome, IntentPaid, IntentFailed, IntentExpired, IntentCancelled]"
    and "ip_UnknownOperation p = None \<or> to = IntentUnknownOutcome"
  shows "moves (knows pi) lawful (ForceUpdatePaymentIntent (it_ID pi) to p at)"
  by (rule moves_force) (use assms in \<open>auto simp: knows_def\<close>)

lemma moves_expire_answer:
  assumes "it_Status pi = IntentExpirePending"
  shows "moves (knows pi) lawful (expire_answer s pi res now)"
proof -
  note force = moves_force_or [OF moves_from_pending [OF assms]]
  show ?thesis
    unfolding expire_answer_def Let_def
    by (intro moves_case_sum moves_if moves_then_steady [OF force] moves_ret)
      (auto simp: no_patch_def intro!: inv_intros)
qed

lemma moves_expire_requested:
  assumes "it_Status pi = IntentExpirePending"
  shows "moves (knows pi) lawful (expire_requested s pi now)"
proof -
  note force = moves_drop [OF transp_lawful reflp_lawful moves_from_pending [OF assms]]
  show ?thesis
    unfolding expire_requested_def
    by (intro moves_if moves_case_option moves_then_steady [OF force] moves_ret steady_then_moves moves_expire_answer [OF assms])
      (auto intro!: inv_intros intro: knows_steady)
qed

lemma update_intent_known:
  assumes run: "update_intent sel f w = (Inr pi, w')" and keep: "\<And>y. it_ID (f y) = it_ID y"
  shows "knows pi w' \<and> (\<exists>z. pi = mapCheckoutPaymentIntent (f z) \<and> z \<in> set (payment_intents w) \<and> sel z)"
proof -
  from run obtain z where z: "find sel (payment_intents w) = Some z" "pi = mapCheckoutPaymentIntent (f z)"
    and w': "payment_intents w' = map (\<lambda>y. if sel y then f y else y) (payment_intents w)"
    by (auto simp: update_intent_def update_one_Inr split: sum.splits prod.splits)
  from find_Some_mem [OF z(1)] have mem: "z \<in> set (payment_intents w)" "sel z" by blast+
  then have "f z \<in> set (payment_intents w')" unfolding w' by force
  then have "x = f z" if "row_is x w'" "it_ID x = it_ID pi" for x
  proof -
    from that z keep have "f z \<in> set (filter (\<lambda>y. it_ID y = it_ID x) (payment_intents w'))"
      using \<open>f z \<in> set (payment_intents w')\<close> by simp
    with that(1) show "x = f z" by (simp add: row_is_def)
  qed
  with z(2) mem show ?thesis by (auto simp: knows_def)
qed

lemma moves_guarded:
  assumes "status_edge from to" and "from \<noteq> IntentUnknownOutcome" and "ip_UnknownOperation p = None"
    and "to \<in> set [IntentRequiresPayment, IntentPending, IntentCancelPending, IntentExpirePending,
     IntentUnknownOutcome, IntentPaid, IntentFailed, IntentExpired, IntentCancelled]"
  shows "moves C lawful (UpdatePaymentIntentStatus j from to p at)"
  unfolding UpdatePaymentIntentStatus_def
proof (rule moves_update [OF reflp_lawful patch_fields(5)])
  fix w and x :: Intent assume "it_Status x = from"
  with assms show "lawful x (patched_intent to p at x)"
    by (auto simp: lawful_def status_known_def keep_old_def)
qed

lemma try_op_run: "try_op m w = (Inr r, w1) \<longleftrightarrow> m w = (r, w1)"
  by (auto simp: try_op_def split: prod.splits)

text \<open>The recorded request, and what follows when it was recorded.\<close>

lemma moves_expire_step:
  assumes start: "from = IntentRequiresPayment \<or> from = IntentPending" and p: "ip_UnknownOperation p = None"
    and failed: "\<And>e. moves (\<lambda>_. True) lawful (f e)"
  shows "moves C lawful (bindS (try_op (UpdatePaymentIntentStatus j from IntentExpirePending p t)) (\<lambda>r. case r of
    Inl e \<Rightarrow> f e | Inr pi \<Rightarrow> expire_requested s pi t))"
proof (rule moves_bind [OF transp_lawful, where D = "\<lambda>r w. \<forall>pi. r = Inr pi \<longrightarrow> knows pi w \<and> it_Status pi = IntentExpirePending"])
  from start have "status_edge from IntentExpirePending" "from \<noteq> IntentUnknownOutcome" by auto
  then show "moves C lawful (try_op (UpdatePaymentIntentStatus j from IntentExpirePending p t))"
    by (intro moves_try moves_guarded p) simp_all
next
  fix r and w w1 :: "'a checkout_db_scheme"
  assume "try_op (UpdatePaymentIntentStatus j from IntentExpirePending p t) w = (Inr r, w1)"
  then have run: "UpdatePaymentIntentStatus j from IntentExpirePending p t w = (r, w1)" by (simp add: try_op_run)
  show "\<forall>pi. r = Inr pi \<longrightarrow> knows pi w1 \<and> it_Status pi = IntentExpirePending"
  proof (intro allI impI)
    fix pi assume "r = Inr pi"
    with update_intent_known [OF run [unfolded UpdatePaymentIntentStatus_def, unfolded this] patch_fields(5)]
    show "knows pi w1 \<and> it_Status pi = IntentExpirePending" by auto
  qed
next
  fix r :: "Intent result"
  show "moves (\<lambda>w. \<forall>pi. r = Inr pi \<longrightarrow> knows pi w \<and> it_Status pi = IntentExpirePending) lawful
    (case r of Inl e \<Rightarrow> f e | Inr pi \<Rightarrow> expire_requested s pi t)"
  proof (cases r)
    case (Inl e)
    then show ?thesis by (auto intro: moves_weaken [OF failed])
  next
    case (Inr pi)
    show ?thesis
    proof (cases "it_Status pi = IntentExpirePending")
      case True
      have "moves (\<lambda>w. knows pi w \<and> it_Status pi = IntentExpirePending) lawful (expire_requested s pi t)"
        by (rule moves_weaken [OF moves_expire_requested [OF True]]) simp
      with Inr show ?thesis by simp
    qed (simp add: moves_def Inr)
  qed
qed

lemma liftE_then_moves: "(\<And>a. moves C R (f a)) \<Longrightarrow> reflp R \<Longrightarrow> moves C R (bindS (liftE r) f)"
  by (cases r) (simp_all add: moves_def bindS_def evolves_same)

lemma moves_ExpireIntent: "moves (\<lambda>_. True) lawful (ExpireIntent s req)"
proof -
  have step: "moves C lawful (bindS (try_op (UpdatePaymentIntentStatus j (it_Status pi) IntentExpirePending p t)) (\<lambda>r. case r of
      Inl e \<Rightarrow> with_state (\<lambda>w. case GetPaymentIntentByID j w of Inr pi2 \<Rightarrow> ret (pi2, 202) | Inl _ \<Rightarrow> throw err)
    | Inr pi \<Rightarrow> expire_requested s pi t))"
    if "\<not> \<not> CanRequestExpire pi" "it_Status pi \<notin> set [IntentExpirePending, IntentUnknownOutcome]" "ip_UnknownOperation p = None"
    for C :: "'a checkout_db_scheme \<Rightarrow> bool" and j pi p t err
    by (rule moves_expire_step)
      (use that in \<open>auto simp: CanRequestExpire_def intro!: moves_with_state moves_case_sum moves_ret\<close>)
  show ?thesis
    unfolding ExpireIntent_def
    by (intro moves_with_state moves_if moves_ret liftE_then_moves [OF _ reflp_lawful] step)
      (assumption | simp add: no_patch_def)+
qed

lemma InsertPaymentIntent_Inr:
  "InsertPaymentIntent i w = (Inr u, w') \<Longrightarrow>
     payment_intents w' = payment_intents w @ [default_gateway_columns i] \<and> it_ID i \<notin> it_ID ` set (payment_intents w)"
  by (auto simp: InsertPaymentIntent_def Let_def bindE_eq_Inr intent_indexes_def default_gateway_columns_def split: sum.splits)

lemma default_gateway_columns_simps [simp]:
  "it_ID (default_gateway_columns i) = it_ID i" "it_Status (default_gateway_columns i) = it_Status i"
  "it_UnknownOperation (default_gateway_columns i) = it_UnknownOperation i"
  by (simp_all add: default_gateway_columns_def)

lemma moves_insert: "moves C lawful (InsertPaymentIntent i)"
proof (rule movesI)
  fix w r w' assume run: "InsertPaymentIntent i w = (r, w')"
  show "evolves lawful w w'"
  proof (cases r)
    case (Inl e)
    with run show ?thesis
      by (intro evolves_same reflp_lawful) (auto simp: InsertPaymentIntent_def Let_def split: sum.splits)
  next
    case (Inr u)
    from InsertPaymentIntent_Inr [OF run [unfolded this]]
    have rows: "payment_intents w' = payment_intents w @ [default_gateway_columns i]"
      and fresh: "it_ID i \<notin> it_ID ` set (payment_intents w)" by blast+
    show ?thesis unfolding evolves_def
    proof (intro allI impI)
      fix x assume x: "row_is x w"
      then have "x \<in> set (filter (\<lambda>y. it_ID y = it_ID x) (payment_intents w))" by (simp add: row_is_def)
      with fresh have "it_ID i \<noteq> it_ID x" by auto
      with x rows have "row_is x w'" by (simp add: row_is_def)
      with reflp_lawful show "\<exists>y. row_is y w' \<and> it_ID y = it_ID x \<and> lawful x y" by (metis reflpD)
    qed
  qed
qed

lemma insert_known:
  assumes "InsertPaymentIntent i w = (Inr u, w')"
  shows "knows i w'"
  unfolding knows_def
proof (intro allI impI)
  fix x assume x: "row_is x w'" "it_ID x = it_ID i"
  from InsertPaymentIntent_Inr [OF assms]
  have rows: "payment_intents w' = payment_intents w @ [default_gateway_columns i]" by blast
  have "default_gateway_columns i \<in> set (filter (\<lambda>y. it_ID y = it_ID x) (payment_intents w'))" by (simp add: rows x(2))
  with x(1) have "x = default_gateway_columns i" by (simp add: row_is_def)
  then show "it_Status x = it_Status i \<and> it_UnknownOperation x = it_UnknownOperation i" by simp
qed

lemma steady_then_any:
  assumes "\<And>v. steady v m" and "\<And>a. moves (\<lambda>_. True) lawful (f a)"
  shows "moves C lawful (bindS m f)"
  by (rule moves_weaken [OF steady_then_moves [OF assms]]) simp_all

lemma moves_create_tx: "moves C lawful (create_checkout_tx s req d)"
proof -
  have last: "moves C lawful (bindS (try_op (InsertPaymentIntent i)) (\<lambda>r. case r of Inl e \<Rightarrow> throw (g e) | Inr _ \<Rightarrow> ret ()))"
    for C :: "'a checkout_db_scheme \<Rightarrow> bool" and i g
    by (rule moves_then_steady [OF moves_try [OF moves_insert]]) (auto split: sum.split intro: inv_intros)
  show ?thesis
    unfolding create_checkout_tx_def
    by (rule steady_then_any, rule inv_intros, rule steady_then_any, rule inv_intros, rule moves_if, rule moves_ret,
        rule steady_then_any, rule inv_intros, rule steady_then_any, rule inv_intros, rule last)
qed

lemma bind_InrE: "bindS m f w = (Inr b, w') \<Longrightarrow> (\<And>a w1. f a w1 = (Inr b, w') \<Longrightarrow> thesis) \<Longrightarrow> thesis"
  by (auto simp: bindS_eq_Inr)

lemma bind_try_InrE:
  "bindS (try_op m) f w = (Inr b, w') \<Longrightarrow> (\<And>r w1. m w = (r, w1) \<Longrightarrow> f r w1 = (Inr b, w') \<Longrightarrow> thesis) \<Longrightarrow> thesis"
  by (cases "m w") (auto simp: bindS_eq_Inr try_op_run)

lemma bind_steady_InrE:
  assumes "bindS m f w = (Inr b, w')" and "\<And>v. steady v m"
  obtains a w1 where "payment_intents w1 = payment_intents w" "f a w1 = (Inr b, w')"
proof -
  from assms(1) obtain a w1 where "m w = (Inr a, w1)" "f a w1 = (Inr b, w')" by (auto simp: bindS_eq_Inr)
  with steadyD [OF assms(2)] that show ?thesis by blast
qed

lemma throw_unless_Inr: "(if \<not> b then throw e else m) w = (Inr a, w') \<Longrightarrow> m w = (Inr a, w')"
  by (cases b) simp_all

lemma create_tx_insert:
  fixes w :: "'a checkout_db_scheme"
  assumes "create_checkout_tx s req d w = (Inr u, w')"
  obtains w0 where "payment_intents w0 = payment_intents w" "InsertPaymentIntent (new_intent s req d) w0 = (Inr (), w')"
proof -
  from assms [unfolded create_checkout_tx_def] obtain i w1 where 1: "payment_intents w1 = payment_intents w"
    "bindS (TryInsertIdempotency (idempotency_record s req d i)) (\<lambda>inserted.
      if \<not> inserted then throw ErrIdempotencyConflict
      else bindS (InsertOrder (new_order s req d)) (\<lambda>_. bindS (InsertOrderItem (new_order_item req d)) (\<lambda>_.
        bindS (try_op (InsertPaymentIntent (new_intent s req d))) (\<lambda>r. case r of
          Inl e \<Rightarrow> throw (if is_unique_violation e then ErrIdempotencyConflict else e) | Inr _ \<Rightarrow> ret ())))) w1 = (Inr u, w')"
    by (rule bind_steady_InrE) (rule inv_intros)
  from 1(2) obtain b w2 where 2: "payment_intents w2 = payment_intents w1"
    "(if \<not> b then throw ErrIdempotencyConflict
      else bindS (InsertOrder (new_order s req d)) (\<lambda>_. bindS (InsertOrderItem (new_order_item req d)) (\<lambda>_.
        bindS (try_op (InsertPaymentIntent (new_intent s req d))) (\<lambda>r. case r of
          Inl e \<Rightarrow> throw (if is_unique_violation e then ErrIdempotencyConflict else e) | Inr _ \<Rightarrow> ret ())))) w2 = (Inr u, w')"
    by (rule bind_steady_InrE) (rule inv_intros)
  from throw_unless_Inr [OF 2(2)] obtain w3 where 3: "payment_intents w3 = payment_intents w2"
    "bindS (InsertOrderItem (new_order_item req d)) (\<lambda>_.
        bindS (try_op (InsertPaymentIntent (new_intent s req d))) (\<lambda>r. case r of
          Inl e \<Rightarrow> throw (if is_unique_violation e then ErrIdempotencyConflict else e) | Inr _ \<Rightarrow> ret ())) w3 = (Inr u, w')"
    by (rule bind_steady_InrE) (rule inv_intros)
  from 3(2) obtain w4 where 4: "payment_intents w4 = payment_intents w3"
    "bindS (try_op (InsertPaymentIntent (new_intent s req d))) (\<lambda>r. case r of
          Inl e \<Rightarrow> throw (if is_unique_violation e then ErrIdempotencyConflict else e) | Inr _ \<Rightarrow> ret ()) w4 = (Inr u, w')"
    by (rule bind_steady_InrE) (rule inv_intros)
  from 4(2) obtain r w5 where "InsertPaymentIntent (new_intent s req d) w4 = (r, w5)"
      "(case r of Inl e \<Rightarrow> throw (if is_unique_violation e then ErrIdempotencyConflict else e) | Inr _ \<Rightarrow> ret ()) w5 = (Inr u, w')"
    by (rule bind_try_InrE)
  then have "InsertPaymentIntent (new_intent s req d) w4 = (Inr (), w')" by (cases r) auto
  with 1(1) 2(1) 3(1) 4(1) that show ?thesis by simp
qed

lemma create_tx_known: "create_checkout_tx s req d w = (Inr u, w') \<Longrightarrow> knows (new_intent s req d) w'"
  by (erule create_tx_insert) (rule insert_known)

text \<open>A new row can become payable, unknown or failed.\<close>

lemma moves_from_new:
  assumes "to = IntentPending \<or> to = IntentUnknownOutcome \<or> to = IntentFailed"
    and "ip_UnknownOperation p = None \<or> to = IntentUnknownOutcome"
  shows "moves (knows (new_intent s req d)) lawful (ForceUpdatePaymentIntent (id_Intent (df_IDs d)) to p at)"
  by (rule moves_force) (use assms in \<open>auto simp: knows_def new_intent_def\<close>)

lemma moves_provider_failed: "moves (knows (new_intent s req d)) lawful (provider_failed s req d e)"
proof -
  have unknown: "moves (knows (new_intent s req d)) lawful
      (try_op (ForceUpdatePaymentIntent (id_Intent (df_IDs d)) IntentUnknownOutcome (unknown_patch a t) at))" for a t at
    by (rule moves_try, rule moves_from_new) simp_all
  have failed: "moves (knows (new_intent s req d)) lawful
      (drop_result (ForceUpdatePaymentIntent (id_Intent (df_IDs d)) IntentFailed no_patch at))" for at
    by (rule moves_drop [OF transp_lawful reflp_lawful], rule moves_from_new) simp_all
  show ?thesis
    unfolding provider_failed_def Let_def
  proof (rule moves_if)
    show "moves (knows (new_intent s req d)) lawful
      (bindS (try_op (ForceUpdatePaymentIntent (id_Intent (df_IDs d)) IntentUnknownOutcome (unknown_patch ''CREATE'' (df_Now d)) (df_Now d)))
        (\<lambda>r. bindS (hold_coupon s (pc_ReservationID (df_Pricing d))) (\<lambda>_.
          bindS (schedule ''payment_intent.lookup'' (lookup_payload (id_Intent (df_IDs d)) ''CREATE'') (''lookup:'' @ id_Intent (df_IDs d))
            (ck_mode s) (df_Now d + DefaultLookupDelay)) (\<lambda>_. ret (created_result s req d
              (case r of Inl x \<Rightarrow> new_intent s req d\<lparr>it_Status := IntentUnknownOutcome\<rparr> | Inr i \<Rightarrow> i))))))"
      by (rule moves_then_steady [OF unknown]) (intro inv_intros)
  next
    have rest: "moves (knows (new_intent s req d)) lawful (bindS (drop_result
        (ForceUpdatePaymentIntent (id_Intent (df_IDs d)) IntentFailed no_patch (df_Now d))) (\<lambda>_.
        bindS (drop_result (UpdateOrderStatus (id_Order (df_IDs d)) PaymentFailed OrderFailed (df_Now d))) (\<lambda>_. throw err)))" for err
      by (rule moves_then_steady [OF failed]) (intro inv_intros)
    show "moves (knows (new_intent s req d)) lawful (bindS (free_stock s (df_StockReservationID d)) (\<lambda>_.
      bindS (free_coupon s (pc_ReservationID (df_Pricing d))) (\<lambda>_.
      bindS (drop_result (ForceUpdatePaymentIntent (id_Intent (df_IDs d)) IntentFailed no_patch (df_Now d))) (\<lambda>_.
      bindS (drop_result (UpdateOrderStatus (id_Order (df_IDs d)) PaymentFailed OrderFailed (df_Now d))) (\<lambda>_.
      throw (apperr_new KindUnavailable ''INTERNAL_ERROR'' ''Payment provider rejected create''))))))"
      by (rule steady_then_moves, rule inv_intros, rule steady_then_moves, rule inv_intros, rule rest)
        (auto intro: knows_steady)
  qed
qed

text \<open>Activation follows the edge to \<open>PENDING\<close>, guarded or forced.\<close>

lemma update_knows_error:
  "UpdatePaymentIntentStatus j from to p at w = (Inl e, w') \<Longrightarrow> payment_intents w' = payment_intents w"
  by (auto simp: UpdatePaymentIntentStatus_def update_intent_def split: sum.splits prod.splits)

lemma moves_activate_intent: "moves (knows (new_intent s req d)) lawful (activate_intent d created)"
  unfolding activate_intent_def Let_def
proof (rule moves_bind [OF transp_lawful, where D = "\<lambda>r w. \<forall>e. r = Inl e \<longrightarrow> knows (new_intent s req d) w"])
  let ?patch = "no_patch\<lparr>ip_ProviderReference := Some (cs_ProviderReference created), ip_QRString := Some (cs_QRString created),
           ip_QRImageURL := Some (cs_QRImageURL created)\<rparr>"
  have p: "ip_UnknownOperation ?patch = None" by (simp add: no_patch_def)
  show "moves (knows (new_intent s req d)) lawful
      (try_op (UpdatePaymentIntentStatus (id_Intent (df_IDs d)) IntentRequiresPayment IntentPending ?patch (df_Now d)))"
    by (rule moves_try, rule moves_guarded) (simp_all add: p)
  show "\<forall>e. r = Inl e \<longrightarrow> knows (new_intent s req d) w1"
    if "knows (new_intent s req d) w"
      "try_op (UpdatePaymentIntentStatus (id_Intent (df_IDs d)) IntentRequiresPayment IntentPending ?patch (df_Now d)) w = (Inr r, w1)"
    for r and w w1 :: "'a checkout_db_scheme"
    using that by (auto simp: try_op_run intro: knows_steady dest: update_knows_error)
  have "moves (knows (new_intent s req d)) lawful (ForceUpdatePaymentIntent (id_Intent (df_IDs d)) IntentPending ?patch (df_Now d))"
    by (rule moves_from_new) (simp_all add: p)
  from moves_or_internal [OF this]
  show "moves (\<lambda>w. \<forall>e. r = Inl e \<longrightarrow> knows (new_intent s req d) w) lawful (case r of Inr i \<Rightarrow> ret i
       | Inl _ \<Rightarrow> or_internal ''Failed to activate payment intent''
           (ForceUpdatePaymentIntent (id_Intent (df_IDs d)) IntentPending ?patch (df_Now d)))" for r
    by (cases r) (simp_all add: moves_ret)
qed

lemma steady_finish_created [inv_intros]: "steady v (finish_created s req d pi)"
  unfolding finish_created_def Let_def by (intro inv_intros keeps_case_sum)

lemma moves_activated: "moves (knows (new_intent s req d)) lawful (activated s req d created)"
  unfolding activated_def by (rule moves_then_steady [OF moves_activate_intent]) (rule inv_intros)

lemma steady_create_failed [inv_intros]: "steady v (create_failed s req d e)"
  unfolding create_failed_def conflict_answer_def Let_def by (intro inv_intros keeps_case_sum)

lemma moves_submit: "moves C lawful (submit s req d)"
  unfolding submit_def
proof (rule moves_bind [OF transp_lawful, where D = "\<lambda>r w. \<forall>u. r = Inr u \<longrightarrow> knows (new_intent s req d) w"])
  show "moves C lawful (try_op (with_tx (create_checkout_tx s req d)))"
    by (intro moves_try moves_tx reflp_lawful moves_create_tx)
next
  fix r and w w1 :: "'a checkout_db_scheme"
  assume "try_op (with_tx (create_checkout_tx s req d)) w = (Inr r, w1)"
  then have run: "with_tx (create_checkout_tx s req d) w = (r, w1)" by (simp add: try_op_run)
  show "\<forall>u. r = Inr u \<longrightarrow> knows (new_intent s req d) w1"
  proof (intro allI impI)
    fix u assume "r = Inr u"
    with run have "create_checkout_tx s req d w = (Inr u, w1)" by simp
    then show "knows (new_intent s req d) w1" by (rule create_tx_known)
  qed
next
  fix r :: "unit result"
  show "moves (\<lambda>w. \<forall>u. r = Inr u \<longrightarrow> knows (new_intent s req d) w) lawful (case r of
      Inl e \<Rightarrow> create_failed s req d e
    | Inr _ \<Rightarrow> (case ck_QRIS s of None \<Rightarrow> throw (internal ''Payment provider unavailable'')
       | Some p \<Rightarrow> bindS (qris_create p (create_input_qris s req d)) (provider_answered s req d)))"
  proof (cases r)
    case (Inl e)
    then show ?thesis by (simp add: moves_steady_lawful inv_intros)
  next
    case (Inr u)
    have "moves (knows (new_intent s req d)) lawful (case ck_QRIS s of None \<Rightarrow> throw (internal ''Payment provider unavailable'')
       | Some p \<Rightarrow> bindS (qris_create p (create_input_qris s req d)) (provider_answered s req d))"
      unfolding provider_answered_def
      by (intro moves_case_option moves_ret steady_then_moves moves_case_sum moves_provider_failed moves_activated)
        (auto intro: inv_intros knows_steady)
    with Inr show ?thesis by simp
  qed
qed

lemma moves_fresh_intent: "moves C lawful (fresh_intent s req p merch)"
  unfolding fresh_intent_def submit_draft_def
  by (rule steady_then_any, rule inv_intros)+ (intro moves_with_state moves_case_sum moves_if moves_ret moves_submit)

lemma moves_CreateIntent: "moves (\<lambda>_. True) lawful (CreateIntent s req)"
  unfolding CreateIntent_def replay_answer_def new_checkout_def
  by (intro moves_with_state liftE_then_moves [OF _ reflp_lawful] moves_case_sum moves_if moves_ret moves_fresh_intent)

subsection \<open>Runs of the checkout\<close>

text \<open>The operations of the hosted checkout, from handlers and workers, in any order, with time passing.\<close>

datatype checkout_command =
    RunCreate CreateIntentRequest
  | RunExpire ExpireIntentRequest
  | RunLookup string
  | RunSimulate string
  | RunTick nat

definition checkout_step :: "CheckoutService \<Rightarrow> checkout_command \<Rightarrow> 'm checkout_db_scheme \<Rightarrow> 'm checkout_db_scheme" where
  "checkout_step s c w = (case c of
     RunCreate req \<Rightarrow> snd (CreateIntent s req w)
   | RunExpire req \<Rightarrow> snd (ExpireIntent s req w)
   | RunLookup i \<Rightarrow> snd (LookupProvider s i w)
   | RunSimulate i \<Rightarrow> snd (SimulatePayment s i w)
   | RunTick n \<Rightarrow> w\<lparr>clock := clock w + int n\<rparr>)"

definition checkout_run :: "CheckoutService \<Rightarrow> checkout_command list \<Rightarrow> 'm checkout_db_scheme \<Rightarrow> 'm checkout_db_scheme" where
  "checkout_run s = fold (checkout_step s)"

lemma evolves_moves: "moves (\<lambda>_. True) R m \<Longrightarrow> evolves R w (snd (m w))"
  by (cases "m w") (auto dest: movesD)

lemma evolves_step: "evolves lawful w (checkout_step s c w)"
  by (cases c) (auto simp: checkout_step_def intro: evolves_moves moves_CreateIntent moves_ExpireIntent moves_LookupProvider
      moves_SimulatePayment evolves_same reflp_lawful)

lemma evolves_run: "evolves lawful w (checkout_run s cs w)"
proof (induction cs arbitrary: w)
  case Nil
  show ?case by (simp add: checkout_run_def evolves_same reflp_lawful)
next
  case (Cons c cs)
  from evolves_trans [OF transp_lawful evolves_step Cons.IH] show ?case by (simp add: checkout_run_def)
qed

text \<open>An intent that can no longer move.\<close>

lemma paid_stays: "status_edge\<^sup>*\<^sup>* a b \<Longrightarrow> a = IntentPaid \<Longrightarrow> b = IntentPaid"
  by (induction rule: rtranclp_induct) (auto simp: status_edge_def Transition_def intent_allowed_def split: if_splits)

lemma unpaid_end_stays:
  "status_edge\<^sup>*\<^sup>* a b \<Longrightarrow> a \<in> {IntentFailed, IntentExpired, IntentCancelled} \<Longrightarrow> b = a \<or> b = IntentPaid"
proof (induction rule: rtranclp_induct)
  case (step b c)
  from step.IH [OF step.prems] step.hyps(2) step.prems show ?case
    by (auto simp: status_edge_def Transition_def intent_allowed_def split: if_splits)
qed simp

text \<open>
  C3. Whatever the buyer, the workers and the provider do, in any order, an intent keeps its terms
  (amount, order, store, provider, fee snapshot, holds, request) and its status follows the edges of
  the status machine: once paid it stays paid, and an intent that failed, expired or was cancelled
  can only become paid.
\<close>

theorem intent_follows_status_machine:
  assumes "row_is x w" and "status_known x"
  shows "\<exists>y. row_is y (checkout_run s cs w) \<and> it_ID y = it_ID x \<and> intent_terms y = intent_terms x \<and> status_known y \<and>
    status_edge\<^sup>*\<^sup>* (it_Status x) (it_Status y) \<and>
    (it_Status x = IntentPaid \<longrightarrow> it_Status y = IntentPaid) \<and>
    (it_Status x \<in> {IntentFailed, IntentExpired, IntentCancelled} \<longrightarrow> it_Status y = it_Status x \<or> it_Status y = IntentPaid)"
proof -
  from evolves_run assms(1) obtain y where "row_is y (checkout_run s cs w)" "it_ID y = it_ID x" "lawful x y"
    unfolding evolves_def by blast
  moreover from this assms(2) have "intent_terms y = intent_terms x" "status_known y"
    and path: "status_edge\<^sup>*\<^sup>* (it_Status x) (it_Status y)" by (simp_all add: lawful_def)
  ultimately show ?thesis using paid_stays [OF path] unpaid_end_stays [OF path] by blast
qed

end
