(* ===== verification/Checkout_History.thy ===== *)
theory Checkout_History
  imports Checkout_Runs
begin

text \<open>
  What the checkout remembers: no operation removes an intent or an order, or changes an intent's
  terms. With it, a checkout that answered once answers a retry with the same intent, however much
  later the retry comes.
\<close>

subsection \<open>Rows are only added\<close>

definition agreed :: "Intent \<Rightarrow> Intent \<Rightarrow> bool" where
  "agreed x y \<longleftrightarrow> it_ID y = it_ID x \<and> intent_terms y = intent_terms x"

definition grown :: "Intent list \<Rightarrow> string set \<Rightarrow> 'm checkout_db_scheme \<Rightarrow> bool" where
  "grown v ids w \<longleftrightarrow> (\<exists>old new. payment_intents w = old @ new \<and> list_all2 agreed v old) \<and> ids \<subseteq> or_ID ` set (orders w)"

lemma agreed_refl [simp]: "agreed x x"
  by (simp add: agreed_def)

lemma agreed_trans: "agreed x y \<Longrightarrow> agreed y z \<Longrightarrow> agreed x z"
  by (simp add: agreed_def)

lemma grown_start: "grown (payment_intents w) (or_ID ` set (orders w)) w"
  unfolding grown_def by (rule conjI, rule exI [where x = "payment_intents w"], rule exI [where x = "[]"])
    (simp_all add: list_all2_refl)

lemma keeps_grown_frames:
  assumes "\<And>u. frames u m"
  shows "keeps (grown v ids) m"
proof (rule keepsI)
  fix w r w' assume g: "grown v ids w" and run: "m w = (r, w')"
  from keepsD [OF assms run refl] have "checkout_tables w' = checkout_tables w" .
  with g show "grown v ids w'" by (simp add: checkout_tables_def grown_def)
qed

lemma grown_more: "grown v ids w \<Longrightarrow> payment_intents w' = payment_intents w \<Longrightarrow> orders w' = orders w \<Longrightarrow> grown v ids w'"
  by (simp add: grown_def)

lemma grown_update:
  assumes "grown v ids w" and "payment_intents w' = map f (payment_intents w)" and "orders w' = orders w"
    and "\<And>x. agreed x (f x)"
  shows "grown v ids w'"
proof -
  from assms(1) obtain old new where rows: "payment_intents w = old @ new" "list_all2 agreed v old"
    and ids: "ids \<subseteq> or_ID ` set (orders w)" unfolding grown_def by blast
  from rows(2) have "list_all2 agreed v (map f old)"
    unfolding list_all2_conv_all_nth using agreed_trans [OF _ assms(4)] by auto
  with rows(1) ids assms(2,3) show ?thesis unfolding grown_def by auto
qed

lemma keeps_grown_update_intent:
  assumes "\<And>x. agreed x (f x)"
  shows "keeps (grown v ids) (update_intent sel f)"
proof (rule keepsI)
  fix w r w' assume g: "grown v ids w" and run: "update_intent sel f w = (r, w')"
  show "grown v ids w'"
  proof (cases r)
    case (Inl e)
    with run g show ?thesis by (auto simp: update_intent_def split: sum.splits prod.splits)
  next
    case (Inr pi)
    with run have rows: "payment_intents w' = map (\<lambda>y. if sel y then f y else y) (payment_intents w)" "orders w' = orders w"
      by (auto simp: update_intent_def update_one_Inr split: sum.splits prod.splits)
    from g rows show ?thesis by (rule grown_update) (simp add: assms)
  qed
qed

lemma keeps_grown_store [inv_intros]:
  "keeps (grown v ids) (ForceUpdatePaymentIntent i to p at)" "keeps (grown v ids) (UpdatePaymentIntentStatus i from to p at)"
  unfolding ForceUpdatePaymentIntent_def UpdatePaymentIntentStatus_def
  by (rule keeps_grown_update_intent, simp add: agreed_def)+

lemma keeps_grown_insert [inv_intros]: "keeps (grown v ids) (InsertPaymentIntent i)"
proof (rule keepsI)
  fix w r w' assume g: "grown v ids w" and run: "InsertPaymentIntent i w = (r, w')"
  then show "grown v ids w'"
    by (auto simp: InsertPaymentIntent_def Let_def grown_def split: sum.splits) (metis append.assoc)
qed

lemma order_ids_updated:
  assumes "update_one sel (\<lambda>x. x\<lparr>or_PaymentStatus := a, or_OrderStatus := b, or_UpdatedAt := t\<rparr>) chk xs = Inr (z, ys)"
  shows "or_ID ` set ys = or_ID ` set xs"
proof -
  from assms have "map or_ID ys = map or_ID xs" by (auto simp: update_one_Inr)
  then show ?thesis by (metis set_map)
qed

lemma keeps_grown_orders [inv_intros]:
  "keeps (grown v ids) (InsertOrder x)" "keeps (grown v ids) (UpdateOrderStatus i a b t)"
proof -
  show "keeps (grown v ids) (InsertOrder x)"
    by (rule keepsI) (auto simp: InsertOrder_def grown_def split: sum.splits)
  show "keeps (grown v ids) (UpdateOrderStatus i a b t)"
  proof (rule keepsI)
    fix w r w' assume g: "grown v ids w" and run: "UpdateOrderStatus i a b t w = (r, w')"
    then have "payment_intents w' = payment_intents w"
      by (auto simp: UpdateOrderStatus_def split: sum.splits if_splits)
    moreover have "orders w' = orders w \<or> (\<exists>z. update_one (\<lambda>x. or_ID x = i)
        (\<lambda>x. x\<lparr>or_PaymentStatus := a, or_OrderStatus := b, or_UpdatedAt := t\<rparr>) order_check (orders w) = Inr (z, orders w'))"
      using run by (auto simp: UpdateOrderStatus_def split: sum.splits if_splits)
    then have "or_ID ` set (orders w') = or_ID ` set (orders w)" by (auto dest: order_ids_updated)
    ultimately show "grown v ids w'" using g by (simp add: grown_def)
  qed
qed

lemma keeps_grown_others [inv_intros]:
  "keeps (grown v ids) (InsertOrderItem y)" "keeps (grown v ids) (TryInsertIdempotency rec)"
  "keeps (grown v ids) (InsertOutbox i c d e f t)" "keeps (grown v ids) (CompleteIdempotency i a rt ri n body)"
  "keeps (grown v ids) (qris_create p inp)" "keeps (grown v ids) (qris_get p ref)" "keeps (grown v ids) (qris_expire p ref)"
  "keeps (grown v ids) (qris_simulate ref)"
  by (auto simp: keeps_def InsertOutbox_def TryInsertIdempotency_def InsertOrderItem_def grown_def
      CompleteIdempotency_def qris_create_def qris_get_def qris_expire_def qris_simulate_def
      split: sum.splits if_splits prod.splits)

lemma keeps_grown_holds [inv_intros]:
  "keeps (grown v ids) new_id" "keeps (grown v ids) (free_stock s j)" "keeps (grown v ids) (free_coupon s j)"
  "keeps (grown v ids) (hold_coupon s j)" "keeps (grown v ids) checkout_ids" "keeps (grown v ids) (priced s req oid a b)"
  "keeps (grown v ids) (fee_of s gross)" "keeps (grown v ids) (stock_hold s req p oid k c)"
  by (rule keeps_grown_frames, rule inv_intros)+

lemma keeps_grown_force_or [inv_intros]: "keeps (grown v ids) (force_or other i to p at)"
  unfolding force_or_def by (intro inv_intros keeps_case_sum)

lemma keeps_grown_schedule [inv_intros]: "keeps (grown v ids) (schedule topic payload dedupe mode at)"
  unfolding schedule_def by (intro inv_intros)

lemma keeps_grown_close [inv_intros]: "keeps (grown v ids) (close_unpaid s pi a b)"
  unfolding close_unpaid_def by (intro inv_intros)

lemma keeps_grown_tx: "keeps (grown v ids) m \<Longrightarrow> keeps (grown v ids) (with_tx m)"
  by (rule keeps_with_tx) (simp_all add: grown_def)

lemma keeps_grown_after [inv_intros]:
  "keeps (grown v ids) (provider_failed s req d e)" "keeps (grown v ids) (activated s req d created)"
  unfolding provider_failed_def activated_def activate_intent_def finish_created_def Let_def
  by (intro inv_intros keeps_case_sum)+

lemma keeps_grown_submit [inv_intros]: "keeps (grown v ids) (submit s req d)"
  unfolding submit_def provider_answered_def create_checkout_tx_def create_failed_def conflict_answer_def Let_def
  by (intro inv_intros keeps_case_sum keeps_case_option keeps_grown_tx)

lemma keeps_grown_CreateIntent: "keeps (grown v ids) (CreateIntent s req)"
  unfolding CreateIntent_def replay_answer_def new_checkout_def fresh_intent_def submit_draft_def
  by (intro inv_intros keeps_case_sum)

lemma keeps_grown_ExpireIntent: "keeps (grown v ids) (ExpireIntent s req)"
  unfolding ExpireIntent_def expire_requested_def expire_answer_def Let_def
  by (intro inv_intros keeps_case_sum keeps_case_option)

lemma keeps_grown_LookupProvider: "keeps (grown v ids) (LookupProvider s i)"
  unfolding LookupProvider_def lookup_answer_def Let_def
  by (intro inv_intros keeps_case_sum keeps_case_option)

lemma keeps_grown_SimulatePayment: "keeps (grown v ids) (SimulatePayment s i)"
  unfolding SimulatePayment_def
  by (intro inv_intros keeps_case_sum keeps_case_option keeps_case_prod)

lemma keeps_snd: "keeps P m \<Longrightarrow> P w \<Longrightarrow> P (snd (m w))"
  by (cases "m w") (auto dest: keepsD)

lemma grown_step: "grown v ids w \<Longrightarrow> grown v ids (checkout_step s c w)"
proof (cases c)
  case (RunTick n)
  then show "grown v ids w \<Longrightarrow> grown v ids (checkout_step s c w)" by (simp add: checkout_step_def grown_def)
qed (auto simp: checkout_step_def intro: keeps_snd keeps_grown_CreateIntent keeps_grown_ExpireIntent
    keeps_grown_LookupProvider keeps_grown_SimulatePayment)

lemma grown_run: "grown v ids w \<Longrightarrow> grown v ids (checkout_run s cs w)"
  by (induction cs arbitrary: w) (simp_all add: checkout_run_def grown_step)

subsection \<open>What a checkout that succeeded left behind\<close>

abbreviation "silent v m \<equiv> keeps (\<lambda>w. qris_calls w = v) m"

lemma silent_frames:
  assumes "\<And>v. frames v m"
  shows "silent v m"
proof (rule keepsI)
  fix s r s' assume "qris_calls s = v" and run: "m s = (r, s')"
  from keepsD [OF assms run refl] this(1) show "qris_calls s' = v" by (simp add: checkout_tables_def)
qed

lemma silent_store [inv_intros]:
  "silent v (UpdateOrderStatus i a b t)" "silent v (InsertOutbox i c d e f t)" "silent v (TryInsertIdempotency rec)"
  "silent v (InsertOrder x)" "silent v (InsertOrderItem y)" "silent v (CompleteIdempotency i a rt ri n body)"
  "silent v (InsertPaymentIntent pi)" "silent v (ForceUpdatePaymentIntent i to p at)"
  "silent v (UpdatePaymentIntentStatus i from to p at)"
  by (auto simp: keeps_def UpdateOrderStatus_def InsertOutbox_def TryInsertIdempotency_def InsertOrder_def InsertOrderItem_def
      CompleteIdempotency_def InsertPaymentIntent_def ForceUpdatePaymentIntent_def UpdatePaymentIntentStatus_def
      update_intent_def Let_def split: sum.splits if_splits prod.splits)

lemma silent_holds [inv_intros]:
  "silent v new_id" "silent v (free_stock s j)" "silent v (free_coupon s j)"
  "silent v (hold_coupon s j)" "silent v checkout_ids" "silent v (priced s req oid a b)"
  "silent v (fee_of s gross)" "silent v (stock_hold s req p oid k c)"
  by (rule silent_frames, rule inv_intros)+

lemma silent_schedule [inv_intros]: "silent v (schedule topic payload dedupe mode at)"
  unfolding schedule_def by (intro inv_intros)

lemma silent_after_provider [inv_intros]: "silent v (provider_failed s req d e)" "silent v (activated s req d created)"
  unfolding provider_failed_def activated_def activate_intent_def finish_created_def Let_def
  by (intro inv_intros keeps_case_sum)+

lemma silent_tx [inv_intros]: "silent v (with_tx (create_checkout_tx s req d))"
  unfolding create_checkout_tx_def by (intro inv_intros keeps_with_tx keeps_case_sum) simp_all

text \<open>The rows that carry the draft's intent identifier are the draft's.\<close>

definition draft_rows :: "CheckoutService \<Rightarrow> CreateIntentRequest \<Rightarrow> Draft \<Rightarrow> 'm checkout_db_scheme \<Rightarrow> bool" where
  "draft_rows s req d w \<longleftrightarrow> (\<forall>z\<in>set (payment_intents w). it_ID z = id_Intent (df_IDs d) \<longrightarrow>
     intent_terms z = intent_terms (new_intent s req d))"

lemma new_intent_ID [simp]: "it_ID (new_intent s req d) = id_Intent (df_IDs d)"
  by (simp add: new_intent_def)

lemma default_terms [simp]: "intent_terms (default_gateway_columns x) = intent_terms x"
  "intent_terms (mapCheckoutPaymentIntent x) = intent_terms x"
  by (simp_all add: intent_terms_def default_gateway_columns_def mapCheckoutPaymentIntent_def)

lemma draft_update:
  assumes "draft_rows s req d w" and "update_intent sel f w = (Inr pi, w')"
    and "\<And>x. agreed x (f x)" and "\<And>x. sel x \<Longrightarrow> it_ID x = id_Intent (df_IDs d)"
  shows "agreed (new_intent s req d) pi"
proof -
  from update_intent_known [OF assms(2)] assms(3,4) obtain z where "pi = mapCheckoutPaymentIntent (f z)"
    "z \<in> set (payment_intents w)" "it_ID z = id_Intent (df_IDs d)" by (auto simp: agreed_def)
  with assms(1,3) show ?thesis by (auto simp: agreed_def draft_rows_def)
qed

lemma draft_force:
  "draft_rows s req d w \<Longrightarrow> ForceUpdatePaymentIntent (id_Intent (df_IDs d)) to p at w = (Inr pi, w') \<Longrightarrow>
     agreed (new_intent s req d) pi"
  unfolding ForceUpdatePaymentIntent_def by (rule draft_update [where f = "forced_intent to p at"]) (simp_all add: agreed_def)

lemma draft_guarded:
  assumes "draft_rows s req d w" and "UpdatePaymentIntentStatus (id_Intent (df_IDs d)) from to p at w = (Inr pi, w')"
  shows "agreed (new_intent s req d) pi"
  by (rule draft_update [OF assms(1) assms(2) [unfolded UpdatePaymentIntentStatus_def]]) (simp_all add: agreed_def)

lemma provider_failed_result:
  assumes "draft_rows s req d w" and "provider_failed s req d e w = (Inr x, w')"
  shows "\<exists>pi. x = created_result s req d pi \<and> agreed (new_intent s req d) pi"
proof (cases "outcome_unknown e")
  case True
  from assms(2) obtain r w1 where "ForceUpdatePaymentIntent (id_Intent (df_IDs d)) IntentUnknownOutcome
      (unknown_patch ''CREATE'' (df_Now d)) (df_Now d) w = (r, w1)"
    "x = created_result s req d (case r of Inr i \<Rightarrow> i | Inl _ \<Rightarrow> (new_intent s req d)\<lparr>it_Status := IntentUnknownOutcome\<rparr>)"
    unfolding provider_failed_def Let_def if_P [OF True] by (auto simp: bindS_eq_Inr try_op_run)
  moreover have "agreed (new_intent s req d) (new_intent s req d\<lparr>it_Status := IntentUnknownOutcome\<rparr>)"
    by (simp add: agreed_def intent_terms_def)
  ultimately show ?thesis using draft_force [OF assms(1)] by (cases r) auto
next
  case False
  with assms(2) show ?thesis unfolding provider_failed_def Let_def by (auto simp: bindS_eq_Inr)
qed

lemma activate_intent_result:
  assumes "draft_rows s req d w" and "activate_intent d created w = (Inr pi, w')"
  shows "agreed (new_intent s req d) pi"
proof -
  let ?patch = "no_patch\<lparr>ip_ProviderReference := Some (cs_ProviderReference created), ip_QRString := Some (cs_QRString created),
           ip_QRImageURL := Some (cs_QRImageURL created)\<rparr>"
  from assms(2) [unfolded activate_intent_def Let_def] obtain r w1 where
    u: "UpdatePaymentIntentStatus (id_Intent (df_IDs d)) IntentRequiresPayment IntentPending ?patch (df_Now d) w = (r, w1)"
    and v: "(case r of Inr i \<Rightarrow> ret i | Inl _ \<Rightarrow> or_internal ''Failed to activate payment intent''
           (ForceUpdatePaymentIntent (id_Intent (df_IDs d)) IntentPending ?patch (df_Now d))) w1 = (Inr pi, w')"
    by (rule bind_try_InrE)
  show ?thesis
  proof (cases r)
    case (Inr i)
    with u v draft_guarded [OF assms(1)] show ?thesis by simp
  next
    case (Inl e)
    with u update_knows_error have "payment_intents w1 = payment_intents w" by blast
    with assms(1) have "draft_rows s req d w1" by (simp add: draft_rows_def)
    moreover from v Inl have "ForceUpdatePaymentIntent (id_Intent (df_IDs d)) IntentPending ?patch (df_Now d) w1 = (Inr pi, w')"
      by (auto simp: or_internal_def split: prod.splits sum.splits)
    ultimately show ?thesis by (rule draft_force)
  qed
qed

lemma finish_created_result: "finish_created s req d pi w = (Inr x, w') \<Longrightarrow> x = created_result s req d pi"
  unfolding finish_created_def Let_def by (elim bind_InrE) simp

lemma activated_result:
  assumes "draft_rows s req d w" and "activated s req d created w = (Inr x, w')"
  shows "\<exists>pi. x = created_result s req d pi \<and> agreed (new_intent s req d) pi"
  using assms(2) unfolding activated_def
  by (rule bindS_cases) (auto dest: activate_intent_result [OF assms(1)] finish_created_result)

lemma create_tx_rows:
  fixes w :: "'a checkout_db_scheme"
  assumes "create_checkout_tx s req d w = (Inr u, w')"
  shows "payment_intents w' = payment_intents w @ [default_gateway_columns (new_intent s req d)] \<and>
    id_Intent (df_IDs d) \<notin> it_ID ` set (payment_intents w) \<and>
    intent_idem_key (new_intent s req d) \<notin> intent_idem_key ` set (payment_intents w) \<and>
    id_Order (df_IDs d) \<in> or_ID ` set (orders w')"
proof -
  have key: "intent_idem_key (default_gateway_columns i) = intent_idem_key i" "it_OrderID (default_gateway_columns i) = it_OrderID i" for i
    by (simp_all add: intent_idem_key_def default_gateway_columns_def)
  from assms obtain w0 where w0: "payment_intents w0 = payment_intents w" "InsertPaymentIntent (new_intent s req d) w0 = (Inr (), w')"
    by (rule create_tx_insert)
  then have "id_Order (df_IDs d) \<in> or_ID ` set (orders w')" "intent_idem_key (new_intent s req d) \<notin> intent_idem_key ` set (payment_intents w0)"
    by (auto simp: InsertPaymentIntent_def Let_def bindE_eq_Inr intent_indexes_def key new_intent_def [of s req d] split: sum.splits)
  with InsertPaymentIntent_Inr [OF w0(2)] w0(1) show ?thesis by simp
qed

lemma create_failed_refuses:
  assumes "GetPaymentIntentByIdempotency SourceStorefront (ck_mode s) (hash_key (ci_IdempotencyKey req)) w = Inl e"
  shows "create_failed s req d err w \<noteq> (Inr x, w')"
proof
  assume "create_failed s req d err w = (Inr x, w')"
  from this [unfolded create_failed_def] obtain a w2 where 2: "payment_intents w2 = payment_intents w"
    "bindS (free_coupon s (pc_ReservationID (df_Pricing d))) (\<lambda>_. conflict_answer s req err) w2 = (Inr x, w')"
    by (rule bind_steady_InrE) (rule inv_intros)
  from 2(2) obtain b w3 where 3: "payment_intents w3 = payment_intents w2" "conflict_answer s req err w3 = (Inr x, w')"
    by (rule bind_steady_InrE) (rule inv_intros)
  from 2(1) 3(1) assms have "GetPaymentIntentByIdempotency SourceStorefront (ck_mode s) (hash_key (ci_IdempotencyKey req)) w3 = Inl e"
    by (simp add: GetPaymentIntentByIdempotency_def intent_row_def)
  with 3(2) show False by (simp add: conflict_answer_def Let_def with_state_def split: if_splits)
qed

text \<open>The answers of a submitted checkout, when its key was new.\<close>

definition asked :: "CheckoutService \<Rightarrow> CreateIntentRequest \<Rightarrow> Draft \<Rightarrow> 'm checkout_db_scheme \<Rightarrow> 'm checkout_db_scheme" where
  "asked s req d w = w\<lparr>qris_calls := qris_calls w @ [QrisCreate (create_input_qris s req d)]\<rparr>"

lemma asked_tables [simp]: "payment_intents (asked s req d w) = payment_intents w" "orders (asked s req d w) = orders w"
  "qris_calls (asked s req d w) = qris_calls w @ [QrisCreate (create_input_qris s req d)]"
  by (simp_all add: asked_def)

lemma ask_provider:
  "bindS (qris_create p (create_input_qris s req d)) f w =
     f (qp_CreateQRIS p (qris_calls w) (create_input_qris s req d)) (asked s req d w)"
  by (simp add: bindS_def qris_create_def asked_def)

lemma submit_Inr:
  assumes run: "submit s req d w = (Inr x, w')"
    and fresh: "GetPaymentIntentByIdempotency SourceStorefront (ck_mode s) (hash_key (ci_IdempotencyKey req)) w = Inl e"
  obtains p w1 where "create_checkout_tx s req d w = (Inr (), w1)" "ck_QRIS s = Some p"
    "provider_answered s req d (qp_CreateQRIS p (qris_calls w1) (create_input_qris s req d)) (asked s req d w1) = (Inr x, w')"
proof -
  from run [unfolded submit_def] obtain r w1 where tx: "with_tx (create_checkout_tx s req d) w = (r, w1)"
    and rest: "(case r of Inl e \<Rightarrow> create_failed s req d e
      | Inr _ \<Rightarrow> (case ck_QRIS s of None \<Rightarrow> throw (internal ''Payment provider unavailable'')
       | Some p \<Rightarrow> bindS (qris_create p (create_input_qris s req d)) (provider_answered s req d))) w1 =
      (Inr x, w')"
    by (rule bind_try_InrE)
  show ?thesis
  proof (cases r)
    case (Inl err)
    with tx with_tx_fail obtain n where w1: "w1 = w\<lparr>next_id := n\<rparr>" by blast
    with fresh have "GetPaymentIntentByIdempotency SourceStorefront (ck_mode s) (hash_key (ci_IdempotencyKey req)) w1 = Inl e"
      by (simp add: GetPaymentIntentByIdempotency_def intent_row_def)
    from create_failed_refuses [OF this] rest Inl show ?thesis by simp
  next
    case (Inr u)
    with tx have tx: "create_checkout_tx s req d w = (Inr (), w1)" by simp
    from Inr rest have rest: "(case ck_QRIS s of None \<Rightarrow> throw (internal ''Payment provider unavailable'')
       | Some p \<Rightarrow> bindS (qris_create p (create_input_qris s req d)) (provider_answered s req d)) w1 =
      (Inr x, w')" by simp
    show ?thesis
    proof (cases "ck_QRIS s")
      case (Some p)
      with rest show ?thesis by (intro that [OF tx Some]) (simp add: ask_provider)
    qed (use rest in simp)
  qed
qed

lemma submit_result:
  assumes run: "submit s req d w = (Inr x, w')"
    and fresh: "GetPaymentIntentByIdempotency SourceStorefront (ck_mode s) (hash_key (ci_IdempotencyKey req)) w = Inl e"
  obtains w1 pi where "create_checkout_tx s req d w = (Inr (), w1)" "x = created_result s req d pi"
    "agreed (new_intent s req d) pi" "qris_calls w' = qris_calls w @ [QrisCreate (create_input_qris s req d)]"
    "grown (payment_intents w1) (or_ID ` set (orders w1)) w'"
proof -
  from run fresh obtain p w1 where tx: "create_checkout_tx s req d w = (Inr (), w1)" and "ck_QRIS s = Some p"
    and rest: "provider_answered s req d (qp_CreateQRIS p (qris_calls w1) (create_input_qris s req d)) (asked s req d w1) = (Inr x, w')"
    by (rule submit_Inr)
  define res where "res = qp_CreateQRIS p (qris_calls w1) (create_input_qris s req d)"
  note rest = rest [folded res_def, unfolded provider_answered_def]
  from create_tx_rows [OF tx] have rows: "payment_intents w1 = payment_intents w @ [default_gateway_columns (new_intent s req d)]"
    and "id_Intent (df_IDs d) \<notin> it_ID ` set (payment_intents w)" by blast+
  then have "it_ID z \<noteq> id_Intent (df_IDs d)" if "z \<in> set (payment_intents w)" for z using that by force
  with rows have "draft_rows s req d (asked s req d w1)" by (auto simp: draft_rows_def)
  then have "\<exists>pi. x = created_result s req d pi \<and> agreed (new_intent s req d) pi"
    using rest provider_failed_result activated_result by (cases res) (auto simp del: not_None_eq)
  moreover have "qris_calls w1 = qris_calls w"
    using keepsD [OF silent_tx [of "qris_calls w"]] with_tx_eq_Inr [of "create_checkout_tx s req d" w "()" w1] tx by blast
  moreover have "qris_calls w' = qris_calls (asked s req d w1)"
    using rest keepsD [OF silent_after_provider(1) _ refl] keepsD [OF silent_after_provider(2) _ refl]
    by (cases res) (simp_all only: sum.case)
  moreover have "grown (payment_intents w1) (or_ID ` set (orders w1)) (asked s req d w1)"
    by (rule grown_more [OF grown_start]) simp_all
  then have "grown (payment_intents w1) (or_ID ` set (orders w1)) w'"
    using rest keepsD [OF keeps_grown_after(1)] keepsD [OF keeps_grown_after(2)] by (cases res) auto
  ultimately show ?thesis using that tx by auto
qed

subsection \<open>A retry gets the same intent\<close>

definition answered :: "CheckoutService \<Rightarrow> CreateIntentRequest \<Rightarrow> Intent \<Rightarrow> 'm checkout_db_scheme \<Rightarrow> bool" where
  "answered s req x w \<longleftrightarrow>
     (\<exists>e. GetPaymentIntentByIdempotency SourceStorefront (ck_mode s) (hash_key (ci_IdempotencyKey req)) w = Inr e \<and>
        it_RequestHash e = request_hash s req \<and> agreed x e \<and> it_OrderID e \<in> or_ID ` set (orders w))"

lemma agreed_fields:
  "agreed x y \<Longrightarrow> intent_idem_key y = intent_idem_key x \<and> it_RequestHash y = it_RequestHash x \<and> it_OrderID y = it_OrderID x \<and>
     it_AmountIDR y = it_AmountIDR x"
  by (simp add: agreed_def intent_terms_def intent_idem_key_def)

lemma find_same:
  assumes "list_all2 agreed v old" and "find (\<lambda>x. intent_idem_key x = k) v = Some x"
  shows "\<exists>y. find (\<lambda>x. intent_idem_key x = k) (old @ new) = Some y \<and> agreed x y"
  using assms by (induction rule: list_all2_induct) (auto split: if_splits dest: agreed_fields)

lemma answered_grown:
  assumes "answered s req x w" and "grown (payment_intents w) (or_ID ` set (orders w)) w'"
  shows "answered s req x w'"
proof -
  let ?k = "(SourceStorefront, ck_mode s, hash_key (ci_IdempotencyKey req))"
  from assms(1) obtain e where e: "find (\<lambda>x. intent_idem_key x = ?k) (payment_intents w) = Some e"
    "it_RequestHash e = request_hash s req" "agreed x e" "it_OrderID e \<in> or_ID ` set (orders w)"
    by (auto simp: answered_def GetPaymentIntentByIdempotency_def intent_row_def opt_row_def agreed_def split: option.splits)
  from assms(2) obtain old new where rows: "payment_intents w' = old @ new" "list_all2 agreed (payment_intents w) old"
    and ids: "or_ID ` set (orders w) \<subseteq> or_ID ` set (orders w')" unfolding grown_def by blast
  from find_same [OF rows(2) e(1)] obtain y where "find (\<lambda>x. intent_idem_key x = ?k) (payment_intents w') = Some y" and y: "agreed e y"
    by (auto simp: rows(1))
  moreover from agreed_fields [OF y] have "it_RequestHash y = it_RequestHash e" "it_OrderID y = it_OrderID e" by blast+
  moreover have "agreed x (mapCheckoutPaymentIntent y)" using e(3) y by (simp add: agreed_def)
  ultimately show ?thesis using e(2,4) ids unfolding answered_def GetPaymentIntentByIdempotency_def intent_row_def
    by (auto simp: opt_row_def)
qed

lemma order_found: "i \<in> or_ID ` set (orders w) \<Longrightarrow> \<exists>ord. GetOrderByID i w = Inr ord"
proof -
  assume "i \<in> or_ID ` set (orders w)"
  then have "find (\<lambda>x. or_ID x = i) (orders w) \<noteq> None" by (auto simp: find_None_iff)
  then show ?thesis by (auto simp: GetOrderByID_def)
qed

lemma answered_replays:
  assumes "answered s req x w" and "create_guards s req = Inr ()"
  shows "\<exists>y. CreateIntent s req w = (Inr y, w) \<and> cx_Replayed y \<and> agreed x (cx_Intent y)"
proof -
  from assms(1) obtain e where
    "GetPaymentIntentByIdempotency SourceStorefront (ck_mode s) (hash_key (ci_IdempotencyKey req)) w = Inr e"
    "it_RequestHash e = request_hash s req" "agreed x e" "it_OrderID e \<in> or_ID ` set (orders w)"
    unfolding answered_def by blast
  moreover from this(4) order_found obtain ord where "GetOrderByID (it_OrderID e) w = Inr ord" by blast
  ultimately show ?thesis using assms(2) by (simp add: CreateIntent_def replay_answer_def with_state_def replayed_intent_def)
qed

lemma bind_quiet_InrE:
  assumes "bindS m f w = (Inr b, w')" and "\<And>v. frames v m"
  obtains a w1 where "m w = (Inr a, w1)" "checkout_tables w1 = checkout_tables w" "f a w1 = (Inr b, w')"
proof -
  from assms(1) obtain a w1 where "m w = (Inr a, w1)" "f a w1 = (Inr b, w')" by (auto simp: bindS_eq_Inr)
  with keepsD [OF assms(2)] that show ?thesis by blast
qed

text \<open>A new checkout that answers went through each of its stages.\<close>

lemma fresh_intent_Inr:
  assumes "fresh_intent s req p merch w = (Inr x, w')"
  obtains ids w1 c w2 fee w3 hold w4 token where
    "checkout_ids w = (Inr ids, w1)"
    "priced s req (id_Order ids) merch (max 0 (ci_TipIDR req)) w1 = (Inr c, w2)"
    "fee_of s (pc_GrossBeforeFee c) w2 = (Inr fee, w3)"
    "stock_hold s req p (id_Order ids) (id_Intent ids) (pc_ReservationID c) w3 = (Inr hold, w4)"
    "checkout_tables w4 = checkout_tables w"
    "submit s req (draft_of ids p c fee hold token (clock w4)) w4 = (Inr x, w')"
proof -
  have token: "\<exists>token. submit s req (d token (clock w4)) w4 = (Inr x, w')"
    if "submit_draft s req ids d w4 = (Inr x, w')" for ids d w4
    using that by (simp add: submit_draft_def with_state_def split: sum.splits if_splits) blast
  from assms obtain ids w1 c w2 fee w3 hold w4 where
    "checkout_ids w = (Inr ids, w1)" "checkout_tables w1 = checkout_tables w"
    "priced s req (id_Order ids) merch (max 0 (ci_TipIDR req)) w1 = (Inr c, w2)" "checkout_tables w2 = checkout_tables w1"
    "fee_of s (pc_GrossBeforeFee c) w2 = (Inr fee, w3)" "checkout_tables w3 = checkout_tables w2"
    "stock_hold s req p (id_Order ids) (id_Intent ids) (pc_ReservationID c) w3 = (Inr hold, w4)"
    "checkout_tables w4 = checkout_tables w3" "submit_draft s req ids (draft_of ids p c fee hold) w4 = (Inr x, w')"
    unfolding fresh_intent_def by (elim bind_quiet_InrE) (rule inv_intros | assumption | rule that)+
  with token that show ?thesis by metis
qed

lemma bind_liftE_Inr: "bindS (liftE r) f w = (Inr b, w') \<Longrightarrow> \<exists>a. r = Inr a \<and> f a w = (Inr b, w')"
  by (cases r) (simp_all add: liftE_def bindS_def)

lemma CreateIntent_Inr:
  assumes "CreateIntent s req w = (Inr x, w')"
  obtains (replay) e ord where "create_guards s req = Inr ()"
      "GetPaymentIntentByIdempotency SourceStorefront (ck_mode s) (hash_key (ci_IdempotencyKey req)) w = Inr e"
      "it_RequestHash e = request_hash s req" "GetOrderByID (it_OrderID e) w = Inr ord"
      "x = replayed_intent e ord (ListOrderItems (it_OrderID e) w)" "w' = w"
    | (fresh) err p merch where "create_guards s req = Inr ()"
      "GetPaymentIntentByIdempotency SourceStorefront (ck_mode s) (hash_key (ci_IdempotencyKey req)) w = Inl err"
      "checkout_product req w = Inr p" "merchandise_price req p = Inr merch" "fresh_intent s req p merch w = (Inr x, w')"
proof -
  let ?found = "GetPaymentIntentByIdempotency SourceStorefront (ck_mode s) (hash_key (ci_IdempotencyKey req)) w"
  from assms have "bindS (liftE (create_guards s req)) (\<lambda>_. case ?found of Inr existing \<Rightarrow> replay_answer s req existing
    | Inl e \<Rightarrow> if \<not> is_not_found e then throw (internal ''Idempotency lookup failed'') else new_checkout s req) w = (Inr x, w')"
    by (simp only: CreateIntent_def with_state_def)
  from bind_liftE_Inr [OF this] have guards: "create_guards s req = Inr ()"
    and rest: "(case ?found of Inr existing \<Rightarrow> replay_answer s req existing
    | Inl e \<Rightarrow> if \<not> is_not_found e then throw (internal ''Idempotency lookup failed'') else new_checkout s req) w = (Inr x, w')"
    by auto
  show ?thesis
  proof (cases ?found)
    case (Inl err)
    with rest have "new_checkout s req w = (Inr x, w')" by (simp split: if_splits)
    then have "bindS (liftE (checkout_product req w)) (\<lambda>p.
      bindS (liftE (merchandise_price req p)) (\<lambda>merch. fresh_intent s req p merch)) w = (Inr x, w')"
      by (simp only: new_checkout_def with_state_def)
    then show ?thesis using fresh [OF guards Inl] by (blast dest: bind_liftE_Inr)
  next
    case (Inr e)
    with rest have run: "replay_answer s req e w = (Inr x, w')" by simp
    then have hash: "it_RequestHash e = request_hash s req" by (simp add: replay_answer_def with_state_def split: if_splits)
    have "\<exists>ord. GetOrderByID (it_OrderID e) w = Inr ord \<and> x = replayed_intent e ord (ListOrderItems (it_OrderID e) w) \<and> w' = w"
      using run hash by (auto simp: replay_answer_def with_state_def split: sum.splits)
    then show ?thesis using replay [OF guards Inr hash] by blast
  qed
qed

lemma create_answers:
  assumes "CreateIntent s req w = (Inr x, w')"
  shows "create_guards s req = Inr () \<and> answered s req (cx_Intent x) w'"
  using assms
proof (cases rule: CreateIntent_Inr)
  case (replay e ord)
  then have "find (\<lambda>y. or_ID y = it_OrderID e) (orders w) = Some ord"
    by (auto simp: GetOrderByID_def opt_row_def split: option.splits)
  from find_Some_mem [OF this] have "it_OrderID e \<in> or_ID ` set (orders w)" by force
  with replay show ?thesis by (auto simp: answered_def replayed_intent_def)
next
  case (fresh err p merch)
  from fresh(5) obtain w4 d where frame: "checkout_tables w4 = checkout_tables w" and run: "submit s req d w4 = (Inr x, w')"
    by (rule fresh_intent_Inr)
  from fresh(2) frame have new: "GetPaymentIntentByIdempotency SourceStorefront (ck_mode s) (hash_key (ci_IdempotencyKey req)) w4 = Inl err"
    by (simp add: GetPaymentIntentByIdempotency_def intent_row_def checkout_tables_def)
  from run new obtain w1 pi where tx: "create_checkout_tx s req d w4 = (Inr (), w1)" and x: "x = created_result s req d pi"
    and pi: "agreed (new_intent s req d) pi" and g: "grown (payment_intents w1) (or_ID ` set (orders w1)) w'"
    by (rule submit_result)
  let ?i = "default_gateway_columns (new_intent s req d)" and ?k = "(SourceStorefront, ck_mode s, hash_key (ci_IdempotencyKey req))"
  have key: "intent_idem_key ?i = ?k" "intent_idem_key (new_intent s req d) = ?k" "it_OrderID ?i = id_Order (df_IDs d)"
    "it_RequestHash ?i = request_hash s req"
    by (simp_all add: intent_idem_key_def default_gateway_columns_def new_intent_def)
  from create_tx_rows [OF tx] have rows: "payment_intents w1 = payment_intents w4 @ [?i]" and ids: "id_Order (df_IDs d) \<in> or_ID ` set (orders w1)"
    and "?k \<notin> intent_idem_key ` set (payment_intents w4)" by (auto simp: key)
  then have "find (\<lambda>x. intent_idem_key x = ?k) (payment_intents w4) = None" by (force simp: find_None_iff)
  then have "find (\<lambda>x. intent_idem_key x = ?k) (payment_intents w1) = Some ?i"
    unfolding rows by (simp add: find_append key)
  moreover from pi have "agreed pi (mapCheckoutPaymentIntent ?i)" by (simp add: agreed_def)
  ultimately have "answered s req pi w1"
    using ids by (simp add: answered_def GetPaymentIntentByIdempotency_def intent_row_def opt_row_def key)
  from answered_grown [OF this g] fresh(1) show ?thesis by (simp add: x created_result_def)
qed


subsection \<open>The price is the server's\<close>

lemma discount_fields:
  "rq_StoreID (r\<lparr>rq_ClientDiscountIDR := d\<rparr>) = rq_StoreID r" "rq_ProductID (r\<lparr>rq_ClientDiscountIDR := d\<rparr>) = rq_ProductID r"
  "rq_OrderID (r\<lparr>rq_ClientDiscountIDR := d\<rparr>) = rq_OrderID r" "rq_TTL (r\<lparr>rq_ClientDiscountIDR := d\<rparr>) = rq_TTL r"
  "rq_IdempotencyKey (r\<lparr>rq_ClientDiscountIDR := d\<rparr>) = rq_IdempotencyKey r"
  "rq_MerchandiseIDR (r\<lparr>rq_ClientDiscountIDR := d\<rparr>) = rq_MerchandiseIDR r" "rq_TipIDR (r\<lparr>rq_ClientDiscountIDR := d\<rparr>) = rq_TipIDR r"
  "rq_UpsellIDR (r\<lparr>rq_ClientDiscountIDR := d\<rparr>) = rq_UpsellIDR r" "rq_CouponCode (r\<lparr>rq_ClientDiscountIDR := d\<rparr>) = rq_CouponCode r"
  "rq_BuyerIdentityHash (r\<lparr>rq_ClientDiscountIDR := d\<rparr>) = rq_BuyerIdentityHash r"
  by simp_all

lemma Reserve_ignores_discount: "Reserve (r\<lparr>rq_ClientDiscountIDR := d\<rparr>) = Reserve r"
  unfolding Reserve_def reserve_tx_def replayed_price_def reserve_checks_def new_reservation_def discount_fields ..

definition client_amounts :: "i64 \<Rightarrow> i64 \<Rightarrow> i64 \<Rightarrow> CreateIntentRequest \<Rightarrow> CreateIntentRequest" where
  "client_amounts a b c req = req\<lparr>ci_ClientUnitPriceIDR := a, ci_ClientTotalIDR := b, ci_ClientDiscountIDR := c\<rparr>"

lemma client_amounts_fields:
  "ci_StoreID (client_amounts a b c req) = ci_StoreID req" "ci_ProductID (client_amounts a b c req) = ci_ProductID req"
  "ci_PayWhatYouWantIDR (client_amounts a b c req) = ci_PayWhatYouWantIDR req" "ci_TipIDR (client_amounts a b c req) = ci_TipIDR req"
  "ci_CouponCode (client_amounts a b c req) = ci_CouponCode req" "ci_BuyerEmail (client_amounts a b c req) = ci_BuyerEmail req"
  "ci_BuyerName (client_amounts a b c req) = ci_BuyerName req" "ci_BuyerUserID (client_amounts a b c req) = ci_BuyerUserID req"
  "ci_BuyerSessionID (client_amounts a b c req) = ci_BuyerSessionID req"
  "ci_BuyerIdentityHash (client_amounts a b c req) = ci_BuyerIdentityHash req"
  "ci_IdempotencyKey (client_amounts a b c req) = ci_IdempotencyKey req"
  "coupon_request (client_amounts a b c req) i m t = (coupon_request req i m t)\<lparr>rq_ClientDiscountIDR := c\<rparr>"
  by (simp_all add: client_amounts_def coupon_request_def buyer_identity_def Let_def)

text \<open>Every definition that reads the request reads it through the other fields.\<close>

lemmas request_readers =
  CreateIntent_def create_guards_def request_hash_def replay_answer_def new_checkout_def checkout_product_def
  merchandise_price_def fresh_intent_def priced_def stock_hold_def stock_request_def submit_draft_def submit_def provider_answered_def
  create_checkout_tx_def idempotency_record_def new_order_def new_order_item_def new_intent_def contact_email_def
  create_failed_def conflict_answer_def create_input_qris_def created_result_def provider_failed_def activated_def finish_created_def

text \<open>
  C6. What the client says an item costs, what the total is and how large its discount is has no
  influence on a checkout: not on the answer, not on a row, and not on what the provider is asked for.
\<close>

theorem client_amounts_ignored:
  "CreateIntent s (req\<lparr>ci_ClientUnitPriceIDR := a, ci_ClientTotalIDR := b, ci_ClientDiscountIDR := c\<rparr>) = CreateIntent s req"
  unfolding client_amounts_def [symmetric]
  unfolding request_readers client_amounts_fields Reserve_ignores_discount ..

lemma checkout_ids_state: "checkout_ids w = (r, w1) \<Longrightarrow> \<exists>n. w1 = w\<lparr>next_id := n\<rparr>"
  by (auto simp: checkout_ids_def bindS_def new_id_def split: prod.splits sum.splits)

lemma priced_without_coupon:
  "trim_space (ci_CouponCode req) = [] \<Longrightarrow> priced s req i m t w = (r, w1) \<Longrightarrow>
     w1 = w \<and> (\<exists>c. r = Inr c \<and> pc_GrossBeforeFee c = wrap64 (m + t) \<and> pc_DiscountIDR c = 0 \<and>
       pc_MerchandiseIDR c = m \<and> pc_TipIDR c = t)"
  by (auto simp: priced_def)

lemma fee_of_Inr:
  assumes "fee_of s gross w = (Inr fee, w1)"
  shows "\<exists>fees policy. ck_Fees s = Some fees \<and> ActivePolicy fees w = Inr policy \<and> CalculateTransactionFee gross policy = Inr (fst fee)"
  using assms
  by (cases "ck_Fees s") (auto simp: fee_of_def with_state_def CalculateTransaction_def bindE_eq_Inr bindS_eq_Inr liftE_def split: if_splits)

lemma sorted_head_mem:
  assumes "(case sort_key f (filter P xs) of [] \<Rightarrow> Inl e | p # _ \<Rightarrow> Inr p) = Inr x"
  shows "x \<in> set xs"
proof -
  from assms obtain ys where "sort_key f (filter P xs) = x # ys" by (cases "sort_key f (filter P xs)") auto
  then have "x \<in> set (sort_key f (filter P xs))" by simp
  then show ?thesis by simp
qed

lemma active_policy_in_range:
  assumes "ActivePolicy fees w = Inr p" and "\<forall>q\<in>set (fee_policies w). policy_in_range q"
  shows "policy_in_range p"
proof (cases "fs_Store fees")
  case True
  with assms(1) have "GetActivePolicy (clock w) w = Inr p"
    by (auto simp: ActivePolicy_def Let_def split: sum.splits if_splits)
  then have "p \<in> set (fee_policies w)"
    unfolding GetActivePolicy_def by (rule sorted_head_mem)
  with assms(2) show ?thesis by simp
next
  case False
  with assms(1) show ?thesis by (auto simp: ActivePolicy_def Let_def split: if_splits)
qed


end
