(* ===== verification/Checkout_Holds.thy ===== *)
theory Checkout_Holds
  imports Checkout_History
begin

text \<open>
  The checkout and the inventory: a checkout that answered owns the unit it promises, and a checkout
  the provider rejected gives its unit back.
\<close>

subsection \<open>Operations that leave the stock alone\<close>

definition stock_tables where
  "stock_tables w = (stock_items w, stock_reservations w)"

abbreviation "unsold v m \<equiv> keeps (\<lambda>w. stock_tables w = v) m"

lemma unsold_new_id [inv_intros]: "unsold v new_id"
  by (rule keeps_new_id) (simp add: stock_tables_def)

lemma unsold_tx: "unsold v m \<Longrightarrow> unsold v (with_tx m)"
  by (rule keeps_with_tx) (simp_all add: stock_tables_def)

lemma unsold_store [inv_intros]:
  "unsold v (AdjustCouponCounters i a b)" "unsold v (InsertCouponReservation r)"
  "unsold v (UpdateCouponReservationState i from to at)" "unsold v (InsertSnapshot sn)"
  "unsold v (UpdateOrderStatus i c d t)" "unsold v (InsertOutbox i e f g h t)" "unsold v (TryInsertIdempotency rec)"
  "unsold v (InsertOrder x)" "unsold v (InsertOrderItem y)" "unsold v (CompleteIdempotency i k rt ri n body)"
  "unsold v (InsertPaymentIntent pi)" "unsold v (ForceUpdatePaymentIntent i to p at)"
  "unsold v (UpdatePaymentIntentStatus i from to p at)" "unsold v (qris_create q inp)"
  by (auto simp: keeps_def stock_tables_def AdjustCouponCounters_def InsertCouponReservation_def UpdateCouponReservationState_def
      InsertSnapshot_def UpdateOrderStatus_def InsertOutbox_def TryInsertIdempotency_def InsertOrder_def InsertOrderItem_def
      CompleteIdempotency_def InsertPaymentIntent_def ForceUpdatePaymentIntent_def UpdatePaymentIntentStatus_def qris_create_def
      update_intent_def Let_def split: option.splits sum.splits if_splits prod.splits)

lemma unsold_coupons [inv_intros]:
  "unsold v (Reserve req)" "unsold v (ReleaseReservation i)" "unsold v (MarkReservationHeldUnknown i)"
  unfolding Reserve_def reserve_tx_def ReleaseReservation_def release_tx_def MarkReservationHeldUnknown_def hold_tx_def Let_def
  by (intro inv_intros unsold_tx keeps_case_sum keeps_case_option)+

lemma unsold_parts [inv_intros]:
  "unsold v (free_coupon s i)" "unsold v (hold_coupon s i)" "unsold v checkout_ids" "unsold v (priced s req oid a b)"
  "unsold v (schedule topic payload dedupe mode at)"
  unfolding free_coupon_def hold_coupon_def checkout_ids_def priced_def schedule_def Let_def
  by (intro inv_intros keeps_case_option)+

lemma unsold_fee_of [inv_intros]: "unsold v (fee_of s gross)"
  unfolding fee_of_def SnapshotTransaction_def by (intro inv_intros keeps_case_option keeps_case_prod)

lemma unsold_create_tx [inv_intros]: "unsold v (with_tx (create_checkout_tx s req d))"
  unfolding create_checkout_tx_def by (intro unsold_tx inv_intros keeps_case_sum)

lemma unsold_activated [inv_intros]: "unsold v (activated s req d created)"
  unfolding activated_def activate_intent_def finish_created_def Let_def by (intro inv_intros keeps_case_sum)

lemma unsold_conflict [inv_intros]: "unsold v (conflict_answer s req e)"
  unfolding conflict_answer_def Let_def by (intro inv_intros keeps_case_sum)

lemma inv_of_tables: "stock_tables v = stock_tables w \<Longrightarrow> inventory_inv v = inventory_inv w"
  by (simp add: stock_tables_def inventory_inv_def stock_abs_def)

subsection \<open>The unit behind a checkout\<close>

definition new_stock_key :: "CreateIntentRequest \<Rightarrow> 'm checkout_db_scheme \<Rightarrow> bool" where
  "new_stock_key req w \<longleftrightarrow>
     GetStockReservationByIdempotency (ci_ProductID req) (''checkout:'' @ ci_IdempotencyKey req) w = Inl ErrNoRows"

text \<open>\<open>owns w0 h w\<close>: the checkout whose hold is \<open>h\<close> took its unit from the state \<open>w0\<close> and still has it in \<open>w\<close>.\<close>

definition owns :: "'m checkout_db_scheme \<Rightarrow> string option \<times> string option \<Rightarrow> 'm checkout_db_scheme \<Rightarrow> bool" where
  "owns w0 h w \<longleftrightarrow> inventory_inv w \<and> (\<exists>r u. h = (Some (sr_ID r), Some u) \<and> r \<in> set (stock_reservations w) \<and>
     sr_Status r = StockReserved \<and> sr_StockItemID r = u \<and> units (stock_items w0) u = Some StatusAvailable \<and>
     units (stock_items w) = (units (stock_items w0))(u \<mapsto> StatusReserved))"

lemma owns_tables: "stock_tables v = stock_tables w \<Longrightarrow> owns w0 h v = owns w0 h w"
proof -
  assume t: "stock_tables v = stock_tables w"
  then have "stock_items v = stock_items w" "stock_reservations v = stock_reservations w" by (simp_all add: stock_tables_def)
  then show ?thesis unfolding owns_def inv_of_tables [OF t] by (simp only:)
qed

lemma reserve_new_key:
  assumes "inventory_inv w" and "new_stock_key req w" and run: "ReserveStock (stock_request req oid iid) w = (Inr x, w')"
  shows "\<not> sx_Replayed x"
proof -
  let ?q = "stock_request req oid iid"
  have key: "GetStockReservationByIdempotency (sq_ProductID ?q) (sq_IdempotencyKey ?q) w = Inl ErrNoRows"
    using assms(2) by (simp add: new_stock_key_def stock_request_def)
  have "complete_stock_request ?q"
    using run by (auto simp: ReserveStock_def complete_stock_request_def split: if_splits)
  from ReserveStock_new [OF this key] run have "with_tx (claim_tx ?q (stock_hold_time ?q)) w = (Inr x, w')" by (simp only:)
  then have claim: "claim_tx ?q (stock_hold_time ?q) w = (Inr x, w')" by simp
  have rows: "stock_rows (stock_items w) (stock_reservations w)" using assms(1) by (simp add: inventory_inv_def)
  from rows claim show ?thesis by (cases rule: claim_tx_Inr) (use key in simp_all)
qed

lemma stock_hold_Inr:
  assumes inv: "inventory_inv w" and key: "new_stock_key req w" and run: "stock_hold s req p oid iid c w = (Inr h, w1)"
  shows "pr_Type p \<noteq> ''code'' \<and> h = (None, None) \<and> w1 = w \<or> pr_Type p = ''code'' \<and> ck_Inventory s \<and> owns w h w1"
proof (cases "pr_Type p = ''code''")
  case True
  with run have inventory: "ck_Inventory s" by (simp add: stock_hold_def split: if_splits)
  from run True inventory obtain r w2 where r: "ReserveStock (stock_request req oid iid) w = (r, w2)"
    and rest: "(case r of Inl e \<Rightarrow> bindS (free_coupon s c) (\<lambda>_. throw e)
       | Inr sres \<Rightarrow> ret (Some (sr_ID (sx_Reservation sres)),
           Some (case sx_Item sres of None \<Rightarrow> [] | Some i \<Rightarrow> si_ID i))) w2 = (Inr h, w1)"
    by (auto simp: stock_hold_def elim: bind_try_InrE)
  show ?thesis
  proof (cases r)
    case (Inr sres)
    with r have run: "ReserveStock (stock_request req oid iid) w = (Inr sres, w2)" by simp
    from hold_taken [OF inv run reserve_new_key [OF inv key run]] obtain i where "inventory_inv w2"
      "sx_Reservation sres \<in> set (stock_reservations w2)" "sr_Status (sx_Reservation sres) = StockReserved"
      "sx_Item sres = Some i" "sr_StockItemID (sx_Reservation sres) = si_ID i"
      "units (stock_items w) (si_ID i) = Some StatusAvailable"
      "units (stock_items w2) = (units (stock_items w))(si_ID i \<mapsto> StatusReserved)" .
    with rest Inr have "owns w h w1" by (auto simp: owns_def)
    with True inventory show ?thesis by simp
  next
    case (Inl e)
    with rest show ?thesis by (auto simp: bindS_eq_Inr)
  qed
qed (use run in \<open>auto simp: stock_hold_def\<close>)

lemma asked_stock [simp]: "stock_tables (asked s req d w) = stock_tables w"
  by (simp add: asked_def stock_tables_def)

lemma unknown_keeps_stock: "outcome_unknown e \<Longrightarrow> unsold v (provider_failed s req d e)"
  unfolding provider_failed_def Let_def by (simp only: if_True) (intro inv_intros)

lemma rejection_is_error: "\<not> outcome_unknown e \<Longrightarrow> provider_failed s req d e w \<noteq> (Inr x, w')"
  unfolding provider_failed_def Let_def by (simp add: bindS_eq_Inr)

lemma submit_keeps_stock:
  assumes run: "submit s req d w = (Inr x, w')"
    and fresh: "GetPaymentIntentByIdempotency SourceStorefront (ck_mode s) (hash_key (ci_IdempotencyKey req)) w = Inl e"
  shows "stock_tables w' = stock_tables w"
proof -
  from run fresh obtain p w1 where tx: "create_checkout_tx s req d w = (Inr (), w1)" and "ck_QRIS s = Some p"
    and rest: "provider_answered s req d (qp_CreateQRIS p (qris_calls w1) (create_input_qris s req d)) (asked s req d w1) = (Inr x, w')"
    by (rule submit_Inr)
  define res where "res = qp_CreateQRIS p (qris_calls w1) (create_input_qris s req d)"
  note rest = rest [folded res_def, unfolded provider_answered_def]
  from tx have "with_tx (create_checkout_tx s req d) w = (Inr (), w1)" by simp
  from keepsD [OF unsold_create_tx this refl] have "stock_tables (asked s req d w1) = stock_tables w" by simp
  moreover have "stock_tables w' = stock_tables (asked s req d w1)"
  proof (cases res)
    case (Inl err)
    with rest have run: "provider_failed s req d err (asked s req d w1) = (Inr x, w')" by simp
    then have "outcome_unknown err" using rejection_is_error by blast
    from keepsD [OF unknown_keeps_stock [OF this] run refl] show ?thesis .
  next
    case (Inr created)
    with rest have run: "activated s req d created (asked s req d w1) = (Inr x, w')" by simp
    from keepsD [OF unsold_activated run refl] show ?thesis .
  qed
  ultimately show ?thesis by simp
qed


subsection \<open>The unit of a rejected checkout\<close>

definition ends :: "(string \<Rightarrow> string option) \<Rightarrow> ('m checkout_db_scheme, 'a) op \<Rightarrow> 'm checkout_db_scheme \<Rightarrow> bool" where
  "ends U m w \<longleftrightarrow> units (stock_items (snd (m w))) = U"

lemma ends_unsold: "(\<And>v. unsold v m) \<Longrightarrow> units (stock_items w) = U \<Longrightarrow> ends U m w"
proof -
  assume m: "\<And>v. unsold v m" and "units (stock_items w) = U"
  obtain r w1 where run: "m w = (r, w1)" by (cases "m w")
  from keepsD [OF m run refl] have "stock_items w1 = stock_items w" by (simp add: stock_tables_def)
  with run \<open>units (stock_items w) = U\<close> show ?thesis by (simp add: ends_def)
qed

lemma ends_bind:
  assumes "\<And>v. unsold v m" and "units (stock_items w) = U"
    and "\<And>a w1. m w = (Inr a, w1) \<Longrightarrow> stock_tables w1 = stock_tables w \<Longrightarrow> ends U (f a) w1"
  shows "ends U (bindS m f) w"
proof (cases "m w")
  case (Pair r w1)
  with keepsD [OF assms(1)] have t: "stock_tables w1 = stock_tables w" by blast
  then have "units (stock_items w1) = U" using assms(2) by (simp add: stock_tables_def)
  with Pair assms(3) [of _ w1] t show ?thesis by (cases r) (simp_all add: ends_def bindS_def)
qed

text \<open>\<open>owes\<close>: what giving the hold back restores.\<close>

definition owes :: "CheckoutService \<Rightarrow> (string \<Rightarrow> string option) \<Rightarrow> string option \<times> string option \<Rightarrow> 'm checkout_db_scheme \<Rightarrow> bool" where
  "owes s U h w \<longleftrightarrow> h = (None, None) \<and> units (stock_items w) = U \<or>
     (\<exists>w0 :: 'm checkout_db_scheme. ck_Inventory s \<and> owns w0 h w \<and> units (stock_items w0) = U)"

lemma owes_tables:
  fixes v w :: "'m checkout_db_scheme"
  assumes "stock_tables v = stock_tables w"
  shows "owes s U h v = owes s U h w"
proof -
  have "owns w0 h v = owns w0 h w" for w0 :: "'m checkout_db_scheme" by (rule owns_tables [OF assms])
  moreover from assms have "stock_items v = stock_items w" by (simp add: stock_tables_def)
  ultimately show ?thesis unfolding owes_def by (simp only:)
qed

lemma free_stock_restores: "owes s U h w \<Longrightarrow> \<exists>w1. free_stock s (fst h) w = (Inr (), w1) \<and> units (stock_items w1) = U"
proof -
  assume "owes s U h w"
  then consider "h = (None, None)" "units (stock_items w) = U"
    | w0 :: "'a checkout_db_scheme" where "ck_Inventory s" "owns w0 h w" "units (stock_items w0) = U" unfolding owes_def by blast
  then show ?thesis
  proof cases
    case (2 w0)
    from 2(2) obtain r where r: "fst h = Some (sr_ID r)" "inventory_inv w" "r \<in> set (stock_reservations w)" "holding (sr_Status r)"
      "units (stock_items w) = (units (stock_items w0))(sr_StockItemID r \<mapsto> StatusReserved)"
      "units (stock_items w0) (sr_StockItemID r) = Some StatusAvailable" unfolding owns_def by auto
    from hold_given_back [OF r(2-6)] obtain r' w2 where "ReleaseStock (sr_ID r) w = (Inr r', w2)" "units (stock_items w2) = units (stock_items w0)"
      by blast
    with r(1) 2(1,3) show ?thesis by (simp add: free_stock_def drop_result_def bindS_def try_op_def)
  qed (simp add: free_stock_def)
qed

lemma ends_after_free:
  assumes "owes s U h w" and "\<And>v. unsold v f"
  shows "ends U (bindS (free_stock s (fst h)) (\<lambda>_. f)) w"
proof -
  from free_stock_restores [OF assms(1)] obtain w1 where w1: "free_stock s (fst h) w = (Inr (), w1)" "units (stock_items w1) = U" by blast
  from ends_unsold [OF assms(2) w1(2)] w1(1) show ?thesis by (simp add: ends_def bindS_def)
qed

lemma ends_submit:
  assumes owes: "owes s U (df_StockReservationID d, k) w" and p: "ck_QRIS s = Some p"
    and rejects: "\<forall>calls inp. \<exists>e. qp_CreateQRIS p calls inp = Inl e \<and> \<not> outcome_unknown e"
  shows "ends U (submit s req d) w"
proof -
  obtain r w1 where tx: "with_tx (create_checkout_tx s req d) w = (r, w1)" by (cases "with_tx (create_checkout_tx s req d) w")
  from keepsD [OF unsold_create_tx tx refl] have t: "stock_tables w1 = stock_tables w" .
  from rejects obtain e where e: "qp_CreateQRIS p (qris_calls w1) (create_input_qris s req d) = Inl e" "\<not> outcome_unknown e" by blast
  have run: "submit s req d w = (case r of Inl e \<Rightarrow> create_failed s req d e w1
      | Inr _ \<Rightarrow> provider_failed s req d e (asked s req d w1))"
    using e(1) by (cases r) (simp_all add: submit_def bindS_def [of "try_op m" for m] try_op_def tx p ask_provider provider_answered_def)
  show ?thesis
  proof (cases r)
    case (Inl err)
    have "ends U (bindS (free_stock s (fst (df_StockReservationID d, k))) (\<lambda>_.
      bindS (free_coupon s (pc_ReservationID (df_Pricing d))) (\<lambda>_. conflict_answer s req err))) w1"
      by (rule ends_after_free) (use owes owes_tables [OF t] in \<open>auto intro!: inv_intros\<close>)
    then show ?thesis unfolding ends_def run by (simp add: Inl create_failed_def)
  next
    case (Inr u)
    have "owes s U (df_StockReservationID d, k) (asked s req d w1)" using owes owes_tables t asked_stock by metis
    then have "ends U (bindS (free_stock s (fst (df_StockReservationID d, k))) (\<lambda>_.
      bindS (free_coupon s (pc_ReservationID (df_Pricing d))) (\<lambda>_.
      bindS (drop_result (ForceUpdatePaymentIntent (id_Intent (df_IDs d)) IntentFailed no_patch (df_Now d))) (\<lambda>_.
      bindS (drop_result (UpdateOrderStatus (id_Order (df_IDs d)) PaymentFailed OrderFailed (df_Now d))) (\<lambda>_.
      throw (apperr_new KindUnavailable ''INTERNAL_ERROR'' ''Payment provider rejected create'')))))) (asked s req d w1)"
      by (rule ends_after_free) (intro inv_intros)
    then show ?thesis unfolding ends_def run by (simp add: Inr provider_failed_def Let_def e(2))
  qed
qed

lemma reserve_refused: "ReserveStock q w = (Inl e, w1) \<Longrightarrow> stock_tables w1 = stock_tables w"
proof -
  assume run: "ReserveStock q w = (Inl e, w1)"
  have tx: "stock_tables w1 = stock_tables w" if "with_tx m w = (Inl e, w1)"
    for m :: "('a inventory_db_scheme, ReserveStockResult) op"
    using with_tx_fail [OF that] by (auto simp: stock_tables_def)
  from run show ?thesis
    by (auto simp: ReserveStock_def Let_def with_state_def split: if_splits sum.splits dest: tx)
qed

lemma stock_hold_refused:
  fixes w :: "'a checkout_db_scheme"
  assumes "stock_hold s req p oid iid c w = (Inl e, w1)"
  shows "stock_tables w1 = stock_tables w"
proof (cases "pr_Type p = ''code'' \<and> ck_Inventory s")
  case True
  obtain r w2 where r: "ReserveStock (stock_request req oid iid) w = (r, w2)" by (cases "ReserveStock (stock_request req oid iid) w")
  show ?thesis
  proof (cases r)
    case (Inl err)
    with assms True r have run: "bindS (free_coupon s c) (\<lambda>_. (throw err :: ('a checkout_db_scheme, string option \<times> string option) op)) w2 = (Inl e, w1)"
      by (simp add: stock_hold_def bindS_def [of "try_op m" for m] try_op_def)
    have "unsold v (bindS (free_coupon s c) (\<lambda>_. (throw err :: ('a checkout_db_scheme, string option \<times> string option) op)))" for v
      by (intro inv_intros)
    from keepsD [OF this run refl] have "stock_tables w1 = stock_tables w2" .
    moreover from r Inl have "stock_tables w2 = stock_tables w" by (simp add: reserve_refused)
    ultimately show ?thesis by simp
  next
    case (Inr x)
    with assms True r show ?thesis by (simp add: stock_hold_def bindS_def try_op_def)
  qed
qed (use assms in \<open>auto simp: stock_hold_def split: if_splits\<close>)

lemma long_order_id:
  assumes "checkout_ids w = (Inr ids, w1)" and "\<forall>n. 10 \<le> length (id_gen w n)"
  shows "10 \<le> length (id_Order ids)"
proof -
  from assms(1) obtain n where "id_Order ids = prefixed ''ord_'' (id_gen w n)"
    by (auto simp: checkout_ids_def bindS_def new_id_def split: prod.splits sum.splits)
  moreover have "length (id_gen w n) \<le> length (prefixed ''ord_'' (id_gen w n))" by (simp add: prefixed_def)
  ultimately show ?thesis using assms(2) by (metis le_trans)
qed

lemma ends_fresh_intent:
  fixes w :: "'a checkout_db_scheme"
  assumes inv: "inventory_inv w" and key: "new_stock_key req w" and p: "ck_QRIS s = Some p"
    and rejects: "\<forall>calls inp. \<exists>e. qp_CreateQRIS p calls inp = Inl e \<and> \<not> outcome_unknown e"
    and tokens: "\<forall>n. \<exists>t. ck_Token s n = Inr t" and ids: "\<forall>n. 10 \<le> length (id_gen w n)"
  shows "ends (units (stock_items w)) (fresh_intent s req q price) w"
  unfolding fresh_intent_def
proof (rule ends_bind)
  fix i and w1 :: "'a checkout_db_scheme" assume run1: "checkout_ids w = (Inr i, w1)" and t1: "stock_tables w1 = stock_tables w"
  show "ends (units (stock_items w)) (bindS (priced s req (id_Order i) price (max 0 (ci_TipIDR req))) (\<lambda>c.
    bindS (fee_of s (pc_GrossBeforeFee c)) (\<lambda>fee.
    bindS (stock_hold s req q (id_Order i) (id_Intent i) (pc_ReservationID c)) (\<lambda>hold.
    submit_draft s req i (draft_of i q c fee hold))))) w1"
  proof (rule ends_bind, rule inv_intros, use t1 in \<open>simp add: stock_tables_def\<close>, rule ends_bind, rule inv_intros,
      use t1 in \<open>simp add: stock_tables_def\<close>)
    fix c fee and w2 w3 :: "'a checkout_db_scheme"
    assume "stock_tables w2 = stock_tables w1" "stock_tables w3 = stock_tables w2"
    with t1 have t3: "stock_tables w3 = stock_tables w" by simp
    then have rows: "stock_items w3 = stock_items w" "stock_reservations w3 = stock_reservations w" by (simp_all add: stock_tables_def)
    from key have key3: "new_stock_key req w3" by (simp add: new_stock_key_def GetStockReservationByIdempotency_def rows)
    from inv inv_of_tables [OF t3] have inv3: "inventory_inv w3" by simp
    show "ends (units (stock_items w)) (bindS (stock_hold s req q (id_Order i) (id_Intent i) (pc_ReservationID c)) (\<lambda>hold.
      submit_draft s req i (draft_of i q c fee hold))) w3"
    proof (cases "stock_hold s req q (id_Order i) (id_Intent i) (pc_ReservationID c) w3")
      case (Pair r w4)
      show ?thesis
      proof (cases r)
        case (Inl e)
        with Pair stock_hold_refused have "stock_tables w4 = stock_tables w3" by blast
        with Pair Inl rows show ?thesis by (simp add: ends_def bindS_def stock_tables_def)
      next
        case (Inr hold)
        from tokens obtain token where token: "ck_Token s (next_id w4) = Inr token" by blast
        let ?d = "draft_of i q c fee hold token (clock w4)"
        from stock_hold_Inr [OF inv3 key3 Pair [unfolded Inr]] rows have "owes s (units (stock_items w)) (df_StockReservationID ?d, snd hold) w4"
          unfolding owes_def by (auto simp: draft_of_def)
        from ends_submit [OF this p rejects] long_order_id [OF run1 ids] token Pair Inr show ?thesis
          by (simp add: ends_def bindS_def submit_draft_def with_state_def)
      qed
    qed
  qed
qed (rule inv_intros, simp)


end
