(* ===== verification/Checkout_World.thy ===== *)
theory Checkout_World
  imports Checkout_Holds Inventory_World
begin

text \<open>
  A shop that sells one account, with a provider that does not answer in time and one that turns
  every request down: the theorems on the checkout are applied to a buyer's request.
\<close>

definition demo_kiosk :: checkout_db where
  "demo_kiosk = \<lparr>id_gen = (\<lambda>n. ''identifier'' @ show_int (int n)), next_id = 0, clock = seconds 1790000000, schema_meta = Map.empty,
     merchants = [''m1''], stores = [(''st1'', ''m1'')], fee_policies = [LaunchFeePolicy], fee_snapshots = [],
     journals = [], entries = [], lots = [], balances = Map.empty, source_balances = Map.empty,
     payment_settlements = Map.empty, bank_accounts = [], withdrawal_locks = [], withdrawal_quotes = [],
     withdrawals = [], allocations = [], payouts = [], products = [demo_goods], merchant_members = [],
     user_roles = [], roles = [], coupons = [], coupon_scopes = [], coupon_reservations = [],
     coupon_redemptions = [], inventory_schemas = [demo_schema], stock_items = [demo_unit], stock_reservations = [],
     stock_reveal_audits = [], orders = [], order_items = [], payment_intents = [], idempotency_records = [],
     outbox_events = [], qris_calls = []\<rparr>"

definition demo_gateway :: "bool \<Rightarrow> QRISProvider" where
  "demo_gateway timeout = \<lparr>qp_CreateQRIS = (\<lambda>calls x. Inl (ProviderError timeout ''no answer'')),
     qp_GetPayment = (\<lambda>calls ref. Inl (ProviderError timeout ''no answer'')),
     qp_ExpirePayment = (\<lambda>calls ref. Inl (ProviderError timeout ''no answer'')), qp_SimulatePay = False\<rparr>"

definition demo_desk :: "bool \<Rightarrow> CheckoutService" where
  "demo_desk timeout = \<lparr>ck_Fees = Some \<lparr>fs_Store = True, fs_IDs = True\<rparr>, ck_Coupons = True, ck_Inventory = True,
     ck_QRIS = Some (demo_gateway timeout), ck_PaymentMode = ModeSandbox, ck_AccountScope = [], ck_PaymentProvider = [],
     ck_PaymentAccountScope = [], ck_SimulateEnabled = False, ck_TokenSecret = ''pepper'', ck_EmergencyDisabled = None,
     ck_Token = (\<lambda>n. Inr (''token'' @ show_int (int n)))\<rparr>"

definition demo_order :: CreateIntentRequest where
  "demo_order = \<lparr>ci_StoreID = ''st1'', ci_ProductID = ''pr_1'', ci_ClientUnitPriceIDR = 1, ci_ClientTotalIDR = 1,
     ci_PayWhatYouWantIDR = 0, ci_TipIDR = 0, ci_UpsellProductIDs = [], ci_CouponCode = [], ci_BuyerEmail = ''a@b.c'',
     ci_BuyerName = ''A'', ci_BuyerUserID = [], ci_BuyerSessionID = [], ci_BuyerIdentityHash = [],
     ci_IdempotencyKey = ''k1'', ci_ClientDiscountIDR = 0\<rparr>"

lemma demo_kiosk_fields [simp]:
  "id_gen demo_kiosk = (\<lambda>n. ''identifier'' @ show_int (int n))" "next_id demo_kiosk = 0" "clock demo_kiosk = seconds 1790000000"
  "merchants demo_kiosk = [''m1'']" "stores demo_kiosk = [(''st1'', ''m1'')]" "fee_policies demo_kiosk = [LaunchFeePolicy]"
  "fee_snapshots demo_kiosk = []" "products demo_kiosk = [demo_goods]" "stock_items demo_kiosk = [demo_unit]"
  "stock_reservations demo_kiosk = []" "orders demo_kiosk = []" "order_items demo_kiosk = []" "payment_intents demo_kiosk = []"
  "idempotency_records demo_kiosk = []" "outbox_events demo_kiosk = []" "qris_calls demo_kiosk = []"
  by (simp_all add: demo_kiosk_def)

lemma demo_order_fields [simp]:
  "ci_StoreID demo_order = ''st1''" "ci_ProductID demo_order = ''pr_1''" "ci_PayWhatYouWantIDR demo_order = 0"
  "ci_TipIDR demo_order = 0" "ci_CouponCode demo_order = []" "ci_IdempotencyKey demo_order = ''k1''"
  "ci_BuyerUserID demo_order = []" "ci_BuyerSessionID demo_order = []"
  by (simp_all add: demo_order_def)

lemma demo_desk_fields [simp]:
  "ck_Fees (demo_desk b) = Some \<lparr>fs_Store = True, fs_IDs = True\<rparr>" "ck_Inventory (demo_desk b)" "ck_QRIS (demo_desk b) = Some (demo_gateway b)"
  "ck_EmergencyDisabled (demo_desk b) = None" "ck_mode (demo_desk b) = ModeSandbox" "ck_Token (demo_desk b) n = Inr (''token'' @ show_int (int n))"
  by (simp_all add: demo_desk_def ck_mode_def)

lemma demo_kiosk_inv: "inventory_inv demo_kiosk"
proof -
  have "inventory_inv demo_kiosk = inventory_inv demo_stocked" by (rule inv_of_tables) (simp add: stock_tables_def)
  with demo_stocked_inv show ?thesis by simp
qed

lemma demo_trims: "trim_space [] = []" "trim_space ''checkout:k1'' = ''checkout:k1''"
  by code_simp+

lemma demo_admitted: "create_guards (demo_desk b) demo_order = Inr ()"
  by (simp add: create_guards_def demo_numbers)

lemma demo_product: "checkout_product demo_order demo_kiosk = Inr demo_goods"
  by (simp add: checkout_product_def CheckoutGetProduct_def get_product_def lookup_or_def CheckoutGetStore_def
      get_store_merchant_def) (simp add: demo_goods_def)

lemma demo_price: "merchandise_price demo_order demo_goods = Inr 50000"
  by (simp add: merchandise_price_def demo_goods_def)

subsection \<open>The stages of the demo order\<close>

definition demo_ids :: CheckoutIDs where
  "demo_ids = \<lparr>id_Order = ''ord_identifier0'', id_Intent = ''pi_identifier1'', id_Item = ''identifier2''\<rparr>"

definition demo_pricing :: Pricing where
  "demo_pricing = \<lparr>pc_ReservationID = None, pc_CouponCode = None, pc_CouponVersion = None, pc_DiscountIDR = 0,
     pc_GrossBeforeFee = 50000, pc_MerchandiseIDR = 50000, pc_TipIDR = 0\<rparr>"

lemma demo_digits: "show_int 2 = ''2''" "show_int 3 = ''3''" "show_int 4 = ''4''" "show_int 5 = ''5''"
  by code_simp+

lemma demo_stage1: "checkout_ids demo_kiosk = (Inr demo_ids, demo_kiosk\<lparr>next_id := 3\<rparr>)"
proof -
  have "Suc (Suc 0) = 2" "Suc (Suc (Suc 0)) = 3" by simp_all
  then show ?thesis
    by (simp add: checkout_ids_def bindS_def new_id_def demo_ids_def prefixed_def demo_numbers demo_digits
        del: One_nat_def)
qed

lemma demo_stage2: "priced (demo_desk b) demo_order i 50000 0 w = (Inr demo_pricing, w)"
  by (simp add: priced_def demo_trims demo_pricing_def i64_bounds)

definition demo_fee :: TransactionFeeResult where
  "demo_fee = \<lparr>tf_GrossIDR = 50000, tf_PercentBps = 300, tf_PercentComponentIDR = 1500, tf_FixedComponentIDR = 700,
     tf_TotalFeeIDR = 2200, tf_NetIDR = 47800,
     tf_Currency = CurrencyIDR, tf_PolicyVersionID = PolicyVersionLaunchV1\<rparr>"

lemma demo_calc: "CalculateTransactionFee 50000 LaunchFeePolicy = Inr demo_fee"
  by (simp add: CalculateTransactionFee_eq_Inr i64_bounds half_up_bps_def demo_fee_def) (simp add: LaunchFeePolicy_def)

definition demo_snapshot :: FeeSnapshot where
  "demo_snapshot = BuildTransactionSnapshot LaunchFeePolicy SourceStorefront demo_fee (seconds 1790000000)\<lparr>sn_ID := ''identifier3''\<rparr>"

definition demo_priced :: checkout_db where
  "demo_priced = demo_kiosk\<lparr>next_id := 4, fee_snapshots := [demo_snapshot]\<rparr>"

lemma demo_stage3: "fee_of (demo_desk b) 50000 (demo_kiosk\<lparr>next_id := 3\<rparr>) =
  (Inr (demo_fee, LaunchFeePolicy, ''identifier3''), demo_priced)"
proof -
  have active: "ActivePolicy \<lparr>fs_Store = True, fs_IDs = True\<rparr> (demo_kiosk\<lparr>next_id := 3\<rparr>) = Inr LaunchFeePolicy"
    by (simp add: ActivePolicy_def GetActivePolicy_def) (simp add: LaunchFeePolicy_def seconds_def)
  have check: "fee_snapshot_check demo_snapshot" "sn_PolicyVersionID demo_snapshot = fp_VersionID LaunchFeePolicy"
    "sn_ID demo_snapshot = ''identifier3''"
    by (simp_all add: fee_snapshot_check_def demo_snapshot_def BuildTransactionSnapshot_def demo_fee_def LaunchFeePolicy_def)
  from check have ins: "InsertSnapshot demo_snapshot (demo_kiosk\<lparr>next_id := 4\<rparr>) = (Inr demo_snapshot, demo_priced)"
    by (simp add: InsertSnapshot_def demo_priced_def)
  have "SnapshotTransaction \<lparr>fs_Store = True, fs_IDs = True\<rparr> SourceStorefront demo_fee LaunchFeePolicy (demo_kiosk\<lparr>next_id := 3\<rparr>) =
      (Inr demo_snapshot, demo_priced)"
    using ins by (simp add: SnapshotTransaction_def bindS_def new_id_def gets_def demo_digits demo_snapshot_def)
  with active check(3) show ?thesis
    by (simp add: fee_of_def with_state_def CalculateTransaction_def demo_calc bindS_def)
qed

definition demo_stock_request :: ReserveStockRequest where
  "demo_stock_request = stock_request demo_order ''ord_identifier0'' ''pi_identifier1''"

definition demo_kept :: checkout_db where
  "demo_kept = hold_granted demo_stock_request demo_unit demo_priced"

lemma demo_priced_fields [simp]:
  "id_gen demo_priced = (\<lambda>n. ''identifier'' @ show_int (int n))" "next_id demo_priced = 4" "clock demo_priced = seconds 1790000000"
  "merchants demo_priced = [''m1'']" "stores demo_priced = [(''st1'', ''m1'')]" "products demo_priced = [demo_goods]"
  "stock_items demo_priced = [demo_unit]" "stock_reservations demo_priced = []" "fee_snapshots demo_priced = [demo_snapshot]"
  "orders demo_priced = []" "order_items demo_priced = []" "payment_intents demo_priced = []" "idempotency_records demo_priced = []"
  by (simp_all add: demo_priced_def)

lemma demo_stage4: "stock_hold (demo_desk b) demo_order demo_goods ''ord_identifier0'' ''pi_identifier1'' None demo_priced =
  (Inr (Some ''identifier4'', Some ''0''), demo_kept)"
proof -
  have inv: "inventory_inv demo_priced"
    using demo_kiosk_inv inv_of_tables [of demo_priced demo_kiosk] by (simp add: stock_tables_def)
  have req: "complete_stock_request demo_stock_request" "sq_StoreID demo_stock_request = ''st1''" "sq_ProductID demo_stock_request = ''pr_1''"
    by (simp_all add: complete_stock_request_def demo_stock_request_def stock_request_def demo_trims)
  have key: "GetStockReservationByIdempotency (sq_ProductID demo_stock_request) (sq_IdempotencyKey demo_stock_request) demo_priced = Inl ErrNoRows"
    by (simp add: GetStockReservationByIdempotency_def)
  have claim: "ClaimAvailableStockItem (sq_StoreID demo_stock_request) (sq_ProductID demo_stock_request) demo_priced = Inr demo_unit"
    by (simp add: ClaimAvailableStockItem_def items_of_def req)
  have "ReserveStock demo_stock_request demo_priced =
    (Inr \<lparr>sx_Reservation = new_stock_reservation demo_stock_request demo_unit (id_gen demo_priced (next_id demo_priced))
       (stock_hold_time demo_stock_request) (clock demo_priced),
       sx_Item = Some (no_payload (demo_unit\<lparr>si_Status := StatusReserved\<rparr>)), sx_Replayed = False\<rparr>, demo_kept)"
    unfolding demo_kept_def by (rule ReserveStock_grants [OF inv req(1) key _ _ _ _ claim]) (simp_all add: req)
  then show ?thesis
    by (simp add: stock_hold_def demo_stock_request_def [symmetric] bindS_def try_op_def new_stock_reservation_def no_payload_def demo_digits)
      (simp add: demo_goods_def)
qed

definition demo_draft :: Draft where
  "demo_draft = draft_of demo_ids demo_goods demo_pricing (demo_fee, LaunchFeePolicy, ''identifier3'')
     (Some ''identifier4'', Some ''0'') ''token5'' (seconds 1790000000)"

lemma demo_kept_fields [simp]:
  "id_gen demo_kept = (\<lambda>n. ''identifier'' @ show_int (int n))" "next_id demo_kept = 5" "clock demo_kept = seconds 1790000000"
  "merchants demo_kept = [''m1'']" "stores demo_kept = [(''st1'', ''m1'')]" "products demo_kept = [demo_goods]"
  "fee_snapshots demo_kept = [demo_snapshot]" "orders demo_kept = []" "order_items demo_kept = []"
  "payment_intents demo_kept = []" "idempotency_records demo_kept = []"
  by (simp_all add: demo_kept_def hold_granted_def)

lemma demo_checks:
  "order_check (new_order (demo_desk b) demo_order demo_draft) = Inr ()"
  "order_item_check (new_order_item demo_order demo_draft) = Inr ()"
  "intent_check (default_gateway_columns (new_intent (demo_desk b) demo_order demo_draft)) = Inr ()"
proof -
  show "order_check (new_order (demo_desk b) demo_order demo_draft) = Inr ()"
    by (simp add: order_check_def new_order_def demo_draft_def draft_of_def demo_pricing_def demo_fee_def demo_ids_def order_number_def
        modes_def)
  show "order_item_check (new_order_item demo_order demo_draft) = Inr ()"
    by (simp add: order_item_check_def new_order_item_def demo_draft_def draft_of_def demo_pricing_def delivery_kind_def i64_bounds)
      (simp add: demo_goods_def)
  show "intent_check (default_gateway_columns (new_intent (demo_desk b) demo_order demo_draft)) = Inr ()"
    by (simp add: intent_check_def default_gateway_columns_def new_intent_def demo_draft_def draft_of_def demo_fee_def paymentProvider_def
        modes_def) (simp add: demo_desk_def)
qed

lemma demo_tx: "\<exists>w1. create_checkout_tx (demo_desk b) demo_order demo_draft demo_kept = (Inr (), w1)"
proof -
  have ids: "or_ID (new_order (demo_desk b) demo_order demo_draft) = ''ord_identifier0''"
    "it_OrderID (new_intent (demo_desk b) demo_order demo_draft) = ''ord_identifier0''"
    "oi_OrderID (new_order_item demo_order demo_draft) = ''ord_identifier0''"
    "or_StoreID (new_order (demo_desk b) demo_order demo_draft) = ''st1''" "or_MerchantID (new_order (demo_desk b) demo_order demo_draft) = ''m1''"
    "it_StoreID (new_intent (demo_desk b) demo_order demo_draft) = ''st1''" "it_MerchantID (new_intent (demo_desk b) demo_order demo_draft) = ''m1''"
    "oi_StoreID (new_order_item demo_order demo_draft) = ''st1''" "oi_MerchantID (new_order_item demo_order demo_draft) = ''m1''"
    "oi_ProductID (new_order_item demo_order demo_draft) = ''pr_1''"
    "it_FeeSnapshotID (new_intent (demo_desk b) demo_order demo_draft) = Some ''identifier3''" "sn_ID demo_snapshot = ''identifier3''"
    by (simp_all add: new_order_def new_intent_def new_order_item_def Let_def demo_draft_def draft_of_def demo_ids_def demo_snapshot_def)
      (simp_all add: demo_goods_def)
  have columns: "it_OrderID (default_gateway_columns i) = it_OrderID i" "it_StoreID (default_gateway_columns i) = it_StoreID i"
    "it_MerchantID (default_gateway_columns i) = it_MerchantID i" "it_FeeSnapshotID (default_gateway_columns i) = it_FeeSnapshotID i" for i
    by (simp_all add: default_gateway_columns_def)
  have rec: "ik_Status (idempotency_record (demo_desk b) demo_order demo_draft i) = ''IN_PROGRESS''"
    "mode_or_null (ik_PaymentMode (idempotency_record (demo_desk b) demo_order demo_draft i))" for i
    by (simp_all add: idempotency_record_def mode_or_null_def modes_def)
  let ?rec = "idempotency_record (demo_desk b) demo_order demo_draft (id_gen demo_kept 5)"
  let ?order = "new_order (demo_desk b) demo_order demo_draft" and ?item = "new_order_item demo_order demo_draft"
    and ?intent = "new_intent (demo_desk b) demo_order demo_draft"
  let ?w0 = "demo_kept\<lparr>next_id := Suc 5\<rparr>"
  let ?w1 = "?w0\<lparr>idempotency_records := [?rec]\<rparr>"
  let ?w2 = "?w1\<lparr>orders := [?order]\<rparr>"
  let ?w3 = "?w2\<lparr>order_items := [?item]\<rparr>"
  let ?w4 = "?w3\<lparr>payment_intents := [default_gateway_columns ?intent]\<rparr>"
  have "new_id demo_kept = (Inr (id_gen demo_kept 5), ?w0)" by (simp add: new_id_def)
  moreover have "TryInsertIdempotency ?rec ?w0 = (Inr True, ?w1)"
    by (simp add: TryInsertIdempotency_def rec first_failure.simps)
  moreover have "InsertOrder ?order ?w1 = (Inr (), ?w2)" by (simp add: InsertOrder_def demo_checks ids first_failure.simps)
  moreover have "InsertOrderItem ?item ?w2 = (Inr (), ?w3)" by (simp add: InsertOrderItem_def demo_checks ids first_failure.simps)
  moreover have "InsertPaymentIntent ?intent ?w3 = (Inr (), ?w4)"
    by (simp add: InsertPaymentIntent_def Let_def demo_checks ids columns intent_indexes_def first_failure.simps)
  ultimately show ?thesis by (simp only: create_checkout_tx_def bindS_def try_op_def prod.case sum.case simp_thms if_False ret_app) simp
qed

text \<open>A provider that does not answer in time leaves an intent with an unknown outcome.\<close>

lemma bind_try_app: "m w = (r, w1) \<Longrightarrow> bindS (try_op m) f w = f r w1"
  by (simp add: bindS_def try_op_def)

lemma drop_answers: "\<exists>w1. drop_result m w = (Inr (), w1)"
  by (cases "m w") (auto simp: drop_result_def bindS_def try_op_def)

lemma hold_answers: "\<exists>w1. hold_coupon s i w = (Inr (), w1)"
proof (cases i)
  case (Some r)
  then show ?thesis using drop_answers [of "MarkReservationHeldUnknown r" w] by (cases "ck_Coupons s") (simp_all add: hold_coupon_def)
qed (simp add: hold_coupon_def)

lemma schedule_answers: "\<exists>w1. schedule a b c e f w = (Inr (), w1)"
proof -
  have step: "\<exists>w1. bindS new_id (\<lambda>i. drop_result (g i)) w = (Inr (), w1)" for g
    unfolding bindS_def new_id_def prod.case sum.case by (rule drop_answers)
  show ?thesis unfolding schedule_def by (rule step)
qed

lemma unknown_answers: "\<exists>x w'. provider_failed s req d (ProviderError True m) w = (Inr x, w') \<and> \<not> cx_Replayed x"
proof -
  let ?force = "ForceUpdatePaymentIntent (id_Intent (df_IDs d)) IntentUnknownOutcome (unknown_patch ''CREATE'' (df_Now d)) (df_Now d)"
  obtain r w1 where 1: "?force w = (r, w1)" by (cases "?force w")
  obtain w2 where 2: "hold_coupon s (pc_ReservationID (df_Pricing d)) w1 = (Inr (), w2)" using hold_answers by blast
  obtain w3 where 3: "schedule ''payment_intent.lookup'' (lookup_payload (id_Intent (df_IDs d)) ''CREATE'')
      (''lookup:'' @ id_Intent (df_IDs d)) (ck_mode s) (df_Now d + DefaultLookupDelay) w2 = (Inr (), w3)" using schedule_answers by blast
  have "outcome_unknown (ProviderError True m)" by (simp add: outcome_unknown_def)
  with 1 2 3 show ?thesis
    unfolding provider_failed_def Let_def by (simp add: bindS_def try_op_def created_result_def)
qed

lemma demo_times_out: "\<exists>x w'. CreateIntent (demo_desk True) demo_order demo_kiosk = (Inr x, w') \<and> \<not> cx_Replayed x"
proof -
  obtain w1 where tx: "create_checkout_tx (demo_desk True) demo_order demo_draft demo_kept = (Inr (), w1)" using demo_tx by blast
  let ?asked = "asked (demo_desk True) demo_order demo_draft w1"
  obtain x w' where answer: "provider_failed (demo_desk True) demo_order demo_draft (ProviderError True ''no answer'') ?asked = (Inr x, w')"
    and new: "\<not> cx_Replayed x" using unknown_answers by blast
  from tx have commits: "with_tx (create_checkout_tx (demo_desk True) demo_order demo_draft) demo_kept = (Inr (), w1)" by simp
  have "submit (demo_desk True) demo_order demo_draft demo_kept = (Inr x, w')"
    unfolding submit_def bind_try_app [where m = "with_tx (create_checkout_tx (demo_desk True) demo_order demo_draft)" and w = demo_kept, OF commits]
    using answer by (simp add: ask_provider provider_answered_def demo_gateway_def)
  then have "fresh_intent (demo_desk True) demo_order demo_goods 50000 demo_kiosk = (Inr x, w')"
    unfolding fresh_intent_def
    by (simp add: bindS_def demo_stage1)
      (simp add: demo_ids_def demo_stage2 demo_pricing_def demo_stage3 demo_stage4 submit_draft_def with_state_def demo_digits
        demo_draft_def)
  then show ?thesis using new
    by (auto simp: CreateIntent_def with_state_def bindS_def liftE_def demo_admitted GetPaymentIntentByIdempotency_def intent_row_def
        opt_row_def is_not_found_def new_checkout_def demo_product demo_price)
qed

subsection \<open>The theorems at work\<close>

lemma demo_new_stock: "new_stock_key demo_order demo_kiosk"
  by (simp add: new_stock_key_def GetStockReservationByIdempotency_def)





definition demo_intent :: Intent where
  "demo_intent = new_intent (demo_desk True) demo_order demo_draft"

theorem intent_follows_status_machine_witness:
  "\<exists>y. row_is y (checkout_run (demo_desk True) [RunTick 60, RunExpire \<lparr>ei_IntentID = ''pi_identifier1'', ei_IdempotencyKey = ''k2'',
       ei_Reason = [], ei_BuyerSessionID = []\<rparr>] (demo_kiosk\<lparr>payment_intents := [demo_intent]\<rparr>)) \<and>
     it_AmountIDR y = 50000 \<and> status_known y"
proof -
  have "row_is demo_intent (demo_kiosk\<lparr>payment_intents := [demo_intent]\<rparr>)" by (simp add: row_is_def)
  moreover have "status_known demo_intent" by (simp add: status_known_def demo_intent_def new_intent_def)
  moreover have "it_AmountIDR demo_intent = 50000"
    by (simp add: demo_intent_def new_intent_def demo_draft_def draft_of_def demo_fee_def)
  ultimately show ?thesis
    using intent_follows_status_machine [of demo_intent "demo_kiosk\<lparr>payment_intents := [demo_intent]\<rparr>" "demo_desk True"
      "[RunTick 60, RunExpire \<lparr>ei_IntentID = ''pi_identifier1'', ei_IdempotencyKey = ''k2'', ei_Reason = [], ei_BuyerSessionID = []\<rparr>]"]
    by (auto simp: intent_terms_def)
qed

end
