(* ===== verification/Spec2Isabelle.thy ===== *)
theory Spec2Isabelle
  imports Prelude Digest Store_Base Money Fees Fee_Seed Ledger Ledger_Store Ledger_Posting Ledger_Service
    Withdrawals Withdrawal_Store Withdrawal_Service Withdrawal_Invariant Withdrawal_Flow Withdrawal_Runs Withdrawal_Replay
    Coupons Shop_Store Coupon_Store Coupon_Service Coupon_Invariant Coupon_History Coupon_Runs
    Json_Text Aead Inventory Inventory_Store Inventory_Service Stock_Spec Inventory_Refines Inventory_Runs
    Inventory_Checkout Inventory_Reveal Inventory_World Json_Value Md5 Payments Payment_Envelopes
    Tokens Checkout_Store Checkout_Service Checkout_Runs Checkout_History Checkout_Holds Checkout_World
begin

text \<open>
  Fersaku backend: verification library (header to follow).
\<close>

end
